(* ===== verification/Prelude.thy ===== *)
theory Prelude
  imports Main "HOL-Library.Word" "HOL-Library.Multiset"
begin

section \<open>Prelude: effects, errors and shared lemmas\<close>

text \<open>
  Shared by every component. A Go function that can fail and that changes state is a
  function from the state to a pair of a result and the new state; the result is a sum,
  \<open>Inl\<close> of the error (or of the panic) or \<open>Inr\<close> of the value. The combinators are plain
  prefix functions, so a handler reads in the order of the source: \<open>require\<close> is a guard
  with an early return, \<open>bindE\<close> is \<open>x, err := f(); if err != nil { return err }\<close> and
  \<open>tryE\<close> is a call whose error the code inspects itself.

  The collection \<open>keeps_intros\<close> holds the rules that push an invariant through the
  combinators; the collection \<open>io_simps\<close> holds their equations.
\<close>

named_theorems io_simps
named_theorems keeps_intros

subsection \<open>Errors\<close>

text \<open>
  gRPC status codes (the ones the source uses), the error classes of the Kubernetes API that
  the source distinguishes, and the error classes of package \<open>os\<close>. \<open>Panic\<close> is a run-time
  panic: it is not an error value of Go, so no handler can inspect it.
\<close>

datatype code =
  InvalidArgument | NotFound | AlreadyExists | ResourceExhausted | FailedPrecondition
| Aborted | OutOfRange | Unimplemented | Internal | Unavailable

datatype api_error = ApiNotFound string | ApiAlreadyExists string | ApiConflict string | ApiOther string

datatype os_error = OsNotExist string | OsExist string | OsOther string

datatype goerr =
  Status code string
| Plain string
| Kube api_error
| Os os_error
| Panic string

fun is_panic :: "goerr \<Rightarrow> bool" where
  "is_panic (Panic _) = True"
| "is_panic _ = False"

fun code_name :: "code \<Rightarrow> string" where
  "code_name InvalidArgument = ''InvalidArgument''"
| "code_name NotFound = ''NotFound''"
| "code_name AlreadyExists = ''AlreadyExists''"
| "code_name ResourceExhausted = ''ResourceExhausted''"
| "code_name FailedPrecondition = ''FailedPrecondition''"
| "code_name Aborted = ''Aborted''"
| "code_name OutOfRange = ''OutOfRange''"
| "code_name Unimplemented = ''Unimplemented''"
| "code_name Internal = ''Internal''"
| "code_name Unavailable = ''Unavailable''"

text \<open>The text \<open>err.Error()\<close>.\<close>

fun api_text :: "api_error \<Rightarrow> string" where
  "api_text (ApiNotFound m) = m"
| "api_text (ApiAlreadyExists m) = m"
| "api_text (ApiConflict m) = m"
| "api_text (ApiOther m) = m"

fun os_text :: "os_error \<Rightarrow> string" where
  "os_text (OsNotExist m) = m"
| "os_text (OsExist m) = m"
| "os_text (OsOther m) = m"

fun err_text :: "goerr \<Rightarrow> string" where
  "err_text (Status c m) = ''rpc error: code = '' @ code_name c @ '' desc = '' @ m"
| "err_text (Plain m) = m"
| "err_text (Kube e) = api_text e"
| "err_text (Os e) = os_text e"
| "err_text (Panic m) = m"

fun is_api_not_found :: "api_error \<Rightarrow> bool" where
  "is_api_not_found (ApiNotFound _) = True"
| "is_api_not_found _ = False"

text \<open>\<open>os.IsNotExist\<close> and \<open>os.IsExist\<close>: false of anything that is not an \<open>os\<close> error.\<close>

fun os_is_not_exist :: "os_error \<Rightarrow> bool" where
  "os_is_not_exist (OsNotExist _) = True"
| "os_is_not_exist _ = False"

fun IsNotExist :: "goerr \<Rightarrow> bool" where
  "IsNotExist (Os e) = os_is_not_exist e"
| "IsNotExist _ = False"

fun IsExist :: "goerr \<Rightarrow> bool" where
  "IsExist (Os (OsExist _)) = True"
| "IsExist _ = False"

subsection \<open>The state and error monad as prefix combinators\<close>

type_synonym ('s, 'a) io = "'s \<Rightarrow> (goerr + 'a) \<times> 's"

definition ret :: "'a \<Rightarrow> ('s, 'a) io" where
  "ret x = (\<lambda>s. (Inr x, s))"

definition fail :: "goerr \<Rightarrow> ('s, 'a) io" where
  "fail e = (\<lambda>s. (Inl e, s))"

definition bindE :: "('s, 'a) io \<Rightarrow> ('a \<Rightarrow> ('s, 'b) io) \<Rightarrow> ('s, 'b) io" where
  "bindE m f = (\<lambda>s. case m s of (Inl e, s') \<Rightarrow> (Inl e, s') | (Inr x, s') \<Rightarrow> f x s')"

text \<open>A call whose error the caller handles; a panic is never handled.\<close>

definition tryE :: "('s, 'a) io \<Rightarrow> (goerr \<Rightarrow> ('s, 'b) io) \<Rightarrow> ('a \<Rightarrow> ('s, 'b) io) \<Rightarrow> ('s, 'b) io" where
  "tryE m h f = (\<lambda>s. case m s of
      (Inl e, s') \<Rightarrow> (if is_panic e then (Inl e, s') else h e s')
    | (Inr x, s') \<Rightarrow> f x s')"

definition require :: "bool \<Rightarrow> goerr \<Rightarrow> ('s, 'a) io \<Rightarrow> ('s, 'a) io" where
  "require b e m = (if b then m else fail e)"

definition mapErr :: "(goerr \<Rightarrow> goerr) \<Rightarrow> ('s, 'a) io \<Rightarrow> ('s, 'a) io" where
  "mapErr g m = tryE m (\<lambda>e. fail (g e)) ret"

definition lift :: "goerr + 'a \<Rightarrow> ('s, 'a) io" where
  "lift r = (\<lambda>s. (r, s))"

definition getS :: "('s \<Rightarrow> 'a) \<Rightarrow> ('s, 'a) io" where
  "getS f = (\<lambda>s. (Inr (f s), s))"

definition modS :: "('s \<Rightarrow> 's) \<Rightarrow> ('s, unit) io" where
  "modS f = (\<lambda>s. (Inr (), f s))"

lemma ret_apply [simp, io_simps]: "ret x s = (Inr x, s)" by (simp add: ret_def)
lemma fail_apply [simp, io_simps]: "fail e s = (Inl e, s)" by (simp add: fail_def)
lemma lift_apply [simp, io_simps]: "lift r s = (r, s)" by (simp add: lift_def)
lemma getS_apply [simp, io_simps]: "getS f s = (Inr (f s), s)" by (simp add: getS_def)
lemma modS_apply [simp, io_simps]: "modS f s = (Inr (), f s)" by (simp add: modS_def)

lemma require_apply [io_simps]: "require b e m s = (if b then m s else (Inl e, s))"
  by (simp add: require_def)

lemma require_True [simp]: "require True e m = m" by (simp add: require_def)
lemma require_False [simp]: "require False e m = fail e" by (simp add: require_def)

lemma bindE_apply [io_simps]:
  "bindE m f s = (case m s of (Inl e, s') \<Rightarrow> (Inl e, s') | (Inr x, s') \<Rightarrow> f x s')"
  by (simp add: bindE_def)

lemma tryE_apply [io_simps]:
  "tryE m h f s = (case m s of
      (Inl e, s') \<Rightarrow> (if is_panic e then (Inl e, s') else h e s') | (Inr x, s') \<Rightarrow> f x s')"
  by (simp add: tryE_def)

lemma bindE_ret [simp]: "bindE (ret x) f = f x" by (simp add: bindE_def)
lemma bindE_fail [simp]: "bindE (fail e) f = fail e" by (simp add: bindE_def fail_def)
lemma bindE_assoc: "bindE (bindE m f) g = bindE m (\<lambda>x. bindE (f x) g)"
  by (rule ext) (auto simp: bindE_def split: prod.splits sum.splits)

lemma bindE_Inr: "m s = (Inr x, s') \<Longrightarrow> bindE m f s = f x s'" by (simp add: bindE_def)
lemma bindE_Inl: "m s = (Inl e, s') \<Longrightarrow> bindE m f s = (Inl e, s')" by (simp add: bindE_def)
lemma tryE_Inr: "m s = (Inr x, s') \<Longrightarrow> tryE m h f s = f x s'" by (simp add: tryE_def)
lemma tryE_Inl: "m s = (Inl e, s') \<Longrightarrow> \<not> is_panic e \<Longrightarrow> tryE m h f s = h e s'"
  by (simp add: tryE_def)

lemma bindE_eq_Inr:
  "bindE m f s = (Inr y, t) \<longleftrightarrow> (\<exists>x s'. m s = (Inr x, s') \<and> f x s' = (Inr y, t))"
  by (auto simp: bindE_def split: prod.splits sum.splits)

lemma require_eq_Inr: "require b e m s = (Inr y, t) \<longleftrightarrow> b \<and> m s = (Inr y, t)"
  by (auto simp: require_def fail_def)

lemma tryE_eq_Inr:
  "tryE m h f s = (Inr y, t) \<longleftrightarrow>
     (\<exists>x s'. m s = (Inr x, s') \<and> f x s' = (Inr y, t)) \<or>
     (\<exists>e s'. m s = (Inl e, s') \<and> \<not> is_panic e \<and> h e s' = (Inr y, t))"
  by (auto simp: tryE_def split: prod.splits sum.splits)

lemmas eq_Inr = bindE_eq_Inr require_eq_Inr tryE_eq_Inr

subsection \<open>Invariants through the combinators\<close>

text \<open>
  \<open>keeps I m\<close>: whatever \<open>m\<close> returns, error and panic included, it keeps \<open>I\<close>.
\<close>

definition keeps :: "('s \<Rightarrow> bool) \<Rightarrow> ('s, 'a) io \<Rightarrow> bool" where
  "keeps I m \<longleftrightarrow> (\<forall>s. I s \<longrightarrow> I (snd (m s)))"

lemma keepsI: "(\<And>s. I s \<Longrightarrow> I (snd (m s))) \<Longrightarrow> keeps I m" by (simp add: keeps_def)
lemma keepsD: "keeps I m \<Longrightarrow> I s \<Longrightarrow> I (snd (m s))" by (simp add: keeps_def)
lemma keepsD_eq: "keeps I m \<Longrightarrow> I s \<Longrightarrow> m s = (r, t) \<Longrightarrow> I t" by (force simp: keeps_def)

lemma keeps_ret [keeps_intros]: "keeps I (ret x)" by (simp add: keeps_def)
lemma keeps_fail [keeps_intros]: "keeps I (fail e)" by (simp add: keeps_def)
lemma keeps_lift [keeps_intros]: "keeps I (lift r)" by (simp add: keeps_def)
lemma keeps_getS [keeps_intros]: "keeps I (getS f)" by (simp add: keeps_def)
lemma keeps_modS: "(\<And>s. I s \<Longrightarrow> I (f s)) \<Longrightarrow> keeps I (modS f)" by (simp add: keeps_def)

lemma keeps_bindE [keeps_intros]:
  "keeps I m \<Longrightarrow> (\<And>x. keeps I (f x)) \<Longrightarrow> keeps I (bindE m f)"
  by (fastforce simp: keeps_def bindE_def split: prod.splits sum.splits)

lemma keeps_tryE [keeps_intros]:
  "keeps I m \<Longrightarrow> (\<And>e. keeps I (h e)) \<Longrightarrow> (\<And>x. keeps I (f x)) \<Longrightarrow> keeps I (tryE m h f)"
  by (fastforce simp: keeps_def tryE_def split: prod.splits sum.splits)

lemma keeps_require [keeps_intros]: "keeps I m \<Longrightarrow> keeps I (require b e m)"
  by (simp add: keeps_def require_def)

lemma keeps_mapErr [keeps_intros]: "keeps I m \<Longrightarrow> keeps I (mapErr g m)"
  by (simp add: mapErr_def keeps_intros)

lemma keeps_if [keeps_intros]:
  "keeps I a \<Longrightarrow> keeps I b \<Longrightarrow> keeps I (if c then a else b)"
  by simp

lemma keeps_case_option [keeps_intros]:
  "keeps I a \<Longrightarrow> (\<And>x. keeps I (b x)) \<Longrightarrow> keeps I (case opt of None \<Rightarrow> a | Some x \<Rightarrow> b x)"
  by (cases opt) simp_all

lemma keeps_Let [keeps_intros]: "(\<And>x. keeps I (f x)) \<Longrightarrow> keeps I (Let v f)"
  by simp

subsection \<open>Invariants together with a fact about the result\<close>

text \<open>
  \<open>hoare I m Q\<close>: from a state with \<open>I\<close>, \<open>m\<close> ends in a state with \<open>I\<close>, on every path, and a
  value it returns satisfies \<open>Q\<close>. The rules follow the combinators.
\<close>

named_theorems hoare_intros

definition hoare :: "('s \<Rightarrow> bool) \<Rightarrow> ('s, 'a) io \<Rightarrow> ('a \<Rightarrow> bool) \<Rightarrow> bool" where
  "hoare I m Q \<longleftrightarrow> (\<forall>s r t. I s \<longrightarrow> m s = (r, t) \<longrightarrow> I t \<and> (\<forall>x. r = Inr x \<longrightarrow> Q x))"

lemma hoareI: "(\<And>s r t. I s \<Longrightarrow> m s = (r, t) \<Longrightarrow> I t \<and> (\<forall>x. r = Inr x \<longrightarrow> Q x)) \<Longrightarrow> hoare I m Q"
  by (simp add: hoare_def)

lemma hoareD: "hoare I m Q \<Longrightarrow> I s \<Longrightarrow> I (snd (m s))"
  by (cases "m s") (auto simp: hoare_def)

lemma hoare_keeps: "hoare I m (\<lambda>_. True) = keeps I m"
  by (auto simp: hoare_def keeps_def) (metis prod.collapse snd_conv)

lemma hoare_weaken: "hoare I m Q \<Longrightarrow> (\<And>x. Q x \<Longrightarrow> Q' x) \<Longrightarrow> hoare I m Q'"
  unfolding hoare_def by blast

lemma hoare_ret [hoare_intros]: "Q x \<Longrightarrow> hoare I (ret x) Q" by (simp add: hoare_def)
lemma hoare_fail [hoare_intros]: "hoare I (fail e) Q" by (simp add: hoare_def)
lemma hoare_lift [hoare_intros]: "(\<And>x. r = Inr x \<Longrightarrow> Q x) \<Longrightarrow> hoare I (lift r) Q"
  by (simp add: hoare_def)

lemma hoare_bindE:
  assumes "hoare I m R" and "\<And>x. R x \<Longrightarrow> hoare I (f x) Q"
  shows "hoare I (bindE m f) Q"
proof (rule hoareI)
  fix s r t assume "I s" and run: "bindE m f s = (r, t)"
  obtain r1 s1 where m: "m s = (r1, s1)" by (cases "m s")
  with \<open>I s\<close> assms(1) have I1: "I s1" and R: "\<And>x. r1 = Inr x \<Longrightarrow> R x" by (auto simp: hoare_def)
  show "I t \<and> (\<forall>x. r = Inr x \<longrightarrow> Q x)"
  proof (cases r1)
    case (Inl e) then show ?thesis using run m I1 by (auto simp: bindE_def)
  next
    case (Inr x)
    then have "f x s1 = (r, t)" using run m by (simp add: bindE_def)
    with assms(2) [OF R [OF Inr]] I1 show ?thesis unfolding hoare_def by blast
  qed
qed

lemma hoare_tryE:
  assumes "hoare I m R" and "\<And>e. hoare I (h e) Q" and "\<And>x. R x \<Longrightarrow> hoare I (f x) Q"
  shows "hoare I (tryE m h f) Q"
proof (rule hoareI)
  fix s r t assume "I s" and run: "tryE m h f s = (r, t)"
  obtain r1 s1 where m: "m s = (r1, s1)" by (cases "m s")
  with \<open>I s\<close> assms(1) have I1: "I s1" and R: "\<And>x. r1 = Inr x \<Longrightarrow> R x" by (auto simp: hoare_def)
  show "I t \<and> (\<forall>x. r = Inr x \<longrightarrow> Q x)"
  proof (cases r1)
    case (Inl e)
    show ?thesis
    proof (cases "is_panic e")
      case True then show ?thesis using run m I1 Inl by (auto simp: tryE_def)
    next
      case False
      then have "h e s1 = (r, t)" using run m Inl by (simp add: tryE_def)
      with assms(2) I1 show ?thesis unfolding hoare_def by blast
    qed
  next
    case (Inr x)
    then have "f x s1 = (r, t)" using run m by (simp add: tryE_def)
    with assms(3) [OF R [OF Inr]] I1 show ?thesis unfolding hoare_def by blast
  qed
qed

lemma hoare_require [hoare_intros]: "(b \<Longrightarrow> hoare I m Q) \<Longrightarrow> hoare I (require b e m) Q"
  by (cases b) (simp_all add: hoare_fail)

lemma hoare_if [hoare_intros]:
  "(c \<Longrightarrow> hoare I a Q) \<Longrightarrow> (\<not> c \<Longrightarrow> hoare I b Q) \<Longrightarrow> hoare I (if c then a else b) Q"
  by simp

lemma hoare_Let [hoare_intros]: "(\<And>x. x = v \<Longrightarrow> hoare I (f x) Q) \<Longrightarrow> hoare I (Let v f) Q"
  by simp

lemma hoare_option [hoare_intros]:
  "(opt = None \<Longrightarrow> hoare I a Q) \<Longrightarrow> (\<And>x. opt = Some x \<Longrightarrow> hoare I (b x) Q) \<Longrightarrow>
     hoare I (case opt of None \<Rightarrow> a | Some x \<Rightarrow> b x) Q"
  by (cases opt) simp_all

lemma hoare_prod [hoare_intros]:
  "(\<And>x y. p = (x, y) \<Longrightarrow> hoare I (f x y) Q) \<Longrightarrow> hoare I (case p of (x, y) \<Rightarrow> f x y) Q"
  by (cases p) simp

lemma hoare_sum [hoare_intros]:
  "(\<And>x. v = Inl x \<Longrightarrow> hoare I (f x) Q) \<Longrightarrow> (\<And>y. v = Inr y \<Longrightarrow> hoare I (g y) Q) \<Longrightarrow>
     hoare I (case v of Inl x \<Rightarrow> f x | Inr y \<Rightarrow> g y) Q"
  by (cases v) simp_all

text \<open>Rules for a call of which only the invariant is known.\<close>

lemma hoare_bindE_keeps: "keeps I m \<Longrightarrow> (\<And>x. hoare I (f x) Q) \<Longrightarrow> hoare I (bindE m f) Q"
  by (rule hoare_bindE [where R = "\<lambda>_. True"]) (simp_all add: hoare_keeps)

lemma hoare_tryE_keeps:
  "keeps I m \<Longrightarrow> (\<And>e. hoare I (h e) Q) \<Longrightarrow> (\<And>x. hoare I (f x) Q) \<Longrightarrow> hoare I (tryE m h f) Q"
  by (rule hoare_tryE [where R = "\<lambda>_. True"]) (simp_all add: hoare_keeps)

lemma keeps_hoare: "keeps I m \<Longrightarrow> hoare I m (\<lambda>_. True)"
  by (simp add: hoare_keeps)

lemma keeps_case_prod [keeps_intros]:
  "(\<And>x y. keeps I (f x y)) \<Longrightarrow> keeps I (case p of (x, y) \<Rightarrow> f x y)"
  by (cases p) simp

lemma keeps_case_sum [keeps_intros]:
  "(\<And>x. keeps I (f x)) \<Longrightarrow> (\<And>y. keeps I (g y)) \<Longrightarrow> keeps I (case v of Inl x \<Rightarrow> f x | Inr y \<Rightarrow> g y)"
  by (cases v) simp_all

subsection \<open>Inevitable states\<close>

text \<open>On every path of a step relation, as long as there is a step, a state of \<open>P\<close> comes.\<close>

inductive inevitably :: "('s \<Rightarrow> 's \<Rightarrow> bool) \<Rightarrow> ('s \<Rightarrow> bool) \<Rightarrow> 's \<Rightarrow> bool" for st P where
  now: "P s \<Longrightarrow> inevitably st P s"
| later: "st s t \<Longrightarrow> (\<And>t. st s t \<Longrightarrow> inevitably st P t) \<Longrightarrow> inevitably st P s"

text \<open>It comes if each step before it keeps \<open>J\<close> and decreases a measure, and there is always one.\<close>

lemma inevitably_measure:
  fixes f :: "'s \<Rightarrow> nat"
  assumes "J s" and "\<And>s. J s \<Longrightarrow> \<not> P s \<Longrightarrow> \<exists>t. st s t"
    and "\<And>s t. J s \<Longrightarrow> \<not> P s \<Longrightarrow> st s t \<Longrightarrow> J t \<and> f t < f s"
  shows "inevitably st P s"
  using assms(1)
proof (induction "f s" arbitrary: s rule: less_induct)
  case less
  show ?case
  proof (cases "P s")
    case False
    then obtain t where "st s t" using assms(2) less.prems by blast
    moreover have "inevitably st P u" if "st s u" for u
      using assms(3) [OF less.prems False that] less.hyps by blast
    ultimately show ?thesis by (rule inevitably.later)
  qed (rule inevitably.now)
qed

lemma inevitably_mono: "inevitably st P s \<Longrightarrow> (\<And>s. P s \<Longrightarrow> Q s) \<Longrightarrow> inevitably st Q s"
  by (induction rule: inevitably.induct) (auto intro: inevitably.intros)

end
