(* ===== verification/GoStd.thy ===== *)
theory GoStd
  imports Prelude "HOL-Library.Char_ord" "HOL-Library.List_Lexorder"
begin

section \<open>What the sources use of Go's standard library\<close>

text \<open>
  Machine integers (\<open>int64\<close>, \<open>int32\<close> as words read by \<open>sint\<close>, so that \<open>+\<close> wraps around),
  decimal printing and the parsers of package \<open>strconv\<close>, the string functions the sources
  call, and \<open>filepath.Clean\<close> / \<open>filepath.Join\<close> (Unix). Go strings are byte strings:
  \<open>string\<close> is \<open>char list\<close> and a \<open>char\<close> is a byte; \<open><\<close> on strings is the bytewise
  lexicographic order, as in Go.
\<close>

type_synonym int64 = "64 word"
type_synonym int32 = "32 word"

subsection \<open>Signed arithmetic\<close>

definition lt64 :: "int64 \<Rightarrow> int64 \<Rightarrow> bool" where "lt64 a b \<longleftrightarrow> sint a < sint b"
definition le64 :: "int64 \<Rightarrow> int64 \<Rightarrow> bool" where "le64 a b \<longleftrightarrow> sint a \<le> sint b"

lemma sint64_lower: "- (2 ^ 63) \<le> sint (a :: int64)"
  using sint_ge [of a] by simp

lemma sint64_upper: "sint (a :: int64) < 2 ^ 63"
  using sint_lt [of a] by simp

lemma signed_take_bit64_small: "- (2 ^ 63) \<le> x \<Longrightarrow> x < 2 ^ 63 \<Longrightarrow> signed_take_bit 63 x = (x :: int)"
  by (rule signed_take_bit_int_eq_self) simp_all

lemma sint64_add:
  "- (2 ^ 63) \<le> sint a + sint b \<Longrightarrow> sint a + sint b < 2 ^ 63 \<Longrightarrow>
     sint (a + b :: int64) = sint a + sint b"
  by (simp add: sint_word_ariths signed_take_bit64_small)

lemma sint64_diff:
  "- (2 ^ 63) \<le> sint a - sint b \<Longrightarrow> sint a - sint b < 2 ^ 63 \<Longrightarrow>
     sint (a - b :: int64) = sint a - sint b"
  by (simp add: sint_word_ariths signed_take_bit64_small)

lemma sint64_of_int: "- (2 ^ 63) \<le> x \<Longrightarrow> x < 2 ^ 63 \<Longrightarrow> sint (word_of_int x :: int64) = x"
  by (simp add: signed_take_bit64_small signed_of_int)

lemma sint32_of_int: "- (2 ^ 31) \<le> x \<Longrightarrow> x < 2 ^ 31 \<Longrightarrow> sint (word_of_int x :: int32) = x"
  by (simp add: signed_of_int signed_take_bit_int_eq_self)

text \<open>Go's integer division truncates towards zero.\<close>

definition quot64 :: "int64 \<Rightarrow> int64 \<Rightarrow> int64" where
  "quot64 a b = word_of_int (sgn (sint a) * sgn (sint b) * (\<bar>sint a\<bar> div \<bar>sint b\<bar>))"

subsection \<open>Decimal printing and parsing\<close>

fun nat_digits :: "nat \<Rightarrow> string" where
  "nat_digits n =
     (if n < 10 then [char_of (48 + n)] else nat_digits (n div 10) @ [char_of (48 + n mod 10)])"

declare nat_digits.simps [simp del]

definition itoa :: "int \<Rightarrow> string" where
  "itoa i = (if i < 0 then CHR ''-'' # nat_digits (nat (- i)) else nat_digits (nat i))"

definition digit_of :: "char \<Rightarrow> nat option" where
  "digit_of c = (let n = of_char c in if 48 \<le> n \<and> n \<le> 57 then Some (n - 48) else None)"

definition is_digit :: "char \<Rightarrow> bool" where
  "is_digit c \<longleftrightarrow> digit_of c \<noteq> None"

fun dec_val :: "nat \<Rightarrow> string \<Rightarrow> nat option" where
  "dec_val a [] = Some a"
| "dec_val a (c # cs) = (case digit_of c of None \<Rightarrow> None | Some d \<Rightarrow> dec_val (10 * a + d) cs)"

lemma digit_of_char_of [simp]: "(d :: nat) < 10 \<Longrightarrow> digit_of (char_of (48 + d)) = Some d"
  by (simp add: digit_of_def of_char_of)

lemma is_digit_char_of [simp]: "(d :: nat) < 10 \<Longrightarrow> is_digit (char_of (48 + d))"
  by (simp add: is_digit_def)

lemma nat_digits_ne [simp]: "nat_digits n \<noteq> []"
  by (subst nat_digits.simps) simp

lemma nat_digits_is_digit: "c \<in> set (nat_digits n) \<Longrightarrow> is_digit c"
proof (induction n rule: nat_digits.induct)
  case (1 n)
  then show ?case by (subst (asm) (2) nat_digits.simps) (auto split: if_splits)
qed

lemma dec_val_append: "dec_val a (xs @ ys) = (case dec_val a xs of None \<Rightarrow> None | Some b \<Rightarrow> dec_val b ys)"
  by (induction xs arbitrary: a) (auto split: option.splits)

lemma dec_val_nat_digits: "dec_val 0 (nat_digits n) = Some n"
proof (induction n rule: nat_digits.induct)
  case (1 n)
  show ?case
  proof (cases "n < 10")
    case True then show ?thesis by (subst nat_digits.simps) simp
  next
    case False
    with 1 show ?thesis by (subst nat_digits.simps) (simp add: dec_val_append)
  qed
qed

lemma nat_digits_hd: "is_digit (hd (nat_digits n))"
  by (rule nat_digits_is_digit [of _ n]) simp

lemma nat_digits_inj: "nat_digits m = nat_digits n \<Longrightarrow> m = n"
  by (metis dec_val_nat_digits option.inject)

lemma nat_digits_no_lead_zero: "hd (nat_digits n) = CHR ''0'' \<Longrightarrow> length (nat_digits n) = 1"
proof (induction n rule: nat_digits.induct)
  case (1 n)
  show ?case
  proof (cases "n < 10")
    case True then show ?thesis by (subst nat_digits.simps) simp
  next
    case False
    then have eq: "nat_digits n = nat_digits (n div 10) @ [char_of (48 + n mod 10)]"
      by (subst nat_digits.simps) simp
    with 1 False have one: "length (nat_digits (n div 10)) = 1" and
      hd0: "hd (nat_digits (n div 10)) = CHR ''0''" by auto
    then have "nat_digits (n div 10) = [CHR ''0'']" by (cases "nat_digits (n div 10)") auto
    then have "n div 10 = 0" using dec_val_nat_digits [of "n div 10"] by (simp add: digit_of_def)
    with False show ?thesis by simp
  qed
qed

lemma is_digit_minus [simp]: "\<not> is_digit (CHR ''-'')" "\<not> is_digit (CHR ''+'')"
  by (simp_all add: is_digit_def digit_of_def)

text \<open>\<open>strconv.ParseUint(s, 10, 32)\<close> and \<open>strconv.ParseInt(s, 10, 32)\<close>: \<open>None\<close> on a syntax or
  range error. Base 10 is explicit, so underscores are syntax errors.\<close>

definition ParseUint32 :: "string \<Rightarrow> nat option" where
  "ParseUint32 s = (if s = [] then None else case dec_val 0 s of None \<Rightarrow> None
     | Some n \<Rightarrow> if n < 2 ^ 32 then Some n else None)"

definition ParseInt32 :: "string \<Rightarrow> int option" where
  "ParseInt32 s =
     (let (neg, t) = (case s of c # cs \<Rightarrow> if c = CHR ''-'' then (True, cs)
                         else if c = CHR ''+'' then (False, cs) else (False, s) | [] \<Rightarrow> (False, []))
      in if t = [] then None else case dec_val 0 t of None \<Rightarrow> None
         | Some n \<Rightarrow> if neg then (if n \<le> 2 ^ 31 then Some (- int n) else None)
                     else if n < 2 ^ 31 then Some (int n) else None)"

definition ParseBool :: "string \<Rightarrow> bool option" where
  "ParseBool s =
     (if s \<in> {''1'', ''t'', ''T'', ''TRUE'', ''true'', ''True''} then Some True
      else if s \<in> {''0'', ''f'', ''F'', ''FALSE'', ''false'', ''False''} then Some False
      else None)"

lemma ParseUint32_itoa: "n < 2 ^ 32 \<Longrightarrow> ParseUint32 (nat_digits n) = Some n"
  by (simp add: ParseUint32_def dec_val_nat_digits)

lemma ParseInt32_nat_digits:
  assumes "n < 2 ^ 31"
  shows "ParseInt32 (nat_digits n) = Some (int n)"
proof -
  obtain c cs where nd: "nat_digits n = c # cs" by (cases "nat_digits n") auto
  with nat_digits_hd [of n] have "c \<noteq> CHR ''-''" "c \<noteq> CHR ''+''" by auto
  moreover have "dec_val 0 (c # cs) = Some n" using dec_val_nat_digits [of n] nd by simp
  ultimately show ?thesis using assms by (simp add: ParseInt32_def nd del: dec_val.simps)
qed

subsection \<open>Strings\<close>

definition HasPrefix :: "string \<Rightarrow> string \<Rightarrow> bool" where
  "HasPrefix s p \<longleftrightarrow> take (length p) s = p"

fun Contains :: "string \<Rightarrow> string \<Rightarrow> bool" where
  "Contains [] p = (p = [])"
| "Contains (c # cs) p = (HasPrefix (c # cs) p \<or> Contains cs p)"

definition to_lower_char :: "char \<Rightarrow> char" where
  "to_lower_char c = (let n = of_char c in if 65 \<le> n \<and> n \<le> (90 :: nat) then char_of (n + 32) else c)"

definition ToLower :: "string \<Rightarrow> string" where
  "ToLower s = map to_lower_char s"

text \<open>\<open>strings.SplitN(s, sep, 2)\<close>: the parts before and after the first separator, or \<open>None\<close>
  when there is one part only.\<close>

fun split2 :: "string \<Rightarrow> string \<Rightarrow> (string \<times> string) option" where
  "split2 [] sep = None"
| "split2 (c # cs) sep =
     (if HasPrefix (c # cs) sep then Some ([], drop (length sep) (c # cs))
      else map_option (\<lambda>(a, b). (c # a, b)) (split2 cs sep))"

text \<open>\<open>strings.Split\<close> with a separator of one byte.\<close>

fun split_char :: "char \<Rightarrow> string \<Rightarrow> string list" where
  "split_char sep [] = [[]]"
| "split_char sep (c # cs) =
     (if c = sep then [] # split_char sep cs
      else case split_char sep cs of [] \<Rightarrow> [[c]] | w # ws \<Rightarrow> (c # w) # ws)"

fun join_with :: "string \<Rightarrow> string list \<Rightarrow> string" where
  "join_with sep [] = []"
| "join_with sep [x] = x"
| "join_with sep (x # y # xs) = x @ sep @ join_with sep (y # xs)"

definition is_space :: "char \<Rightarrow> bool" where
  "is_space c \<longleftrightarrow> of_char c \<in> {9, 10, 11, 12, 13, 32 :: nat}"

definition TrimSpace :: "string \<Rightarrow> string" where
  "TrimSpace s = rev (dropWhile is_space (rev (dropWhile is_space s)))"

lemma split_char_ne [simp]: "split_char sep s \<noteq> []"
  by (induction s) (auto split: list.splits)

lemma split_char_no_sep: "sep \<notin> set s \<Longrightarrow> split_char sep s = [s]"
  by (induction s) auto

lemma split_char_app: "sep \<notin> set a \<Longrightarrow> split_char sep (a @ sep # b) = a # split_char sep b"
  by (induction a) auto

lemma join_split_char: "join_with [sep] (split_char sep s) = s"
proof (induction s)
  case (Cons c s)
  then show ?case
    by (cases "split_char sep s"; cases "tl (split_char sep s)") (auto simp: neq_Nil_conv)
qed simp

text \<open>The text of a slice of strings under \<open>%v\<close>.\<close>

definition fmt_strings :: "string list \<Rightarrow> string" where
  "fmt_strings xs = ''['' @ join_with '' '' xs @ '']''"

definition fmt_bool :: "bool \<Rightarrow> string" where
  "fmt_bool b = (if b then ''true'' else ''false'')"

definition dquote :: "string \<Rightarrow> string" where
  "dquote s = CHR 0x22 # s @ [CHR 0x22]"

subsection \<open>Package \<open>path/filepath\<close> on Unix\<close>

text \<open>
  \<open>clean_elems rooted stack elems\<close>: the lexical processing of \<open>Clean\<close>; the stack is the
  output so far, last element first.
\<close>

fun clean_elems :: "bool \<Rightarrow> string list \<Rightarrow> string list \<Rightarrow> string list" where
  "clean_elems rooted out [] = rev out"
| "clean_elems rooted out (e # es) =
     (if e = [] \<or> e = ''.'' then clean_elems rooted out es
      else if e = ''..'' then
        (case out of
           [] \<Rightarrow> clean_elems rooted (if rooted then [] else [''..'']) es
         | p # out' \<Rightarrow> if p = ''..'' then clean_elems rooted (''..'' # out) es
                       else clean_elems rooted out' es)
      else clean_elems rooted (e # out) es)"

definition Clean :: "string \<Rightarrow> string" where
  "Clean p =
     (let rooted = HasPrefix p ''/'';
          es = clean_elems rooted [] (split_char (CHR ''/'') p)
      in if rooted then CHR ''/'' # join_with ''/'' es
         else if es = [] then ''.'' else join_with ''/'' es)"

definition Join :: "string list \<Rightarrow> string" where
  "Join es = (let ne = dropWhile (\<lambda>e. e = []) es in
     if ne = [] then [] else Clean (join_with ''/'' ne))"

text \<open>Joining one plain element to a rooted directory stays in that directory.\<close>

definition plain_elem :: "string \<Rightarrow> bool" where
  "plain_elem e \<longleftrightarrow> e \<noteq> [] \<and> e \<noteq> ''.'' \<and> e \<noteq> ''..'' \<and> CHR ''/'' \<notin> set e"

lemma clean_elems_snoc: "plain_elem e \<Longrightarrow> clean_elems rooted out (xs @ [e]) = clean_elems rooted out xs @ [e]"
  by (induction rooted out xs rule: clean_elems.induct) (auto simp: plain_elem_def split: list.split)

lemma clean_elems_ne: "[] \<notin> set out \<Longrightarrow> [] \<notin> set (clean_elems rooted out xs)"
  by (induction rooted out xs rule: clean_elems.induct) (auto split: list.split)

lemma split_char_append: "split_char sep (a @ sep # b) = split_char sep a @ split_char sep b"
  by (induction a) (auto split: list.split)

lemma join_with_snoc: "join_with sep (xs @ [y]) = (if xs = [] then y else join_with sep xs @ sep @ y)"
  by (induction sep xs rule: join_with.induct) auto

lemma join_with_eq_Nil: "[] \<notin> set xs \<Longrightarrow> join_with sep xs = [] \<longleftrightarrow> xs = []"
  by (induction sep xs rule: join_with.induct) auto

lemma Join_plain:
  assumes "HasPrefix dir ''/''" "plain_elem e"
  shows "Join [dir, e] = (if Clean dir = ''/'' then ''/'' else Clean dir @ ''/'') @ e"
proof -
  obtain d where dir: "dir = CHR ''/'' # d" using assms(1) by (cases dir) (auto simp: HasPrefix_def)
  let ?es = "clean_elems True [] (split_char (CHR ''/'') dir)"
  have sp: "split_char (CHR ''/'') (dir @ CHR ''/'' # e) = split_char (CHR ''/'') dir @ [e]"
    using assms(2) by (simp add: split_char_append split_char_no_sep plain_elem_def)
  have "Join [dir, e] = CHR ''/'' # join_with ''/'' (?es @ [e])"
    using dir sp clean_elems_snoc [OF assms(2), of True "[]"]
    by (simp add: Join_def Clean_def HasPrefix_def Let_def)
  moreover have "Clean dir = CHR ''/'' # join_with ''/'' ?es"
    using dir by (simp add: Clean_def HasPrefix_def Let_def)
  moreover have "join_with ''/'' ?es = [] \<longleftrightarrow> ?es = []" by (rule join_with_eq_Nil) (simp add: clean_elems_ne)
  ultimately show ?thesis by (simp add: join_with_snoc)
qed

subsection \<open>Slices\<close>

text \<open>Reading a slice element panics out of range.\<close>

definition go_index :: "'a list \<Rightarrow> int \<Rightarrow> goerr + 'a" where
  "go_index xs i = (if 0 \<le> i \<and> i < int (length xs) then Inr (xs ! nat i)
     else Inl (Panic ''index out of range''))"

end
