(* ===== verification/GoJson.thy ===== *)
theory GoJson
  imports GoStd
begin

section \<open>JSON text as \<open>encoding/json\<close> writes and reads it\<close>

text \<open>
  The driver keeps its state as a JSON text in a ConfigMap. \<open>jtext\<close> is the compact text that
  \<open>json.Marshal\<close> produces from a value, \<open>json_parse\<close> reads a text back (with the white space
  and the escapes JSON allows). Numbers are integers: the state has no other. The main result
  is \<open>json_parse_text\<close>: reading what was written gives the value, for every value.
  Bytes from 0x80 up are copied as they are, which is what Go does with valid UTF-8 (all
  strings of a protobuf message are valid UTF-8), apart from U+2028 and U+2029, which Go
  writes as escapes that read back as the same bytes.
\<close>

datatype json =
  JNull
| JBool bool
| JInt int
| JStr string
| JArr "json list"
| JObj "(string \<times> json) list"

subsection \<open>Writing\<close>

definition hex_digit :: "nat \<Rightarrow> char" where
  "hex_digit n = (if n < 10 then char_of (48 + n) else char_of (87 + n))"

definition json_esc :: "char \<Rightarrow> string" where
  "json_esc c =
     (let n = (of_char c :: nat) in
      if n = 0x22 then [CHR 0x5C, CHR 0x22]
      else if n = 0x5C then [CHR 0x5C, CHR 0x5C]
      else if n = 8 then [CHR 0x5C, CHR ''b'']
      else if n = 12 then [CHR 0x5C, CHR ''f'']
      else if n = 10 then [CHR 0x5C, CHR ''n'']
      else if n = 13 then [CHR 0x5C, CHR ''r'']
      else if n = 9 then [CHR 0x5C, CHR ''t'']
      else if n < 0x20 \<or> n = 0x3C \<or> n = 0x3E \<or> n = 0x26
        then [CHR 0x5C, CHR ''u'', CHR ''0'', CHR ''0'', hex_digit (n div 16), hex_digit (n mod 16)]
      else [c])"

definition jstring :: "string \<Rightarrow> string" where
  "jstring s = CHR 0x22 # concat (map json_esc s) @ [CHR 0x22]"

fun jtext :: "json \<Rightarrow> string"
  and jelems :: "json list \<Rightarrow> string"
  and jmembers :: "(string \<times> json) list \<Rightarrow> string"
where
  "jtext JNull = ''null''"
| "jtext (JBool b) = (if b then ''true'' else ''false'')"
| "jtext (JInt i) = itoa i"
| "jtext (JStr s) = jstring s"
| "jtext (JArr js) = CHR ''['' # jelems js @ '']''"
| "jtext (JObj ms) = CHR ''{'' # jmembers ms @ ''}''"
| "jelems [] = []"
| "jelems [j] = jtext j"
| "jelems (j # k # js) = jtext j @ '','' @ jelems (k # js)"
| "jmembers [] = []"
| "jmembers [(k, j)] = jstring k @ '':'' @ jtext j"
| "jmembers ((k, j) # m # ms) = jstring k @ '':'' @ jtext j @ '','' @ jmembers (m # ms)"

subsection \<open>Reading\<close>

definition is_ws :: "char \<Rightarrow> bool" where
  "is_ws c \<longleftrightarrow> c \<in> {CHR '' '', CHR 0x09, CHR 0x0A, CHR 0x0D}"

definition skip_ws :: "string \<Rightarrow> string" where
  "skip_ws s = dropWhile is_ws s"

definition hex_val :: "char \<Rightarrow> nat option" where
  "hex_val c = (let n = of_char c in
     if 48 \<le> n \<and> n \<le> 57 then Some (n - 48)
     else if 97 \<le> n \<and> n \<le> 102 then Some (n - 87)
     else if 65 \<le> n \<and> n \<le> 70 then Some (n - 55) else None)"

text \<open>A code point below 0x10000 in UTF-8; a surrogate is replaced by U+FFFD.\<close>

definition utf8 :: "nat \<Rightarrow> string" where
  "utf8 n =
     (if n < 0x80 then [char_of n]
      else if n < 0x800 then [char_of (0xC0 + n div 64), char_of (0x80 + n mod 64)]
      else let m = (if 0xD800 \<le> n \<and> n < 0xE000 then 0xFFFD else n) in
        [char_of (0xE0 + m div 4096), char_of (0x80 + m div 64 mod 64), char_of (0x80 + m mod 64)])"

definition hex4 :: "char \<Rightarrow> char \<Rightarrow> char \<Rightarrow> char \<Rightarrow> nat option" where
  "hex4 a b c d =
     (case (hex_val a, hex_val b, hex_val c, hex_val d) of
        (Some w, Some x, Some y, Some z) \<Rightarrow> Some (((w * 16 + x) * 16 + y) * 16 + z)
      | _ \<Rightarrow> None)"

definition short_esc :: "char \<Rightarrow> char option" where
  "short_esc c =
     (if c = CHR 0x22 \<or> c = CHR 0x5C \<or> c = CHR ''/'' then Some c
      else if c = CHR ''b'' then Some (CHR 0x08)
      else if c = CHR ''f'' then Some (CHR 0x0C)
      else if c = CHR ''n'' then Some (CHR 0x0A)
      else if c = CHR ''r'' then Some (CHR 0x0D)
      else if c = CHR ''t'' then Some (CHR 0x09) else None)"

text \<open>\<open>pstr\<close> reads the rest of a string literal, after its opening quote. A raw control
  character is a syntax error.\<close>

fun pstr :: "string \<Rightarrow> (string \<times> string) option" where
  "pstr [] = None"
| "pstr (c # cs) =
     (if c = CHR 0x22 then Some ([], cs)
      else if c = CHR 0x5C then
        (case cs of
           [] \<Rightarrow> None
         | e # es \<Rightarrow>
             if e = CHR ''u'' then
               (case es of
                  h1 # h2 # h3 # h4 # rest \<Rightarrow>
                    (case hex4 h1 h2 h3 h4 of None \<Rightarrow> None
                     | Some n \<Rightarrow> map_option (\<lambda>(t, r). (utf8 n @ t, r)) (pstr rest))
                | _ \<Rightarrow> None)
             else (case short_esc e of None \<Rightarrow> None
                   | Some x \<Rightarrow> map_option (\<lambda>(t, r). (x # t, r)) (pstr es)))
      else if of_char c < (0x20 :: nat) then None
      else map_option (\<lambda>(t, r). (c # t, r)) (pstr cs))"

definition pnum :: "string \<Rightarrow> (int \<times> string) option" where
  "pnum s =
     (let (neg, t) = (case s of c # cs \<Rightarrow> if c = CHR ''-'' then (True, cs) else (False, s)
                      | [] \<Rightarrow> (False, []));
          ds = takeWhile is_digit t
      in if ds = [] \<or> (hd ds = CHR ''0'' \<and> length ds > 1) then None
         else case dec_val 0 ds of None \<Rightarrow> None
              | Some n \<Rightarrow> Some (if neg then - int n else int n, dropWhile is_digit t))"

definition expect :: "string \<Rightarrow> 'a \<Rightarrow> string \<Rightarrow> ('a \<times> string) option" where
  "expect w v s = (if HasPrefix s w then Some (v, drop (length w) s) else None)"

fun pval :: "nat \<Rightarrow> string \<Rightarrow> (json \<times> string) option"
  and pelems :: "nat \<Rightarrow> string \<Rightarrow> (json list \<times> string) option"
  and pmembers :: "nat \<Rightarrow> string \<Rightarrow> ((string \<times> json) list \<times> string) option"
where
  "pval 0 s = None"
| "pval (Suc n) s =
     (case skip_ws s of
        [] \<Rightarrow> None
      | c # cs \<Rightarrow>
          if c = CHR ''n'' then expect ''null'' JNull (c # cs)
          else if c = CHR ''t'' then expect ''true'' (JBool True) (c # cs)
          else if c = CHR ''f'' then expect ''false'' (JBool False) (c # cs)
          else if c = CHR 0x22 then map_option (\<lambda>(t, r). (JStr t, r)) (pstr cs)
          else if c = CHR ''['' then
            (case skip_ws cs of
               [] \<Rightarrow> None
             | d # ds \<Rightarrow> if d = CHR '']'' then Some (JArr [], ds)
                 else map_option (\<lambda>(js, r). (JArr js, r)) (pelems n (d # ds)))
          else if c = CHR ''{'' then
            (case skip_ws cs of
               [] \<Rightarrow> None
             | d # ds \<Rightarrow> if d = CHR ''}'' then Some (JObj [], ds)
                 else map_option (\<lambda>(ms, r). (JObj ms, r)) (pmembers n (d # ds)))
          else map_option (\<lambda>(i, r). (JInt i, r)) (pnum (c # cs)))"
| "pelems 0 s = None"
| "pelems (Suc n) s =
     (case pval n s of
        None \<Rightarrow> None
      | Some (j, r) \<Rightarrow>
          (case skip_ws r of
             [] \<Rightarrow> None
           | d # ds \<Rightarrow> if d = CHR '']'' then Some ([j], ds)
               else if d = CHR '','' then map_option (\<lambda>(js, r'). (j # js, r')) (pelems n ds)
               else None))"
| "pmembers 0 s = None"
| "pmembers (Suc n) s =
     (case skip_ws s of
        [] \<Rightarrow> None
      | q # qs \<Rightarrow>
          if q \<noteq> CHR 0x22 then None
          else (case pstr qs of
             None \<Rightarrow> None
           | Some (k, r) \<Rightarrow>
               (case skip_ws r of
                  [] \<Rightarrow> None
                | co # cs \<Rightarrow>
                    if co \<noteq> CHR '':'' then None
                    else (case pval n cs of
                       None \<Rightarrow> None
                     | Some (j, r') \<Rightarrow>
                         (case skip_ws r' of
                            [] \<Rightarrow> None
                          | d # ds \<Rightarrow> if d = CHR ''}'' then Some ([(k, j)], ds)
                              else if d = CHR '','' then
                                map_option (\<lambda>(ms, r''). ((k, j) # ms, r'')) (pmembers n ds)
                              else None)))))"

definition json_parse :: "string \<Rightarrow> json option" where
  "json_parse s =
     (case pval (Suc (length s)) s of
        None \<Rightarrow> None
      | Some (j, r) \<Rightarrow> if skip_ws r = [] then Some j else None)"

subsection \<open>What is written is read back\<close>

lemma hex_val_hex_digit [simp]: "k < 16 \<Longrightarrow> hex_val (hex_digit k) = Some k"
  by (auto simp: hex_val_def hex_digit_def of_char_of)

lemma char_eq_nat:
  "of_char c = (0x22 :: nat) \<Longrightarrow> c = CHR 0x22" "of_char c = (0x5C :: nat) \<Longrightarrow> c = CHR 0x5C"
  "of_char c = (8 :: nat) \<Longrightarrow> c = CHR 0x08" "of_char c = (12 :: nat) \<Longrightarrow> c = CHR 0x0C"
  "of_char c = (10 :: nat) \<Longrightarrow> c = CHR 0x0A" "of_char c = (13 :: nat) \<Longrightarrow> c = CHR 0x0D"
  "of_char c = (9 :: nat) \<Longrightarrow> c = CHR 0x09"
  by (simp_all add: of_char_eq_iff [where 'a = nat, symmetric] del: of_char_eq_iff)

lemma hex4_of_nat:
  assumes "n < 256"
  shows "hex4 (CHR ''0'') (CHR ''0'') (hex_digit (n div 16)) (hex_digit (n mod 16)) = Some n"
proof -
  have "hex_val (CHR ''0'') = Some 0" by (simp add: hex_val_def)
  moreover have "n div 16 < 16" using assms by simp
  moreover have "n mod 16 < 16" by simp
  ultimately show ?thesis by (simp add: hex4_def)
qed

lemma pstr_json_esc:
  "pstr (json_esc c @ t) = map_option (\<lambda>(u, r). (c # u, r)) (pstr t)"
proof -
  let ?n = "of_char c :: nat"
  have c: "c = char_of ?n" by simp
  consider "?n \<in> {0x22, 0x5C, 8, 12, 10, 13, 9}"
    | "?n \<notin> {0x22, 0x5C, 8, 12, 10, 13, 9}" "?n < 0x20 \<or> ?n = 0x3C \<or> ?n = 0x3E \<or> ?n = 0x26"
    | "?n \<notin> {0x22, 0x5C, 8, 12, 10, 13, 9}" "\<not> (?n < 0x20 \<or> ?n = 0x3C \<or> ?n = 0x3E \<or> ?n = 0x26)"
    by blast
  then show ?thesis
  proof cases
    case 1
    then consider "?n = 0x22" | "?n = 0x5C" | "?n = 8" | "?n = 12" | "?n = 10" | "?n = 13" | "?n = 9"
      by blast
    then show ?thesis by cases (drule char_eq_nat, simp add: json_esc_def short_esc_def)+
  next
    case 2
    then have "?n < 0x80" by auto
    then have "utf8 ?n = [c]" by (simp add: utf8_def)
    moreover have "json_esc c @ t = CHR 0x5C # CHR ''u'' # CHR ''0'' # CHR ''0'' #
        hex_digit (?n div 16) # hex_digit (?n mod 16) # t"
      using 2 by (auto simp: json_esc_def Let_def)
    moreover have "?n < 256" using \<open>?n < 0x80\<close> by simp
    ultimately show ?thesis by (simp add: hex4_of_nat)
  next
    case 3
    then have "json_esc c = [c]" by (auto simp: json_esc_def Let_def)
    moreover have "c \<noteq> CHR 0x22" "c \<noteq> CHR 0x5C" using 3 by auto
    ultimately show ?thesis using 3 by simp
  qed
qed

lemma pstr_jstring: "pstr (concat (map json_esc s) @ CHR 0x22 # rest) = Some (s, rest)"
  by (induction s) (simp_all add: pstr_json_esc del: pstr.simps(2), simp)

definition no_digit_head :: "string \<Rightarrow> bool" where
  "no_digit_head r \<longleftrightarrow> (case r of [] \<Rightarrow> True | c # _ \<Rightarrow> \<not> is_digit c)"

lemma takeWhile_digits:
  "no_digit_head r \<Longrightarrow> takeWhile is_digit (nat_digits n @ r) = nat_digits n"
  "no_digit_head r \<Longrightarrow> dropWhile is_digit (nat_digits n @ r) = r"
  by (auto simp: no_digit_head_def takeWhile_append dropWhile_append nat_digits_is_digit
      split: list.splits)

lemma pnum_itoa:
  assumes "no_digit_head r"
  shows "pnum (itoa i @ r) = Some (i, r)"
proof -
  have lz: "\<And>n. \<not> (hd (nat_digits n) = CHR ''0'' \<and> length (nat_digits n) > 1)"
    using nat_digits_no_lead_zero by fastforce
  have "\<And>n. \<exists>c cs. nat_digits n = c # cs \<and> c \<noteq> CHR ''-''"
    using nat_digits_hd by (metis is_digit_minus(1) list.collapse nat_digits_ne)
  then obtain c cs where nd: "nat_digits (nat i) = c # cs" and "c \<noteq> CHR ''-''" by blast
  then have "(case nat_digits (nat i) @ r of [] \<Rightarrow> (False, [])
      | c # cs \<Rightarrow> if c = CHR ''-'' then (True, cs) else (False, nat_digits (nat i) @ r)) =
      (False, nat_digits (nat i) @ r)" by simp
  then show ?thesis
    using lz assms by (auto simp: pnum_def itoa_def takeWhile_digits dec_val_nat_digits Let_def)
qed

lemma itoa_hd: "\<exists>c cs. itoa i = c # cs \<and> (is_digit c \<or> c = CHR ''-'')"
  using nat_digits_hd [of "nat i"] by (cases "nat_digits (nat i)") (auto simp: itoa_def)

text \<open>The fuel a value needs, and that its text is at least as long.\<close>

fun jfuel :: "json \<Rightarrow> nat"
  and jfuels :: "json list \<Rightarrow> nat"
  and jfuelm :: "(string \<times> json) list \<Rightarrow> nat"
where
  "jfuel (JArr js) = Suc (jfuels js)"
| "jfuel (JObj ms) = Suc (jfuelm ms)"
| "jfuel _ = Suc 0"
| "jfuels [] = 0"
| "jfuels (j # js) = Suc (max (jfuel j) (jfuels js))"
| "jfuelm [] = 0"
| "jfuelm ((k, j) # ms) = Suc (max (jfuel j) (jfuelm ms))"

lemma itoa_ne [simp]: "itoa i \<noteq> []"
  by (simp add: itoa_def)

lemma jtext_ne [simp]: "jtext j \<noteq> []"
  by (cases j) (auto simp: jstring_def)

lemma jfuel_le:
  "jfuel j \<le> length (jtext j)"
  "jfuels js \<le> Suc (length (jelems js))"
  "jfuelm ms \<le> Suc (length (jmembers ms))"
proof (induction j and js and ms rule: jtext_jelems_jmembers.induct)
  case (3 i)
  then show ?case using itoa_hd [of i] by (cases "itoa i") auto
qed (auto simp: jstring_def)

lemma is_ws_simps [simp]:
  "\<not> is_ws (CHR ''['')" "\<not> is_ws (CHR '']'')" "\<not> is_ws (CHR ''{'')" "\<not> is_ws (CHR ''}'')"
  "\<not> is_ws (CHR '','')" "\<not> is_ws (CHR '':'')" "\<not> is_ws (CHR 0x22)" "\<not> is_ws (CHR ''n'')"
  "\<not> is_ws (CHR ''t'')" "\<not> is_ws (CHR ''f'')" "\<not> is_ws (CHR ''-'')"
  by (simp_all add: is_ws_def)

lemma skip_ws_simps [simp]: "skip_ws [] = []" "\<not> is_ws c \<Longrightarrow> skip_ws (c # cs) = c # cs"
  by (simp_all add: skip_ws_def)

lemma is_digit_not_ws [simp]: "is_digit c \<Longrightarrow> \<not> is_ws c"
  by (auto simp: is_digit_def digit_of_def is_ws_def)

text \<open>A text never starts with white space or a closing bracket.\<close>

lemma jtext_hd:
  obtains c cs where "jtext j = c # cs" "\<not> is_ws c" "c \<noteq> CHR '']''"
proof (cases j)
  case (JBool b)
  then show ?thesis using that by (cases b) auto
next
  case (JInt i)
  obtain c cs where "itoa i = c # cs" and c: "is_digit c \<or> c = CHR ''-''" using itoa_hd by blast
  moreover from c have "\<not> is_ws c" by auto
  moreover from c have "c \<noteq> CHR '']''" by (auto simp: is_digit_def digit_of_def)
  ultimately show ?thesis using that JInt by simp
qed (use that in \<open>auto simp: jstring_def\<close>)

lemma jelems_hd:
  assumes "js \<noteq> []"
  obtains c cs where "jelems js = c # cs" "\<not> is_ws c" "c \<noteq> CHR '']''"
proof -
  obtain j js' where js: "js = j # js'" using assms by (cases js) auto
  obtain c cs where "jtext j = c # cs" "\<not> is_ws c" "c \<noteq> CHR '']''" by (rule jtext_hd)
  then show ?thesis using that js by (cases js') auto
qed

lemma jmembers_hd:
  assumes "ms \<noteq> []"
  obtains cs where "jmembers ms = CHR 0x22 # cs"
  using assms that by (cases ms rule: jmembers.cases) (auto simp: jstring_def)

lemma num_text_hd:
  assumes "c = CHR ''-'' \<or> is_digit c"
  shows "c \<noteq> CHR ''n''" "c \<noteq> CHR ''t''" "c \<noteq> CHR ''f''" "c \<noteq> CHR 0x22" "c \<noteq> CHR ''[''" "c \<noteq> CHR ''{''"
  using assms by (auto simp: is_digit_def digit_of_def)

lemma no_digit_head_simps [simp]:
  "no_digit_head []" "no_digit_head (c # r) = (\<not> is_digit c)"
  by (simp_all add: no_digit_head_def)

lemma is_digit_punct [simp]:
  "\<not> is_digit (CHR '']'')" "\<not> is_digit (CHR ''}'')" "\<not> is_digit (CHR '','')"
  by (simp_all add: is_digit_def digit_of_def)

text \<open>
  The three parsers invert the three writers, for any fuel that suffices, whatever follows
  (for a number: whatever does not start with a digit).
\<close>

lemma parse_text:
  "jfuel j \<le> n \<Longrightarrow> no_digit_head r \<Longrightarrow> pval n (jtext j @ r) = Some (j, r)"
  "jfuels js \<le> n \<Longrightarrow> js \<noteq> [] \<Longrightarrow> pelems n (jelems js @ CHR '']'' # r) = Some (js, r)"
  "jfuelm ms \<le> n \<Longrightarrow> ms \<noteq> [] \<Longrightarrow> pmembers n (jmembers ms @ CHR ''}'' # r) = Some (ms, r)"
proof (induction j and js and ms arbitrary: n r and n r and n r rule: jtext_jelems_jmembers.induct)
  case 1
  then show ?case by (cases n) (auto simp: expect_def HasPrefix_def)
next
  case (2 b)
  then show ?case by (cases n) (auto simp: expect_def HasPrefix_def)
next
  case (3 i)
  obtain c cs where it: "itoa i = c # cs" and c: "c = CHR ''-'' \<or> is_digit c" using itoa_hd by blast
  from c have ws: "\<not> is_ws c" by auto
  have "pnum (c # cs @ r) = Some (i, r)" using pnum_itoa [OF 3(2), of i] it by simp
  then show ?case using 3 it ws num_text_hd [OF c] by (cases n) auto
next
  case (4 s)
  then show ?case by (cases n) (auto simp: jstring_def pstr_jstring)
next
  case (5 js)
  then obtain m where n: "n = Suc m" and m: "jfuels js \<le> m" by (cases n) auto
  show ?case
  proof (cases "js = []")
    case False
    obtain c cs where "jelems js = c # cs" "\<not> is_ws c" "c \<noteq> CHR '']''"
      by (rule jelems_hd [OF False])
    with 5(1) [OF m False, of r] show ?thesis by (simp add: n)
  qed (simp add: n)
next
  case (6 ms)
  then obtain m where n: "n = Suc m" and m: "jfuelm ms \<le> m" by (cases n) auto
  show ?case
  proof (cases "ms = []")
    case False
    obtain cs where "jmembers ms = CHR 0x22 # cs" by (rule jmembers_hd [OF False])
    with 6(1) [OF m False, of r] show ?thesis by (simp add: n)
  qed (simp add: n)
next
  case (8 j)
  then obtain m where n: "n = Suc m" and m: "jfuel j \<le> m" by (cases n) auto
  show ?case using 8(1) [OF m, of "CHR '']'' # r"] by (simp add: n)
next
  case (9 j k js)
  then obtain m where n: "n = Suc m" and m: "jfuel j \<le> m" "jfuels (k # js) \<le> m" by (cases n) auto
  show ?case
    using 9(1) [OF m(1), of "CHR '','' # jelems (k # js) @ CHR '']'' # r"] 9(2) [OF m(2), of r]
    by (simp add: n)
next
  case (11 k j)
  then obtain m where n: "n = Suc m" and m: "jfuel j \<le> m" by (cases n) auto
  show ?case using 11(1) [OF m, of "CHR ''}'' # r"] by (simp add: n jstring_def pstr_jstring)
next
  case (12 k j m' ms)
  then obtain m where n: "n = Suc m" and m: "jfuel j \<le> m" "jfuelm (m' # ms) \<le> m" by (cases n) auto
  show ?case
    using 12(1) [OF m(1), of "CHR '','' # jmembers (m' # ms) @ CHR ''}'' # r"] 12(2) [OF m(2), of r]
    by (simp add: n jstring_def pstr_jstring)
qed auto

lemma json_parse_text: "json_parse (jtext j) = Some j"
  using parse_text(1) [of j "Suc (length (jtext j))" "[]"] jfuel_le(1) [of j]
  by (simp add: json_parse_def)

end
