(* ===== verification/CsiTypes.thy ===== *)
theory CsiTypes
  imports GoJson "HOL-Library.Monad_Syntax"
begin

section \<open>simplecsi: data, environment and driver state\<close>

text \<open>
  Packages \<open>state\<close> (data and the helper type \<open>Strings\<close>), \<open>hostpath\<close> (configuration) and the
  requests of the CSI gRPC interface. What the driver reaches outside its own code is a
  parameter: the record \<open>env\<close> has one field per call, each a function from the outside world
  to a result and the world after the call. The world has two parts, the ConfigMap store of
  the API server (type \<open>'c\<close>) and everything else (type \<open>'o\<close>: nodes, mounts, jobs, clock).
\<close>

subsection \<open>state.go: volumes and snapshots\<close>

type_synonym AccessType = int64

definition MountAccess :: AccessType where "MountAccess = 0"
definition BlockAccess :: AccessType where "BlockAccess = 1"

definition StateConfigmapName :: string where "StateConfigmapName = ''simplecsi''"
definition StateVolumeKey :: string where "StateVolumeKey = ''volume''"

lemma access_types [simp]: "MountAccess \<noteq> BlockAccess" "BlockAccess \<noteq> MountAccess"
  by (simp_all add: MountAccess_def BlockAccess_def)

record Volume =
  VolName :: string
  VolID :: string
  VolSize :: int64
  VolPath :: string
  VolAccessType :: AccessType
  ParentVolID :: string
  ParentSnapID :: string
  Ephemeral :: bool
  NodeID :: string
  Kind :: string
  ReadOnlyAttach :: bool
  Attached :: bool
  VolumeNode :: string
  Staged :: "string list"
  Published :: "string list"

record Timestamp =
  Seconds :: int64
  Nanos :: int32

record Snapshot =
  SnapName :: string
  SnapId :: string
  SnapVolID :: string
  SnapPath :: string
  SnapCreationTime :: "Timestamp option"
  SizeBytes :: int64
  ReadyToUse :: bool
  GroupSnapshotID :: string

record GroupSnapshot =
  GroupName :: string
  GroupId :: string
  SnapshotIDs :: "string list"
  SourceVolumeIDs :: "string list"
  GroupCreationTime :: "Timestamp option"
  GroupReadyToUse :: bool

record resources =
  Volumes :: "Volume list"
  Snapshots :: "Snapshot list"
  GroupSnapshots :: "GroupSnapshot list"

subsection \<open>strings.go: the ordered set of strings\<close>

definition strings_Add :: "string \<Rightarrow> string list \<Rightarrow> string list" where
  "strings_Add str s = s @ [str]"

fun strings_Has :: "string list \<Rightarrow> string \<Rightarrow> bool" where
  "strings_Has [] str = False"
| "strings_Has (str2 # s) str = (if str = str2 then True else strings_Has s str)"

definition strings_Empty :: "string list \<Rightarrow> bool" where
  "strings_Empty s \<longleftrightarrow> length s = 0"

fun strings_Remove :: "string \<Rightarrow> string list \<Rightarrow> string list" where
  "strings_Remove str [] = []"
| "strings_Remove str (str2 # s) = (if str = str2 then s else str2 # strings_Remove str s)"

lemma strings_Has_iff [simp]: "strings_Has s x \<longleftrightarrow> x \<in> set s"
  by (induction s) auto

lemma strings_Empty_iff [simp]: "strings_Empty s \<longleftrightarrow> s = []"
  by (simp add: strings_Empty_def)

lemma strings_Remove_remove1: "strings_Remove x s = remove1 x s"
  by (induction s) auto

lemma set_strings_Add [simp]: "set (strings_Add x s) = insert x (set s)"
  by (auto simp: strings_Add_def)

text \<open>\<open>Strings\<close> is a set without repetitions as long as \<open>Add\<close> is called on absent strings only.\<close>

lemma strings_set:
  "distinct s \<Longrightarrow> x \<notin> set s \<Longrightarrow> distinct (strings_Add x s)"
  "distinct s \<Longrightarrow> distinct (strings_Remove x s)"
  "distinct s \<Longrightarrow> set (strings_Remove x s) = set s - {x}"
  by (simp_all add: strings_Add_def strings_Remove_remove1)

subsection \<open>hostpath.go: configuration\<close>

definition Kib :: int where "Kib = 1024"
definition Mib :: int where "Mib = Kib * 1024"
definition StorageKind :: string where "StorageKind = ''kind''"
definition SnapshotExt :: string where "SnapshotExt = ''.snap''"
definition TopologyKeyNode :: string where "TopologyKeyNode = ''topology.hostpath.csi/node''"
definition DeviceID :: string where "DeviceID = ''deviceID''"
definition PVNameKey :: string where "PVNameKey = ''csi.storage.k8s.io/pv/name''"

text \<open>A \<open>resource.Quantity\<close> is represented by its \<open>Value()\<close>; the map by its entries.\<close>

type_synonym Capacity = "(string \<times> int64) list"

record Config =
  DriverName :: string
  CfgNodeID :: string
  VendorVersion :: string
  StateDir :: string
  MaxVolumesPerNode :: int64
  MaxVolumeSize :: int64
  AttachLimit :: int64
  CfgCapacity :: Capacity
  CfgEphemeral :: bool
  EnableAttach :: bool
  EnableTopology :: bool
  EnableVolumeExpansion :: bool
  EnableControllerModifyVolume :: bool
  AcceptedMutableParameterNames :: "string list"
  DisableControllerExpansion :: bool
  DisableNodeExpansion :: bool
  MaxVolumeExpansionSizeNode :: int64
  CheckVolumeLifecycle :: bool

subsection \<open>The environment\<close>

type_synonym configmap = "string \<rightharpoonup> string"

record Job =
  JobName :: string
  JobNamespace :: string
  JobImage :: string
  JobCommand :: "string list"
  JobNodeName :: string
  JobTTL :: int32

record Pod =
  PodPhase :: string
  PodNodeName :: string

record FsInfo =
  fs_available :: int64
  fs_capacity :: int64
  fs_used :: int64
  fs_inodes :: int64
  fs_inodesFree :: int64
  fs_inodesUsed :: int64

datatype file_mode = ModeDir | ModeDevice | ModeOther

text \<open>
  \<open>cm_view\<close> is no call: it is what the API server holds, for specifications only. Command and
  loop-device errors are texts. \<open>select_tick\<close> is the choice of the \<open>select\<close> between the
  ticker and the context; \<open>range_keys\<close> is the order in which a \<open>range\<close> over a map runs.
\<close>

record ('c, 'o) env =
  cm_get :: "string \<Rightarrow> string \<Rightarrow> 'c \<Rightarrow> (api_error + configmap) \<times> 'c"
  cm_create :: "string \<Rightarrow> string \<Rightarrow> configmap \<Rightarrow> 'c \<Rightarrow> (api_error + unit) \<times> 'c"
  cm_update :: "string \<Rightarrow> string \<Rightarrow> configmap \<Rightarrow> 'c \<Rightarrow> (api_error + unit) \<times> 'c"
  cm_view :: "'c \<Rightarrow> string \<times> string \<rightharpoonup> configmap"
  in_cluster_config :: "'o \<Rightarrow> (string + unit) \<times> 'o"
  new_for_config :: "'o \<Rightarrow> (string + unit) \<times> 'o"
  job_create :: "Job \<Rightarrow> 'o \<Rightarrow> (api_error + unit) \<times> 'o"
  job_get :: "string \<Rightarrow> string \<Rightarrow> 'o \<Rightarrow> (api_error + string list) \<times> 'o"
  pod_list :: "string \<Rightarrow> string \<Rightarrow> 'o \<Rightarrow> (api_error + Pod list) \<times> 'o"
  select_tick :: "'o \<Rightarrow> bool \<times> 'o"
  os_stat :: "string \<Rightarrow> 'o \<Rightarrow> (os_error + file_mode) \<times> 'o"
  os_lstat :: "string \<Rightarrow> 'o \<Rightarrow> (os_error + unit) \<times> 'o"
  os_open_create :: "string \<Rightarrow> 'o \<Rightarrow> (os_error + unit) \<times> 'o"
  os_readdir1 :: "string \<Rightarrow> 'o \<Rightarrow> (os_error + (os_error + bool)) \<times> 'o"
  os_mkdir :: "string \<Rightarrow> 'o \<Rightarrow> (os_error + unit) \<times> 'o"
  os_remove :: "string \<Rightarrow> 'o \<Rightarrow> (os_error + unit) \<times> 'o"
  os_remove_all :: "string \<Rightarrow> 'o \<Rightarrow> (os_error + unit) \<times> 'o"
  look_path :: "string \<Rightarrow> 'o \<Rightarrow> (string + string) \<times> 'o"
  run_cmd :: "string list \<Rightarrow> 'o \<Rightarrow> (string \<times> string option) \<times> 'o"
  loop_attach :: "string \<Rightarrow> 'o \<Rightarrow> (string + string) \<times> 'o"
  loop_detach :: "string \<Rightarrow> 'o \<Rightarrow> (string + unit) \<times> 'o"
  loop_get :: "string \<Rightarrow> 'o \<Rightarrow> (string + string) \<times> 'o"
  is_not_mount :: "string \<Rightarrow> 'o \<Rightarrow> (os_error + bool) \<times> 'o"
  do_mount :: "string \<Rightarrow> string \<Rightarrow> string \<Rightarrow> string list \<Rightarrow> 'o \<Rightarrow> (string + unit) \<times> 'o"
  do_unmount :: "string \<Rightarrow> 'o \<Rightarrow> (string + unit) \<times> 'o"
  fs_info :: "string \<Rightarrow> 'o \<Rightarrow> (string + FsInfo) \<times> 'o"
  new_uuid :: "'o \<Rightarrow> string \<times> 'o"
  now :: "'o \<Rightarrow> Timestamp \<times> 'o"
  range_keys :: "string list \<Rightarrow> 'o \<Rightarrow> string list \<times> 'o"
  qty_string :: "int64 \<Rightarrow> string"

subsection \<open>The driver: the HostPath struct and its state\<close>

text \<open>\<open>HasClient\<close>: the field \<open>ClientSet\<close> is not nil. The handlers of the controller and
  the node service hold \<open>HostPathMutex\<close> from before their first access to the state to their
  return, so a call is one state transformer. The handlers of the group service hold a mutex of
  their own; \<open>Serve\<close> registers the identity, the controller and the node service only, so no
  group call runs beside another call, and its handlers are state transformers as well.\<close>

record ('c, 'o) driver =
  res :: resources
  statefilePath :: string
  HasClient :: bool
  cmw :: 'c
  osw :: 'o

type_synonym ('c, 'o, 'a) csi = "(('c, 'o) driver, 'a) io"

definition empty_resources :: resources where
  "empty_resources = \<lparr>Volumes = [], Snapshots = [], GroupSnapshots = []\<rparr>"

definition call_cm :: "('c \<Rightarrow> (api_error + 'a) \<times> 'c) \<Rightarrow> ('c, 'o, 'a) csi" where
  "call_cm f = (\<lambda>s. case f (cmw s) of
      (Inl e, c') \<Rightarrow> (Inl (Kube e), s\<lparr>cmw := c'\<rparr>)
    | (Inr x, c') \<Rightarrow> (Inr x, s\<lparr>cmw := c'\<rparr>))"

definition call_o :: "('o \<Rightarrow> 'a \<times> 'o) \<Rightarrow> ('c, 'o, 'a) csi" where
  "call_o f = (\<lambda>s. case f (osw s) of (x, o') \<Rightarrow> (Inr x, s\<lparr>osw := o'\<rparr>))"

definition call_err :: "('e \<Rightarrow> goerr) \<Rightarrow> ('o \<Rightarrow> ('e + 'a) \<times> 'o) \<Rightarrow> ('c, 'o, 'a) csi" where
  "call_err g f = (\<lambda>s. case f (osw s) of
      (Inl e, o') \<Rightarrow> (Inl (g e), s\<lparr>osw := o'\<rparr>)
    | (Inr x, o') \<Rightarrow> (Inr x, s\<lparr>osw := o'\<rparr>))"

abbreviation call_kube :: "('o \<Rightarrow> (api_error + 'a) \<times> 'o) \<Rightarrow> ('c, 'o, 'a) csi" where
  "call_kube \<equiv> call_err Kube"
abbreviation call_os :: "('o \<Rightarrow> (os_error + 'a) \<times> 'o) \<Rightarrow> ('c, 'o, 'a) csi" where
  "call_os \<equiv> call_err Os"
abbreviation call_txt :: "('o \<Rightarrow> (string + 'a) \<times> 'o) \<Rightarrow> ('c, 'o, 'a) csi" where
  "call_txt \<equiv> call_err Plain"

definition getVolumes :: "('c, 'o, Volume list) csi" where
  "getVolumes = getS (\<lambda>s. Volumes (res s))"

definition setVolumes :: "Volume list \<Rightarrow> ('c, 'o, unit) csi" where
  "setVolumes vs = modS (\<lambda>s. s\<lparr>res := (res s)\<lparr>Volumes := vs\<rparr>\<rparr>)"

definition getSnaps :: "('c, 'o, Snapshot list) csi" where
  "getSnaps = getS (\<lambda>s. Snapshots (res s))"

definition setSnaps :: "Snapshot list \<Rightarrow> ('c, 'o, unit) csi" where
  "setSnaps xs = modS (\<lambda>s. s\<lparr>res := (res s)\<lparr>Snapshots := xs\<rparr>\<rparr>)"

definition getGroups :: "('c, 'o, GroupSnapshot list) csi" where
  "getGroups = getS (\<lambda>s. GroupSnapshots (res s))"

definition setGroups :: "GroupSnapshot list \<Rightarrow> ('c, 'o, unit) csi" where
  "setGroups xs = modS (\<lambda>s. s\<lparr>res := (res s)\<lparr>GroupSnapshots := xs\<rparr>\<rparr>)"

lemmas state_access = getVolumes_def setVolumes_def getSnaps_def setSnaps_def
  getGroups_def setGroups_def

text \<open>Calls on the outside other than the ConfigMap calls change \<open>osw\<close> only.\<close>

lemma keeps_call_err:
  "(\<And>s o'. I s \<Longrightarrow> I (s\<lparr>osw := o'\<rparr>)) \<Longrightarrow> keeps I (call_err g f)"
  by (auto simp: keeps_def call_err_def split: prod.splits sum.splits)

lemma keeps_call_o:
  "(\<And>s o'. I s \<Longrightarrow> I (s\<lparr>osw := o'\<rparr>)) \<Longrightarrow> keeps I (call_o f)"
  by (auto simp: keeps_def call_o_def split: prod.splits)

end
