(* ===== verification/CsiState.thy ===== *)
theory CsiState
  imports CsiTypes
begin

section \<open>simplecsi: the persistent state (pkg/state/state.go, pkg/k8sclient/k8s.go)\<close>

text \<open>
  The three lists of resources with their look-up, update and delete loops; their JSON text;
  the ConfigMap functions of \<open>k8sclient\<close>; and the operations of the Go interface \<open>State\<close>.
  Every operation on volumes first reloads the lists from the ConfigMap (\<open>restore\<close>); the
  operations on snapshots work on the lists in memory. Every change is written back
  (\<open>dump\<close>).
\<close>

subsection \<open>The loops over a list of resources\<close>

text \<open>The loops of the three kinds are the same up to the field they compare.\<close>

fun find_by :: "('a \<Rightarrow> string) \<Rightarrow> string \<Rightarrow> 'a list \<Rightarrow> 'a option" where
  "find_by f k [] = None"
| "find_by f k (x # xs) = (if f x = k then Some x else find_by f k xs)"

fun upsert_by :: "('a \<Rightarrow> string) \<Rightarrow> 'a \<Rightarrow> 'a list \<Rightarrow> 'a list" where
  "upsert_by f u [] = [u]"
| "upsert_by f u (x # xs) = (if f x = f u then u # xs else x # upsert_by f u xs)"

fun remove_by :: "('a \<Rightarrow> string) \<Rightarrow> string \<Rightarrow> 'a list \<Rightarrow> 'a list" where
  "remove_by f k [] = []"
| "remove_by f k (x # xs) = (if f x = k then xs else x # remove_by f k xs)"

text \<open>
  What a table of resources promises its clients: looking up after a put and after a delete,
  and that identifiers stay unique. \<open>lookup\<close> is the abstraction of the table to a finite map.
\<close>

locale resource_table =
  fixes ident :: "'a \<Rightarrow> string"
    and lookup :: "string \<Rightarrow> 'a list \<Rightarrow> 'a option"
    and put :: "'a \<Rightarrow> 'a list \<Rightarrow> 'a list"
    and del :: "string \<Rightarrow> 'a list \<Rightarrow> 'a list"
  assumes lookup_empty: "lookup k [] = None"
    and lookup_ident: "lookup k t = Some x \<Longrightarrow> ident x = k \<and> x \<in> set t"
    and lookup_None: "lookup k t = None \<longleftrightarrow> k \<notin> ident ` set t"
    and lookup_put: "lookup k (put x t) = (if k = ident x then Some x else lookup k t)"
    and lookup_del: "distinct (map ident t) \<Longrightarrow>
           lookup k (del i t) = (if k = i then None else lookup k t)"
    and distinct_put: "distinct (map ident t) \<Longrightarrow> distinct (map ident (put x t))"
    and distinct_del: "distinct (map ident t) \<Longrightarrow> distinct (map ident (del i t))"
    and del_absent: "lookup i t = None \<Longrightarrow> del i t = t"
begin

definition table_map :: "'a list \<Rightarrow> string \<rightharpoonup> 'a" where
  "table_map t = (\<lambda>k. lookup k t)"

lemma map_empty: "table_map [] = Map.empty"
  by (rule ext) (simp add: table_map_def lookup_empty)

lemma map_put: "table_map (put x t) = (table_map t)(ident x \<mapsto> x)"
  by (rule ext) (simp add: table_map_def lookup_put)

lemma map_del: "distinct (map ident t) \<Longrightarrow> table_map (del i t) = (table_map t)(i := None)"
  by (rule ext) (simp add: table_map_def lookup_del)

lemma map_dom: "dom (table_map t) = ident ` set t"
  using lookup_None by (force simp: table_map_def dom_def)

lemma put_put: "table_map (put x (put x t)) = table_map (put x t)"
  by (simp add: map_put)

lemma del_del: "distinct (map ident t) \<Longrightarrow> del i (del i t) = del i t"
  by (rule del_absent) (simp add: lookup_del)

lemma put_new_ids: "ident ` set (put x t) = insert (ident x) (ident ` set t)"
  using map_dom [of "put x t"] map_dom [of t] by (simp add: map_put)

end

subsection \<open>The generic loops satisfy the contract\<close>

lemma find_by_Some: "find_by f k t = Some x \<Longrightarrow> f x = k \<and> x \<in> set t"
  by (induction t) (auto split: if_splits)

lemma find_by_None: "find_by f k t = None \<longleftrightarrow> k \<notin> f ` set t"
  by (induction t) auto

lemma find_by_distinct: "distinct (map f t) \<Longrightarrow> x \<in> set t \<Longrightarrow> find_by f (f x) t = Some x"
  by (induction t) (auto simp: rev_image_eqI)

lemma find_by_upsert: "find_by f k (upsert_by f x t) = (if k = f x then Some x else find_by f k t)"
  by (induction t) auto

lemma find_by_remove:
  "distinct (map f t) \<Longrightarrow> find_by f k (remove_by f i t) = (if k = i then None else find_by f k t)"
  by (induction t) (auto simp: find_by_None)

lemma ids_upsert: "f ` set (upsert_by f x t) = insert (f x) (f ` set t)"
  by (induction t) auto

lemma distinct_upsert: "distinct (map f t) \<Longrightarrow> distinct (map f (upsert_by f x t))"
  by (induction t) (auto simp: ids_upsert)

lemma set_remove_by: "set (remove_by f k t) \<subseteq> set t"
  by (induction t) auto

lemma distinct_remove: "distinct (map f t) \<Longrightarrow> distinct (map f (remove_by f k t))"
  using set_remove_by by (induction t) fastforce+

lemma remove_by_absent: "find_by f k t = None \<Longrightarrow> remove_by f k t = t"
  by (induction t) (auto split: if_splits)

lemma upsert_by_new: "f x \<notin> f ` set t \<Longrightarrow> upsert_by f x t = t @ [x]"
  by (induction t) auto

lemma upsert_by_set: "y \<in> set (upsert_by f x t) \<Longrightarrow> y = x \<or> y \<in> set t"
  by (induction t) (auto split: if_splits)

lemma upsert_by_mem: "x \<in> set (upsert_by f x t)"
  by (induction t) auto

text \<open>Replacing the entry that was found keeps the order of the identifiers.\<close>

lemma upsert_by_ids: "find_by f (f x) t \<noteq> None \<Longrightarrow> map f (upsert_by f x t) = map f t"
  by (induction t) auto

interpretation volumes: resource_table VolID "find_by VolID" "upsert_by VolID" "remove_by VolID"
  by unfold_locales (auto simp: find_by_upsert find_by_remove distinct_upsert distinct_remove
      remove_by_absent find_by_None dest: find_by_Some)

interpretation snaps: resource_table SnapId "find_by SnapId" "upsert_by SnapId" "remove_by SnapId"
  by unfold_locales (auto simp: find_by_upsert find_by_remove distinct_upsert distinct_remove
      remove_by_absent find_by_None dest: find_by_Some)

interpretation groups: resource_table GroupId "find_by GroupId" "upsert_by GroupId" "remove_by GroupId"
  by unfold_locales (auto simp: find_by_upsert find_by_remove distinct_upsert distinct_remove
      remove_by_absent find_by_None dest: find_by_Some)

subsection \<open>The JSON of the resources\<close>

definition j64 :: "int64 \<Rightarrow> json" where "j64 x = JInt (sint x)"

text \<open>An empty slice is written \<open>null\<close>, as a nil slice is.\<close>

definition jlist :: "('a \<Rightarrow> json) \<Rightarrow> 'a list \<Rightarrow> json" where
  "jlist f xs = (if xs = [] then JNull else JArr (map f xs))"

definition json_of_volume :: "Volume \<Rightarrow> json" where
  "json_of_volume v = JObj
     [(''VolName'', JStr (VolName v)), (''VolID'', JStr (VolID v)), (''VolSize'', j64 (VolSize v)),
      (''VolPath'', JStr (VolPath v)), (''VolAccessType'', j64 (VolAccessType v)),
      (''ParentVolID'', JStr (ParentVolID v)), (''ParentSnapID'', JStr (ParentSnapID v)),
      (''Ephemeral'', JBool (Ephemeral v)), (''NodeID'', JStr (NodeID v)),
      (''Kind'', JStr (Kind v)), (''ReadOnlyAttach'', JBool (ReadOnlyAttach v)),
      (''Attached'', JBool (Attached v)), (''VolumeNode'', JStr (VolumeNode v)),
      (''Staged'', jlist JStr (Staged v)), (''Published'', jlist JStr (Published v))]"

text \<open>The fields of a \<open>timestamppb.Timestamp\<close> carry \<open>omitempty\<close>.\<close>

definition json_of_time :: "Timestamp option \<Rightarrow> json" where
  "json_of_time t = (case t of None \<Rightarrow> JNull | Some ts \<Rightarrow> JObj
     ((if Seconds ts = 0 then [] else [(''seconds'', j64 (Seconds ts))]) @
      (if Nanos ts = 0 then [] else [(''nanos'', JInt (sint (Nanos ts)))])))"

definition json_of_snapshot :: "Snapshot \<Rightarrow> json" where
  "json_of_snapshot s = JObj
     [(''Name'', JStr (SnapName s)), (''Id'', JStr (SnapId s)), (''VolID'', JStr (SnapVolID s)),
      (''Path'', JStr (SnapPath s)), (''CreationTime'', json_of_time (SnapCreationTime s)),
      (''SizeBytes'', j64 (SizeBytes s)), (''ReadyToUse'', JBool (ReadyToUse s)),
      (''GroupSnapshotID'', JStr (GroupSnapshotID s))]"

definition json_of_group :: "GroupSnapshot \<Rightarrow> json" where
  "json_of_group g = JObj
     [(''Name'', JStr (GroupName g)), (''Id'', JStr (GroupId g)),
      (''SnapshotIDs'', jlist JStr (SnapshotIDs g)),
      (''SourceVolumeIDs'', jlist JStr (SourceVolumeIDs g)),
      (''CreationTime'', json_of_time (GroupCreationTime g)),
      (''ReadyToUse'', JBool (GroupReadyToUse g))]"

definition json_of_resources :: "resources \<Rightarrow> json" where
  "json_of_resources r = JObj
     [(''Volumes'', jlist json_of_volume (Volumes r)),
      (''Snapshots'', jlist json_of_snapshot (Snapshots r)),
      (''GroupSnapshots'', jlist json_of_group (GroupSnapshots r))]"

text \<open>
  Reading: a missing key or \<open>null\<close> leaves the default; a value of another type, or a number out
  of range, is an error.
\<close>

definition jget :: "'a \<Rightarrow> (json \<Rightarrow> 'a option) \<Rightarrow> string \<Rightarrow> (string \<times> json) list \<Rightarrow> 'a option" where
  "jget d f k ms = (case map_of ms k of None \<Rightarrow> Some d
     | Some j \<Rightarrow> if j = JNull then Some d else f j)"

fun un_str :: "json \<Rightarrow> string option" where
  "un_str (JStr s) = Some s" | "un_str _ = None"

fun un_bool :: "json \<Rightarrow> bool option" where
  "un_bool (JBool b) = Some b" | "un_bool _ = None"

fun un_i64 :: "json \<Rightarrow> int64 option" where
  "un_i64 (JInt i) = (if - (2 ^ 63) \<le> i \<and> i < 2 ^ 63 then Some (word_of_int i) else None)"
| "un_i64 _ = None"

fun un_i32 :: "json \<Rightarrow> int32 option" where
  "un_i32 (JInt i) = (if - (2 ^ 31) \<le> i \<and> i < 2 ^ 31 then Some (word_of_int i) else None)"
| "un_i32 _ = None"

fun opt_map :: "('a \<Rightarrow> 'b option) \<Rightarrow> 'a list \<Rightarrow> 'b list option" where
  "opt_map f [] = Some []"
| "opt_map f (x # xs) = (case f x of None \<Rightarrow> None | Some y \<Rightarrow> map_option ((#) y) (opt_map f xs))"

definition un_list :: "(json \<Rightarrow> 'a option) \<Rightarrow> json \<Rightarrow> 'a list option" where
  "un_list f j = (case j of JNull \<Rightarrow> Some [] | JArr js \<Rightarrow> opt_map f js | _ \<Rightarrow> None)"

abbreviation "get_str \<equiv> jget [] un_str"
abbreviation "get_bool \<equiv> jget False un_bool"
abbreviation "get_i64 \<equiv> jget 0 un_i64"
abbreviation "get_strs \<equiv> jget [] (un_list un_str)"

definition volume_of_json :: "json \<Rightarrow> Volume option" where
  "volume_of_json j = (case j of JObj ms \<Rightarrow> do {
       name \<leftarrow> get_str ''VolName'' ms; i \<leftarrow> get_str ''VolID'' ms; size \<leftarrow> get_i64 ''VolSize'' ms;
       path \<leftarrow> get_str ''VolPath'' ms; acc \<leftarrow> get_i64 ''VolAccessType'' ms;
       pv \<leftarrow> get_str ''ParentVolID'' ms; ps \<leftarrow> get_str ''ParentSnapID'' ms;
       eph \<leftarrow> get_bool ''Ephemeral'' ms; node \<leftarrow> get_str ''NodeID'' ms; kind \<leftarrow> get_str ''Kind'' ms;
       ro \<leftarrow> get_bool ''ReadOnlyAttach'' ms; att \<leftarrow> get_bool ''Attached'' ms;
       vn \<leftarrow> get_str ''VolumeNode'' ms; st \<leftarrow> get_strs ''Staged'' ms; pub \<leftarrow> get_strs ''Published'' ms;
       Some \<lparr>VolName = name, VolID = i, VolSize = size, VolPath = path, VolAccessType = acc,
         ParentVolID = pv, ParentSnapID = ps, Ephemeral = eph, NodeID = node, Kind = kind,
         ReadOnlyAttach = ro, Attached = att, VolumeNode = vn, Staged = st, Published = pub\<rparr> }
     | _ \<Rightarrow> None)"

definition time_of_json :: "json \<Rightarrow> Timestamp option option" where
  "time_of_json j = (case j of JObj ms \<Rightarrow> do {
       s \<leftarrow> get_i64 ''seconds'' ms; n \<leftarrow> jget 0 un_i32 ''nanos'' ms;
       Some (Some \<lparr>Seconds = s, Nanos = n\<rparr>) }
     | _ \<Rightarrow> None)"

definition snapshot_of_json :: "json \<Rightarrow> Snapshot option" where
  "snapshot_of_json j = (case j of JObj ms \<Rightarrow> do {
       name \<leftarrow> get_str ''Name'' ms; i \<leftarrow> get_str ''Id'' ms; v \<leftarrow> get_str ''VolID'' ms;
       path \<leftarrow> get_str ''Path'' ms; t \<leftarrow> jget None time_of_json ''CreationTime'' ms;
       size \<leftarrow> get_i64 ''SizeBytes'' ms; rdy \<leftarrow> get_bool ''ReadyToUse'' ms;
       g \<leftarrow> get_str ''GroupSnapshotID'' ms;
       Some \<lparr>SnapName = name, SnapId = i, SnapVolID = v, SnapPath = path, SnapCreationTime = t,
         SizeBytes = size, ReadyToUse = rdy, GroupSnapshotID = g\<rparr> }
     | _ \<Rightarrow> None)"

definition group_of_json :: "json \<Rightarrow> GroupSnapshot option" where
  "group_of_json j = (case j of JObj ms \<Rightarrow> do {
       name \<leftarrow> get_str ''Name'' ms; i \<leftarrow> get_str ''Id'' ms;
       ids \<leftarrow> get_strs ''SnapshotIDs'' ms; src \<leftarrow> get_strs ''SourceVolumeIDs'' ms;
       t \<leftarrow> jget None time_of_json ''CreationTime'' ms; rdy \<leftarrow> get_bool ''ReadyToUse'' ms;
       Some \<lparr>GroupName = name, GroupId = i, SnapshotIDs = ids, SourceVolumeIDs = src,
         GroupCreationTime = t, GroupReadyToUse = rdy\<rparr> }
     | _ \<Rightarrow> None)"

text \<open>
  Unmarshalling goes into the existing struct: a list whose key is missing stays as it is, and
  \<open>null\<close> makes it nil.
\<close>

definition jlist_into :: "'a list \<Rightarrow> (json \<Rightarrow> 'a option) \<Rightarrow> string \<Rightarrow> (string \<times> json) list \<Rightarrow> 'a list option" where
  "jlist_into d f k ms = (case map_of ms k of None \<Rightarrow> Some d | Some j \<Rightarrow> un_list f j)"

definition resources_of_json :: "resources \<Rightarrow> json \<Rightarrow> resources option" where
  "resources_of_json r j = (case j of JObj ms \<Rightarrow> do {
       vs \<leftarrow> jlist_into (Volumes r) volume_of_json ''Volumes'' ms;
       ss \<leftarrow> jlist_into (Snapshots r) snapshot_of_json ''Snapshots'' ms;
       gs \<leftarrow> jlist_into (GroupSnapshots r) group_of_json ''GroupSnapshots'' ms;
       Some \<lparr>Volumes = vs, Snapshots = ss, GroupSnapshots = gs\<rparr> }
     | _ \<Rightarrow> None)"

definition marshal :: "resources \<Rightarrow> string" where
  "marshal r = jtext (json_of_resources r)"

definition unmarshal :: "resources \<Rightarrow> string \<Rightarrow> resources option" where
  "unmarshal r t = (case json_parse t of None \<Rightarrow> None | Some j \<Rightarrow> resources_of_json r j)"

lemma un_i64_j64 [simp]: "un_i64 (j64 x) = Some x"
  using sint64_lower [of x] sint64_upper [of x] by (simp add: j64_def)

lemma un_i32_JInt [simp]: "un_i32 (JInt (sint x)) = Some x"
  using sint_ge [of x] sint_lt [of x] by simp

lemma jget_simps [simp]:
  "jget d f k [] = Some d"
  "jget d f k ((k', j) # ms) = (if k' = k then if j = JNull then Some d else f j else jget d f k ms)"
  by (simp_all add: jget_def)

lemma opt_map_map: "(\<And>x. x \<in> set xs \<Longrightarrow> g (f x) = Some x) \<Longrightarrow> opt_map g (map f xs) = Some xs"
  by (induction xs) auto

lemma un_list_jlist: "(\<And>x. g (f x) = Some x) \<Longrightarrow> un_list g (jlist f xs) = Some xs"
  by (simp add: un_list_def jlist_def opt_map_map)

lemma get_strs_jlist [simp]:
  "(if jlist JStr xs = JNull then Some [] else un_list un_str (jlist JStr xs)) = Some xs"
  by (simp add: jlist_def un_list_def opt_map_map)

lemma j64_neq_JNull [simp]: "j64 x \<noteq> JNull"
  by (simp add: j64_def)

lemma json_eq_JNull_simps [simp]: "(if JStr s = JNull then a else b) = b" "(if JBool c = JNull then a else b) = b"
  by simp_all

lemma volume_json_inverse: "volume_of_json (json_of_volume v) = Some v"
  by (simp add: volume_of_json_def json_of_volume_def)

lemma time_json_inverse:
  "(if json_of_time t = JNull then Some None else time_of_json (json_of_time t)) = Some t"
  by (cases t) (simp_all add: json_of_time_def time_of_json_def del: un_i32.simps)

lemma snapshot_json_inverse: "snapshot_of_json (json_of_snapshot s) = Some s"
  by (simp add: snapshot_of_json_def json_of_snapshot_def time_json_inverse)

lemma group_json_inverse: "group_of_json (json_of_group g) = Some g"
  by (simp add: group_of_json_def json_of_group_def time_json_inverse)

lemma resources_json_inverse: "resources_of_json r0 (json_of_resources r) = Some r"
  by (simp add: resources_of_json_def json_of_resources_def jlist_into_def un_list_jlist
      volume_json_inverse snapshot_json_inverse group_json_inverse)

lemma unmarshal_marshal [simp]: "unmarshal r0 (marshal r) = Some r"
  by (simp add: unmarshal_def marshal_def json_parse_text resources_json_inverse)

lemma marshal_ne [simp]: "marshal r \<noteq> []"
  by (simp add: marshal_def)

subsection \<open>k8sclient: the ConfigMap functions\<close>

fun kube_not_found :: "goerr \<Rightarrow> bool" where
  "kube_not_found (Kube e) = is_api_not_found e"
| "kube_not_found _ = False"

text \<open>The client returns an empty object together with an error, so the look-up after a
  NotFound error finds no data. A missing key and nil \<open>Data\<close> both read as the empty string.\<close>

definition GetConfigmapData ::
  "('c, 'o) env \<Rightarrow> string \<Rightarrow> string \<Rightarrow> string \<Rightarrow> ('c, 'o, string) csi" where
  "GetConfigmapData E name namespace key =
     tryE (call_cm (cm_get E namespace name))
       (\<lambda>e. if \<not> kube_not_found e then fail e else ret [])
       (\<lambda>cm. ret (case cm key of None \<Rightarrow> [] | Some d \<Rightarrow> d))"

text \<open>An error of the first call that is not NotFound is dropped: the function returns nil.\<close>

definition CreateOrUpdateConfigmap ::
  "('c, 'o) env \<Rightarrow> string \<Rightarrow> string \<Rightarrow> string \<Rightarrow> string \<Rightarrow> ('c, 'o, unit) csi" where
  "CreateOrUpdateConfigmap E name namespace key data =
     tryE (call_cm (cm_get E namespace name))
       (\<lambda>e. if kube_not_found e
             then call_cm (cm_create E namespace name (Map.empty(key \<mapsto> data)))
             else ret ())
       (\<lambda>cm. call_cm (cm_update E namespace name (cm(key \<mapsto> data))))"

subsection \<open>dump and restore\<close>

definition dump :: "('c, 'o) env \<Rightarrow> ('c, 'o, unit) csi" where
  "dump E = bindE (getS (\<lambda>s. marshal (res s))) (\<lambda>data.
     CreateOrUpdateConfigmap E StateConfigmapName ''default'' StateVolumeKey data)"

text \<open>The text of the JSON error itself is not modelled. A text that does not parse leaves the
  two lists nil, as they were set at the start.\<close>

definition restore :: "('c, 'o) env \<Rightarrow> ('c, 'o, unit) csi" where
  "restore E =
     bindE (modS (\<lambda>s. s\<lparr>res := (res s)\<lparr>Volumes := [], Snapshots := []\<rparr>\<rparr>)) (\<lambda>_.
     bindE (GetConfigmapData E StateConfigmapName ''default'' StateVolumeKey) (\<lambda>dataStr.
     if length dataStr > 0 then
       bindE (getS (\<lambda>s. unmarshal (res s) dataStr)) (\<lambda>r.
       case r of
         None \<Rightarrow> bindE (getS statefilePath) (\<lambda>path. fail (Status Internal
           (''error encoding volumes and snapshots from state file '' @ dquote path)))
       | Some rs \<Rightarrow> modS (\<lambda>s. s\<lparr>res := rs\<rparr>))
     else ret ()))"

text \<open>\<open>state.New\<close>: the state of a driver that starts.\<close>

definition state_New :: "('c, 'o) env \<Rightarrow> string \<Rightarrow> 'c \<Rightarrow> 'o \<Rightarrow> (goerr + unit) \<times> ('c, 'o) driver" where
  "state_New E path c w = restore E
     \<lparr>res = empty_resources, statefilePath = path, HasClient = True, cmw = c, osw = w\<rparr>"

subsection \<open>Volumes\<close>

definition GetVolumeByID :: "('c, 'o) env \<Rightarrow> string \<Rightarrow> ('c, 'o, Volume) csi" where
  "GetVolumeByID E volID =
     bindE (restore E) (\<lambda>_. bindE getVolumes (\<lambda>vs.
     case find_by VolID volID vs of
       Some volume \<Rightarrow> ret volume
     | None \<Rightarrow> fail (Status NotFound
         (''volume id '' @ volID @ '' does not exist in the volumes list''))))"

definition GetVolumeByName :: "('c, 'o) env \<Rightarrow> string \<Rightarrow> ('c, 'o, Volume) csi" where
  "GetVolumeByName E volName =
     bindE (restore E) (\<lambda>_. bindE getVolumes (\<lambda>vs.
     case find_by VolName volName vs of
       Some volume \<Rightarrow> ret volume
     | None \<Rightarrow> fail (Status NotFound
         (''volume name '' @ volName @ '' does not exist in the volumes list''))))"

text \<open>\<open>GetVolumes\<close> and \<open>UpdateVolume\<close> only log an error of \<open>restore\<close> and go on.\<close>

definition GetVolumes :: "('c, 'o) env \<Rightarrow> ('c, 'o, Volume list) csi" where
  "GetVolumes E = tryE (restore E) (\<lambda>_. getVolumes) (\<lambda>_. getVolumes)"

definition UpdateVolume :: "('c, 'o) env \<Rightarrow> Volume \<Rightarrow> ('c, 'o, unit) csi" where
  "UpdateVolume E update =
     bindE (tryE (restore E) (\<lambda>_. ret ()) ret) (\<lambda>_.
     bindE getVolumes (\<lambda>vs.
     bindE (setVolumes (upsert_by VolID update vs)) (\<lambda>_. dump E)))"

definition DeleteVolume_state :: "('c, 'o) env \<Rightarrow> string \<Rightarrow> ('c, 'o, unit) csi" where
  "DeleteVolume_state E volID =
     bindE (restore E) (\<lambda>_. bindE getVolumes (\<lambda>vs.
     case find_by VolID volID vs of
       Some _ \<Rightarrow> bindE (setVolumes (remove_by VolID volID vs)) (\<lambda>_. dump E)
     | None \<Rightarrow> ret ()))"

subsection \<open>Snapshots and group snapshots\<close>

definition GetSnapshotByID :: "string \<Rightarrow> ('c, 'o, Snapshot) csi" where
  "GetSnapshotByID snapshotID = bindE getSnaps (\<lambda>xs.
     case find_by SnapId snapshotID xs of
       Some s \<Rightarrow> ret s
     | None \<Rightarrow> fail (Status NotFound
         (''snapshot id '' @ snapshotID @ '' does not exist in the snapshots list'')))"

definition GetSnapshotByName :: "string \<Rightarrow> ('c, 'o, Snapshot) csi" where
  "GetSnapshotByName name = bindE getSnaps (\<lambda>xs.
     case find_by SnapName name xs of
       Some s \<Rightarrow> ret s
     | None \<Rightarrow> fail (Status NotFound
         (''snapshot name '' @ name @ '' does not exist in the snapshots list'')))"

definition GetSnapshots :: "('c, 'o, Snapshot list) csi" where
  "GetSnapshots = getSnaps"

definition UpdateSnapshot :: "('c, 'o) env \<Rightarrow> Snapshot \<Rightarrow> ('c, 'o, unit) csi" where
  "UpdateSnapshot E update = bindE getSnaps (\<lambda>xs.
     bindE (setSnaps (upsert_by SnapId update xs)) (\<lambda>_. dump E))"

definition DeleteSnapshot_state :: "('c, 'o) env \<Rightarrow> string \<Rightarrow> ('c, 'o, unit) csi" where
  "DeleteSnapshot_state E snapshotID = bindE getSnaps (\<lambda>xs.
     case find_by SnapId snapshotID xs of
       Some _ \<Rightarrow> bindE (setSnaps (remove_by SnapId snapshotID xs)) (\<lambda>_. dump E)
     | None \<Rightarrow> ret ())"

definition GetGroupSnapshotByID :: "string \<Rightarrow> ('c, 'o, GroupSnapshot) csi" where
  "GetGroupSnapshotByID groupSnapshotID = bindE getGroups (\<lambda>xs.
     case find_by GroupId groupSnapshotID xs of
       Some g \<Rightarrow> ret g
     | None \<Rightarrow> fail (Status NotFound
         (''groupsnapshot id '' @ groupSnapshotID @ '' does not exist in the groupsnapshots list'')))"

definition GetGroupSnapshotByName :: "string \<Rightarrow> ('c, 'o, GroupSnapshot) csi" where
  "GetGroupSnapshotByName name = bindE getGroups (\<lambda>xs.
     case find_by GroupName name xs of
       Some g \<Rightarrow> ret g
     | None \<Rightarrow> fail (Status NotFound
         (''groupsnapshot name '' @ name @ '' does not exist in the groupsnapshots list'')))"

definition GetGroupSnapshots :: "('c, 'o, GroupSnapshot list) csi" where
  "GetGroupSnapshots = getGroups"

definition UpdateGroupSnapshot :: "('c, 'o) env \<Rightarrow> GroupSnapshot \<Rightarrow> ('c, 'o, unit) csi" where
  "UpdateGroupSnapshot E update = bindE getGroups (\<lambda>xs.
     bindE (setGroups (upsert_by GroupId update xs)) (\<lambda>_. dump E))"

definition DeleteGroupSnapshot_state :: "('c, 'o) env \<Rightarrow> string \<Rightarrow> ('c, 'o, unit) csi" where
  "DeleteGroupSnapshot_state E groupSnapshotID = bindE getGroups (\<lambda>xs.
     case find_by GroupId groupSnapshotID xs of
       Some _ \<Rightarrow> bindE (setGroups (remove_by GroupId groupSnapshotID xs)) (\<lambda>_. dump E)
     | None \<Rightarrow> ret ())"

text \<open>
  \<open>equalIDs\<close> sorts both slices in place when their lengths agree; the model returns the verdict
  and what the two slices hold afterwards (the callers' slices share their arrays).
\<close>

definition equalIDs :: "string list \<Rightarrow> string list \<Rightarrow> bool \<times> string list \<times> string list" where
  "equalIDs a b =
     (if length a \<noteq> length b then (False, a, b)
      else (sort a = sort b, sort a, sort b))"

end
