(* ===== verification/CsiStore.thy ===== *)
theory CsiStore
  imports CsiState
begin

section \<open>simplecsi: the contract of the Go interface State\<close>

text \<open>
  The interface \<open>state.State\<close> as a hierarchy of locales: what its methods promise to the
  handlers, in the form in which a handler uses it (one rule per call, the rest of the handler
  as the continuation \<open>f\<close>). \<open>contents\<close> is the abstract state (the resources), \<open>other\<close> is what
  the methods leave alone, \<open>ready\<close> says that the store is in order. The locales are
  interpreted on the methods of \<open>state.go\<close>: their laws are proved from the code, given an API
  server that does not fail (\<open>cm_reliable\<close>) and a memory that agrees with the ConfigMap
  (\<open>synced\<close>).
\<close>

subsection \<open>The interface\<close>

locale volume_store =
  fixes get_by_id :: "string \<Rightarrow> ('s, Volume) io"
    and get_by_name :: "string \<Rightarrow> ('s, Volume) io"
    and get_all :: "('s, Volume list) io"
    and update :: "Volume \<Rightarrow> ('s, unit) io"
    and delete :: "string \<Rightarrow> ('s, unit) io"
    and ready :: "'s \<Rightarrow> bool"
    and contents :: "'s \<Rightarrow> resources"
    and other :: "'s \<Rightarrow> 'x"
  assumes get_by_id_law: "ready s \<Longrightarrow> \<exists>t. ready t \<and> contents t = contents s \<and> other t = other s \<and>
      get_by_id k s = ((case find_by VolID k (Volumes (contents s)) of
         Some v \<Rightarrow> Inr v
       | None \<Rightarrow> Inl (Status NotFound (''volume id '' @ k @ '' does not exist in the volumes list''))), t)"
    and get_by_name_law: "ready s \<Longrightarrow> \<exists>t. ready t \<and> contents t = contents s \<and> other t = other s \<and>
      get_by_name n s = ((case find_by VolName n (Volumes (contents s)) of
         Some v \<Rightarrow> Inr v
       | None \<Rightarrow> Inl (Status NotFound (''volume name '' @ n @ '' does not exist in the volumes list''))), t)"
    and get_all_law: "ready s \<Longrightarrow> \<exists>t. ready t \<and> contents t = contents s \<and> other t = other s \<and>
      get_all s = (Inr (Volumes (contents s)), t)"
    and update_law: "ready s \<Longrightarrow> \<exists>t. ready t \<and> other t = other s \<and> update v s = (Inr (), t) \<and>
      contents t = (contents s)\<lparr>Volumes := upsert_by VolID v (Volumes (contents s))\<rparr>"
    and delete_law: "ready s \<Longrightarrow> \<exists>t. ready t \<and> other t = other s \<and> delete k s = (Inr (), t) \<and>
      contents t = (contents s)\<lparr>Volumes := remove_by VolID k (Volumes (contents s))\<rparr>"
begin

text \<open>Symbolic execution: a handler that calls a method goes on from a ready state.\<close>

lemma sx_get_by_id:
  assumes "ready s" "find_by VolID k (Volumes (contents s)) = Some v"
    and "\<And>t. ready t \<Longrightarrow> contents t = contents s \<Longrightarrow> other t = other s \<Longrightarrow> P (f v t)"
  shows "P (bindE (get_by_id k) f s)" "P (tryE (get_by_id k) h f s)"
  using get_by_id_law [OF assms(1), of k] assms(2,3) by (auto simp: bindE_Inr tryE_Inr)

lemma sx_get_by_id_missing:
  assumes "ready s" "find_by VolID k (Volumes (contents s)) = None"
    and "\<And>t m. ready t \<Longrightarrow> contents t = contents s \<Longrightarrow> other t = other s \<Longrightarrow> P (h (Status NotFound m) t)"
  shows "P (tryE (get_by_id k) h f s)"
  using get_by_id_law [OF assms(1), of k] assms(2,3) by (auto simp: tryE_Inl)

lemma sx_get_by_name:
  assumes "ready s" "find_by VolName n (Volumes (contents s)) = Some v"
    and "\<And>t. ready t \<Longrightarrow> contents t = contents s \<Longrightarrow> other t = other s \<Longrightarrow> P (f v t)"
  shows "P (tryE (get_by_name n) h f s)"
  using get_by_name_law [OF assms(1), of n] assms(2,3) by (auto simp: tryE_Inr)

lemma sx_get_by_name_missing:
  assumes "ready s" "find_by VolName n (Volumes (contents s)) = None"
    and "\<And>t m. ready t \<Longrightarrow> contents t = contents s \<Longrightarrow> other t = other s \<Longrightarrow> P (h (Status NotFound m) t)"
  shows "P (tryE (get_by_name n) h f s)"
  using get_by_name_law [OF assms(1), of n] assms(2,3) by (auto simp: tryE_Inl)

lemma sx_get_all:
  assumes "ready s"
    and "\<And>t. ready t \<Longrightarrow> contents t = contents s \<Longrightarrow> other t = other s \<Longrightarrow> P (f (Volumes (contents s)) t)"
  shows "P (bindE get_all f s)"
  using get_all_law [OF assms(1)] assms(2) by (auto simp: bindE_Inr)

lemma sx_update:
  assumes "ready s"
    and "\<And>t. ready t \<Longrightarrow> contents t = (contents s)\<lparr>Volumes := upsert_by VolID v (Volumes (contents s))\<rparr> \<Longrightarrow>
           other t = other s \<Longrightarrow> P (f () t)"
  shows "P (bindE (update v) f s)" "P (tryE (update v) h f s)"
  using update_law [OF assms(1), of v] assms(2) by (auto simp: bindE_Inr tryE_Inr)

lemma sx_delete:
  assumes "ready s"
    and "\<And>t. ready t \<Longrightarrow> contents t = (contents s)\<lparr>Volumes := remove_by VolID k (Volumes (contents s))\<rparr> \<Longrightarrow>
           other t = other s \<Longrightarrow> P (f () t)"
  shows "P (bindE (delete k) f s)" "P (tryE (delete k) h f s)"
  using delete_law [OF assms(1), of k] assms(2) by (auto simp: bindE_Inr tryE_Inr)

text \<open>Read your writes, and deletion.\<close>

lemma update_then_get:
  "ready s \<Longrightarrow> \<exists>t. bindE (update v) (\<lambda>_. get_by_id (VolID v)) s = (Inr v, t) \<and> ready t \<and>
     contents t = (contents s)\<lparr>Volumes := upsert_by VolID v (Volumes (contents s))\<rparr>"
  using get_by_id_law [of _ "VolID v"]
  by (rule_tac sx_update(1)) (fastforce simp: find_by_upsert)+

lemma delete_then_get:
  assumes "ready s" "distinct (map VolID (Volumes (contents s)))"
  shows "\<exists>m t. bindE (delete k) (\<lambda>_. get_by_id k) s = (Inl (Status NotFound m), t)"
  by (rule sx_delete(1) [OF assms(1)], frule get_by_id_law [of _ k])
     (auto simp: find_by_remove assms(2))

lemma delete_keeps_others:
  assumes "ready s" "distinct (map VolID (Volumes (contents s)))" "j \<noteq> k"
    and "find_by VolID j (Volumes (contents s)) = Some v"
  shows "\<exists>t. bindE (delete k) (\<lambda>_. get_by_id j) s = (Inr v, t)"
  by (rule sx_delete(1) [OF assms(1)], frule get_by_id_law [of _ j])
     (auto simp: find_by_remove assms)

end

locale snapshot_store = volume_store get_by_id get_by_name get_all update delete ready contents other
  for get_by_id :: "string \<Rightarrow> ('s, Volume) io" and get_by_name get_all update delete
    and ready :: "'s \<Rightarrow> bool" and contents and other :: "'s \<Rightarrow> 'x" +
  fixes snap_update :: "Snapshot \<Rightarrow> ('s, unit) io"
    and snap_delete :: "string \<Rightarrow> ('s, unit) io"
    and group_update :: "GroupSnapshot \<Rightarrow> ('s, unit) io"
    and group_delete :: "string \<Rightarrow> ('s, unit) io"
  assumes snap_update_law: "ready s \<Longrightarrow> \<exists>t. ready t \<and> other t = other s \<and> snap_update x s = (Inr (), t) \<and>
      contents t = (contents s)\<lparr>Snapshots := upsert_by SnapId x (Snapshots (contents s))\<rparr>"
    and snap_delete_law: "ready s \<Longrightarrow> \<exists>t. ready t \<and> other t = other s \<and> snap_delete k s = (Inr (), t) \<and>
      contents t = (contents s)\<lparr>Snapshots := remove_by SnapId k (Snapshots (contents s))\<rparr>"
    and group_update_law: "ready s \<Longrightarrow> \<exists>t. ready t \<and> other t = other s \<and> group_update g s = (Inr (), t) \<and>
      contents t = (contents s)\<lparr>GroupSnapshots := upsert_by GroupId g (GroupSnapshots (contents s))\<rparr>"
    and group_delete_law: "ready s \<Longrightarrow> \<exists>t. ready t \<and> other t = other s \<and> group_delete k s = (Inr (), t) \<and>
      contents t = (contents s)\<lparr>GroupSnapshots := remove_by GroupId k (GroupSnapshots (contents s))\<rparr>"
begin

lemma sx_snap_update:
  assumes "ready s"
    and "\<And>t. ready t \<Longrightarrow> contents t = (contents s)\<lparr>Snapshots := upsert_by SnapId x (Snapshots (contents s))\<rparr> \<Longrightarrow>
           other t = other s \<Longrightarrow> P (f () t)"
  shows "P (bindE (snap_update x) f s)" "P (tryE (snap_update x) h f s)"
  using snap_update_law [OF assms(1), of x] assms(2) by (auto simp: bindE_Inr tryE_Inr)

lemma sx_snap_delete:
  assumes "ready s"
    and "\<And>t. ready t \<Longrightarrow> contents t = (contents s)\<lparr>Snapshots := remove_by SnapId k (Snapshots (contents s))\<rparr> \<Longrightarrow>
           other t = other s \<Longrightarrow> P (f () t)"
  shows "P (bindE (snap_delete k) f s)"
  using snap_delete_law [OF assms(1), of k] assms(2) by (auto simp: bindE_Inr)

lemma sx_group_update:
  assumes "ready s"
    and "\<And>t. ready t \<Longrightarrow> contents t = (contents s)\<lparr>GroupSnapshots := upsert_by GroupId g (GroupSnapshots (contents s))\<rparr> \<Longrightarrow>
           other t = other s \<Longrightarrow> P (f () t)"
  shows "P (bindE (group_update g) f s)"
  using group_update_law [OF assms(1), of g] assms(2) by (auto simp: bindE_Inr)

lemma sx_group_delete:
  assumes "ready s"
    and "\<And>t. ready t \<Longrightarrow> contents t = (contents s)\<lparr>GroupSnapshots := remove_by GroupId k (GroupSnapshots (contents s))\<rparr> \<Longrightarrow>
           other t = other s \<Longrightarrow> P (f () t)"
  shows "P (bindE (group_delete k) f s)"
  using group_delete_law [OF assms(1), of k] assms(2) by (auto simp: bindE_Inr)

end

subsection \<open>When the store is in order\<close>

text \<open>
  The ConfigMap API of a server that does not fail, in terms of what it holds: a Get returns
  the object or NotFound, Create works on an absent object, Update on a present one.
\<close>

definition cm_reliable :: "('c, 'o) env \<Rightarrow> bool" where
  "cm_reliable E \<longleftrightarrow>
     (\<forall>ns n c. cm_view E c (ns, n) = None \<longrightarrow>
        (\<exists>m c'. cm_get E ns n c = (Inl (ApiNotFound m), c') \<and> cm_view E c' = cm_view E c)) \<and>
     (\<forall>ns n c cm. cm_view E c (ns, n) = Some cm \<longrightarrow>
        (\<exists>c'. cm_get E ns n c = (Inr cm, c') \<and> cm_view E c' = cm_view E c)) \<and>
     (\<forall>ns n c cm. cm_view E c (ns, n) = None \<longrightarrow>
        (\<exists>c'. cm_create E ns n cm c = (Inr (), c') \<and> cm_view E c' = (cm_view E c)((ns, n) \<mapsto> cm))) \<and>
     (\<forall>ns n c cm. cm_view E c (ns, n) \<noteq> None \<longrightarrow>
        (\<exists>c'. cm_update E ns n cm c = (Inr (), c') \<and> cm_view E c' = (cm_view E c)((ns, n) \<mapsto> cm)))"

definition stored :: "('c, 'o) env \<Rightarrow> 'c \<Rightarrow> string" where
  "stored E c = (case cm_view E c (''default'', StateConfigmapName) of None \<Rightarrow> []
     | Some cm \<Rightarrow> (case cm StateVolumeKey of None \<Rightarrow> [] | Some d \<Rightarrow> d))"

definition synced :: "('c, 'o) env \<Rightarrow> ('c, 'o) driver \<Rightarrow> bool" where
  "synced E s \<longleftrightarrow> (if stored E (cmw s) = [] then res s = empty_resources
                    else stored E (cmw s) = marshal (res s))"

definition store_ready :: "('c, 'o) env \<Rightarrow> ('c, 'o) driver \<Rightarrow> bool" where
  "store_ready E s \<longleftrightarrow> cm_reliable E \<and> synced E s"

definition driver_other :: "('c, 'o) driver \<Rightarrow> string \<times> bool \<times> 'o" where
  "driver_other s = (statefilePath s, HasClient s, osw s)"

lemma get_data_reliable:
  assumes "cm_reliable E"
  shows "\<exists>c'. GetConfigmapData E StateConfigmapName ''default'' StateVolumeKey s =
      (Inr (stored E (cmw s)), s\<lparr>cmw := c'\<rparr>) \<and> cm_view E c' = cm_view E (cmw s)"
proof (cases "cm_view E (cmw s) (''default'', StateConfigmapName)")
  case None
  with assms obtain m c' where "cm_get E ''default'' StateConfigmapName (cmw s) = (Inl (ApiNotFound m), c')"
    and "cm_view E c' = cm_view E (cmw s)" unfolding cm_reliable_def by blast
  with None show ?thesis
    by (intro exI [of _ c']) (simp add: GetConfigmapData_def tryE_apply call_cm_def stored_def)
next
  case (Some cm)
  with assms obtain c' where "cm_get E ''default'' StateConfigmapName (cmw s) = (Inr cm, c')"
    and "cm_view E c' = cm_view E (cmw s)" unfolding cm_reliable_def by blast
  with Some show ?thesis
    by (intro exI [of _ c']) (simp add: GetConfigmapData_def tryE_apply call_cm_def stored_def)
qed

lemma stored_view: "cm_view E c' = cm_view E c \<Longrightarrow> stored E c' = stored E c"
  by (simp add: stored_def)

lemma restore_ready:
  assumes "store_ready E s"
  shows "\<exists>c'. restore E s = (Inr (), s\<lparr>cmw := c'\<rparr>) \<and> store_ready E (s\<lparr>cmw := c'\<rparr>)"
proof -
  let ?s0 = "s\<lparr>res := (res s)\<lparr>Volumes := [], Snapshots := []\<rparr>\<rparr>"
  from assms have rel: "cm_reliable E" and syn: "synced E s" by (simp_all add: store_ready_def)
  obtain c' where g: "GetConfigmapData E StateConfigmapName ''default'' StateVolumeKey ?s0 =
      (Inr (stored E (cmw s)), ?s0\<lparr>cmw := c'\<rparr>)" and v: "cm_view E c' = cm_view E (cmw s)"
    using get_data_reliable [OF rel, of ?s0] by auto
  have st: "stored E c' = stored E (cmw s)" by (rule stored_view [OF v])
  show ?thesis
  proof (cases "stored E (cmw s) = []")
    case True
    then have "?s0\<lparr>cmw := c'\<rparr> = s\<lparr>cmw := c'\<rparr>" using syn by (simp add: synced_def empty_resources_def)
    then show ?thesis using g True assms st
      by (intro exI [of _ c']) (simp add: restore_def bindE_apply synced_def store_ready_def)
  next
    case False
    then have "stored E (cmw s) = marshal (res s)" using syn by (simp add: synced_def)
    then show ?thesis using g st rel
      by (intro exI [of _ c']) (simp add: restore_def bindE_apply synced_def store_ready_def)
  qed
qed

text \<open>A reload takes whatever text is there.\<close>

lemma restore_from_text:
  assumes "cm_reliable E" "stored E (cmw s) = marshal r"
  shows "\<exists>c'. restore E s = (Inr (), s\<lparr>cmw := c', res := r\<rparr>) \<and> store_ready E (s\<lparr>cmw := c', res := r\<rparr>)"
proof -
  let ?s0 = "s\<lparr>res := (res s)\<lparr>Volumes := [], Snapshots := []\<rparr>\<rparr>"
  obtain c' where g: "GetConfigmapData E StateConfigmapName ''default'' StateVolumeKey ?s0 =
      (Inr (stored E (cmw s)), ?s0\<lparr>cmw := c'\<rparr>)" and v: "cm_view E c' = cm_view E (cmw s)"
    using get_data_reliable [OF assms(1), of ?s0] by auto
  have "stored E c' = stored E (cmw s)" by (rule stored_view [OF v])
  then show ?thesis using g assms
    by (intro exI [of _ c']) (simp add: restore_def bindE_apply synced_def store_ready_def)
qed

lemma dump_ready:
  assumes "cm_reliable E"
  shows "\<exists>c'. dump E s = (Inr (), s\<lparr>cmw := c'\<rparr>) \<and> store_ready E (s\<lparr>cmw := c'\<rparr>)"
proof -
  let ?k = "(''default'', StateConfigmapName)" and ?d = "marshal (res s)"
  show ?thesis
  proof (cases "cm_view E (cmw s) ?k")
    case None
    with assms obtain m c1 where g: "cm_get E ''default'' StateConfigmapName (cmw s) = (Inl (ApiNotFound m), c1)"
      and v: "cm_view E c1 = cm_view E (cmw s)" unfolding cm_reliable_def by blast
    from None v assms obtain c2 where
      u: "cm_create E ''default'' StateConfigmapName [StateVolumeKey \<mapsto> ?d] c1 = (Inr (), c2)"
      and v2: "cm_view E c2 = (cm_view E c1)(?k \<mapsto> [StateVolumeKey \<mapsto> ?d])"
      unfolding cm_reliable_def by metis
    from g u v2 show ?thesis
      by (intro exI [of _ c2]) (simp add: dump_def CreateOrUpdateConfigmap_def io_simps call_cm_def
          store_ready_def synced_def stored_def assms)
  next
    case (Some cm)
    with assms obtain c1 where g: "cm_get E ''default'' StateConfigmapName (cmw s) = (Inr cm, c1)"
      and v: "cm_view E c1 = cm_view E (cmw s)" unfolding cm_reliable_def by blast
    from Some v have "cm_view E c1 ?k \<noteq> None" by simp
    with assms obtain c2 where
      u: "cm_update E ''default'' StateConfigmapName (cm(StateVolumeKey \<mapsto> ?d)) c1 = (Inr (), c2)"
      and v2: "cm_view E c2 = (cm_view E c1)(?k \<mapsto> cm(StateVolumeKey \<mapsto> ?d))"
      unfolding cm_reliable_def by blast
    from g u v2 show ?thesis
      by (intro exI [of _ c2]) (simp add: dump_def CreateOrUpdateConfigmap_def io_simps call_cm_def
          store_ready_def synced_def stored_def assms)
  qed
qed

text \<open>The two steps as rules, for the methods below.\<close>

lemma sx_restore:
  assumes "store_ready E s" "\<And>c'. store_ready E (s\<lparr>cmw := c'\<rparr>) \<Longrightarrow> P (f () (s\<lparr>cmw := c'\<rparr>))"
  shows "P (bindE (restore E) f s)" "P (tryE (restore E) h f s)"
  using restore_ready [OF assms(1)] assms(2) by (auto simp: bindE_Inr tryE_Inr)

lemma dump_after:
  assumes "cm_reliable E"
  obtains c' where "dump E s = (Inr (), s\<lparr>cmw := c'\<rparr>)" "store_ready E (s\<lparr>cmw := c'\<rparr>)"
  using dump_ready [OF assms] by blast

lemma store_ready_reliable: "store_ready E s \<Longrightarrow> cm_reliable E"
  by (simp add: store_ready_def)

lemmas method_defs = io_simps state_access driver_other_def

subsection \<open>The methods of state.go keep the contract\<close>

text \<open>Every write method ends in the same way: new resources, then \<open>dump\<close>.\<close>

lemma write_dump:
  assumes "cm_reliable E"
  shows "\<exists>t. store_ready E t \<and> driver_other t = driver_other s \<and> dump E s = (Inr (), t) \<and> res t = res s"
  by (rule dump_after [OF assms, of s]) (auto simp: driver_other_def)

lemma state_get_by_id:
  assumes "store_ready E s"
  shows "\<exists>t. store_ready E t \<and> res t = res s \<and> driver_other t = driver_other s \<and>
    GetVolumeByID E k s = ((case find_by VolID k (Volumes (res s)) of
         Some v \<Rightarrow> Inr v
       | None \<Rightarrow> Inl (Status NotFound (''volume id '' @ k @ '' does not exist in the volumes list''))), t)"
  unfolding GetVolumeByID_def
  by (rule sx_restore(1) [OF assms], rule exI, rule conjI, assumption)
     (auto simp: method_defs split: option.splits)

lemma state_get_by_name:
  assumes "store_ready E s"
  shows "\<exists>t. store_ready E t \<and> res t = res s \<and> driver_other t = driver_other s \<and>
    GetVolumeByName E k s = ((case find_by VolName k (Volumes (res s)) of
         Some v \<Rightarrow> Inr v
       | None \<Rightarrow> Inl (Status NotFound (''volume name '' @ k @ '' does not exist in the volumes list''))), t)"
  unfolding GetVolumeByName_def
  by (rule sx_restore(1) [OF assms], rule exI, rule conjI, assumption)
     (auto simp: method_defs split: option.splits)

lemma state_get_all:
  assumes "store_ready E s"
  shows "\<exists>t. store_ready E t \<and> res t = res s \<and> driver_other t = driver_other s \<and>
    GetVolumes E s = (Inr (Volumes (res s)), t)"
  unfolding GetVolumes_def
  by (rule sx_restore(2) [OF assms], rule exI, rule conjI, assumption) (simp add: method_defs)

lemma state_update:
  assumes "store_ready E s"
  shows "\<exists>t. store_ready E t \<and> driver_other t = driver_other s \<and> UpdateVolume E v s = (Inr (), t) \<and>
    res t = (res s)\<lparr>Volumes := upsert_by VolID v (Volumes (res s))\<rparr>"
proof -
  have rel: "cm_reliable E" using assms by (rule store_ready_reliable)
  show ?thesis unfolding UpdateVolume_def bindE_assoc
  proof (subst bindE_def, rule sx_restore(2) [OF assms])
    fix c' let ?t = "s\<lparr>cmw := c', res := (res s)\<lparr>Volumes := upsert_by VolID v (Volumes (res s))\<rparr>\<rparr>"
    show "\<exists>t. store_ready E t \<and> driver_other t = driver_other s \<and>
        (case ret () (s\<lparr>cmw := c'\<rparr>) of (Inl e, s') \<Rightarrow> (Inl e, s')
         | (Inr x, s') \<Rightarrow> bindE getVolumes (\<lambda>vs. bindE (setVolumes (upsert_by VolID v vs)) (\<lambda>_. dump E)) s') =
          (Inr (), t) \<and> res t = (res s)\<lparr>Volumes := upsert_by VolID v (Volumes (res s))\<rparr>"
      using write_dump [OF rel, of ?t] by (auto simp: method_defs)
  qed
qed

lemma state_delete:
  assumes "store_ready E s"
  shows "\<exists>t. store_ready E t \<and> driver_other t = driver_other s \<and> DeleteVolume_state E k s = (Inr (), t) \<and>
    res t = (res s)\<lparr>Volumes := remove_by VolID k (Volumes (res s))\<rparr>"
proof -
  have rel: "cm_reliable E" using assms by (rule store_ready_reliable)
  show ?thesis unfolding DeleteVolume_state_def
  proof (rule sx_restore(1) [OF assms])
    fix c' assume r: "store_ready E (s\<lparr>cmw := c'\<rparr>)"
    let ?t = "s\<lparr>cmw := c', res := (res s)\<lparr>Volumes := remove_by VolID k (Volumes (res s))\<rparr>\<rparr>"
    show "\<exists>t. store_ready E t \<and> driver_other t = driver_other s \<and>
        bindE getVolumes (\<lambda>vs. case find_by VolID k vs of None \<Rightarrow> ret ()
          | Some _ \<Rightarrow> bindE (setVolumes (remove_by VolID k vs)) (\<lambda>_. dump E)) (s\<lparr>cmw := c'\<rparr>) = (Inr (), t) \<and>
        res t = (res s)\<lparr>Volumes := remove_by VolID k (Volumes (res s))\<rparr>"
      using write_dump [OF rel, of ?t] r
      by (cases "find_by VolID k (Volumes (res s))") (auto simp: method_defs remove_by_absent)
  qed
qed

lemma state_snap_update:
  assumes "store_ready E s"
  shows "\<exists>t. store_ready E t \<and> driver_other t = driver_other s \<and> UpdateSnapshot E x s = (Inr (), t) \<and>
    res t = (res s)\<lparr>Snapshots := upsert_by SnapId x (Snapshots (res s))\<rparr>"
  using write_dump [OF store_ready_reliable [OF assms],
      of "s\<lparr>res := (res s)\<lparr>Snapshots := upsert_by SnapId x (Snapshots (res s))\<rparr>\<rparr>"]
  by (auto simp: UpdateSnapshot_def method_defs)

lemma state_snap_delete:
  assumes "store_ready E s"
  shows "\<exists>t. store_ready E t \<and> driver_other t = driver_other s \<and> DeleteSnapshot_state E k s = (Inr (), t) \<and>
    res t = (res s)\<lparr>Snapshots := remove_by SnapId k (Snapshots (res s))\<rparr>"
  using write_dump [OF store_ready_reliable [OF assms],
      of "s\<lparr>res := (res s)\<lparr>Snapshots := remove_by SnapId k (Snapshots (res s))\<rparr>\<rparr>"] assms
  by (cases "find_by SnapId k (Snapshots (res s))")
     (auto simp: DeleteSnapshot_state_def method_defs remove_by_absent)

lemma state_group_update:
  assumes "store_ready E s"
  shows "\<exists>t. store_ready E t \<and> driver_other t = driver_other s \<and> UpdateGroupSnapshot E x s = (Inr (), t) \<and>
    res t = (res s)\<lparr>GroupSnapshots := upsert_by GroupId x (GroupSnapshots (res s))\<rparr>"
  using write_dump [OF store_ready_reliable [OF assms],
      of "s\<lparr>res := (res s)\<lparr>GroupSnapshots := upsert_by GroupId x (GroupSnapshots (res s))\<rparr>\<rparr>"]
  by (auto simp: UpdateGroupSnapshot_def method_defs)

lemma state_group_delete:
  assumes "store_ready E s"
  shows "\<exists>t. store_ready E t \<and> driver_other t = driver_other s \<and> DeleteGroupSnapshot_state E k s = (Inr (), t) \<and>
    res t = (res s)\<lparr>GroupSnapshots := remove_by GroupId k (GroupSnapshots (res s))\<rparr>"
  using write_dump [OF store_ready_reliable [OF assms],
      of "s\<lparr>res := (res s)\<lparr>GroupSnapshots := remove_by GroupId k (GroupSnapshots (res s))\<rparr>\<rparr>"] assms
  by (cases "find_by GroupId k (GroupSnapshots (res s))")
     (auto simp: DeleteGroupSnapshot_state_def method_defs remove_by_absent)

interpretation st: snapshot_store "GetVolumeByID E" "GetVolumeByName E" "GetVolumes E" "UpdateVolume E"
    "DeleteVolume_state E" "store_ready E" res driver_other "UpdateSnapshot E" "DeleteSnapshot_state E"
    "UpdateGroupSnapshot E" "DeleteGroupSnapshot_state E" for E :: "('c, 'o) env"
  by unfold_locales (fact state_get_by_id state_get_by_name state_get_all state_update state_delete
      state_snap_update state_snap_delete state_group_update state_group_delete)+

text \<open>Calls on the rest of the world do not touch the store.\<close>

lemma store_ready_osw [simp]: "store_ready E (s\<lparr>osw := w\<rparr>) = store_ready E s"
  by (simp add: store_ready_def synced_def)

lemma store_ready_client [simp]: "store_ready E (s\<lparr>HasClient := b\<rparr>) = store_ready E s"
  by (simp add: store_ready_def synced_def)

end
