(* ===== verification/CsiHostpath.thy ===== *)
theory CsiHostpath
  imports CsiStore
begin

section \<open>simplecsi: the hostpath operations (pkg/hostpath, CreateJob of pkg/k8sclient)\<close>

text \<open>
  The operations behind the gRPC handlers: flags and snapshot options (flag.go, options.go),
  the job that runs a command on a node (k8s.go), creation, deletion, cloning and snapshots of
  volumes and their accounting (hostpath.go), and the health checks (healthcheck.go). Log
  output is left out.
\<close>

subsection \<open>flag.go\<close>

definition capacity_value :: "Capacity \<Rightarrow> string \<Rightarrow> int64" where
  "capacity_value c k = (case map_of c k of None \<Rightarrow> 0 | Some q \<Rightarrow> q)"

text \<open>\<open>parse\<close> is \<open>resource.ParseQuantity\<close> followed by \<open>Value\<close>.\<close>

definition Capacity_Set :: "(string \<Rightarrow> goerr + int64) \<Rightarrow> string \<Rightarrow> Capacity \<Rightarrow> goerr + Capacity" where
  "Capacity_Set parse arg c =
     (case split2 arg ''='' of
        None \<Rightarrow> Inl (Plain ''must be of format <type>=<size>'')
      | Some (k, v) \<Rightarrow>
          (case parse v of Inl e \<Rightarrow> Inl e
           | Inr q \<Rightarrow> Inr ((k, q) # filter (\<lambda>(k', _). k' \<noteq> k) c)))"

definition Capacity_Enabled :: "Capacity \<Rightarrow> bool" where
  "Capacity_Enabled c \<longleftrightarrow> length c > 0"

definition StringArray_Set :: "string \<Rightarrow> string list \<Rightarrow> string list" where
  "StringArray_Set value s = s @ map TrimSpace (split_char (CHR '','') value)"

subsection \<open>options.go\<close>

definition IgnoreFailedReadParameterName :: string where
  "IgnoreFailedReadParameterName = ''ignoreFailedRead''"

definition param :: "(string \<rightharpoonup> string) \<Rightarrow> string \<Rightarrow> string" where
  "param m k = (case m k of None \<Rightarrow> [] | Some v \<Rightarrow> v)"

definition OptionsFromParameters :: "Volume \<Rightarrow> (string \<rightharpoonup> string) \<Rightarrow> goerr + string list" where
  "OptionsFromParameters vol parameters =
     (if VolAccessType vol = BlockAccess then Inr []
      else let v = param parameters IgnoreFailedReadParameterName in
        if length v = 0 then Inr []
        else (case ParseBool v of
           None \<Rightarrow> Inl (Plain (''invalid value for '' @ dquote IgnoreFailedReadParameterName @
                    '', expected boolean but was '' @ dquote v))
         | Some True \<Rightarrow> Inr [''--ignore-failed-read'']
         | Some False \<Rightarrow> Inr []))"

subsection \<open>k8sclient: the client and the job\<close>

definition GetKubernetesClient :: "('c, 'o) env \<Rightarrow> ('c, 'o, unit) csi" where
  "GetKubernetesClient E =
     bindE (call_txt (in_cluster_config E)) (\<lambda>_. call_txt (new_for_config E))"

definition ensure_client :: "('c, 'o) env \<Rightarrow> ('c, 'o, unit) csi" where
  "ensure_client E = bindE (getS HasClient) (\<lambda>has.
     if has then ret ()
     else bindE (GetKubernetesClient E) (\<lambda>_. modS (\<lambda>s. s\<lparr>HasClient := True\<rparr>)))"

text \<open>
  The polling loop: at most ten rounds; an error of a round is remembered and returned only
  when no round succeeds; a job that never completes without such an error is no error.
\<close>

primrec job_poll ::
  "('c, 'o) env \<Rightarrow> string \<Rightarrow> string \<Rightarrow> string \<Rightarrow> nat \<Rightarrow> goerr option \<Rightarrow> ('c, 'o, string) csi" where
  "job_poll E name namespace nodeName 0 lastErr =
     (case lastErr of None \<Rightarrow> ret nodeName | Some e \<Rightarrow> fail e)"
| "job_poll E name namespace nodeName (Suc n) lastErr =
     bindE (call_o (select_tick E)) (\<lambda>tick.
     if \<not> tick then job_poll E name namespace nodeName n lastErr
     else tryE (call_kube (job_get E namespace name))
       (\<lambda>e. job_poll E name namespace nodeName n (Some e))
       (\<lambda>conditions.
          if conditions \<noteq> [] \<and> last conditions = ''Complete'' then
            tryE (call_kube (pod_list E namespace (''job-name='' @ name)))
              (\<lambda>e. job_poll E name namespace nodeName n (Some e))
              (\<lambda>pods. case find (\<lambda>p. PodPhase p = ''Succeeded'') pods of
                 Some p \<Rightarrow> ret (PodNodeName p)
               | None \<Rightarrow> job_poll E name namespace nodeName n lastErr)
          else job_poll E name namespace nodeName n lastErr))"

definition CreateJob ::
  "('c, 'o) env \<Rightarrow> string \<Rightarrow> string \<Rightarrow> string \<Rightarrow> string \<Rightarrow> string \<Rightarrow> string list \<Rightarrow> ('c, 'o, string) csi" where
  "CreateJob E name namespace mountpath nodeName img cmd =
     bindE (call_kube (job_create E \<lparr>JobName = name, JobNamespace = namespace, JobImage = img,
        JobCommand = [''nsenter'', ''--target'', ''1'', ''--mount'', ''--uts'', ''--ipc'', ''--net'',
          ''--pid'', ''--''] @ cmd, JobNodeName = nodeName, JobTTL = 120\<rparr>)) (\<lambda>_.
     job_poll E name namespace nodeName 10 None)"

definition linux_utils :: string where
  "linux_utils = ''aiops-8af5363b.ecis.huhehaote-1.cmecloud.cn/kosmos/openebs/linux-utils:3.3.0''"

subsection \<open>hostpath.go: paths and accounting\<close>

definition HostPathGetVolumePath :: "Config \<Rightarrow> string \<Rightarrow> string" where
  "HostPathGetVolumePath cfg volID = Join [StateDir cfg, volID]"

definition GetSnapshotPath :: "Config \<Rightarrow> string \<Rightarrow> string" where
  "GetSnapshotPath cfg snapshotID = Join [StateDir cfg, snapshotID @ SnapshotExt]"

fun sum_sizes :: "string \<Rightarrow> Volume list \<Rightarrow> int64 \<Rightarrow> int64" where
  "sum_sizes kind [] acc = acc"
| "sum_sizes kind (v # vs) acc =
     sum_sizes kind vs (if Kind v = kind then acc + VolSize v else acc)"

definition SumVolumeSizes :: "('c, 'o) env \<Rightarrow> string \<Rightarrow> ('c, 'o, int64) csi" where
  "SumVolumeSizes E kind = bindE (GetVolumes E) (\<lambda>vs. ret (sum_sizes kind vs 0))"

fun count_attached :: "Volume list \<Rightarrow> int64 \<Rightarrow> int64" where
  "count_attached [] n = n"
| "count_attached (v # vs) n = count_attached vs (if Attached v then n + 1 else n)"

definition GetAttachCount :: "('c, 'o) env \<Rightarrow> ('c, 'o, int64) csi" where
  "GetAttachCount E = bindE (GetVolumes E) (\<lambda>vs. ret (count_attached vs 0))"

subsection \<open>hostpath.go: creating a volume\<close>

text \<open>The loop over the configured kinds, in the order the run-time picks.\<close>

primrec pick_kind :: "('c, 'o) env \<Rightarrow> Config \<Rightarrow> int64 \<Rightarrow> string list \<Rightarrow> ('c, 'o, string) csi" where
  "pick_kind E cfg cap [] = ret []"
| "pick_kind E cfg cap (k # ks) =
     bindE (SumVolumeSizes E k) (\<lambda>used.
     if le64 (used + cap) (capacity_value (CfgCapacity cfg) k) then ret k
     else pick_kind E cfg cap ks)"

definition choose_kind :: "('c, 'o) env \<Rightarrow> Config \<Rightarrow> int64 \<Rightarrow> string \<Rightarrow> ('c, 'o, string) csi" where
  "choose_kind E cfg cap kind0 =
     (if Capacity_Enabled (CfgCapacity cfg) then
        bindE (if kind0 = [] then
                 bindE (call_o (range_keys E (map fst (CfgCapacity cfg)))) (pick_kind E cfg cap)
               else ret kind0) (\<lambda>kind.
        require (kind \<noteq> []) (Status ResourceExhausted (''requested capacity '' @ itoa (sint cap) @
            '' of arbitrary storage exceeds all remaining capacity'')) (
        bindE (SumVolumeSizes E kind) (\<lambda>used.
        let available = capacity_value (CfgCapacity cfg) kind in
        require (le64 (used + cap) available) (Status ResourceExhausted
           (''requested capacity '' @ itoa (sint cap) @ '' exceeds remaining capacity for '' @
            dquote kind @ '', '' @ qty_string E used @ '' out of '' @ qty_string E available @
            '' already used'')) (ret kind))))
      else if kind0 \<noteq> [] then fail (Status InvalidArgument
          (''capacity tracking disabled, specifying kind '' @ dquote kind0 @ '' is invalid''))
      else ret kind0)"

definition create_block_file :: "('c, 'o) env \<Rightarrow> string \<Rightarrow> int64 \<Rightarrow> ('c, 'o, unit) csi" where
  "create_block_file E path cap =
     tryE (call_os (os_stat E path))
       (\<lambda>err. if IsNotExist err then
            bindE (call_o (run_cmd E [''fallocate'', ''-l'',
               itoa (sint (quot64 cap (word_of_int Mib))) @ ''M'', path])) (\<lambda>(out, e).
            case e of None \<Rightarrow> ret ()
            | Some t \<Rightarrow> fail (Plain (''failed to create block device: '' @ t @ '', '' @ out)))
          else fail (Plain (''failed to stat block device: '' @ path @ '', '' @ err_text err)))
       (\<lambda>_. ret ())"

text \<open>The switch over the access type: what backs the volume, and the node it is on.\<close>

definition make_backing ::
  "('c, 'o) env \<Rightarrow> string \<Rightarrow> string \<Rightarrow> string \<Rightarrow> int64 \<Rightarrow> AccessType \<Rightarrow> ('c, 'o, string) csi" where
  "make_backing E path basepath pvname cap volAccessType =
     (if volAccessType = MountAccess then
        bindE (ensure_client E) (\<lambda>_.
        CreateJob E pvname ''default'' basepath [] linux_utils [''mkdir'', ''-p'', Join [basepath, path]])
      else if volAccessType = BlockAccess then
        bindE (create_block_file E path cap) (\<lambda>_.
        tryE (call_txt (loop_attach E path))
          (\<lambda>err. bindE (tryE (call_os (os_remove E path)) (\<lambda>_. ret ()) (\<lambda>_. ret ())) (\<lambda>_.
             fail (Plain (''failed to attach device '' @ path @ '': '' @ err_text err))))
          (\<lambda>_. ret []))
      else fail (Plain (''unsupported access type '' @ itoa (sint volAccessType))))"

definition HostPathCreateVolume ::
  "('c, 'o) env \<Rightarrow> Config \<Rightarrow> string \<Rightarrow> string \<Rightarrow> string \<Rightarrow> string \<Rightarrow> int64 \<Rightarrow> AccessType \<Rightarrow> bool \<Rightarrow> string \<Rightarrow>
     ('c, 'o, Volume) csi" where
  "HostPathCreateVolume E cfg volID name basepath pvname cap volAccessType ephemeral kind0 =
     require (le64 cap (MaxVolumeSize cfg)) (Status OutOfRange (''Requested capacity '' @
        itoa (sint cap) @ '' exceeds maximum allowed '' @ itoa (sint (MaxVolumeSize cfg)))) (
     bindE (choose_kind E cfg cap kind0) (\<lambda>kind.
     let path = HostPathGetVolumePath cfg volID in
     bindE (make_backing E path basepath pvname cap volAccessType) (\<lambda>nodeName.
     let volume = \<lparr>VolName = name, VolID = volID, VolSize = cap, VolPath = path,
           VolAccessType = volAccessType, ParentVolID = [], ParentSnapID = [],
           Ephemeral = ephemeral, NodeID = [], Kind = kind, ReadOnlyAttach = False,
           Attached = False, VolumeNode = nodeName, Staged = [], Published = []\<rparr> in
     bindE (UpdateVolume E volume) (\<lambda>_. ret volume))))"

definition HostPathDeleteVolume :: "('c, 'o) env \<Rightarrow> Config \<Rightarrow> string \<Rightarrow> ('c, 'o, unit) csi" where
  "HostPathDeleteVolume E cfg volID =
     tryE (GetVolumeByID E volID) (\<lambda>_. ret ()) (\<lambda>vol.
     let path = HostPathGetVolumePath cfg volID in
     bindE (if VolAccessType vol = BlockAccess then
              tryE (call_txt (loop_detach E path))
                (\<lambda>err. fail (Plain (''failed to remove loop device for file '' @ path @ '': '' @ err_text err)))
                ret
            else ret ()) (\<lambda>_.
     bindE (tryE (call_os (os_remove_all E path))
              (\<lambda>err. if \<not> IsNotExist err then fail err else ret ()) ret) (\<lambda>_.
     DeleteVolume_state E volID)))"

subsection \<open>hostpath.go: populating a volume and taking snapshots\<close>

definition HostPathIsEmpty :: "('c, 'o) env \<Rightarrow> string \<Rightarrow> ('c, 'o, bool) csi" where
  "HostPathIsEmpty E p =
     tryE (call_os (os_readdir1 E p))
       (\<lambda>err. fail (Plain (''unable to open hostpath volume, error: '' @ err_text err)))
       (\<lambda>r. case r of Inl err \<Rightarrow> fail (Os err) | Inr eof \<Rightarrow> ret eof)"

definition HostPathLoadFromSnapshot ::
  "('c, 'o) env \<Rightarrow> int64 \<Rightarrow> string \<Rightarrow> string \<Rightarrow> AccessType \<Rightarrow> ('c, 'o, unit) csi" where
  "HostPathLoadFromSnapshot E vsize snapshotId destPath mode =
     bindE (GetSnapshotByID snapshotId) (\<lambda>snapshot.
     require (ReadyToUse snapshot) (Plain (''snapshot '' @ snapshotId @ '' is not yet ready to use'')) (
     require (\<not> lt64 vsize (SizeBytes snapshot)) (Status InvalidArgument (''snapshot '' @ snapshotId @
       '' size '' @ itoa (sint (SizeBytes snapshot)) @ '' is greater than requested volume size '' @
       itoa (sint vsize))) (
     let snapshotPath = SnapPath snapshot in
     bindE (if mode = MountAccess then ret [''tar'', ''zxvf'', snapshotPath, ''-C'', destPath]
            else if mode = BlockAccess then ret [''dd'', ''if='' @ snapshotPath, ''of='' @ destPath]
            else fail (Status InvalidArgument (''unknown accessType: '' @ itoa (sint mode)))) (\<lambda>cmd.
     bindE (call_o (run_cmd E cmd)) (\<lambda>(out, e).
     case e of None \<Rightarrow> ret ()
     | Some t \<Rightarrow> fail (Plain (''failed pre-populate data from snapshot '' @ snapshotId @ '': '' @
                    t @ '': '' @ out)))))))"

definition loadFromFilesystemVolume :: "('c, 'o) env \<Rightarrow> Volume \<Rightarrow> string \<Rightarrow> ('c, 'o, unit) csi" where
  "loadFromFilesystemVolume E vol destPath =
     (let srcPath = VolPath vol in
     tryE (HostPathIsEmpty E srcPath)
       (\<lambda>err. fail (Plain (''failed verification check of source hostpath volume '' @ VolID vol @
          '': '' @ err_text err)))
       (\<lambda>isEmpty. if \<not> isEmpty then
          bindE (call_o (run_cmd E [''cp'', ''-a'', srcPath @ ''/.'', destPath @ ''/''])) (\<lambda>(out, e).
          case e of None \<Rightarrow> ret ()
          | Some t \<Rightarrow> fail (Plain (''failed pre-populate data from volume '' @ VolID vol @ '': '' @
                       out @ '': '' @ t)))
        else ret ()))"

definition loadFromBlockVolume :: "('c, 'o) env \<Rightarrow> Volume \<Rightarrow> string \<Rightarrow> ('c, 'o, unit) csi" where
  "loadFromBlockVolume E vol destPath =
     bindE (call_o (run_cmd E [''dd'', ''if='' @ VolPath vol, ''of='' @ destPath])) (\<lambda>(out, e).
     case e of None \<Rightarrow> ret ()
     | Some t \<Rightarrow> fail (Plain (''failed pre-populate data from volume '' @ VolID vol @ '': '' @
                   t @ '': '' @ out)))"

definition HostPathLoadFromVolume ::
  "('c, 'o) env \<Rightarrow> int64 \<Rightarrow> string \<Rightarrow> string \<Rightarrow> AccessType \<Rightarrow> ('c, 'o, unit) csi" where
  "HostPathLoadFromVolume E vsize srcVolumeId destPath mode =
     bindE (GetVolumeByID E srcVolumeId) (\<lambda>vol.
     require (\<not> lt64 vsize (VolSize vol)) (Status InvalidArgument (''volume '' @ srcVolumeId @
       '' size '' @ itoa (sint (VolSize vol)) @ '' is greater than requested volume size '' @
       itoa (sint vsize))) (
     require (mode = VolAccessType vol) (Status InvalidArgument (''volume '' @ srcVolumeId @
       '' mode is not compatible with requested mode'')) (
     if mode = MountAccess then loadFromFilesystemVolume E vol destPath
     else if mode = BlockAccess then loadFromBlockVolume E vol destPath
     else fail (Status InvalidArgument (''unknown accessType: '' @ itoa (sint mode))))))"

definition snapshot_command :: "Volume \<Rightarrow> string \<Rightarrow> string list \<Rightarrow> string list" where
  "snapshot_command vol file opts =
     (if VolAccessType vol = BlockAccess then ''cp'' # opts @ [VolPath vol, file]
      else ''tar'' # ([''czf'', file, ''-C'', VolPath vol] @ opts) @ [''.''])"

definition CreateSnapshotFromVolume ::
  "('c, 'o) env \<Rightarrow> Volume \<Rightarrow> string \<Rightarrow> string list \<Rightarrow> ('c, 'o, unit) csi" where
  "CreateSnapshotFromVolume E vol file opts =
     bindE (call_o (run_cmd E (snapshot_command vol file opts))) (\<lambda>(out, e).
     case e of None \<Rightarrow> ret ()
     | Some t \<Rightarrow> fail (Plain (''failed create snapshot: '' @ t @ '': '' @ out)))"

definition HostPathMount ::
  "('c, 'o) env \<Rightarrow> string \<Rightarrow> string \<Rightarrow> string \<Rightarrow> string \<Rightarrow> string \<Rightarrow> string list \<Rightarrow> ('c, 'o, unit) csi" where
  "HostPathMount E pvname basepath nodename srcPath destPath options =
     bindE (ensure_client E) (\<lambda>_.
     bindE (CreateJob E (pvname @ ''-mount'') ''default'' basepath nodename linux_utils
       ([''mount''] @ options @ [Join [basepath, srcPath], destPath])) (\<lambda>_. ret ()))"

end
