(* ===== verification/CsiHealth.thy ===== *)
theory CsiHealth
  imports CsiHostpath
begin

section \<open>simplecsi: health checks (pkg/hostpath/healthcheck.go)\<close>

definition podVolumeTargetPath :: string where
  "podVolumeTargetPath = ''/var/lib/kubelet/pods''"

subsection \<open>The output of findmnt\<close>

datatype MountPointInfo = MountPointInfo
  (mpTarget: string) (mpSource: string) (mpFsType: string) (mpOptions: string)
  (mpChildren: "MountPointInfo list")

definition empty_mount :: MountPointInfo where
  "empty_mount = MountPointInfo [] [] [] [] []"

definition str_or_null :: "json \<Rightarrow> string \<Rightarrow> string option" where
  "str_or_null j d = (if j = JNull then Some d else un_str j)"

text \<open>Unmarshalling goes through the members in their order; unknown keys are skipped.\<close>

fun mount_of_json :: "json \<Rightarrow> MountPointInfo option"
  and mount_fields :: "(string \<times> json) list \<Rightarrow> MountPointInfo \<Rightarrow> MountPointInfo option"
  and mount_list :: "json list \<Rightarrow> MountPointInfo list option"
where
  "mount_of_json j = (case j of JNull \<Rightarrow> Some empty_mount
     | JObj ms \<Rightarrow> mount_fields ms empty_mount | _ \<Rightarrow> None)"
| "mount_fields [] m = Some m"
| "mount_fields ((k, j) # ms) (MountPointInfo t s f opts cs) =
     (if k = ''target'' then (case str_or_null j t of None \<Rightarrow> None
        | Some t' \<Rightarrow> mount_fields ms (MountPointInfo t' s f opts cs))
      else if k = ''source'' then (case str_or_null j s of None \<Rightarrow> None
        | Some s' \<Rightarrow> mount_fields ms (MountPointInfo t s' f opts cs))
      else if k = ''fstype'' then (case str_or_null j f of None \<Rightarrow> None
        | Some f' \<Rightarrow> mount_fields ms (MountPointInfo t s f' opts cs))
      else if k = ''options'' then (case str_or_null j opts of None \<Rightarrow> None
        | Some o' \<Rightarrow> mount_fields ms (MountPointInfo t s f o' cs))
      else if k = ''children'' then (case j of JNull \<Rightarrow> mount_fields ms (MountPointInfo t s f opts [])
        | JArr js \<Rightarrow> (case mount_list js of None \<Rightarrow> None
            | Some cs' \<Rightarrow> mount_fields ms (MountPointInfo t s f opts cs'))
        | _ \<Rightarrow> None)
      else mount_fields ms (MountPointInfo t s f opts cs))"
| "mount_list [] = Some []"
| "mount_list (j # js) = (case mount_of_json j of None \<Rightarrow> None
     | Some m \<Rightarrow> map_option ((#) m) (mount_list js))"

definition filesystem_of_json :: "json \<Rightarrow> MountPointInfo list option" where
  "filesystem_of_json j = (case j of JNull \<Rightarrow> Some []
     | JObj ms \<Rightarrow> jlist_into [] mount_of_json ''children'' ms | _ \<Rightarrow> None)"

definition parseMountInfo :: "string \<Rightarrow> goerr + MountPointInfo list" where
  "parseMountInfo t =
     (case json_parse t of
        Some (JObj ms) \<Rightarrow>
          (case jlist_into [] filesystem_of_json ''filesystems'' ms of
             None \<Rightarrow> Inl (Plain ''json'')
           | Some [] \<Rightarrow> Inl (Plain ''failed to get mount info'')
           | Some (fs # _) \<Rightarrow> Inr fs)
      | Some JNull \<Rightarrow> Inl (Plain ''failed to get mount info'')
      | _ \<Rightarrow> Inl (Plain ''json''))"

subsection \<open>The checks\<close>

definition checkPathExist :: "('c, 'o) env \<Rightarrow> string \<Rightarrow> ('c, 'o, bool) csi" where
  "checkPathExist E path =
     tryE (call_os (os_stat E path))
       (\<lambda>err. if IsNotExist err then ret False else fail err)
       (\<lambda>_. ret True)"

text \<open>The loop over the mounts below the pods directory: the first whose source contains the
  volume path decides.\<close>

primrec scan_mounts :: "('c, 'o) env \<Rightarrow> string \<Rightarrow> MountPointInfo list \<Rightarrow> ('c, 'o, bool) csi" where
  "scan_mounts E volumePath [] = ret False"
| "scan_mounts E volumePath (m # ms) =
     (if \<not> Contains (mpSource m) volumePath then scan_mounts E volumePath ms
      else tryE (call_os (os_stat E (mpTarget m)))
             (\<lambda>err. if IsNotExist err then ret False else fail err)
             (\<lambda>_. ret True))"

definition checkMountPointExist :: "('c, 'o) env \<Rightarrow> string \<Rightarrow> ('c, 'o, bool) csi" where
  "checkMountPointExist E volumePath =
     tryE (call_txt (look_path E ''findmnt''))
       (\<lambda>err. fail (Plain (''findmnt not found: '' @ err_text err)))
       (\<lambda>cmdPath. bindE (call_o (run_cmd E [cmdPath, ''--json''])) (\<lambda>(out, e).
          case e of
            Some t \<Rightarrow> fail (Plain t)
          | None \<Rightarrow>
              require (\<not> length out < 1) (Plain ''mount point info is nil'') (
              tryE (lift (parseMountInfo out))
                (\<lambda>err. fail (Plain (''failed to parse the mount infos: '' @ err_text err)))
                (\<lambda>mountInfos.
                   let ofPod = (case find (\<lambda>m. mpTarget m = podVolumeTargetPath) mountInfos of
                                  Some m \<Rightarrow> m | None \<Rightarrow> empty_mount)
                   in scan_mounts E volumePath (mpChildren ofPod)))))"

definition checkPVCapacityValid :: "('c, 'o) env \<Rightarrow> Config \<Rightarrow> string \<Rightarrow> ('c, 'o, bool) csi" where
  "checkPVCapacityValid E cfg volID =
     tryE (call_txt (fs_info E (HostPathGetVolumePath cfg volID)))
       (\<lambda>err. fail (Plain (''failed to get capacity info: '' @ err_text err)))
       (\<lambda>info. bindE (GetVolumeByID E volID) (\<lambda>volume.
          ret (le64 (VolSize volume) (fs_capacity info))))"

definition GetPVStats :: "('c, 'o) env \<Rightarrow> string \<Rightarrow> ('c, 'o, FsInfo) csi" where
  "GetPVStats E volumePath = call_txt (fs_info E volumePath)"

definition checkPVUsage :: "('c, 'o) env \<Rightarrow> Config \<Rightarrow> string \<Rightarrow> ('c, 'o, bool) csi" where
  "checkPVUsage E cfg volID =
     bindE (call_txt (fs_info E (HostPathGetVolumePath cfg volID))) (\<lambda>info.
     ret (lt64 0 (fs_available info)))"

definition DoHealthCheckInControllerSide ::
  "('c, 'o) env \<Rightarrow> Config \<Rightarrow> string \<Rightarrow> ('c, 'o, bool \<times> string) csi" where
  "DoHealthCheckInControllerSide E cfg volID =
     tryE (checkPathExist E (HostPathGetVolumePath cfg volID))
       (\<lambda>err. ret (False, err_text err))
       (\<lambda>spExist. if \<not> spExist then ret (False, ''The source path of the volume doesn'' @ [CHR 0x27] @ ''t exist'')
     else tryE (checkPVCapacityValid E cfg volID)
       (\<lambda>err. ret (False, err_text err))
       (\<lambda>capValid. if \<not> capValid then ret (False, ''The capacity of volume is greater than actual storage'')
     else tryE (checkPVUsage E cfg volID)
       (\<lambda>err. ret (False, err_text err))
       (\<lambda>available. if \<not> available then ret (False, ''The free space of the volume is insufficient'')
     else ret (True, []))))"

definition DoHealthCheckInNodeSide ::
  "('c, 'o) env \<Rightarrow> Config \<Rightarrow> string \<Rightarrow> ('c, 'o, bool \<times> string) csi" where
  "DoHealthCheckInNodeSide E cfg volID =
     tryE (checkMountPointExist E (HostPathGetVolumePath cfg volID))
       (\<lambda>err. ret (False, err_text err))
       (\<lambda>mpExist. if \<not> mpExist then ret (False, ''The volume isn'' @ [CHR 0x27] @ ''t mounted'')
        else ret (True, []))"

end
