(* ===== verification/CsiController.thy ===== *)
theory CsiController
  imports CsiHealth
begin

section \<open>simplecsi: the controller service (pkg/hostpath/controllerserver)\<close>

text \<open>
  One definition per gRPC handler of \<open>controllerserver.go\<close>, with its guards in the order of
  the code. A protobuf \<open>oneof\<close> is a datatype; a message pointer that may be nil is an
  \<open>option\<close>; the getters of a nil message return the zero value.
\<close>

subsection \<open>Requests and responses\<close>

datatype access_type = NoAccessType | BlockType | MountType string "string list"

datatype access_mode = SINGLE_NODE_SINGLE_WRITER | OtherAccessMode nat

record Capability =
  capAccessType :: access_type
  capAccessMode :: "access_mode option"

fun GetBlock :: "access_type \<Rightarrow> bool" where
  "GetBlock BlockType = True" | "GetBlock _ = False"

fun GetMount :: "access_type \<Rightarrow> (string \<times> string list) option" where
  "GetMount (MountType fs flags) = Some (fs, flags)" | "GetMount _ = None"

datatype content_source = SourceSnapshot "string option" | SourceVolume "string option" | SourceUnset

record CreateVolumeRequest =
  cvName :: string
  cvCapabilities :: "Capability list"
  cvCapacityRange :: "int64 option"
  cvParameters :: "string \<rightharpoonup> string"
  cvMutableParameters :: "(string \<times> string) list"
  cvContentSource :: "content_source option"

record CsiVolume =
  rVolumeId :: string
  rCapacityBytes :: int64
  rVolumeContext :: "string \<rightharpoonup> string"
  rContentSource :: "content_source option"
  rTopology :: "(string \<times> string) list"

definition required_bytes :: "int64 option \<Rightarrow> int64" where
  "required_bytes r = (case r of None \<Rightarrow> 0 | Some n \<Rightarrow> n)"

datatype RPC =
  RPC_UNKNOWN | CREATE_DELETE_VOLUME | PUBLISH_UNPUBLISH_VOLUME | LIST_VOLUMES | GET_CAPACITY
| CREATE_DELETE_SNAPSHOT | LIST_SNAPSHOTS | CLONE_VOLUME | EXPAND_VOLUME | VOLUME_CONDITION
| GET_VOLUME | SINGLE_NODE_MULTI_WRITER | MODIFY_VOLUME

fun rpc_name :: "RPC \<Rightarrow> string" where
  "rpc_name RPC_UNKNOWN = ''UNKNOWN''"
| "rpc_name CREATE_DELETE_VOLUME = ''CREATE_DELETE_VOLUME''"
| "rpc_name PUBLISH_UNPUBLISH_VOLUME = ''PUBLISH_UNPUBLISH_VOLUME''"
| "rpc_name LIST_VOLUMES = ''LIST_VOLUMES''"
| "rpc_name GET_CAPACITY = ''GET_CAPACITY''"
| "rpc_name CREATE_DELETE_SNAPSHOT = ''CREATE_DELETE_SNAPSHOT''"
| "rpc_name LIST_SNAPSHOTS = ''LIST_SNAPSHOTS''"
| "rpc_name CLONE_VOLUME = ''CLONE_VOLUME''"
| "rpc_name EXPAND_VOLUME = ''EXPAND_VOLUME''"
| "rpc_name VOLUME_CONDITION = ''VOLUME_CONDITION''"
| "rpc_name GET_VOLUME = ''GET_VOLUME''"
| "rpc_name SINGLE_NODE_MULTI_WRITER = ''SINGLE_NODE_MULTI_WRITER''"
| "rpc_name MODIFY_VOLUME = ''MODIFY_VOLUME''"

subsection \<open>Validation\<close>

definition getControllerServiceCapabilities :: "Config \<Rightarrow> RPC list" where
  "getControllerServiceCapabilities cfg =
     (if \<not> CfgEphemeral cfg then
        [CREATE_DELETE_VOLUME, GET_VOLUME, GET_CAPACITY, CREATE_DELETE_SNAPSHOT, LIST_SNAPSHOTS,
         LIST_VOLUMES, CLONE_VOLUME, VOLUME_CONDITION, SINGLE_NODE_MULTI_WRITER]
        @ (if EnableVolumeExpansion cfg \<and> \<not> DisableControllerExpansion cfg then [EXPAND_VOLUME] else [])
        @ (if EnableAttach cfg then [PUBLISH_UNPUBLISH_VOLUME] else [])
        @ (if EnableControllerModifyVolume cfg then [MODIFY_VOLUME] else [])
      else [])"

definition ControllerGetCapabilities :: "Config \<Rightarrow> ('c, 'o, RPC list) csi" where
  "ControllerGetCapabilities cfg = ret (getControllerServiceCapabilities cfg)"

definition validateControllerServiceRequest :: "Config \<Rightarrow> RPC \<Rightarrow> goerr + unit" where
  "validateControllerServiceRequest cfg c =
     (if c = RPC_UNKNOWN then Inr ()
      else if c \<in> set (getControllerServiceCapabilities cfg) then Inr ()
      else Inl (Status InvalidArgument (''unsupported capability '' @ rpc_name c)))"

definition validateVolumeMutableParameters :: "Config \<Rightarrow> (string \<times> string) list \<Rightarrow> goerr + unit" where
  "validateVolumeMutableParameters cfg params =
     (if length (AcceptedMutableParameterNames cfg) = 0 then Inr ()
      else let unsupported = filter (\<lambda>k. k \<notin> set (AcceptedMutableParameterNames cfg)) (map fst params)
        in if length unsupported > 0
           then Inl (Status InvalidArgument (''invalid parameters: '' @ fmt_strings unsupported))
           else Inr ())"

subsection \<open>CreateVolume\<close>

text \<open>The volume of that name exists: the request must fit it.\<close>

definition existing_volume ::
  "Config \<Rightarrow> CreateVolumeRequest \<Rightarrow> int64 \<Rightarrow> (string \<times> string) list \<Rightarrow> Volume \<Rightarrow> goerr + CsiVolume" where
  "existing_volume cfg req capacity topologies exVol =
     (if lt64 (VolSize exVol) capacity then
        Inl (Status AlreadyExists (''Volume with the same name: '' @ cvName req @
               '' but with different size already exist''))
      else let resp = Inr \<lparr>rVolumeId = VolID exVol, rCapacityBytes = VolSize exVol,
             rVolumeContext = cvParameters req, rContentSource = cvContentSource req,
             rTopology = topologies\<rparr>
        in case cvContentSource req of
          None \<Rightarrow> resp
        | Some (SourceSnapshot snap) \<Rightarrow>
            (case snap of
               Some sid \<Rightarrow> if ParentSnapID exVol \<noteq> [] \<and> ParentSnapID exVol \<noteq> sid
                 then Inl (Status AlreadyExists ''existing volume source snapshot id not matching'')
                 else resp
             | None \<Rightarrow> resp)
        | Some (SourceVolume src) \<Rightarrow>
            (case src of
               Some vid \<Rightarrow> if ParentVolID exVol \<noteq> vid
                 then Inl (Status AlreadyExists ''existing volume source volume id not matching'')
                 else resp
             | None \<Rightarrow> resp)
        | Some SourceUnset \<Rightarrow> Inl (Status InvalidArgument ''not a proper volume source''))"

text \<open>The parent ids are set on the local copy of the volume after it was stored, so they are
  never stored; the copy is not used again.\<close>

definition populate ::
  "('c, 'o) env \<Rightarrow> content_source \<Rightarrow> int64 \<Rightarrow> string \<Rightarrow> AccessType \<Rightarrow> ('c, 'o, unit) csi" where
  "populate E src capacity path accessType =
     (case src of
        SourceSnapshot (Some sid) \<Rightarrow> HostPathLoadFromSnapshot E capacity sid path accessType
      | SourceSnapshot None \<Rightarrow> ret ()
      | SourceVolume (Some vid) \<Rightarrow> HostPathLoadFromVolume E capacity vid path accessType
      | SourceVolume None \<Rightarrow> ret ()
      | SourceUnset \<Rightarrow> fail (Status InvalidArgument ''not a proper volume source''))"

definition create_new ::
  "('c, 'o) env \<Rightarrow> Config \<Rightarrow> CreateVolumeRequest \<Rightarrow> int64 \<Rightarrow> AccessType \<Rightarrow> ('c, 'o, CsiVolume) csi" where
  "create_new E cfg req capacity accessType =
     bindE (call_o (new_uuid E)) (\<lambda>volumeID.
     let params = cvParameters req;
         kind = param params StorageKind;
         basepath = (case params ''basepath'' of Some bp \<Rightarrow> bp | None \<Rightarrow> ''/var/lib/'');
         pvname = (case params PVNameKey of Some pvn \<Rightarrow> pvn | None \<Rightarrow> ''create'') in
     bindE (HostPathCreateVolume E cfg volumeID (cvName req) basepath pvname capacity accessType False kind)
       (\<lambda>vol.
     let resp = \<lparr>rVolumeId = volumeID, rCapacityBytes = required_bytes (cvCapacityRange req),
           rVolumeContext = params, rContentSource = cvContentSource req,
           rTopology = [(TopologyKeyNode, VolumeNode vol)]\<rparr> in
     case cvContentSource req of
       None \<Rightarrow> ret resp
     | Some src \<Rightarrow>
         tryE (populate E src capacity (HostPathGetVolumePath cfg volumeID) accessType)
           (\<lambda>err. bindE (tryE (HostPathDeleteVolume E cfg volumeID) (\<lambda>_. ret ()) ret) (\<lambda>_. fail err))
           (\<lambda>_. ret resp)))"

definition CreateVolume ::
  "('c, 'o) env \<Rightarrow> Config \<Rightarrow> CreateVolumeRequest \<Rightarrow> ('c, 'o, CsiVolume) csi" where
  "CreateVolume E cfg req =
     bindE (lift (validateControllerServiceRequest cfg CREATE_DELETE_VOLUME)) (\<lambda>_.
     bindE (if length (cvMutableParameters req) > 0 then
              bindE (lift (validateControllerServiceRequest cfg MODIFY_VOLUME)) (\<lambda>_.
              lift (validateVolumeMutableParameters cfg (cvMutableParameters req)))
            else ret ()) (\<lambda>_.
     require (length (cvName req) \<noteq> 0) (Status InvalidArgument ''Name missing in request'') (
     let caps = cvCapabilities req in
     require (caps \<noteq> []) (Status InvalidArgument ''Volume Capabilities missing in request'') (
     let accessTypeBlock = (\<exists>c\<in>set caps. GetBlock (capAccessType c));
         accessTypeMount = (\<exists>c\<in>set caps. GetMount (capAccessType c) \<noteq> None) in
     require (\<not> (accessTypeBlock \<and> accessTypeMount))
       (Status InvalidArgument ''cannot have both block and mount access type'') (
     let requestedAccessType = (if accessTypeBlock then BlockAccess else MountAccess);
         capacity = required_bytes (cvCapacityRange req);
         topologies = (if EnableTopology cfg then [(TopologyKeyNode, CfgNodeID cfg)] else []) in
     tryE (GetVolumeByName E (cvName req))
       (\<lambda>_. create_new E cfg req capacity requestedAccessType)
       (\<lambda>exVol. lift (existing_volume cfg req capacity topologies exVol)))))))"

subsection \<open>DeleteVolume and the capability queries\<close>

definition DeleteVolume :: "('c, 'o) env \<Rightarrow> Config \<Rightarrow> string \<Rightarrow> ('c, 'o, unit) csi" where
  "DeleteVolume E cfg volId =
     require (length volId \<noteq> 0) (Status InvalidArgument ''Volume ID missing in request'') (
     bindE (lift (validateControllerServiceRequest cfg CREATE_DELETE_VOLUME)) (\<lambda>_.
     tryE (GetVolumeByID E volId) (\<lambda>_. ret ()) (\<lambda>vol.
     require (\<not> ((Attached vol \<or> \<not> strings_Empty (Published vol) \<or> \<not> strings_Empty (Staged vol))
                   \<and> CheckVolumeLifecycle cfg))
       (Status Internal (''Volume '' @ VolID vol @ '' is still used (attached: '' @
          fmt_bool (Attached vol) @ '', staged: '' @ fmt_strings (Staged vol) @ '', published: '' @
          fmt_strings (Published vol) @ '') by '' @ NodeID vol @ '' node'')) (
     tryE (HostPathDeleteVolume E cfg volId)
       (\<lambda>err. fail (Plain (''failed to delete volume '' @ volId @ '': '' @ err_text err)))
       ret))))"

definition ValidateVolumeCapabilities ::
  "('c, 'o) env \<Rightarrow> string \<Rightarrow> Capability list \<Rightarrow> ('c, 'o, Capability list) csi" where
  "ValidateVolumeCapabilities E volId caps =
     require (length volId \<noteq> 0) (Status InvalidArgument ''Volume ID cannot be empty'') (
     require (length caps \<noteq> 0) (Status InvalidArgument volId) (
     bindE (GetVolumeByID E volId) (\<lambda>_.
     require (\<forall>c\<in>set caps. GetMount (capAccessType c) \<noteq> None \<or> GetBlock (capAccessType c))
       (Status InvalidArgument ''cannot have both mount and block access type be undefined'') (
     ret caps))))"

subsection \<open>Publish and unpublish\<close>

definition ControllerPublishVolume ::
  "('c, 'o) env \<Rightarrow> Config \<Rightarrow> string \<Rightarrow> string \<Rightarrow> Capability option \<Rightarrow> bool \<Rightarrow> ('c, 'o, unit) csi" where
  "ControllerPublishVolume E cfg volumeId nodeId capability readonly =
     require (EnableAttach cfg) (Status Unimplemented ''ControllerPublishVolume is not supported'') (
     require (length volumeId \<noteq> 0) (Status InvalidArgument ''Volume ID cannot be empty'') (
     require (length nodeId \<noteq> 0) (Status InvalidArgument ''Node ID cannot be empty'') (
     require (capability \<noteq> None) (Status InvalidArgument ''Volume Capabilities cannot be empty'') (
     require (nodeId = CfgNodeID cfg) (Status NotFound (''Not matching Node ID '' @ nodeId @
       '' to hostpath Node ID '' @ CfgNodeID cfg)) (
     tryE (GetVolumeByID E volumeId) (\<lambda>err. fail (Status NotFound (err_text err))) (\<lambda>vol.
     if Attached vol then
       require (readonly = ReadOnlyAttach vol)
         (Status AlreadyExists ''Volume published but has incompatible readonly flag'') (ret ())
     else
       bindE (if lt64 0 (AttachLimit cfg) then
                bindE (GetAttachCount E) (\<lambda>n. ret (le64 (AttachLimit cfg) n))
              else ret False) (\<lambda>full.
       require (\<not> full) (Status ResourceExhausted
         (''Cannot attach any more volumes to this node ('' @ CfgNodeID cfg @ '')'')) (
       UpdateVolume E (vol\<lparr>Attached := True, ReadOnlyAttach := readonly\<rparr>)))))))))"

definition ControllerUnpublishVolume ::
  "('c, 'o) env \<Rightarrow> Config \<Rightarrow> string \<Rightarrow> string \<Rightarrow> ('c, 'o, unit) csi" where
  "ControllerUnpublishVolume E cfg volumeId nodeId =
     require (EnableAttach cfg) (Status Unimplemented ''ControllerUnpublishVolume is not supported'') (
     require (length volumeId \<noteq> 0) (Status InvalidArgument ''Volume ID cannot be empty'') (
     require (\<not> (nodeId \<noteq> [] \<and> nodeId \<noteq> CfgNodeID cfg)) (Status NotFound (''Node ID '' @ nodeId @
       '' does not match to expected Node ID '' @ CfgNodeID cfg)) (
     tryE (GetVolumeByID E volumeId) (\<lambda>_. ret ()) (\<lambda>vol.
     require (\<not> ((\<not> strings_Empty (Published vol) \<or> \<not> strings_Empty (Staged vol)) \<and> CheckVolumeLifecycle cfg))
       (Status Internal (''Volume '' @ VolID vol @ '' is still used (staged: '' @ fmt_strings (Staged vol) @
          '', published: '' @ fmt_strings (Published vol) @ '') by '' @ NodeID vol @ '' node'')) (
     tryE (UpdateVolume E (vol\<lparr>Attached := False\<rparr>))
       (\<lambda>err. fail (Status Internal (''could not update volume '' @ VolID vol @ '': '' @ err_text err)))
       ret)))))"

subsection \<open>Capacity\<close>

definition GetCapacity :: "('c, 'o) env \<Rightarrow> Config \<Rightarrow> (string \<rightharpoonup> string) \<Rightarrow> ('c, 'o, int64 \<times> int64 \<times> int64) csi" where
  "GetCapacity E cfg parameters =
     bindE (if Capacity_Enabled (CfgCapacity cfg) then
              let kind = param parameters StorageKind; quantity = capacity_value (CfgCapacity cfg) kind in
              bindE (SumVolumeSizes E kind) (\<lambda>allocated. ret (quantity - allocated))
            else ret (MaxVolumeSize cfg)) (\<lambda>available.
     let maxVolumeSize = (if lt64 available (MaxVolumeSize cfg) then available else MaxVolumeSize cfg) in
     ret (available, maxVolumeSize, 0))"

definition ControllerExpandVolume ::
  "('c, 'o) env \<Rightarrow> Config \<Rightarrow> string \<Rightarrow> int64 option \<Rightarrow> ('c, 'o, int64) csi" where
  "ControllerExpandVolume E cfg volID capRange =
     require (EnableVolumeExpansion cfg) (Status Unimplemented ''ControllerExpandVolume is not supported'') (
     require (length volID \<noteq> 0) (Status InvalidArgument ''Volume ID missing in request'') (
     require (capRange \<noteq> None) (Status InvalidArgument ''Capacity range not provided'') (
     let capacity = required_bytes capRange in
     require (le64 capacity (MaxVolumeSize cfg)) (Status OutOfRange (''Requested capacity '' @
        itoa (sint capacity) @ '' exceeds maximum allowed '' @ itoa (sint (MaxVolumeSize cfg)))) (
     bindE (GetVolumeByID E volID) (\<lambda>exVol.
     if lt64 (VolSize exVol) capacity then
       bindE (UpdateVolume E (exVol\<lparr>VolSize := capacity\<rparr>)) (\<lambda>_. ret capacity)
     else ret (VolSize exVol))))))"

end
