(* ===== verification/CsiListing.thy ===== *)
theory CsiListing
  imports CsiController
begin

section \<open>simplecsi: listing volumes, and snapshots (pkg/hostpath/controllerserver)\<close>

text \<open>
  The second half of \<open>controllerserver.go\<close>: the listing calls with their tokens, where a
  slice is indexed by a number of the request, and the snapshot calls. Indices are kept at the
  width of the code and an index out of range is a panic.
\<close>

subsection \<open>ListVolumes\<close>

record VolumeEntry =
  eVolumeId :: string
  eCapacityBytes :: int64
  ePublishedNodeIds :: "string list"
  eAbnormal :: bool
  eMessage :: string

text \<open>The loop \<open>for index := startIdx - 1; index < volumesLength && index < maxLength; index++\<close>;
  \<open>n\<close> is the number of rounds left. No next token is ever returned.\<close>

primrec list_volumes_loop ::
  "('c, 'o) env \<Rightarrow> Config \<Rightarrow> Volume list \<Rightarrow> nat \<Rightarrow> int \<Rightarrow> ('c, 'o, VolumeEntry list) csi" where
  "list_volumes_loop E cfg volumes 0 index = ret []"
| "list_volumes_loop E cfg volumes (Suc n) index =
     bindE (lift (go_index volumes index)) (\<lambda>v.
     bindE (DoHealthCheckInControllerSide E cfg (VolID v)) (\<lambda>(healthy, msg).
     bindE (list_volumes_loop E cfg volumes n (index + 1)) (\<lambda>rest.
     ret (\<lparr>eVolumeId = VolID v, eCapacityBytes = VolSize v, ePublishedNodeIds = [NodeID v],
           eAbnormal = (\<not> healthy), eMessage = msg\<rparr> # rest))))"

definition ListVolumes ::
  "('c, 'o) env \<Rightarrow> Config \<Rightarrow> string \<Rightarrow> int32 \<Rightarrow> ('c, 'o, VolumeEntry list) csi" where
  "ListVolumes E cfg startingToken maxEntries =
     bindE (GetVolumes E) (\<lambda>vs.
     let volumes = sort_key VolID vs;
         token = (if startingToken = [] then ''1'' else startingToken) in
     case ParseInt32 token of
       None \<Rightarrow> fail (Status Aborted ''The type of startingToken should be integer'')
     | Some startIdx \<Rightarrow>
         let volumesLength = int (length volumes);
             maxLength = (if sint maxEntries > volumesLength \<or> sint maxEntries \<le> 0
                          then volumesLength else sint maxEntries);
             start = startIdx - 1 in
         list_volumes_loop E cfg volumes (nat (min volumesLength maxLength - start)) start)"

definition ControllerGetVolume :: "('c, 'o) env \<Rightarrow> Config \<Rightarrow> string \<Rightarrow> ('c, 'o, VolumeEntry) csi" where
  "ControllerGetVolume E cfg volumeId =
     tryE (GetVolumeByID E volumeId)
       (\<lambda>err. ret \<lparr>eVolumeId = volumeId, eCapacityBytes = 0, ePublishedNodeIds = [],
                    eAbnormal = True, eMessage = err_text err\<rparr>)
       (\<lambda>volume. bindE (DoHealthCheckInControllerSide E cfg volumeId) (\<lambda>(healthy, msg).
          ret \<lparr>eVolumeId = VolID volume, eCapacityBytes = VolSize volume,
                ePublishedNodeIds = [NodeID volume], eAbnormal = (\<not> healthy), eMessage = msg\<rparr>))"

definition ControllerModifyVolume ::
  "('c, 'o) env \<Rightarrow> Config \<Rightarrow> string \<Rightarrow> (string \<times> string) list \<Rightarrow> ('c, 'o, unit) csi" where
  "ControllerModifyVolume E cfg volumeId mutableParameters =
     bindE (lift (validateControllerServiceRequest cfg MODIFY_VOLUME)) (\<lambda>_.
     require (length volumeId \<noteq> 0) (Status InvalidArgument ''Volume ID cannot be empty'') (
     require (length mutableParameters \<noteq> 0) (Status InvalidArgument ''Mutable parameters cannot be empty'') (
     bindE (lift (validateVolumeMutableParameters cfg mutableParameters)) (\<lambda>_.
     tryE (GetVolumeByID E volumeId) (\<lambda>err. fail (Status NotFound (err_text err))) (\<lambda>_. ret ())))))"

subsection \<open>Snapshots\<close>

record CsiSnapshot =
  rSnapshotId :: string
  rSourceVolumeId :: string
  rCreationTime :: "Timestamp option"
  rSizeBytes :: int64
  rReadyToUse :: bool
  rGroupSnapshotId :: string

definition zero_snapshot :: Snapshot where
  "zero_snapshot = \<lparr>SnapName = [], SnapId = [], SnapVolID = [], SnapPath = [],
     SnapCreationTime = None, SizeBytes = 0, ReadyToUse = False, GroupSnapshotID = []\<rparr>"

text \<open>The response of \<open>CreateSnapshot\<close> has no group; the listing calls report it.\<close>

definition created_snapshot :: "Snapshot \<Rightarrow> CsiSnapshot" where
  "created_snapshot s = \<lparr>rSnapshotId = SnapId s, rSourceVolumeId = SnapVolID s,
     rCreationTime = SnapCreationTime s, rSizeBytes = SizeBytes s, rReadyToUse = ReadyToUse s,
     rGroupSnapshotId = []\<rparr>"

definition listed_snapshot :: "Snapshot \<Rightarrow> CsiSnapshot" where
  "listed_snapshot s = \<lparr>rSnapshotId = SnapId s, rSourceVolumeId = SnapVolID s,
     rCreationTime = SnapCreationTime s, rSizeBytes = SizeBytes s, rReadyToUse = ReadyToUse s,
     rGroupSnapshotId = GroupSnapshotID s\<rparr>"

definition CreateSnapshot ::
  "('c, 'o) env \<Rightarrow> Config \<Rightarrow> string \<Rightarrow> string \<Rightarrow> (string \<rightharpoonup> string) \<Rightarrow> ('c, 'o, CsiSnapshot) csi" where
  "CreateSnapshot E cfg name sourceVolumeId parameters =
     bindE (lift (validateControllerServiceRequest cfg CREATE_DELETE_SNAPSHOT)) (\<lambda>_.
     require (length name \<noteq> 0) (Status InvalidArgument ''Name missing in request'') (
     require (length sourceVolumeId \<noteq> 0) (Status InvalidArgument ''SourceVolumeId missing in request'') (
     tryE (GetSnapshotByName name)
       (\<lambda>_. bindE (GetVolumeByID E sourceVolumeId) (\<lambda>vol.
          bindE (call_o (new_uuid E)) (\<lambda>snapshotID.
          bindE (call_o (now E)) (\<lambda>creationTime.
          let file = GetSnapshotPath cfg snapshotID in
          tryE (lift (OptionsFromParameters vol parameters))
            (\<lambda>err. fail (Status InvalidArgument
               (''invalid volume snapshot class parameters: '' @ err_text err)))
            (\<lambda>opts.
          bindE (CreateSnapshotFromVolume E vol file opts) (\<lambda>_.
          let snapshot = \<lparr>SnapName = name, SnapId = snapshotID, SnapVolID = sourceVolumeId,
                SnapPath = file, SnapCreationTime = Some creationTime, SizeBytes = VolSize vol,
                ReadyToUse = True, GroupSnapshotID = []\<rparr> in
          bindE (UpdateSnapshot E snapshot) (\<lambda>_. ret (created_snapshot snapshot))))))))
       (\<lambda>exSnap. if SnapVolID exSnap = sourceVolumeId then ret (created_snapshot exSnap)
          else fail (Status AlreadyExists (''snapshot with the same name: '' @ name @
                 '' but with different SourceVolumeId already exist''))))))"

text \<open>The test for a group looks at the snapshot only when the look-up failed, where it is the
  zero value. Errors of \<open>os.RemoveAll\<close> are dropped.\<close>

definition DeleteSnapshot :: "('c, 'o) env \<Rightarrow> Config \<Rightarrow> string \<Rightarrow> ('c, 'o, unit) csi" where
  "DeleteSnapshot E cfg snapshotID =
     require (length snapshotID \<noteq> 0) (Status InvalidArgument ''Snapshot ID missing in request'') (
     bindE (lift (validateControllerServiceRequest cfg CREATE_DELETE_SNAPSHOT)) (\<lambda>_.
     bindE (tryE (GetSnapshotByID snapshotID)
              (\<lambda>_. ret (True, zero_snapshot)) (\<lambda>snapshot. ret (False, snapshot))) (\<lambda>(failed, snapshot).
     require (\<not> (failed \<and> GroupSnapshotID snapshot \<noteq> []))
       (Status InvalidArgument (''Snapshot with ID '' @ snapshotID @ '' is part of groupsnapshot '' @
          GroupSnapshotID snapshot)) (
     bindE (tryE (call_os (os_remove_all E (GetSnapshotPath cfg snapshotID))) (\<lambda>_. ret ()) ret) (\<lambda>_.
     DeleteSnapshot_state E snapshotID)))))"

subsection \<open>ListSnapshots\<close>

record ListSnapshotsResponse =
  lEntries :: "CsiSnapshot list"
  lNextToken :: string

definition convertSnapshot :: "Snapshot \<Rightarrow> ListSnapshotsResponse" where
  "convertSnapshot snap = \<lparr>lEntries = [listed_snapshot snap], lNextToken = []\<rparr>"

text \<open>The copying loop: \<open>n\<close> entries from index \<open>j\<close> on; it returns the entries and the index
  after the last one.\<close>

primrec page_loop :: "'a list \<Rightarrow> nat \<Rightarrow> int32 \<Rightarrow> goerr + ('a list \<times> int32)" where
  "page_loop xs 0 j = Inr ([], j)"
| "page_loop xs (Suc n) j =
     (case go_index xs (sint j) of
        Inl e \<Rightarrow> Inl e
      | Inr x \<Rightarrow> (case page_loop xs n (j + 1) of
            Inl e \<Rightarrow> Inl e
          | Inr (ys, j') \<Rightarrow> Inr (x # ys, j')))"

text \<open>One page of the sorted snapshots, with the 32-bit arithmetic of the code:
  \<open>int32(i)\<close> of a parsed 32-bit unsigned number, and \<open>make\<close> with a negative length panics.\<close>

definition snapshot_page :: "CsiSnapshot list \<Rightarrow> string \<Rightarrow> int32 \<Rightarrow> goerr + ListSnapshotsResponse" where
  "snapshot_page snapshots token maxEntries0 =
     (let ulen = word_of_int (int (length snapshots)) :: int32 in
      case (if token \<noteq> [] then map_option (\<lambda>i. word_of_int (int i) :: int32) (ParseUint32 token)
            else Some 0) of
        None \<Rightarrow> Inl (Status Aborted ''startingToken=0 !< int32=4294967295'')
      | Some startingToken \<Rightarrow>
          if sint startingToken > sint ulen
          then Inl (Status Aborted (''startingToken='' @ itoa (sint startingToken) @
                 '' > len(snapshots)='' @ itoa (sint ulen)))
          else let rem = ulen - startingToken;
                   maxEntries = (if maxEntries0 = 0 \<or> sint maxEntries0 > sint rem then rem else maxEntries0)
            in if sint maxEntries < 0 then Inl (Panic ''makeslice: len out of range'')
               else (case page_loop snapshots (nat (sint maxEntries)) startingToken of
                  Inl e \<Rightarrow> Inl e
                | Inr (entries, j) \<Rightarrow> Inr \<lparr>lEntries = entries,
                    lNextToken = (if sint j < sint ulen then itoa (sint j) else [])\<rparr>))"

definition ListSnapshots ::
  "Config \<Rightarrow> string \<Rightarrow> string \<Rightarrow> string \<Rightarrow> int32 \<Rightarrow> ('c, 'o, ListSnapshotsResponse) csi" where
  "ListSnapshots cfg snapshotId sourceVolumeId startingToken maxEntries =
     bindE (lift (validateControllerServiceRequest cfg LIST_SNAPSHOTS)) (\<lambda>_.
     let none = \<lparr>lEntries = [], lNextToken = []\<rparr> in
     if length snapshotId \<noteq> 0 then
       tryE (GetSnapshotByID snapshotId) (\<lambda>_. ret none) (\<lambda>s. ret (convertSnapshot s))
     else if length sourceVolumeId \<noteq> 0 then
       bindE GetSnapshots (\<lambda>xs. case find (\<lambda>s. SnapVolID s = sourceVolumeId) xs of
           Some s \<Rightarrow> ret (convertSnapshot s) | None \<Rightarrow> ret none)
     else bindE GetSnapshots (\<lambda>xs.
       lift (snapshot_page (map listed_snapshot (sort_key SnapId xs)) startingToken maxEntries)))"

end
