(* ===== verification/CsiNode.thy ===== *)
theory CsiNode
  imports CsiListing
begin

section \<open>simplecsi: the node service (pkg/hostpath/nodeserver)\<close>

text \<open>
  One definition per handler of \<open>nodeserver.go\<close>: staging, publishing (the bind mount of a block
  device, and the mount job of a directory), their inverses, expansion and statistics.
\<close>

record PublishRequest =
  pbVolumeId :: string
  pbTargetPath :: string
  pbStagingTargetPath :: string
  pbCapability :: "Capability option"
  pbReadonly :: bool
  pbVolumeContext :: "string \<rightharpoonup> string"

definition ephemeral_key :: string where
  "ephemeral_key = ''csi.storage.k8s.io/ephemeral''"

definition hasSingleNodeSingleWriterAccessMode :: "PublishRequest \<Rightarrow> bool" where
  "hasSingleNodeSingleWriterAccessMode req =
     (case pbCapability req of None \<Rightarrow> False
      | Some c \<Rightarrow> capAccessMode c = Some SINGLE_NODE_SINGLE_WRITER)"

definition isMountedElsewhere :: "PublishRequest \<Rightarrow> Volume \<Rightarrow> bool" where
  "isMountedElsewhere req vol = list_ex (\<lambda>targetPath. targetPath \<noteq> pbTargetPath req) (Published vol)"

definition makeFile :: "('c, 'o) env \<Rightarrow> string \<Rightarrow> ('c, 'o, unit) csi" where
  "makeFile E pathname =
     tryE (call_os (os_open_create E pathname)) (\<lambda>err. if \<not> IsExist err then fail err else ret ()) ret"

definition ephemeral_volume :: "Config \<Rightarrow> PublishRequest \<Rightarrow> bool" where
  "ephemeral_volume cfg req =
     (let e = param (pbVolumeContext req) ephemeral_key in
      e = ''true'' \<or> e = [] \<and> CfgEphemeral cfg)"

text \<open>An ephemeral volume is created here, unless one of its name exists. After an error with
  \<open>os.IsExist\<close> the code goes on and logs a field of a nil volume, which panics.\<close>

definition create_ephemeral :: "('c, 'o) env \<Rightarrow> Config \<Rightarrow> PublishRequest \<Rightarrow> ('c, 'o, unit) csi" where
  "create_ephemeral E cfg req =
     (let volName = ''ephemeral-'' @ pbVolumeId req; ctx = pbVolumeContext req in
      tryE (GetVolumeByName E volName)
        (\<lambda>_. tryE (HostPathCreateVolume E cfg (pbVolumeId req) volName
               (case ctx ''basepath'' of Some bp \<Rightarrow> bp | None \<Rightarrow> ''/var/lib/'') ''TODO''
               (word_of_int (100 * 1024 * 1024)) MountAccess True (param ctx StorageKind))
             (\<lambda>err. if \<not> IsExist err then fail err else fail (Panic ''nil pointer dereference''))
             (\<lambda>_. ret ()))
        (\<lambda>_. ret ()))"

text \<open>The publication of a block device; \<open>True\<close> when the target is mounted already and the
  handler returns at once.\<close>

definition publish_block :: "('c, 'o) env \<Rightarrow> PublishRequest \<Rightarrow> Volume \<Rightarrow> ('c, 'o, bool) csi" where
  "publish_block E req vol =
     (let targetPath = pbTargetPath req in
     require (VolAccessType vol = BlockAccess)
       (Status InvalidArgument ''cannot publish a non-block volume as block volume'') (
     tryE (call_txt (loop_get E (VolPath vol)))
       (\<lambda>err. fail (Plain (''failed to get the loop device: '' @ err_text err))) (\<lambda>loopDevice.
     bindE (tryE (call_os (os_lstat E targetPath))
        (\<lambda>err. if IsNotExist err
           then tryE (makeFile E targetPath)
                  (\<lambda>err2. fail (Plain (''failed to create target path: '' @ err_text err2))) ret
           else fail (Plain (''failed to check if the target block file exists: '' @ err_text err)))
        ret) (\<lambda>_.
     bindE (tryE (call_os (is_not_mount E targetPath))
        (\<lambda>err. if \<not> IsNotExist err
           then fail (Plain (''error checking path '' @ targetPath @ '' for mount: '' @ err_text err))
           else ret True) ret) (\<lambda>notMount.
     if \<not> notMount then ret True
     else tryE (call_txt (do_mount E loopDevice targetPath [] [''bind'']))
        (\<lambda>err. fail (Plain (''failed to mount block device: '' @ loopDevice @ '' at '' @ targetPath @
           '': '' @ err_text err)))
        (\<lambda>_. ret False))))))"

definition publish_mount :: "('c, 'o) env \<Rightarrow> Config \<Rightarrow> PublishRequest \<Rightarrow> Volume \<Rightarrow> ('c, 'o, bool) csi" where
  "publish_mount E cfg req vol =
     (let targetPath = pbTargetPath req; volumeId = pbVolumeId req; attrib = pbVolumeContext req in
     require (VolAccessType vol = MountAccess)
       (Status InvalidArgument ''cannot publish a non-mount volume as mount volume'') (
     bindE (tryE (call_os (is_not_mount E targetPath))
        (\<lambda>err. if IsNotExist err
           then tryE (call_os (os_mkdir E targetPath))
                  (\<lambda>err2. fail (Plain (''create target path: '' @ err_text err2))) (\<lambda>_. ret True)
           else fail (Plain (''check target path: '' @ err_text err))) ret) (\<lambda>notMnt.
     if \<not> notMnt then ret True
     else
       let options = [''-o'', ''bind''] @ (if pbReadonly req then [''ro''] else []);
           path = HostPathGetVolumePath cfg volumeId in
       tryE (GetVolumeByID E volumeId)
         (\<lambda>err. fail (Plain (''get volume by id '' @ volumeId @ '' error: '' @ err_text err)))
         (\<lambda>volume. tryE (HostPathMount E (param attrib PVNameKey) (param attrib ''basepath'')
              (VolumeNode volume) path targetPath options)
            (\<lambda>err. bindE (if Ephemeral vol
                then tryE (call_os (os_remove_all E path))
                       (\<lambda>rmErr. ret (if \<not> IsNotExist rmErr then '' :'' @ err_text rmErr else [])) (\<lambda>_. ret [])
                else ret []) (\<lambda>more.
              fail (Plain (''failed to mount device: '' @ path @ '' at '' @ targetPath @ '': '' @
                err_text err @ more))))
            (\<lambda>_. ret False)))))"

definition NodePublishVolume :: "('c, 'o) env \<Rightarrow> Config \<Rightarrow> PublishRequest \<Rightarrow> ('c, 'o, unit) csi" where
  "NodePublishVolume E cfg req =
     require (pbCapability req \<noteq> None) (Status InvalidArgument ''Volume capability missing in request'') (
     require (length (pbVolumeId req) \<noteq> 0) (Status InvalidArgument ''Volume ID missing in request'') (
     require (length (pbTargetPath req) \<noteq> 0) (Status InvalidArgument ''Target path missing in request'') (
     let acc = (case pbCapability req of None \<Rightarrow> NoAccessType | Some c \<Rightarrow> capAccessType c);
         ephemeral = ephemeral_volume cfg req in
     require (\<not> (GetBlock acc \<and> GetMount acc \<noteq> None))
       (Status InvalidArgument ''cannot have both block and mount access type'') (
     bindE (if ephemeral then create_ephemeral E cfg req else ret ()) (\<lambda>_.
     tryE (GetVolumeByID E (pbVolumeId req)) (\<lambda>err. fail (Status NotFound (err_text err))) (\<lambda>vol.
     require (\<not> (hasSingleNodeSingleWriterAccessMode req \<and> isMountedElsewhere req vol))
       (Status FailedPrecondition (''volume uses SINGLE_NODE_SINGLE_WRITER access mode and is '' @
          ''already mounted at a different target path'')) (
     require (ephemeral \<or> \<not> strings_Empty (Staged vol)) (Status FailedPrecondition
       (''volume '' @ dquote (VolID vol) @ '' must be staged before publishing'')) (
     require (ephemeral \<or> strings_Has (Staged vol) (pbStagingTargetPath req)) (Status InvalidArgument
       (''volume '' @ dquote (VolID vol) @ '' was staged at '' @ fmt_strings (Staged vol) @ '', not '' @
        dquote (pbStagingTargetPath req))) (
     bindE (if GetBlock acc then publish_block E req vol
            else if GetMount acc \<noteq> None then publish_mount E cfg req vol
            else ret False) (\<lambda>already.
     if already then ret ()
     else UpdateVolume E (vol\<lparr>NodeID := CfgNodeID cfg,
            Published := strings_Add (pbTargetPath req) (Published vol)\<rparr>)))))))))))"

definition NodeUnpublishVolume :: "('c, 'o) env \<Rightarrow> Config \<Rightarrow> string \<Rightarrow> string \<Rightarrow> ('c, 'o, unit) csi" where
  "NodeUnpublishVolume E cfg volumeID targetPath =
     require (length volumeID \<noteq> 0) (Status InvalidArgument ''Volume ID missing in request'') (
     require (length targetPath \<noteq> 0) (Status InvalidArgument ''Target path missing in request'') (
     bindE (GetVolumeByID E volumeID) (\<lambda>vol.
     if \<not> strings_Has (Published vol) targetPath then ret ()
     else
       bindE (tryE (call_os (is_not_mount E targetPath))
         (\<lambda>err. if \<not> IsNotExist err then fail (Plain (''check target path: '' @ err_text err)) else ret ())
         (\<lambda>notMnt. if \<not> notMnt
            then tryE (call_txt (do_unmount E targetPath))
                   (\<lambda>err. fail (Plain (''unmount target path: '' @ err_text err))) ret
            else ret ())) (\<lambda>_.
       tryE (call_os (os_remove_all E targetPath))
         (\<lambda>err. fail (Plain (''remove target path: '' @ err_text err))) (\<lambda>_.
       if Ephemeral vol then
         tryE (HostPathDeleteVolume E cfg volumeID)
           (\<lambda>err. if \<not> IsNotExist err then fail (Plain (''failed to delete volume: '' @ err_text err))
                   else ret ()) ret
       else UpdateVolume E (vol\<lparr>Published := strings_Remove targetPath (Published vol)\<rparr>))))))"

definition NodeStageVolume ::
  "('c, 'o) env \<Rightarrow> Config \<Rightarrow> string \<Rightarrow> string \<Rightarrow> Capability option \<Rightarrow> ('c, 'o, unit) csi" where
  "NodeStageVolume E cfg volumeId stagingTargetPath capability =
     require (length volumeId \<noteq> 0) (Status InvalidArgument ''Volume ID missing in request'') (
     require (stagingTargetPath \<noteq> []) (Status InvalidArgument ''Target path missing in request'') (
     require (capability \<noteq> None) (Status InvalidArgument ''Volume Capability missing in request'') (
     bindE (GetVolumeByID E volumeId) (\<lambda>vol.
     require (\<not> (EnableAttach cfg \<and> \<not> Attached vol)) (Status Internal
       (''ControllerPublishVolume must be called on volume '' @ VolID vol @ '' before staging on node'')) (
     if strings_Has (Staged vol) stagingTargetPath then ret ()
     else require (strings_Empty (Staged vol)) (Status FailedPrecondition
       (''volume '' @ dquote volumeId @ '' is already staged at '' @ fmt_strings (Staged vol))) (
     UpdateVolume E (vol\<lparr>Staged := strings_Add stagingTargetPath (Staged vol)\<rparr>)))))))"

definition NodeUnstageVolume :: "('c, 'o) env \<Rightarrow> string \<Rightarrow> string \<Rightarrow> ('c, 'o, unit) csi" where
  "NodeUnstageVolume E volumeId stagingTargetPath =
     require (length volumeId \<noteq> 0) (Status InvalidArgument ''Volume ID missing in request'') (
     require (stagingTargetPath \<noteq> []) (Status InvalidArgument ''Target path missing in request'') (
     bindE (GetVolumeByID E volumeId) (\<lambda>vol.
     if \<not> strings_Has (Staged vol) stagingTargetPath then ret ()
     else require (strings_Empty (Published vol)) (Status Internal
       (''volume '' @ dquote (VolID vol) @ '' is still published at '' @ fmt_strings (Published vol) @
        '' on node '' @ dquote (NodeID vol))) (
     UpdateVolume E (vol\<lparr>Staged := strings_Remove stagingTargetPath (Staged vol)\<rparr>)))))"

subsection \<open>Information, statistics and expansion\<close>

record NodeInfo =
  niNodeId :: string
  niMaxVolumesPerNode :: int64
  niTopology :: "(string \<times> string) list"

definition NodeGetInfo :: "Config \<Rightarrow> NodeInfo" where
  "NodeGetInfo cfg = \<lparr>niNodeId = CfgNodeID cfg,
     niMaxVolumesPerNode = (if lt64 0 (AttachLimit cfg) then AttachLimit cfg else MaxVolumesPerNode cfg),
     niTopology = (if EnableTopology cfg then [(TopologyKeyNode, CfgNodeID cfg)] else [])\<rparr>"

datatype NodeRPC = STAGE_UNSTAGE_VOLUME | NODE_VOLUME_CONDITION | GET_VOLUME_STATS
  | NODE_SINGLE_NODE_MULTI_WRITER | NODE_EXPAND_VOLUME

definition NodeGetCapabilities :: "Config \<Rightarrow> NodeRPC list" where
  "NodeGetCapabilities cfg =
     [STAGE_UNSTAGE_VOLUME, NODE_VOLUME_CONDITION, GET_VOLUME_STATS, NODE_SINGLE_NODE_MULTI_WRITER]
     @ (if EnableVolumeExpansion cfg \<and> \<not> DisableNodeExpansion cfg then [NODE_EXPAND_VOLUME] else [])"

definition NodeGetVolumeStats ::
  "('c, 'o) env \<Rightarrow> Config \<Rightarrow> string \<Rightarrow> string \<Rightarrow> ('c, 'o, FsInfo \<times> bool \<times> string) csi" where
  "NodeGetVolumeStats E cfg volumeId volumePath =
     require (length volumeId \<noteq> 0) (Status InvalidArgument ''Volume ID not provided'') (
     require (length volumePath \<noteq> 0) (Status InvalidArgument ''Volume Path not provided'') (
     bindE (GetVolumeByID E volumeId) (\<lambda>_.
     tryE (call_os (os_stat E volumePath))
       (\<lambda>err. fail (Status NotFound (''Could not get file information from '' @ volumePath @ '': '' @
          err_text err))) (\<lambda>_.
     bindE (DoHealthCheckInNodeSide E cfg volumeId) (\<lambda>(healthy, msg).
     tryE (GetPVStats E volumePath)
       (\<lambda>err. fail (Plain (''get volume stats failed: '' @ err_text err)))
       (\<lambda>info. ret (info, \<not> healthy, msg)))))))"

definition NodeExpandVolume ::
  "('c, 'o) env \<Rightarrow> Config \<Rightarrow> string \<Rightarrow> string \<Rightarrow> int64 option \<Rightarrow> ('c, 'o, unit) csi" where
  "NodeExpandVolume E cfg volID volPath capRange =
     require (EnableVolumeExpansion cfg) (Status Unimplemented ''NodeExpandVolume is not supported'') (
     require (length volID \<noteq> 0) (Status InvalidArgument ''Volume ID not provided'') (
     bindE (GetVolumeByID E volID) (\<lambda>vol.
     require (length volPath \<noteq> 0) (Status InvalidArgument ''Volume path not provided'') (
     require (capRange \<noteq> None) (Status InvalidArgument ''Capacity range not provided'') (
     let capacity = required_bytes capRange in
     require (le64 capacity (MaxVolumeExpansionSizeNode cfg)) (Status OutOfRange
       (''Requested capacity '' @ itoa (sint capacity) @ '' exceeds maximum allowed '' @
        itoa (sint (MaxVolumeExpansionSizeNode cfg)))) (
     tryE (call_os (os_stat E volPath))
       (\<lambda>err. fail (Status InvalidArgument (''Could not get file information from '' @ volPath @ '': '' @
          err_text err))) (\<lambda>m.
     case m of
       ModeDir \<Rightarrow> require (VolAccessType vol = MountAccess)
          (Status InvalidArgument (''Volume '' @ volID @ '' is not a directory'')) (ret ())
     | ModeDevice \<Rightarrow> require (VolAccessType vol = BlockAccess)
          (Status InvalidArgument (''Volume '' @ volID @ '' is not a block device'')) (ret ())
     | ModeOther \<Rightarrow> fail (Status InvalidArgument (''Volume '' @ volID @ '' is invalid'')))))))))"

end
