(* ===== verification/CsiGroup.thy ===== *)
theory CsiGroup
  imports CsiListing
begin

section \<open>simplecsi: group snapshots (pkg/hostpath/groupcontrollerserver), identity and server\<close>

text \<open>
  The handlers of \<open>groupcontrollerserver.go\<close>, the identity service, and the parsing of the
  endpoint the server listens on (pkg/server/serve.go).
\<close>

subsection \<open>Group snapshots\<close>

datatype GroupRPC = GROUP_UNKNOWN | CREATE_DELETE_GET_VOLUME_GROUP_SNAPSHOT | OTHER_GROUP_RPC

definition GroupControllerGetCapabilities :: "GroupRPC list" where
  "GroupControllerGetCapabilities = [CREATE_DELETE_GET_VOLUME_GROUP_SNAPSHOT]"

definition validateGroupControllerServiceRequest :: "GroupRPC \<Rightarrow> goerr + unit" where
  "validateGroupControllerServiceRequest c =
     (if c = GROUP_UNKNOWN then Inr ()
      else if c = CREATE_DELETE_GET_VOLUME_GROUP_SNAPSHOT then Inr ()
      else Inl (Status InvalidArgument ''unsupported capability''))"

record CsiGroupSnapshot =
  rgGroupSnapshotId :: string
  rgSnapshots :: "CsiSnapshot list"
  rgCreationTime :: "Timestamp option"
  rgReadyToUse :: bool

definition MatchesSourceVolumeIDs :: "GroupSnapshot \<Rightarrow> string list \<Rightarrow> bool \<times> string list \<times> string list" where
  "MatchesSourceVolumeIDs gs ids = equalIDs (SourceVolumeIDs gs) ids"

definition MatchesSnapshotIDs :: "GroupSnapshot \<Rightarrow> string list \<Rightarrow> bool \<times> string list \<times> string list" where
  "MatchesSnapshotIDs gs ids = equalIDs (SnapshotIDs gs) ids"

text \<open>The slices of the group that a look-up returned are those of the list in memory, so the
  sorting in \<open>equalIDs\<close> shows there: the first entry that matches gets the sorted slice.\<close>

fun map_first :: "('a \<Rightarrow> bool) \<Rightarrow> ('a \<Rightarrow> 'a) \<Rightarrow> 'a list \<Rightarrow> 'a list" where
  "map_first p f [] = []"
| "map_first p f (x # xs) = (if p x then f x # xs else x # map_first p f xs)"

text \<open>The loops that look up the snapshots of a group; the two responses fill different fields.\<close>

primrec group_members :: "(string \<Rightarrow> Snapshot \<Rightarrow> CsiSnapshot) \<Rightarrow> string list \<Rightarrow> ('c, 'o, (CsiSnapshot \<times> bool) list) csi" where
  "group_members view [] = ret []"
| "group_members view (i # ids) =
     bindE (GetSnapshotByID i) (\<lambda>snapshot.
     bindE (group_members view ids) (\<lambda>rest.
     ret ((view i snapshot, ReadyToUse snapshot) # rest)))"

definition existing_member :: "string \<Rightarrow> Snapshot \<Rightarrow> CsiSnapshot" where
  "existing_member i s = \<lparr>rSnapshotId = [], rSourceVolumeId = [],
     rCreationTime = SnapCreationTime s, rSizeBytes = SizeBytes s, rReadyToUse = ReadyToUse s,
     rGroupSnapshotId = GroupSnapshotID s\<rparr>"

definition listed_member :: "string \<Rightarrow> Snapshot \<Rightarrow> CsiSnapshot" where
  "listed_member i s = \<lparr>rSnapshotId = i, rSourceVolumeId = SnapVolID s,
     rCreationTime = SnapCreationTime s, rSizeBytes = SizeBytes s, rReadyToUse = ReadyToUse s,
     rGroupSnapshotId = GroupSnapshotID s\<rparr>"

text \<open>The loop over the source volumes; an error of \<open>UpdateSnapshot\<close> is dropped, and snapshots
  taken before a failing round stay.\<close>

primrec snapshot_volumes ::
  "('c, 'o) env \<Rightarrow> Config \<Rightarrow> string \<Rightarrow> string \<Rightarrow> Timestamp \<Rightarrow> (string \<rightharpoonup> string) \<Rightarrow> string list \<Rightarrow>
     ('c, 'o, (string \<times> CsiSnapshot) list) csi" where
  "snapshot_volumes E cfg name groupId t parameters [] = ret []"
| "snapshot_volumes E cfg name groupId t parameters (volumeID # ids) =
     bindE (GetVolumeByID E volumeID) (\<lambda>vol.
     tryE (lift (OptionsFromParameters vol parameters))
       (\<lambda>err. fail (Status InvalidArgument
          (''invalid volume group snapshot class parameters: '' @ err_text err))) (\<lambda>opts.
     bindE (call_o (new_uuid E)) (\<lambda>snapshotID.
     let file = GetSnapshotPath cfg snapshotID in
     bindE (CreateSnapshotFromVolume E vol file opts) (\<lambda>_.
     let snapshot = \<lparr>SnapName = name @ ''-'' @ volumeID, SnapId = snapshotID, SnapVolID = volumeID,
           SnapPath = file, SnapCreationTime = Some t, SizeBytes = VolSize vol, ReadyToUse = True,
           GroupSnapshotID = groupId\<rparr> in
     bindE (tryE (UpdateSnapshot E snapshot) (\<lambda>_. ret ()) ret) (\<lambda>_.
     bindE (snapshot_volumes E cfg name groupId t parameters ids) (\<lambda>rest.
     ret ((snapshotID, listed_member snapshotID snapshot) # rest)))))))"

definition CreateVolumeGroupSnapshot ::
  "('c, 'o) env \<Rightarrow> Config \<Rightarrow> string \<Rightarrow> string list \<Rightarrow> (string \<rightharpoonup> string) \<Rightarrow> ('c, 'o, CsiGroupSnapshot) csi" where
  "CreateVolumeGroupSnapshot E cfg name sourceVolumeIds parameters =
     bindE (lift (validateGroupControllerServiceRequest CREATE_DELETE_GET_VOLUME_GROUP_SNAPSHOT)) (\<lambda>_.
     require (length name \<noteq> 0) (Status InvalidArgument ''Name missing in request'') (
     require (length sourceVolumeIds \<noteq> 0) (Status InvalidArgument ''SourceVolumeIds missing in request'') (
     tryE (GetGroupSnapshotByName name)
       (\<lambda>_. bindE (call_o (new_uuid E)) (\<lambda>groupId.
          bindE (call_o (now E)) (\<lambda>t.
          bindE (snapshot_volumes E cfg name groupId t parameters sourceVolumeIds) (\<lambda>snaps.
          bindE (UpdateGroupSnapshot E \<lparr>GroupName = name, GroupId = groupId,
             SnapshotIDs = map fst snaps, SourceVolumeIDs = sourceVolumeIds,
             GroupCreationTime = Some t, GroupReadyToUse = True\<rparr>) (\<lambda>_.
          ret \<lparr>rgGroupSnapshotId = groupId, rgSnapshots = map snd snaps,
             rgCreationTime = Some t, rgReadyToUse = True\<rparr>)))))
       (\<lambda>exGS. case MatchesSourceVolumeIDs exGS sourceVolumeIds of (same, srt, _) \<Rightarrow>
          bindE getGroups (\<lambda>gs.
          bindE (setGroups (map_first (\<lambda>g. GroupName g = name) (\<lambda>g. g\<lparr>SourceVolumeIDs := srt\<rparr>) gs)) (\<lambda>_.
          require same (Status AlreadyExists (''group snapshot with the same name: '' @ name @
             '' but with different SourceVolumeIds already exist'')) (
          bindE (group_members existing_member (SnapshotIDs exGS)) (\<lambda>ms.
          ret \<lparr>rgGroupSnapshotId = GroupId exGS, rgSnapshots = map fst ms,
             rgCreationTime = GroupCreationTime exGS, rgReadyToUse = list_all snd ms\<rparr>))))))))"

primrec delete_members :: "('c, 'o) env \<Rightarrow> Config \<Rightarrow> string list \<Rightarrow> ('c, 'o, unit) csi" where
  "delete_members E cfg [] = ret ()"
| "delete_members E cfg (i # ids) =
     bindE (tryE (call_os (os_remove_all E (GetSnapshotPath cfg i))) (\<lambda>_. ret ()) ret) (\<lambda>_.
     bindE (DeleteSnapshot_state E i) (\<lambda>_. delete_members E cfg ids))"

fun status_code_not_found :: "goerr \<Rightarrow> bool" where
  "status_code_not_found (Status NotFound _) = True"
| "status_code_not_found _ = False"

definition DeleteVolumeGroupSnapshot :: "('c, 'o) env \<Rightarrow> Config \<Rightarrow> string \<Rightarrow> ('c, 'o, unit) csi" where
  "DeleteVolumeGroupSnapshot E cfg groupSnapshotID =
     bindE (lift (validateGroupControllerServiceRequest CREATE_DELETE_GET_VOLUME_GROUP_SNAPSHOT)) (\<lambda>_.
     require (length groupSnapshotID \<noteq> 0) (Status InvalidArgument ''GroupSnapshot ID missing in request'') (
     tryE (GetGroupSnapshotByID groupSnapshotID)
       (\<lambda>err. if status_code_not_found err then ret () else fail err)
       (\<lambda>groupSnapshot.
          bindE (delete_members E cfg (SnapshotIDs groupSnapshot)) (\<lambda>_.
          DeleteGroupSnapshot_state E groupSnapshotID))))"

definition GetVolumeGroupSnapshot ::
  "string \<Rightarrow> string list \<Rightarrow> ('c, 'o, CsiGroupSnapshot) csi" where
  "GetVolumeGroupSnapshot groupSnapshotID snapshotIds =
     bindE (lift (validateGroupControllerServiceRequest CREATE_DELETE_GET_VOLUME_GROUP_SNAPSHOT)) (\<lambda>_.
     require (length groupSnapshotID \<noteq> 0) (Status InvalidArgument ''GroupSnapshot ID missing in request'') (
     bindE (GetGroupSnapshotByID groupSnapshotID) (\<lambda>groupSnapshot.
     case MatchesSnapshotIDs groupSnapshot snapshotIds of (same, srt, _) \<Rightarrow>
     bindE getGroups (\<lambda>gs.
     bindE (setGroups (map_first (\<lambda>g. GroupId g = groupSnapshotID) (\<lambda>g. g\<lparr>SnapshotIDs := srt\<rparr>) gs)) (\<lambda>_.
     require same (Status InvalidArgument ''Snapshot IDs do not match the GroupSnapshot IDs'') (
     bindE (group_members listed_member srt) (\<lambda>ms.
     ret \<lparr>rgGroupSnapshotId = groupSnapshotID, rgSnapshots = map fst ms,
        rgCreationTime = GroupCreationTime groupSnapshot,
        rgReadyToUse = GroupReadyToUse groupSnapshot\<rparr>)))))))"

subsection \<open>The identity service (pkg/hostpath/identityserver)\<close>

definition NewIdentityServer :: "Config \<Rightarrow> goerr + Config" where
  "NewIdentityServer cfg =
     (if DriverName cfg = [] then Inl (Plain ''no driver name provided'')
      else if CfgNodeID cfg = [] then Inl (Plain ''no node id provided'')
      else Inr cfg)"

definition GetPluginInfo :: "Config \<Rightarrow> goerr + (string \<times> string)" where
  "GetPluginInfo cfg =
     (if DriverName cfg = [] then Inl (Status Unavailable ''Driver name not configured'')
      else if VendorVersion cfg = [] then Inl (Status Unavailable ''Driver is missing version'')
      else Inr (DriverName cfg, VendorVersion cfg))"

datatype PluginService = CONTROLLER_SERVICE | GROUP_CONTROLLER_SERVICE | VOLUME_ACCESSIBILITY_CONSTRAINTS

definition GetPluginCapabilities :: "Config \<Rightarrow> PluginService list" where
  "GetPluginCapabilities cfg = [CONTROLLER_SERVICE, GROUP_CONTROLLER_SERVICE]
     @ (if EnableTopology cfg then [VOLUME_ACCESSIBILITY_CONSTRAINTS] else [])"

end
