(* ===== verification/CsiFrames.thy ===== *)
theory CsiFrames
  imports CsiNode CsiGroup
begin

section \<open>simplecsi: what the operations leave alone\<close>

text \<open>
  Most of the operations only read the volumes and act on the outside world. \<open>read_frame\<close> is
  the contract of a state predicate that such operations keep: a call on the outside, the
  creation of the client and a reload from the ConfigMap keep it. The theory proves once, in
  the locale, that every operation and handler that does not write the store keeps such a
  predicate. It is interpreted on the invariant of the runs (CsiInvariants) and on an unchanged
  store (\<open>store_frame\<close>).
\<close>

lemma keeps_getters [keeps_intros]:
  "keeps I getVolumes" "keeps I getSnaps" "keeps I getGroups"
  by (simp_all add: state_access keeps_getS)

lemma keeps_snap_reads [keeps_intros]:
  "keeps I (GetSnapshotByID k)" "keeps I (GetSnapshotByName k)" "keeps I GetSnapshots"
  "keeps I (GetGroupSnapshotByID k)" "keeps I (GetGroupSnapshotByName k)" "keeps I GetGroupSnapshots"
  unfolding GetSnapshotByID_def GetSnapshotByName_def GetSnapshots_def GetGroupSnapshotByID_def
    GetGroupSnapshotByName_def GetGroupSnapshots_def
  by (intro keeps_intros)+

lemma keeps_group_members [keeps_intros]: "keeps I (group_members view ids)"
  by (induction ids) (simp_all only: group_members.simps, intro keeps_intros, intro keeps_intros)

locale read_frame =
  fixes E :: "('c, 'o) env" and I :: "('c, 'o) driver \<Rightarrow> bool"
  assumes frame_osw: "I s \<Longrightarrow> I (s\<lparr>osw := w\<rparr>)"
    and frame_client: "I s \<Longrightarrow> I (s\<lparr>HasClient := b\<rparr>)"
    and frame_restore: "keeps I (restore E)"
begin

lemma keeps_o [keeps_intros]: "keeps I (call_o f)" by (rule keeps_call_o) (rule frame_osw)
lemma keeps_err [keeps_intros]: "keeps I (call_err g f)" by (rule keeps_call_err) (rule frame_osw)

lemma keeps_volume_reads [keeps_intros]:
  "keeps I (GetVolumeByID E k)" "keeps I (GetVolumeByName E k)" "keeps I (GetVolumes E)"
  unfolding GetVolumeByID_def GetVolumeByName_def GetVolumes_def
  by (intro keeps_intros frame_restore)+

lemma keeps_ensure_client [keeps_intros]: "keeps I (ensure_client E)"
  unfolding ensure_client_def GetKubernetesClient_def
  by (intro keeps_intros keeps_modS frame_client)

lemma keeps_job_poll [keeps_intros]: "keeps I (job_poll E name ns node n e)"
  by (induction n arbitrary: e) (simp_all only: job_poll.simps, intro keeps_intros, intro keeps_intros)

lemma keeps_CreateJob [keeps_intros]: "keeps I (CreateJob E name ns mp node img cmd)"
  unfolding CreateJob_def by (intro keeps_intros)

lemma keeps_SumVolumeSizes [keeps_intros]: "keeps I (SumVolumeSizes E k)"
  unfolding SumVolumeSizes_def by (intro keeps_intros)

lemma keeps_GetAttachCount [keeps_intros]: "keeps I (GetAttachCount E)"
  unfolding GetAttachCount_def by (intro keeps_intros)

lemma keeps_pick_kind [keeps_intros]: "keeps I (pick_kind E cfg cap ks)"
  by (induction ks) (simp_all only: pick_kind.simps, intro keeps_intros, intro keeps_intros)

lemma keeps_choose_kind [keeps_intros]: "keeps I (choose_kind E cfg cap k)"
  unfolding choose_kind_def by (intro keeps_intros)

lemma keeps_make_backing [keeps_intros]: "keeps I (make_backing E p b pv cap a)"
  unfolding make_backing_def create_block_file_def by (intro keeps_intros)

lemma keeps_loads [keeps_intros]:
  "keeps I (HostPathLoadFromSnapshot E vsize i p m)"
  "keeps I (HostPathLoadFromVolume E vsize i p m)"
  unfolding HostPathLoadFromSnapshot_def HostPathLoadFromVolume_def loadFromFilesystemVolume_def
    loadFromBlockVolume_def HostPathIsEmpty_def
  by (intro keeps_intros)+

lemma keeps_snapshot_mount [keeps_intros]:
  "keeps I (CreateSnapshotFromVolume E vol file opts)"
  "keeps I (HostPathMount E pv b n src dst options)"
  unfolding CreateSnapshotFromVolume_def HostPathMount_def by (intro keeps_intros)+

lemma keeps_scan_mounts [keeps_intros]: "keeps I (scan_mounts E p ms)"
  by (induction ms) (simp_all only: scan_mounts.simps, intro keeps_intros, intro keeps_intros)

lemma keeps_health [keeps_intros]:
  "keeps I (DoHealthCheckInControllerSide E cfg i)"
  "keeps I (DoHealthCheckInNodeSide E cfg i)"
  unfolding DoHealthCheckInControllerSide_def DoHealthCheckInNodeSide_def checkPathExist_def
    checkPVCapacityValid_def checkPVUsage_def checkMountPointExist_def
  by (intro keeps_intros)+

lemma keeps_populate [keeps_intros]: "keeps I (populate E src cap p a)"
  unfolding populate_def by (auto split: content_source.split option.split intro!: keeps_intros)

lemma keeps_ValidateVolumeCapabilities: "keeps I (ValidateVolumeCapabilities E i caps)"
  unfolding ValidateVolumeCapabilities_def by (intro keeps_intros)

lemma keeps_GetCapacity: "keeps I (GetCapacity E cfg ps)"
  unfolding GetCapacity_def by (intro keeps_intros)

lemma keeps_list_volumes_loop [keeps_intros]: "keeps I (list_volumes_loop E cfg vs n i)"
  by (induction n arbitrary: i) (simp_all only: list_volumes_loop.simps, intro keeps_intros, intro keeps_intros)

lemma keeps_reads:
  "keeps I (ListVolumes E cfg tok n)"
  "keeps I (ControllerGetVolume E cfg i)"
  "keeps I (ControllerModifyVolume E cfg i ps)"
  "keeps I (ListSnapshots cfg i v tok m)"
  unfolding ListVolumes_def ControllerGetVolume_def ControllerModifyVolume_def ListSnapshots_def Let_def
  by (intro keeps_intros)+

lemma keeps_publish_block [keeps_intros]: "keeps I (publish_block E req v)"
  unfolding publish_block_def Let_def makeFile_def by (intro keeps_intros)

lemma keeps_publish_mount [keeps_intros]: "keeps I (publish_mount E cfg req v)"
  unfolding publish_mount_def Let_def by (intro keeps_intros)

lemma keeps_node_reads:
  "keeps I (NodeGetVolumeStats E cfg i p)"
  "keeps I (NodeExpandVolume E cfg i p cap)"
  unfolding NodeGetVolumeStats_def NodeExpandVolume_def GetPVStats_def Let_def
  by (intro keeps_intros | split file_mode.split, intro conjI impI)+

end

subsection \<open>An unchanged store\<close>

definition store_frame :: "('c, 'o) env \<Rightarrow> resources \<Rightarrow> ('c, 'o) driver \<Rightarrow> bool" where
  "store_frame E R s \<longleftrightarrow> store_ready E s \<and> res s = R"

lemma store_frameI: "store_ready E s \<Longrightarrow> store_frame E (res s) s"
  by (simp add: store_frame_def)

lemma store_frame_restore: "keeps (store_frame E R) (restore E)"
proof (rule keepsI)
  fix s assume "store_frame E R s"
  then have "store_ready E s" "res s = R" by (simp_all add: store_frame_def)
  with restore_ready [of E s] show "store_frame E R (snd (restore E s))"
    by (auto simp: store_frame_def)
qed

interpretation fr: read_frame E "store_frame E R" for E :: "('c, 'o) env" and R
proof unfold_locales
  show "keeps (store_frame E R) (restore E)" by (rule store_frame_restore)
qed (simp_all add: store_frame_def)

end
