(* ===== verification/CsiInvariants.thy ===== *)
theory CsiInvariants
  imports CsiFrames
begin

section \<open>simplecsi: invariants of every run, with an API server that may fail\<close>

text \<open>
  Invariants that hold whatever the API server and the nodes do: any call may fail, and a
  failed write may or may not have taken effect (\<open>cm_sound\<close>). \<open>csi_inv E Q\<close> says that the
  identifiers of the three lists are unique and that every volume satisfies \<open>Q\<close>, in memory and
  in the ConfigMap. A run is any sequence of gRPC calls (\<open>csi_step\<close>, \<open>csi_reach\<close>).
\<close>

subsection \<open>The ConfigMap API with failures\<close>

definition cm_sound :: "('c, 'o) env \<Rightarrow> bool" where
  "cm_sound E \<longleftrightarrow>
     (\<forall>ns n c r c'. cm_get E ns n c = (r, c') \<longrightarrow> cm_view E c' = cm_view E c \<and>
        (\<forall>cm. r = Inr cm \<longrightarrow> cm_view E c (ns, n) = Some cm)) \<and>
     (\<forall>ns n cm c r c'. cm_create E ns n cm c = (r, c') \<longrightarrow>
        cm_view E c' = cm_view E c \<or> cm_view E c' = (cm_view E c)((ns, n) \<mapsto> cm)) \<and>
     (\<forall>ns n cm c r c'. cm_update E ns n cm c = (r, c') \<longrightarrow>
        cm_view E c' = cm_view E c \<or> cm_view E c' = (cm_view E c)((ns, n) \<mapsto> cm))"

definition ids_unique :: "resources \<Rightarrow> bool" where
  "ids_unique r \<longleftrightarrow> distinct (map VolID (Volumes r)) \<and> distinct (map SnapId (Snapshots r)) \<and>
     distinct (map GroupId (GroupSnapshots r))"

definition res_ok :: "(Volume \<Rightarrow> bool) \<Rightarrow> resources \<Rightarrow> bool" where
  "res_ok Q r \<longleftrightarrow> ids_unique r \<and> list_all Q (Volumes r)"

text \<open>A stored text is good when it is empty or the text of good resources.\<close>

definition text_ok :: "(Volume \<Rightarrow> bool) \<Rightarrow> string \<Rightarrow> bool" where
  "text_ok Q t \<longleftrightarrow> t = [] \<or> (\<exists>r. t = marshal r \<and> res_ok Q r)"

definition csi_inv :: "('c, 'o) env \<Rightarrow> (Volume \<Rightarrow> bool) \<Rightarrow> ('c, 'o) driver \<Rightarrow> bool" where
  "csi_inv E Q s \<longleftrightarrow> cm_sound E \<and> res_ok Q (res s) \<and> text_ok Q (stored E (cmw s))"

lemma res_ok_volume: "res_ok Q r \<Longrightarrow> v \<in> set (Volumes r) \<Longrightarrow> Q v"
  by (auto simp: res_ok_def list_all_iff)

lemma res_ok_set_volumes:
  "res_ok Q r \<Longrightarrow> distinct (map VolID vs) \<Longrightarrow> list_all Q vs \<Longrightarrow> res_ok Q (r\<lparr>Volumes := vs\<rparr>)"
  by (simp add: res_ok_def ids_unique_def)

lemma res_ok_upsert: "res_ok Q r \<Longrightarrow> Q v \<Longrightarrow> res_ok Q (r\<lparr>Volumes := upsert_by VolID v (Volumes r)\<rparr>)"
  by (rule res_ok_set_volumes)
     (auto simp: res_ok_def ids_unique_def list_all_iff distinct_upsert dest!: upsert_by_set)

lemma res_ok_remove: "res_ok Q r \<Longrightarrow> res_ok Q (r\<lparr>Volumes := remove_by VolID k (Volumes r)\<rparr>)"
  using set_remove_by [of VolID k "Volumes r"]
  by (intro res_ok_set_volumes) (auto simp: res_ok_def ids_unique_def list_all_iff distinct_remove)

text \<open>Where the state is written.\<close>

lemma inv_osw: "csi_inv E Q s \<Longrightarrow> csi_inv E Q (s\<lparr>osw := w\<rparr>)" by (simp add: csi_inv_def)
lemma inv_client: "csi_inv E Q s \<Longrightarrow> csi_inv E Q (s\<lparr>HasClient := b\<rparr>)" by (simp add: csi_inv_def)
lemma inv_res: "csi_inv E Q s \<Longrightarrow> res_ok Q r \<Longrightarrow> csi_inv E Q (s\<lparr>res := r\<rparr>)" by (simp add: csi_inv_def)

lemma text_ok_unmarshal: "text_ok Q t \<Longrightarrow> t \<noteq> [] \<Longrightarrow> unmarshal r0 t = Some r \<Longrightarrow> res_ok Q r"
  by (auto simp: text_ok_def)

lemma get_data_sound:
  assumes "csi_inv E Q s" "GetConfigmapData E StateConfigmapName ''default'' StateVolumeKey s = (r, t)"
  shows "csi_inv E Q t \<and> res t = res s \<and> (\<forall>d. r = Inr d \<longrightarrow> text_ok Q d)"
proof -
  obtain r1 c1 where g: "cm_get E ''default'' StateConfigmapName (cmw s) = (r1, c1)" by (cases "cm_get E ''default'' StateConfigmapName (cmw s)")
  have v: "cm_view E c1 = cm_view E (cmw s)"
    and cm: "\<And>cm. r1 = Inr cm \<Longrightarrow> cm_view E (cmw s) (''default'', StateConfigmapName) = Some cm"
    using assms(1) g unfolding csi_inv_def cm_sound_def by blast+
  have inv: "csi_inv E Q (s\<lparr>cmw := c1\<rparr>)" using assms(1) stored_view [OF v] by (simp add: csi_inv_def)
  have st: "text_ok Q (stored E (cmw s))" using assms(1) by (simp add: csi_inv_def)
  show ?thesis
    using assms(2) inv st cm
    by (cases r1)
       (auto simp: GetConfigmapData_def tryE_apply call_cm_def g stored_def text_ok_def split: if_splits)
qed

lemma inv_restore: "keeps (csi_inv E Q) (restore E)"
proof (rule keepsI)
  fix s :: "('a, 'b) driver" assume inv: "csi_inv E Q s"
  let ?s0 = "s\<lparr>res := (res s)\<lparr>Volumes := [], Snapshots := []\<rparr>\<rparr>"
  have inv0: "csi_inv E Q ?s0"
    by (rule inv_res [OF inv]) (use inv in \<open>auto simp: csi_inv_def res_ok_def ids_unique_def\<close>)
  obtain r t where g: "GetConfigmapData E StateConfigmapName ''default'' StateVolumeKey ?s0 = (r, t)"
    by (metis surj_pair)
  note gd = get_data_sound [OF inv0 g]
  show "csi_inv E Q (snd (restore E s))"
  proof (cases r)
    case (Inl e) then show ?thesis using g gd by (simp add: restore_def bindE_apply)
  next
    case (Inr d)
    then show ?thesis using g gd
      by (cases "unmarshal (res t) d")
         (auto simp: restore_def bindE_apply dest: text_ok_unmarshal intro: inv_res)
  qed
qed

lemma keeps_dump [keeps_intros]: "keeps (csi_inv E Q) (dump E)"
proof (rule keepsI)
  fix s :: "('a, 'b) driver" assume inv: "csi_inv E Q s"
  let ?k = "(''default'', StateConfigmapName)" and ?d = "marshal (res s)"
  have snd: "cm_sound E" and rok: "res_ok Q (res s)" and tok: "text_ok Q (stored E (cmw s))"
    using inv by (simp_all add: csi_inv_def)
  obtain r1 c1 where g: "cm_get E ''default'' StateConfigmapName (cmw s) = (r1, c1)" by (metis surj_pair)
  have v1: "cm_view E c1 = cm_view E (cmw s)" using snd g unfolding cm_sound_def by blast
  have step: "csi_inv E Q (s\<lparr>cmw := c2\<rparr>)"
    if "cm_view E c2 = cm_view E c1 \<or> (\<exists>cm. cm_view E c2 = (cm_view E c1)(?k \<mapsto> cm(StateVolumeKey \<mapsto> ?d)))" for c2
  proof -
    have "text_ok Q (stored E c2)"
    proof (cases "cm_view E c2 = cm_view E c1")
      case True then show ?thesis using tok v1 stored_view [of E c2 "cmw s"] by simp
    next
      case False
      with that obtain cm where "cm_view E c2 = (cm_view E c1)(?k \<mapsto> cm(StateVolumeKey \<mapsto> ?d))" by blast
      then have "stored E c2 = ?d" by (simp add: stored_def)
      then show ?thesis using rok by (auto simp: text_ok_def)
    qed
    then show ?thesis using inv by (simp add: csi_inv_def)
  qed
  obtain r2 c2 where cr: "cm_create E ''default'' StateConfigmapName [StateVolumeKey \<mapsto> ?d] c1 = (r2, c2)" by (metis surj_pair)
  have cr2: "csi_inv E Q (s\<lparr>cmw := c2\<rparr>)"
    by (rule step) (use snd cr in \<open>unfold cm_sound_def, blast\<close>)
  have up2: "csi_inv E Q (s\<lparr>cmw := c3\<rparr>)"
    if "cm_update E ''default'' StateConfigmapName (cm(StateVolumeKey \<mapsto> ?d)) c1 = (r3, c3)" for cm r3 c3
    by (rule step) (use snd that in \<open>unfold cm_sound_def, blast\<close>)
  show "csi_inv E Q (snd (dump E s))"
    using g cr cr2 up2 step [of c1]
    by (cases r1) (auto simp: dump_def CreateOrUpdateConfigmap_def io_simps call_cm_def split: prod.splits sum.splits)
qed

text \<open>Writing a list back, then \<open>dump\<close>.\<close>

lemma hoare_getVolumes: "hoare (csi_inv E Q) getVolumes (\<lambda>vs. distinct (map VolID vs) \<and> list_all Q vs)"
  by (auto simp: hoare_def state_access csi_inv_def res_ok_def ids_unique_def)

lemma keeps_setVolumes:
  "distinct (map VolID vs) \<Longrightarrow> list_all Q vs \<Longrightarrow> keeps (csi_inv E Q) (setVolumes vs)"
  by (auto simp: keeps_def state_access csi_inv_def intro: res_ok_set_volumes)

lemma hoare_getSnaps: "hoare (csi_inv E Q) getSnaps (\<lambda>xs. distinct (map SnapId xs))"
  by (auto simp: hoare_def state_access csi_inv_def res_ok_def ids_unique_def)

lemma keeps_setSnaps: "distinct (map SnapId xs) \<Longrightarrow> keeps (csi_inv E Q) (setSnaps xs)"
  by (auto simp: keeps_def state_access csi_inv_def res_ok_def ids_unique_def)

lemma hoare_getGroups: "hoare (csi_inv E Q) getGroups (\<lambda>xs. distinct (map GroupId xs))"
  by (auto simp: hoare_def state_access csi_inv_def res_ok_def ids_unique_def)

lemma keeps_setGroups: "distinct (map GroupId xs) \<Longrightarrow> keeps (csi_inv E Q) (setGroups xs)"
  by (auto simp: keeps_def state_access csi_inv_def res_ok_def ids_unique_def)

interpretation inv: read_frame E "csi_inv E Q" for E :: "('c, 'o) env" and Q
  by unfold_locales (rule inv_osw, assumption, rule inv_client, assumption, rule inv_restore)

lemmas keeps_restore [keeps_intros] = inv_restore

subsection \<open>The methods of State\<close>

lemma hoare_GetVolumeByID [hoare_intros]: "hoare (csi_inv E Q) (GetVolumeByID E k) Q"
  unfolding GetVolumeByID_def
  by (rule hoare_bindE_keeps [OF keeps_restore], rule hoare_bindE [OF hoare_getVolumes])
     (auto split: option.splits intro!: hoare_intros dest!: find_by_Some simp: list_all_iff)

lemma hoare_GetVolumeByName [hoare_intros]: "hoare (csi_inv E Q) (GetVolumeByName E k) Q"
  unfolding GetVolumeByName_def
  by (rule hoare_bindE_keeps [OF keeps_restore], rule hoare_bindE [OF hoare_getVolumes])
     (auto split: option.splits intro!: hoare_intros dest!: find_by_Some simp: list_all_iff)

lemma keeps_UpdateVolume: "Q v \<Longrightarrow> keeps (csi_inv E Q) (UpdateVolume E v)"
  unfolding UpdateVolume_def hoare_keeps [symmetric]
  apply (rule hoare_bindE_keeps)
   apply (intro keeps_intros)
  apply (rule hoare_bindE [OF hoare_getVolumes])
  apply (rule hoare_bindE_keeps)
   apply (rule keeps_setVolumes)
    apply (simp add: distinct_upsert)
   apply (auto simp: list_all_iff dest!: upsert_by_set)[1]
  apply (simp add: hoare_keeps keeps_intros)
  done

lemma keeps_DeleteVolume_state [keeps_intros]: "keeps (csi_inv E Q) (DeleteVolume_state E k)"
  unfolding DeleteVolume_state_def hoare_keeps [symmetric]
  apply (rule hoare_bindE_keeps [OF keeps_restore], rule hoare_bindE [OF hoare_getVolumes])
  apply (rule hoare_option)
   apply (simp add: hoare_intros)
  apply (rule hoare_bindE_keeps, rule keeps_setVolumes)
    apply (simp add: distinct_remove)
   apply (use set_remove_by in \<open>fastforce simp: list_all_iff\<close>)
  apply (simp add: hoare_keeps keeps_intros)
  done

text \<open>The tail of every write: the new list, then \<open>dump\<close>.\<close>

lemma write_snaps: "distinct (map SnapId xs) \<Longrightarrow> keeps (csi_inv E Q) (bindE (setSnaps xs) (\<lambda>_. dump E))"
  by (intro keeps_intros keeps_setSnaps)

lemma write_groups: "distinct (map GroupId xs) \<Longrightarrow> keeps (csi_inv E Q) (bindE (setGroups xs) (\<lambda>_. dump E))"
  by (intro keeps_intros keeps_setGroups)

lemma keeps_snap_writes [keeps_intros]:
  "keeps (csi_inv E Q) (UpdateSnapshot E x)" "keeps (csi_inv E Q) (DeleteSnapshot_state E k)"
  unfolding UpdateSnapshot_def DeleteSnapshot_state_def hoare_keeps [symmetric]
  by (rule hoare_bindE [OF hoare_getSnaps],
      simp add: hoare_keeps distinct_upsert distinct_remove write_snaps keeps_intros split: option.split)+

lemma keeps_group_writes [keeps_intros]:
  "keeps (csi_inv E Q) (UpdateGroupSnapshot E g)" "keeps (csi_inv E Q) (DeleteGroupSnapshot_state E k)"
  unfolding UpdateGroupSnapshot_def DeleteGroupSnapshot_state_def hoare_keeps [symmetric]
  by (rule hoare_bindE [OF hoare_getGroups],
      simp add: hoare_keeps distinct_upsert distinct_remove write_groups keeps_intros split: option.split)+

lemma keeps_HostPathDeleteVolume [keeps_intros]: "keeps (csi_inv E Q) (HostPathDeleteVolume E cfg k)"
  unfolding HostPathDeleteVolume_def by (intro keeps_intros)


end
