(* ===== verification/CsiRuns.thy ===== *)
theory CsiRuns
  imports CsiInvariants
begin

section \<open>simplecsi: runs of the driver and the life cycle of its volumes\<close>

text \<open>
  \<open>csi_step\<close> is one gRPC call of any service, a change of the outside world, or a restart of
  the driver; \<open>csi_reach\<close> is any sequence of them, with an API server that may fail at every
  call (\<open>cm_sound\<close>). Each handler keeps \<open>csi_inv\<close> for the life-cycle predicate of a volume, so
  every reachable state has it.
\<close>

subsection \<open>The life cycle of a volume\<close>

text \<open>
  A volume has at most one staging path; with attaching enabled and the life cycle checked it
  is staged only while attached; and it is published only while staged. The last part is for
  runs without ephemeral publishing (\<open>eph\<close> is false), which skips staging.
\<close>

definition lifecycle :: "Config \<Rightarrow> bool \<Rightarrow> Volume \<Rightarrow> bool" where
  "lifecycle cfg eph v \<longleftrightarrow>
     length (Staged v) \<le> 1 \<and>
     (EnableAttach cfg \<and> CheckVolumeLifecycle cfg \<longrightarrow> Staged v \<noteq> [] \<longrightarrow> Attached v) \<and>
     (\<not> eph \<longrightarrow> Published v \<noteq> [] \<longrightarrow> Staged v \<noteq> [])"

lemma lifecycle_fresh: "Staged v = [] \<Longrightarrow> Published v = [] \<Longrightarrow> lifecycle cfg eph v"
  by (simp add: lifecycle_def)

lemma lifecycle_attach: "lifecycle cfg eph v \<Longrightarrow> lifecycle cfg eph (v\<lparr>Attached := True, ReadOnlyAttach := r\<rparr>)"
  by (simp add: lifecycle_def)

lemma lifecycle_detach:
  "lifecycle cfg eph v \<Longrightarrow> \<not> ((\<not> strings_Empty (Published v) \<or> \<not> strings_Empty (Staged v)) \<and> CheckVolumeLifecycle cfg) \<Longrightarrow>
     lifecycle cfg eph (v\<lparr>Attached := False\<rparr>)"
  by (auto simp: lifecycle_def)

lemma lifecycle_resize: "lifecycle cfg eph v \<Longrightarrow> lifecycle cfg eph (v\<lparr>VolSize := n\<rparr>)"
  by (simp add: lifecycle_def)

lemma lifecycle_stage:
  "lifecycle cfg eph v \<Longrightarrow> strings_Empty (Staged v) \<Longrightarrow> \<not> (EnableAttach cfg \<and> \<not> Attached v) \<Longrightarrow>
     lifecycle cfg eph (v\<lparr>Staged := strings_Add p (Staged v)\<rparr>)"
  by (auto simp: lifecycle_def strings_Add_def)

lemma lifecycle_unstage:
  "lifecycle cfg eph v \<Longrightarrow> strings_Empty (Published v) \<Longrightarrow>
     lifecycle cfg eph (v\<lparr>Staged := strings_Remove p (Staged v)\<rparr>)"
  using notin_set_remove1 [of _ "Staged v" p]
  by (auto simp: lifecycle_def strings_Remove_remove1 length_remove1)

lemma lifecycle_publish:
  "lifecycle cfg eph v \<Longrightarrow> eph \<or> \<not> strings_Empty (Staged v) \<Longrightarrow>
     lifecycle cfg eph (v\<lparr>NodeID := n, Published := strings_Add p (Published v)\<rparr>)"
  by (auto simp: lifecycle_def)

lemma lifecycle_unpublish:
  "lifecycle cfg eph v \<Longrightarrow> lifecycle cfg eph (v\<lparr>Published := strings_Remove p (Published v)\<rparr>)"
  by (auto simp: lifecycle_def strings_Remove_remove1)

abbreviation csi_ok :: "('c, 'o) env \<Rightarrow> Config \<Rightarrow> bool \<Rightarrow> ('c, 'o) driver \<Rightarrow> bool" where
  "csi_ok E cfg eph \<equiv> csi_inv E (lifecycle cfg eph)"

subsection \<open>The controller service\<close>

lemma keeps_HostPathCreateVolume [keeps_intros]:
  "keeps (csi_ok E cfg eph) (HostPathCreateVolume E cfg' i n b pv cap a e k)"
  unfolding HostPathCreateVolume_def Let_def
  by (intro keeps_intros keeps_UpdateVolume lifecycle_fresh) simp_all

lemma keeps_CreateVolume: "keeps (csi_ok E cfg eph) (CreateVolume E cfg req)"
  unfolding CreateVolume_def create_new_def by (intro keeps_intros)

lemma keeps_DeleteVolume: "keeps (csi_inv E Q) (DeleteVolume E cfg i)"
  unfolding DeleteVolume_def by (intro keeps_intros)

text \<open>The handlers that look a volume up and write it back.\<close>

lemmas hoare_tryGet = hoare_tryE [OF hoare_GetVolumeByID]
lemmas hoare_bindGet = hoare_bindE [OF hoare_GetVolumeByID]

lemma hoare_UpdateVolume: "Q v \<Longrightarrow> hoare (csi_inv E Q) (UpdateVolume E v) (\<lambda>_. True)"
  by (simp add: hoare_keeps keeps_UpdateVolume)

lemma hoare_plain:
  "hoare (csi_inv E Q) (ret x) (\<lambda>_. True)" "hoare (csi_inv E Q) (fail e) (\<lambda>_. True)"
  by (rule hoare_ret, simp) (rule hoare_fail)

lemma keeps_ControllerPublishVolume: "keeps (csi_ok E cfg eph) (ControllerPublishVolume E cfg i n cap ro)"
  unfolding ControllerPublishVolume_def hoare_keeps [symmetric]
  apply (intro hoare_require hoare_tryGet hoare_plain hoare_if hoare_bindE_keeps)
   apply (intro keeps_intros)
  apply (rule hoare_UpdateVolume, erule lifecycle_attach)
  done

lemma keeps_ControllerUnpublishVolume: "keeps (csi_ok E cfg eph) (ControllerUnpublishVolume E cfg i n)"
  unfolding ControllerUnpublishVolume_def hoare_keeps [symmetric]
  by (intro hoare_require hoare_tryGet hoare_plain hoare_tryE_keeps keeps_UpdateVolume lifecycle_detach)

lemma keeps_ControllerExpandVolume: "keeps (csi_ok E cfg eph) (ControllerExpandVolume E cfg i cap)"
  unfolding ControllerExpandVolume_def Let_def hoare_keeps [symmetric]
  by (intro hoare_require hoare_bindGet hoare_plain hoare_if hoare_bindE_keeps keeps_UpdateVolume lifecycle_resize)

lemma keeps_CreateSnapshot: "keeps (csi_inv E Q) (CreateSnapshot E cfg n v ps)"
  unfolding CreateSnapshot_def by (intro keeps_intros)

lemma keeps_DeleteSnapshot: "keeps (csi_inv E Q) (DeleteSnapshot E cfg i)"
  unfolding DeleteSnapshot_def by (intro keeps_intros)

subsection \<open>The group service\<close>

lemma map_first_ids: "(\<And>x. f (g x) = f x) \<Longrightarrow> map f (map_first p g xs) = map f xs"
  by (induction xs) auto

lemma keeps_snapshot_volumes [keeps_intros]: "keeps (csi_inv E Q) (snapshot_volumes E cfg n g t ps ids)"
  by (induction ids) (simp_all only: snapshot_volumes.simps, intro keeps_intros, intro keeps_intros)

lemma keeps_delete_members [keeps_intros]: "keeps (csi_inv E Q) (delete_members E cfg ids)"
  by (induction ids) (simp_all only: delete_members.simps, intro keeps_intros, intro keeps_intros)

lemma keeps_sort_group:
  assumes "\<And>srt x. GroupId (g srt x) = GroupId x" "keeps (csi_inv E Q) m"
  shows "keeps (csi_inv E Q) (bindE getGroups (\<lambda>gs. bindE (setGroups (map_first p (g srt) gs)) (\<lambda>_. m)))"
  unfolding hoare_keeps [symmetric]
  by (rule hoare_bindE [OF hoare_getGroups], rule hoare_bindE_keeps [OF keeps_setGroups])
     (simp_all add: map_first_ids assms hoare_keeps)

text \<open>The two handlers that sort a list of the stored group on the way.\<close>

lemmas keeps_sorting = keeps_sort_group [where g = "\<lambda>srt g. g\<lparr>SourceVolumeIDs := srt\<rparr>"]
  keeps_sort_group [where g = "\<lambda>srt g. g\<lparr>SnapshotIDs := srt\<rparr>"]

lemma keeps_CreateVolumeGroupSnapshot: "keeps (csi_inv E Q) (CreateVolumeGroupSnapshot E cfg n vs ps)"
  unfolding CreateVolumeGroupSnapshot_def
  by (rule keeps_bindE keeps_require keeps_lift keeps_tryE keeps_snap_reads keeps_case_prod keeps_sorting
        | simp | intro keeps_intros)+

lemma keeps_DeleteVolumeGroupSnapshot: "keeps (csi_inv E Q) (DeleteVolumeGroupSnapshot E cfg i)"
  unfolding DeleteVolumeGroupSnapshot_def by (intro keeps_intros)

lemma keeps_GetVolumeGroupSnapshot: "keeps (csi_inv E Q) (GetVolumeGroupSnapshot i ids)"
  unfolding GetVolumeGroupSnapshot_def
  by (rule keeps_sorting keeps_bindE keeps_require keeps_lift keeps_snap_reads keeps_case_prod
        | simp | intro keeps_intros)+

subsection \<open>The node service\<close>

lemma keeps_create_ephemeral [keeps_intros]: "keeps (csi_ok E cfg eph) (create_ephemeral E cfg req)"
  unfolding create_ephemeral_def Let_def by (intro keeps_intros)

lemma keeps_NodePublishVolume:
  assumes "ephemeral_volume cfg req \<Longrightarrow> eph"
  shows "keeps (csi_ok E cfg eph) (NodePublishVolume E cfg req)"
  unfolding NodePublishVolume_def Let_def hoare_keeps [symmetric]
  apply (rule hoare_require)+
  apply (rule hoare_bindE_keeps, intro keeps_intros)
  apply (rule hoare_tryGet, rule hoare_plain(2))
  apply (rule hoare_require)+
  apply (rule hoare_bindE_keeps, intro keeps_intros)
  apply (rule hoare_if, rule hoare_plain(1))
  apply (rule hoare_UpdateVolume, erule lifecycle_publish)
  using assms by blast

lemma keeps_NodeUnpublishVolume: "keeps (csi_ok E cfg eph) (NodeUnpublishVolume E cfg i p)"
  unfolding NodeUnpublishVolume_def hoare_keeps [symmetric]
  apply (rule hoare_require)+
  apply (rule hoare_bindGet, rule hoare_if, rule hoare_plain(1))
  apply (rule hoare_bindE_keeps, intro keeps_intros)
  apply (rule hoare_tryE_keeps, intro keeps_intros, rule hoare_plain(2))
  apply (rule hoare_if)
   apply (subst hoare_keeps, intro keeps_intros)
  apply (rule hoare_UpdateVolume, erule lifecycle_unpublish)
  done

lemma keeps_NodeStageVolume: "keeps (csi_ok E cfg eph) (NodeStageVolume E cfg i p cap)"
  unfolding NodeStageVolume_def hoare_keeps [symmetric]
  by (intro hoare_require hoare_bindGet hoare_plain hoare_if hoare_UpdateVolume lifecycle_stage)

lemma keeps_NodeUnstageVolume: "keeps (csi_ok E cfg eph) (NodeUnstageVolume E i p)"
  unfolding NodeUnstageVolume_def hoare_keeps [symmetric]
  by (intro hoare_require hoare_bindGet hoare_plain hoare_if hoare_UpdateVolume lifecycle_unstage)

subsection \<open>Runs\<close>

text \<open>\<open>eph\<close> admits ephemeral publish requests. A restart keeps only the ConfigMap.\<close>

inductive csi_step :: "('c, 'o) env \<Rightarrow> Config \<Rightarrow> bool \<Rightarrow> ('c, 'o) driver \<Rightarrow> ('c, 'o) driver \<Rightarrow> bool"
  for E :: "('c, 'o) env" and cfg :: Config and eph :: bool
where
  step_CreateVolume: "csi_step E cfg eph s (snd (CreateVolume E cfg req s))"
| step_DeleteVolume: "csi_step E cfg eph s (snd (DeleteVolume E cfg i s))"
| step_Validate: "csi_step E cfg eph s (snd (ValidateVolumeCapabilities E i caps s))"
| step_ControllerPublish: "csi_step E cfg eph s (snd (ControllerPublishVolume E cfg i n cap ro s))"
| step_ControllerUnpublish: "csi_step E cfg eph s (snd (ControllerUnpublishVolume E cfg i n s))"
| step_GetCapacity: "csi_step E cfg eph s (snd (GetCapacity E cfg ps s))"
| step_ControllerExpand: "csi_step E cfg eph s (snd (ControllerExpandVolume E cfg i rng s))"
| step_ListVolumes: "csi_step E cfg eph s (snd (ListVolumes E cfg tok m s))"
| step_ControllerGet: "csi_step E cfg eph s (snd (ControllerGetVolume E cfg i s))"
| step_Modify: "csi_step E cfg eph s (snd (ControllerModifyVolume E cfg i mps s))"
| step_CreateSnapshot: "csi_step E cfg eph s (snd (CreateSnapshot E cfg n i ps s))"
| step_DeleteSnapshot: "csi_step E cfg eph s (snd (DeleteSnapshot E cfg i s))"
| step_ListSnapshots: "csi_step E cfg eph s (snd (ListSnapshots cfg i v tok m s))"
| step_CreateGroup: "csi_step E cfg eph s (snd (CreateVolumeGroupSnapshot E cfg n ids ps s))"
| step_DeleteGroup: "csi_step E cfg eph s (snd (DeleteVolumeGroupSnapshot E cfg i s))"
| step_GetGroup: "csi_step E cfg eph s (snd (GetVolumeGroupSnapshot i ids s))"
| step_NodePublish: "(ephemeral_volume cfg req \<longrightarrow> eph) \<Longrightarrow> csi_step E cfg eph s (snd (NodePublishVolume E cfg req s))"
| step_NodeUnpublish: "csi_step E cfg eph s (snd (NodeUnpublishVolume E cfg i p s))"
| step_NodeStage: "csi_step E cfg eph s (snd (NodeStageVolume E cfg i p cap s))"
| step_NodeUnstage: "csi_step E cfg eph s (snd (NodeUnstageVolume E i p s))"
| step_NodeStats: "csi_step E cfg eph s (snd (NodeGetVolumeStats E cfg i p s))"
| step_NodeExpand: "csi_step E cfg eph s (snd (NodeExpandVolume E cfg i p rng s))"
| step_outside: "csi_step E cfg eph s (s\<lparr>osw := w\<rparr>)"
| step_restart: "state_New E path (cmw s) w = (Inr (), t) \<Longrightarrow> csi_step E cfg eph s t"

inductive csi_reach :: "('c, 'o) env \<Rightarrow> Config \<Rightarrow> bool \<Rightarrow> ('c, 'o) driver \<Rightarrow> bool"
  for E :: "('c, 'o) env" and cfg :: Config and eph :: bool
where
  reach_start: "stored E c = [] \<Longrightarrow> state_New E path c w = (Inr (), s) \<Longrightarrow> csi_reach E cfg eph s"
| reach_step: "csi_reach E cfg eph s \<Longrightarrow> csi_step E cfg eph s t \<Longrightarrow> csi_reach E cfg eph t"

inductive_cases csi_stepE: "csi_step E cfg eph s t"

lemma state_New_inv:
  assumes "cm_sound E" "text_ok Q (stored E c)" "state_New E path c w = (r, s)"
  shows "csi_inv E Q s"
  using keepsD_eq [OF keeps_restore _ assms(3) [unfolded state_New_def]] assms(1,2)
  by (simp add: csi_inv_def empty_resources_def res_ok_def ids_unique_def)

lemmas handlers_keep = keeps_CreateVolume keeps_DeleteVolume inv.keeps_ValidateVolumeCapabilities
  keeps_ControllerPublishVolume keeps_ControllerUnpublishVolume inv.keeps_GetCapacity
  keeps_ControllerExpandVolume inv.keeps_reads keeps_CreateSnapshot keeps_DeleteSnapshot
  keeps_CreateVolumeGroupSnapshot keeps_DeleteVolumeGroupSnapshot keeps_GetVolumeGroupSnapshot
  keeps_NodeUnpublishVolume keeps_NodeStageVolume keeps_NodeUnstageVolume inv.keeps_node_reads

lemma csi_step_ok: "csi_step E cfg eph s t \<Longrightarrow> csi_ok E cfg eph s \<Longrightarrow> csi_ok E cfg eph t"
proof (induction rule: csi_step.induct)
  case (step_NodePublish req s) then show ?case by (auto intro: keepsD [OF keeps_NodePublishVolume])
next
  case (step_outside s w) then show ?case by (rule inv_osw)
next
  case (step_restart path s w t)
  then show ?case by (auto simp: csi_inv_def [of _ _ s] intro: state_New_inv)
qed (erule keepsD [OF handlers_keep(1)] keepsD [OF handlers_keep(2)] keepsD [OF handlers_keep(3)]
    keepsD [OF handlers_keep(4)] keepsD [OF handlers_keep(5)] keepsD [OF handlers_keep(6)]
    keepsD [OF handlers_keep(7)] keepsD [OF handlers_keep(8)] keepsD [OF handlers_keep(9)]
    keepsD [OF handlers_keep(10)] keepsD [OF handlers_keep(11)] keepsD [OF handlers_keep(12)]
    keepsD [OF handlers_keep(13)] keepsD [OF handlers_keep(14)] keepsD [OF handlers_keep(15)]
    keepsD [OF handlers_keep(16)] keepsD [OF handlers_keep(17)] keepsD [OF handlers_keep(18)]
    keepsD [OF handlers_keep(19)] keepsD [OF handlers_keep(20)] keepsD [OF handlers_keep(21)])+

lemma csi_reach_ok: "csi_reach E cfg eph s \<Longrightarrow> cm_sound E \<Longrightarrow> csi_ok E cfg eph s"
  by (induction rule: csi_reach.induct)
     (auto intro: state_New_inv csi_step_ok simp: text_ok_def)

end
