(* ===== verification/CsiHandlers.thy ===== *)
theory CsiHandlers
  imports CsiFrames
begin

section \<open>simplecsi: what the handlers do to a store that works\<close>

text \<open>
  The handlers run against the contract of the store (the rules \<open>st.sx_...\<close> of CsiStore): what
  a successful call leaves in the store and what it returns, and which calls are refused.
\<close>

lemma find_by_upsert_other:
  "find_by g (g v) vs = None \<Longrightarrow> find_by g (g v) (upsert_by f v vs) = Some v"
  by (induction vs) (auto split: if_splits)

lemma map_upsert_absent: "find_by f (f v) vs = None \<Longrightarrow> upsert_by f v vs = vs @ [v]"
  by (induction vs) (auto split: if_splits)

lemma filter_upsert: "length (filter p (upsert_by f w vs)) \<le> Suc (length (filter p vs))"
  by (induction vs) auto

text \<open>Running a call of which the frame is known.\<close>

lemma frame_run:
  "keeps (store_frame E (res s)) m \<Longrightarrow> store_ready E s \<Longrightarrow> m s = (r, t) \<Longrightarrow> store_ready E t \<and> res t = res s"
  using keepsD_eq [of "store_frame E (res s)" m s r t] by (simp add: store_frame_def)

lemma frame_bind:
  assumes "bindE m f s = (r, t)" "keeps (store_frame E (res s)) m" "store_ready E s"
  obtains (stop) e where "r = Inl e" "store_ready E t" "res t = res s"
    | (go) x s' where "m s = (Inr x, s')" "f x s' = (r, t)" "store_ready E s'" "res s' = res s"
proof -
  obtain q u where q: "m s = (q, u)" by (cases "m s")
  note fr = frame_run [OF assms(2,3) q]
  show thesis
  proof (cases q)
    case (Inl e)
    show thesis by (rule stop [of e]) (use assms(1) q Inl fr in \<open>simp_all add: bindE_apply\<close>)
  next
    case (Inr x)
    show thesis by (rule go [of x u]) (use assms(1) q Inr fr in \<open>simp_all add: bindE_apply\<close>)
  qed
qed

lemma update_run:
  assumes "store_ready E s" "UpdateVolume E v s = (r, t)"
  shows "r = Inr () \<and> store_ready E t \<and> driver_other t = driver_other s \<and>
    res t = (res s)\<lparr>Volumes := upsert_by VolID v (Volumes (res s))\<rparr>"
  using st.update_law [OF assms(1), of v] assms(2) by auto

lemma delete_run:
  assumes "store_ready E s" "DeleteVolume_state E k s = (r, t)"
  shows "r = Inr () \<and> store_ready E t \<and> driver_other t = driver_other s \<and>
    res t = (res s)\<lparr>Volumes := remove_by VolID k (Volumes (res s))\<rparr>"
  using st.delete_law [OF assms(1), of k] assms(2) by auto

lemma get_run:
  assumes "store_ready E s" "GetVolumeByID E k s = (r, t)"
  shows "store_ready E t \<and> res t = res s \<and> driver_other t = driver_other s \<and>
    (case r of Inr v \<Rightarrow> find_by VolID k (Volumes (res s)) = Some v
     | Inl e \<Rightarrow> find_by VolID k (Volumes (res s)) = None \<and> \<not> is_panic e)"
  using st.get_by_id_law [OF assms(1), of k] assms(2) by (auto split: option.splits)

lemma get_name_run:
  assumes "store_ready E s" "GetVolumeByName E n s = (r, t)"
  shows "store_ready E t \<and> res t = res s \<and> driver_other t = driver_other s \<and>
    (case r of Inr v \<Rightarrow> find_by VolName n (Volumes (res s)) = Some v
     | Inl e \<Rightarrow> find_by VolName n (Volumes (res s)) = None \<and> \<not> is_panic e)"
  using st.get_by_name_law [OF assms(1), of n] assms(2) by (auto split: option.splits)

subsection \<open>Accounting\<close>

lemma SumVolumeSizes_run:
  assumes "store_ready E s" "SumVolumeSizes E k s = (r, t)"
  shows "r = Inr (sum_sizes k (Volumes (res s)) 0) \<and> store_ready E t \<and> res t = res s \<and> driver_other t = driver_other s"
  using st.get_all_law [OF assms(1)] assms(2) by (auto simp: SumVolumeSizes_def bindE_apply)

lemma GetAttachCount_run:
  assumes "store_ready E s" "GetAttachCount E s = (r, t)"
  shows "r = Inr (count_attached (Volumes (res s)) 0) \<and> store_ready E t \<and> res t = res s \<and> driver_other t = driver_other s"
  using st.get_all_law [OF assms(1)] assms(2) by (auto simp: GetAttachCount_def bindE_apply)

lemma sum_sizes_list: "sum_sizes k vs a = a + sum_list (map VolSize (filter (\<lambda>v. Kind v = k) vs))"
  by (induction k vs a rule: sum_sizes.induct) (auto simp: add.assoc)

lemma sum_sizes_append: "sum_sizes k (xs @ [v]) a = (if Kind v = k then sum_sizes k xs a + VolSize v else sum_sizes k xs a)"
  by (simp add: sum_sizes_list)

lemma count_attached_filter: "count_attached vs a = a + word_of_nat (length (filter Attached vs))"
  by (induction vs a rule: count_attached.induct) (auto simp: add.assoc)

text \<open>Without wrap-around the count is the mathematical one.\<close>

lemma sint_of_nat_small: "int n < 2 ^ 63 \<Longrightarrow> sint (word_of_nat n :: int64) = int n"
  using sint64_of_int [of "int n"] by simp

subsection \<open>Creating a volume\<close>

lemma choose_kind_run:
  assumes "store_ready E s" "choose_kind E cfg cap k0 s = (Inr k, t)"
  shows "store_ready E t \<and> res t = res s \<and> (Capacity_Enabled (CfgCapacity cfg) \<longrightarrow>
    le64 (sum_sizes k (Volumes (res s)) 0 + cap) (capacity_value (CfgCapacity cfg) k))"
proof -
  have t: "store_ready E t \<and> res t = res s"
    by (rule frame_run [OF fr.keeps_choose_kind assms])
  show ?thesis
  proof (cases "Capacity_Enabled (CfgCapacity cfg)")
    case True
    then obtain s1 used s2 where 1: "(if k0 = [] then bindE (call_o (range_keys E (map fst (CfgCapacity cfg)))) (pick_kind E cfg cap)
               else ret k0) s = (Inr k, s1)" and 2: "SumVolumeSizes E k s1 = (Inr used, s2)"
      and le: "le64 (used + cap) (capacity_value (CfgCapacity cfg) k)"
      using assms(2) unfolding choose_kind_def by (auto simp: eq_Inr Let_def)
    have "keeps (store_frame E (res s)) (if k0 = [] then bindE (call_o (range_keys E (map fst (CfgCapacity cfg)))) (pick_kind E cfg cap)
               else ret k0)" by (intro keeps_intros)
    from frame_run [OF this assms(1) 1] have "store_ready E s1 \<and> res s1 = res s" .
    with SumVolumeSizes_run [OF _ 2] le t show ?thesis by auto
  qed (use t in simp)
qed

lemma HostPathCreateVolume_run:
  assumes "store_ready E s" "HostPathCreateVolume E cfg i n b pv cap a e k0 s = (Inr v, t)"
  shows "store_ready E t \<and> res t = (res s)\<lparr>Volumes := upsert_by VolID v (Volumes (res s))\<rparr> \<and>
    VolName v = n \<and> VolID v = i \<and> VolSize v = cap \<and> VolAccessType v = a \<and> VolPath v = HostPathGetVolumePath cfg i \<and>
    ParentVolID v = [] \<and> ParentSnapID v = [] \<and>
    Ephemeral v = e \<and> \<not> Attached v \<and> Staged v = [] \<and> Published v = [] \<and> le64 cap (MaxVolumeSize cfg) \<and>
    (Capacity_Enabled (CfgCapacity cfg) \<longrightarrow>
       le64 (sum_sizes (Kind v) (Volumes (res s)) 0 + cap) (capacity_value (CfgCapacity cfg) (Kind v)))"
proof -
  from assms(2) obtain k s1 node s2 where le: "le64 cap (MaxVolumeSize cfg)"
    and 1: "choose_kind E cfg cap k0 s = (Inr k, s1)"
    and 2: "make_backing E (HostPathGetVolumePath cfg i) b pv cap a s1 = (Inr node, s2)"
    and 3: "UpdateVolume E v s2 = (Inr (), t)"
    and v: "v = \<lparr>VolName = n, VolID = i, VolSize = cap, VolPath = HostPathGetVolumePath cfg i,
           VolAccessType = a, ParentVolID = [], ParentSnapID = [],
           Ephemeral = e, NodeID = [], Kind = k, ReadOnlyAttach = False,
           Attached = False, VolumeNode = node, Staged = [], Published = []\<rparr>"
    unfolding HostPathCreateVolume_def by (auto simp: eq_Inr Let_def)
  note c = choose_kind_run [OF assms(1) 1]
  have m: "store_ready E s2 \<and> res s2 = res s"
    using frame_run [OF fr.keeps_make_backing _ 2] c by simp
  show ?thesis using update_run [OF _ 3] m c le by (simp add: v)
qed

text \<open>The checks before the look-up, as one condition.\<close>

definition create_request_ok :: "Config \<Rightarrow> CreateVolumeRequest \<Rightarrow> bool" where
  "create_request_ok cfg req \<longleftrightarrow>
     validateControllerServiceRequest cfg CREATE_DELETE_VOLUME = Inr () \<and>
     (cvMutableParameters req \<noteq> [] \<longrightarrow> validateControllerServiceRequest cfg MODIFY_VOLUME = Inr () \<and>
        validateVolumeMutableParameters cfg (cvMutableParameters req) = Inr ()) \<and>
     cvName req \<noteq> [] \<and> cvCapabilities req \<noteq> [] \<and>
     \<not> ((\<exists>c\<in>set (cvCapabilities req). GetBlock (capAccessType c)) \<and>
        (\<exists>c\<in>set (cvCapabilities req). GetMount (capAccessType c) \<noteq> None))"

definition requested_access :: "CreateVolumeRequest \<Rightarrow> AccessType" where
  "requested_access req =
     (if \<exists>c\<in>set (cvCapabilities req). GetBlock (capAccessType c) then BlockAccess else MountAccess)"

definition response_topology :: "Config \<Rightarrow> (string \<times> string) list" where
  "response_topology cfg = (if EnableTopology cfg then [(TopologyKeyNode, CfgNodeID cfg)] else [])"

lemma CreateVolume_ok:
  "create_request_ok cfg req \<Longrightarrow> CreateVolume E cfg req =
     tryE (GetVolumeByName E (cvName req))
       (\<lambda>_. create_new E cfg req (required_bytes (cvCapacityRange req)) (requested_access req))
       (\<lambda>exVol. lift (existing_volume cfg req (required_bytes (cvCapacityRange req)) (response_topology cfg) exVol))"
  by (rule ext) (auto simp: CreateVolume_def create_request_ok_def requested_access_def
      response_topology_def Let_def bindE_apply require_def)

lemma CreateVolume_success: "CreateVolume E cfg req s = (Inr r, t) \<Longrightarrow> create_request_ok cfg req"
  unfolding CreateVolume_def create_request_ok_def Let_def
  by (auto simp: eq_Inr split: if_splits)

text \<open>What a successful creation leaves: one volume, as requested, not in use.\<close>

definition created_for :: "Config \<Rightarrow> CreateVolumeRequest \<Rightarrow> Volume \<Rightarrow> bool" where
  "created_for cfg req v \<longleftrightarrow> VolName v = cvName req \<and> VolSize v = required_bytes (cvCapacityRange req) \<and>
     VolAccessType v = requested_access req \<and> VolPath v = HostPathGetVolumePath cfg (VolID v) \<and>
     ParentVolID v = [] \<and> ParentSnapID v = [] \<and> \<not> Ephemeral v \<and> \<not> Attached v \<and> Staged v = [] \<and> Published v = []"

lemma create_new_run:
  assumes "store_ready E s"
    and "create_new E cfg req (required_bytes (cvCapacityRange req)) (requested_access req) s = (Inr r, t)"
  shows "\<exists>v. store_ready E t \<and> res t = (res s)\<lparr>Volumes := upsert_by VolID v (Volumes (res s))\<rparr> \<and>
    created_for cfg req v \<and> VolID v = rVolumeId r \<and> rCapacityBytes r = VolSize v \<and>
    rVolumeContext r = cvParameters req \<and> rContentSource r = cvContentSource req \<and>
    cvContentSource req \<noteq> Some SourceUnset \<and>
    le64 (VolSize v) (MaxVolumeSize cfg) \<and>
    (Capacity_Enabled (CfgCapacity cfg) \<longrightarrow> le64 (sum_sizes (Kind v) (Volumes (res s)) 0 + VolSize v)
       (capacity_value (CfgCapacity cfg) (Kind v)))"
proof -
  let ?c = "required_bytes (cvCapacityRange req)"
  define resp where "resp = (\<lambda>i (v :: Volume). \<lparr>rVolumeId = i, rCapacityBytes = ?c, rVolumeContext = cvParameters req,
        rContentSource = cvContentSource req, rTopology = [(TopologyKeyNode, VolumeNode v)]\<rparr>)"
  define bp where "bp = (case cvParameters req ''basepath'' of Some bp \<Rightarrow> bp | None \<Rightarrow> ''/var/lib/'')"
  define pv where "pv = (case cvParameters req PVNameKey of Some pvn \<Rightarrow> pvn | None \<Rightarrow> ''create'')"
  note defs = bp_def [symmetric] pv_def [symmetric]
  from assms(2) obtain i s1 v s2 where 1: "call_o (new_uuid E) s = (Inr i, s1)"
    and 2: "HostPathCreateVolume E cfg i (cvName req) bp pv ?c (requested_access req) False
        (param (cvParameters req) StorageKind) s1 = (Inr v, s2)"
    and 3: "(case cvContentSource req of None \<Rightarrow> ret (resp i v)
       | Some src \<Rightarrow> tryE (populate E src ?c (HostPathGetVolumePath cfg i) (requested_access req))
           (\<lambda>err. bindE (tryE (HostPathDeleteVolume E cfg i) (\<lambda>_. ret ()) ret) (\<lambda>_. fail err))
           (\<lambda>_. ret (resp i v))) s2 = (Inr r, t)"
    unfolding create_new_def Let_def defs bindE_eq_Inr resp_def by blast
  have 4: "r = resp i v \<and> cvContentSource req \<noteq> Some SourceUnset \<and> (s2 = t \<or> (\<exists>src.
      populate E src ?c (HostPathGetVolumePath cfg i) (requested_access req) s2 = (Inr (), t)))"
    using 3 by (cases "cvContentSource req") (auto simp: eq_Inr populate_def)
  have s1: "store_ready E s1 \<and> res s1 = res s"
    by (rule frame_run [OF fr.keeps_o assms(1) 1])
  have c: "store_ready E s1" using s1 by simp
  note h = HostPathCreateVolume_run [OF c 2]
  have "store_ready E t \<and> res t = res s2"
    using 4 h frame_run [OF fr.keeps_populate] by blast
  then show ?thesis using h s1 4 by (intro exI [of _ v]) (simp add: created_for_def resp_def)
qed

lemma CreateVolume_new_run:
  assumes "store_ready E s" "find_by VolName (cvName req) (Volumes (res s)) = None"
    and "CreateVolume E cfg req s = (Inr r, t)"
  shows "\<exists>v. store_ready E t \<and> res t = (res s)\<lparr>Volumes := upsert_by VolID v (Volumes (res s))\<rparr> \<and>
    created_for cfg req v \<and> VolID v = rVolumeId r \<and> rCapacityBytes r = VolSize v \<and>
    rVolumeContext r = cvParameters req \<and> rContentSource r = cvContentSource req \<and>
    cvContentSource req \<noteq> Some SourceUnset \<and>
    le64 (VolSize v) (MaxVolumeSize cfg) \<and>
    (Capacity_Enabled (CfgCapacity cfg) \<longrightarrow> le64 (sum_sizes (Kind v) (Volumes (res s)) 0 + VolSize v)
       (capacity_value (CfgCapacity cfg) (Kind v)))"
proof -
  have ok: "create_request_ok cfg req" by (rule CreateVolume_success [OF assms(3)])
  obtain g s1 where g: "GetVolumeByName E (cvName req) s = (g, s1)" by (metis surj_pair)
  from get_name_run [OF assms(1) g] assms(2) obtain e where e: "g = Inl e" "\<not> is_panic e"
    and s1: "store_ready E s1" "res s1 = res s" by (auto split: sum.splits)
  have "create_new E cfg req (required_bytes (cvCapacityRange req)) (requested_access req) s1 = (Inr r, t)"
    using assms(3) g e by (simp add: CreateVolume_ok [OF ok] tryE_apply)
  from create_new_run [OF s1(1) this] s1(2) show ?thesis by simp
qed

text \<open>A request for a name that exists.\<close>

lemma CreateVolume_existing_run:
  assumes "store_ready E s" "create_request_ok cfg req" "find_by VolName (cvName req) (Volumes (res s)) = Some v"
  shows "\<exists>t. store_ready E t \<and> res t = res s \<and> CreateVolume E cfg req s =
    (existing_volume cfg req (required_bytes (cvCapacityRange req)) (response_topology cfg) v, t)"
  unfolding CreateVolume_ok [OF assms(2)]
  by (rule st.sx_get_by_name [OF assms(1,3)]) auto

lemma lt64_irrefl [simp]: "\<not> lt64 a a" by (simp add: lt64_def)

subsection \<open>Deleting a volume\<close>

text \<open>The volume is removed from the store exactly when the clean-up on the node succeeded.\<close>

lemma HostPathDeleteVolume_run:
  assumes "store_ready E s" "HostPathDeleteVolume E cfg i s = (r, t)"
  shows "store_ready E t \<and> (case r of
      Inr _ \<Rightarrow> res t = (res s)\<lparr>Volumes := remove_by VolID i (Volumes (res s))\<rparr>
    | Inl _ \<Rightarrow> res t = res s)"
proof -
  obtain g s1 where g: "GetVolumeByID E i s = (g, s1)" by (metis surj_pair)
  note gr = get_run [OF assms(1) g]
  then have s1: "store_ready E s1" "res s1 = res s" by simp_all
  show ?thesis
  proof (cases g)
    case (Inl e)
    then show ?thesis using gr assms(2) g
      by (auto simp: HostPathDeleteVolume_def tryE_apply remove_by_absent)
  next
    case (Inr v)
    let ?p = "HostPathGetVolumePath cfg i"
    let ?d = "if VolAccessType v = BlockAccess then tryE (call_txt (loop_detach E ?p))
        (\<lambda>err. fail (Plain (''failed to remove loop device for file '' @ ?p @ '': '' @ err_text err))) ret else ret ()"
    let ?m = "tryE (call_os (os_remove_all E ?p)) (\<lambda>err. if \<not> IsNotExist err then fail err else ret ()) ret"
    have run: "bindE ?d (\<lambda>_. bindE ?m (\<lambda>_. DeleteVolume_state E i)) s1 = (r, t)"
      using assms(2) g Inr by (simp add: HostPathDeleteVolume_def tryE_apply Let_def)
    have kd: "keeps (store_frame E R) ?d" and km: "keeps (store_frame E R) ?m" for R
      by (intro keeps_intros, intro keeps_intros)
    from run kd s1(1) show ?thesis
    proof (cases rule: frame_bind)
      case (stop e) then show ?thesis using s1 by simp
    next
      case (go x s2)
      from go(2) km go(3) show ?thesis
      proof (cases rule: frame_bind)
        case (stop e) then show ?thesis using s1 go by simp
      next
        case go2: (go y s3)
        from delete_run [OF go2(3,2)] show ?thesis using s1 go go2 by simp
      qed
    qed
  qed
qed

end
