(* ===== verification/CsiExample.thy ===== *)
theory CsiExample
  imports CsiRuns CsiHandlers
begin

section \<open>simplecsi: a concrete environment\<close>

text \<open>
  An API server that is a map in memory and a node on which every call succeeds; it shows that
  the hypotheses on the environment can hold and serves the witnesses of the properties.
\<close>

type_synonym mem_cm = "string \<times> string \<rightharpoonup> configmap"

text \<open>The node, around any ConfigMap API.\<close>

definition node_env ::
  "(string \<Rightarrow> string \<Rightarrow> 'c \<Rightarrow> (api_error + configmap) \<times> 'c) \<Rightarrow>
   (string \<Rightarrow> string \<Rightarrow> configmap \<Rightarrow> 'c \<Rightarrow> (api_error + unit) \<times> 'c) \<Rightarrow>
   (string \<Rightarrow> string \<Rightarrow> configmap \<Rightarrow> 'c \<Rightarrow> (api_error + unit) \<times> 'c) \<Rightarrow>
   ('c \<Rightarrow> mem_cm) \<Rightarrow> ('c, nat) env" where
  "node_env get create update view = \<lparr>
     cm_get = get, cm_create = create, cm_update = update, cm_view = view,
     in_cluster_config = \<lambda>w. (Inr (), w), new_for_config = \<lambda>w. (Inr (), w),
     job_create = \<lambda>_ w. (Inr (), w), job_get = \<lambda>_ _ w. (Inr [''Complete''], w),
     pod_list = \<lambda>_ _ w. (Inr [\<lparr>PodPhase = ''Succeeded'', PodNodeName = ''node-1''\<rparr>], w),
     select_tick = \<lambda>w. (True, w),
     os_stat = \<lambda>_ w. (Inr ModeDir, w), os_lstat = \<lambda>_ w. (Inr (), w),
     os_open_create = \<lambda>_ w. (Inr (), w), os_readdir1 = \<lambda>_ w. (Inr (Inr True), w),
     os_mkdir = \<lambda>_ w. (Inr (), w), os_remove = \<lambda>_ w. (Inr (), w),
     os_remove_all = \<lambda>_ w. (Inr (), w), look_path = \<lambda>c w. (Inr c, w),
     run_cmd = \<lambda>_ w. (([], None), w), loop_attach = \<lambda>p w. (Inr p, w),
     loop_detach = \<lambda>_ w. (Inr (), w), loop_get = \<lambda>p w. (Inr p, w),
     is_not_mount = \<lambda>_ w. (Inr True, w), do_mount = \<lambda>_ _ _ _ w. (Inr (), w),
     do_unmount = \<lambda>_ w. (Inr (), w),
     fs_info = \<lambda>_ w. (Inr \<lparr>fs_available = 10, fs_capacity = 100, fs_used = 90, fs_inodes = 9,
        fs_inodesFree = 5, fs_inodesUsed = 4\<rparr>, w),
     new_uuid = \<lambda>w. (''uuid-'' @ nat_digits w, w + 1),
     now = \<lambda>w. (\<lparr>Seconds = 0, Nanos = 0\<rparr>, w),
     range_keys = \<lambda>ks w. (ks, w),
     qty_string = \<lambda>q. itoa (sint q)\<rparr>"

definition mem_env :: "(mem_cm, nat) env" where
  "mem_env = node_env
     (\<lambda>ns n c. case c (ns, n) of None \<Rightarrow> (Inl (ApiNotFound n), c) | Some cm \<Rightarrow> (Inr cm, c))
     (\<lambda>ns n cm c. case c (ns, n) of None \<Rightarrow> (Inr (), c((ns, n) \<mapsto> cm)) | Some _ \<Rightarrow> (Inl (ApiAlreadyExists n), c))
     (\<lambda>ns n cm c. case c (ns, n) of None \<Rightarrow> (Inl (ApiNotFound n), c) | Some _ \<Rightarrow> (Inr (), c((ns, n) \<mapsto> cm)))
     (\<lambda>c. c)"

text \<open>A server that fails the next \<open>k\<close> Get calls; the state is \<open>k\<close> and the map.\<close>

definition flaky_env :: "(nat \<times> mem_cm, nat) env" where
  "flaky_env = node_env
     (\<lambda>ns n (k, c). if 0 < k then (Inl (ApiOther ''timeout''), (k - 1, c)) else
        (case c (ns, n) of None \<Rightarrow> (Inl (ApiNotFound n), (k, c)) | Some cm \<Rightarrow> (Inr cm, (k, c))))
     (\<lambda>ns n cm (k, c). case c (ns, n) of None \<Rightarrow> (Inr (), (k, c((ns, n) \<mapsto> cm)))
        | Some _ \<Rightarrow> (Inl (ApiAlreadyExists n), (k, c)))
     (\<lambda>ns n cm (k, c). case c (ns, n) of None \<Rightarrow> (Inl (ApiNotFound n), (k, c))
        | Some _ \<Rightarrow> (Inr (), (k, c((ns, n) \<mapsto> cm))))
     snd"

definition flaky_driver :: "nat \<Rightarrow> resources \<Rightarrow> (nat \<times> mem_cm, nat) driver" where
  "flaky_driver k r = \<lparr>res = r, statefilePath = ''state.json'', HasClient = True,
     cmw = (k, [(''default'', StateConfigmapName) \<mapsto> [StateVolumeKey \<mapsto> marshal r]]), osw = 1\<rparr>"

text \<open>A driver in front of that server with given resources in memory and in the ConfigMap, and
  one that has just started.\<close>

definition mem_driver :: "resources \<Rightarrow> nat \<Rightarrow> (mem_cm, nat) driver" where
  "mem_driver r w = \<lparr>res = r, statefilePath = ''state.json'', HasClient = True,
     cmw = [(''default'', StateConfigmapName) \<mapsto> [StateVolumeKey \<mapsto> marshal r]], osw = w\<rparr>"

definition new_driver :: "nat \<Rightarrow> (mem_cm, nat) driver" where
  "new_driver w = \<lparr>res = empty_resources, statefilePath = ''state.json'', HasClient = True,
     cmw = Map.empty, osw = w\<rparr>"

lemma mem_reliable [simp]: "cm_reliable mem_env"
  by (auto simp: cm_reliable_def mem_env_def node_env_def)

lemma mem_sound [simp]: "cm_sound mem_env"
  by (auto simp: cm_sound_def mem_env_def node_env_def split: option.splits)

lemma mem_ready [simp]: "store_ready mem_env (mem_driver r w)"
  by (simp add: store_ready_def synced_def stored_def mem_driver_def, simp add: mem_env_def node_env_def)

lemma new_ready [simp]: "store_ready mem_env (new_driver w)"
  by (simp add: store_ready_def synced_def stored_def new_driver_def, simp add: mem_env_def node_env_def)

lemma mem_res [simp]: "res (mem_driver r w) = r" "res (new_driver w) = empty_resources"
  by (simp_all add: mem_driver_def new_driver_def)

definition demo_config :: Config where
  "demo_config = \<lparr>DriverName = ''simplecsi'', CfgNodeID = ''node-1'', VendorVersion = ''1'',
     StateDir = ''/csi'', MaxVolumesPerNode = 0, MaxVolumeSize = 1000, AttachLimit = 2,
     CfgCapacity = [(''fast'', 100)], CfgEphemeral = False, EnableAttach = True,
     EnableTopology = False, EnableVolumeExpansion = True, EnableControllerModifyVolume = True,
     AcceptedMutableParameterNames = [''iops''], DisableControllerExpansion = False,
     DisableNodeExpansion = False, MaxVolumeExpansionSizeNode = 1000, CheckVolumeLifecycle = True\<rparr>"

definition demo_volume :: Volume where
  "demo_volume = \<lparr>VolName = ''pvc-a'', VolID = ''vol-a'', VolSize = 40, VolPath = ''/csi/vol-a'',
     VolAccessType = MountAccess, ParentVolID = [], ParentSnapID = [], Ephemeral = False,
     NodeID = [], Kind = ''fast'', ReadOnlyAttach = False, Attached = False, VolumeNode = ''node-1'',
     Staged = [], Published = []\<rparr>"

definition demo_request :: CreateVolumeRequest where
  "demo_request = \<lparr>cvName = ''pvc-b'', cvCapabilities = [\<lparr>capAccessType = MountType [] [], capAccessMode = None\<rparr>],
     cvCapacityRange = Some 50, cvParameters = [StorageKind \<mapsto> ''fast''], cvMutableParameters = [],
     cvContentSource = None\<rparr>"

definition demo_resources :: resources where
  "demo_resources = \<lparr>Volumes = [demo_volume], Snapshots = [], GroupSnapshots = []\<rparr>"

text \<open>The methods of the store on such a driver, as equations.\<close>

lemma mem_restore [simp]: "restore mem_env (mem_driver r w) = (Inr (), mem_driver r w)"
  by (simp add: restore_def GetConfigmapData_def io_simps call_cm_def, simp add: mem_driver_def mem_env_def node_env_def io_simps)

lemma mem_dump [simp]: "dump mem_env ((mem_driver r w)\<lparr>res := r'\<rparr>) = (Inr (), mem_driver r' w)"
  by (simp add: dump_def CreateOrUpdateConfigmap_def io_simps call_cm_def, simp add: mem_driver_def mem_env_def node_env_def)

lemma mem_calls [simp]:
  "call_o f (mem_driver r w) = (case f w of (x, w') \<Rightarrow> (Inr x, mem_driver r w'))"
  "call_err g h (mem_driver r w) =
     (case h w of (Inl e, w') \<Rightarrow> (Inl (g e), mem_driver r w') | (Inr x, w') \<Rightarrow> (Inr x, mem_driver r w'))"
  by (simp_all add: call_o_def call_err_def mem_driver_def split: prod.split sum.split)

lemma mem_client [simp]: "HasClient (mem_driver r w)" "Volumes (res (mem_driver r w)) = Volumes r"
  by (simp_all add: mem_driver_def)

lemma mem_store [simp]:
  "GetVolumeByID mem_env k (mem_driver r w) = (case find_by VolID k (Volumes r) of
      Some v \<Rightarrow> (Inr v, mem_driver r w)
    | None \<Rightarrow> (Inl (Status NotFound (''volume id '' @ k @ '' does not exist in the volumes list'')), mem_driver r w))"
  "GetVolumeByName mem_env n (mem_driver r w) = (case find_by VolName n (Volumes r) of
      Some v \<Rightarrow> (Inr v, mem_driver r w)
    | None \<Rightarrow> (Inl (Status NotFound (''volume name '' @ n @ '' does not exist in the volumes list'')), mem_driver r w))"
  "GetVolumes mem_env (mem_driver r w) = (Inr (Volumes r), mem_driver r w)"
  "UpdateVolume mem_env v (mem_driver r w) = (Inr (), mem_driver (r\<lparr>Volumes := upsert_by VolID v (Volumes r)\<rparr>) w)"
  "DeleteVolume_state mem_env k (mem_driver r w) = (Inr (), mem_driver (r\<lparr>Volumes := remove_by VolID k (Volumes r)\<rparr>) w)"
  by (auto simp: GetVolumeByID_def GetVolumeByName_def GetVolumes_def UpdateVolume_def DeleteVolume_state_def
      io_simps state_access remove_by_absent split: option.split)

lemma mem_snaps [simp]:
  "GetSnapshotByID k (mem_driver r w) = (case find_by SnapId k (Snapshots r) of
      Some x \<Rightarrow> (Inr x, mem_driver r w)
    | None \<Rightarrow> (Inl (Status NotFound (''snapshot id '' @ k @ '' does not exist in the snapshots list'')), mem_driver r w))"
  "GetSnapshotByName k (mem_driver r w) = (case find_by SnapName k (Snapshots r) of
      Some x \<Rightarrow> (Inr x, mem_driver r w)
    | None \<Rightarrow> (Inl (Status NotFound (''snapshot name '' @ k @ '' does not exist in the snapshots list'')), mem_driver r w))"
  "GetSnapshots (mem_driver r w) = (Inr (Snapshots r), mem_driver r w)"
  "UpdateSnapshot mem_env x (mem_driver r w) = (Inr (), mem_driver (r\<lparr>Snapshots := upsert_by SnapId x (Snapshots r)\<rparr>) w)"
  "DeleteSnapshot_state mem_env k (mem_driver r w) = (Inr (), mem_driver (r\<lparr>Snapshots := remove_by SnapId k (Snapshots r)\<rparr>) w)"
  by (auto simp: GetSnapshotByID_def GetSnapshotByName_def GetSnapshots_def UpdateSnapshot_def DeleteSnapshot_state_def
      io_simps state_access remove_by_absent split: option.split)

lemma mem_groups [simp]:
  "GetGroupSnapshotByID k (mem_driver r w) = (case find_by GroupId k (GroupSnapshots r) of
      Some x \<Rightarrow> (Inr x, mem_driver r w)
    | None \<Rightarrow> (Inl (Status NotFound (''groupsnapshot id '' @ k @ '' does not exist in the groupsnapshots list'')), mem_driver r w))"
  "GetGroupSnapshotByName k (mem_driver r w) = (case find_by GroupName k (GroupSnapshots r) of
      Some x \<Rightarrow> (Inr x, mem_driver r w)
    | None \<Rightarrow> (Inl (Status NotFound (''groupsnapshot name '' @ k @ '' does not exist in the groupsnapshots list'')), mem_driver r w))"
  "UpdateGroupSnapshot mem_env x (mem_driver r w) = (Inr (), mem_driver (r\<lparr>GroupSnapshots := upsert_by GroupId x (GroupSnapshots r)\<rparr>) w)"
  "DeleteGroupSnapshot_state mem_env k (mem_driver r w) = (Inr (), mem_driver (r\<lparr>GroupSnapshots := remove_by GroupId k (GroupSnapshots r)\<rparr>) w)"
  by (auto simp: GetGroupSnapshotByID_def GetGroupSnapshotByName_def UpdateGroupSnapshot_def DeleteGroupSnapshot_state_def
      io_simps state_access remove_by_absent split: option.split)

text \<open>The first call on a driver that has just started.\<close>

lemma new_state [simp]: "state_New mem_env ''state.json'' Map.empty w = (Inr (), new_driver w)"
  by (simp add: state_New_def restore_def GetConfigmapData_def io_simps call_cm_def,
      simp add: mem_env_def node_env_def new_driver_def empty_resources_def)

lemma new_restore [simp]: "restore mem_env (new_driver w) = (Inr (), new_driver w)"
  by (simp add: restore_def GetConfigmapData_def io_simps call_cm_def,
      simp add: mem_env_def node_env_def new_driver_def empty_resources_def)

lemma new_dump [simp]: "dump mem_env ((new_driver w)\<lparr>res := r\<rparr>) = (Inr (), mem_driver r w)"
  by (simp add: dump_def CreateOrUpdateConfigmap_def io_simps call_cm_def,
      simp add: mem_env_def node_env_def new_driver_def mem_driver_def io_simps call_cm_def)

lemma new_store [simp]:
  "GetVolumeByName mem_env n (new_driver w) = (Inl (Status NotFound (''volume name '' @ n @ '' does not exist in the volumes list'')), new_driver w)"
  "GetVolumes mem_env (new_driver w) = (Inr [], new_driver w)"
  "UpdateVolume mem_env v (new_driver w) = (Inr (), mem_driver (empty_resources\<lparr>Volumes := [v]\<rparr>) w)"
  "call_o f (new_driver w) = (case f w of (x, w') \<Rightarrow> (Inr x, new_driver w'))"
  "call_err g h (new_driver w) =
     (case h w of (Inl e, w') \<Rightarrow> (Inl (g e), new_driver w') | (Inr x, w') \<Rightarrow> (Inr x, new_driver w'))"
  "HasClient (new_driver w)"
  by (simp_all add: GetVolumeByName_def GetVolumes_def UpdateVolume_def io_simps state_access,
      simp_all add: call_o_def call_err_def new_driver_def empty_resources_def split: prod.split sum.split)

text \<open>The calls of the environment, one equation each, so that a run is evaluated by \<open>simp\<close>.\<close>

lemma mem_env_sel [simp]:
  "in_cluster_config mem_env w = (Inr (), w)" "new_for_config mem_env w = (Inr (), w)"
  "job_create mem_env j w = (Inr (), w)" "job_get mem_env a b w = (Inr [''Complete''], w)"
  "pod_list mem_env a b w = (Inr [\<lparr>PodPhase = ''Succeeded'', PodNodeName = ''node-1''\<rparr>], w)"
  "select_tick mem_env w = (True, w)" "os_stat mem_env p w = (Inr ModeDir, w)"
  "os_lstat mem_env p w = (Inr (), w)" "os_open_create mem_env p w = (Inr (), w)"
  "os_readdir1 mem_env p w = (Inr (Inr True), w)" "os_mkdir mem_env p w = (Inr (), w)"
  "os_remove mem_env p w = (Inr (), w)" "os_remove_all mem_env p w = (Inr (), w)"
  "look_path mem_env p w = (Inr p, w)" "run_cmd mem_env x w = (([], None), w)"
  "loop_attach mem_env p w = (Inr p, w)" "loop_detach mem_env p w = (Inr (), w)"
  "loop_get mem_env p w = (Inr p, w)" "is_not_mount mem_env p w = (Inr True, w)"
  "do_mount mem_env a b g d w = (Inr (), w)" "do_unmount mem_env p w = (Inr (), w)"
  "new_uuid mem_env w = (''uuid-'' @ nat_digits w, w + 1)"
  "now mem_env w = (\<lparr>Seconds = 0, Nanos = 0\<rparr>, w)" "range_keys mem_env ks w = (ks, w)"
  "qty_string mem_env q = itoa (sint q)"
  by (simp_all add: mem_env_def node_env_def)

lemmas demo_simps = demo_request_def demo_resources_def demo_config_def demo_volume_def
  required_bytes_def param_def StorageKind_def PVNameKey_def

text \<open>A job that completes in the first round.\<close>

lemma new_CreateJob [simp]: "CreateJob mem_env a b c d e f (new_driver w) = (Inr ''node-1'', new_driver w)"
  by (simp add: CreateJob_def bindE_apply numeral_eq_Suc tryE_apply)

lemma new_make_backing [simp]:
  "make_backing mem_env p b pv cap MountAccess (new_driver w) = (Inr ''node-1'', new_driver w)"
  by (simp add: make_backing_def ensure_client_def bindE_apply)

lemma mem_CreateJob [simp]: "CreateJob mem_env a b c d e f (mem_driver r w) = (Inr ''node-1'', mem_driver r w)"
  by (simp add: CreateJob_def bindE_apply numeral_eq_Suc tryE_apply)

lemma mem_make_backing [simp]:
  "make_backing mem_env p b pv cap MountAccess (mem_driver r w) = (Inr ''node-1'', mem_driver r w)"
  by (simp add: make_backing_def ensure_client_def bindE_apply)

lemma digits_small [simp]: "nat_digits 1 = ''1''" "nat_digits (Suc 0) = ''1''" "nat_digits 7 = ''7''" "nat_digits 8 = ''8''"
  by (simp_all add: nat_digits.simps char_of_def bit_Suc_0_iff bit_iff_odd)

text \<open>A volume of the requested kind is created, on a store that has one and on an empty store.\<close>

lemmas create_simps = CreateVolume_def create_new_def HostPathCreateVolume_def Let_def io_simps
  validateControllerServiceRequest_def getControllerServiceCapabilities_def le64_def
  choose_kind_def Capacity_Enabled_def SumVolumeSizes_def capacity_value_def

definition made_volume :: Volume where
  "made_volume = \<lparr>VolName = ''pvc-b'', VolID = ''uuid-7'', VolSize = 50,
     VolPath = HostPathGetVolumePath demo_config ''uuid-7'', VolAccessType = MountAccess, ParentVolID = [],
     ParentSnapID = [], Ephemeral = False, NodeID = [], Kind = ''fast'', ReadOnlyAttach = False,
     Attached = False, VolumeNode = ''node-1'', Staged = [], Published = []\<rparr>"

definition made_response :: CsiVolume where
  "made_response = \<lparr>rVolumeId = ''uuid-7'', rCapacityBytes = 50, rVolumeContext = [StorageKind \<mapsto> ''fast''],
     rContentSource = None, rTopology = [(TopologyKeyNode, ''node-1'')]\<rparr>"

lemma mem_create: "CreateVolume mem_env demo_config demo_request (mem_driver demo_resources 7) =
    (Inr made_response, mem_driver (demo_resources\<lparr>Volumes := [demo_volume, made_volume]\<rparr>) 8)"
  by (simp add: create_simps demo_simps made_volume_def made_response_def)

lemma new_create: "CreateVolume mem_env demo_config demo_request (new_driver 7) =
    (Inr made_response, mem_driver (empty_resources\<lparr>Volumes := [made_volume]\<rparr>) 8)"
  by (simp add: create_simps demo_simps made_volume_def made_response_def)

lemma demo_reach: "csi_reach mem_env demo_config eph (mem_driver (empty_resources\<lparr>Volumes := [made_volume]\<rparr>) 8)"
proof -
  have start: "csi_reach mem_env demo_config eph (new_driver 7)"
    by (rule reach_start [of _ Map.empty "''state.json''" 7]) (simp_all add: stored_def, simp add: mem_env_def node_env_def)
  show ?thesis using reach_step [OF start step_CreateVolume [of _ _ _ _ demo_request]] by (simp add: new_create)
qed

end
