(* ===== verification/CsiStateProps.thy ===== *)
theory CsiStateProps
  imports CsiExample
begin

section \<open>simplecsi: properties of the persistent state\<close>

text \<open>
  The JSON text and the ConfigMap keep the resources over a restart; the methods of the store
  are those of a finite map; identifiers stay unique and volumes keep their life cycle in every
  run; and what happens when the API server fails a read.
\<close>

text \<open>C1. Every run of the driver, of any calls of the three services in any order, with
  restarts, with an API server that may fail any call, and a node that does anything, keeps the
  identifiers of volumes, snapshots and group snapshots unique; and the text it leaves in the
  ConfigMap decodes to resources with unique identifiers, so a restarted driver never meets a
  text it cannot read.\<close>

theorem run_ids_unique:
  assumes "cm_sound E" "csi_reach E cfg eph s"
  shows "ids_unique (res s) \<and>
    (stored E (cmw s) \<noteq> [] \<longrightarrow> (\<exists>r. unmarshal empty_resources (stored E (cmw s)) = Some r \<and> ids_unique r))"
  using csi_reach_ok [OF assms(2,1)] by (auto simp: csi_inv_def res_ok_def text_ok_def)

theorem run_ids_unique_witness:
  "ids_unique (res (mem_driver (empty_resources\<lparr>Volumes := [made_volume]\<rparr>) 8))"
  using run_ids_unique [OF mem_sound demo_reach] by blast

text \<open>C2. In every run, with ephemeral publishing or without it, every volume has at most one
  staging path, and, when the configuration enables attaching and checks the life cycle, is
  staged only while it is attached to the node. In a run without ephemeral publish requests
  every volume is published only while it is staged.\<close>

theorem run_lifecycle:
  assumes "cm_sound E" "csi_reach E cfg eph s" "v \<in> set (Volumes (res s))"
  shows "length (Staged v) \<le> 1 \<and>
    (EnableAttach cfg \<and> CheckVolumeLifecycle cfg \<and> Staged v \<noteq> [] \<longrightarrow> Attached v) \<and>
    (\<not> eph \<and> Published v \<noteq> [] \<longrightarrow> Staged v \<noteq> [])"
  using csi_reach_ok [OF assms(2,1)] assms(3) res_ok_volume
  by (fastforce simp: csi_inv_def lifecycle_def)

text \<open>A run that creates, attaches, stages and publishes a volume.\<close>

definition published_volume :: Volume where
  "published_volume = made_volume\<lparr>Attached := True, Staged := [''/staging''], NodeID := ''node-1'',
     Published := [''/target'']\<rparr>"

definition publish_made :: PublishRequest where
  "publish_made = \<lparr>pbVolumeId = ''uuid-7'', pbTargetPath = ''/target'', pbStagingTargetPath = ''/staging'',
     pbCapability = Some \<lparr>capAccessType = MountType [] [], capAccessMode = None\<rparr>,
     pbReadonly = False, pbVolumeContext = Map.empty\<rparr>"

lemma published_reach:
  "csi_reach mem_env demo_config eph (mem_driver (empty_resources\<lparr>Volumes := [published_volume]\<rparr>) 8)"
proof -
  let ?cap = "\<lparr>capAccessType = MountType [] [], capAccessMode = None\<rparr>"
  let ?at = "made_volume\<lparr>Attached := True\<rparr>" and ?st = "made_volume\<lparr>Attached := True, Staged := [''/staging'']\<rparr>"
  let ?s = "\<lambda>v. mem_driver (empty_resources\<lparr>Volumes := [v]\<rparr>) 8"
  have 1: "ControllerPublishVolume mem_env demo_config ''uuid-7'' ''node-1'' (Some ?cap) False (?s made_volume) = (Inr (), ?s ?at)"
    by (simp add: ControllerPublishVolume_def io_simps demo_config_def made_volume_def GetAttachCount_def lt64_def le64_def)
  have 2: "NodeStageVolume mem_env demo_config ''uuid-7'' ''/staging'' (Some ?cap) (?s ?at) = (Inr (), ?s ?st)"
    by (simp add: NodeStageVolume_def io_simps demo_config_def made_volume_def strings_Add_def)
  have 3: "NodePublishVolume mem_env demo_config publish_made (?s ?st) = (Inr (), ?s published_volume)"
    by (simp add: NodePublishVolume_def publish_made_def published_volume_def ephemeral_volume_def Let_def io_simps
        demo_config_def made_volume_def hasSingleNodeSingleWriterAccessMode_def publish_mount_def
        HostPathMount_def ensure_client_def strings_Add_def param_def)
  have noeph: "ephemeral_volume demo_config publish_made \<longrightarrow> eph"
    by (simp add: ephemeral_volume_def publish_made_def demo_config_def param_def)
  from reach_step [OF demo_reach step_ControllerPublish [of _ _ _ _ "''uuid-7''" "''node-1''" "Some ?cap" False]] 1
  have "csi_reach mem_env demo_config eph (?s ?at)" by simp
  from reach_step [OF this step_NodeStage [of _ _ _ _ "''uuid-7''" "''/staging''" "Some ?cap"]] 2
  have "csi_reach mem_env demo_config eph (?s ?st)" by simp
  from reach_step [OF this step_NodePublish [OF noeph]] 3 show ?thesis by simp
qed

theorem run_lifecycle_witness:
  "length (Staged published_volume) \<le> 1 \<and> Attached published_volume \<and> Staged published_volume \<noteq> []"
  using run_lifecycle [OF mem_sound published_reach [of False], of published_volume]
  by (simp add: published_volume_def made_volume_def demo_config_def)

text \<open>The text of any resources (any names with any characters, sizes of any sign,
  times present or not) decodes to the same resources, whatever the struct held before.\<close>

theorem state_text_roundtrip: "unmarshal old (marshal r) = Some r"
  by (rule unmarshal_marshal)

text \<open>C3. A driver that starts on the ConfigMap another one left has the same volumes,
  snapshots and group snapshots.\<close>

theorem restart_recovers:
  assumes "store_ready E s"
  shows "\<exists>t. state_New E path (cmw s) w = (Inr (), t) \<and> res t = res s \<and> store_ready E t"
proof -
  let ?i = "\<lparr>res = empty_resources, statefilePath = path, HasClient = True, cmw = cmw s, osw = w\<rparr>"
  show ?thesis
  proof (cases "stored E (cmw s) = []")
    case True
    with assms have "res s = empty_resources" by (simp add: store_ready_def synced_def)
    moreover have "store_ready E ?i" using assms True by (simp add: store_ready_def synced_def)
    ultimately show ?thesis using restore_ready [of E ?i] by (auto simp: state_New_def)
  next
    case False
    then have st: "stored E (cmw s) = marshal (res s)" using assms by (simp add: store_ready_def synced_def)
    from restore_from_text [of E ?i "res s"] assms st show ?thesis
      by (auto simp: state_New_def store_ready_def)
  qed
qed

theorem restart_recovers_witness:
  "\<exists>t. state_New mem_env ''state.json'' (cmw (mem_driver demo_resources 1)) 7 = (Inr (), t) \<and> res t = demo_resources"
  using restart_recovers [of mem_env "mem_driver demo_resources 1" "''state.json''" 7] by auto

definition volume_map :: "resources \<Rightarrow> string \<rightharpoonup> Volume" where
  "volume_map r = (\<lambda>k. find_by VolID k (Volumes r))"

text \<open>C4. Over the abstract state, the finite map from identifiers to volumes, the methods of
  \<open>state.State\<close> are look-up, update and deletion of one key, as long as the identifiers are
  unique, which they stay.\<close>

theorem store_refines_map:
  assumes "store_ready E s" "ids_unique (res s)"
  shows "(\<exists>t m. GetVolumeByID E k s = ((case volume_map (res s) k of Some v \<Rightarrow> Inr v
             | None \<Rightarrow> Inl (Status NotFound m)), t) \<and> volume_map (res t) = volume_map (res s)) \<and>
    (\<exists>t. UpdateVolume E v s = (Inr (), t) \<and> ids_unique (res t) \<and> store_ready E t \<and>
           volume_map (res t) = (volume_map (res s))(VolID v \<mapsto> v)) \<and>
    (\<exists>t. DeleteVolume_state E k s = (Inr (), t) \<and> ids_unique (res t) \<and> store_ready E t \<and>
           volume_map (res t) = (volume_map (res s))(k := None))"
proof (intro conjI)
  have d: "distinct (map VolID (Volumes (res s)))" using assms(2) by (simp add: ids_unique_def)
  show "\<exists>t m. GetVolumeByID E k s = ((case volume_map (res s) k of Some v \<Rightarrow> Inr v
             | None \<Rightarrow> Inl (Status NotFound m)), t) \<and> volume_map (res t) = volume_map (res s)"
    using st.get_by_id_law [OF assms(1), of k] by (auto simp: volume_map_def)
  show "\<exists>t. UpdateVolume E v s = (Inr (), t) \<and> ids_unique (res t) \<and> store_ready E t \<and>
           volume_map (res t) = (volume_map (res s))(VolID v \<mapsto> v)"
    using st.update_law [OF assms(1), of v] assms(2)
    by (auto simp: volume_map_def find_by_upsert ids_unique_def distinct_upsert fun_eq_iff)
  show "\<exists>t. DeleteVolume_state E k s = (Inr (), t) \<and> ids_unique (res t) \<and> store_ready E t \<and>
           volume_map (res t) = (volume_map (res s))(k := None)"
    using st.delete_law [OF assms(1), of k] assms(2)
    by (auto simp: volume_map_def find_by_remove [OF d] ids_unique_def distinct_remove fun_eq_iff)
qed

theorem store_refines_map_witness:
  "\<exists>t. UpdateVolume mem_env demo_volume (mem_driver empty_resources 1) = (Inr (), t) \<and>
     volume_map (res t) = (volume_map empty_resources)(''vol-a'' \<mapsto> demo_volume)"
  using store_refines_map [of mem_env "mem_driver empty_resources 1" "''vol-a''" demo_volume]
  by (auto simp: ids_unique_def empty_resources_def demo_volume_def)

text \<open>C14. A write after a reload that failed: when the Get of the reload fails with an error
  other than NotFound and the next calls work, \<open>UpdateVolume\<close> reports success, and in memory and
  in the ConfigMap the updated volume is the only volume and there is no snapshot: every other
  volume and every snapshot is lost. The group snapshots stay as they are.\<close>

theorem failed_reload_loses_volumes:
  assumes "cm_get E ''default'' StateConfigmapName (cmw s) = (Inl (ApiOther m), c1)"
    and "cm_get E ''default'' StateConfigmapName c1 = (Inr cm, c2)"
    and "\<forall>d. \<exists>c3. cm_update E ''default'' StateConfigmapName d c2 = (Inr (), c3) \<and>
           cm_view E c3 (''default'', StateConfigmapName) = Some d"
  shows "\<exists>t. UpdateVolume E v s = (Inr (), t) \<and> Volumes (res t) = [v] \<and> Snapshots (res t) = [] \<and>
           GroupSnapshots (res t) = GroupSnapshots (res s) \<and> stored E (cmw t) = marshal (res t)"
proof -
  let ?r = "(res s)\<lparr>Snapshots := [], Volumes := [v]\<rparr>"
  obtain c3 where "cm_update E ''default'' StateConfigmapName (cm(StateVolumeKey \<mapsto> marshal ?r)) c2 = (Inr (), c3)"
    and "cm_view E c3 (''default'', StateConfigmapName) = Some (cm(StateVolumeKey \<mapsto> marshal ?r))"
    using assms(3) by blast
  then show ?thesis using assms(1,2)
    by (simp add: UpdateVolume_def restore_def dump_def GetConfigmapData_def CreateOrUpdateConfigmap_def
        io_simps call_cm_def state_access stored_def)
qed

theorem failed_reload_loses_volumes_witness:
  "\<exists>t. UpdateVolume flaky_env (demo_volume\<lparr>VolID := ''vol-b''\<rparr>) (flaky_driver 1 demo_resources) = (Inr (), t) \<and>
     Volumes (res t) = [demo_volume\<lparr>VolID := ''vol-b''\<rparr>]"
  using failed_reload_loses_volumes [of flaky_env "flaky_driver 1 demo_resources" "''timeout''"
      "(0, snd (cmw (flaky_driver 1 demo_resources)))" "[StateVolumeKey \<mapsto> marshal demo_resources]"
      "(0, snd (cmw (flaky_driver 1 demo_resources)))" "demo_volume\<lparr>VolID := ''vol-b''\<rparr>"]
  by (auto simp: flaky_env_def node_env_def flaky_driver_def)

text \<open>While every Get of the ConfigMap fails with an error other than NotFound, a write still
  reports success, and nothing is stored: \<open>CreateOrUpdateConfigmap\<close> drops that error.\<close>

theorem failing_get_write_reports_success:
  assumes "\<forall>c. \<exists>m c'. cm_get E ''default'' StateConfigmapName c = (Inl (ApiOther m), c') \<and> cm_view E c' = cm_view E c"
  shows "\<exists>t. UpdateVolume E v s = (Inr (), t) \<and> cm_view E (cmw t) = cm_view E (cmw s)"
proof -
  obtain m1 c1 where 1: "cm_get E ''default'' StateConfigmapName (cmw s) = (Inl (ApiOther m1), c1)"
    "cm_view E c1 = cm_view E (cmw s)" using assms by blast
  obtain m2 c2 where 2: "cm_get E ''default'' StateConfigmapName c1 = (Inl (ApiOther m2), c2)"
    "cm_view E c2 = cm_view E c1" using assms by blast
  show ?thesis using 1 2
    by (simp add: UpdateVolume_def restore_def dump_def GetConfigmapData_def CreateOrUpdateConfigmap_def
        io_simps call_cm_def state_access)
qed

definition down_env :: "(mem_cm, nat) env" where
  "down_env = node_env (\<lambda>_ _ c. (Inl (ApiOther ''timeout''), c)) (\<lambda>_ _ _ c. (Inl (ApiOther ''timeout''), c))
     (\<lambda>_ _ _ c. (Inl (ApiOther ''timeout''), c)) (\<lambda>c. c)"

theorem failing_get_write_reports_success_witness:
  "\<exists>t. UpdateVolume down_env demo_volume (mem_driver empty_resources 1) = (Inr (), t) \<and>
     cm_view down_env (cmw t) = cm_view down_env (cmw (mem_driver empty_resources 1))"
  by (rule failing_get_write_reports_success) (simp add: down_env_def node_env_def)

text \<open>Counting by kind is the sum of the sizes of the volumes of that kind, and the number of
  attached volumes is counted as long as it fits 63 bits; both leave the store alone.\<close>

theorem accounting_exact:
  assumes "store_ready E s" "int (length (filter Attached (Volumes (res s)))) < 2 ^ 63"
  shows "\<exists>t u n. SumVolumeSizes E k s = (Inr (sum_list (map VolSize (filter (\<lambda>v. Kind v = k) (Volumes (res s))))), t) \<and>
    res t = res s \<and> GetAttachCount E s = (Inr n, u) \<and> res u = res s \<and>
    sint n = int (length (filter Attached (Volumes (res s))))"
proof -
  obtain r t where 1: "SumVolumeSizes E k s = (r, t)" by (metis surj_pair)
  obtain q u where 2: "GetAttachCount E s = (q, u)" by (metis surj_pair)
  show ?thesis using SumVolumeSizes_run [OF assms(1) 1] GetAttachCount_run [OF assms(1) 2] 1 2
      sint_of_nat_small [OF assms(2)]
    by (simp add: sum_sizes_list count_attached_filter)
qed

theorem accounting_exact_witness:
  "\<exists>t u n. SumVolumeSizes mem_env ''fast'' (mem_driver demo_resources 1) = (Inr 40, t) \<and>
    GetAttachCount mem_env (mem_driver demo_resources 1) = (Inr n, u) \<and> sint n = 0"
  using accounting_exact [of mem_env "mem_driver demo_resources 1" "''fast''"]
  by (auto simp: demo_simps)

end
