(* ===== verification/CsiServe.thy ===== *)
theory CsiServe
  imports CsiRuns
begin

section \<open>simplecsi: the server (pkg/server/serve.go)\<close>

text \<open>
  The endpoint, the start and the end of the gRPC server, and which services it offers. What the server calls beyond
  \<open>env\<close> is the record \<open>host\<close>. A call that runs in the server is a state transformer of the driver; all of them, until
  the context ends, are one argument. The log of the requests is left out.
\<close>

subsection \<open>The endpoint\<close>

definition Parse :: "string \<Rightarrow> goerr + (string \<times> string)" where
  "Parse ep =
     (if HasPrefix (ToLower ep) ''unix://'' \<or> HasPrefix (ToLower ep) ''tcp://'' then
        (case split2 ep ''://'' of
           Some (proto, addr) \<Rightarrow> if addr \<noteq> [] then Inr (proto, addr)
             else Inl (Plain (''Invalid endpoint: '' @ ep))
         | None \<Rightarrow> Inl (Panic ''index out of range''))
      else Inr (''unix'', ep))"

record 'o host =
  net_listen :: "string \<Rightarrow> string \<Rightarrow> 'o \<Rightarrow> (string + unit) \<times> 'o"
  os_mkdir_all :: "string \<Rightarrow> 'o \<Rightarrow> (os_error + unit) \<times> 'o"

text \<open>The function that \<open>Listen\<close> returns for the end: nil, one that does nothing, or one that removes the socket.\<close>

datatype cleanup = NilCleanup | NoCleanup | RemoveSocket string

definition Listen ::
  "('c, 'o) env \<Rightarrow> 'o host \<Rightarrow> string \<Rightarrow> ('c, 'o, cleanup \<times> goerr option) csi" where
  "Listen E H endpoint =
     tryE (lift (Parse endpoint)) (\<lambda>err. ret (NilCleanup, Some err)) (\<lambda>(proto, addr0).
     let addr = (if proto = ''unix'' then CHR ''/'' # addr0 else addr0);
         cleanup = (if proto = ''unix'' then RemoveSocket addr else NoCleanup)
     in tryE (if proto = ''unix'' then
                tryE (call_os (os_remove E addr))
                  (\<lambda>err. if \<not> IsNotExist err then fail (Plain (addr @ '': '' @ dquote (err_text err)))
                          else ret ()) ret
              else ret ())
          (\<lambda>err. ret (NilCleanup, Some err))
          (\<lambda>_. tryE (call_txt (net_listen H proto addr)) (\<lambda>err. ret (cleanup, Some err))
                 (\<lambda>_. ret (cleanup, None))))"

definition run_cleanup :: "('c, 'o) env \<Rightarrow> cleanup \<Rightarrow> ('c, 'o, unit) csi" where
  "run_cleanup E c = (case c of
       NilCleanup \<Rightarrow> fail (Panic ''invalid memory address or nil pointer dereference'')
     | NoCleanup \<Rightarrow> ret ()
     | RemoveSocket addr \<Rightarrow> tryE (call_os (os_remove E addr)) (\<lambda>_. ret ()) ret)"

subsection \<open>The services\<close>

text \<open>The servers that are registered. The error of \<open>NewIdentityServer\<close> is only logged, so its nil result (\<open>None\<close>) is
  registered; a call on it looks at its configuration. \<open>NewNodeServer\<close> and \<open>NewControllerServer\<close> do not fail.\<close>

datatype registration = IdentityServer "Config option" | NodeServer | ControllerServer | GroupControllerServer

definition registrations :: "Config \<Rightarrow> registration list" where
  "registrations cfg =
     [IdentityServer (case NewIdentityServer cfg of Inl _ \<Rightarrow> None | Inr c \<Rightarrow> Some c), NodeServer, ControllerServer]"

definition served_GetPluginInfo :: "Config option \<Rightarrow> goerr + (string \<times> string)" where
  "served_GetPluginInfo srv = (case srv of
       None \<Rightarrow> Inl (Panic ''invalid memory address or nil pointer dereference'')
     | Some cfg \<Rightarrow> GetPluginInfo cfg)"

subsection \<open>Serve\<close>

text \<open>What is done before the server runs; \<open>None\<close>: the function gives up, which it only logs, if at all. A nil listener
  makes the goroutine of the server panic.\<close>

definition fresh_state :: "('c, 'o) env \<Rightarrow> Config \<Rightarrow> ('c, 'o, unit) csi" where
  "fresh_state E cfg = (\<lambda>s. state_New E (Join [StateDir cfg, ''state.json'']) (cmw s) (osw s))"

definition csi_Serve_start ::
  "('c, 'o) env \<Rightarrow> 'o host \<Rightarrow> string \<Rightarrow> Config \<Rightarrow> ('c, 'o, cleanup \<times> registration list option) csi" where
  "csi_Serve_start E H endpoint cfg =
     bindE (Listen E H endpoint) (\<lambda>(cleanup, lerr).
     tryE (call_os (os_mkdir_all H (StateDir cfg))) (\<lambda>_. ret (cleanup, None)) (\<lambda>_.
     tryE (GetKubernetesClient E) (\<lambda>_. ret (cleanup, None)) (\<lambda>_.
     tryE (fresh_state E cfg) (\<lambda>_. ret (cleanup, None)) (\<lambda>_.
     if lerr = None then ret (cleanup, Some (registrations cfg))
     else fail (Panic ''invalid memory address or nil pointer dereference'')))))"

definition csi_Serve ::
  "('c, 'o) env \<Rightarrow> 'o host \<Rightarrow> (registration list \<Rightarrow> ('c, 'o, unit) csi) \<Rightarrow> string \<Rightarrow> Config \<Rightarrow> ('c, 'o, unit) csi" where
  "csi_Serve E H requests endpoint cfg =
     bindE (csi_Serve_start E H endpoint cfg) (\<lambda>(cleanup, regs).
     bindE (case regs of None \<Rightarrow> ret () | Some rs \<Rightarrow> requests rs) (\<lambda>_.
     run_cleanup E cleanup))"

subsection \<open>The state the handlers start from\<close>

text \<open>Before the state is read, only the outside changes.\<close>

definition same_cm :: "'c \<Rightarrow> ('c, 'o) driver \<Rightarrow> bool" where
  "same_cm c s \<longleftrightarrow> cmw s = c"

lemma keeps_same_cm:
  "keeps (same_cm c) (call_err g f)" "keeps (same_cm c) (GetKubernetesClient E)" "keeps (same_cm c) (Listen E H ep)"
proof -
  show "keeps (same_cm c) (call_err g f)" by (rule keeps_call_err) (simp add: same_cm_def)
  have p: "(\<And>x y. p = (x, y) \<Longrightarrow> keeps I (m x y)) \<Longrightarrow> keeps I (case p of (x, y) \<Rightarrow> m x y)"
    for p :: "'x \<times> 'y" and I :: "'s \<Rightarrow> bool" and m :: "'x \<Rightarrow> 'y \<Rightarrow> ('s, 'z) io"
    by (cases p) simp
  show "keeps (same_cm c) (GetKubernetesClient E)"
    by (auto simp: GetKubernetesClient_def same_cm_def intro!: keeps_intros keeps_call_err)
  show "keeps (same_cm c) (Listen E H ep)"
    by (auto simp: Listen_def Let_def same_cm_def intro!: keeps_intros p keeps_call_err)
qed

lemma csi_Serve_start_state:
  assumes "csi_Serve_start E H ep cfg s = (Inr (c, Some rs), t)"
  shows "rs = registrations cfg \<and>
    (\<exists>w. state_New E (Join [StateDir cfg, ''state.json'']) (cmw s) w = (Inr (), t))"
proof -
  obtain lerr s1 s2 s3 where l: "Listen E H ep s = (Inr (c, lerr), s1)"
    and m: "call_os (os_mkdir_all H (StateDir cfg)) s1 = (Inr (), s2)"
    and k: "GetKubernetesClient E s2 = (Inr (), s3)"
    and n: "fresh_state E cfg s3 = (Inr (), t)" and rs: "rs = registrations cfg"
    using assms by (auto simp: csi_Serve_start_def eq_Inr split: prod.splits if_splits)
  have "same_cm (cmw s) s" by (simp add: same_cm_def)
  note keepsD_eq [OF keeps_same_cm(3) this l]
  note keepsD_eq [OF keeps_same_cm(1) this m]
  note keepsD_eq [OF keeps_same_cm(2) this k]
  then show ?thesis using n rs by (auto simp: fresh_state_def same_cm_def)
qed

end
