(* ===== verification/CsiServeProps.thy ===== *)
theory CsiServeProps
  imports CsiServe CsiStateProps
begin

section \<open>simplecsi: what the server starts with and how it ends\<close>

subsection \<open>The endpoint\<close>

lemma parse_unix: "addr \<noteq> [] \<Longrightarrow> Parse (''unix://'' @ addr) = Inr (''unix'', addr)"
  by (simp add: Parse_def HasPrefix_def ToLower_def to_lower_char_def)

text \<open>An endpoint with scheme \<open>unix://\<close> or \<open>tcp://\<close> and a non-empty address parses to the two
  parts; without an address it is an error; and any other text is the path of a Unix socket.\<close>

theorem parse_endpoint:
  shows "addr \<noteq> [] \<Longrightarrow> Parse (''unix://'' @ addr) = Inr (''unix'', addr) \<and> Parse (''tcp://'' @ addr) = Inr (''tcp'', addr) \<and>
    Parse (CHR ''/'' # addr) = Inr (''unix'', CHR ''/'' # addr) \<and> Parse ''unix://'' = Inl (Plain ''Invalid endpoint: unix://'')"
  using parse_unix by (simp add: Parse_def HasPrefix_def ToLower_def to_lower_char_def)

theorem parse_endpoint_witness: "Parse ''unix:///csi.sock'' = Inr (''unix'', ''/csi.sock'')"
  using parse_endpoint [of "''/csi.sock''"] by simp

lemma lower_UNIX: "to_lower_char (CHR ''U'') = CHR ''u''" "to_lower_char (CHR ''N'') = CHR ''n''"
  "to_lower_char (CHR ''I'') = CHR ''i''" "to_lower_char (CHR ''X'') = CHR ''x''"
  "to_lower_char (CHR '':'') = CHR '':''" "to_lower_char (CHR ''/'') = CHR ''/''"
  by code_simp+

text \<open>The scheme is recognised in any case but returned as written: an endpoint with an upper-case
  scheme yields a protocol that is not \<open>unix\<close>, so the listener asks for the network \<open>UNIX\<close> and does
  not remove a stale socket.\<close>

theorem parse_keeps_case: "Parse (''UNIX://'' @ CHR ''/'' # addr) = Inr (''UNIX'', CHR ''/'' # addr)"
  by (simp add: Parse_def HasPrefix_def ToLower_def lower_UNIX)

subsection \<open>Start and end\<close>

definition mem_host :: "nat host" where
  "mem_host = \<lparr>net_listen = (\<lambda>_ _ w. (Inr (), w)), os_mkdir_all = (\<lambda>_ w. (Inr (), w))\<rparr>"

text \<open>C34. The server joins the parts: whatever run the driver made before (\<open>u\<close>), a server that starts on the
  ConfigMap it left hands its handlers a state of that run, so that identifiers are unique in it, and serves
  the controller and the node service, but no group service, which the identity service
  advertises; without a driver name and a node identifier, whose flag is empty by default, the identity service is nil and its
  first call panics.\<close>

theorem serve_continues_run:
  assumes "cm_sound E" and "csi_reach E cfg eph u" and "cmw s = cmw u"
    and "csi_Serve_start E H ep cfg s = (Inr (c, Some rs), t)"
  shows "csi_reach E cfg eph t \<and> ids_unique (res t) \<and>
    {NodeServer, ControllerServer} \<subseteq> set rs \<and>
    GroupControllerServer \<notin> set rs \<and> GROUP_CONTROLLER_SERVICE \<in> set (GetPluginCapabilities cfg) \<and>
    (\<forall>srv. IdentityServer srv \<in> set rs \<longrightarrow>
       ((\<exists>e. served_GetPluginInfo srv = Inl e \<and> is_panic e) \<longleftrightarrow> DriverName cfg = [] \<or> CfgNodeID cfg = []))"
proof -
  from csi_Serve_start_state [OF assms(4)] assms(3) obtain w
    where rs: "rs = registrations cfg"
      and "state_New E (Join [StateDir cfg, ''state.json'']) (cmw u) w = (Inr (), t)" by auto
  then have t: "csi_reach E cfg eph t" using assms(2) by (blast intro: reach_step step_restart)
  moreover have "ids_unique (res t)"
    using csi_reach_ok [OF t assms(1)] by (simp add: csi_inv_def res_ok_def)
  ultimately show ?thesis
    by (auto simp: rs registrations_def NewIdentityServer_def served_GetPluginInfo_def GetPluginInfo_def GetPluginCapabilities_def)
qed

lemma demo_restart:
  "state_New mem_env path (cmw (mem_driver r v)) w = (Inr (), (mem_driver r w)\<lparr>statefilePath := path\<rparr>)"
  by (simp add: state_New_def restore_def GetConfigmapData_def io_simps call_cm_def,
      simp add: mem_driver_def mem_env_def node_env_def io_simps)

lemma demo_start:
  "csi_Serve_start mem_env mem_host ''unix:///csi.sock'' demo_config (mem_driver r v) =
     (Inr (RemoveSocket ''//csi.sock'', Some (registrations demo_config)), (mem_driver r v)\<lparr>statefilePath := Join [''/csi'', ''state.json'']\<rparr>)"
proof -
  have p: "Parse ''unix:///csi.sock'' = Inr (''unix'', ''/csi.sock'')" using parse_unix [of "''/csi.sock''"] by simp
  have os: "osw (mem_driver r v) = v" by (simp add: mem_driver_def)
  have e: "os_remove mem_env a w = (Inr (), w)" "in_cluster_config mem_env w = (Inr (), w)" "new_for_config mem_env w = (Inr (), w)"
    for a w by (simp_all add: mem_env_def node_env_def)
  show ?thesis
    by (simp add: csi_Serve_start_def e Listen_def p Let_def io_simps GetKubernetesClient_def fresh_state_def demo_restart os
        mem_host_def demo_config_def)
qed

theorem serve_continues_run_witness:
  "\<exists>t. csi_Serve_start mem_env mem_host ''unix:///csi.sock'' demo_config (mem_driver (empty_resources\<lparr>Volumes := [made_volume]\<rparr>) 8) =
      (Inr (RemoveSocket ''//csi.sock'', Some (registrations demo_config)), t) \<and> ids_unique (res t)"
  using serve_continues_run [OF mem_sound demo_reach refl demo_start] demo_start by blast

text \<open>The end of the server: an endpoint that is not understood, or a socket that cannot be removed, is only
  logged, and the clean-up that was not set panics.\<close>

theorem serve_bad_endpoint_panics:
  assumes "Parse ep = Inl e"
  shows "\<exists>x t. csi_Serve E H requests ep cfg s = (Inl x, t) \<and> is_panic x"
  using assms
  by (auto simp: csi_Serve_def csi_Serve_start_def Listen_def run_cleanup_def io_simps split: prod.splits sum.splits)

theorem serve_bad_endpoint_panics_witness:
  "\<exists>x t. csi_Serve mem_env mem_host (\<lambda>_. ret ()) ''unix://'' demo_config (mem_driver empty_resources 1) = (Inl x, t) \<and> is_panic x"
  by (rule serve_bad_endpoint_panics) (simp add: Parse_def HasPrefix_def ToLower_def to_lower_char_def)

end
