(* ===== verification/CsiControllerProps.thy ===== *)
theory CsiControllerProps
  imports CsiStateProps
begin

section \<open>simplecsi: properties of the controller service\<close>

text \<open>
  Creation of volumes (bounds, capacity, repeated requests), deletion, attaching, expansion and
  capacity, each for a store in order (\<open>store_ready\<close>) and any behaviour of the node.
\<close>

subsection \<open>CreateVolume\<close>

text \<open>C5. A successful CreateVolume for a new name and a new identifier stores exactly one new
  volume, as requested and not in use, of at most the maximal size; with capacity tracking the
  sizes of all volumes of its kind, added as 64-bit integers, stay within the capacity of the
  kind.\<close>

theorem create_within_capacity:
  assumes "store_ready E s" "find_by VolName (cvName req) (Volumes (res s)) = None"
    and "CreateVolume E cfg req s = (Inr r, t)"
    and "find_by VolID (rVolumeId r) (Volumes (res s)) = None"
  shows "\<exists>v. Volumes (res t) = Volumes (res s) @ [v] \<and> VolID v = rVolumeId r \<and> created_for cfg req v \<and>
    le64 (VolSize v) (MaxVolumeSize cfg) \<and>
    (Capacity_Enabled (CfgCapacity cfg) \<longrightarrow>
       le64 (sum_sizes (Kind v) (Volumes (res t)) 0) (capacity_value (CfgCapacity cfg) (Kind v)))"
  using CreateVolume_new_run [OF assms(1-3)] assms(4)
  by (auto simp: map_upsert_absent sum_sizes_append)

theorem create_within_capacity_witness:
  "le64 (sum_sizes ''fast'' [demo_volume, made_volume] 0) 100"
  using create_within_capacity [OF mem_ready _ mem_create]
  by (auto simp: demo_simps made_response_def made_volume_def Capacity_Enabled_def capacity_value_def le64_def)

text \<open>Repeating a CreateVolume request that created a volume returns the identifier and the
  size of that volume and changes nothing, unless the request clones a volume.\<close>

theorem CreateVolume_idempotent:
  assumes "store_ready E s" "find_by VolName (cvName req) (Volumes (res s)) = None"
    and "CreateVolume E cfg req s = (Inr r, t)"
    and "\<forall>i. cvContentSource req = Some (SourceVolume (Some i)) \<longrightarrow> i = []"
  shows "\<exists>r' u. CreateVolume E cfg req t = (Inr r', u) \<and> rVolumeId r' = rVolumeId r \<and>
    rCapacityBytes r' = rCapacityBytes r \<and> rVolumeContext r' = rVolumeContext r \<and> res u = res t"
proof -
  from CreateVolume_new_run [OF assms(1-3)] obtain v where t: "store_ready E t"
    and vs: "Volumes (res t) = upsert_by VolID v (Volumes (res s))" and c: "created_for cfg req v"
    and r: "VolID v = rVolumeId r" "rCapacityBytes r = VolSize v" "rVolumeContext r = cvParameters req"
    and ne: "cvContentSource req \<noteq> Some SourceUnset" by auto
  have "find_by VolName (cvName req) (Volumes (res t)) = Some v"
    using find_by_upsert_other [of VolName v] assms(2) c vs by (simp add: created_for_def)
  from CreateVolume_existing_run [OF t CreateVolume_success [OF assms(3)] this]
  show ?thesis using c r ne assms(4)
    by (fastforce simp: existing_volume_def created_for_def Let_def split: option.split content_source.split)
qed

theorem CreateVolume_idempotent_witness:
  "\<exists>r' u. CreateVolume mem_env demo_config demo_request
     (mem_driver (demo_resources\<lparr>Volumes := [demo_volume, made_volume]\<rparr>) 8) = (Inr r', u) \<and> rVolumeId r' = ''uuid-7''"
  using CreateVolume_idempotent [OF mem_ready _ mem_create]
  by (auto simp: demo_simps made_response_def)

text \<open>A repeated clone request is refused: the parent of a clone is set on a copy after the
  volume was stored, so the stored volume has no parent and the repetition, which a CSI client
  makes after a lost answer, fails with AlreadyExists.\<close>

theorem clone_retry_refused:
  assumes "store_ready E s" "find_by VolName (cvName req) (Volumes (res s)) = None"
    and "CreateVolume E cfg req s = (Inr r, t)"
    and "cvContentSource req = Some (SourceVolume (Some i))" "i \<noteq> []"
  shows "\<exists>m u. CreateVolume E cfg req t = (Inl (Status AlreadyExists m), u)"
proof -
  from CreateVolume_new_run [OF assms(1-3)] obtain v where t: "store_ready E t"
    and vs: "Volumes (res t) = upsert_by VolID v (Volumes (res s))" and c: "created_for cfg req v" by auto
  have "find_by VolName (cvName req) (Volumes (res t)) = Some v"
    using find_by_upsert_other [of VolName v] assms(2) c vs by (simp add: created_for_def)
  from CreateVolume_existing_run [OF t CreateVolume_success [OF assms(3)] this]
  show ?thesis using c assms(4,5) by (auto simp: existing_volume_def created_for_def Let_def)
qed

definition clone_request :: CreateVolumeRequest where
  "clone_request = demo_request\<lparr>cvContentSource := Some (SourceVolume (Some ''vol-a''))\<rparr>"

lemma mem_clone: "\<exists>r t. CreateVolume mem_env demo_config clone_request (mem_driver demo_resources 7) = (Inr r, t)"
  by (simp add: create_simps demo_simps clone_request_def populate_def HostPathLoadFromVolume_def lt64_def
      loadFromFilesystemVolume_def HostPathIsEmpty_def)

theorem clone_retry_refused_witness:
  "\<exists>t m u. CreateVolume mem_env demo_config clone_request t = (Inl (Status AlreadyExists m), u)"
proof -
  obtain r t where run: "CreateVolume mem_env demo_config clone_request (mem_driver demo_resources 7) = (Inr r, t)"
    using mem_clone by blast
  have "find_by VolName (cvName clone_request) (Volumes (res (mem_driver demo_resources 7))) = None"
    by (simp add: clone_request_def demo_simps)
  from clone_retry_refused [OF mem_ready this run, of "''vol-a''"] show ?thesis
    by (auto simp: clone_request_def)
qed

subsection \<open>DeleteVolume\<close>

text \<open>C6. DeleteVolume with the service enabled: an unknown identifier is a success and changes
  nothing; a volume that is attached, staged or published is refused with Internal while the
  life cycle is checked; otherwise a success removes exactly that volume and a failure changes
  no stored resource.\<close>

theorem DeleteVolume_spec:
  assumes "store_ready E s" "ids_unique (res s)" "i \<noteq> []"
    and "validateControllerServiceRequest cfg CREATE_DELETE_VOLUME = Inr ()"
    and "DeleteVolume E cfg i s = (r, t)"
  shows "case volume_map (res s) i of
      None \<Rightarrow> r = Inr () \<and> res t = res s
    | Some v \<Rightarrow>
        if CheckVolumeLifecycle cfg \<and> (Attached v \<or> Staged v \<noteq> [] \<or> Published v \<noteq> [])
        then (\<exists>m. r = Inl (Status Internal m)) \<and> res t = res s
        else (r = Inr () \<and> volume_map (res t) = (volume_map (res s))(i := None) \<or>
              (\<exists>e. r = Inl e) \<and> res t = res s)"
proof -
  obtain g s1 where g: "GetVolumeByID E i s = (g, s1)" by (metis surj_pair)
  note gr = get_run [OF assms(1) g]
  then have s1: "store_ready E s1" "res s1 = res s" by simp_all
  show ?thesis
  proof (cases g)
    case (Inl e)
    then show ?thesis using gr assms(3-5) g
      by (auto simp: DeleteVolume_def bindE_apply tryE_apply volume_map_def)
  next
    case (Inr v)
    then have v: "volume_map (res s) i = Some v" using gr by (simp add: volume_map_def)
    show ?thesis
    proof (cases "CheckVolumeLifecycle cfg \<and> (Attached v \<or> Staged v \<noteq> [] \<or> Published v \<noteq> [])")
      case True
      then show ?thesis using assms(3-5) g Inr v s1 by (auto simp: DeleteVolume_def io_simps)
    next
      case False
      then have run: "tryE (HostPathDeleteVolume E cfg i)
          (\<lambda>err. fail (Plain (''failed to delete volume '' @ i @ '': '' @ err_text err))) ret s1 = (r, t)"
        using assms(3-5) g Inr by (auto simp: DeleteVolume_def io_simps split: if_splits)
      obtain q u where h: "HostPathDeleteVolume E cfg i s1 = (q, u)" by (metis surj_pair)
      from HostPathDeleteVolume_run [OF s1(1) h] s1(2) v run h False show ?thesis
        using find_by_remove [of VolID "Volumes (res s)" _ i] assms(2)
        by (auto simp: tryE_apply volume_map_def fun_eq_iff ids_unique_def split: sum.splits if_splits)
    qed
  qed
qed

lemma mem_delete_attached:
  "\<exists>m. DeleteVolume mem_env demo_config ''vol-a'' (mem_driver (demo_resources\<lparr>Volumes := [demo_volume\<lparr>Attached := True\<rparr>]\<rparr>) 7)
     = (Inl (Status Internal m), mem_driver (demo_resources\<lparr>Volumes := [demo_volume\<lparr>Attached := True\<rparr>]\<rparr>) 7)"
  by (simp add: DeleteVolume_def io_simps demo_simps validateControllerServiceRequest_def
      getControllerServiceCapabilities_def)

theorem DeleteVolume_spec_witness:
  "\<exists>r t. DeleteVolume mem_env demo_config ''vol-a'' (mem_driver demo_resources 7) = (r, t) \<and>
     (r = Inr () \<and> volume_map (res t) = (volume_map demo_resources)(''vol-a'' := None) \<or>
      (\<exists>e. r = Inl e) \<and> res t = demo_resources)"
proof -
  obtain r t where run: "DeleteVolume mem_env demo_config ''vol-a'' (mem_driver demo_resources 7) = (r, t)"
    by (metis surj_pair)
  have "ids_unique (res (mem_driver demo_resources 7))" "volume_map demo_resources ''vol-a'' = Some demo_volume"
    and "validateControllerServiceRequest demo_config CREATE_DELETE_VOLUME = Inr ()"
    by (simp_all add: ids_unique_def volume_map_def demo_simps validateControllerServiceRequest_def
        getControllerServiceCapabilities_def)
  with DeleteVolume_spec [OF mem_ready _ _ _ run] run show ?thesis
    by (auto simp: demo_volume_def)
qed

subsection \<open>Attaching\<close>

lemma ControllerPublish_run:
  assumes "store_ready E s" "volume_map (res s) i = Some v" "\<not> Attached v"
    and "ControllerPublishVolume E cfg i n cap ro s = (Inr (), t)"
  shows "store_ready E t \<and> res t = (res s)\<lparr>Volumes := upsert_by VolID (v\<lparr>Attached := True, ReadOnlyAttach := ro\<rparr>) (Volumes (res s))\<rparr> \<and>
    (lt64 0 (AttachLimit cfg) \<longrightarrow> \<not> le64 (AttachLimit cfg) (count_attached (Volumes (res s)) 0))"
proof -
  obtain g s1 where g: "GetVolumeByID E i s = (g, s1)" by (metis surj_pair)
  note gr = get_run [OF assms(1) g]
  then have s1: "store_ready E s1" "res s1 = res s" and gv: "g = Inr v"
    using assms(2) by (auto simp: volume_map_def split: sum.splits)
  let ?full = "if lt64 0 (AttachLimit cfg) then bindE (GetAttachCount E) (\<lambda>n. ret (le64 (AttachLimit cfg) n)) else ret False"
  from assms(4) obtain s2 where full: "?full s1 = (Inr False, s2)"
    and up: "UpdateVolume E (v\<lparr>Attached := True, ReadOnlyAttach := ro\<rparr>) s2 = (Inr (), t)"
    using g gv assms(3) unfolding ControllerPublishVolume_def by (auto simp: eq_Inr split: if_splits)
  have "store_ready E s2 \<and> res s2 = res s \<and>
      (lt64 0 (AttachLimit cfg) \<longrightarrow> \<not> le64 (AttachLimit cfg) (count_attached (Volumes (res s)) 0))"
  proof (cases "lt64 0 (AttachLimit cfg)")
    case True
    obtain q u where q: "GetAttachCount E s1 = (q, u)" by (metis surj_pair)
    from GetAttachCount_run [OF s1(1) q] full q True s1(2) show ?thesis by (simp add: bindE_apply)
  next
    case False
    with full s1 show ?thesis by simp
  qed
  then show ?thesis using update_run [OF _ up] by auto
qed

text \<open>C7. A ControllerPublishVolume that attaches a volume leaves at most \<open>AttachLimit\<close> attached
  volumes, when a limit is set; the volume is attached with the requested read-only flag, and
  nothing else in its record changes.\<close>

theorem attach_limit:
  assumes "store_ready E s" "ids_unique (res s)" "volume_map (res s) i = Some v" "\<not> Attached v"
    and "ControllerPublishVolume E cfg i n cap ro s = (Inr (), t)"
    and "int (length (Volumes (res s))) < 2 ^ 62"
  shows "volume_map (res t) = (volume_map (res s))(i \<mapsto> v\<lparr>Attached := True, ReadOnlyAttach := ro\<rparr>) \<and>
    (lt64 0 (AttachLimit cfg) \<longrightarrow> int (length (filter Attached (Volumes (res t)))) \<le> sint (AttachLimit cfg))"
proof -
  note run = ControllerPublish_run [OF assms(1,3-5)]
  let ?w = "v\<lparr>Attached := True, ReadOnlyAttach := ro\<rparr>"
  have i: "VolID v = i" "v \<in> set (Volumes (res s))" using assms(3) by (auto simp: volume_map_def dest: find_by_Some)
  have len: "length (filter Attached (upsert_by VolID ?w (Volumes (res s)))) \<le> Suc (length (filter Attached (Volumes (res s))))"
    by (rule filter_upsert)
  have lt: "length (filter Attached (Volumes (res s))) \<le> length (Volumes (res s))" by simp
  have "int (length (filter Attached (Volumes (res s)))) \<le> int (length (Volumes (res s)))" using lt by simp
  from le_less_trans [OF this assms(6)] have "int (length (filter Attached (Volumes (res s)))) < 2 ^ 63" by simp
  then have "sint (count_attached (Volumes (res s)) 0) = int (length (filter Attached (Volumes (res s))))"
    using sint_of_nat_small by (simp add: count_attached_filter)
  then show ?thesis using run len i by (auto simp: volume_map_def find_by_upsert fun_eq_iff le64_def)
qed

lemma mem_publish: "ControllerPublishVolume mem_env demo_config ''vol-a'' ''node-1'' (Some \<lparr>capAccessType = MountType [] [],
    capAccessMode = None\<rparr>) False (mem_driver demo_resources 7) =
  (Inr (), mem_driver (demo_resources\<lparr>Volumes := [demo_volume\<lparr>Attached := True\<rparr>]\<rparr>) 7)"
  by (simp add: ControllerPublishVolume_def io_simps demo_simps GetAttachCount_def lt64_def le64_def)

theorem attach_limit_witness:
  "int (length (filter Attached [demo_volume\<lparr>Attached := True\<rparr>])) \<le> 2"
  using attach_limit [OF mem_ready _ _ _ mem_publish]
  by (simp add: ids_unique_def volume_map_def demo_simps lt64_def)

text \<open>Attaching an attached volume again succeeds and changes nothing when the read-only flag
  is the same, and is refused with AlreadyExists when it differs.\<close>

theorem attach_idempotent:
  assumes "store_ready E s" "volume_map (res s) i = Some v" "\<not> Attached v" "ids_unique (res s)"
    and "ControllerPublishVolume E cfg i n cap ro s = (Inr (), t)"
  shows "\<exists>m u. ControllerPublishVolume E cfg i n cap ro' t =
    ((if ro' = ro then Inr () else Inl (Status AlreadyExists m)), u) \<and> res u = res t"
proof -
  note run = ControllerPublish_run [OF assms(1-3,5)]
  let ?w = "v\<lparr>Attached := True, ReadOnlyAttach := ro\<rparr>"
  have "VolID v = i" using assms(2) by (auto simp: volume_map_def dest: find_by_Some)
  then have w: "find_by VolID i (Volumes (res t)) = Some ?w" using run by (simp add: find_by_upsert)
  have g: "EnableAttach cfg \<and> i \<noteq> [] \<and> n \<noteq> [] \<and> cap \<noteq> None \<and> n = CfgNodeID cfg"
    using assms(5) unfolding ControllerPublishVolume_def by (auto simp: eq_Inr)
  have t: "store_ready E t" using run by simp
  obtain u where "GetVolumeByID E i t = (Inr ?w, u)" "res u = res t"
    using st.get_by_id_law [OF t, of i] w by auto
  then show ?thesis using g by (auto simp: ControllerPublishVolume_def io_simps)
qed

theorem attach_idempotent_witness:
  "\<exists>m u. ControllerPublishVolume mem_env demo_config ''vol-a'' ''node-1'' (Some \<lparr>capAccessType = MountType [] [],
     capAccessMode = None\<rparr>) True (mem_driver (demo_resources\<lparr>Volumes := [demo_volume\<lparr>Attached := True\<rparr>]\<rparr>) 7) =
     (Inl (Status AlreadyExists m), u)"
  using attach_idempotent [OF mem_ready _ _ _ mem_publish, of demo_volume True]
  by (auto simp: ids_unique_def volume_map_def demo_simps)

subsection \<open>Expansion\<close>

lemma expand_run:
  assumes "store_ready E s" "volume_map (res s) i = Some v" "EnableVolumeExpansion cfg" "i \<noteq> []"
    and "le64 c (MaxVolumeSize cfg)"
  shows "\<exists>t. ControllerExpandVolume E cfg i (Some c) s =
      (Inr (if lt64 (VolSize v) c then c else VolSize v), t) \<and> store_ready E t \<and>
    res t = (if lt64 (VolSize v) c then (res s)\<lparr>Volumes := upsert_by VolID (v\<lparr>VolSize := c\<rparr>) (Volumes (res s))\<rparr> else res s)"
proof -
  obtain u where u: "GetVolumeByID E i s = (Inr v, u)" "store_ready E u" "res u = res s"
    using st.get_by_id_law [OF assms(1), of i] assms(2) by (auto simp: volume_map_def)
  from st.update_law [OF u(2), of "v\<lparr>VolSize := c\<rparr>"] u assms(3-5) show ?thesis
    by (auto simp: ControllerExpandVolume_def io_simps required_bytes_def)
qed

text \<open>Expanding a known volume to a size within the maximum succeeds, never shrinks it, returns
  the size the volume then has, and changes no other volume.\<close>

theorem expand_spec:
  assumes "store_ready E s" "ids_unique (res s)" "volume_map (res s) i = Some v"
    and "EnableVolumeExpansion cfg" "i \<noteq> []" "le64 c (MaxVolumeSize cfg)"
  shows "\<exists>t n. ControllerExpandVolume E cfg i (Some c) s = (Inr n, t) \<and> ids_unique (res t) \<and>
    volume_map (res t) = (volume_map (res s))(i \<mapsto> v\<lparr>VolSize := n\<rparr>) \<and>
    sint n = max (sint (VolSize v)) (sint c)"
proof -
  have "VolID v = i" using assms(3) by (auto simp: volume_map_def dest: find_by_Some)
  then show ?thesis using expand_run [OF assms(1,3-6)] assms(2,3)
    by (auto simp: volume_map_def find_by_upsert fun_eq_iff lt64_def ids_unique_def distinct_upsert)
qed

theorem expand_spec_witness:
  "\<exists>t n. ControllerExpandVolume mem_env demo_config ''vol-a'' (Some 500) (mem_driver demo_resources 7) = (Inr n, t) \<and> sint n = 500"
  using expand_spec [of mem_env "mem_driver demo_resources 7" "''vol-a''" demo_volume demo_config 500]
  by (auto simp: ids_unique_def volume_map_def demo_simps le64_def)

text \<open>The expansion looks at the maximal size only: with capacity tracking on, a volume can be
  expanded beyond the whole configured capacity of its kind, which CreateVolume refuses.\<close>

theorem expand_ignores_capacity:
  assumes "store_ready E s" "volume_map (res s) i = Some v" "EnableVolumeExpansion cfg" "i \<noteq> []"
    and "Capacity_Enabled (CfgCapacity cfg)" "lt64 (capacity_value (CfgCapacity cfg) (Kind v)) c"
    and "lt64 (VolSize v) c" "le64 c (MaxVolumeSize cfg)"
  shows "\<exists>t w. ControllerExpandVolume E cfg i (Some c) s = (Inr c, t) \<and> volume_map (res t) i = Some w \<and>
    Kind w = Kind v \<and> lt64 (capacity_value (CfgCapacity cfg) (Kind w)) (VolSize w)"
proof -
  have "VolID v = i" using assms(2) by (auto simp: volume_map_def dest: find_by_Some)
  then show ?thesis using expand_run [OF assms(1-4,8)] assms(6,7)
    by (auto simp: volume_map_def find_by_upsert)
qed

theorem expand_ignores_capacity_witness:
  "\<exists>t w. ControllerExpandVolume mem_env demo_config ''vol-a'' (Some 500) (mem_driver demo_resources 7) = (Inr 500, t) \<and>
     volume_map (res t) ''vol-a'' = Some w \<and> lt64 (capacity_value (CfgCapacity demo_config) (Kind w)) (VolSize w)"
  using expand_ignores_capacity [of mem_env "mem_driver demo_resources 7" "''vol-a''" demo_volume demo_config 500]
  by (auto simp: volume_map_def demo_simps le64_def lt64_def Capacity_Enabled_def capacity_value_def)

subsection \<open>Paths\<close>

text \<open>For an absolute state directory and identifiers that are one plain path element, the
  directory of a volume is a direct child of the state directory, and different volumes have
  different directories: removing one volume's directory cannot remove another's.\<close>

theorem volume_path_contained:
  assumes "HasPrefix (StateDir cfg) ''/''" "plain_elem i" "plain_elem j"
  shows "(\<exists>d. HostPathGetVolumePath cfg i = d @ i \<and> (d = ''/'' \<or> d = Clean (StateDir cfg) @ ''/'')) \<and>
    (HostPathGetVolumePath cfg i = HostPathGetVolumePath cfg j \<longleftrightarrow> i = j)"
  using Join_plain [OF assms(1)] assms(2,3) by (auto simp: HostPathGetVolumePath_def)

theorem volume_path_contained_witness:
  "HostPathGetVolumePath demo_config ''vol-a'' \<noteq> HostPathGetVolumePath demo_config ''vol-b''"
  using volume_path_contained [of demo_config "''vol-a''" "''vol-b''"]
  by (simp add: plain_elem_def HasPrefix_def demo_config_def)

text \<open>An identifier with a parent reference leaves the state directory.\<close>

theorem volume_path_escapes:
  "HostPathGetVolumePath (cfg\<lparr>StateDir := ''/csi''\<rparr>) ''../etc'' = ''/etc''"
  by (simp add: HostPathGetVolumePath_def Join_def Clean_def HasPrefix_def)

subsection \<open>Modification\<close>

text \<open>With a list of accepted names, mutable parameters are accepted exactly when every name
  is in the list; without a list all are accepted.\<close>

theorem mutable_parameters_accepted:
  "validateVolumeMutableParameters cfg ps = Inr () \<longleftrightarrow>
     AcceptedMutableParameterNames cfg = [] \<or> fst ` set ps \<subseteq> set (AcceptedMutableParameterNames cfg)"
  by (auto simp: validateVolumeMutableParameters_def Let_def filter_empty_conv)

end
