(* ===== verification/CsiSnapshotProps.thy ===== *)
theory CsiSnapshotProps
  imports CsiControllerProps
begin

section \<open>simplecsi: properties of the listing, snapshot and group snapshot calls\<close>

subsection \<open>Pages\<close>

lemma go_index_ok: "0 \<le> i \<Longrightarrow> i < int (length xs) \<Longrightarrow> go_index xs i = Inr (xs ! nat i)"
  by (simp add: go_index_def)

lemma sint32_Suc: "int k + 1 < 2 ^ 31 \<Longrightarrow> (word_of_int (int k) :: int32) + 1 = word_of_int (int (Suc k))"
  by simp

lemma page_loop_take:
  "k + n \<le> length xs \<Longrightarrow> int (length xs) < 2 ^ 31 \<Longrightarrow>
     page_loop xs n (word_of_int (int k)) = Inr (take n (drop k xs), word_of_int (int (k + n)))"
proof (induction n arbitrary: k)
  case (Suc n)
  have s: "sint (word_of_int (int k) :: int32) = int k" using Suc.prems by (intro sint32_of_int) auto
  have "go_index xs (sint (word_of_int (int k) :: int32)) = Inr (xs ! k)"
    unfolding s using Suc.prems by (simp add: go_index_def)
  moreover have "page_loop xs n (word_of_int (int (Suc k))) = Inr (take n (drop (Suc k) xs), word_of_int (int (Suc k + n)))"
    using Suc.prems by (intro Suc.IH) auto
  moreover have "drop k xs = xs ! k # drop (Suc k) xs" using Suc.prems by (simp add: Cons_nth_drop_Suc)
  ultimately show ?case by (simp add: add.commute)
qed simp

lemma snapshot_page_run:
  assumes "k \<le> length xs" "int (length xs) < 2 ^ 31" "0 \<le> sint m"
    and "token = [] \<and> k = 0 \<or> token = nat_digits k"
  defines "n \<equiv> (if m = 0 \<or> int (length xs - k) < sint m then length xs - k else nat (sint m))"
  shows "snapshot_page xs token m = Inr \<lparr>lEntries = take n (drop k xs),
    lNextToken = (if k + n < length xs then nat_digits (k + n) else [])\<rparr>"
proof -
  let ?L = "length xs"
  have L: "sint (word_of_int (int ?L) :: int32) = int ?L" using assms(2) by (intro sint32_of_int) auto
  have K: "sint (word_of_int (int k) :: int32) = int k" using assms(1,2) by (intro sint32_of_int) auto
  have R: "sint (word_of_int (int (?L - k)) :: int32) = int (?L - k)" using assms(2) by (intro sint32_of_int) auto
  have n: "n \<le> ?L - k" by (auto simp: n_def)
  have N: "sint (word_of_int (int n) :: int32) = int n" using assms(2) n by (intro sint32_of_int) auto
  have KN: "sint (word_of_int (int (k + n)) :: int32) = int (k + n)" using assms(1,2) n by (intro sint32_of_int) auto
  have start: "(if token \<noteq> [] then map_option (\<lambda>i. word_of_int (int i) :: int32) (ParseUint32 token) else Some 0)
      = Some (word_of_int (int k))"
  proof (cases "token = []")
    case False
    then have "token = nat_digits k" using assms(4) by simp
    moreover have "k < 2 ^ 32" using assms(1,2) by simp
    ultimately show ?thesis by (simp add: ParseUint32_itoa)
  qed (use assms(4) in \<open>auto simp: eq_commute [of "[]" "nat_digits k"]\<close>)
  have rem: "word_of_int (int ?L) - word_of_int (int k) = (word_of_int (int (?L - k)) :: int32)"
    using assms(1) by (simp add: of_nat_diff)
  have mx: "(if m = 0 \<or> sint m > sint (word_of_int (int (?L - k)) :: int32) then word_of_int (int (?L - k)) else m)
      = word_of_int (int n)"
    unfolding R using assms(3) by (auto simp: n_def)
  have loop: "page_loop xs n (word_of_int (int k)) = Inr (take n (drop k xs), word_of_int (int (k + n)))"
    using n assms(1,2) by (intro page_loop_take) auto
  show ?thesis
    unfolding snapshot_page_def Let_def start option.case K L rem mx N nat_int loop sum.case prod.case KN
    using assms(1) by (simp add: itoa_def nat_int_add)
qed

text \<open>Following the tokens of a listing call, for at most \<open>fuel\<close> pages.\<close>

fun follow_pages :: "nat \<Rightarrow> (string \<Rightarrow> goerr + ListSnapshotsResponse) \<Rightarrow> string \<Rightarrow> (goerr + CsiSnapshot list) option" where
  "follow_pages 0 call token = None"
| "follow_pages (Suc fuel) call token =
     (case call token of
        Inl e \<Rightarrow> Some (Inl e)
      | Inr p \<Rightarrow> if lNextToken p = [] then Some (Inr (lEntries p))
          else (case follow_pages fuel call (lNextToken p) of
             Some (Inr ys) \<Rightarrow> Some (Inr (lEntries p @ ys)) | other \<Rightarrow> other))"

lemma pages_from:
  assumes "int (length xs) < 2 ^ 31" "0 < sint m"
  shows "k \<le> length xs \<Longrightarrow> token = [] \<and> k = 0 \<or> token = nat_digits k \<Longrightarrow> length xs - k < fuel \<Longrightarrow>
     follow_pages fuel (\<lambda>tok. snapshot_page xs tok m) token = Some (Inr (drop k xs))"
proof (induction fuel arbitrary: k token)
  case (Suc fuel)
  define n where "n = (if m = 0 \<or> int (length xs - k) < sint m then length xs - k else nat (sint m))"
  have pg: "snapshot_page xs token m = Inr \<lparr>lEntries = take n (drop k xs),
      lNextToken = (if k + n < length xs then nat_digits (k + n) else [])\<rparr>"
    unfolding n_def using Suc.prems assms by (intro snapshot_page_run) auto
  show ?case
  proof (cases "k + n < length xs")
    case True
    then have "0 < n" using assms(2) by (auto simp: n_def split: if_splits)
    then have "follow_pages fuel (\<lambda>tok. snapshot_page xs tok m) (nat_digits (k + n)) = Some (Inr (drop (k + n) xs))"
      using Suc.prems True by (intro Suc.IH) auto
    then show ?thesis using True append_take_drop_id [of n "drop k xs"] by (simp add: pg add.commute)
  next
    case False
    then show ?thesis by (simp add: pg)
  qed
qed simp

lemma ListSnapshots_page:
  "validateControllerServiceRequest cfg LIST_SNAPSHOTS = Inr () \<Longrightarrow> ListSnapshots cfg [] [] tok m s =
     (snapshot_page (map listed_snapshot (sort_key SnapId (Snapshots (res s)))) tok m, s)"
  by (simp add: ListSnapshots_def GetSnapshots_def io_simps state_access)

text \<open>C10. Paging through ListSnapshots: starting without a token and following the tokens, with
  any positive page size, yields every snapshot once, in the order of the identifiers, and the
  chain of pages ends after at most one page more than there are snapshots.\<close>

theorem snapshot_pages_complete:
  assumes "validateControllerServiceRequest cfg LIST_SNAPSHOTS = Inr ()"
    and "int (length (Snapshots (res s))) < 2 ^ 31" "0 < sint m"
  shows "follow_pages (length (Snapshots (res s)) + 1) (\<lambda>tok. fst (ListSnapshots cfg [] [] tok m s)) [] =
    Some (Inr (map listed_snapshot (sort_key SnapId (Snapshots (res s)))))"
  using pages_from [OF _ assms(3), of "map listed_snapshot (sort_key SnapId (Snapshots (res s)))" 0 "[]"
      "length (Snapshots (res s)) + 1"] assms(2)
  by (simp add: ListSnapshots_page [OF assms(1)] del: follow_pages.simps)

definition demo_snapshot :: "string \<Rightarrow> string \<Rightarrow> Snapshot" where
  "demo_snapshot i g = \<lparr>SnapName = i, SnapId = i, SnapVolID = ''vol-a'', SnapPath = [], SnapCreationTime = None,
     SizeBytes = 40, ReadyToUse = True, GroupSnapshotID = g\<rparr>"

definition snap_resources :: resources where
  "snap_resources = demo_resources\<lparr>Snapshots := [demo_snapshot ''s1'' [], demo_snapshot ''s2'' ''g'']\<rparr>"

lemma demo_enabled [simp]:
  "validateControllerServiceRequest demo_config LIST_SNAPSHOTS = Inr ()"
  "validateControllerServiceRequest demo_config CREATE_DELETE_SNAPSHOT = Inr ()"
  by (simp_all add: validateControllerServiceRequest_def getControllerServiceCapabilities_def demo_config_def)

theorem snapshot_pages_complete_witness:
  "\<exists>xs. follow_pages 3 (\<lambda>tok. fst (ListSnapshots demo_config [] [] tok 1 (mem_driver snap_resources 7))) [] = Some (Inr xs)"
  using snapshot_pages_complete [of demo_config "mem_driver snap_resources 7" 1]
  by (simp add: snap_resources_def numeral_eq_Suc)

lemma page_negative_start: "sint j < 0 \<Longrightarrow> n \<noteq> 0 \<Longrightarrow> page_loop xs n j = Inl (Panic ''index out of range'')"
  by (cases n) (simp_all add: go_index_def)

lemma sint32_upper_half: "2 ^ 31 \<le> i \<Longrightarrow> i < 2 ^ 32 \<Longrightarrow> sint (word_of_int (int i) :: int32) = int i - 2 ^ 32"
proof -
  assume i: "2 ^ 31 \<le> i" "i < 2 ^ 32"
  have "(word_of_int (int i) :: int32) = word_of_int (int i - 2 ^ 32)" by (simp flip: word_of_int_minus)
  also have "sint \<dots> = int i - 2 ^ 32" using i by (intro sint32_of_int) auto
  finally show ?thesis .
qed

lemma sint_eq_0: "sint (a :: int32) = 0 \<longleftrightarrow> a = 0"
proof
  assume z: "sint a = 0"
  have "word_of_int (sint a) = (0 :: int32)" unfolding z by simp
  then show "a = 0" by simp
qed simp

lemma snapshot_page_negative:
  assumes "ParseUint32 tok = Some i" "2 ^ 31 \<le> i" "int (length xs) < 2 ^ 31"
  shows "\<exists>msg. snapshot_page xs tok m = Inl (Panic msg)"
proof -
  let ?u = "word_of_int (int (length xs)) :: int32" and ?j = "word_of_int (int i) :: int32"
  define mm where "mm = (if m = 0 \<or> sint (?u - ?j) < sint m then ?u - ?j else m)"
  have i: "i < 2 ^ 32" and ne: "tok \<noteq> []" using assms(1) by (auto simp: ParseUint32_def split: option.splits if_splits)
  have j: "sint ?j < 0" using sint32_upper_half [OF assms(2) i] i by simp
  have u: "0 \<le> sint ?u" using sint32_of_int [of "int (length xs)"] assms(3) by simp
  have "?u - ?j \<noteq> 0" using j u by auto
  then have m: "mm \<noteq> 0" by (auto simp: mm_def)
  have start: "(if tok \<noteq> [] then map_option (\<lambda>i. word_of_int (int i) :: int32) (ParseUint32 tok) else Some 0) = Some ?j"
    using ne assms(1) by simp
  have "\<not> sint ?u < sint ?j" using j u by linarith
  then have page: "snapshot_page xs tok m = (if sint mm < 0 then Inl (Panic ''makeslice: len out of range'')
      else (case page_loop xs (nat (sint mm)) ?j of Inl e \<Rightarrow> Inl e
          | Inr (entries, k) \<Rightarrow> Inr \<lparr>lEntries = entries, lNextToken = (if sint k < sint ?u then itoa (sint k) else [])\<rparr>))"
    unfolding snapshot_page_def Let_def start option.case mm_def [symmetric] by (simp only: if_False)
  have "page_loop xs (nat (sint mm)) ?j = Inl (Panic ''index out of range'')" if "\<not> sint mm < 0"
    by (rule page_negative_start [OF j]) (use that m in \<open>simp add: le_less sint_eq_0\<close>)
  then show ?thesis unfolding page by auto
qed

text \<open>A token of ListSnapshots between 2^31 and 2^32 - 1, which is a valid unsigned number, is
  negative as an \<open>int32\<close>, passes the check against the number of snapshots and panics instead
  of being refused.\<close>

theorem snapshot_token_panics:
  assumes "validateControllerServiceRequest cfg LIST_SNAPSHOTS = Inr ()"
    and "ParseUint32 tok = Some i" "2 ^ 31 \<le> i" "int (length (Snapshots (res s))) < 2 ^ 31"
  shows "\<exists>msg. fst (ListSnapshots cfg [] [] tok m s) = Inl (Panic msg)"
  using snapshot_page_negative [OF assms(2,3)] assms(4) by (simp add: ListSnapshots_page [OF assms(1)])

theorem snapshot_token_panics_witness:
  "\<exists>msg. fst (ListSnapshots demo_config [] [] (nat_digits 3000000000) 1 (mem_driver snap_resources 7)) = Inl (Panic msg)"
  by (rule snapshot_token_panics [of _ _ 3000000000]) (simp_all add: ParseUint32_itoa snap_resources_def)

subsection \<open>ListVolumes\<close>

text \<open>Any token of ListVolumes that is not positive as a number panics when there is a volume:
  the index is the token less one and is not checked from below.\<close>

theorem list_volumes_token_panics:
  assumes "store_ready E s" "Volumes (res s) \<noteq> []" "ParseInt32 tok = Some k" "k \<le> 0"
  shows "\<exists>msg. fst (ListVolumes E cfg tok n s) = Inl (Panic msg)"
proof -
  obtain t where t: "GetVolumes E s = (Inr (Volumes (res s)), t)" using st.get_all_law [OF assms(1)] by blast
  have ne: "tok \<noteq> []" using assms(3) by (auto simp: ParseInt32_def)
  let ?vs = "sort_key VolID (Volumes (res s))"
  obtain m where "nat (min (int (length (Volumes (res s)))) (if int (length (Volumes (res s))) < sint n \<or> sint n \<le> 0
      then int (length (Volumes (res s))) else sint n) - (k - 1)) = Suc m"
    using assms(2,4) by (cases "nat (min (int (length (Volumes (res s)))) (if int (length (Volumes (res s))) < sint n \<or> sint n \<le> 0
      then int (length (Volumes (res s))) else sint n) - (k - 1))") (auto simp: min_def split: if_splits)
  then show ?thesis using t ne assms(3,4)
    by (simp add: ListVolumes_def io_simps go_index_def)
qed

theorem list_volumes_token_panics_witness:
  "\<exists>msg. fst (ListVolumes mem_env demo_config ''0'' 1 (mem_driver demo_resources 7)) = Inl (Panic msg)"
  by (rule list_volumes_token_panics [where k = 0])
     (simp_all add: demo_simps ParseInt32_def digit_of_def)

text \<open>ListVolumes never returns a token for the next page, and with \<open>maxEntries\<close> below the
  number of volumes a page that starts after the first \<open>maxEntries\<close> volumes is empty: the bound
  of its loop is \<open>maxEntries\<close> itself, not the end of the page, so later volumes are never listed.\<close>

theorem list_volumes_later_pages_empty:
  assumes "store_ready E s" "0 < sint n" "sint n < int (length (Volumes (res s)))"
    and "ParseInt32 tok = Some k" "sint n < k" "tok \<noteq> []"
  shows "fst (ListVolumes E cfg tok n s) = Inr []"
proof -
  obtain t where t: "GetVolumes E s = (Inr (Volumes (res s)), t)" using st.get_all_law [OF assms(1)] by blast
  have "nat (min (int (length (Volumes (res s)))) (sint n) - (k - 1)) = 0" using assms(5) by (simp add: min_def)
  then show ?thesis using t assms by (simp add: ListVolumes_def io_simps)
qed

theorem list_volumes_later_pages_empty_witness:
  "fst (ListVolumes mem_env demo_config ''2'' 1 (mem_driver (demo_resources\<lparr>Volumes := [demo_volume, made_volume]\<rparr>) 7)) = Inr []"
  by (rule list_volumes_later_pages_empty [where k = 2])
     (simp_all add: demo_simps ParseInt32_def digit_of_def)

subsection \<open>Snapshots\<close>

text \<open>Deleting a snapshot that belongs to a group snapshot succeeds and removes it from the
  list, and the group still names it: the check for a group looks at the snapshot only when the
  look-up failed.\<close>

theorem group_member_deleted:
  assumes "store_ready E s" "ids_unique (res s)" "find_by SnapId i (Snapshots (res s)) = Some x"
    and "GroupSnapshotID x \<noteq> []" "i \<noteq> []" "validateControllerServiceRequest cfg CREATE_DELETE_SNAPSHOT = Inr ()"
  shows "\<exists>t. DeleteSnapshot E cfg i s = (Inr (), t) \<and> find_by SnapId i (Snapshots (res t)) = None \<and>
    GroupSnapshots (res t) = GroupSnapshots (res s)"
proof -
  let ?m = "tryE (call_os (os_remove_all E (GetSnapshotPath cfg i))) (\<lambda>_. ret ()) ret"
  obtain s1 where m: "?m s = (Inr (), s1)"
    by (cases "os_remove_all E (GetSnapshotPath cfg i) (osw s)"; cases "fst (os_remove_all E (GetSnapshotPath cfg i) (osw s))")
       (auto simp: tryE_apply call_err_def)
  have k: "keeps (store_frame E (res s)) ?m" by (intro keeps_intros)
  from frame_run [OF k assms(1) m] have s1: "store_ready E s1" "res s1 = res s" by auto
  from st.snap_delete_law [OF s1(1), of i] obtain t where t: "DeleteSnapshot_state E i s1 = (Inr (), t)"
    "res t = (res s)\<lparr>Snapshots := remove_by SnapId i (Snapshots (res s))\<rparr>" using s1 by auto
  have g: "GetSnapshotByID i s = (Inr x, s)" using assms(3) by (simp add: GetSnapshotByID_def io_simps state_access)
  have "DeleteSnapshot E cfg i s = bindE ?m (\<lambda>_. DeleteSnapshot_state E i) s"
    using g assms(5,6) by (simp add: DeleteSnapshot_def bindE_apply [of "lift _"] bindE_apply [of "tryE (GetSnapshotByID i) _ _"] tryE_apply [of "GetSnapshotByID i"])
  also have "\<dots> = (Inr (), t)" by (simp add: bindE_apply m t)
  finally show ?thesis using t assms(2) by (simp add: find_by_remove ids_unique_def)
qed

theorem group_member_deleted_witness:
  "\<exists>t. DeleteSnapshot mem_env demo_config ''s2'' (mem_driver snap_resources 7) = (Inr (), t) \<and>
     find_by SnapId ''s2'' (Snapshots (res t)) = None"
  using group_member_deleted [of mem_env "mem_driver snap_resources 7" "''s2''" "demo_snapshot ''s2'' ''g''" demo_config]
  by (auto simp: ids_unique_def snap_resources_def demo_snapshot_def demo_resources_def demo_volume_def)

lemma CreateSnapshot_run:
  assumes "store_ready E s" "find_by SnapName n (Snapshots (res s)) = None"
    and "CreateSnapshot E cfg n v ps s = (Inr r, t)"
  shows "\<exists>x vol. find_by VolID v (Volumes (res s)) = Some vol \<and> store_ready E t \<and>
    res t = (res s)\<lparr>Snapshots := upsert_by SnapId x (Snapshots (res s))\<rparr> \<and> r = created_snapshot x \<and>
    SnapName x = n \<and> SnapVolID x = v \<and> SizeBytes x = VolSize vol \<and> ReadyToUse x \<and>
    SnapPath x = GetSnapshotPath cfg (SnapId x) \<and> GroupSnapshotID x = []"
proof -
  from assms(2) have "GetSnapshotByName n s = (Inl (Status NotFound (''snapshot name '' @ n @
      '' does not exist in the snapshots list'')), s)" by (simp add: GetSnapshotByName_def io_simps state_access)
  with assms(3) obtain vol s1 i s2 tm s3 opts s4 x where 1: "GetVolumeByID E v s = (Inr vol, s1)"
    and 2: "call_o (new_uuid E) s1 = (Inr i, s2)" and 3: "call_o (now E) s2 = (Inr tm, s3)"
    and 4: "CreateSnapshotFromVolume E vol (GetSnapshotPath cfg i) opts s3 = (Inr (), s4)"
    and 5: "UpdateSnapshot E x s4 = (Inr (), t)" and r: "r = created_snapshot x"
    and x: "x = \<lparr>SnapName = n, SnapId = i, SnapVolID = v, SnapPath = GetSnapshotPath cfg i,
        SnapCreationTime = Some tm, SizeBytes = VolSize vol, ReadyToUse = True, GroupSnapshotID = []\<rparr>"
    unfolding CreateSnapshot_def by (auto simp: eq_Inr Let_def)
  have s1: "store_ready E s1" "res s1 = res s" and vol: "find_by VolID v (Volumes (res s)) = Some vol"
    using get_run [OF assms(1) 1] by simp_all
  have s2: "store_ready E s2" "res s2 = res s" using frame_run [OF fr.keeps_o s1(1) 2] s1 by simp_all
  have s3: "store_ready E s3" "res s3 = res s" using frame_run [OF fr.keeps_o s2(1) 3] s2 by simp_all
  have s4: "store_ready E s4" "res s4 = res s" using frame_run [OF fr.keeps_snapshot_mount(1) s3(1) 4] s3 by simp_all
  from st.snap_update_law [OF s4(1), of x] 5 s4 vol r show ?thesis
    by (intro exI [of _ x] exI [of _ vol]) (auto simp: x)
qed

text \<open>C11. Repeating a successful CreateSnapshot with the same name returns the same snapshot for the
  same source volume and is refused with AlreadyExists for another one.\<close>

theorem CreateSnapshot_idempotent:
  assumes "store_ready E s" "find_by SnapName n (Snapshots (res s)) = None"
    and "CreateSnapshot E cfg n v ps s = (Inr r, t)" "v' \<noteq> []"
  shows "\<exists>m. CreateSnapshot E cfg n v' ps' t = (if v' = v then Inr r else Inl (Status AlreadyExists m), t)"
proof -
  obtain x where x: "Snapshots (res t) = upsert_by SnapId x (Snapshots (res s))" "r = created_snapshot x"
    "SnapName x = n" "SnapVolID x = v" using CreateSnapshot_run [OF assms(1-3)] by auto
  then have "GetSnapshotByName n t = (Inr x, t)"
    using find_by_upsert_other [of SnapName x] assms(2) by (simp add: GetSnapshotByName_def io_simps state_access)
  moreover have "validateControllerServiceRequest cfg CREATE_DELETE_SNAPSHOT = Inr ()" "n \<noteq> []"
    using assms(3) unfolding CreateSnapshot_def by (auto simp: eq_Inr)
  ultimately show ?thesis using x assms(4) by (auto simp: CreateSnapshot_def io_simps)
qed

theorem CreateSnapshot_idempotent_witness:
  "\<exists>r t m. CreateSnapshot mem_env demo_config ''snap'' ''vol-a'' Map.empty (mem_driver demo_resources 7) = (Inr r, t) \<and>
     CreateSnapshot mem_env demo_config ''snap'' ''vol-b'' Map.empty t = (Inl (Status AlreadyExists m), t)"
proof -
  obtain r t where run: "CreateSnapshot mem_env demo_config ''snap'' ''vol-a'' Map.empty (mem_driver demo_resources 7) = (Inr r, t)"
    by (simp add: CreateSnapshot_def io_simps demo_simps OptionsFromParameters_def Let_def
        CreateSnapshotFromVolume_def IgnoreFailedReadParameterName_def
        validateControllerServiceRequest_def getControllerServiceCapabilities_def)
  from CreateSnapshot_idempotent [OF mem_ready _ run, of "''vol-b''" Map.empty] run show ?thesis
    by (auto simp: demo_resources_def)
qed

subsection \<open>Group snapshots\<close>

lemma delete_members_run:
  assumes "store_ready E s" "delete_members E cfg ids s = (Inr (), t)"
  shows "store_ready E t \<and> Volumes (res t) = Volumes (res s) \<and> GroupSnapshots (res t) = GroupSnapshots (res s) \<and>
    Snapshots (res t) = fold (remove_by SnapId) ids (Snapshots (res s))"
  using assms
proof (induction ids arbitrary: s)
  case (Cons i ids)
  let ?m = "tryE (call_os (os_remove_all E (GetSnapshotPath cfg i))) (\<lambda>_. ret ()) ret"
  have k: "keeps (store_frame E (res s)) ?m" by (intro keeps_intros)
  from Cons.prems(2) have "bindE ?m (\<lambda>_. bindE (DeleteSnapshot_state E i) (\<lambda>_. delete_members E cfg ids)) s = (Inr (), t)"
    by simp
  from this k Cons.prems(1) show ?case
  proof (cases rule: frame_bind)
    case (go x s1)
    from st.snap_delete_law [OF go(3), of i] obtain s2 where s2: "store_ready E s2" "DeleteSnapshot_state E i s1 = (Inr (), s2)"
      "res s2 = (res s1)\<lparr>Snapshots := remove_by SnapId i (Snapshots (res s1))\<rparr>" by auto
    with go(2) have "delete_members E cfg ids s2 = (Inr (), t)" by (simp add: bindE_apply)
    from Cons.IH [OF s2(1) this] s2(3) go(4) show ?thesis by simp
  qed simp
qed simp

lemma find_fold_remove:
  "distinct (map SnapId xs) \<Longrightarrow> find_by SnapId k (fold (remove_by SnapId) ids xs) =
     (if k \<in> set ids then None else find_by SnapId k xs)"
proof (induction ids arbitrary: xs)
  case (Cons i ids)
  then show ?case using find_by_remove [of SnapId xs] by (auto simp: distinct_remove)
qed simp

text \<open>C12. A successful DeleteVolumeGroupSnapshot of a known group removes the group and exactly its
  member snapshots, and touches no volume; an unknown group is a success that changes nothing.\<close>

theorem group_delete_spec:
  assumes "store_ready E s" "ids_unique (res s)" "DeleteVolumeGroupSnapshot E cfg i s = (Inr (), t)"
  shows "case find_by GroupId i (GroupSnapshots (res s)) of
      None \<Rightarrow> res t = res s
    | Some g \<Rightarrow> find_by GroupId i (GroupSnapshots (res t)) = None \<and> Volumes (res t) = Volumes (res s) \<and>
        (\<forall>k. find_by SnapId k (Snapshots (res t)) =
           (if k \<in> set (SnapshotIDs g) then None else find_by SnapId k (Snapshots (res s))))"
proof (cases "find_by GroupId i (GroupSnapshots (res s))")
  case None
  then obtain m where "GetGroupSnapshotByID i s = (Inl (Status NotFound m), s)"
    by (simp add: GetGroupSnapshotByID_def io_simps state_access)
  then show ?thesis using None assms(3) by (auto simp: DeleteVolumeGroupSnapshot_def eq_Inr)
next
  case (Some g)
  then have "GetGroupSnapshotByID i s = (Inr g, s)" by (simp add: GetGroupSnapshotByID_def io_simps state_access)
  with assms(3) obtain s1 where 1: "delete_members E cfg (SnapshotIDs g) s = (Inr (), s1)"
    and 2: "DeleteGroupSnapshot_state E i s1 = (Inr (), t)"
    unfolding DeleteVolumeGroupSnapshot_def by (auto simp: eq_Inr)
  note d = delete_members_run [OF assms(1) 1]
  then have s1: "store_ready E s1" by simp
  from st.group_delete_law [OF s1, of i] 2 d Some assms(2) show ?thesis
    by (auto simp: ids_unique_def find_fold_remove find_by_remove)
qed

definition demo_group :: GroupSnapshot where
  "demo_group = \<lparr>GroupName = ''group'', GroupId = ''g'', SnapshotIDs = [''s2''], SourceVolumeIDs = [''vol-a''],
     GroupCreationTime = None, GroupReadyToUse = True\<rparr>"

lemma mem_group_delete: "DeleteVolumeGroupSnapshot mem_env demo_config ''g''
    (mem_driver (snap_resources\<lparr>GroupSnapshots := [demo_group]\<rparr>) 7) =
  (Inr (), mem_driver (snap_resources\<lparr>Snapshots := [demo_snapshot ''s1'' []]\<rparr>) 7)"
  by (simp add: DeleteVolumeGroupSnapshot_def validateGroupControllerServiceRequest_def io_simps demo_group_def
      snap_resources_def demo_snapshot_def demo_resources_def)

theorem group_delete_spec_witness:
  "find_by SnapId ''s2'' (Snapshots (snap_resources\<lparr>Snapshots := [demo_snapshot ''s1'' []]\<rparr>)) = None"
  using group_delete_spec [OF mem_ready _ mem_group_delete]
  by (simp add: ids_unique_def snap_resources_def demo_snapshot_def demo_resources_def demo_volume_def demo_group_def)

lemma existing_members: "group_members existing_member ids s = (Inr ms, t) \<Longrightarrow>
    \<forall>m\<in>set ms. rSnapshotId (fst m) = [] \<and> rSourceVolumeId (fst m) = []"
  by (induction ids arbitrary: ms s) (fastforce simp: eq_Inr existing_member_def)+

text \<open>A repeated CreateVolumeGroupSnapshot that finds its group answers with member snapshots
  without identifiers and without source volumes.\<close>

theorem existing_group_without_ids:
  assumes "find_by GroupName n (GroupSnapshots (res s)) = Some g" "n \<noteq> []"
    and "CreateVolumeGroupSnapshot E cfg n ids ps s = (Inr r, t)"
  shows "rgGroupSnapshotId r = GroupId g \<and> (\<forall>m\<in>set (rgSnapshots r). rSnapshotId m = [] \<and> rSourceVolumeId m = [])"
proof -
  have "GetGroupSnapshotByName n s = (Inr g, s)" using assms(1) by (simp add: GetGroupSnapshotByName_def io_simps state_access)
  with assms(3) obtain ms u where "group_members existing_member (SnapshotIDs g) u = (Inr ms, t)"
    and "r = \<lparr>rgGroupSnapshotId = GroupId g, rgSnapshots = map fst ms,
             rgCreationTime = GroupCreationTime g, rgReadyToUse = list_all snd ms\<rparr>"
    unfolding CreateVolumeGroupSnapshot_def by (auto simp: eq_Inr split: prod.splits)
  with existing_members [of _ u ms t] show ?thesis by auto
qed

theorem existing_group_without_ids_witness:
  "\<exists>r t m. CreateVolumeGroupSnapshot mem_env demo_config ''group'' [''vol-a''] Map.empty
     (mem_driver (snap_resources\<lparr>GroupSnapshots := [demo_group]\<rparr>) 7) = (Inr r, t) \<and>
     rgSnapshots r = [m] \<and> rSnapshotId m = []"
proof -
  obtain r t where run: "CreateVolumeGroupSnapshot mem_env demo_config ''group'' [''vol-a''] Map.empty
     (mem_driver (snap_resources\<lparr>GroupSnapshots := [demo_group]\<rparr>) 7) = (Inr r, t)" and len: "length (rgSnapshots r) = 1"
    by (simp add: CreateVolumeGroupSnapshot_def validateGroupControllerServiceRequest_def GetGroupSnapshotByName_def
        GetSnapshotByID_def io_simps state_access mem_driver_def snap_resources_def demo_group_def demo_snapshot_def
        demo_resources_def MatchesSourceVolumeIDs_def equalIDs_def)
  from existing_group_without_ids [OF _ _ run, of demo_group] len run show ?thesis
    by (cases "rgSnapshots r") (auto simp: demo_group_def)
qed

end
