(* ===== verification/CsiNodeProps.thy ===== *)
theory CsiNodeProps
  imports CsiControllerProps
begin

section \<open>simplecsi: properties of the node service and the jobs\<close>

subsection \<open>Publishing\<close>

lemma NodePublish_run:
  assumes "store_ready E s" "\<not> ephemeral_volume cfg req" "NodePublishVolume E cfg req s = (Inr (), t)"
  shows "\<exists>v. volume_map (res s) (pbVolumeId req) = Some v \<and> pbStagingTargetPath req \<in> set (Staged v) \<and>
    (hasSingleNodeSingleWriterAccessMode req \<longrightarrow> set (Published v) \<subseteq> {pbTargetPath req}) \<and> store_ready E t \<and>
    (res t = res s \<or> res t = (res s)\<lparr>Volumes := upsert_by VolID
       (v\<lparr>NodeID := CfgNodeID cfg, Published := strings_Add (pbTargetPath req) (Published v)\<rparr>) (Volumes (res s))\<rparr>)"
proof -
  let ?acc = "case pbCapability req of None \<Rightarrow> NoAccessType | Some c \<Rightarrow> capAccessType c"
  let ?pub = "\<lambda>v. if GetBlock ?acc then publish_block E req v
            else if GetMount ?acc \<noteq> None then publish_mount E cfg req v else ret False"
  from assms(2,3) obtain v s1 where g: "GetVolumeByID E (pbVolumeId req) s = (Inr v, s1)"
    and sn: "\<not> (hasSingleNodeSingleWriterAccessMode req \<and> isMountedElsewhere req v)"
    and st: "strings_Has (Staged v) (pbStagingTargetPath req)"
    and run: "bindE (?pub v) (\<lambda>already. if already then ret () else UpdateVolume E (v\<lparr>NodeID := CfgNodeID cfg,
            Published := strings_Add (pbTargetPath req) (Published v)\<rparr>)) s1 = (Inr (), t)"
    unfolding NodePublishVolume_def Let_def
    by (simp only: require_eq_Inr simp_thms if_False bindE_ret tryE_eq_Inr) (auto simp: eq_Inr)
  note gr = get_run [OF assms(1) g]
  then have s1: "store_ready E s1" "res s1 = res s" "volume_map (res s) (pbVolumeId req) = Some v"
    by (simp_all add: volume_map_def)
  have k: "keeps (store_frame E (res s1)) (?pub v)" by (intro keeps_intros)
  from sn have pubs: "hasSingleNodeSingleWriterAccessMode req \<longrightarrow> set (Published v) \<subseteq> {pbTargetPath req}"
    by (auto simp: isMountedElsewhere_def list_ex_iff)
  from run k s1(1) have "store_ready E t \<and> (res t = res s \<or> res t = (res s)\<lparr>Volumes := upsert_by VolID
       (v\<lparr>NodeID := CfgNodeID cfg, Published := strings_Add (pbTargetPath req) (Published v)\<rparr>) (Volumes (res s))\<rparr>)"
  proof (cases rule: frame_bind)
    case (go already s2)
    then show ?thesis using s1(2) by (cases already) (auto dest!: update_run [OF go(3)])
  qed simp
  then show ?thesis using s1(3) st pubs by auto
qed

text \<open>C8. A successful NodePublishVolume of a volume that is not ephemeral found the volume staged at
  the staging path of the request, and records at most the new target path.\<close>

theorem publish_needs_staging:
  assumes "store_ready E s" "ids_unique (res s)" "\<not> ephemeral_volume cfg req"
    and "NodePublishVolume E cfg req s = (Inr (), t)"
  shows "\<exists>v w. volume_map (res s) (pbVolumeId req) = Some v \<and> pbStagingTargetPath req \<in> set (Staged v) \<and>
    volume_map (res t) = (volume_map (res s))(pbVolumeId req \<mapsto> w) \<and>
    Published w \<in> {Published v, Published v @ [pbTargetPath req]} \<and> Staged w = Staged v \<and> Attached w = Attached v"
proof -
  from NodePublish_run [OF assms(1,3,4)] obtain v where v: "volume_map (res s) (pbVolumeId req) = Some v"
    "pbStagingTargetPath req \<in> set (Staged v)" and t: "res t = res s \<or> res t = (res s)\<lparr>Volumes := upsert_by VolID
       (v\<lparr>NodeID := CfgNodeID cfg, Published := strings_Add (pbTargetPath req) (Published v)\<rparr>) (Volumes (res s))\<rparr>"
    by auto
  let ?w = "v\<lparr>NodeID := CfgNodeID cfg, Published := strings_Add (pbTargetPath req) (Published v)\<rparr>"
  have id: "VolID v = pbVolumeId req" using v(1) by (auto simp: volume_map_def dest: find_by_Some)
  from t show ?thesis
  proof
    assume "res t = res s"
    then show ?thesis using v by (intro exI [of _ v]) (auto simp: fun_eq_iff)
  next
    assume "res t = (res s)\<lparr>Volumes := upsert_by VolID ?w (Volumes (res s))\<rparr>"
    then show ?thesis using v id
      by (intro exI [of _ v] exI [of _ ?w]) (simp add: volume_map_def find_by_upsert fun_eq_iff strings_Add_def)
  qed
qed

text \<open>C9. After a successful publication with access mode SINGLE_NODE_SINGLE_WRITER the volume is
  published at no other path than the requested one.\<close>

theorem single_writer:
  assumes "store_ready E s" "\<not> ephemeral_volume cfg req" "hasSingleNodeSingleWriterAccessMode req"
    and "NodePublishVolume E cfg req s = (Inr (), t)" "volume_map (res t) (pbVolumeId req) = Some w"
  shows "set (Published w) \<subseteq> {pbTargetPath req}"
proof -
  from NodePublish_run [OF assms(1,2,4)] assms(3) obtain v where v: "volume_map (res s) (pbVolumeId req) = Some v"
    "set (Published v) \<subseteq> {pbTargetPath req}" and t: "res t = res s \<or> res t = (res s)\<lparr>Volumes := upsert_by VolID
       (v\<lparr>NodeID := CfgNodeID cfg, Published := strings_Add (pbTargetPath req) (Published v)\<rparr>) (Volumes (res s))\<rparr>"
    by auto
  have "VolID v = pbVolumeId req" using v(1) by (auto simp: volume_map_def dest: find_by_Some)
  with t assms(5) v show ?thesis by (auto simp: volume_map_def find_by_upsert subset_iff)
qed

definition staged_volume :: Volume where
  "staged_volume = demo_volume\<lparr>Attached := True, Staged := [''/staging'']\<rparr>"

definition demo_publish :: PublishRequest where
  "demo_publish = \<lparr>pbVolumeId = ''vol-a'', pbTargetPath = ''/target'', pbStagingTargetPath = ''/staging'',
     pbCapability = Some \<lparr>capAccessType = MountType [] [], capAccessMode = Some SINGLE_NODE_SINGLE_WRITER\<rparr>,
     pbReadonly = False, pbVolumeContext = Map.empty\<rparr>"

lemma mem_publish_node: "NodePublishVolume mem_env demo_config demo_publish
    (mem_driver (demo_resources\<lparr>Volumes := [staged_volume]\<rparr>) 7) =
  (Inr (), mem_driver (demo_resources\<lparr>Volumes := [staged_volume\<lparr>NodeID := ''node-1'', Published := [''/target'']\<rparr>]\<rparr>) 7)"
  by (simp add: NodePublishVolume_def demo_publish_def ephemeral_volume_def Let_def io_simps staged_volume_def demo_simps
      hasSingleNodeSingleWriterAccessMode_def isMountedElsewhere_def publish_mount_def HostPathMount_def ensure_client_def
      strings_Add_def)

lemma demo_not_ephemeral: "\<not> ephemeral_volume demo_config demo_publish"
  by (simp add: ephemeral_volume_def demo_publish_def demo_config_def param_def)

theorem publish_needs_staging_witness:
  "\<exists>v. volume_map (demo_resources\<lparr>Volumes := [staged_volume]\<rparr>) ''vol-a'' = Some v \<and> ''/staging'' \<in> set (Staged v)"
  using publish_needs_staging [OF mem_ready _ demo_not_ephemeral mem_publish_node]
  by (auto simp: demo_publish_def demo_resources_def ids_unique_def)

theorem single_writer_witness: "set (Published (staged_volume\<lparr>NodeID := ''node-1'', Published := [''/target'']\<rparr>)) \<subseteq> {''/target''}"
  using single_writer [OF mem_ready demo_not_ephemeral _ mem_publish_node]
  by (simp add: demo_publish_def demo_resources_def hasSingleNodeSingleWriterAccessMode_def volume_map_def staged_volume_def demo_volume_def)

subsection \<open>Staging\<close>

lemma NodeStage_run:
  assumes "store_ready E s" "volume_map (res s) i = Some v" "NodeStageVolume E cfg i p cap s = (Inr (), t)" "Staged v = []"
  shows "store_ready E t \<and> res t = (res s)\<lparr>Volumes := upsert_by VolID (v\<lparr>Staged := [p]\<rparr>) (Volumes (res s))\<rparr> \<and>
    i \<noteq> [] \<and> p \<noteq> [] \<and> cap \<noteq> None \<and> (EnableAttach cfg \<longrightarrow> Attached v)"
proof -
  obtain g s1 where g: "GetVolumeByID E i s = (g, s1)" by (metis surj_pair)
  note gr = get_run [OF assms(1) g]
  then have s1: "store_ready E s1" "res s1 = res s" and gv: "g = Inr v"
    using assms(2) by (auto simp: volume_map_def split: sum.splits)
  from assms(3) have up: "UpdateVolume E (v\<lparr>Staged := [p]\<rparr>) s1 = (Inr (), t)"
    and "i \<noteq> [] \<and> p \<noteq> [] \<and> cap \<noteq> None \<and> (EnableAttach cfg \<longrightarrow> Attached v)"
    using g gv assms(4) unfolding NodeStageVolume_def by (auto simp: eq_Inr strings_Add_def)
  then show ?thesis using update_run [OF s1(1) up] s1 by simp
qed

text \<open>Staging a volume that is neither staged nor published and then unstaging it from the same
  path gives back the volumes as they were.\<close>

theorem stage_unstage_roundtrip:
  assumes "store_ready E s" "volume_map (res s) i = Some v" "Staged v = []" "Published v = []"
    and "NodeStageVolume E cfg i p cap s = (Inr (), t)"
  shows "\<exists>u. NodeUnstageVolume E i p t = (Inr (), u) \<and> volume_map (res u) = volume_map (res s)"
proof -
  note run = NodeStage_run [OF assms(1,2,5,3)]
  have id: "VolID v = i" using assms(2) by (auto simp: volume_map_def dest: find_by_Some)
  have t: "store_ready E t" using run by simp
  have "find_by VolID i (Volumes (res t)) = Some (v\<lparr>Staged := [p]\<rparr>)" using run id by (simp add: find_by_upsert)
  with st.get_by_id_law [OF t, of i] obtain t1 where t1: "GetVolumeByID E i t = (Inr (v\<lparr>Staged := [p]\<rparr>), t1)"
    "store_ready E t1" "res t1 = res t" by auto
  from st.update_law [OF t1(2), of "v\<lparr>Staged := []\<rparr>"] obtain u where
    u: "UpdateVolume E (v\<lparr>Staged := []\<rparr>) t1 = (Inr (), u)"
      "res u = (res t1)\<lparr>Volumes := upsert_by VolID (v\<lparr>Staged := []\<rparr>) (Volumes (res t1))\<rparr>" by auto
  have "v\<lparr>Staged := []\<rparr> = v" using assms(3) by simp
  then have "volume_map (res u) = volume_map (res s)"
    using u t1 run id assms(2) by (auto simp: volume_map_def find_by_upsert fun_eq_iff)
  moreover have "NodeUnstageVolume E i p t = (Inr (), u)"
    using run t1(1) u(1) assms(4) by (simp add: NodeUnstageVolume_def io_simps)
  ultimately show ?thesis by blast
qed

text \<open>A staged volume can be staged again at its path, which changes nothing, and at no other.\<close>

theorem stage_exclusive:
  assumes "store_ready E s" "volume_map (res s) i = Some v" "Staged v = []"
    and "NodeStageVolume E cfg i p cap s = (Inr (), t)" "q \<noteq> []"
  shows "\<exists>m u. NodeStageVolume E cfg i q cap t = (if q = p then Inr () else Inl (Status FailedPrecondition m), u) \<and>
    res u = res t"
proof -
  note run = NodeStage_run [OF assms(1,2,4,3)]
  have id: "VolID v = i" using assms(2) by (auto simp: volume_map_def dest: find_by_Some)
  have t: "store_ready E t" using run by simp
  have "find_by VolID i (Volumes (res t)) = Some (v\<lparr>Staged := [p]\<rparr>)" using run id by (simp add: find_by_upsert)
  with st.get_by_id_law [OF t, of i] obtain t1 where "GetVolumeByID E i t = (Inr (v\<lparr>Staged := [p]\<rparr>), t1)"
    "res t1 = res t" by auto
  then show ?thesis using run assms(5) by (auto simp: NodeStageVolume_def io_simps)
qed

lemma mem_stage: "NodeStageVolume mem_env demo_config ''vol-a'' ''/staging'' (Some \<lparr>capAccessType = MountType [] [],
    capAccessMode = None\<rparr>) (mem_driver (demo_resources\<lparr>Volumes := [demo_volume\<lparr>Attached := True\<rparr>]\<rparr>) 7) =
  (Inr (), mem_driver (demo_resources\<lparr>Volumes := [staged_volume]\<rparr>) 7)"
  by (simp add: NodeStageVolume_def io_simps staged_volume_def demo_simps strings_Add_def)

theorem stage_unstage_roundtrip_witness:
  "\<exists>u. NodeUnstageVolume mem_env ''vol-a'' ''/staging'' (mem_driver (demo_resources\<lparr>Volumes := [staged_volume]\<rparr>) 7) = (Inr (), u)"
  using stage_unstage_roundtrip [OF mem_ready _ _ _ mem_stage]
  by (simp add: volume_map_def demo_resources_def demo_volume_def) blast

theorem stage_exclusive_witness:
  "\<exists>m u. NodeStageVolume mem_env demo_config ''vol-a'' ''/other'' (Some \<lparr>capAccessType = MountType [] [],
    capAccessMode = None\<rparr>) (mem_driver (demo_resources\<lparr>Volumes := [staged_volume]\<rparr>) 7) = (Inl (Status FailedPrecondition m), u)"
  using stage_exclusive [OF mem_ready _ _ mem_stage, of "demo_volume\<lparr>Attached := True\<rparr>" "''/other''"]
  by (auto simp: volume_map_def demo_resources_def demo_volume_def)

subsection \<open>Jobs\<close>

lemma job_poll_incomplete:
  assumes "\<And>w. \<exists>cs w'. job_get E ns name w = (Inr cs, w') \<and> (cs = [] \<or> last cs \<noteq> ''Complete'')"
  shows "\<exists>t. job_poll E name ns node n None s = (Inr node, t)"
proof (induction n arbitrary: s)
  case (Suc n)
  obtain tick w where tick: "select_tick E (osw s) = (tick, w)" by (cases "select_tick E (osw s)")
  obtain cs w' where g: "job_get E ns name w = (Inr cs, w')" "cs = [] \<or> last cs \<noteq> ''Complete''"
    using assms [of w] by blast
  show ?case using tick g Suc.IH [of "s\<lparr>osw := w\<rparr>"] Suc.IH [of "s\<lparr>osw := w'\<rparr>"]
    by (cases tick) (auto simp: io_simps call_o_def call_err_def)
qed simp

text \<open>A job that never completes is reported as done: when every look at the job in the ten
  rounds finds no \<open>Complete\<close> condition as the last one, \<open>CreateJob\<close> returns success with the node it
  was given, so a directory that was never made counts as made.\<close>

theorem unfinished_job_succeeds:
  assumes "\<And>w. \<exists>cs w'. job_get E ns name w = (Inr cs, w') \<and> (cs = [] \<or> last cs \<noteq> ''Complete'')"
    and "\<And>j w. \<exists>w'. job_create E j w = (Inr (), w')"
  shows "\<exists>t. CreateJob E name ns mp node img cmd s = (Inr node, t)"
proof -
  obtain w where "job_create E \<lparr>JobName = name, JobNamespace = ns, JobImage = img,
        JobCommand = [''nsenter'', ''--target'', ''1'', ''--mount'', ''--uts'', ''--ipc'', ''--net'',
          ''--pid'', ''--''] @ cmd, JobNodeName = node, JobTTL = 120\<rparr> (osw s) = (Inr (), w)"
    using assms(2) by blast
  then show ?thesis
    using job_poll_incomplete [OF assms(1), where node = node and n = 10 and s = "s\<lparr>osw := w\<rparr>"]
    by (simp add: CreateJob_def bindE_apply call_err_def del: job_poll.simps)
qed

definition stuck_env :: "(mem_cm, nat) env" where
  "stuck_env = mem_env\<lparr>job_get := \<lambda>_ _ w. (Inr [], w)\<rparr>"

theorem unfinished_job_succeeds_witness:
  "\<exists>t. CreateJob stuck_env ''pv'' ''default'' ''/'' ''node-2'' linux_utils [''mkdir''] (mem_driver empty_resources 7) = (Inr ''node-2'', t)"
  by (rule unfinished_job_succeeds) (simp_all add: stuck_env_def)

end
