(* ===== verification/Coschedule.thy ===== *)
theory Coschedule
  imports GoStd
begin

section \<open>simpleschedulerframework: the coscheduling plugin (pkg/plugins/coschedule)\<close>

text \<open>
  A scheduler plugin that lets the pods of a PodGroup through only together. The extension
  points of \<open>plugins.go\<close> and the helpers of \<open>core.go\<close>, each with its guards in the order of the
  code. What a call sees of the cluster (the API server, the informer, the snapshot of the
  nodes, the pods that wait in the permit phase, the clock) is the record \<open>cluster\<close>; the
  answers the plugin gives to waiting pods are collected in \<open>signals\<close>. The two caches are those
  of the vendored package go-cache. Log output is left out.
\<close>

definition plugin_Name :: string where "plugin_Name = ''CoschedulePlugin''"
definition LabelKey :: string where "LabelKey = ''simple.io/pod-group''"

text \<open>Durations are in nanoseconds.\<close>

definition second :: int where "second = 1000000000"
definition PgBackoffTime :: int where "PgBackoffTime = 7 * second"
definition DefaultWaitTime :: int where "DefaultWaitTime = 3 * second"

subsection \<open>go-cache\<close>

text \<open>The items with their expiration time. An item stays until a later write even when it has
  expired; a look-up ignores it. (The janitor removes expired items only.)\<close>

type_synonym ttl = "string \<rightharpoonup> int"

definition cache_get :: "int \<Rightarrow> ttl \<Rightarrow> string \<Rightarrow> bool" where
  "cache_get now c k = (case c k of None \<Rightarrow> False | Some e \<Rightarrow> \<not> (e > 0 \<and> now > e))"

definition cache_Add :: "int \<Rightarrow> string \<Rightarrow> int \<Rightarrow> ttl \<Rightarrow> ttl" where
  "cache_Add now k d c = (if cache_get now c k then c else c(k \<mapsto> if d > 0 then now + d else 0))"

definition cache_Delete :: "string \<Rightarrow> ttl \<Rightarrow> ttl" where
  "cache_Delete k c = c(k := None)"

text \<open>What the plugin relies on: an added key is found until its time is over, a deleted one is
  not found, and other keys are left alone.\<close>

locale ttl_cache =
  fixes lookup :: "int \<Rightarrow> 'c \<Rightarrow> string \<Rightarrow> bool"
    and add :: "int \<Rightarrow> string \<Rightarrow> int \<Rightarrow> 'c \<Rightarrow> 'c"
    and del :: "string \<Rightarrow> 'c \<Rightarrow> 'c"
  assumes lookup_add: "0 < now \<Longrightarrow> 0 < d \<Longrightarrow> \<not> lookup now c k \<Longrightarrow>
      lookup t (add now k d c) j = (if j = k then t \<le> now + d else lookup t c j)"
    and lookup_add_present: "lookup now c k \<Longrightarrow> add now k d c = c"
    and lookup_del: "lookup t (del k c) j = (j \<noteq> k \<and> lookup t c j)"
begin

lemma added_found: "0 < now \<Longrightarrow> 0 < d \<Longrightarrow> lookup now (add now k d c) k"
  by (cases "lookup now c k") (simp_all add: lookup_add lookup_add_present)

lemma add_other: "0 < now \<Longrightarrow> 0 < d \<Longrightarrow> j \<noteq> k \<Longrightarrow> lookup t (add now k d c) j = lookup t c j"
  by (cases "lookup now c k") (simp_all add: lookup_add lookup_add_present)

lemma added_until:
  "0 < now \<Longrightarrow> 0 < d \<Longrightarrow> \<not> lookup now c k \<Longrightarrow> lookup t (add now k d c) k \<longleftrightarrow> t \<le> now + d"
  by (simp add: lookup_add)

lemma deleted_gone: "\<not> lookup t (del k c) k"
  by (simp add: lookup_del)

end

interpretation tc: ttl_cache cache_get cache_Add cache_Delete
  by unfold_locales (auto simp: cache_get_def cache_Add_def cache_Delete_def)

subsection \<open>Data\<close>

text \<open>\<open>pod.Labels\<close> may be nil (\<open>None\<close>).\<close>

record GPod =
  podName :: string
  podNamespace :: string
  podUID :: string
  podLabels :: "(string \<rightharpoonup> string) option"
  podDeleting :: bool
  podNodeName :: string

record PodGroup =
  pgName :: string
  pgNamespace :: string
  MinReplicas :: int32
  pgQueue :: "string option"

text \<open>\<open>cl_pods\<close> is the lister of the pod informer for a namespace and a value of the label; it
  returns the pods together with an error, if any.\<close>

record cluster =
  cl_podgroup :: "string \<Rightarrow> string \<Rightarrow> api_error + PodGroup"
  cl_queue :: "string \<Rightarrow> api_error + unit"
  cl_pods :: "string \<Rightarrow> string \<Rightarrow> string option \<times> GPod list"
  cl_nodes :: "string + GPod list list"
  cl_waiting :: "GPod list"
  cl_now :: int

datatype fw_code = FwSuccess | FwError | FwUnschedulable | FwUnschedulableAndUnresolvable | FwWait

type_synonym fw_status = "fw_code \<times> string"

datatype signal = Allow | Reject string

text \<open>The plugin and the parts of the cycle state it uses.\<close>

record CoschedulePlugin =
  permittedPG :: ttl
  backedOffPG :: ttl
  signals :: "(GPod \<times> signal) list"
  permitState :: "bool option"
  podsToActivate :: "(string \<rightharpoonup> GPod) option"

type_synonym 'a cosched = "(CoschedulePlugin, 'a) io"

subsection \<open>core.go\<close>

definition GetPodGroupNameByLabel :: "GPod \<Rightarrow> string" where
  "GetPodGroupNameByLabel pod =
     (case podLabels pod of None \<Rightarrow> [] | Some ls \<Rightarrow>
        (case ls LabelKey of Some n \<Rightarrow> n | None \<Rightarrow> []))"

definition GetPodGroupFullName :: "GPod \<Rightarrow> string" where
  "GetPodGroupFullName pod =
     (let n = GetPodGroupNameByLabel pod in if length n = 0 then [] else podNamespace pod @ ''/'' @ n)"

definition GetNamespacedName :: "GPod \<Rightarrow> string" where
  "GetNamespacedName pod = podNamespace pod @ ''/'' @ podName pod"

definition zero_group :: PodGroup where
  "zero_group = \<lparr>pgName = [], pgNamespace = [], MinReplicas = 0, pgQueue = None\<rparr>"

definition GetPodGroup :: "cluster \<Rightarrow> GPod \<Rightarrow> string + PodGroup" where
  "GetPodGroup cl pod =
     (case podLabels pod of None \<Rightarrow> Inr zero_group | Some ls \<Rightarrow>
        (case ls LabelKey of None \<Rightarrow> Inr zero_group
         | Some n \<Rightarrow>
             if length n = 0 then Inl ''pod group name is null''
             else (case cl_podgroup cl (podNamespace pod) n of
                 Inr pg \<Rightarrow> Inr pg
               | Inl err \<Rightarrow> if is_api_not_found err then Inl ''pod not found'' else Inl (api_text err))))"

definition CheckPodNum :: "cluster \<Rightarrow> PodGroup \<Rightarrow> string option" where
  "CheckPodNum cl pg =
     (case cl_pods cl (pgNamespace pg) (pgName pg) of
        (Some err, _) \<Rightarrow> Some err
      | (None, pgPods) \<Rightarrow>
          let few = (\<lambda>n. ''pg has '' @ itoa n @ '' pods, less than '' @ itoa (sint (MinReplicas pg)) @ '' '') in
          if int (length pgPods) < sint (MinReplicas pg) then Some (few (int (length pgPods)))
          else let pgNumber = int (length pgPods) - int (length (filter podDeleting pgPods)) in
            if pgNumber < sint (MinReplicas pg) then Some (few pgNumber) else None)"

definition assigned_to :: "string \<Rightarrow> string \<Rightarrow> GPod \<Rightarrow> bool" where
  "assigned_to g ns pod \<longleftrightarrow>
     (case podLabels pod of None \<Rightarrow> False | Some ls \<Rightarrow> (case ls LabelKey of Some n \<Rightarrow> n | None \<Rightarrow> []) = g) \<and>
     podNamespace pod = ns \<and> podNodeName pod \<noteq> []"

text \<open>The double loop over the nodes and their pods.\<close>

fun count_pods :: "string \<Rightarrow> string \<Rightarrow> GPod list \<Rightarrow> int \<Rightarrow> int" where
  "count_pods g ns [] n = n"
| "count_pods g ns (p # ps) n = count_pods g ns ps (if assigned_to g ns p then n + 1 else n)"

fun count_nodes :: "string \<Rightarrow> string \<Rightarrow> GPod list list \<Rightarrow> int \<Rightarrow> int" where
  "count_nodes g ns [] n = n"
| "count_nodes g ns (node # nodes) n = count_nodes g ns nodes (count_pods g ns node n)"

definition CalculateAssignedPods :: "cluster \<Rightarrow> string \<Rightarrow> string \<Rightarrow> int" where
  "CalculateAssignedPods cl g ns = (case cl_nodes cl of Inl _ \<Rightarrow> 0 | Inr nodes \<Rightarrow> count_nodes g ns nodes 0)"

subsection \<open>plugins.go\<close>

definition PreFilter :: "cluster \<Rightarrow> GPod \<Rightarrow> fw_status cosched" where
  "PreFilter cl pod =
     (let pgFullName = GetPodGroupFullName pod in
     bindE (getS (\<lambda>s. cache_get (cl_now cl) (backedOffPG s) pgFullName)) (\<lambda>exist.
     if exist then ret (FwUnschedulable, ''podGroup '' @ pgFullName @ '' failed recently'')
     else case GetPodGroup cl pod of
       Inl err \<Rightarrow> ret (FwUnschedulable, err)
     | Inr pg \<Rightarrow>
         bindE (getS (\<lambda>s. cache_get (cl_now cl) (permittedPG s) pgFullName)) (\<lambda>ok.
         if ok then
           (case cl_queue cl (case pgQueue pg of None \<Rightarrow> ''default'' | Some q \<Rightarrow> q) of
              Inl err \<Rightarrow> ret (FwUnschedulableAndUnresolvable, api_text err)
            | Inr _ \<Rightarrow> (case CheckPodNum cl pg of
                Some err \<Rightarrow> ret (FwUnschedulableAndUnresolvable, err)
              | None \<Rightarrow> ret (FwSuccess, [])))
         else
           bindE (modS (\<lambda>s. s\<lparr>permittedPG := cache_Add (cl_now cl) pgFullName (4 * second) (permittedPG s)\<rparr>)) (\<lambda>_.
           ret (FwSuccess, [])))))"

definition plugin_Filter :: "string option \<Rightarrow> fw_status" where
  "plugin_Filter node = (case node of None \<Rightarrow> (FwError, ''node not found'') | Some _ \<Rightarrow> (FwSuccess, []))"

definition send :: "signal \<Rightarrow> (GPod \<Rightarrow> bool) \<Rightarrow> cluster \<Rightarrow> unit cosched" where
  "send sig p cl = modS (\<lambda>s. s\<lparr>signals := signals s @ map (\<lambda>w. (w, sig)) (filter p (cl_waiting cl))\<rparr>)"

definition PostFilter :: "cluster \<Rightarrow> GPod \<Rightarrow> fw_status cosched" where
  "PostFilter cl pod =
     (case GetPodGroup cl pod of
        Inl err \<Rightarrow> ret (FwUnschedulable, err)
      | Inr pg \<Rightarrow>
          if length (pgName pg) > 0 \<and>
             CalculateAssignedPods cl (pgName pg) (podNamespace pod) > sint (MinReplicas pg)
          then ret (FwUnschedulable, [])
          else
            bindE (send (Reject ''optimistic rejection in PostFilter'')
              (\<lambda>w. podNamespace w = podNamespace pod \<and> GetPodGroupNameByLabel w = pgName pg) cl) (\<lambda>_.
            let (err, pods) = cl_pods cl (podNamespace pod) (pgName pg); pgFullName = GetPodGroupFullName pod in
            bindE (if err = None \<and> int (length pods) \<ge> sint (MinReplicas pg)
                   then modS (\<lambda>s. s\<lparr>backedOffPG := cache_Add (cl_now cl) pgFullName PgBackoffTime (backedOffPG s)\<rparr>)
                   else ret ()) (\<lambda>_.
            bindE (modS (\<lambda>s. s\<lparr>permittedPG := cache_Delete pgFullName (permittedPG s)\<rparr>)) (\<lambda>_.
            ret (FwUnschedulable, [])))))"

text \<open>The loop that takes the pod itself out of the list.\<close>

fun drop_uid :: "string \<Rightarrow> GPod list \<Rightarrow> GPod list" where
  "drop_uid u [] = []"
| "drop_uid u (p # ps) = (if podUID p = u then ps else p # drop_uid u ps)"

definition activate :: "GPod list \<Rightarrow> (string \<rightharpoonup> GPod) \<Rightarrow> (string \<rightharpoonup> GPod)" where
  "activate pods m = fold (\<lambda>p m. m(GetNamespacedName p \<mapsto> p)) pods m"

definition Permit :: "cluster \<Rightarrow> GPod \<Rightarrow> (fw_status \<times> int) cosched" where
  "Permit cl pod =
     (case GetPodGroup cl pod of
        Inl err \<Rightarrow> ret ((FwUnschedulable, err), 0)
      | Inr pg \<Rightarrow>
          let assignedPodNum = CalculateAssignedPods cl (pgName pg) (podNamespace pod) in
          if assignedPodNum + 1 \<ge> sint (MinReplicas pg) then
            bindE (send Allow (\<lambda>w. GetPodGroupFullName w = podNamespace pod @ ''/'' @ pgName pg) cl) (\<lambda>_.
            ret ((FwSuccess, []), 0))
          else
            bindE (if assignedPodNum = 0 then modS (\<lambda>s. s\<lparr>permitState := Some True\<rparr>) else ret ()) (\<lambda>_.
            let pods = drop_uid (podUID pod) (snd (cl_pods cl (podNamespace pod) (pgName pg))) in
            bindE (if length pods \<noteq> 0
                   then modS (\<lambda>s. s\<lparr>podsToActivate := map_option (activate pods) (podsToActivate s)\<rparr>)
                   else ret ()) (\<lambda>_.
            ret ((FwWait, []), DefaultWaitTime))))"

definition PreBind :: fw_status where "PreBind = (FwSuccess, [])"
definition Reserve :: fw_status where "Reserve = (FwSuccess, [])"

text \<open>The handler returns when the look-up succeeded; when it failed the group is nil, and the
  last statement reads its name.\<close>

definition Unreserve :: "cluster \<Rightarrow> GPod \<Rightarrow> unit cosched" where
  "Unreserve cl pod =
     (case GetPodGroup cl pod of Inr _ \<Rightarrow> ret () | Inl _ \<Rightarrow> fail (Panic ''nil pointer dereference''))"

datatype plugin_args = CoschedulePluginArgs string | NilArgs | UnknownArgs string | OtherArgs

text \<open>\<open>New\<close>; \<open>client\<close> is the result of building the API client. An argument of another type fails
  the type assertion.\<close>

definition coschedule_New :: "plugin_args \<Rightarrow> string + unit \<Rightarrow> goerr + CoschedulePlugin" where
  "coschedule_New plArgs client =
     (let go = (case client of Inl err \<Rightarrow> Inl (Plain err)
        | Inr _ \<Rightarrow> Inr \<lparr>permittedPG = Map.empty, backedOffPG = Map.empty, signals = [],
             permitState = None, podsToActivate = None\<rparr>)
      in case plArgs of
           CoschedulePluginArgs _ \<Rightarrow> go
         | NilArgs \<Rightarrow> go
         | UnknownArgs raw \<Rightarrow> Inl (Plain (''expected PluginConfig, got *runtime.Unknown,raw: '' @ raw))
         | OtherArgs \<Rightarrow> Inl (Panic ''interface conversion''))"

lemma count_pods_filter: "count_pods g ns ps c = c + int (length (filter (assigned_to g ns) ps))"
  by (induction ps arbitrary: c) auto

lemma count_nodes_filter: "count_nodes g ns nodes c = c + int (length (filter (assigned_to g ns) (concat nodes)))"
  by (induction nodes arbitrary: c) (auto simp: count_pods_filter)

end
