(* ===== verification/CoscheduleProps.thy ===== *)
theory CoscheduleProps
  imports Coschedule
begin

section \<open>simpleschedulerframework: properties of the coscheduling plugin\<close>

definition group_size :: "cluster \<Rightarrow> PodGroup \<Rightarrow> GPod \<Rightarrow> nat" where
  "group_size cl pg pod = (case cl_nodes cl of Inl _ \<Rightarrow> 0
     | Inr nodes \<Rightarrow> length (filter (assigned_to (pgName pg) (podNamespace pod)) (concat nodes)))"

lemma assigned_group_size: "CalculateAssignedPods cl (pgName pg) (podNamespace pod) = int (group_size cl pg pod)"
  by (simp add: CalculateAssignedPods_def group_size_def count_nodes_filter split: sum.split)

text \<open>C13. Permit lets a pod of a group go on exactly when, with it, at least \<open>MinReplicas\<close> pods of
  the group have a node, and otherwise makes it wait three seconds; waiting pods get an answer
  only in the first case, the answer is to go on, and it goes to the waiting pods of the same
  group and namespace.\<close>

theorem permit_gang:
  assumes "GetPodGroup cl pod = Inr pg"
  shows "\<exists>t. Permit cl pod s =
    (Inr (if int (group_size cl pg pod) + 1 \<ge> sint (MinReplicas pg) then ((FwSuccess, []), 0) else ((FwWait, []), 3000000000)), t) \<and>
    signals t = signals s @ (if int (group_size cl pg pod) + 1 \<ge> sint (MinReplicas pg)
      then map (\<lambda>w. (w, Allow)) (filter (\<lambda>w. GetPodGroupFullName w = podNamespace pod @ ''/'' @ pgName pg) (cl_waiting cl))
      else [])"
  using assms
  by (simp add: Permit_def assigned_group_size send_def io_simps Let_def DefaultWaitTime_def second_def)

definition demo_pod :: "string \<Rightarrow> string \<Rightarrow> GPod" where
  "demo_pod name node = \<lparr>podName = name, podNamespace = ''ns'', podUID = name,
     podLabels = Some [LabelKey \<mapsto> ''g''], podDeleting = False, podNodeName = node\<rparr>"

definition plain_pod :: "string \<Rightarrow> string \<Rightarrow> GPod" where
  "plain_pod ns name = \<lparr>podName = name, podNamespace = ns, podUID = name,
     podLabels = None, podDeleting = False, podNodeName = []\<rparr>"

definition demo_pg :: PodGroup where
  "demo_pg = \<lparr>pgName = ''g'', pgNamespace = ''ns'', MinReplicas = 2, pgQueue = None\<rparr>"

definition demo_cluster :: cluster where
  "demo_cluster = \<lparr>cl_podgroup = \<lambda>_ _. Inr demo_pg, cl_queue = \<lambda>_. Inl (ApiNotFound ''no queue''),
     cl_pods = \<lambda>_ _. (None, [demo_pod ''a'' ''n1'', demo_pod ''b'' []]), cl_nodes = Inr [[demo_pod ''a'' ''n1'']],
     cl_waiting = [demo_pod ''a'' ''n1''], cl_now = 1\<rparr>"

definition new_plugin :: CoschedulePlugin where
  "new_plugin = \<lparr>permittedPG = Map.empty, backedOffPG = Map.empty, signals = [], permitState = None, podsToActivate = None\<rparr>"

lemmas demo_sched = demo_cluster_def demo_pg_def demo_pod_def plain_pod_def new_plugin_def

theorem permit_gang_witness:
  "\<exists>t. Permit demo_cluster (demo_pod ''b'' []) new_plugin = (Inr ((FwSuccess, []), 0), t)"
  using permit_gang [of demo_cluster "demo_pod ''b'' []" demo_pg new_plugin]
  by (auto simp: demo_sched GetPodGroup_def group_size_def assigned_to_def)

text \<open>PostFilter answers Unschedulable, and it rejects every waiting pod of the group in the
  namespace unless more than \<open>MinReplicas\<close> pods of the group have a node; a group that has just
  \<open>MinReplicas\<close> pods placed is still torn down.\<close>

theorem postfilter_rejects:
  assumes "GetPodGroup cl pod = Inr pg" "pgName pg \<noteq> []"
  shows "\<exists>m t. PostFilter cl pod s = (Inr (FwUnschedulable, []), t) \<and>
    signals t = signals s @ (if int (group_size cl pg pod) > sint (MinReplicas pg) then []
      else map (\<lambda>w. (w, Reject m)) (filter (\<lambda>w. podNamespace w = podNamespace pod \<and>
        GetPodGroupNameByLabel w = pgName pg) (cl_waiting cl)))"
  using assms
  by (auto simp: PostFilter_def assigned_group_size send_def io_simps Let_def split: prod.splits)

theorem postfilter_rejects_witness:
  "\<exists>m t. PostFilter demo_cluster (demo_pod ''b'' []) new_plugin = (Inr (FwUnschedulable, []), t) \<and>
     signals t = [(demo_pod ''a'' ''n1'', Reject m)]"
  using postfilter_rejects [of demo_cluster "demo_pod ''b'' []" demo_pg new_plugin]
  by (simp add: demo_sched GetPodGroup_def group_size_def assigned_to_def GetPodGroupNameByLabel_def LabelKey_def)

lemma postfilter_backs_off:
  assumes "GetPodGroup cl pod = Inr pg" "pgName pg = [] \<or> int (group_size cl pg pod) \<le> sint (MinReplicas pg)"
    and "cl_pods cl (podNamespace pod) (pgName pg) = (None, pods)" "sint (MinReplicas pg) \<le> int (length pods)"
    and "PostFilter cl pod s = (r, t)"
  shows "backedOffPG t = cache_Add (cl_now cl) (GetPodGroupFullName pod) PgBackoffTime (backedOffPG s)"
  using assms by (auto simp: PostFilter_def assigned_group_size send_def io_simps Let_def split: if_splits)

lemma prefilter_backed_off:
  "cache_get (cl_now cl) (backedOffPG s) (GetPodGroupFullName q) \<Longrightarrow>
     fst (PreFilter cl q s) = Inr (FwUnschedulable, ''podGroup '' @ GetPodGroupFullName q @ '' failed recently'')"
  by (simp add: PreFilter_def io_simps Let_def)

text \<open>A group of which at least \<open>MinReplicas\<close> pods exist and that fails in PostFilter is refused by
  PreFilter for the next seven seconds, for each of its pods.\<close>

theorem group_backs_off:
  assumes "GetPodGroup cl pod = Inr pg" "int (group_size cl pg pod) \<le> sint (MinReplicas pg)"
    and "cl_pods cl (podNamespace pod) (pgName pg) = (None, pods)" "sint (MinReplicas pg) \<le> int (length pods)"
    and "PostFilter cl pod s = (r, t)" "0 < cl_now cl" "\<not> cache_get (cl_now cl) (backedOffPG s) (GetPodGroupFullName pod)"
    and "cl_now later \<le> cl_now cl + 7000000000" "GetPodGroupFullName q = GetPodGroupFullName pod"
  shows "\<exists>m. fst (PreFilter later q t) = Inr (FwUnschedulable, m)"
proof -
  have "cache_get (cl_now later) (backedOffPG t) (GetPodGroupFullName q)"
    using postfilter_backs_off [OF assms(1) _ assms(3-5)] assms(2,6-9)
    by (simp add: tc.added_until PgBackoffTime_def second_def)
  from prefilter_backed_off [OF this] show ?thesis by blast
qed

theorem group_backs_off_witness:
  "\<exists>m. fst (PreFilter demo_cluster (demo_pod ''c'' []) (snd (PostFilter demo_cluster (demo_pod ''b'' []) new_plugin))) =
     Inr (FwUnschedulable, m)"
  by (rule group_backs_off [of demo_cluster "demo_pod ''b'' []" demo_pg "[demo_pod ''a'' ''n1'', demo_pod ''b'' []]"
        new_plugin "fst (PostFilter demo_cluster (demo_pod ''b'' []) new_plugin)"])
     (simp_all add: demo_sched GetPodGroup_def group_size_def assigned_to_def cache_get_def GetPodGroupFullName_def
       GetPodGroupNameByLabel_def LabelKey_def)

text \<open>Pods without a group share the empty group name: once one of them fails in PostFilter,
  PreFilter refuses every pod without a group, of any namespace, for seven seconds.\<close>

theorem ungrouped_pods_block_each_other:
  assumes "podLabels pod = None" "podLabels q = None" "cl_pods cl (podNamespace pod) [] = (None, pods)"
    and "0 < cl_now cl" "\<not> cache_get (cl_now cl) (backedOffPG s) []" "cl_now later \<le> cl_now cl + 7000000000"
  shows "\<exists>t m. PostFilter cl pod s = (Inr (FwUnschedulable, []), t) \<and> fst (PreFilter later q t) = Inr (FwUnschedulable, m)"
proof -
  have g: "GetPodGroup cl pod = Inr zero_group" using assms(1) by (simp add: GetPodGroup_def)
  have n: "GetPodGroupFullName pod = []" "GetPodGroupFullName q = []"
    using assms(1,2) by (simp_all add: GetPodGroupFullName_def GetPodGroupNameByLabel_def)
  obtain r t where run: "PostFilter cl pod s = (r, t)" by (cases "PostFilter cl pod s")
  have r: "r = Inr (FwUnschedulable, [])"
    using run g assms(3) by (simp add: PostFilter_def zero_group_def send_def io_simps Let_def)
  have "backedOffPG t = cache_Add (cl_now cl) [] PgBackoffTime (backedOffPG s)"
    using postfilter_backs_off [OF g _ _ _ run, of pods] assms(3) n by (simp add: zero_group_def)
  then have "cache_get (cl_now later) (backedOffPG t) (GetPodGroupFullName q)"
    using assms(4-6) n by (simp add: tc.added_until PgBackoffTime_def second_def)
  from prefilter_backed_off [OF this] run r show ?thesis by blast
qed

theorem ungrouped_pods_block_each_other_witness:
  "\<exists>t m. PostFilter demo_cluster (plain_pod ''ns1'' ''x'') new_plugin = (Inr (FwUnschedulable, []), t) \<and>
     fst (PreFilter demo_cluster (plain_pod ''ns2'' ''y'') t) = Inr (FwUnschedulable, m)"
  by (rule ungrouped_pods_block_each_other) (simp_all add: demo_sched cache_get_def)

text \<open>Unreserve never rejects a waiting pod: when the group is found it does nothing, and when the
  look-up fails it panics.\<close>

theorem unreserve_never_rejects:
  "Unreserve cl pod s = (case GetPodGroup cl pod of Inr _ \<Rightarrow> (Inr (), s) | Inl _ \<Rightarrow> (Inl (Panic ''nil pointer dereference''), s)) \<and>
   signals (snd (Unreserve cl pod s)) = signals s"
  by (simp add: Unreserve_def split: sum.split)

text \<open>The first pod of a group passes PreFilter without any check of the group: neither its queue
  nor the number of its pods is looked at.\<close>

theorem first_pod_unchecked:
  assumes "GetPodGroup cl pod = Inr pg" "\<not> cache_get (cl_now cl) (backedOffPG s) (GetPodGroupFullName pod)"
    and "\<not> cache_get (cl_now cl) (permittedPG s) (GetPodGroupFullName pod)"
  shows "fst (PreFilter cl pod s) = Inr (FwSuccess, [])"
  using assms by (simp add: PreFilter_def io_simps Let_def)

theorem first_pod_unchecked_witness: "fst (PreFilter demo_cluster (demo_pod ''b'' []) new_plugin) = Inr (FwSuccess, [])"
  by (rule first_pod_unchecked [of _ _ demo_pg]) (simp_all add: demo_sched GetPodGroup_def cache_get_def)

end
