(* ===== verification/Webhooks.thy ===== *)
theory Webhooks
  imports GoJson
begin

section \<open>simplewebhook: the admission webhooks\<close>

text \<open>
  \<open>demo1\<close>: the validation of Services and the patches for Services and Pods, with the HTTP
  handlers around them; and the defaulting and validation of the resource \<open>App\<close> in
  \<open>simplecontrollerwithwebhook\<close>. Decoding the request bodies and objects into the Kubernetes
  types is a parameter (\<open>decoder\<close>); the patch text is written by the JSON writer of GoJson.
\<close>

subsection \<open>Data\<close>

record ServicePort =
  spName :: string
  spPort :: int32
  spProtocol :: string

text \<open>Labels are a map, listed here by its entries; only the parts the webhooks read.\<close>

record Service =
  svcName :: string
  svcLabels :: "(string \<times> string) list"
  svcPorts :: "ServicePort list"

text \<open>Of a Pod only the number of its containers is read.\<close>

record WPod =
  wpName :: string
  wpContainers :: nat

record AdmissionRequest =
  arKind :: string
  arGroup :: string
  arUID :: string
  arNamespace :: string
  arRaw :: string

datatype AdmissionResponse = AdmissionResponse
  (respAllowed: bool) (respUID: string) (respReason: "string option") (respMessage: "string option")
  (respPatch: "string option") (respPatchType: "string option")

record decoder =
  dec_service :: "string \<Rightarrow> string + Service"
  dec_pod :: "string \<Rightarrow> string + WPod"
  dec_review :: "string \<Rightarrow> string + AdmissionRequest"

datatype patchOperation = patchOperation (opOp: string) (opPath: string) (opValue: "json option")

subsection \<open>handle.go\<close>

definition MakeAdmissionResponse :: "bool \<Rightarrow> string \<Rightarrow> string \<Rightarrow> AdmissionResponse" where
  "MakeAdmissionResponse allowed reason uid = AdmissionResponse allowed uid (Some reason) None None None"

definition UnmarshalError :: "string \<Rightarrow> string \<Rightarrow> AdmissionResponse" where
  "UnmarshalError err uid = MakeAdmissionResponse False
     (if Contains err ''AnalysisMessageBase_Level''
      then ''Cannot unmarshal the object due to Istio API issue. If you are creating a virtual service, '' @
           ''please check if you provide the correct gateway in the manifest.''
      else ''Cannot unmarshal raw objects from API server, '' @ err) uid"

subsection \<open>service.go: validation\<close>

fun validatePorts :: "ServicePort list \<Rightarrow> string \<Rightarrow> AdmissionResponse" where
  "validatePorts [] uid = MakeAdmissionResponse True ''Allowed'' uid"
| "validatePorts (sp # ports) uid =
     (if spPort sp = 443 \<and> \<not> HasPrefix (spName sp) ''https''
      then MakeAdmissionResponse False ''You cannot configure a non-HTTPs service with 443 port'' uid
      else validatePorts ports uid)"

definition validate_service :: "Service \<Rightarrow> string \<Rightarrow> AdmissionResponse" where
  "validate_service svc uid = validatePorts (svcPorts svc) uid"

definition Validate :: "decoder \<Rightarrow> AdmissionRequest \<Rightarrow> AdmissionResponse" where
  "Validate d req =
     (let allowed = AdmissionResponse True [] None None None None in
      if arKind req = ''Service'' then
        if arGroup req = [] then
          (case dec_service d (arRaw req) of
             Inl err \<Rightarrow> UnmarshalError err (arUID req)
           | Inr s \<Rightarrow> validate_service s (arUID req))
        else allowed
      else allowed)"

subsection \<open>service.go: patches\<close>

definition makePatchOperation :: "string \<Rightarrow> string \<Rightarrow> patchOperation" where
  "makePatchOperation verb path = patchOperation verb path None"

definition makePatchOperationWithValue :: "string \<Rightarrow> string \<Rightarrow> json \<Rightarrow> patchOperation" where
  "makePatchOperationWithValue verb path v = patchOperation verb path (Some v)"

text \<open>\<open>encoding/json\<close> writes the entries of a map in the order of the keys.\<close>

definition json_of_labels :: "(string \<times> string) list \<Rightarrow> json" where
  "json_of_labels ls = JObj (map (\<lambda>(k, v). (k, JStr v)) (sort_key fst ls))"

text \<open>Setting a key of a map given by its entries.\<close>

definition put_label :: "string \<Rightarrow> string \<Rightarrow> (string \<times> string) list \<Rightarrow> (string \<times> string) list" where
  "put_label k v ls = (k, v) # filter (\<lambda>(k', _). k' \<noteq> k) ls"

definition injectRequiredLabels :: "Service \<Rightarrow> patchOperation list" where
  "injectRequiredLabels svc =
     [patchOperation ''add'' ''/metadata/labels''
        (Some (json_of_labels (put_label ''enabled'' ''yes'' (svcLabels svc))))]"

text \<open>\<open>omitempty\<close> drops an absent value.\<close>

definition json_of_operation :: "patchOperation \<Rightarrow> json" where
  "json_of_operation p = JObj ([(''op'', JStr (opOp p)), (''path'', JStr (opPath p))] @
     (case opValue p of None \<Rightarrow> [] | Some v \<Rightarrow> [(''value'', v)]))"

definition patch_text :: "patchOperation list \<Rightarrow> string" where
  "patch_text ps = jtext (JArr (map json_of_operation ps))"

definition mutate_service :: "Service \<Rightarrow> string \<Rightarrow> AdmissionResponse" where
  "mutate_service svc uid = AdmissionResponse True uid None None
     (Some (patch_text (injectRequiredLabels svc))) (Some ''JSONPatch'')"

text \<open>The map of variables has one entry; \<open>host\<close> is the value of KUBERNETES_SERVICE_HOST.\<close>

definition injectRequiredEnvs :: "string \<Rightarrow> WPod \<Rightarrow> patchOperation list" where
  "injectRequiredEnvs host pod =
     concat (map (\<lambda>i. if host \<noteq> [] then [makePatchOperationWithValue ''replace''
         (''/spec/containers/'' @ nat_digits i @ ''/env/0/value'') (JStr host)] else [])
       [0..<wpContainers pod])"

definition mutate_pod :: "string \<Rightarrow> WPod \<Rightarrow> string \<Rightarrow> AdmissionResponse" where
  "mutate_pod host pod uid = AdmissionResponse True uid None None
     (Some (patch_text (injectRequiredEnvs host pod))) (Some ''JSONPatch'')"

definition Mutate :: "decoder \<Rightarrow> string \<Rightarrow> AdmissionRequest \<Rightarrow> AdmissionResponse" where
  "Mutate d host req =
     (if arKind req = ''Service'' then
        (case dec_service d (arRaw req) of
           Inl err \<Rightarrow> UnmarshalError err (arUID req)
         | Inr s \<Rightarrow> mutate_service s (arUID req))
      else if arKind req = ''Pod'' then
        (case dec_pod d (arRaw req) of
           Inl err \<Rightarrow> UnmarshalError err (arUID req)
         | Inr p \<Rightarrow> mutate_pod host p (arUID req))
      else AdmissionResponse False [] None None None None)"

subsection \<open>main.go: the HTTP handlers\<close>

datatype http_result = HttpError nat string | HttpReview AdmissionResponse

definition serve_review :: "decoder \<Rightarrow> (AdmissionRequest \<Rightarrow> AdmissionResponse) \<Rightarrow> string \<Rightarrow> string \<Rightarrow> http_result" where
  "serve_review d admit body contentType =
     (if length body = 0 then HttpError 400 ''empty body''
      else if contentType \<noteq> ''application/json'' then
        HttpError 415 ''invalid Content-Type, expect `application/json`''
      else HttpReview (case dec_review d body of
          Inl err \<Rightarrow> AdmissionResponse False [] None (Some err) None None
        | Inr req \<Rightarrow> admit req))"

definition http_validate :: "decoder \<Rightarrow> string \<Rightarrow> string \<Rightarrow> http_result" where
  "http_validate d body contentType = serve_review d (Validate d) body contentType"

definition http_mutate :: "decoder \<Rightarrow> string \<Rightarrow> string \<Rightarrow> string \<Rightarrow> http_result" where
  "http_mutate d host body contentType = serve_review d (Mutate d host) body contentType"

subsection \<open>The webhook of the resource App\<close>

record App =
  appName :: string
  appFoo :: string

text \<open>The object is an \<open>App\<close> or of another type, of which the name is printed.\<close>

datatype app_object = AppObject App | OtherObject string

definition App_Default :: "app_object \<Rightarrow> goerr + App" where
  "App_Default obj =
     (case obj of
        OtherObject ty \<Rightarrow> Inl (Plain (''expected an App object but got '' @ ty))
      | AppObject app \<Rightarrow> Inr (if length (appFoo app) = 0 then app\<lparr>appFoo := ''app''\<rparr> else app))"

definition ValidateCreate :: "app_object \<Rightarrow> goerr + unit" where
  "ValidateCreate obj = (case obj of
      OtherObject ty \<Rightarrow> Inl (Plain (''expected a App object but got '' @ ty)) | AppObject _ \<Rightarrow> Inr ())"

definition ValidateUpdate :: "app_object \<Rightarrow> app_object \<Rightarrow> goerr + unit" where
  "ValidateUpdate oldObj newObj = (case newObj of
      OtherObject ty \<Rightarrow> Inl (Plain (''expected a App object for the newObj but got '' @ ty)) | AppObject _ \<Rightarrow> Inr ())"

definition ValidateDelete :: "app_object \<Rightarrow> goerr + unit" where
  "ValidateDelete obj = (case obj of
      OtherObject ty \<Rightarrow> Inl (Plain (''expected a App object but got '' @ ty)) | AppObject _ \<Rightarrow> Inr ())"

end
