(* ===== verification/DevicePlugin.thy ===== *)
theory DevicePlugin
  imports GoStd
begin

section \<open>simpledeviceplugin: the device plugin (pkg/server/server.go)\<close>

text \<open>
  The server behind the kubelet's device-plugin API: its devices, the start-up that listens on
  the plugin's socket and registers with the kubelet, the allocation of devices and the stream
  of device lists. A device is shared by pointer between the server's list and the channel of
  unhealthy devices, so devices live in a store of addresses. Socket calls are parameters.
\<close>

definition DeviceNumber :: nat where "DeviceNumber = 2"
definition ResourceName :: string where "ResourceName = ''simple.io/fuse''"
definition KubeletSock :: string where "KubeletSock = ''kubelet.sock''"
definition FuseSock :: string where "FuseSock = ''fuse.sock''"

record Device =
  devID :: string
  devHealth :: string

record Server =
  Devices :: "nat list"
  FuseSockPath :: string
  KubeletSockPath :: string

text \<open>The loop that makes the devices, from address \<open>i\<close> on.\<close>

fun make_devices :: "string \<Rightarrow> nat \<Rightarrow> nat \<Rightarrow> (nat \<rightharpoonup> Device) \<Rightarrow> nat list \<times> (nat \<rightharpoonup> Device)" where
  "make_devices hostname i 0 heap = ([], heap)"
| "make_devices hostname i (Suc n) heap =
     (let d = \<lparr>devID = ''fuse-'' @ hostname @ ''-'' @ nat_digits i, devHealth = ''Healthy''\<rparr>;
          (ps, heap') = make_devices hostname (Suc i) n (heap(i \<mapsto> d))
      in (i # ps, heap'))"

text \<open>\<open>watch\<close> is the result of making the file watcher; a failure ends the process.\<close>

definition NewServer :: "string + unit \<Rightarrow> string \<Rightarrow> string \<Rightarrow> goerr + (Server \<times> (nat \<rightharpoonup> Device))" where
  "NewServer watch hostname file =
     (case watch of Inl err \<Rightarrow> Inl (Panic err)
      | Inr _ \<Rightarrow> (let (ps, heap) = make_devices hostname 0 DeviceNumber Map.empty
          in Inr (\<lparr>Devices = ps, FuseSockPath = file @ FuseSock, KubeletSockPath = file @ KubeletSock\<rparr>, heap)))"

record 'w sockets =
  do_unlink :: "string \<Rightarrow> 'w \<Rightarrow> (os_error + unit) \<times> 'w"
  do_listen :: "string \<Rightarrow> 'w \<Rightarrow> (string + unit) \<times> 'w"
  do_connect :: "string \<Rightarrow> 'w \<Rightarrow> (string + unit) \<times> 'w"
  do_register :: "string \<Rightarrow> string \<Rightarrow> 'w \<Rightarrow> (string + unit) \<times> 'w"

definition sock_call :: "('e \<Rightarrow> goerr) \<Rightarrow> ('w \<Rightarrow> ('e + 'a) \<times> 'w) \<Rightarrow> ('w, 'a) io" where
  "sock_call g f = (\<lambda>w. case f w of (Inl e, w') \<Rightarrow> (Inl (g e), w') | (Inr x, w') \<Rightarrow> (Inr x, w'))"

definition Cleanup :: "'w sockets \<Rightarrow> Server \<Rightarrow> ('w, unit) io" where
  "Cleanup S s = tryE (sock_call Os (do_unlink S (FuseSockPath s)))
     (\<lambda>err. if \<not> IsNotExist err then fail err else ret ()) ret"

definition plugin_Start :: "'w sockets \<Rightarrow> Server \<Rightarrow> ('w, unit) io" where
  "plugin_Start S s =
     bindE (Cleanup S s) (\<lambda>_.
     bindE (sock_call Plain (do_listen S (FuseSockPath s))) (\<lambda>_.
     sock_call Plain (do_connect S (FuseSockPath s))))"

text \<open>\<open>path.Base\<close>: the part after the last slash (of a path that does not end in one).\<close>

definition path_Base :: "string \<Rightarrow> string" where
  "path_Base p = last (split_char (CHR ''/'') p)"

definition Register :: "'w sockets \<Rightarrow> Server \<Rightarrow> ('w, unit) io" where
  "Register S s =
     bindE (sock_call Plain (do_connect S (KubeletSockPath s))) (\<lambda>_.
     sock_call Plain (do_register S (path_Base (FuseSockPath s)) ResourceName))"

text \<open>Up to the wait for the end of the context.\<close>

definition Serve :: "'w sockets \<Rightarrow> Server \<Rightarrow> ('w, unit) io" where
  "Serve S s =
     tryE (plugin_Start S s) (\<lambda>err. fail (Panic (err_text err))) (\<lambda>_.
     tryE (Register S s) (\<lambda>err. fail (Panic (err_text err))) ret)"

subsection \<open>Allocation\<close>

fun deviceExists :: "(nat \<rightharpoonup> Device) \<Rightarrow> nat list \<Rightarrow> string \<Rightarrow> bool" where
  "deviceExists heap [] i = False"
| "deviceExists heap (p # ps) i =
     (case heap p of Some d \<Rightarrow> if devID d = i then True else deviceExists heap ps i
      | None \<Rightarrow> deviceExists heap ps i)"

record AllocateResponse =
  arEnvs :: "(string \<times> string) list"
  arContainerPath :: string
  arHostPath :: string
  arPermissions :: string

definition fuse_response :: AllocateResponse where
  "fuse_response = \<lparr>arEnvs = [(''fuser'', ''fuser'')], arContainerPath = ''/dev/fuse'',
     arHostPath = ''/dev/fuse'', arPermissions = ''rwm''\<rparr>"

fun allocate_ids :: "(string \<Rightarrow> bool) \<Rightarrow> string list \<Rightarrow> goerr + AllocateResponse list" where
  "allocate_ids known [] = Inr []"
| "allocate_ids known (i # ids) =
     (if \<not> known i then Inl (Plain (''invalid allocation request: unknown device: '' @ i))
      else case allocate_ids known ids of Inl e \<Rightarrow> Inl e | Inr rs \<Rightarrow> Inr (fuse_response # rs))"

text \<open>One list of device identifiers per container.\<close>

fun Allocate :: "(nat \<rightharpoonup> Device) \<Rightarrow> Server \<Rightarrow> string list list \<Rightarrow> goerr + AllocateResponse list" where
  "Allocate heap s [] = Inr []"
| "Allocate heap s (ids # reqs) =
     (case allocate_ids (deviceExists heap (Devices s)) ids of
        Inl e \<Rightarrow> Inl e
      | Inr rs \<Rightarrow> (case Allocate heap s reqs of Inl e \<Rightarrow> Inl e | Inr rs' \<Rightarrow> Inr (rs @ rs')))"

subsection \<open>The stream of device lists\<close>

datatype watch_event = StopEvent | HealthEvent nat

definition send_devices :: "(nat \<rightharpoonup> Device) \<Rightarrow> Server \<Rightarrow> Device list" where
  "send_devices heap s = map (\<lambda>p. the (heap p)) (Devices s)"

text \<open>What is sent on the stream for the events taken from the two channels; the list that is sent
  is read from the store at that moment. \<open>done\<close> says that the handler returned.\<close>

fun watch_loop :: "Server \<Rightarrow> watch_event list \<Rightarrow> (nat \<rightharpoonup> Device) \<Rightarrow> Device list list \<times> bool" where
  "watch_loop s [] heap = ([], False)"
| "watch_loop s (StopEvent # es) heap = ([], True)"
| "watch_loop s (HealthEvent p # es) heap =
     (let heap' = (case heap p of Some d \<Rightarrow> heap(p \<mapsto> d\<lparr>devHealth := ''Unhealthy''\<rparr>) | None \<Rightarrow> heap);
          (sent, fin) = watch_loop s es heap'
      in (send_devices heap' s # sent, fin))"

definition ListAndWatch :: "Server \<Rightarrow> watch_event list \<Rightarrow> (nat \<rightharpoonup> Device) \<Rightarrow> Device list list \<times> bool" where
  "ListAndWatch s es heap = (let (sent, fin) = watch_loop s es heap in (send_devices heap s # sent, fin))"

end
