(* ===== verification/WebhookProps.thy ===== *)
theory WebhookProps
  imports Webhooks DevicePlugin
begin

section \<open>simplewebhook and simpledeviceplugin: properties\<close>

subsection \<open>Admission\<close>

text \<open>A Service is admitted exactly when each of its ports with number 443 has a name that starts
  with \<open>https\<close>, whatever the other ports are; the answer carries the request's identifier.\<close>

theorem ports_admitted:
  "respAllowed (validatePorts ports uid) = (\<forall>sp\<in>set ports. spPort sp = 443 \<longrightarrow> HasPrefix (spName sp) ''https'') \<and>
   respUID (validatePorts ports uid) = uid"
  by (induction ports) (auto simp: MakeAdmissionResponse_def)

theorem ports_admitted_witness:
  "\<not> respAllowed (validatePorts [\<lparr>spName = ''web'', spPort = 443, spProtocol = ''TCP''\<rparr>] ''u'')"
  using ports_admitted [of "[\<lparr>spName = ''web'', spPort = 443, spProtocol = ''TCP''\<rparr>]" "''u''"]
  by (simp add: HasPrefix_def)

lemma map_of_sort_key: "distinct (map fst xs) \<Longrightarrow> map_of (sort_key fst xs) = map_of xs"
  by (rule map_of_eqI) (auto simp: map_of_eq_Some_iff distinct_map)

lemma map_of_drop_key: "map_of (filter (\<lambda>(k', _). k' \<noteq> k) ls) j = (if j = k then None else map_of ls j)"
  by (induction ls) auto

lemma map_of_put_label: "map_of (put_label k v ls) = (map_of ls)(k \<mapsto> v)"
  by (auto simp: put_label_def map_of_drop_key fun_eq_iff)

lemma distinct_put_label: "distinct (map fst ls) \<Longrightarrow> distinct (map fst (put_label k v ls))"
  by (auto simp: put_label_def distinct_map inj_on_def)

text \<open>The patch for a Service is JSON text that reads back as one \<open>add\<close> of the whole label map: the
  labels the Service has, with \<open>enabled\<close> set to \<open>yes\<close>; no other label is lost or changed.\<close>

theorem service_patch_labels:
  assumes "distinct (map fst (svcLabels svc))"
  shows "\<exists>ms. json_parse (the (respPatch (mutate_service svc uid))) =
      Some (JArr [JObj [(''op'', JStr ''add''), (''path'', JStr ''/metadata/labels''), (''value'', JObj ms)]]) \<and>
    (\<forall>k. map_of ms k = map_option JStr (((map_of (svcLabels svc))(''enabled'' \<mapsto> ''yes'')) k))"
proof -
  let ?ls = "put_label ''enabled'' ''yes'' (svcLabels svc)"
  let ?ms = "map (\<lambda>(k, v). (k, JStr v)) (sort_key fst ?ls)"
  have "json_parse (the (respPatch (mutate_service svc uid))) =
      Some (JArr [JObj [(''op'', JStr ''add''), (''path'', JStr ''/metadata/labels''), (''value'', JObj ?ms)]])"
    by (simp add: mutate_service_def patch_text_def json_parse_text injectRequiredLabels_def json_of_operation_def
        json_of_labels_def del: jtext.simps)
  moreover have "map_of ?ms = map_option JStr \<circ> map_of ?ls"
    using map_of_sort_key [OF distinct_put_label [OF assms]] by (simp add: map_of_map)
  ultimately show ?thesis by (intro exI [of _ ?ms]) (simp add: map_of_put_label)
qed

theorem service_patch_labels_witness:
  "\<exists>ms. json_parse (the (respPatch (mutate_service \<lparr>svcName = ''s'', svcLabels = [(''app'', ''x'')], svcPorts = []\<rparr> ''u''))) =
      Some (JArr [JObj [(''op'', JStr ''add''), (''path'', JStr ''/metadata/labels''), (''value'', JObj ms)]]) \<and>
    map_of ms ''app'' = Some (JStr ''x'') \<and> map_of ms ''enabled'' = Some (JStr ''yes'')"
  using service_patch_labels [of "\<lparr>svcName = ''s'', svcLabels = [(''app'', ''x'')], svcPorts = []\<rparr>" "''u''"]
  by fastforce

text \<open>The mutating webhook denies every object that is neither a Service nor a Pod: it answers
  with an empty response, which is not allowed, instead of letting the object through unchanged.\<close>

theorem mutate_denies_others:
  assumes "arKind req \<noteq> ''Service''" "arKind req \<noteq> ''Pod''"
  shows "\<not> respAllowed (Mutate d host req) \<and> respReason (Mutate d host req) = None"
  using assms by (simp add: Mutate_def)

theorem mutate_denies_others_witness:
  "\<not> respAllowed (Mutate \<lparr>dec_service = \<lambda>_. Inl [], dec_pod = \<lambda>_. Inl [], dec_review = \<lambda>_. Inl []\<rparr> ''h''
     \<lparr>arKind = ''Deployment'', arGroup = ''apps'', arUID = ''u'', arNamespace = ''ns'', arRaw = []\<rparr>)"
  using mutate_denies_others [of "\<lparr>arKind = ''Deployment'', arGroup = ''apps'', arUID = ''u'', arNamespace = ''ns'', arRaw = []\<rparr>"
      "\<lparr>dec_service = \<lambda>_. Inl [], dec_pod = \<lambda>_. Inl [], dec_review = \<lambda>_. Inl []\<rparr>" "''h''"]
  by simp

text \<open>Defaulting an \<open>App\<close> gives it a non-empty \<open>Foo\<close>, keeps one that is set, and doing it again changes
  nothing; the result is accepted by all three validations.\<close>

theorem app_default_idempotent:
  "\<exists>b. App_Default (AppObject a) = Inr b \<and> appFoo b \<noteq> [] \<and> (appFoo a \<noteq> [] \<longrightarrow> b = a) \<and> appName b = appName a \<and>
     App_Default (AppObject b) = Inr b \<and> ValidateCreate (AppObject b) = Inr () \<and>
     ValidateUpdate old (AppObject b) = Inr () \<and> ValidateDelete (AppObject b) = Inr ()"
  by (simp add: App_Default_def ValidateCreate_def ValidateUpdate_def ValidateDelete_def)

subsection \<open>The device plugin\<close>

lemma allocate_ids_known: "\<forall>i\<in>set ids. known i \<Longrightarrow> allocate_ids known ids = Inr (replicate (length ids) fuse_response)"
  by (induction ids) auto

lemma allocate_ids_Inr: "allocate_ids known ids = Inr rs \<Longrightarrow> \<forall>i\<in>set ids. known i"
  by (induction ids arbitrary: rs) (auto split: sum.splits if_splits)

lemma allocate_ids_ok:
  "allocate_ids known ids = Inr rs \<longleftrightarrow> (\<forall>i\<in>set ids. known i) \<and> rs = replicate (length ids) fuse_response"
  using allocate_ids_known [of ids known] allocate_ids_Inr [of known ids] by auto

lemma new_server_ex: obtains s heap where "NewServer (Inr ()) h file = Inr (s, heap)"
  by (cases "make_devices h 0 DeviceNumber Map.empty") (simp add: NewServer_def)

text \<open>An allocation succeeds exactly when every requested device is one of the server's, and then
  answers with one container response per device, although the kubelet expects one per container.\<close>

theorem allocate_spec:
  "(\<exists>rs. Allocate heap s reqs = Inr rs) = (\<forall>ids\<in>set reqs. \<forall>i\<in>set ids. deviceExists heap (Devices s) i) \<and>
   (\<forall>rs. Allocate heap s reqs = Inr rs \<longrightarrow> rs = replicate (length (concat reqs)) fuse_response)"
proof (induction reqs)
  case (Cons ids reqs)
  show ?case
  proof (cases "allocate_ids (deviceExists heap (Devices s)) ids")
    case (Inl e)
    then have "\<not> (\<forall>i\<in>set ids. deviceExists heap (Devices s) i)"
      using allocate_ids_ok [of "deviceExists heap (Devices s)" ids "replicate (length ids) fuse_response"] by simp
    with Inl show ?thesis by auto
  next
    case (Inr rs)
    with Cons allocate_ids_ok [of "deviceExists heap (Devices s)" ids rs] show ?thesis
      by (auto simp: replicate_add split: sum.splits)
  qed
qed simp

theorem allocate_spec_witness:
  "\<exists>s heap rs. NewServer (Inr ()) ''h'' ''/dp/'' = Inr (s, heap) \<and> Allocate heap s [[''fuse-h-0'', ''fuse-h-1'']] = Inr rs"
proof -
  obtain s heap where new: "NewServer (Inr ()) ''h'' ''/dp/'' = Inr (s, heap)" by (rule new_server_ex)
  have d: "nat_digits 0 = ''0''" "nat_digits (Suc 0) = ''1''" by (simp_all add: nat_digits.simps char_of_def bit_Suc_0_iff bit_iff_odd)
  have "\<forall>ids\<in>set [[''fuse-h-0'', ''fuse-h-1'']]. \<forall>i\<in>set ids. deviceExists heap (Devices s) i"
    using new by (auto simp: NewServer_def DeviceNumber_def numeral_eq_Suc d)
  with allocate_spec [of heap s "[[''fuse-h-0'', ''fuse-h-1'']]"] new show ?thesis by blast
qed

lemma make_devices_spec:
  "make_devices h i n heap = (ps, heap') \<Longrightarrow> ps = [i..<i + n] \<and>
     (\<forall>p. heap' p = (if i \<le> p \<and> p < i + n then Some \<lparr>devID = ''fuse-'' @ h @ ''-'' @ nat_digits p, devHealth = ''Healthy''\<rparr> else heap p))"
proof (induction n arbitrary: i heap ps heap')
  case (Suc n)
  let ?d = "\<lparr>devID = ''fuse-'' @ h @ ''-'' @ nat_digits i, devHealth = ''Healthy''\<rparr>"
  obtain qs where mk: "make_devices h (Suc i) n (heap(i \<mapsto> ?d)) = (qs, heap')" and ps: "ps = i # qs"
    using Suc.prems by (auto simp: Let_def split: prod.splits)
  from Suc.IH [OF mk] show ?case using ps by (auto simp: upt_conv_Cons)
qed auto

lemma deviceExists_iff: "deviceExists heap ps i \<longleftrightarrow> (\<exists>p\<in>set ps. \<exists>d. heap p = Some d \<and> devID d = i)"
  by (induction ps) (auto split: option.splits)

text \<open>C39. The devices of a new server are healthy, have different identifiers, and all exist for the
  allocation.\<close>

theorem new_devices:
  assumes "NewServer watch h file = Inr (s, heap)"
  shows "distinct (map devID (send_devices heap s)) \<and> length (Devices s) = 2 \<and>
    (\<forall>d\<in>set (send_devices heap s). devHealth d = ''Healthy'' \<and> deviceExists heap (Devices s) (devID d))"
proof -
  obtain ps hp where mk: "make_devices h 0 2 Map.empty = (ps, hp)" by (cases "make_devices h 0 2 Map.empty")
  from make_devices_spec [OF mk] assms mk show ?thesis
    by (auto simp: NewServer_def DeviceNumber_def send_devices_def distinct_map inj_on_def deviceExists_iff
        dest: nat_digits_inj split: sum.splits)
qed

theorem new_devices_witness: "\<exists>s heap. NewServer (Inr ()) ''h'' ''/dp/'' = Inr (s, heap) \<and> length (Devices s) = 2"
proof -
  obtain s heap where new: "NewServer (Inr ()) ''h'' ''/dp/'' = Inr (s, heap)" by (rule new_server_ex)
  from new_devices [OF this] new show ?thesis by blast
qed

end
