(* ===== verification/GoNet.thy ===== *)
theory GoNet
  imports GoStd "HOL-Library.Word"
begin

section \<open>What the sources use of Go's package \<open>net\<close>\<close>

text \<open>
  Addresses are byte slices of length 4 or 16 (nil is the empty one), networks an address with
  a mask, as in Go. \<open>ParseIP\<close>, \<open>ParseCIDR\<close>, \<open>To4\<close>, \<open>Equal\<close>, \<open>Mask\<close>, \<open>Contains\<close> and the
  texts of addresses and networks follow the library (parser of \<open>net/netip\<close>). The main results:
  \<open>ParseCIDR_String\<close>, the text of an IPv4 network reads back, and \<open>Contains_iff\<close>, a network
  contains the addresses that agree with it on the prefix.
\<close>

unbundle bit_operations_syntax

type_synonym byte = "8 word"
type_synonym IP = "byte list"

record IPNet =
  netIP :: IP
  netMask :: "byte list"

subsection \<open>Parsing\<close>

text \<open>One decimal field of an IPv4 address: digits without a leading zero, at most 255.\<close>

definition octet :: "string \<Rightarrow> byte option" where
  "octet s = (if s = [] \<or> (hd s = CHR ''0'' \<and> length s > 1) then None
     else case dec_val 0 s of None \<Rightarrow> None | Some n \<Rightarrow> if n \<le> 255 then Some (word_of_nat n) else None)"

definition parse_ipv4 :: "string \<Rightarrow> IP option" where
  "parse_ipv4 s = (case split_char (CHR ''.'') s of
     [a, b, c, d] \<Rightarrow> (case (octet a, octet b, octet c, octet d) of
        (Some w, Some x, Some y, Some z) \<Rightarrow> Some [w, x, y, z] | _ \<Rightarrow> None)
   | _ \<Rightarrow> None)"

definition hex_digit_val :: "char \<Rightarrow> nat option" where
  "hex_digit_val c = (let n = of_char c in
     if 48 \<le> n \<and> n \<le> 57 then Some (n - 48)
     else if 97 \<le> n \<and> n \<le> 102 then Some (n - 87)
     else if 65 \<le> n \<and> n \<le> 70 then Some (n - 55) else None)"

definition hex_group :: "string \<Rightarrow> nat option" where
  "hex_group s = (if s = [] \<or> length s > 4 then None
     else Some (foldl (\<lambda>a c. 16 * a + the (hex_digit_val c)) 0 s))"

text \<open>
  The loop of the IPv6 parser over the groups. \<open>out\<close> are the bytes so far, \<open>ell\<close> is the
  place of the double colon. The first argument is the number of groups that still fit.
\<close>

fun parse6_loop :: "nat \<Rightarrow> byte list \<Rightarrow> nat option \<Rightarrow> string \<Rightarrow> (byte list \<times> nat option \<times> string) option" where
  "parse6_loop 0 out ell s = Some (out, ell, s)"
| "parse6_loop (Suc k) out ell s =
     (let g = takeWhile (\<lambda>c. hex_digit_val c \<noteq> None) s; rest = drop (length g) s in
      case hex_group g of None \<Rightarrow> None
      | Some n \<Rightarrow>
         if rest \<noteq> [] \<and> hd rest = CHR ''.'' then
           (if ell = None \<and> length out \<noteq> 12 \<or> length out + 4 > 16 then None
            else map_option (\<lambda>b. (out @ b, ell, [])) (parse_ipv4 s))
         else let out' = out @ [word_of_nat (n div 256), word_of_nat (n mod 256)] in
           (case rest of
              [] \<Rightarrow> Some (out', ell, [])
            | c # t \<Rightarrow>
                if c \<noteq> CHR '':'' \<or> t = [] then None
                else if hd t = CHR '':'' then
                  (if ell \<noteq> None then None
                   else if tl t = [] then Some (out', Some (length out'), [])
                   else parse6_loop k out' (Some (length out')) (tl t))
                else parse6_loop k out' ell t))"

definition parse_ipv6 :: "string \<Rightarrow> IP option" where
  "parse_ipv6 s0 =
     (let lead = HasPrefix s0 ''::''; s = (if lead then drop 2 s0 else s0) in
      if lead \<and> s = [] then Some (replicate 16 0)
      else case parse6_loop 8 [] (if lead then Some 0 else None) s of
        None \<Rightarrow> None
      | Some (out, ell, rest) \<Rightarrow>
          if rest \<noteq> [] then None
          else if length out < 16
            then map_option (\<lambda>e. take e out @ replicate (16 - length out) 0 @ drop e out) ell
            else if ell \<noteq> None then None else Some out)"

text \<open>
  \<open>netip.ParseAddr\<close>: the first of the characters dot, colon and percent decides. An address
  with a zone is refused by the callers in package \<open>net\<close>.
\<close>

definition parse_addr :: "string \<Rightarrow> IP option" where
  "parse_addr s = (case dropWhile (\<lambda>c. c \<notin> {CHR ''.'', CHR '':'', CHR ''%''}) s of
     [] \<Rightarrow> None
   | c # _ \<Rightarrow> if c = CHR ''.'' then parse_ipv4 s
       else if c = CHR '':'' \<and> CHR ''%'' \<notin> set s then parse_ipv6 s else None)"

definition v4_prefix :: "byte list" where
  "v4_prefix = replicate 10 0 @ [255, 255]"

definition as16 :: "IP \<Rightarrow> IP" where
  "as16 ip = (if length ip = 4 then v4_prefix @ ip else ip)"

definition ParseIP :: "string \<Rightarrow> IP option" where
  "ParseIP s = map_option as16 (parse_addr s)"

definition To4 :: "IP \<Rightarrow> IP option" where
  "To4 ip = (if length ip = 4 then Some ip
     else if length ip = 16 \<and> take 12 ip = v4_prefix then Some (drop 12 ip) else None)"

definition IP_Equal :: "IP \<Rightarrow> IP \<Rightarrow> bool" where
  "IP_Equal a b = (if length a = length b then a = b
     else if length a = 4 \<and> length b = 16 then take 12 b = v4_prefix \<and> drop 12 b = a
     else if length a = 16 \<and> length b = 4 then take 12 a = v4_prefix \<and> drop 12 a = b
     else False)"

fun cidr_mask :: "nat \<Rightarrow> nat \<Rightarrow> byte list" where
  "cidr_mask 0 n = []"
| "cidr_mask (Suc l) n =
     (if n \<ge> 8 then 255 # cidr_mask l (n - 8) else NOT (drop_bit n 255) # cidr_mask l 0)"

definition CIDRMask :: "nat \<Rightarrow> nat \<Rightarrow> byte list" where
  "CIDRMask ones bits = cidr_mask (bits div 8) ones"

definition IP_Mask :: "IP \<Rightarrow> byte list \<Rightarrow> IP" where
  "IP_Mask ip m =
     (let ip' = (if length m = 4 \<and> length ip = 16 \<and> take 12 ip = v4_prefix then drop 12 ip else ip);
          m' = (if length m = 16 \<and> length ip = 4 \<and> (\<forall>b \<in> set (take 12 m). b = 255) then drop 12 m else m)
      in if length ip' = length m' then map2 (AND) ip' m' else [])"

text \<open>The number after the slash: digits only, below 0xFFFFFF.\<close>

definition dtoi :: "string \<Rightarrow> nat option" where
  "dtoi s = (if s = [] then None else case dec_val 0 s of None \<Rightarrow> None
     | Some n \<Rightarrow> if n < 16777215 then Some n else None)"

definition ParseCIDR :: "string \<Rightarrow> goerr + (IP \<times> IPNet)" where
  "ParseCIDR s =
     (let bad = Inl (Plain (''invalid CIDR address: '' @ s)) in
      case split2 s ''/'' of
        None \<Rightarrow> bad
      | Some (addr, m) \<Rightarrow>
          (case (parse_addr addr, dtoi m) of
             (Some a, Some n) \<Rightarrow>
                let bits = 8 * length a; mk = CIDRMask n bits in
                if n > bits then bad
                else Inr (as16 a, \<lparr>netIP = IP_Mask (as16 a) mk, netMask = mk\<rparr>)
           | _ \<Rightarrow> bad))"

subsection \<open>Printing\<close>

definition ipv4_text :: "IP \<Rightarrow> string" where
  "ipv4_text ip = join_with ''.'' (map (\<lambda>b. nat_digits (unat b)) ip)"

fun hex_text :: "nat \<Rightarrow> string" where
  "hex_text n = (let d = (\<lambda>k. if k < 10 then char_of (48 + k) else char_of (87 + k)) in
     if n < 16 then [d n] else hex_text (n div 16) @ [d (n mod 16)])"

declare hex_text.simps [simp del]

fun groups16 :: "IP \<Rightarrow> nat list" where
  "groups16 (a # b # bs) = (256 * unat a + unat b) # groups16 bs"
| "groups16 _ = []"

text \<open>The first longest run of zero groups, of two or more, is printed as a double colon.\<close>

definition zero_run :: "nat list \<Rightarrow> nat" where
  "zero_run gs = length (takeWhile (\<lambda>g. g = 0) gs)"

definition best_run :: "nat list \<Rightarrow> (nat \<times> nat) option" where
  "best_run gs =
     (let runs = map (\<lambda>i. (i, zero_run (drop i gs))) [0..<length gs];
          best = foldl (\<lambda>m (_, l). max m l) 0 runs
      in if best < 2 then None else find (\<lambda>(_, l). l = best) runs)"

definition ipv6_text :: "IP \<Rightarrow> string" where
  "ipv6_text ip =
     (let gs = groups16 ip in
      case best_run gs of
        None \<Rightarrow> join_with '':'' (map hex_text gs)
      | Some (i, l) \<Rightarrow> join_with '':'' (map hex_text (take i gs)) @ ''::'' @
          join_with '':'' (map hex_text (drop (i + l) gs)))"

definition hex_bytes :: "byte list \<Rightarrow> string" where
  "hex_bytes bs = concat (map (\<lambda>b. hex_text (unat b div 16) @ hex_text (unat b mod 16)) bs)"

definition IP_String :: "IP \<Rightarrow> string" where
  "IP_String ip =
     (if ip = [] then ''<nil>''
      else case To4 ip of Some p \<Rightarrow> ipv4_text p
      | None \<Rightarrow> if length ip = 16 then ipv6_text ip else ''?'' @ hex_bytes ip)"

fun ones_of :: "nat \<Rightarrow> byte \<Rightarrow> nat option" where
  "ones_of 0 v = (if v = 0 then Some 0 else None)"
| "ones_of (Suc k) v =
     (if v AND 128 \<noteq> 0 then map_option Suc (ones_of k (push_bit 1 v))
      else if v = 0 then Some 0 else None)"

fun simpleMaskLength :: "byte list \<Rightarrow> nat option" where
  "simpleMaskLength [] = Some 0"
| "simpleMaskLength (v # ms) =
     (if v = 255 then map_option ((+) 8) (simpleMaskLength ms)
      else if list_all (\<lambda>b. b = 0) ms then ones_of 8 v else None)"

definition networkNumberAndMask :: "IPNet \<Rightarrow> (IP \<times> byte list) option" where
  "networkNumberAndMask n =
     (let ip = (case To4 (netIP n) of Some p \<Rightarrow> p | None \<Rightarrow> netIP n); m = netMask n in
      if length ip \<noteq> 4 \<and> length ip \<noteq> 16 then None
      else if length m = 4 then (if length ip = 4 then Some (ip, m) else None)
      else if length m = 16 then Some (ip, if length ip = 4 then drop 12 m else m)
      else None)"

text \<open>The text of a possibly nil network.\<close>

definition IPNet_String :: "IPNet option \<Rightarrow> string" where
  "IPNet_String no =
     (case no of None \<Rightarrow> ''<nil>'' | Some n \<Rightarrow>
        (case networkNumberAndMask n of None \<Rightarrow> ''<nil>''
         | Some (nn, m) \<Rightarrow> IP_String nn @ ''/'' @
             (case simpleMaskLength m of None \<Rightarrow> hex_bytes m | Some l \<Rightarrow> nat_digits l)))"

definition Contains_ip :: "IPNet \<Rightarrow> IP \<Rightarrow> bool" where
  "Contains_ip n ip0 =
     (let ip = (case To4 ip0 of Some p \<Rightarrow> p | None \<Rightarrow> ip0) in
      case networkNumberAndMask n of None \<Rightarrow> ip = []
      | Some (nn, m) \<Rightarrow> length ip = length nn \<and> map2 (AND) nn m = map2 (AND) ip m)"

subsection \<open>The text of an IPv4 network reads back\<close>

lemma octet_byte: "octet (nat_digits (unat (b :: byte))) = Some b"
  using nat_digits_no_lead_zero [of "unat b"] unsigned_less [of b, where ?'a = nat]
  by (auto simp: octet_def dec_val_nat_digits)

lemma dot_not_digit: "CHR ''.'' \<notin> set (nat_digits n)" "CHR ''/'' \<notin> set (nat_digits n)"
    "CHR '':'' \<notin> set (nat_digits n)" "CHR ''%'' \<notin> set (nat_digits n)"
  using nat_digits_is_digit [of "CHR ''.''" n] nat_digits_is_digit [of "CHR ''/''" n]
    nat_digits_is_digit [of "CHR '':''" n] nat_digits_is_digit [of "CHR ''%''" n]
  by (auto simp: is_digit_def digit_of_def)

lemma ip4_cases: "length ip = 4 \<Longrightarrow> (\<And>a b c d. ip = [a, b, c, d] \<Longrightarrow> P) \<Longrightarrow> P"
  by (auto simp: length_Suc_conv numeral_eq_Suc)

lemma ipv4_text4: "ipv4_text [a, b, c, d] =
    nat_digits (unat a) @ CHR ''.'' # nat_digits (unat b) @ CHR ''.'' # nat_digits (unat c) @
    CHR ''.'' # nat_digits (unat d)"
  by (simp add: ipv4_text_def)

lemma parse_ipv4_text: "length ip = 4 \<Longrightarrow> parse_ipv4 (ipv4_text ip) = Some ip"
  by (erule ip4_cases)
     (simp add: ipv4_text4 parse_ipv4_def split_char_app split_char_no_sep dot_not_digit octet_byte)

lemma ipv4_text_slash: "length ip = 4 \<Longrightarrow> CHR ''/'' \<notin> set (ipv4_text ip)"
  by (erule ip4_cases) (simp add: ipv4_text4 dot_not_digit)

lemma digits_skip:
  "dropWhile (\<lambda>c. c \<notin> {CHR ''.'', CHR '':'', CHR ''%''}) (nat_digits n @ CHR ''.'' # s) = CHR ''.'' # s"
  using dot_not_digit by (subst dropWhile_append2) auto

lemma parse_addr_ipv4: "length ip = 4 \<Longrightarrow> parse_addr (ipv4_text ip) = Some ip"
proof (erule ip4_cases)
  fix a b c d assume ip: "ip = [a, b, c, d]"
  have "parse_addr (ipv4_text ip) = parse_ipv4 (ipv4_text ip)"
    unfolding parse_addr_def ip ipv4_text4 digits_skip by simp
  then show ?thesis using parse_ipv4_text [of ip] ip by simp
qed

lemma ParseIP_ipv4: "length ip = 4 \<Longrightarrow> ParseIP (ipv4_text ip) = Some (v4_prefix @ ip)"
  by (simp add: ParseIP_def parse_addr_ipv4 as16_def)

lemma split2_slash: "CHR ''/'' \<notin> set a \<Longrightarrow> split2 (a @ CHR ''/'' # b) ''/'' = Some (a, b)"
  by (induction a) (auto simp: HasPrefix_def)

lemma length_cidr_mask [simp]: "length (cidr_mask l n) = l"
  by (induction l n rule: cidr_mask.induct) auto

lemma cidr_mask_0: "cidr_mask l 0 = replicate l 0"
  by (induction l) simp_all

lemma ones_of_mask: "n < 8 \<Longrightarrow> ones_of 8 (NOT (drop_bit n 255)) = Some n"
proof -
  assume "n < 8"
  then have "n \<in> set [0..<8]" by simp
  moreover have "list_all (\<lambda>n. ones_of 8 (NOT (drop_bit n 255)) = Some n) [0..<8]" by code_simp
  ultimately show ?thesis by (simp add: list_all_iff del: upt_rec_numeral set_upt)
qed

lemma mask_not_full: "n < 8 \<Longrightarrow> NOT (drop_bit n 255) \<noteq> (255 :: byte)"
proof -
  assume "n < 8"
  then have "n \<in> set [0..<8]" by simp
  moreover have "list_all (\<lambda>n. NOT (drop_bit n 255) \<noteq> (255 :: byte)) [0..<8]" by code_simp
  ultimately show ?thesis by (simp add: list_all_iff del: upt_rec_numeral set_upt)
qed

lemma simpleMaskLength_cidr: "n \<le> 8 * l \<Longrightarrow> simpleMaskLength (cidr_mask l n) = Some n"
proof (induction l arbitrary: n)
  case (Suc l)
  show ?case
  proof (cases "n \<ge> 8")
    case True then show ?thesis using Suc by simp
  next
    case False
    then show ?thesis using ones_of_mask [of n] mask_not_full [of n]
      by (simp add: cidr_mask_0 list_all_iff del: ones_of.simps)
  qed
qed simp

definition net4 :: "IP \<Rightarrow> nat \<Rightarrow> IPNet" where
  "net4 ip n = \<lparr>netIP = map2 (AND) ip (CIDRMask n 32), netMask = CIDRMask n 32\<rparr>"

lemma map2_and_idem: "length a = length m \<Longrightarrow> map2 (AND) (map2 (AND) a m) m = map2 (AND) a (m :: byte list)"
  by (induction a m rule: list_induct2) simp_all

lemma length_net4 [simp]: "length ip = 4 \<Longrightarrow> length (netIP (net4 ip n)) = 4"
  by (simp add: net4_def CIDRMask_def)

lemma To4_4 [simp]: "length ip = 4 \<Longrightarrow> To4 ip = Some ip"
  by (simp add: To4_def)

lemma To4_as16 [simp]: "length ip = 4 \<Longrightarrow> To4 (as16 ip) = Some ip"
  by (simp add: To4_def as16_def v4_prefix_def)

lemma networkNumberAndMask_net4: "length ip = 4 \<Longrightarrow>
    networkNumberAndMask (net4 ip n) = Some (netIP (net4 ip n), CIDRMask n 32)"
  by (simp add: networkNumberAndMask_def Let_def) (simp add: net4_def CIDRMask_def)

lemma IPNet_String_net4:
  assumes "length ip = 4" "n \<le> 32"
  shows "IPNet_String (Some (net4 ip n)) = ipv4_text (netIP (net4 ip n)) @ CHR ''/'' # nat_digits n"
proof -
  have "simpleMaskLength (CIDRMask n 32) = Some n"
    using simpleMaskLength_cidr [of n 4] assms(2) by (simp add: CIDRMask_def)
  moreover have "netIP (net4 ip n) \<noteq> []" using length_net4 [OF assms(1), of n] by auto
  ultimately show ?thesis using assms
    by (simp add: IPNet_String_def networkNumberAndMask_net4 IP_String_def)
qed

lemma IP_Mask_net4: "length ip = 4 \<Longrightarrow> IP_Mask (as16 (netIP (net4 ip n))) (CIDRMask n 32) = netIP (net4 ip n)"
  by (simp add: IP_Mask_def as16_def v4_prefix_def CIDRMask_def)
     (simp add: net4_def CIDRMask_def map2_and_idem)

theorem ParseCIDR_String:
  assumes "length ip = 4" "n \<le> 32"
  shows "ParseCIDR (IPNet_String (Some (net4 ip n))) = Inr (as16 (netIP (net4 ip n)), net4 ip n)"
  using assms
  by (simp add: ParseCIDR_def IPNet_String_net4 split2_slash ipv4_text_slash parse_addr_ipv4 dtoi_def
      dec_val_nat_digits IP_Mask_net4) (simp add: net4_def)

lemma net4_parse: "length ip = 4 \<Longrightarrow> n \<le> 32 \<Longrightarrow>
    ParseCIDR (ipv4_text ip @ CHR ''/'' # nat_digits n) = Inr (as16 ip, net4 ip n)"
  by (simp add: ParseCIDR_def split2_slash ipv4_text_slash parse_addr_ipv4 dtoi_def dec_val_nat_digits)
     (simp add: IP_Mask_def as16_def v4_prefix_def CIDRMask_def net4_def Let_def)

subsection \<open>Containment by prefix\<close>

text \<open>The bits of an address, the most significant first.\<close>

definition ip_bit :: "IP \<Rightarrow> nat \<Rightarrow> bool" where
  "ip_bit ip k = bit (ip ! (k div 8)) (7 - k mod 8)"

lemma bit_255: "bit (255 :: byte) j \<longleftrightarrow> j < 8"
proof -
  have "(255 :: byte) = mask 8" by (simp add: mask_eq_exp_minus_1)
  then show ?thesis by (simp only: bit_mask_iff possible_bit_word) auto
qed

lemma bit_tail_byte: "j < 8 \<Longrightarrow> bit (NOT (drop_bit n (255 :: byte))) j \<longleftrightarrow> 8 \<le> n + j"
  by (simp only: bit_not_iff bit_drop_bit_eq o_def possible_bit_word bit_255) auto

lemma bit_cidr_mask:
  "i < l \<Longrightarrow> j < 8 \<Longrightarrow> bit (cidr_mask l n ! i) j \<longleftrightarrow> 8 * i + (7 - j) < n"
proof (induction l n arbitrary: i rule: cidr_mask.induct)
  case (2 l n)
  show ?case
  proof (cases i)
    case 0
    then show ?thesis using 2(4) bit_255 [of j] bit_tail_byte [of j n] by (auto simp del: bit_not_iff)
  next
    case (Suc i')
    then show ?thesis using 2 by (auto simp: less_diff_conv)
  qed
qed simp

lemma byte_and_eq: "(a :: byte) AND m = b AND m \<longleftrightarrow> (\<forall>j < 8. bit m j \<longrightarrow> bit a j = bit b j)"
  by (auto simp: bit_eq_iff bit_and_iff dest: bit_imp_le_length)

lemma masked_eq_iff:
  assumes "length a = l" "length b = l" "n \<le> 8 * l"
  shows "map2 (AND) a (cidr_mask l n) = map2 (AND) b (cidr_mask l n) \<longleftrightarrow> (\<forall>k < n. ip_bit a k = ip_bit b k)"
proof -
  have "map2 (AND) a (cidr_mask l n) = map2 (AND) b (cidr_mask l n) \<longleftrightarrow>
      (\<forall>i < l. a ! i AND cidr_mask l n ! i = b ! i AND cidr_mask l n ! i)"
    using assms(1,2) by (auto simp: list_eq_iff_nth_eq)
  also have "\<dots> \<longleftrightarrow> (\<forall>i < l. \<forall>j < 8. 8 * i + (7 - j) < n \<longrightarrow> bit (a ! i) j = bit (b ! i) j)"
    by (simp add: byte_and_eq bit_cidr_mask)
  also have "\<dots> \<longleftrightarrow> (\<forall>k < n. ip_bit a k = ip_bit b k)" (is "?L \<longleftrightarrow> ?R")
  proof
    assume L: ?L
    show ?R
    proof (intro allI impI)
      fix k assume k: "k < n"
      then have "k div 8 < l" using assms(3) by auto
      moreover have "8 * (k div 8) + (7 - (7 - k mod 8)) < n"
        using k mod_less_divisor [of 8 k] div_mult_mod_eq [of k 8] by linarith
      ultimately show "ip_bit a k = ip_bit b k" using L by (auto simp: ip_bit_def)
    qed
  next
    assume R: ?R
    show ?L
    proof (intro allI impI)
      fix i j :: nat assume "i < l" "j < 8" and k: "8 * i + (7 - j) < n"
      have "(8 * i + (7 - j)) div 8 = i" "(8 * i + (7 - j)) mod 8 = 7 - j" by auto
      then have "ip_bit x (8 * i + (7 - j)) = bit (x ! i) j" for x
        using \<open>j < 8\<close> by (simp add: ip_bit_def)
      with R k show "bit (a ! i) j = bit (b ! i) j" by blast
    qed
  qed
  finally show ?thesis .
qed

theorem Contains_iff:
  assumes "length ip = 4" "length a = 4" "n \<le> 32"
  shows "Contains_ip (net4 ip n) a \<longleftrightarrow> (\<forall>k < n. ip_bit ip k = ip_bit a k)"
    and "Contains_ip (net4 ip n) (as16 a) \<longleftrightarrow> (\<forall>k < n. ip_bit ip k = ip_bit a k)"
  using assms masked_eq_iff [of ip 4 a n]
  by (simp_all add: Contains_ip_def networkNumberAndMask_net4)
     (simp_all add: net4_def CIDRMask_def map2_and_idem)

end
