(* ===== verification/CniIptables.thy ===== *)
theory CniIptables
  imports GoNet
begin

section \<open>simplecni: iptables rules (pkg/utils/network/iptables.go)\<close>

text \<open>
  The rules of the daemon are checked with \<open>iptables\<close> and written in one transaction with
  \<open>iptables-restore\<close>. Both commands are calls of the record \<open>netsys\<close>: the methods of the
  interface \<open>IPTables\<close> (which the code takes as an argument) and the runs of the commands.
  \<open>v6\<close> says which protocol a handle is for. A Go map from tables to lines is the list of its
  entries in the order of insertion; the order in which \<open>range\<close> visits it is the answer of
  \<open>range_tables\<close>. Log output is left out.
\<close>

definition FwdChain :: string where "FwdChain = ''SIMPLECNI-FWD''"
definition PostChain :: string where "PostChain = ''SIMPLECNI-POSTRTG''"

record IPTablesRule =
  Table :: string
  Action :: string
  Chain :: string
  Rulespec :: "string list"

type_synonym restore_spec = "string list"
type_synonym restore_rules = "(string \<times> restore_spec list) list"

record ipt_restore =
  irPath :: string
  irV6 :: bool
  irHasWait :: bool

record 'w netsys =
  ipt_new :: "bool \<Rightarrow> ('w, unit) io"
  has_random_fully :: "bool \<Rightarrow> ('w, bool) io"
  chain_exists :: "bool \<Rightarrow> string \<Rightarrow> string \<Rightarrow> ('w, bool) io"
  clear_chain :: "bool \<Rightarrow> string \<Rightarrow> string \<Rightarrow> ('w, unit) io"
  rule_exists :: "bool \<Rightarrow> string \<Rightarrow> string \<Rightarrow> string list \<Rightarrow> ('w, bool) io"
  look_path :: "string \<Rightarrow> ('w, string) io"
  version_text :: "string \<Rightarrow> ('w, string) io"
  run_restore :: "string \<Rightarrow> string list \<Rightarrow> string \<Rightarrow> ('w, unit) io"
  range_tables :: "string list \<Rightarrow> ('w, string list) io"

definition errorf :: "string \<Rightarrow> ('s, 'a) io \<Rightarrow> ('s, 'a) io" where
  "errorf msg = mapErr (\<lambda>e. Plain (msg @ '': '' @ err_text e))"

subsection \<open>Which of the two chains a rule belongs to\<close>

text \<open>The last word of a rule is read only when the chain is not the forward chain; a rule
  without words panics there.\<close>

definition own_chain :: "IPTablesRule \<Rightarrow> goerr + string option" where
  "own_chain r =
     (if Chain r = FwdChain then Inr (Some FwdChain)
      else if Rulespec r = [] then Inl (Panic ''index out of range [-1]'')
      else if last (Rulespec r) = FwdChain then Inr (Some FwdChain)
      else if Chain r = PostChain \<or> last (Rulespec r) = PostChain then Inr (Some PostChain)
      else Inr None)"

abbreviation check_failed :: string where "check_failed \<equiv> ''failed to check rule existence''"

subsection \<open>Checking\<close>

primrec ipTablesRulesExist :: "'w netsys \<Rightarrow> bool \<Rightarrow> IPTablesRule list \<Rightarrow> ('w, bool) io" where
  "ipTablesRulesExist E v6 [] = ret True"
| "ipTablesRulesExist E v6 (r # rs) =
     bindE (lift (own_chain r)) (\<lambda>own.
     bindE (case own of None \<Rightarrow> ret True
            | Some c \<Rightarrow> errorf check_failed (chain_exists E v6 (Table r) c)) (\<lambda>chainExist.
     if \<not> chainExist then ret False
     else bindE (errorf check_failed (rule_exists E v6 (Table r) (Chain r) (Rulespec r))) (\<lambda>ex.
       if ex then ipTablesRulesExist E v6 rs else ret False)))"

subsection \<open>Building a transaction\<close>

fun add_line :: "string \<Rightarrow> restore_spec \<Rightarrow> restore_rules \<Rightarrow> restore_rules" where
  "add_line t l [] = [(t, [l])]"
| "add_line t l ((t', ls) # rest) = (if t' = t then (t', ls @ [l]) # rest else (t', ls) # add_line t l rest)"

primrec ipTablesCleanAndBuild ::
  "'w netsys \<Rightarrow> bool \<Rightarrow> IPTablesRule list \<Rightarrow> restore_rules \<Rightarrow> ('w, restore_rules) io" where
  "ipTablesCleanAndBuild E v6 [] acc = ret acc"
| "ipTablesCleanAndBuild E v6 (r # rs) acc =
     bindE (lift (own_chain r)) (\<lambda>own.
     bindE (case own of None \<Rightarrow> ret ()
            | Some c \<Rightarrow> bindE (errorf check_failed (chain_exists E v6 (Table r) c)) (\<lambda>chainExist.
                if chainExist then ret ()
                else errorf ''failed to create rule chain'' (clear_chain E v6 (Table r) c))) (\<lambda>_.
     bindE (errorf check_failed (rule_exists E v6 (Table r) (Chain r) (Rulespec r))) (\<lambda>ex.
     let acc1 = (if ex then add_line (Table r) ([''-D'', Chain r] @ Rulespec r) acc else acc);
         acc2 = add_line (Table r) ([Action r, Chain r] @ Rulespec r) acc1
     in ipTablesCleanAndBuild E v6 rs acc2)))"

subsection \<open>The payload and the command\<close>

text \<open>One line: the words separated by blanks, the word after \<open>--comment\<close> quoted. (An empty line
  list of words prints nothing, as the loop over its words does.)\<close>

fun line_words :: "string \<Rightarrow> restore_spec \<Rightarrow> string list" where
  "line_words prev [] = []"
| "line_words prev (w # ws) =
     (if prev = ''--comment'' then CHR 0x22 # w @ [CHR 0x22] else w) # line_words w ws"

definition line_text :: "restore_spec \<Rightarrow> string" where
  "line_text ws = (if ws = [] then [] else join_with '' '' (line_words [] ws) @ [CHR 0x0A])"

definition table_text :: "string \<times> restore_spec list \<Rightarrow> string" where
  "table_text tr = CHR ''*'' # fst tr @ [CHR 0x0A] @ concat (map line_text (snd tr)) @ ''COMMIT'' @ [CHR 0x0A]"

definition buildIPTablesRestorePayload :: "restore_rules \<Rightarrow> string" where
  "buildIPTablesRestorePayload tables = concat (map table_text tables)"

definition in_order :: "string list \<Rightarrow> restore_rules \<Rightarrow> restore_rules" where
  "in_order ts rules = map (\<lambda>t. (t, the (map_of rules t))) (filter (\<lambda>t. map_of rules t \<noteq> None) ts)"

definition ApplyWithoutFlush :: "'w netsys \<Rightarrow> ipt_restore \<Rightarrow> restore_rules \<Rightarrow> ('w, unit) io" where
  "ApplyWithoutFlush E iptr rules =
     bindE (range_tables E (map fst rules)) (\<lambda>order.
     let payload = buildIPTablesRestorePayload (in_order order rules) in
     errorf ''unable to run iptables-restore''
       (run_restore E (irPath iptr) (''--noflush'' # (if irHasWait iptr then [''--wait''] else [])) payload))"

subsection \<open>Set-up, repair and tear-down\<close>

definition IpTablesBootstrap :: "'w netsys \<Rightarrow> bool \<Rightarrow> ipt_restore \<Rightarrow> IPTablesRule list \<Rightarrow> ('w, unit) io" where
  "IpTablesBootstrap E v6 iptr rules =
     bindE (errorf ''failed to setup iptables-restore payload'' (ipTablesCleanAndBuild E v6 rules [])) (\<lambda>tables.
     errorf ''failed to apply partial iptables-restore'' (ApplyWithoutFlush E iptr tables))"

definition EnsureIPTables :: "'w netsys \<Rightarrow> bool \<Rightarrow> ipt_restore \<Rightarrow> IPTablesRule list \<Rightarrow> ('w, unit) io" where
  "EnsureIPTables E v6 iptr rules =
     bindE (errorf ''error checking rule existence'' (ipTablesRulesExist E v6 rules)) (\<lambda>ex.
     if ex then ret () else errorf ''error setting up rules'' (IpTablesBootstrap E v6 iptr rules))"

primrec teardown_lines ::
  "'w netsys \<Rightarrow> bool \<Rightarrow> IPTablesRule list \<Rightarrow> restore_rules \<Rightarrow> ('w, restore_rules) io" where
  "teardown_lines E v6 [] acc = ret acc"
| "teardown_lines E v6 (r # rs) acc =
     bindE (lift (own_chain r)) (\<lambda>own.
     bindE (case own of None \<Rightarrow> ret True
            | Some c \<Rightarrow> errorf check_failed (chain_exists E v6 (Table r) c)) (\<lambda>chainExists.
     if \<not> chainExists then teardown_lines E v6 rs acc
     else bindE (errorf check_failed (rule_exists E v6 (Table r) (Chain r) (Rulespec r))) (\<lambda>ex.
       teardown_lines E v6 rs
         (if ex then add_line (Table r) ([''-D'', Chain r] @ Rulespec r) acc else acc))))"

definition TeardownIPTables :: "'w netsys \<Rightarrow> bool \<Rightarrow> ipt_restore \<Rightarrow> IPTablesRule list \<Rightarrow> ('w, unit) io" where
  "TeardownIPTables E v6 iptr rules =
     bindE (teardown_lines E v6 rules []) (\<lambda>tables.
     errorf ''unable to teardown iptables'' (ApplyWithoutFlush E iptr tables))"

subsection \<open>The version of the command\<close>

text \<open>The leftmost match of \<open>v([0-9]+)\.([0-9]+)\.([0-9]+)\<close>; a dot is no digit, so the greedy
  groups never give back a character.\<close>

definition version_at :: "string \<Rightarrow> (string \<times> string \<times> string) option" where
  "version_at s =
     (case s of [] \<Rightarrow> None | c # s1 \<Rightarrow>
        let a = takeWhile is_digit s1; s2 = dropWhile is_digit s1 in
        if c \<noteq> CHR ''v'' \<or> a = [] then None
        else (case s2 of [] \<Rightarrow> None | d \<Rightarrow>
          let s3 = tl s2; b = takeWhile is_digit s3; s4 = dropWhile is_digit s3 in
          if hd s2 \<noteq> CHR ''.'' \<or> b = [] \<or> s4 = [] \<or> hd s4 \<noteq> CHR ''.'' then None
          else let e = takeWhile is_digit (tl s4) in if e = [] then None else Some (a, b, e)))"

fun find_version :: "string \<Rightarrow> (string \<times> string \<times> string) option" where
  "find_version [] = None"
| "find_version (c # s) = (case version_at (c # s) of Some v \<Rightarrow> Some v | None \<Rightarrow> find_version s)"

definition Atoi :: "string \<Rightarrow> goerr + nat" where
  "Atoi s = (case dec_val 0 s of
     Some n \<Rightarrow> if n < 2 ^ 63 then Inr n else Inl (Plain (''strconv.Atoi: parsing '' @ dquote s @ '': value out of range''))
   | None \<Rightarrow> Inl (Plain (''strconv.Atoi: parsing '' @ dquote s @ '': invalid syntax'')))"

definition extractIPTablesRestoreVersion :: "string \<Rightarrow> goerr + (nat \<times> nat \<times> nat)" where
  "extractIPTablesRestoreVersion str =
     (case find_version str of
        None \<Rightarrow> Inl (Plain (''no iptables-restore version found in string: '' @ str))
      | Some (a, b, c) \<Rightarrow>
          (case Atoi a of Inl e \<Rightarrow> Inl e | Inr v1 \<Rightarrow>
          (case Atoi b of Inl e \<Rightarrow> Inl e | Inr v2 \<Rightarrow>
          (case Atoi c of Inl e \<Rightarrow> Inl e | Inr v3 \<Rightarrow> Inr (v1, v2, v3)))))"

definition ipTablesHasWaitSupport :: "nat \<Rightarrow> nat \<Rightarrow> nat \<Rightarrow> bool" where
  "ipTablesHasWaitSupport v1 v2 v3 =
     (if v1 > 1 then True else if v1 = 1 \<and> v2 > 6 then True
      else if v1 = 1 \<and> v2 = 6 \<and> v3 \<ge> 2 then True else False)"

definition getIPTablesRestoreSupport :: "'w netsys \<Rightarrow> string \<Rightarrow> ('w, bool) io" where
  "getIPTablesRestoreSupport E path =
     bindE (errorf ''unable to find iptables-restore version'' (version_text E path)) (\<lambda>version.
     bindE (lift (extractIPTablesRestoreVersion version)) (\<lambda>(v1, v2, v3).
     ret (ipTablesHasWaitSupport v1 v2 v3)))"

definition getIPTablesRestoreCommand :: "bool \<Rightarrow> string" where
  "getIPTablesRestoreCommand v6 = (if v6 then ''ip6tables-restore'' else ''iptables-restore'')"

definition getIPTablesCommand :: "bool \<Rightarrow> string" where
  "getIPTablesCommand v6 = (if v6 then ''ip6tables'' else ''iptables'')"

definition NewIPTablesRestoreWithProtocol :: "'w netsys \<Rightarrow> bool \<Rightarrow> ('w, ipt_restore) io" where
  "NewIPTablesRestoreWithProtocol E v6 =
     bindE (look_path E (getIPTablesRestoreCommand v6)) (\<lambda>path.
     bindE (look_path E (getIPTablesCommand v6)) (\<lambda>pathIptables.
     bindE (getIPTablesRestoreSupport E pathIptables) (\<lambda>hasWait.
     ret \<lparr>irPath = path, irV6 = v6, irHasWait = hasWait\<rparr>)))"

end
