(* ===== verification/CniFirewall.thy ===== *)
theory CniFirewall
  imports CniIptables "HOL-Library.Multiset"
begin

section \<open>simplecni: what the iptables commands do, and what the daemon makes of them\<close>

text \<open>
  The rules of one protocol are a map from a table and a chain to the list of its rules.
  \<open>restore_tables\<close> is the effect of \<open>iptables-restore --noflush\<close> as its manual describes it:
  \<open>-A\<close> appends, \<open>-D\<close> deletes the first matching rule and fails without one, and a table is
  committed as a whole or not at all. \<open>ipt_behaves\<close> names the documented behaviour of the
  commands; the lemmas say what \<open>IpTablesBootstrap\<close>, \<open>EnsureIPTables\<close> and \<open>TeardownIPTables\<close>
  then do to the rules. \<open>read_payload\<close> reads the text of a transaction back.
\<close>

type_synonym ruleset = "string \<times> string \<rightharpoonup> string list list"

fun restore_line :: "string \<Rightarrow> restore_spec \<Rightarrow> ruleset \<Rightarrow> ruleset option" where
  "restore_line t (cmd # c # spec) R =
     (case R (t, c) of None \<Rightarrow> None
      | Some L \<Rightarrow>
          if cmd = ''-A'' then Some (R((t, c) \<mapsto> L @ [spec]))
          else if cmd = ''-D'' \<and> spec \<in> set L then Some (R((t, c) \<mapsto> remove1 spec L))
          else None)"
| "restore_line t _ R = None"

fun restore_lines :: "string \<Rightarrow> restore_spec list \<Rightarrow> ruleset \<Rightarrow> ruleset option" where
  "restore_lines t [] R = Some R"
| "restore_lines t (l # ls) R = (case restore_line t l R of None \<Rightarrow> None | Some R' \<Rightarrow> restore_lines t ls R')"

text \<open>The tables are committed one after the other, until one fails.\<close>

fun restore_tables :: "restore_rules \<Rightarrow> ruleset \<Rightarrow> bool \<times> ruleset" where
  "restore_tables [] R = (True, R)"
| "restore_tables ((t, ls) # rest) R =
     (case restore_lines t ls R of None \<Rightarrow> (False, R) | Some R' \<Rightarrow> restore_tables rest R')"

subsection \<open>The text of a transaction\<close>

text \<open>Words that need no quoting; \<open><nil>\<close>, the text of an address range that is not there, is
  not an argument the commands accept.\<close>

definition clean_word :: "string \<Rightarrow> bool" where
  "clean_word w \<longleftrightarrow> w \<noteq> [] \<and> w \<noteq> ''<nil>'' \<and> CHR '' '' \<notin> set w \<and> CHR 0x0A \<notin> set w \<and> CHR 0x22 \<notin> set w"

definition clean_comment :: "string \<Rightarrow> bool" where
  "clean_comment w \<longleftrightarrow> w \<noteq> [] \<and> w \<noteq> ''<nil>'' \<and> CHR 0x0A \<notin> set w \<and> CHR 0x22 \<notin> set w"

fun clean_words :: "string \<Rightarrow> string list \<Rightarrow> bool" where
  "clean_words prev [] = True"
| "clean_words prev (w # ws) =
     ((if prev = ''--comment'' then clean_comment w else clean_word w) \<and> clean_words w ws)"

lemma clean_words_nil: "clean_words prev ws \<Longrightarrow> ''<nil>'' \<notin> set ws"
  by (induction prev ws rule: clean_words.induct) (auto simp: clean_word_def clean_comment_def split: if_splits)

definition clean_line :: "restore_spec \<Rightarrow> bool" where
  "clean_line ws \<longleftrightarrow> ws \<noteq> [] \<and> hd ws \<in> {''-A'', ''-D''} \<and> clean_words [] ws"

definition clean_rules :: "restore_rules \<Rightarrow> bool" where
  "clean_rules rules \<longleftrightarrow> (\<forall>(t, ls) \<in> set rules. clean_word t \<and> (\<forall>l \<in> set ls. clean_line l))"

fun words_of :: "bool \<Rightarrow> string \<Rightarrow> string \<Rightarrow> string list" where
  "words_of quoted cur [] = (if cur = [] then [] else [cur])"
| "words_of False cur (c # cs) =
     (if c = CHR '' '' then (if cur = [] then words_of False [] cs else cur # words_of False [] cs)
      else if c = CHR 0x22 then words_of True cur cs else words_of False (cur @ [c]) cs)"
| "words_of True cur (c # cs) =
     (if c = CHR 0x22 then words_of False cur cs else words_of True (cur @ [c]) cs)"

fun read_lines :: "string list \<Rightarrow> (string \<times> restore_spec list) option \<Rightarrow> restore_rules option" where
  "read_lines [] None = Some []"
| "read_lines [] (Some _) = None"
| "read_lines (l # ls) None =
     (if l = [] then read_lines ls None
      else if hd l = CHR ''*'' then read_lines ls (Some (tl l, [])) else None)"
| "read_lines (l # ls) (Some (t, acc)) =
     (if l = ''COMMIT'' then map_option ((#) (t, acc)) (read_lines ls None)
      else read_lines ls (Some (t, acc @ [words_of False [] l])))"

definition read_payload :: "string \<Rightarrow> restore_rules option" where
  "read_payload s = read_lines (split_char (CHR 0x0A) s) None"

lemma words_of_plain:
  "CHR '' '' \<notin> set w \<Longrightarrow> CHR 0x22 \<notin> set w \<Longrightarrow> words_of False cur (w @ r) = words_of False (cur @ w) r"
  by (induction w arbitrary: cur) auto

lemma words_of_quoted: "CHR 0x22 \<notin> set w \<Longrightarrow> words_of True cur (w @ r) = words_of True (cur @ w) r"
  by (induction w arbitrary: cur) auto

lemma line_words_ne: "line_words prev ws = [] \<longleftrightarrow> ws = []"
  by (cases ws) auto

lemma words_of_line: "clean_words prev ws \<Longrightarrow> words_of False [] (join_with '' '' (line_words prev ws)) = ws"
proof (induction prev ws rule: clean_words.induct)
  case (2 prev w ws)
  have w: "words_of False [] ((if prev = ''--comment'' then CHR 0x22 # w @ [CHR 0x22] else w) @ r) =
      words_of False w r" for r
    using 2(2) by (auto simp: words_of_plain words_of_quoted clean_word_def clean_comment_def)
  have ne: "w \<noteq> []" using 2(2) by (auto simp: clean_word_def clean_comment_def split: if_splits)
  show ?case
  proof (cases ws)
    case Nil then show ?thesis using w [of "[]"] ne by simp
  next
    case (Cons v vs)
    then obtain u us where "line_words w ws = u # us" by (cases "line_words w ws") (auto simp: line_words_ne)
    then show ?thesis using w [of "CHR '' '' # join_with '' '' (line_words w ws)"] ne 2 by simp
  qed
qed simp

lemma no_newline_words: "clean_words prev ws \<Longrightarrow> CHR 0x0A \<notin> set (join_with '' '' (line_words prev ws))"
proof (induction prev ws rule: clean_words.induct)
  case (2 prev w ws)
  then show ?case
    by (cases "line_words w ws") (auto simp: clean_word_def clean_comment_def split: if_splits)
qed simp

lemma join_with_hd: "xs \<noteq> [] \<Longrightarrow> \<exists>r. join_with sep xs = hd xs @ r"
  by (induction sep xs rule: join_with.induct) auto

lemma clean_line_text:
  assumes "clean_line l"
  shows "\<exists>s. line_text l = s @ [CHR 0x0A] \<and> CHR 0x0A \<notin> set s \<and> s \<noteq> ''COMMIT'' \<and> words_of False [] s = l"
proof -
  let ?s = "join_with '' '' (line_words [] l)"
  obtain r where "?s = hd (line_words [] l) @ r"
    using join_with_hd [of "line_words [] l" "'' ''"] assms by (auto simp: clean_line_def line_words_ne)
  then have "?s \<noteq> ''COMMIT''" using assms by (cases l) (auto simp: clean_line_def)
  then show ?thesis using assms by (auto simp: clean_line_def line_text_def words_of_line no_newline_words)
qed

lemma read_table_lines:
  assumes "\<forall>l \<in> set ls. clean_line l"
  shows "read_lines (split_char (CHR 0x0A) (concat (map line_text ls) @ r)) (Some (t, acc)) =
    read_lines (split_char (CHR 0x0A) r) (Some (t, acc @ ls))"
  using assms
proof (induction ls arbitrary: acc)
  case (Cons l ls)
  then obtain s where s: "line_text l = s @ [CHR 0x0A]" "CHR 0x0A \<notin> set s" "s \<noteq> ''COMMIT''"
      "words_of False [] s = l" using clean_line_text [of l] by auto
  then show ?case using Cons by (simp add: split_char_app)
qed simp

theorem read_payload_build:
  assumes "clean_rules rules"
  shows "read_payload (buildIPTablesRestorePayload rules) = Some rules"
  using assms
proof (induction rules)
  case Nil then show ?case by (simp add: read_payload_def buildIPTablesRestorePayload_def)
next
  case (Cons tr rules)
  obtain t ls where tr: "tr = (t, ls)" by force
  have nl: "CHR 0x0A \<notin> set t" "t \<noteq> []" and ls: "\<forall>l \<in> set ls. clean_line l"
    using Cons(2) tr by (auto simp: clean_rules_def clean_word_def)
  let ?rest = "buildIPTablesRestorePayload rules"
  have "buildIPTablesRestorePayload (tr # rules) =
      (CHR ''*'' # t) @ CHR 0x0A # concat (map line_text ls) @ ''COMMIT'' @ CHR 0x0A # ?rest"
    by (simp add: buildIPTablesRestorePayload_def table_text_def tr)
  then have "read_payload (buildIPTablesRestorePayload (tr # rules)) =
      read_lines (split_char (CHR 0x0A) (''COMMIT'' @ CHR 0x0A # ?rest)) (Some (t, ls))"
    using nl read_table_lines [OF ls, where acc = "[]"] split_char_app [of "CHR 0x0A" "CHR ''*'' # t"]
    by (simp add: read_payload_def)
  also have "\<dots> = map_option ((#) (t, ls)) (read_payload ?rest)"
    using split_char_app [of "CHR 0x0A" "''COMMIT''" ?rest] by (simp add: read_payload_def)
  finally show ?case using Cons tr by (simp add: clean_rules_def)
qed

subsection \<open>The documented behaviour of the commands\<close>

text \<open>\<open>V\<close> reads the rules of the protocol out of the state of the host. The protocol of a run of
  \<open>iptables-restore\<close> is told by the name of the command.\<close>

definition restore_v6 :: "string \<Rightarrow> bool" where
  "restore_v6 path \<longleftrightarrow> last (split_char (CHR ''/'') path) = ''ip6tables-restore''"

definition ipt_behaves :: "'w netsys \<Rightarrow> bool \<Rightarrow> ('w \<Rightarrow> ruleset) \<Rightarrow> bool" where
  "ipt_behaves E v6 V \<longleftrightarrow>
     (\<forall>w t c. \<exists>w'. chain_exists E v6 t c w = (Inr (V w (t, c) \<noteq> None), w') \<and> V w' = V w) \<and>
     (\<forall>w t c. \<exists>w'. clear_chain E v6 t c w = (Inr (), w') \<and> V w' = (V w)((t, c) \<mapsto> [])) \<and>
     (\<forall>w t c spec L. V w (t, c) = Some L \<longrightarrow> clean_words c spec \<longrightarrow>
        (\<exists>w'. rule_exists E v6 t c spec w = (Inr (spec \<in> set L), w') \<and> V w' = V w)) \<and>
     (\<forall>w ts. \<exists>order w'. range_tables E ts w = (Inr order, w') \<and> mset order = mset ts \<and> V w' = V w) \<and>
     (\<forall>w path args rules. restore_v6 path = v6 \<longrightarrow> clean_rules rules \<longrightarrow>
        (\<exists>r w'. run_restore E path args (buildIPTablesRestorePayload rules) w = (r, w') \<and>
           V w' = snd (restore_tables rules (V w)) \<and>
           (if fst (restore_tables rules (V w)) then r = Inr () else \<exists>m. r = Inl (Plain m))))"

lemma behaves_chain: "ipt_behaves E v6 V \<Longrightarrow>
    \<exists>w'. chain_exists E v6 t c w = (Inr (V w (t, c) \<noteq> None), w') \<and> V w' = V w"
  by (simp add: ipt_behaves_def)

lemma behaves_clear: "ipt_behaves E v6 V \<Longrightarrow>
    \<exists>w'. clear_chain E v6 t c w = (Inr (), w') \<and> V w' = (V w)((t, c) \<mapsto> [])"
  by (simp add: ipt_behaves_def)

lemma behaves_rule: "ipt_behaves E v6 V \<Longrightarrow> V w (t, c) = Some L \<Longrightarrow> clean_words c spec \<Longrightarrow>
    \<exists>w'. rule_exists E v6 t c spec w = (Inr (spec \<in> set L), w') \<and> V w' = V w"
  by (simp add: ipt_behaves_def)

lemma behaves_range: "ipt_behaves E v6 V \<Longrightarrow>
    \<exists>order w'. range_tables E ts w = (Inr order, w') \<and> mset order = mset ts \<and> V w' = V w"
  by (simp add: ipt_behaves_def)

lemma behaves_restore: "ipt_behaves E v6 V \<Longrightarrow> restore_v6 path = v6 \<Longrightarrow> clean_rules rules \<Longrightarrow>
    \<exists>r w'. run_restore E path args (buildIPTablesRestorePayload rules) w = (r, w') \<and>
       V w' = snd (restore_tables rules (V w)) \<and>
       (if fst (restore_tables rules (V w)) then r = Inr () else \<exists>m. r = Inl (Plain m))"
  by (simp add: ipt_behaves_def)

lemma errorf_apply [io_simps]: "errorf msg m s =
    (case m s of (Inl e, s') \<Rightarrow> (Inl (if is_panic e then e else Plain (msg @ '': '' @ err_text e)), s')
     | (Inr x, s') \<Rightarrow> (Inr x, s'))"
  by (auto simp: errorf_def mapErr_def tryE_def split: prod.splits sum.splits)

subsection \<open>Rules of one table\<close>

definition has_rule :: "ruleset \<Rightarrow> string \<times> string \<Rightarrow> string list \<Rightarrow> bool" where
  "has_rule R k spec \<longleftrightarrow> (\<exists>L. R k = Some L \<and> spec \<in> set L)"

definition ensure_own :: "IPTablesRule \<Rightarrow> ruleset \<Rightarrow> ruleset" where
  "ensure_own r R = (case own_chain r of Inr (Some c) \<Rightarrow>
     if R (Table r, c) = None then R((Table r, c) \<mapsto> []) else R | _ \<Rightarrow> R)"

definition ready :: "IPTablesRule list \<Rightarrow> ruleset \<Rightarrow> ruleset" where
  "ready rules R = fold ensure_own rules R"

text \<open>The rules the daemon handles: all of one table, appended, with words, in a chain that
  exists or is created for them.\<close>

definition table_rule :: "string \<Rightarrow> ruleset \<Rightarrow> IPTablesRule \<Rightarrow> bool" where
  "table_rule t R r \<longleftrightarrow> Table r = t \<and> Action r = ''-A'' \<and> Rulespec r \<noteq> [] \<and>
     (R (t, Chain r) \<noteq> None \<or> own_chain r = Inr (Some (Chain r))) \<and>
     clean_word t \<and> clean_words [] (''-A'' # Chain r # Rulespec r)"

definition add_of :: "IPTablesRule \<Rightarrow> restore_spec" where "add_of r = ''-A'' # Chain r # Rulespec r"
definition del_of :: "IPTablesRule \<Rightarrow> restore_spec" where "del_of r = ''-D'' # Chain r # Rulespec r"

definition build :: "string \<Rightarrow> ruleset \<Rightarrow> IPTablesRule \<Rightarrow> restore_spec list" where
  "build t R r = (if has_rule R (t, Chain r) (Rulespec r) then [del_of r] else []) @ [add_of r]"

definition tab :: "string \<Rightarrow> restore_spec list \<Rightarrow> restore_rules" where
  "tab t ls = (if ls = [] then [] else [(t, ls)])"

lemma add_line_tab [simp]: "add_line t l (tab t ls) = tab t (ls @ [l])"
  by (simp add: tab_def)

lemma has_rule_ensure_own [simp]: "has_rule (ensure_own r R) = has_rule R"
  by (intro ext) (auto simp: has_rule_def ensure_own_def split: sum.splits option.splits)

lemma has_rule_ready [simp]: "has_rule (ready rules R) = has_rule R"
  by (induction rules arbitrary: R) (simp_all add: ready_def)

lemma ensure_own_mono: "R k \<noteq> None \<Longrightarrow> ensure_own r R k = R k"
  by (auto simp: ensure_own_def split: sum.splits option.splits)

lemma ready_mono: "R k \<noteq> None \<Longrightarrow> ready rules R k = R k"
  by (induction rules arbitrary: R) (auto simp: ready_def ensure_own_mono)

lemma ready_other: "\<forall>r \<in> set rules. Table r = t \<Longrightarrow> t' \<noteq> t \<Longrightarrow> ready rules R (t', c) = R (t', c)"
  by (induction rules arbitrary: R) (auto simp: ready_def ensure_own_def split: sum.splits option.splits)

lemma ready_own: "r \<in> set rules \<Longrightarrow> own_chain r = Inr (Some c) \<Longrightarrow> ready rules R (Table r, c) \<noteq> None"
proof (induction rules arbitrary: R)
  case (Cons a rules)
  show ?case
  proof (cases "r = a")
    case True
    then have "ensure_own a R (Table r, c) \<noteq> None" using Cons(3) by (auto simp: ensure_own_def)
    then show ?thesis using ready_mono by (fastforce simp: ready_def)
  qed (use Cons in \<open>auto simp: ready_def\<close>)
qed simp

lemma table_rule_mono: "table_rule t R r \<Longrightarrow> (R (t, Chain r) \<noteq> None \<Longrightarrow> R' (t, Chain r) \<noteq> None) \<Longrightarrow> table_rule t R' r"
  by (auto simp: table_rule_def)

lemma table_rule_ready: "\<forall>r \<in> set rules. table_rule t R r \<Longrightarrow> r \<in> set rules \<Longrightarrow> ready rules R (t, Chain r) \<noteq> None"
  using ready_mono [of R _ rules] ready_own [of r rules "Chain r" R] by (fastforce simp: table_rule_def)

lemma own_chain_Inr: "Rulespec r \<noteq> [] \<Longrightarrow> \<exists>own. own_chain r = Inr own"
  by (auto simp: own_chain_def)


subsection \<open>The transaction the daemon builds\<close>

lemma clean_and_build_step:
  assumes E: "ipt_behaves E v6 V" and r: "table_rule t (V w) r"
  shows "\<exists>w'. V w' = ensure_own r (V w) \<and>
    ipTablesCleanAndBuild E v6 (r # rs) (tab t ls) w = ipTablesCleanAndBuild E v6 rs (tab t (ls @ build t (V w) r)) w'"
proof -
  have T: "Table r = t" "Action r = ''-A''" and spec: "Rulespec r \<noteq> []"
      and clean: "clean_words (Chain r) (Rulespec r)" using r by (auto simp: table_rule_def)
  obtain own where own: "own_chain r = Inr own" using own_chain_Inr [OF spec] by blast
  have "\<exists>w1. V w1 = ensure_own r (V w) \<and>
      (case own of None \<Rightarrow> ret ()
            | Some c \<Rightarrow> bindE (errorf check_failed (chain_exists E v6 (Table r) c)) (\<lambda>chainExist.
                if chainExist then ret ()
                else errorf ''failed to create rule chain'' (clear_chain E v6 (Table r) c))) w = (Inr (), w1)"
  proof (cases own)
    case None then show ?thesis using own by (auto simp: ensure_own_def io_simps)
  next
    case (Some c)
    obtain w1 where w1: "chain_exists E v6 t c w = (Inr (V w (t, c) \<noteq> None), w1)" "V w1 = V w"
      using behaves_chain [OF E, of t c w] by blast
    obtain w2 where w2: "clear_chain E v6 t c w1 = (Inr (), w2)" "V w2 = (V w1)((t, c) \<mapsto> [])"
      using behaves_clear [OF E, of t c w1] by blast
    show ?thesis using w1 w2 own Some T by (auto simp: ensure_own_def io_simps)
  qed
  then obtain w1 where w1: "V w1 = ensure_own r (V w)" and run: "(case own of None \<Rightarrow> ret ()
            | Some c \<Rightarrow> bindE (errorf check_failed (chain_exists E v6 (Table r) c)) (\<lambda>chainExist.
                if chainExist then ret ()
                else errorf ''failed to create rule chain'' (clear_chain E v6 (Table r) c))) w = (Inr (), w1)"
    by blast
  have "V w1 (t, Chain r) \<noteq> None"
    using r ensure_own_mono [of "V w" "(t, Chain r)" r] by (auto simp: w1 table_rule_def ensure_own_def)
  then obtain L where L: "V w1 (t, Chain r) = Some L" by blast
  obtain w2 where w2: "rule_exists E v6 t (Chain r) (Rulespec r) w1 = (Inr (Rulespec r \<in> set L), w2)" "V w2 = V w1"
    using behaves_rule [OF E L clean] by blast
  have "(Rulespec r \<in> set L) = has_rule (V w) (t, Chain r) (Rulespec r)"
    using L has_rule_ensure_own [of r "V w"] by (metis has_rule_def option.inject w1)
  then show ?thesis
    using run w1 w2 own T
    by (intro exI [of _ w2]) (auto simp: io_simps build_def add_of_def del_of_def)
qed

lemma build_cong: "has_rule R = has_rule R' \<Longrightarrow> build t R = build t R'"
  by (intro ext) (simp add: build_def)

lemma clean_and_build:
  assumes E: "ipt_behaves E v6 V" and rules: "\<forall>r \<in> set rules. table_rule t (V w) r"
  shows "\<exists>w'. V w' = ready rules (V w) \<and>
    ipTablesCleanAndBuild E v6 rules (tab t ls) w = (Inr (tab t (ls @ concat (map (build t (V w)) rules))), w')"
  using rules
proof (induction rules arbitrary: w ls)
  case Nil then show ?case by (auto simp: ready_def ret_def)
next
  case (Cons r rules)
  obtain w1 where w1: "V w1 = ensure_own r (V w)"
    "ipTablesCleanAndBuild E v6 (r # rules) (tab t ls) w =
       ipTablesCleanAndBuild E v6 rules (tab t (ls @ build t (V w) r)) w1"
    using clean_and_build_step [OF E, of t w r rules ls] Cons(2) by auto
  have "\<forall>r' \<in> set rules. table_rule t (V w1) r'"
  proof
    fix r' assume "r' \<in> set rules"
    then have "table_rule t (V w) r'" using Cons(2) by simp
    then show "table_rule t (V w1) r'"
      by (rule table_rule_mono) (simp add: w1(1) ensure_own_mono)
  qed
  moreover have "build t (V w1) = build t (V w)" by (rule build_cong) (simp add: w1(1))
  ultimately show ?case
    using Cons(1) [of w1 "ls @ build t (V w) r"] w1 by (auto simp: ready_def)
qed

subsection \<open>What the transaction does\<close>

definition place :: "IPTablesRule \<Rightarrow> ruleset \<Rightarrow> ruleset" where
  "place r R = R((Table r, Chain r) :=
     map_option (\<lambda>L. remove1 (Rulespec r) L @ [Rulespec r]) (R (Table r, Chain r)))"

lemma place_dom: "place r R k = None \<longleftrightarrow> R k = None"
  by (auto simp: place_def)

lemma restore_lines_append: "restore_lines t (xs @ ys) R =
    (case restore_lines t xs R of None \<Rightarrow> None | Some R' \<Rightarrow> restore_lines t ys R')"
  by (induction xs arbitrary: R) (auto split: option.splits)

lemma restore_build:
  assumes "Table r = t" "R (t, Chain r) \<noteq> None"
    "has_rule R0 (t, Chain r) (Rulespec r) = has_rule R (t, Chain r) (Rulespec r)"
  shows "restore_lines t (build t R0 r) R = Some (place r R)"
  using assms by (auto simp: build_def add_of_def del_of_def place_def has_rule_def remove1_idem)

lemma has_rule_place:
  "(k, s) \<noteq> ((Table r, Chain r), Rulespec r) \<Longrightarrow> has_rule (place r R) k s = has_rule R k s"
  by (auto simp: has_rule_def place_def)

definition rule_key :: "IPTablesRule \<Rightarrow> string \<times> string list" where
  "rule_key r = (Chain r, Rulespec r)"

lemma restore_builds:
  assumes "distinct (map rule_key rules)"
    "\<forall>r \<in> set rules. Table r = t \<and> R (t, Chain r) \<noteq> None \<and>
       has_rule R0 (t, Chain r) (Rulespec r) = has_rule R (t, Chain r) (Rulespec r)"
  shows "restore_lines t (concat (map (build t R0) rules)) R = Some (fold place rules R)"
  using assms
proof (induction rules arbitrary: R)
  case (Cons r rules)
  have "restore_lines t (concat (map (build t R0) rules)) (place r R) = Some (fold place rules (place r R))"
  proof (rule Cons(1))
    show "distinct (map rule_key rules)" using Cons(2) by simp
    show "\<forall>q \<in> set rules. Table q = t \<and> place r R (t, Chain q) \<noteq> None \<and>
       has_rule R0 (t, Chain q) (Rulespec q) = has_rule (place r R) (t, Chain q) (Rulespec q)"
    proof
      fix q assume q: "q \<in> set rules"
      then have "rule_key q \<noteq> rule_key r" using Cons(2) by (auto simp: image_iff)
      then show "Table q = t \<and> place r R (t, Chain q) \<noteq> None \<and>
         has_rule R0 (t, Chain q) (Rulespec q) = has_rule (place r R) (t, Chain q) (Rulespec q)"
        using Cons(3) q has_rule_place [of "(t, Chain q)" "Rulespec q" r R]
          by (auto simp: place_dom rule_key_def)
    qed
  qed
  then show ?case using Cons(3) restore_build [of r t R R0] by (simp add: restore_lines_append)
qed simp

text \<open>The rules end up at the end of their chain, in the order of the list and with nothing
  between them; what else the chain holds stays in its order.\<close>

definition specs_in :: "IPTablesRule list \<Rightarrow> string \<times> string \<Rightarrow> string list list" where
  "specs_in rules k = map Rulespec (filter (\<lambda>r. (Table r, Chain r) = k) rules)"

lemma fold_move_end:
  "distinct specs \<Longrightarrow> set specs \<inter> set acc = {} \<Longrightarrow>
     fold (\<lambda>s L. remove1 s L @ [s]) specs (L @ acc) = fold remove1 specs L @ acc @ specs"
proof (induction specs arbitrary: L acc)
  case (Cons s specs)
  have "remove1 s (L @ acc) = remove1 s L @ acc" using Cons(3) by (auto simp: remove1_append remove1_idem)
  moreover have "set specs \<inter> set (acc @ [s]) = {}" using Cons(2,3) by auto
  ultimately show ?case using Cons(1) [of "acc @ [s]" "remove1 s L"] Cons(2) by simp
qed simp

lemma fold_place:
  "fold place rules R k = map_option (fold (\<lambda>s L. remove1 s L @ [s]) (specs_in rules k)) (R k)"
  by (induction rules arbitrary: R) (auto simp: specs_in_def place_def option.map_comp o_def option.map_ident id_def)

lemma distinct_specs_in:
  "distinct (map rule_key rules) \<Longrightarrow> distinct (specs_in rules k)"
proof (induction rules)
  case (Cons r rules)
  have "Rulespec r \<notin> set (specs_in rules (Table r, Chain r))"
  proof
    assume "Rulespec r \<in> set (specs_in rules (Table r, Chain r))"
    then obtain q where "q \<in> set rules" "rule_key q = rule_key r" by (auto simp: specs_in_def rule_key_def)
    then show False using Cons(2) by (metis distinct.simps(2) image_eqI list.set_map list.simps(9))
  qed
  then show ?case using Cons by (auto simp: specs_in_def)
qed (simp add: specs_in_def)

lemma fold_place_distinct:
  "distinct (map rule_key rules) \<Longrightarrow>
     fold place rules R k = map_option (\<lambda>L. fold remove1 (specs_in rules k) L @ specs_in rules k) (R k)"
  using fold_move_end [OF distinct_specs_in, of rules k "[]"] by (cases "R k") (simp_all add: fold_place)

subsection \<open>Applying a transaction\<close>

text \<open>A transaction with at most one entry, not empty, per table.\<close>

definition one_per_table :: "restore_rules \<Rightarrow> bool" where
  "one_per_table rules \<longleftrightarrow> distinct (map fst rules) \<and> [] \<notin> snd ` set rules"

definition lines_for :: "restore_rules \<Rightarrow> string \<Rightarrow> restore_spec list" where
  "lines_for rules t = (case map_of rules t of None \<Rightarrow> [] | Some ls \<Rightarrow> ls)"

lemma fst_add_line: "fst ` set (add_line t l rules) = insert t (fst ` set rules)"
  by (induction t l rules rule: add_line.induct) auto

lemma distinct_add_line: "distinct (map fst rules) \<Longrightarrow> distinct (map fst (add_line t l rules))"
  by (induction t l rules rule: add_line.induct) (auto simp: fst_add_line)

lemma nonempty_add_line: "[] \<notin> snd ` set rules \<Longrightarrow> [] \<notin> snd ` set (add_line t l rules)"
  by (induction t l rules rule: add_line.induct) simp_all

lemma one_per_table_add_line: "one_per_table rules \<Longrightarrow> one_per_table (add_line t l rules)"
  by (simp add: one_per_table_def distinct_add_line nonempty_add_line)

lemma lines_for_add_line: "lines_for (add_line t l rules) t' = lines_for rules t' @ (if t' = t then [l] else [])"
  by (induction t l rules rule: add_line.induct) (auto simp: lines_for_def)

lemma one_per_table_tab [simp]: "one_per_table (tab t ls)"
  by (simp add: one_per_table_def tab_def)

lemma lines_for_tab [simp]: "lines_for (tab t ls) t' = (if t' = t then ls else [])"
  by (simp add: lines_for_def tab_def)

lemma lines_for_mem: "one_per_table rules \<Longrightarrow> (t, ls) \<in> set rules \<longleftrightarrow> ls \<noteq> [] \<and> lines_for rules t = ls"
proof -
  assume one: "one_per_table rules"
  then have "(t, ls) \<in> set rules \<longleftrightarrow> map_of rules t = Some ls" by (simp add: one_per_table_def)
  moreover have "(t, ls) \<in> set rules \<Longrightarrow> ls \<noteq> []" using one by (force simp: one_per_table_def)
  ultimately show ?thesis by (auto simp: lines_for_def split: option.splits)
qed

lemma one_table: "one_per_table rules \<Longrightarrow> (\<And>t'. t' \<noteq> t \<Longrightarrow> lines_for rules t' = []) \<Longrightarrow> rules = tab t (lines_for rules t)"
proof (cases rules)
  case (Cons tr rest)
  assume one: "one_per_table rules" and other: "\<And>t'. t' \<noteq> t \<Longrightarrow> lines_for rules t' = []"
  have all: "fst q = t" if "q \<in> set rules" for q
    using lines_for_mem [OF one, of "fst q" "snd q"] other [of "fst q"] that by auto
  have "rest = []"
  proof (rule ccontr)
    assume "rest \<noteq> []"
    then obtain q where "q \<in> set rest" by (cases rest) auto
    then show False using all [of q] all [of tr] one Cons by (auto simp: one_per_table_def)
  qed
  then show ?thesis using all [of tr] one Cons
    by (cases tr) (auto simp: tab_def lines_for_def one_per_table_def)
qed (simp add: tab_def lines_for_def)

lemma in_order_perm:
  assumes "one_per_table rules" "mset order = mset (map fst rules)"
  shows "one_per_table (in_order order rules)" "mset (in_order order rules) = mset rules"
proof -
  have keys: "set order = fst ` set rules" using mset_eq_setD [OF assms(2)] by simp
  have dist: "distinct order" using assms by (metis mset_eq_imp_distinct_iff one_per_table_def)
  have f: "filter (\<lambda>t. map_of rules t \<noteq> None) order = order"
    using keys by (auto simp: filter_id_conv map_of_eq_None_iff)
  have io: "in_order order rules = map (\<lambda>t. (t, the (map_of rules t))) order"
    unfolding in_order_def f ..
  have "mset (in_order order rules) = image_mset (\<lambda>t. (t, the (map_of rules t))) (mset order)"
    by (simp add: io)
  also have "\<dots> = image_mset (\<lambda>t. (t, the (map_of rules t))) (mset (map fst rules))" by (simp only: assms(2))
  also have "\<dots> = mset (map (\<lambda>q. (fst q, the (map_of rules (fst q)))) rules)"
    by (simp add: image_mset.compositionality o_def)
  also have "map (\<lambda>q. (fst q, the (map_of rules (fst q)))) rules = map (\<lambda>q. q) rules"
    using assms(1) by (intro map_cong) (auto simp: one_per_table_def)
  finally show m: "mset (in_order order rules) = mset rules" by simp
  show "one_per_table (in_order order rules)"
    using dist mset_eq_setD [OF m] assms(1) by (simp add: one_per_table_def io o_def)
qed

lemma apply_result:
  assumes E: "ipt_behaves E v6 V" "restore_v6 (irPath iptr) = v6" and clean: "clean_rules rules"
    and one: "one_per_table rules"
  shows "\<exists>ord r w'. ApplyWithoutFlush E iptr rules w = (r, w') \<and> one_per_table ord \<and> mset ord = mset rules \<and>
    V w' = snd (restore_tables ord (V w)) \<and>
    (if fst (restore_tables ord (V w)) then r = Inr () else \<exists>m. r = Inl (Plain m))"
proof -
  obtain order w1 where o: "range_tables E (map fst rules) w = (Inr order, w1)"
      "mset order = mset (map fst rules)" "V w1 = V w"
    using behaves_range [OF E(1)] by blast
  let ?ord = "in_order order rules"
  have "clean_rules ?ord"
    using clean mset_eq_setD [OF in_order_perm(2) [OF one o(2)]] by (simp add: clean_rules_def)
  from behaves_restore [OF E this] obtain r w2 where
      "run_restore E (irPath iptr) (''--noflush'' # (if irHasWait iptr then [''--wait''] else []))
         (buildIPTablesRestorePayload ?ord) w1 = (r, w2)"
      "V w2 = snd (restore_tables ?ord (V w1))"
      "if fst (restore_tables ?ord (V w1)) then r = Inr () else \<exists>m. r = Inl (Plain m)"
    by blast
  then show ?thesis using o in_order_perm [OF one o(2)]
    by (intro exI [of _ ?ord]) (auto simp: ApplyWithoutFlush_def io_simps Let_def split: if_splits)
qed

lemma apply_tab:
  assumes E: "ipt_behaves E v6 V" "restore_v6 (irPath iptr) = v6" and clean: "clean_rules (tab t ls)"
  shows "\<exists>r w'. ApplyWithoutFlush E iptr (tab t ls) w = (r, w') \<and>
    V w' = snd (restore_tables (tab t ls) (V w)) \<and>
    (if fst (restore_tables (tab t ls) (V w)) then r = Inr () else \<exists>m. r = Inl (Plain m))"
proof -
  obtain ord r w' where a: "ApplyWithoutFlush E iptr (tab t ls) w = (r, w')" "mset ord = mset (tab t ls)"
      "V w' = snd (restore_tables ord (V w))"
      "if fst (restore_tables ord (V w)) then r = Inr () else \<exists>m. r = Inl (Plain m)"
    using apply_result [OF E clean one_per_table_tab, of w] by blast
  have "ord = tab t ls" using a(2) by (simp add: tab_def split: if_splits)
  then show ?thesis using a by blast
qed

lemma restore_tab: "restore_tables (tab t ls) R =
    (case restore_lines t ls R of None \<Rightarrow> (False, R) | Some R' \<Rightarrow> (True, R'))"
  by (auto simp: tab_def split: option.splits)

lemma clean_build:
  "\<forall>r \<in> set rules. table_rule t R r \<Longrightarrow> clean_rules (tab t (concat (map (build t R') rules)))"
  by (auto simp: clean_rules_def tab_def build_def add_of_def del_of_def clean_line_def table_rule_def
      clean_word_def)

lemma ready_table_rule:
  "\<forall>r \<in> set rules. table_rule t R r \<Longrightarrow> r \<in> set rules \<Longrightarrow>
     Table r = t \<and> ready rules R (t, Chain r) \<noteq> None"
  using table_rule_ready by (auto simp: table_rule_def)

lemma bootstrap_result:
  assumes E: "ipt_behaves E v6 V" "restore_v6 (irPath iptr) = v6" and rules: "\<forall>r \<in> set rules. table_rule t (V w) r"
    and dist: "distinct (map rule_key rules)"
  shows "\<exists>w'. IpTablesBootstrap E v6 iptr rules w = (Inr (), w') \<and> V w' = fold place rules (ready rules (V w))"
proof -
  obtain w1 where w1: "V w1 = ready rules (V w)"
      "ipTablesCleanAndBuild E v6 rules [] w = (Inr (tab t (concat (map (build t (V w)) rules))), w1)"
    using clean_and_build [OF E(1) rules, of "[]"] by (auto simp: tab_def)
  have "restore_lines t (concat (map (build t (V w)) rules)) (V w1) = Some (fold place rules (V w1))"
    using ready_table_rule [OF rules] by (intro restore_builds [OF dist]) (simp add: w1(1))
  then show ?thesis
    using apply_tab [OF E clean_build [OF rules, of "V w"], of w1] w1
    by (auto simp: IpTablesBootstrap_def io_simps restore_tab)
qed

subsection \<open>Checking the rules\<close>

definition all_present :: "IPTablesRule list \<Rightarrow> ruleset \<Rightarrow> bool" where
  "all_present rules R \<longleftrightarrow> (\<forall>r \<in> set rules. has_rule R (Table r, Chain r) (Rulespec r) \<and>
     (\<forall>c. own_chain r = Inr (Some c) \<longrightarrow> R (Table r, c) \<noteq> None))"

lemma own_check:
  assumes E: "ipt_behaves E v6 V"
  shows "\<exists>w1. V w1 = V w \<and> (case own of None \<Rightarrow> ret True
      | Some c \<Rightarrow> errorf check_failed (chain_exists E v6 t c)) w =
      (Inr (\<forall>c. own = Some c \<longrightarrow> V w (t, c) \<noteq> None), w1)"
proof (cases own)
  case (Some c)
  then show ?thesis using behaves_chain [OF E, of t c w] by (auto simp: io_simps)
qed (auto simp: io_simps)

lemma rules_exist:
  assumes E: "ipt_behaves E v6 V" and rules: "\<forall>r \<in> set rules. table_rule t (V w) r"
  shows "\<exists>w'. ipTablesRulesExist E v6 rules w = (Inr (all_present rules (V w)), w') \<and> V w' = V w"
  using rules
proof (induction rules arbitrary: w)
  case Nil then show ?case by (simp add: all_present_def ret_def)
next
  case (Cons r rules)
  have r: "Table r = t" "Rulespec r \<noteq> []" "V w (t, Chain r) \<noteq> None \<or> own_chain r = Inr (Some (Chain r))"
      and clean: "clean_words (Chain r) (Rulespec r)" using Cons(2) by (auto simp: table_rule_def)
  obtain own where own: "own_chain r = Inr own" using own_chain_Inr [OF r(2)] by blast
  obtain w1 where w1: "V w1 = V w" and run: "(case own of None \<Rightarrow> ret True
            | Some c \<Rightarrow> errorf check_failed (chain_exists E v6 (Table r) c)) w =
            (Inr (\<forall>c. own = Some c \<longrightarrow> V w (t, c) \<noteq> None), w1)"
    using own_check [OF E, where own = own and t = "Table r" and w = w] r(1) by auto
  show ?case
  proof (cases "\<forall>c. own = Some c \<longrightarrow> V w (t, c) \<noteq> None")
    case False
    then show ?thesis using run own w1 r by (auto simp: io_simps all_present_def)
  next
    case True
    then obtain L where L: "V w1 (t, Chain r) = Some L" using r own w1 by auto
    obtain w2 where w2: "rule_exists E v6 t (Chain r) (Rulespec r) w1 = (Inr (Rulespec r \<in> set L), w2)" "V w2 = V w1"
      using behaves_rule [OF E L clean] by blast
    have "\<exists>w3. ipTablesRulesExist E v6 rules w2 = (Inr (all_present rules (V w2)), w3) \<and> V w3 = V w2"
      using Cons(1) [of w2] Cons(2) w1 w2(2) by simp
    then obtain w3 where w3: "ipTablesRulesExist E v6 rules w2 = (Inr (all_present rules (V w)), w3)" "V w3 = V w"
      using w1 w2(2) by auto
    have "all_present (r # rules) (V w) \<longleftrightarrow> Rulespec r \<in> set L \<and> all_present rules (V w)"
      using L w1 own True r by (auto simp: all_present_def has_rule_def)
    then show ?thesis using run own True w1 w2 w3 r by (auto simp: io_simps)
  qed
qed

lemma fold_place_present:
  assumes "distinct (map rule_key rules)" "\<forall>r \<in> set rules. Table r = t \<and> R (t, Chain r) \<noteq> None" "r \<in> set rules"
  shows "has_rule (fold place rules R) (t, Chain r) (Rulespec r)"
  using assms by (auto simp: has_rule_def fold_place_distinct specs_in_def)

lemma bootstrap_present:
  assumes "\<forall>r \<in> set rules. table_rule t R r" "distinct (map rule_key rules)"
  shows "all_present rules (fold place rules (ready rules R))"
proof -
  have "fold place rules (ready rules R) (t, c) \<noteq> None" if "r \<in> set rules" "own_chain r = Inr (Some c)" for r c
    using that assms ready_own [OF that, of R] by (auto simp: fold_place_distinct table_rule_def)
  then show ?thesis
    using fold_place_present [OF assms(2), of t "ready rules R"] ready_table_rule [OF assms(1)]
    by (auto simp: all_present_def)
qed

lemma ensure_noop:
  assumes "ipt_behaves E v6 V" "\<forall>r \<in> set rules. table_rule t (V w) r" "all_present rules (V w)"
  shows "\<exists>w'. EnsureIPTables E v6 iptr rules w = (Inr (), w') \<and> V w' = V w"
  using rules_exist [OF assms(1,2)] assms(3) by (auto simp: EnsureIPTables_def io_simps)

lemma all_present_cong:
  "all_present rules R \<Longrightarrow> (\<And>r c. r \<in> set rules \<Longrightarrow> R' (Table r, c) = R (Table r, c)) \<Longrightarrow> all_present rules R'"
  by (auto simp: all_present_def has_rule_def)

lemma fold_place_other:
  "\<forall>r \<in> set rules. Table r = t \<Longrightarrow> t' \<noteq> t \<Longrightarrow> fold place rules (ready rules R) (t', c) = R (t', c)"
proof -
  assume T: "\<forall>r \<in> set rules. Table r = t" "t' \<noteq> t"
  then have "specs_in rules (t', c) = []" by (auto simp: specs_in_def filter_empty_conv)
  then show ?thesis using ready_other [OF T, of R c] by (cases "R (t', c)") (simp_all add: fold_place)
qed

subsection \<open>Taking the rules away\<close>

definition delete :: "IPTablesRule \<Rightarrow> ruleset \<Rightarrow> ruleset" where
  "delete r R = R((Table r, Chain r) := map_option (remove1 (Rulespec r)) (R (Table r, Chain r)))"

lemma fold_delete: "fold delete rules R k = map_option (fold remove1 (specs_in rules k)) (R k)"
  by (induction rules arbitrary: R)
    (auto simp: specs_in_def delete_def option.map_comp o_def option.map_ident id_def)

definition del_if :: "string \<Rightarrow> ruleset \<Rightarrow> IPTablesRule list \<Rightarrow> IPTablesRule list" where
  "del_if t R rules = filter (\<lambda>r. has_rule R (t, Chain r) (Rulespec r) \<and>
     (\<forall>c. own_chain r = Inr (Some c) \<longrightarrow> R (t, c) \<noteq> None)) rules"

lemma teardown_lines_result:
  assumes E: "ipt_behaves E v6 V" and rules: "\<forall>r \<in> set rules. table_rule (Table r) (V w) r"
    and one: "one_per_table acc"
  shows "\<exists>w' acc'. V w' = V w \<and> teardown_lines E v6 rules acc w = (Inr acc', w') \<and> one_per_table acc' \<and>
    (\<forall>t. lines_for acc' t = lines_for acc t @ map del_of (del_if t (V w) (filter (\<lambda>r. Table r = t) rules)))"
  using rules one
proof (induction rules arbitrary: w acc)
  case Nil then show ?case by (auto simp: del_if_def ret_def)
next
  case (Cons r rules)
  let ?t = "Table r"
  have r: "Rulespec r \<noteq> []" "V w (?t, Chain r) \<noteq> None \<or> own_chain r = Inr (Some (Chain r))"
      and clean: "clean_words (Chain r) (Rulespec r)" using Cons(2) by (auto simp: table_rule_def)
  obtain own where own: "own_chain r = Inr own" using own_chain_Inr [OF r(1)] by blast
  obtain w1 where w1: "V w1 = V w" and run: "(case own of None \<Rightarrow> ret True
            | Some c \<Rightarrow> errorf check_failed (chain_exists E v6 ?t c)) w =
            (Inr (\<forall>c. own = Some c \<longrightarrow> V w (?t, c) \<noteq> None), w1)"
    using own_check [OF E, where own = own and t = "Table r" and w = w] by auto
  show ?case
  proof (cases "\<forall>c. own = Some c \<longrightarrow> V w (?t, c) \<noteq> None")
    case False
    then have "teardown_lines E v6 (r # rules) acc w = teardown_lines E v6 rules acc w1"
      and "\<And>t. del_if t (V w) (filter (\<lambda>r. Table r = t) (r # rules)) = del_if t (V w) (filter (\<lambda>r. Table r = t) rules)"
      using run own by (auto simp: io_simps del_if_def)
    then show ?thesis using Cons(1) [of w1 acc] Cons(2,3) w1 by simp
  next
    case True
    then obtain L where L: "V w1 (?t, Chain r) = Some L" using r own w1 by auto
    obtain w2 where w2: "rule_exists E v6 ?t (Chain r) (Rulespec r) w1 = (Inr (Rulespec r \<in> set L), w2)" "V w2 = V w1"
      using behaves_rule [OF E L clean] by blast
    let ?acc = "if Rulespec r \<in> set L then add_line ?t (del_of r) acc else acc"
    have one: "one_per_table ?acc" using Cons(3) one_per_table_add_line by simp
    have run': "teardown_lines E v6 (r # rules) acc w = teardown_lines E v6 rules ?acc w2"
      using run own True w2 by (auto simp: io_simps del_of_def)
    have del: "map del_of (del_if t (V w) (filter (\<lambda>r. Table r = t) (r # rules))) =
        (if t = ?t \<and> Rulespec r \<in> set L then [del_of r] else []) @
        map del_of (del_if t (V w) (filter (\<lambda>r. Table r = t) rules))" for t
      using True own L w1 by (auto simp: del_if_def has_rule_def)
    obtain w' acc' where "V w' = V w" "teardown_lines E v6 rules ?acc w2 = (Inr acc', w')" "one_per_table acc'"
        "\<forall>t. lines_for acc' t = lines_for ?acc t @ map del_of (del_if t (V w) (filter (\<lambda>r. Table r = t) rules))"
      using Cons(1) [of w2 ?acc] Cons(2) one w1 w2(2) by auto
    then show ?thesis unfolding run' del by (intro exI [of _ w'] exI [of _ acc']) (auto simp: lines_for_add_line)
  qed
qed

text \<open>Each table is changed by its own lines only, and as a whole or not at all.\<close>

lemma restore_line_frame: "restore_line t l R = Some R' \<Longrightarrow> t' \<noteq> t \<Longrightarrow> R' (t', c) = R (t', c)"
  by (cases "(t, l, R)" rule: restore_line.cases) (auto split: option.splits if_splits)

lemma restore_lines_frame: "restore_lines t ls R = Some R' \<Longrightarrow> t' \<noteq> t \<Longrightarrow> R' (t', c) = R (t', c)"
  by (induction t ls R rule: restore_lines.induct) (auto simp: restore_line_frame split: option.splits)

lemma restore_line_cong:
  "(\<And>c. R1 (t, c) = R2 (t, c)) \<Longrightarrow> rel_option (\<lambda>A B. \<forall>c. A (t, c) = B (t, c)) (restore_line t l R1) (restore_line t l R2)"
  by (cases "(t, l, R1)" rule: restore_line.cases) (auto split: option.splits)

lemma restore_lines_cong:
  "(\<And>c. R1 (t, c) = R2 (t, c)) \<Longrightarrow> rel_option (\<lambda>A B. \<forall>c. A (t, c) = B (t, c)) (restore_lines t ls R1) (restore_lines t ls R2)"
proof (induction ls arbitrary: R1 R2)
  case (Cons l ls)
  from restore_line_cong [of R1 t R2 l, OF Cons(2)] show ?case
    by (cases "restore_line t l R1"; cases "restore_line t l R2") (auto intro: Cons(1))
qed simp

lemma restore_tables_failing:
  assumes "one_per_table ord" "restore_lines t (lines_for ord t) R = None"
  shows "snd (restore_tables ord R) (t, c) = R (t, c) \<and> \<not> fst (restore_tables ord R)"
  using assms
proof (induction ord arbitrary: R)
  case (Cons q ord)
  obtain t' ls where q: "q = (t', ls)" by force
  show ?case
  proof (cases "restore_lines t' ls R")
    case (Some R')
    then have "t' \<noteq> t" using Cons(3) q by (auto simp: lines_for_def)
    then have same: "\<And>c. R' (t, c) = R (t, c)" using restore_lines_frame [OF Some] by simp
    have "restore_lines t (lines_for ord t) R' = None"
      using restore_lines_cong [of R' t R "lines_for ord t", OF same] Cons(3) q \<open>t' \<noteq> t\<close>
      by (auto simp: lines_for_def)
    then show ?thesis using Cons(1) [of R'] Cons(2) q Some same by (simp add: one_per_table_def)
  qed (simp add: q)
qed (simp add: lines_for_def)

end
