(* ===== verification/CniFirewallProps.thy ===== *)
theory CniFirewallProps
  imports CniFirewall
begin

section \<open>simplecni: properties of the iptables transactions\<close>

text \<open>
  Stated for any environment that behaves as the iptables commands are documented
  (\<open>ipt_behaves\<close>). \<open>fw\<close> is such an environment, a ruleset that the commands change, on which
  the witnesses run.
\<close>

subsection \<open>An environment\<close>

type_synonym rulesets = "bool \<Rightarrow> ruleset"

definition fw :: "rulesets netsys" where
  "fw = \<lparr>ipt_new = \<lambda>v6. ret (), has_random_fully = \<lambda>v6. ret True,
     chain_exists = \<lambda>v6 t c w. (Inr (w v6 (t, c) \<noteq> None), w),
     clear_chain = \<lambda>v6 t c w. (Inr (), w(v6 := (w v6)((t, c) \<mapsto> []))),
     rule_exists = \<lambda>v6 t c spec w. if ''<nil>'' \<in> set spec then (Inl (Plain ''exit status 2''), w)
       else (case w v6 (t, c) of None \<Rightarrow> (Inl (Plain ''exit status 2''), w) | Some L \<Rightarrow> (Inr (spec \<in> set L), w)),
     look_path = \<lambda>name. ret (''/usr/sbin/'' @ name),
     version_text = \<lambda>path. ret ''iptables v1.8.7 (nf_tables)'',
     run_restore = \<lambda>path args text w. (case read_payload text of None \<Rightarrow> (Inl (Plain ''exit status 2''), w)
       | Some rules \<Rightarrow> (case restore_tables rules (w (restore_v6 path)) of (ok, R) \<Rightarrow>
           (if ok then Inr () else Inl (Plain ''exit status 1''), w(restore_v6 path := R)))),
     range_tables = \<lambda>ts w. (Inr ts, w)\<rparr>"

lemma fw_behaves: "ipt_behaves fw v6 (\<lambda>w. w v6)"
  by (auto dest: clean_words_nil simp: ipt_behaves_def fw_def read_payload_build split: prod.splits)

abbreviation fw_restore :: ipt_restore where
  "fw_restore \<equiv> \<lparr>irPath = ''/usr/sbin/iptables-restore'', irV6 = False, irHasWait = True\<rparr>"

lemma fw_restore_v6: "restore_v6 (irPath fw_restore) = False"
  by code_simp

subsection \<open>Deleting lines\<close>

lemma has_rule_delete: "(k, s) \<noteq> ((Table r, Chain r), Rulespec r) \<Longrightarrow> has_rule (delete r R) k s = has_rule R k s"
  by (auto simp: has_rule_def delete_def)

lemma restore_dels:
  assumes "distinct (map rule_key rules)" "\<forall>r \<in> set rules. Table r = t \<and> has_rule R (t, Chain r) (Rulespec r)"
  shows "restore_lines t (map del_of rules) R = Some (fold delete rules R)"
  using assms
proof (induction rules arbitrary: R)
  case (Cons r rules)
  have "\<forall>q \<in> set rules. Table q = t \<and> has_rule (delete r R) (t, Chain q) (Rulespec q)"
  proof
    fix q assume q: "q \<in> set rules"
    then have "rule_key q \<noteq> rule_key r" using Cons(2) by (auto simp: image_iff)
    then show "Table q = t \<and> has_rule (delete r R) (t, Chain q) (Rulespec q)"
      using Cons(3) q has_rule_delete [of "(t, Chain q)" "Rulespec q" r R] by (auto simp: rule_key_def)
  qed
  then have "restore_lines t (map del_of rules) (delete r R) = Some (fold delete rules (delete r R))"
    using Cons(1) [of "delete r R"] Cons(2) by simp
  moreover have "restore_line t (del_of r) R = Some (delete r R)"
    using Cons(3) by (auto simp: del_of_def has_rule_def delete_def)
  ultimately show ?case by simp
qed simp

text \<open>A rule listed more often than its chain holds it: the transaction fails.\<close>

lemma restore_dels_too_many:
  assumes "\<forall>r \<in> set rules. Table r = t" "R (t, c) = Some L"
    "count_list L s < count_list (specs_in rules (t, c)) s"
  shows "restore_lines t (map del_of rules) R = None"
  using assms
proof (induction rules arbitrary: R L)
  case (Cons r rules)
  show ?case
  proof (cases "restore_line t (del_of r) R")
    case (Some R')
    then obtain L1 where L1: "R (t, Chain r) = Some L1" "Rulespec r \<in> set L1"
        and R': "R' = R((t, Chain r) \<mapsto> remove1 (Rulespec r) L1)"
      by (auto simp: del_of_def split: option.splits if_splits)
    show ?thesis
    proof (cases "Chain r = c")
      case True
      then have "L1 = L" using L1 Cons(3) by simp
      moreover have "count_list (remove1 (Rulespec r) L) s <
          count_list (specs_in rules (t, c)) s"
        using Cons(2,4) True L1 \<open>L1 = L\<close> count_list_0_iff [of L "Rulespec r"]
        by (cases "Rulespec r = s") (auto simp: specs_in_def count_list_remove1)
      moreover have "R' (t, c) = Some (remove1 (Rulespec r) L)" using R' True \<open>L1 = L\<close> by simp
      ultimately have "restore_lines t (map del_of rules) R' = None" using Cons(1) [of R'] Cons(2) by auto
      then show ?thesis using Some by simp
    next
      case False
      then have "R' (t, c) = Some L" using Cons(3) R' by auto
      then have "restore_lines t (map del_of rules) R' = None"
        using Cons(1) [of R' L] Cons(2,4) False by (simp add: specs_in_def)
      then show ?thesis using Some by simp
    qed
  qed simp
qed (simp add: specs_in_def)

subsection \<open>Set-up\<close>

lemma ready_apply: "ready rules R k = (case R k of Some L \<Rightarrow> Some L | None \<Rightarrow>
    if \<exists>r \<in> set rules. Table r = fst k \<and> own_chain r = Inr (Some (snd k)) then Some [] else None)"
proof (induction rules arbitrary: R)
  case (Cons r rules)
  have "ready (r # rules) R k = ready rules (ensure_own r R) k" by (simp add: ready_def)
  also have "\<dots> = (case R k of Some L \<Rightarrow> Some L | None \<Rightarrow>
      if \<exists>q \<in> set (r # rules). Table q = fst k \<and> own_chain q = Inr (Some (snd k)) then Some [] else None)"
    unfolding Cons by (cases k) (auto simp: ensure_own_def split: option.splits sum.splits)
  finally show ?case .
qed (auto simp: ready_def split: option.splits)

lemma fold_remove1_Nil [simp]: "fold remove1 xs [] = []"
  by (induction xs) auto

text \<open>C22. Setting up a list of different rules of one table succeeds and leaves each chain holding
  what it held without these rules, in the old order, followed by the rules of the list for this
  chain, in the order of the list and with nothing between them; a missing chain of the daemon's
  own is created, and no other chain appears.\<close>

theorem bootstrap_places_rules:
  assumes "ipt_behaves E v6 V" "restore_v6 (irPath iptr) = v6" "\<forall>r \<in> set rules. table_rule t (V w) r" "distinct (map rule_key rules)"
  shows "\<exists>w'. IpTablesBootstrap E v6 iptr rules w = (Inr (), w') \<and>
    (\<forall>k. V w' k = (case V w k of
       Some L \<Rightarrow> Some (fold remove1 (specs_in rules k) L @ specs_in rules k)
     | None \<Rightarrow> if \<exists>r \<in> set rules. Table r = fst k \<and> own_chain r = Inr (Some (snd k))
                then Some (specs_in rules k) else None))"
proof -
  obtain w' where w': "IpTablesBootstrap E v6 iptr rules w = (Inr (), w')"
      "V w' = fold place rules (ready rules (V w))"
    using bootstrap_result [OF assms] by blast
  show ?thesis
    by (rule exI [of _ w'])
      (auto simp: w' fold_place_distinct [OF assms(4)] ready_apply split: option.splits)
qed

definition ex_rules :: "IPTablesRule list" where
  "ex_rules =
     [\<lparr>Table = ''nat'', Action = ''-A'', Chain = ''POSTROUTING'',
        Rulespec = [''-m'', ''comment'', ''--comment'', ''simplecni masq'', ''-j'', PostChain]\<rparr>,
      \<lparr>Table = ''nat'', Action = ''-A'', Chain = PostChain,
        Rulespec = [''-s'', ''10.244.0.0/16'', ''-j'', ''MASQUERADE'']\<rparr>]"

definition ex_host :: rulesets where
  "ex_host v6 = [(''nat'', ''POSTROUTING'') \<mapsto> [Rulespec (ex_rules ! 0), [''-j'', ''KUBE-POSTROUTING'']]]"

lemma ex_rules_ok: "\<forall>r \<in> set ex_rules. table_rule ''nat'' (ex_host v6) r" "distinct (map rule_key ex_rules)"
  by (auto simp: ex_rules_def ex_host_def table_rule_def own_chain_def PostChain_def FwdChain_def
      clean_word_def clean_comment_def rule_key_def)

lemma bootstrap_places_rules_witness:
  "\<exists>w. IpTablesBootstrap fw False fw_restore ex_rules ex_host = (Inr (), w) \<and>
    w False (''nat'', ''POSTROUTING'') = Some [[''-j'', ''KUBE-POSTROUTING''], Rulespec (ex_rules ! 0)] \<and>
    w False (''nat'', PostChain) = Some [Rulespec (ex_rules ! 1)]"
proof -
  obtain w where "IpTablesBootstrap fw False fw_restore ex_rules ex_host = (Inr (), w)"
    and R: "\<And>k. w False k = (case ex_host False k of
       Some L \<Rightarrow> Some (fold remove1 (specs_in ex_rules k) L @ specs_in ex_rules k)
     | None \<Rightarrow> if \<exists>r \<in> set ex_rules. Table r = fst k \<and> own_chain r = Inr (Some (snd k))
                then Some (specs_in ex_rules k) else None)"
    using bootstrap_places_rules [where V = "\<lambda>w. w False" and w = ex_host, OF fw_behaves fw_restore_v6 ex_rules_ok]
    by blast
  moreover have "w False (''nat'', ''POSTROUTING'') = Some [[''-j'', ''KUBE-POSTROUTING''], Rulespec (ex_rules ! 0)]"
    by (simp add: R ex_rules_def ex_host_def specs_in_def PostChain_def)
  moreover have "w False (''nat'', PostChain) = Some [Rulespec (ex_rules ! 1)]"
    by (simp add: R ex_rules_def ex_host_def specs_in_def PostChain_def own_chain_def FwdChain_def)
  ultimately show ?thesis by blast
qed

subsection \<open>Repair\<close>

text \<open>C21. Whatever the rules look like before, \<open>EnsureIPTables\<close> succeeds with every rule of the list
  present, and a second call then changes nothing. It compares no order: when the rules are all
  present, in whatever order, it changes nothing.\<close>

theorem ensure_establishes:
  assumes "ipt_behaves E v6 V" "restore_v6 (irPath iptr) = v6" "\<forall>r \<in> set rules. table_rule t (V w) r" "distinct (map rule_key rules)"
  shows "\<exists>w1 w2. EnsureIPTables E v6 iptr rules w = (Inr (), w1) \<and> all_present rules (V w1) \<and>
    (all_present rules (V w) \<longrightarrow> V w1 = V w) \<and>
    EnsureIPTables E v6 iptr rules w1 = (Inr (), w2) \<and> V w2 = V w1"
proof -
  have again: "\<exists>w2. EnsureIPTables E v6 iptr rules w1 = (Inr (), w2) \<and> V w2 = V w1"
    if "\<forall>r \<in> set rules. table_rule t (V w1) r" "all_present rules (V w1)" for w1
    using ensure_noop [OF assms(1) that] by blast
  obtain w0 where w0: "ipTablesRulesExist E v6 rules w = (Inr (all_present rules (V w)), w0)" "V w0 = V w"
    using rules_exist [OF assms(1,3)] by blast
  show ?thesis
  proof (cases "all_present rules (V w)")
    case True
    then show ?thesis using again [of w0] w0 assms(3) by (auto simp: EnsureIPTables_def io_simps)
  next
    case False
    obtain w1 where w1: "IpTablesBootstrap E v6 iptr rules w0 = (Inr (), w1)"
        "V w1 = fold place rules (ready rules (V w))"
      using bootstrap_result [OF assms(1,2) _ assms(4), of t w0] assms(3) w0 by auto
    have "all_present rules (V w1)" using bootstrap_present [OF assms(3,4)] w1 by simp
    moreover have "\<forall>r \<in> set rules. table_rule t (V w1) r"
    proof
      fix r assume r: "r \<in> set rules"
      then have "table_rule t (V w) r" using assms(3) by simp
      then show "table_rule t (V w1) r"
        by (rule table_rule_mono)
          (use ready_mono [of "V w" "(t, Chain r)" rules] in \<open>auto simp: w1 fold_place\<close>)
    qed
    ultimately show ?thesis using again [of w1] w0 w1 False by (auto simp: EnsureIPTables_def io_simps)
  qed
qed

lemma ensure_establishes_witness:
  "\<exists>w1 w2. EnsureIPTables fw False fw_restore ex_rules ex_host = (Inr (), w1) \<and> all_present ex_rules (w1 False) \<and>
    EnsureIPTables fw False fw_restore ex_rules w1 = (Inr (), w2) \<and> w2 False = w1 False"
  using ensure_establishes [where V = "\<lambda>w. w False" and w = ex_host, OF fw_behaves fw_restore_v6 ex_rules_ok] by blast

subsection \<open>Tear-down\<close>

lemma fold_remove1_distinct:
  "distinct L \<Longrightarrow> fold remove1 specs L = filter (\<lambda>s. s \<notin> set specs) L"
proof (induction specs arbitrary: L)
  case (Cons s specs)
  have "remove1 s L = filter (\<lambda>x. x \<noteq> s) L"
    using Cons(2) by (simp add: distinct_remove1_removeAll removeAll_filter_not_eq eq_commute)
  then show ?case using Cons by (simp add: conj_commute)
qed simp

lemma fold_remove1_end:
  "distinct specs \<Longrightarrow> set specs \<inter> set A = {} \<Longrightarrow> fold remove1 specs (A @ specs) = A"
  by (induction specs arbitrary: A) (auto simp: remove1_append)

lemma del_if_all: "all_present rules R \<Longrightarrow> \<forall>r \<in> set rules. Table r = t \<Longrightarrow> del_if t R rules = rules"
  by (auto simp: del_if_def all_present_def filter_id_conv)

lemma del_ifs_all: "all_present rules R \<Longrightarrow>
    del_if t R (filter (\<lambda>r. Table r = t) rules) = filter (\<lambda>r. Table r = t) rules"
  by (rule del_if_all) (auto simp: all_present_def)

lemma clean_dels:
  assumes "one_per_table ord" "\<forall>r \<in> set rules. table_rule (Table r) R r"
    "\<And>t. lines_for ord t = map del_of (filter (\<lambda>r. Table r = t) rules)"
  shows "clean_rules ord"
proof -
  have "clean_word t \<and> (\<forall>l \<in> set ls. clean_line l)" if "(t, ls) \<in> set ord" for t ls
  proof -
    have ls: "ls \<noteq> []" "ls = map del_of (filter (\<lambda>r. Table r = t) rules)"
      using that lines_for_mem [OF assms(1), of t ls] assms(3) by auto
    then show ?thesis using assms(2)
      by (cases "filter (\<lambda>r. Table r = t) rules")
        (auto simp: filter_eq_Cons_iff table_rule_def del_of_def clean_line_def clean_word_def)
  qed
  then show ?thesis by (auto simp: clean_rules_def)
qed

lemma teardown_run:
  assumes E: "ipt_behaves E v6 V" "restore_v6 (irPath iptr) = v6"
    and rules: "\<forall>r \<in> set rules. table_rule (Table r) (V w) r" and R: "all_present rules (V w)"
  shows "\<exists>ord res w'. TeardownIPTables E v6 iptr rules w = (res, w') \<and>
    V w' = snd (restore_tables ord (V w)) \<and>
    (if fst (restore_tables ord (V w)) then res = Inr () else \<exists>m. res = Inl (Plain m)) \<and>
    one_per_table ord \<and> (\<forall>t. lines_for ord t = map del_of (filter (\<lambda>r. Table r = t) rules))"
proof -
  obtain w1 acc where w1: "V w1 = V w" "teardown_lines E v6 rules [] w = (Inr acc, w1)" "one_per_table acc"
      "\<And>t. lines_for acc t = map del_of (filter (\<lambda>r. Table r = t) rules)"
    using teardown_lines_result [OF E(1) rules, of "[]"]
    by (auto simp: del_ifs_all [OF R] one_per_table_def lines_for_def)
  obtain ord res w2 where w2: "ApplyWithoutFlush E iptr acc w1 = (res, w2)" "one_per_table ord" "mset ord = mset acc"
      "V w2 = snd (restore_tables ord (V w))"
      "if fst (restore_tables ord (V w)) then res = Inr () else \<exists>m. res = Inl (Plain m)"
    using apply_result [OF E clean_dels [OF w1(3) rules w1(4)] w1(3), of w1] w1(1) by auto
  have "lines_for ord t = lines_for acc t" for t
    using w1(3) w2(2,3) by (metis lines_for_mem set_mset_mset)
  then show ?thesis using w1 w2
    by (intro exI [of _ ord]) (auto simp: TeardownIPTables_def io_simps split: if_splits)
qed

lemma table_rule_placed:
  "\<forall>r \<in> set rules. table_rule t R r \<Longrightarrow> \<forall>r \<in> set rules. table_rule t (fold place rules (ready rules R)) r"
  using ready_mono [of R _ rules] by (auto simp: table_rule_def fold_place)

text \<open>C23. Tearing down what was set up leaves every chain with exactly the rules that are not in the
  list, in their old order (when no chain held a rule twice before).\<close>

theorem teardown_undoes_bootstrap:
  assumes "ipt_behaves E v6 V" "restore_v6 (irPath iptr) = v6" "\<forall>r \<in> set rules. table_rule t (V w) r"
    "distinct (map rule_key rules)" "\<forall>k L. V w k = Some L \<longrightarrow> distinct L"
  shows "\<exists>w1 w2. IpTablesBootstrap E v6 iptr rules w = (Inr (), w1) \<and>
    TeardownIPTables E v6 iptr rules w1 = (Inr (), w2) \<and>
    (\<forall>k. V w2 k = map_option (filter (\<lambda>s. s \<notin> set (specs_in rules k))) (ready rules (V w) k))"
proof -
  have T: "\<forall>r \<in> set rules. Table r = t" using assms(3) by (auto simp: table_rule_def)
  obtain w1 where w1: "IpTablesBootstrap E v6 iptr rules w = (Inr (), w1)"
      "V w1 = fold place rules (ready rules (V w))"
    using bootstrap_result [OF assms(1-4)] by blast
  have present: "all_present rules (V w1)" using bootstrap_present [OF assms(3,4)] w1 by simp
  have ok: "\<forall>r \<in> set rules. table_rule (Table r) (V w1) r" using table_rule_placed [OF assms(3)] w1 T by auto
  obtain ord res w2 where w2: "TeardownIPTables E v6 iptr rules w1 = (res, w2)"
      "V w2 = snd (restore_tables ord (V w1))"
      "if fst (restore_tables ord (V w1)) then res = Inr () else \<exists>m. res = Inl (Plain m)"
      "one_per_table ord" "\<And>t. lines_for ord t = map del_of (filter (\<lambda>r. Table r = t) rules)"
    using teardown_run [OF assms(1,2) ok present] by blast
  have "filter (\<lambda>r. Table r = t) rules = rules" using T by (simp add: filter_id_conv)
  moreover have "lines_for ord t' = []" if "t' \<noteq> t" for t' using T w2(5) that by auto
  ultimately have ord: "ord = tab t (map del_of rules)" using one_table [OF w2(4), of t] w2(5) by simp
  have "restore_lines t (map del_of rules) (V w1) = Some (fold delete rules (V w1))"
    using present T by (intro restore_dels [OF assms(4)]) (auto simp: all_present_def)
  then have w2': "res = Inr ()" "V w2 = fold delete rules (V w1)" using w2(2,3) by (simp_all add: ord restore_tab)
  have "V w2 k = map_option (filter (\<lambda>s. s \<notin> set (specs_in rules k))) (ready rules (V w) k)" for k
  proof (cases "ready rules (V w) k")
    case None then show ?thesis by (simp add: w2' w1 fold_delete fold_place)
  next
    case (Some L)
    then have "distinct L" using assms(5) by (cases k) (auto simp: ready_apply split: option.splits if_splits)
    moreover from fold_remove1_distinct [OF this, of "specs_in rules k"]
    have "set (specs_in rules k) \<inter> set (fold remove1 (specs_in rules k) L) = {}" by auto
    ultimately show ?thesis
      using Some distinct_specs_in [OF assms(4)] by (simp add: w2' w1 fold_delete
          fold_place_distinct [OF assms(4)] fold_remove1_end fold_remove1_distinct)
  qed
  then show ?thesis using w1 w2(1) w2'(1) by blast
qed

lemma teardown_undoes_bootstrap_witness:
  "\<exists>w1 w2. IpTablesBootstrap fw False fw_restore ex_rules ex_host = (Inr (), w1) \<and>
    TeardownIPTables fw False fw_restore ex_rules w1 = (Inr (), w2) \<and>
    w2 False (''nat'', ''POSTROUTING'') = Some [[''-j'', ''KUBE-POSTROUTING'']]"
proof -
  have "\<forall>k L. ex_host False k = Some L \<longrightarrow> distinct L" by (simp add: ex_host_def ex_rules_def)
  from teardown_undoes_bootstrap [where V = "\<lambda>w. w False" and w = ex_host, OF fw_behaves fw_restore_v6 ex_rules_ok this]
  obtain w1 w2 where "IpTablesBootstrap fw False fw_restore ex_rules ex_host = (Inr (), w1)"
    "TeardownIPTables fw False fw_restore ex_rules w1 = (Inr (), w2)"
    and R2: "\<And>k. w2 False k = map_option (filter (\<lambda>s. s \<notin> set (specs_in ex_rules k))) (ready ex_rules (ex_host False) k)"
    by blast
  moreover have "w2 False (''nat'', ''POSTROUTING'') = Some [[''-j'', ''KUBE-POSTROUTING'']]"
    by (simp add: R2 ready_apply ex_rules_def ex_host_def specs_in_def PostChain_def)
  ultimately show ?thesis by blast
qed

lemma teardown_too_many:
  assumes "ipt_behaves E v6 V" "restore_v6 (irPath iptr) = v6" "\<forall>r \<in> set rules. table_rule (Table r) (V w) r"
    "all_present rules (V w)" "V w (t, c) = Some L" "count_list L s < count_list (specs_in rules (t, c)) s"
  shows "\<exists>m w'. TeardownIPTables E v6 iptr rules w = (Inl (Plain m), w') \<and> (\<forall>c. V w' (t, c) = V w (t, c))"
proof -
  obtain ord res w' where w': "TeardownIPTables E v6 iptr rules w = (res, w')"
      "V w' = snd (restore_tables ord (V w))"
      "if fst (restore_tables ord (V w)) then res = Inr () else \<exists>m. res = Inl (Plain m)"
      "one_per_table ord" "\<And>t. lines_for ord t = map del_of (filter (\<lambda>r. Table r = t) rules)"
    using teardown_run [OF assms(1-4)] by blast
  have "specs_in (filter (\<lambda>r. Table r = t) rules) (t, c) = specs_in rules (t, c)"
    by (auto simp: specs_in_def intro!: arg_cong [where f = "map Rulespec"] filter_cong)
  then have "restore_lines t (lines_for ord t) (V w) = None"
    using restore_dels_too_many [where R = "V w" and rules = "filter (\<lambda>r. Table r = t) rules" and t = t, OF _ assms(5)]
      assms(6) w'(5) by simp
  from restore_tables_failing [OF w'(4) this] show ?thesis using w' by (auto split: if_splits)
qed

text \<open>A rule that stands more often in the list than in its chain makes the tear-down fail, and
  then no rule of its table is removed.\<close>

theorem teardown_repeated_rule_fails:
  assumes "ipt_behaves E v6 V" "restore_v6 (irPath iptr) = v6" "\<forall>r \<in> set rules. table_rule (Table r) (V w) r"
    "all_present rules (V w)" "V w (t, c) = Some L" "count_list L s < count_list (specs_in rules (t, c)) s"
  shows "\<exists>m w'. TeardownIPTables E v6 iptr rules w = (Inl (Plain m), w') \<and> (\<forall>c. V w' (t, c) = V w (t, c))"
  using teardown_too_many [OF assms] .

lemma teardown_repeated_rule_fails_witness:
  "\<exists>m w. TeardownIPTables fw False fw_restore (ex_rules @ ex_rules)
      (\<lambda>v6. (ex_host v6)((''nat'', PostChain) \<mapsto> [Rulespec (ex_rules ! 1)])) = (Inl (Plain m), w) \<and>
    w False (''nat'', PostChain) = Some [Rulespec (ex_rules ! 1)]"
proof -
  let ?w = "\<lambda>v6. (ex_host v6)((''nat'', PostChain) \<mapsto> [Rulespec (ex_rules ! 1)])"
  have 1: "\<forall>r \<in> set (ex_rules @ ex_rules). table_rule (Table r) (?w False) r"
    using ex_rules_ok(1) [of False] by (auto simp: table_rule_def)
  have 2: "all_present (ex_rules @ ex_rules) (?w False)"
    by (simp add: all_present_def ex_rules_def ex_host_def has_rule_def own_chain_def PostChain_def FwdChain_def)
  have 3: "?w False (''nat'', PostChain) = Some [Rulespec (ex_rules ! 1)]" by simp
  have 4: "count_list [Rulespec (ex_rules ! 1)] (Rulespec (ex_rules ! 1)) <
      count_list (specs_in (ex_rules @ ex_rules) (''nat'', PostChain)) (Rulespec (ex_rules ! 1))"
    by (simp add: specs_in_def ex_rules_def PostChain_def)
  obtain m w where "TeardownIPTables fw False fw_restore (ex_rules @ ex_rules) ?w = (Inl (Plain m), w)"
      "\<forall>c. w False (''nat'', c) = ?w False (''nat'', c)"
    using teardown_repeated_rule_fails [where V = "\<lambda>w. w False" and w = ?w, OF fw_behaves fw_restore_v6 1 2 3 4]
    by blast
  moreover from this(2) have "w False (''nat'', PostChain) = Some [Rulespec (ex_rules ! 1)]" using 3 by metis
  ultimately show ?thesis by blast
qed

subsection \<open>The version of the command\<close>

lemma takeWhile_is_digit: "r = [] \<or> \<not> is_digit (hd r) \<Longrightarrow> takeWhile is_digit (nat_digits n @ r) = nat_digits n"
  using nat_digits_is_digit by (cases r) (auto simp: takeWhile_append2 takeWhile_eq_all_conv)

lemma dropWhile_digits: "r = [] \<or> \<not> is_digit (hd r) \<Longrightarrow> dropWhile is_digit (nat_digits n @ r) = r"
  using nat_digits_is_digit by (cases r) (auto simp: dropWhile_append2 dropWhile_eq_Nil_conv)

lemma find_version_skip:
  "CHR ''v'' \<notin> set pre \<Longrightarrow> find_version (pre @ CHR ''v'' # s) = find_version (CHR ''v'' # s)"
  by (induction pre) (auto simp: version_at_def Let_def)

lemma digit_marks: "\<not> is_digit (CHR ''.'')" "\<not> is_digit (CHR '' '')"
  by code_simp+

definition version_line :: "string \<Rightarrow> nat \<Rightarrow> nat \<Rightarrow> nat \<Rightarrow> string \<Rightarrow> string" where
  "version_line pre a b c rest = pre @ CHR ''v'' # nat_digits a @ CHR ''.'' # nat_digits b @ CHR ''.'' # nat_digits c @ rest"

lemma extract_version:
  assumes "CHR ''v'' \<notin> set pre" "rest = [] \<or> \<not> is_digit (hd rest)"
  shows "extractIPTablesRestoreVersion (version_line pre a b c rest) =
    (case Atoi (nat_digits a) of Inl e \<Rightarrow> Inl e | Inr v1 \<Rightarrow>
     (case Atoi (nat_digits b) of Inl e \<Rightarrow> Inl e | Inr v2 \<Rightarrow>
     (case Atoi (nat_digits c) of Inl e \<Rightarrow> Inl e | Inr v3 \<Rightarrow> Inr (v1, v2, v3))))"
proof -
  have "find_version (CHR ''v'' # nat_digits a @ CHR ''.'' # nat_digits b @ CHR ''.'' # nat_digits c @ rest) =
      Some (nat_digits a, nat_digits b, nat_digits c)"
    using takeWhile_is_digit [of rest c] assms(2)
    by (simp add: version_at_def Let_def takeWhile_is_digit dropWhile_digits digit_marks)
  then show ?thesis
    using find_version_skip [OF assms(1)] by (simp add: extractIPTablesRestoreVersion_def version_line_def)
qed

text \<open>The answer to a command that prints its version as \<open>vX.Y.Z\<close> is to be run with \<open>--wait\<close>
  exactly when \<open>(X, Y, Z)\<close> is at least \<open>(1, 6, 2)\<close> in the lexicographic order; numbers of
  \<open>2 ^ 63\<close> and more are errors.\<close>

theorem wait_support:
  assumes "version_text E path w = (Inr (version_line pre a b c rest), w')"
    "CHR ''v'' \<notin> set pre" "rest = [] \<or> \<not> is_digit (hd rest)"
  shows "if a < 2 ^ 63 \<and> b < 2 ^ 63 \<and> c < 2 ^ 63
    then getIPTablesRestoreSupport E path w = (Inr (1 < a \<or> a = 1 \<and> (6 < b \<or> b = 6 \<and> 2 \<le> c)), w')
    else \<exists>m. getIPTablesRestoreSupport E path w = (Inl (Plain m), w')"
  using assms(1) extract_version [OF assms(2,3), of a b c]
  by (auto simp: getIPTablesRestoreSupport_def io_simps Atoi_def dec_val_nat_digits ipTablesHasWaitSupport_def)

lemma fw_version: "version_text fw path w = (Inr (version_line ''iptables '' 1 8 7 '' (nf_tables)''), w)"
  by (simp add: fw_def) code_simp

lemma wait_support_witness: "getIPTablesRestoreSupport fw ''iptables'' ex_host = (Inr True, ex_host)"
  using wait_support [OF fw_version] digit_marks by simp

end
