(* ===== verification/CniRules.thy ===== *)
theory CniRules
  imports CniIptables
begin

section \<open>simplecni: the rules of the daemon (pkg/backend/iptmanager/rules.go)\<close>

text \<open>
  The lists of rules, as functions of the texts of the two address ranges; a range that is not
  there (a nil pointer) prints as \<open><nil>\<close>. \<open>chain_verdict\<close> reads the rules of a chain the way
  the kernel does for one packet: the first rule whose conditions all hold decides.
\<close>

definition KubeProxyMark :: string where "KubeProxyMark = ''0x4000/0x4000''"

definition random_fully :: "'w netsys \<Rightarrow> bool \<Rightarrow> ('w, bool) io" where
  "random_fully E v6 = tryE (ipt_new E v6) (\<lambda>_. ret False) (\<lambda>_. has_random_fully E v6)"

definition comment :: "string \<Rightarrow> string list" where
  "comment c = [''-m'', ''comment'', ''--comment'', c]"

definition post_rule :: "string list \<Rightarrow> string \<Rightarrow> string list \<Rightarrow> IPTablesRule" where
  "post_rule conds c target =
     \<lparr>Table = ''nat'', Action = ''-A'', Chain = PostChain, Rulespec = conds @ comment c @ (''-j'' # target)\<rparr>"

definition masquerade :: "bool \<Rightarrow> string list" where
  "masquerade fully = (if fully then [''MASQUERADE'', ''--random-fully''] else [''MASQUERADE''])"

definition jump_rule :: IPTablesRule where
  "jump_rule = \<lparr>Table = ''nat'', Action = ''-A'', Chain = ''POSTROUTING'',
     Rulespec = comment ''simplecni masq'' @ [''-j'', PostChain]\<rparr>"

definition masq4 :: "string \<Rightarrow> string \<Rightarrow> bool \<Rightarrow> IPTablesRule list" where
  "masq4 cluster pod fully =
     [jump_rule,
      post_rule [''-m'', ''mark'', ''--mark'', KubeProxyMark] ''simplecni masq mask'' [''RETURN''],
      post_rule [''-s'', pod, ''-d'', cluster] ''simplecni masq pod to cluster'' [''RETURN''],
      post_rule [''-s'', cluster, ''-d'', pod] ''simplecni masq cluster to pod'' [''RETURN''],
      post_rule [''!'', ''-s'', cluster, ''-d'', pod] ''simplecni masq'' [''RETURN''],
      post_rule [''-s'', cluster, ''!'', ''-d'', ''224.0.0.0/4''] ''simplecni masq'' (masquerade fully),
      post_rule [''!'', ''-s'', cluster, ''-d'', cluster] ''simplecni masq'' (masquerade fully)]"

definition masq6 :: "string \<Rightarrow> string \<Rightarrow> bool \<Rightarrow> IPTablesRule list" where
  "masq6 cluster pod fully =
     [jump_rule,
      post_rule [''-m'', ''mark'', ''--mark'', KubeProxyMark] ''simplecni masq'' [''RETURN''],
      post_rule [''-s'', pod, ''-d'', cluster] ''simplecni masq'' [''RETURN''],
      post_rule [''-s'', cluster, ''-d'', pod] ''simplecni masq'' [''RETURN''],
      post_rule [''!'', ''-s'', cluster, ''-d'', pod] ''simplecni masq'' [''RETURN''],
      post_rule [''-s'', cluster, ''!'', ''-d'', ''ff00::/8''] ''simplecni masq'' (masquerade fully),
      post_rule [''!'', ''-s'', cluster, ''-d'', cluster] ''simplecni masq'' (masquerade fully)]"

definition masqRules :: "'w netsys \<Rightarrow> IPNet option \<Rightarrow> IPNet option \<Rightarrow> ('w, IPTablesRule list) io" where
  "masqRules E ccidr pcidr = bindE (random_fully E False) (\<lambda>fully.
     ret (masq4 (IPNet_String ccidr) (IPNet_String pcidr) fully))"

definition masqIP6Rules :: "'w netsys \<Rightarrow> IPNet option \<Rightarrow> IPNet option \<Rightarrow> ('w, IPTablesRule list) io" where
  "masqIP6Rules E ccidr pcidr = bindE (random_fully E True) (\<lambda>fully.
     ret (masq6 (IPNet_String ccidr) (IPNet_String pcidr) fully))"

definition fwd_rule :: "string \<Rightarrow> string list \<Rightarrow> string \<Rightarrow> IPTablesRule" where
  "fwd_rule c conds target = \<lparr>Table = ''filter'', Action = ''-A'', Chain = c,
     Rulespec = conds @ comment ''simplecni forward'' @ [''-j'', target]\<rparr>"

definition forwardRules :: "IPNet option \<Rightarrow> IPTablesRule list" where
  "forwardRules ccidr =
     [fwd_rule ''FORWARD'' [] FwdChain,
      fwd_rule FwdChain [''-s'', IPNet_String ccidr] ''ACCEPT'',
      fwd_rule FwdChain [''-d'', IPNet_String ccidr] ''ACCEPT'']"

subsection \<open>One packet against the rules of a chain\<close>

record packet =
  pSrc :: IP
  pDst :: IP
  pMark :: "32 word"

definition in_cidr :: "string \<Rightarrow> IP \<Rightarrow> bool" where
  "in_cidr text ip = (case ParseCIDR text of Inr (_, n) \<Rightarrow> Contains_ip n ip | Inl _ \<Rightarrow> False)"

text \<open>A mark is given as a value and a mask, both in hexadecimal with the prefix \<open>0x\<close>.\<close>

definition mark_matches :: "string \<Rightarrow> 32 word \<Rightarrow> bool" where
  "mark_matches text m = (case split2 text ''/'' of
     Some (v, k) \<Rightarrow> (case (hex_group (drop 2 v), hex_group (drop 2 k)) of
        (Some value, Some msk) \<Rightarrow> m AND of_nat msk = of_nat value | _ \<Rightarrow> False)
   | None \<Rightarrow> False)"

definition condition :: "packet \<Rightarrow> string \<Rightarrow> string \<Rightarrow> bool" where
  "condition p opt arg =
     (if opt = ''-s'' then in_cidr arg (pSrc p) else if opt = ''-d'' then in_cidr arg (pDst p)
      else if opt = ''--mark'' then mark_matches arg (pMark p) else True)"

fun spec_target :: "packet \<Rightarrow> bool \<Rightarrow> string list \<Rightarrow> string option" where
  "spec_target p neg (w # a # ws) =
     (if w = ''!'' then spec_target p True (a # ws)
      else if w = ''-j'' then Some a
      else if condition p w a \<noteq> neg then spec_target p False ws else None)"
| "spec_target p neg _ = None"

fun chain_verdict :: "packet \<Rightarrow> string list list \<Rightarrow> string" where
  "chain_verdict p [] = ''RETURN''"
| "chain_verdict p (r # rs) = (case spec_target p False r of Some t \<Rightarrow> t | None \<Rightarrow> chain_verdict p rs)"

definition chain_rules :: "string \<Rightarrow> IPTablesRule list \<Rightarrow> string list list" where
  "chain_rules c rules = map Rulespec (filter (\<lambda>r. Chain r = c) rules)"

definition kube_marked :: "packet \<Rightarrow> bool" where
  "kube_marked p \<longleftrightarrow> pMark p AND 0x4000 = 0x4000"

lemma mark_kube: "mark_matches KubeProxyMark m \<longleftrightarrow> m AND 0x4000 = 0x4000"
proof -
  have "split2 KubeProxyMark ''/'' = Some (''0x4000'', ''0x4000'')" by code_simp
  moreover have "hex_group (drop 2 ''0x4000'') = Some 0x4000" by code_simp
  ultimately show ?thesis by (simp add: mark_matches_def)
qed

lemma in_cidr_String: "ParseCIDR (IPNet_String (Some c)) = Inr (ip, c) \<Longrightarrow> in_cidr (IPNet_String (Some c)) x = Contains_ip c x"
  by (simp add: in_cidr_def)

lemmas rule_defs = masq4_def masq6_def forwardRules_def post_rule_def jump_rule_def fwd_rule_def
  comment_def masquerade_def chain_rules_def PostChain_def FwdChain_def

lemma masq4_verdict:
  assumes "\<And>x. in_cidr c x = C x" "\<And>x. in_cidr d x = D x"
  shows "chain_verdict p (chain_rules PostChain (masq4 c d fully)) =
    (if kube_marked p \<or> D (pDst p) \<or> (D (pSrc p) \<and> C (pDst p)) \<or>
        (if C (pSrc p) then in_cidr ''224.0.0.0/4'' (pDst p) else \<not> C (pDst p))
     then ''RETURN'' else ''MASQUERADE'')"
  using assms by (auto simp: rule_defs condition_def mark_kube kube_marked_def)

lemma masq6_verdict:
  assumes "\<And>x. in_cidr c x = C x" "\<And>x. in_cidr d x = D x"
  shows "chain_verdict p (chain_rules PostChain (masq6 c d fully)) =
    (if kube_marked p \<or> D (pDst p) \<or> (D (pSrc p) \<and> C (pDst p)) \<or>
        (if C (pSrc p) then in_cidr ''ff00::/8'' (pDst p) else \<not> C (pDst p))
     then ''RETURN'' else ''MASQUERADE'')"
  using assms by (auto simp: rule_defs condition_def mark_kube kube_marked_def)

lemma forward_verdict:
  "chain_verdict p (chain_rules FwdChain (forwardRules (Some c))) =
    (if in_cidr (IPNet_String (Some c)) (pSrc p) \<or> in_cidr (IPNet_String (Some c)) (pDst p)
     then ''ACCEPT'' else ''RETURN'')"
  by (auto simp: rule_defs condition_def)

end
