(* ===== verification/CniFiles.thy ===== *)
theory CniFiles
  imports GoNet GoJson
begin

section \<open>simplecni: the subnet file (pkg/utils/files, pkg/netconfig, cniplugin)\<close>

text \<open>
  The daemon writes the address ranges of its node to a file of lines \<open>KEY=value\<close>, the plugin
  reads them, and the daemon reads single keys of the previous file with a library. The record
  \<open>files\<close> holds the calls of package \<open>os\<close> (\<open>append_file\<close> is a write to a file
  opened before), the library's reader of such files, and the order in which \<open>range\<close> visits the keys of a map.
\<close>

record 'w files =
  mkdir_all :: "string \<Rightarrow> ('w, unit) io"
  create_file :: "string \<Rightarrow> ('w, unit) io"
  append_file :: "string \<Rightarrow> string \<Rightarrow> ('w, unit) io"
  sync_file :: "string \<Rightarrow> ('w, unit) io"
  close_file :: "string \<Rightarrow> ('w, unit) io"
  rename_file :: "string \<Rightarrow> string \<Rightarrow> ('w, unit) io"
  remove_file :: "string \<Rightarrow> ('w, unit) io"
  stat_file :: "string \<Rightarrow> ('w, unit) io"
  read_file :: "string \<Rightarrow> ('w, string) io"
  dotenv_read :: "string \<Rightarrow> ('w, (string \<times> string) list) io"
  range_keys :: "string list \<Rightarrow> ('w, string list) io"

definition subnet_path :: string where "subnet_path = ''/var/run/simplecni/subnet.env''"

definition to_upper_char :: "char \<Rightarrow> char" where
  "to_upper_char c = (let n = of_char c in if 97 \<le> n \<and> n \<le> (122 :: nat) then char_of (n - 32) else c)"

definition ToUpper :: "string \<Rightarrow> string" where
  "ToUpper s = map to_upper_char s"

definition env_line :: "string \<times> string \<Rightarrow> string" where
  "env_line kv = ToUpper (fst kv) @ ''='' @ snd kv @ [CHR 0x0A]"

primrec write_entries :: "'w files \<Rightarrow> string \<Rightarrow> (string \<times> string) list \<Rightarrow> string list \<Rightarrow> ('w, unit) io" where
  "write_entries F path subnetMap [] = ret ()"
| "write_entries F path subnetMap (k # ks) =
     (let v = the (map_of subnetMap k) in
      bindE (mapErr (\<lambda>e. Plain (''write '' @ k @ ''/'' @ v @ '' to subnetfile error: '' @ err_text e))
        (append_file F path (env_line (k, v)))) (\<lambda>_. write_entries F path subnetMap ks))"

definition WriteSubnetFile :: "'w files \<Rightarrow> (string \<times> string) list \<Rightarrow> ('w, unit) io" where
  "WriteSubnetFile F subnetMap =
     bindE (mkdir_all F ''/var/run/simplecni/'') (\<lambda>_.
     let tempFile = ''/var/run/simplecni/.subnet.env'' in
     bindE (mapErr (\<lambda>e. Plain (''create subnetfile error: '' @ err_text e)) (create_file F tempFile)) (\<lambda>_.
     bindE (range_keys F (map fst subnetMap)) (\<lambda>order.
     bindE (write_entries F tempFile subnetMap order) (\<lambda>_.
     rename_file F tempFile subnet_path))))"

definition ReadKeyFromSubnetFile :: "'w files \<Rightarrow> string \<Rightarrow> ('w, string) io" where
  "ReadKeyFromSubnetFile F key =
     tryE (stat_file F subnet_path)
       (\<lambda>err. if IsNotExist err then ret [] else fail err)
       (\<lambda>_. bindE (dotenv_read F subnet_path) (\<lambda>prevSubnet.
          ret (case map_of prevSubnet key of Some value \<Rightarrow> value | None \<Rightarrow> [])))"

definition ReadCIDRFromSubnetFile :: "'w files \<Rightarrow> string \<Rightarrow> ('w, IPNet option) io" where
  "ReadCIDRFromSubnetFile F key =
     bindE (mapErr (\<lambda>e. Plain (''read '' @ key @ '' from subnetfile error: '' @ err_text e))
       (ReadKeyFromSubnetFile F key)) (\<lambda>prev.
     let cidrs = split_char (CHR '','') prev in
     if length cidrs > 1 then ret None
     else ret (case ParseCIDR (hd cidrs) of Inr (_, n) \<Rightarrow> Some n | Inl _ \<Rightarrow> None))"

subsection \<open>The plugin's reader\<close>

record subnetEnv =
  nws :: "IPNet list"
  sn :: "IPNet option"
  ip6Nws :: "IPNet list"
  ip6Sn :: "IPNet option"
  mtu :: "nat option"
  ipmasq :: "bool option"
  backend :: string

definition empty_env :: subnetEnv where
  "empty_env = \<lparr>nws = [], sn = None, ip6Nws = [], ip6Sn = None, mtu = None, ipmasq = None, backend = []\<rparr>"

definition missing :: "subnetEnv \<Rightarrow> string" where
  "missing se = join_with '', ''
     ((if sn se = None \<and> ip6Sn se = None then [''SUBNET'', ''IPV6_SUBNET''] else []) @
      (if ipmasq se = None then [''IPMASQ''] else []))"

text \<open>A mask is compared by the indices of the first one, which panics when the second is shorter
  and equal so far.\<close>

fun compareMask :: "byte list \<Rightarrow> byte list \<Rightarrow> goerr + bool" where
  "compareMask [] m2 = Inr True"
| "compareMask (a # m1) [] = Inl (Panic ''index out of range'')"
| "compareMask (a # m1) (b # m2) = (if a \<noteq> b then Inr False else compareMask m1 m2)"

fun isSubnetAlreadyPresent :: "IPNet list \<Rightarrow> IPNet \<Rightarrow> goerr + bool" where
  "isSubnetAlreadyPresent [] nw = Inr False"
| "isSubnetAlreadyPresent (nwi # rest) nw =
     (if IP_Equal (netIP nw) (netIP nwi)
      then (case compareMask (netMask nw) (netMask nwi) of
              Inl e \<Rightarrow> Inl e | Inr True \<Rightarrow> Inr True | Inr False \<Rightarrow> isSubnetAlreadyPresent rest nw)
      else isSubnetAlreadyPresent rest nw)"

fun load_networks :: "string list \<Rightarrow> IPNet list \<Rightarrow> goerr + IPNet list" where
  "load_networks [] acc = Inr acc"
| "load_networks (c # cs) acc =
     (case ParseCIDR c of Inl e \<Rightarrow> Inl e | Inr (_, nw) \<Rightarrow>
     (case isSubnetAlreadyPresent acc nw of Inl e \<Rightarrow> Inl e
      | Inr present \<Rightarrow> load_networks cs (if present then acc else acc @ [nw])))"

definition ParseUint_error :: "string \<Rightarrow> goerr" where
  "ParseUint_error s = Plain (''strconv.ParseUint: parsing '' @ dquote s)"

definition env_keys :: "string list" where
  "env_keys = [''NETWORK'', ''SUBNET'', ''IPV6_NETWORK'', ''IPV6_SUBNET'', ''MTU'', ''IPMASQ'', ''BACKEND'']"

text \<open>One line: \<open>parts[1]\<close> is read only for the keys of the switch, and panics for a line that is
  just such a key.\<close>

definition load_line :: "string \<Rightarrow> subnetEnv \<Rightarrow> goerr + subnetEnv" where
  "load_line line se =
     (case split2 line ''='' of
        None \<Rightarrow> if line \<in> set env_keys then Inl (Panic ''index out of range [1]'') else Inr se
      | Some (k, v) \<Rightarrow>
          if k = ''NETWORK'' then
            (case load_networks (split_char (CHR '','') v) [] of Inl e \<Rightarrow> Inl e | Inr l \<Rightarrow> Inr (se\<lparr>nws := l\<rparr>))
          else if k = ''SUBNET'' then
            (case ParseCIDR v of Inl e \<Rightarrow> Inl e | Inr (_, n) \<Rightarrow> Inr (se\<lparr>sn := Some n\<rparr>))
          else if k = ''IPV6_NETWORK'' then
            (case load_networks (split_char (CHR '','') v) [] of Inl e \<Rightarrow> Inl e | Inr l \<Rightarrow> Inr (se\<lparr>ip6Nws := l\<rparr>))
          else if k = ''IPV6_SUBNET'' then
            (case ParseCIDR v of Inl e \<Rightarrow> Inl e | Inr (_, n) \<Rightarrow> Inr (se\<lparr>ip6Sn := Some n\<rparr>))
          else if k = ''MTU'' then
            (case ParseUint32 v of None \<Rightarrow> Inl (ParseUint_error v) | Some n \<Rightarrow> Inr (se\<lparr>mtu := Some n\<rparr>))
          else if k = ''IPMASQ'' then Inr (se\<lparr>ipmasq := Some (v = ''true'')\<rparr>)
          else if k = ''BACKEND'' then Inr (se\<lparr>backend := v\<rparr>)
          else Inr se)"

text \<open>\<open>bufio.Scanner\<close>: the lines without their ends (a carriage return before the end belongs to
  it), the last one only when it is not empty; a line of 64 KiB or more stops the scan with an error.\<close>

definition drop_cr :: "string \<Rightarrow> string" where
  "drop_cr l = (if l \<noteq> [] \<and> last l = CHR 0x0D then butlast l else l)"

definition raw_lines :: "string \<Rightarrow> string list" where
  "raw_lines text = (let ls = split_char (CHR 0x0A) text in if last ls = [] then butlast ls else ls)"

fun load_lines :: "string list \<Rightarrow> subnetEnv \<Rightarrow> goerr + subnetEnv" where
  "load_lines [] se = Inr se"
| "load_lines (l # ls) se =
     (if length l > 65535 then Inl (Plain ''bufio.Scanner: token too long'')
      else case load_line (drop_cr l) se of Inl e \<Rightarrow> Inl e | Inr se' \<Rightarrow> load_lines ls se')"

definition loadSubnetEnv :: "'w files \<Rightarrow> string \<Rightarrow> ('w, subnetEnv) io" where
  "loadSubnetEnv F fn =
     bindE (read_file F fn) (\<lambda>text.
     bindE (lift (load_lines (raw_lines text) empty_env)) (\<lambda>se.
     if missing se \<noteq> [] then fail (Plain (fn @ '' is missing '' @ missing se)) else ret se))"

end
