(* ===== verification/CniManager.thy ===== *)
theory CniManager
  imports CniRules CniFiles
begin

section \<open>simplecni: the manager of the iptables rules (pkg/backend/iptmanager)\<close>

text \<open>
  The state is the host's (\<open>'w\<close>) and the manager's. A goroutine that the code starts with \<open>go\<close>
  is put on the list \<open>pending\<close>; \<open>setupAndEnsureIPTables\<close> is what it then does: it gives up, or
  sets its rules up, records them and repairs them once per period until the context is done,
  which is after \<open>ticks\<close> periods. IPv4 and IPv6 have the same code, which the flag \<open>v6\<close> selects.
\<close>

record CidrManager =
  clustercidr :: "IPNet option"
  nodecidr :: "IPNet option"
  prevclustercidr :: "IPNet option"
  prevnodecidr :: "IPNet option"
  clustercidrv6 :: "IPNet option"
  nodecidrv6 :: "IPNet option"
  prevclustercidrv6 :: "IPNet option"
  prevnodecidrv6 :: "IPNet option"

record iptm =
  ipv4Rules :: "IPTablesRule list"
  ipv6Rules :: "IPTablesRule list"
  fwdRules :: "IPTablesRule list"
  cidrm :: "CidrManager option"
  pending :: "(bool \<times> IPTablesRule list) list"

definition new_iptm :: iptm where
  "new_iptm = \<lparr>ipv4Rules = [], ipv6Rules = [], fwdRules = [], cidrm = None, pending = []\<rparr>"

definition host :: "('w, 'a) io \<Rightarrow> ('w \<times> 's, 'a) io" where
  "host m = (\<lambda>(w, s). case m w of (r, w') \<Rightarrow> (r, (w', s)))"

definition mgr :: "('s \<Rightarrow> 's) \<Rightarrow> ('w \<times> 's, unit) io" where
  "mgr f = modS (\<lambda>(w, s). (w, f s))"

lemma host_apply [io_simps]: "host m (w, s) = (case m w of (r, w') \<Rightarrow> (r, (w', s)))"
  by (simp add: host_def)

lemma mgr_apply [io_simps]: "mgr f (w, s) = (Inr (), (w, f s))"
  by (simp add: mgr_def)

subsection \<open>The address ranges (cidr.go)\<close>

text \<open>The second value read also goes to \<open>prevnodecidr\<close>.\<close>

definition NewCidrManager :: "'w files \<Rightarrow> IPNet option \<Rightarrow> IPNet option \<Rightarrow> IPNet option \<Rightarrow> IPNet option \<Rightarrow>
    ('w, CidrManager) io" where
  "NewCidrManager F ccidr ncidr ccidrv6 ncidrv6 =
     (let cm = \<lparr>clustercidr = ccidr, nodecidr = ncidr, prevclustercidr = None, prevnodecidr = None,
                clustercidrv6 = ccidrv6, nodecidrv6 = ncidrv6, prevclustercidrv6 = None, prevnodecidrv6 = None\<rparr>
      in bindE (ReadCIDRFromSubnetFile F ''SUBNET'') (\<lambda>cidr1.
         let cm1 = cm\<lparr>prevnodecidr := cidr1\<rparr> in
         bindE (ReadCIDRFromSubnetFile F ''CIDR'') (\<lambda>cidr2.
         ret (cm1\<lparr>prevnodecidr := cidr2\<rparr>))))"

subsection \<open>Chains and rules\<close>

definition CreateChain :: "'w netsys \<Rightarrow> bool \<Rightarrow> string \<Rightarrow> string \<Rightarrow> ('w, unit) io" where
  "CreateChain N v6 table chain =
     tryE (ipt_new N v6) (\<lambda>_. ret ()) (\<lambda>_. tryE (clear_chain N v6 table chain) (\<lambda>_. ret ()) ret)"

definition deleteIPTables :: "'w netsys \<Rightarrow> bool \<Rightarrow> IPTablesRule list \<Rightarrow> ('w, unit) io" where
  "deleteIPTables N v6 rules =
     bindE (ipt_new N v6) (\<lambda>_.
     bindE (NewIPTablesRestoreWithProtocol N v6) (\<lambda>iptRestore.
     TeardownIPTables N v6 iptRestore rules))"

definition start_rules :: "'w netsys \<Rightarrow> bool \<Rightarrow> IPTablesRule list \<Rightarrow> ('w \<times> iptm, ipt_restore option) io" where
  "start_rules N v6 rules =
     tryE (host (ipt_new N v6)) (\<lambda>_. ret None) (\<lambda>_.
     tryE (host (NewIPTablesRestoreWithProtocol N v6)) (\<lambda>_. ret None) (\<lambda>iptRestore.
     bindE (tryE (host (IpTablesBootstrap N v6 iptRestore rules)) (\<lambda>_. ret ()) ret) (\<lambda>_.
     bindE (mgr (\<lambda>s. if v6 then s\<lparr>ipv6Rules := ipv6Rules s @ rules\<rparr> else s\<lparr>ipv4Rules := ipv4Rules s @ rules\<rparr>)) (\<lambda>_.
     ret (Some iptRestore)))))"

definition resync :: "'w netsys \<Rightarrow> bool \<Rightarrow> ipt_restore \<Rightarrow> IPTablesRule list \<Rightarrow> ('w \<times> iptm, unit) io" where
  "resync N v6 iptRestore rules = tryE (host (EnsureIPTables N v6 iptRestore rules)) (\<lambda>_. ret ()) ret"

primrec resyncs :: "nat \<Rightarrow> 'w netsys \<Rightarrow> bool \<Rightarrow> ipt_restore \<Rightarrow> IPTablesRule list \<Rightarrow> ('w \<times> iptm, unit) io" where
  "resyncs 0 N v6 iptRestore rules = ret ()"
| "resyncs (Suc n) N v6 iptRestore rules =
     bindE (resync N v6 iptRestore rules) (\<lambda>_. resyncs n N v6 iptRestore rules)"

definition setupAndEnsureIPTables :: "'w netsys \<Rightarrow> bool \<Rightarrow> IPTablesRule list \<Rightarrow> nat \<Rightarrow> ('w \<times> iptm, unit) io" where
  "setupAndEnsureIPTables N v6 rules ticks =
     bindE (start_rules N v6 rules) (\<lambda>r. case r of None \<Rightarrow> ret () | Some iptRestore \<Rightarrow> resyncs ticks N v6 iptRestore rules)"

definition go_rules :: "bool \<Rightarrow> IPTablesRule list \<Rightarrow> ('w \<times> iptm, unit) io" where
  "go_rules v6 rules = mgr (\<lambda>s. s\<lparr>pending := pending s @ [(v6, rules)]\<rparr>)"

definition changed :: "IPNet option \<Rightarrow> IPNet option \<Rightarrow> bool" where
  "changed a b \<longleftrightarrow> IPNet_String a \<noteq> IPNet_String b"

definition SetupAndEnsureMasqRules :: "'w netsys \<Rightarrow> CidrManager \<Rightarrow> ('w \<times> iptm, unit) io" where
  "SetupAndEnsureMasqRules N c =
     bindE (if changed (prevnodecidr c) (nodecidr c) \<or> changed (prevclustercidr c) (clustercidr c)
            then bindE (host (masqRules N (prevclustercidr c) (prevnodecidr c))) (\<lambda>old.
                 host (deleteIPTables N False old))
            else ret ()) (\<lambda>_.
     bindE (host (CreateChain N False ''nat'' PostChain)) (\<lambda>_.
     bindE (host (masqRules N (clustercidr c) (nodecidr c))) (\<lambda>rules.
     bindE (go_rules False rules) (\<lambda>_.
     let v6 = (nodecidrv6 c \<noteq> None \<and> clustercidrv6 c \<noteq> None) in
     bindE (if v6 \<and> (changed (prevnodecidrv6 c) (nodecidrv6 c) \<or> changed (prevclustercidrv6 c) (clustercidrv6 c))
            then bindE (host (masqIP6Rules N (clustercidrv6 c) (nodecidrv6 c))) (\<lambda>old.
                 host (deleteIPTables N True old))
            else ret ()) (\<lambda>_.
     if v6 then bindE (host (CreateChain N True ''nat'' PostChain)) (\<lambda>_.
                bindE (host (masqIP6Rules N (clustercidrv6 c) (nodecidrv6 c))) (\<lambda>rules6.
                go_rules True rules6))
     else ret ())))))"

definition SetupAndEnsureForwardRules :: "'w netsys \<Rightarrow> CidrManager \<Rightarrow> ('w \<times> iptm, unit) io" where
  "SetupAndEnsureForwardRules N c =
     bindE (if clustercidr c \<noteq> None
            then bindE (host (CreateChain N False ''filter'' FwdChain)) (\<lambda>_. go_rules False (forwardRules (nodecidr c)))
            else ret ()) (\<lambda>_.
     if clustercidrv6 c \<noteq> None
     then bindE (host (CreateChain N True ''filter'' FwdChain)) (\<lambda>_. go_rules True (forwardRules (nodecidrv6 c)))
     else ret ())"

text \<open>The errors of the set-up of the masquerade rules are not looked at.\<close>

definition Init :: "'w netsys \<Rightarrow> 'w files \<Rightarrow> IPNet option \<Rightarrow> IPNet option \<Rightarrow> IPNet option \<Rightarrow> IPNet option \<Rightarrow>
    ('w \<times> iptm, unit) io" where
  "Init N F ccidr ncidr ccidrv6 ncidrv6 =
     bindE (mgr (\<lambda>s. s\<lparr>fwdRules := forwardRules ccidr\<rparr>)) (\<lambda>_.
     bindE (host (masqRules N ccidr ncidr)) (\<lambda>r4.
     bindE (mgr (\<lambda>s. s\<lparr>ipv4Rules := r4\<rparr>)) (\<lambda>_.
     bindE (host (masqIP6Rules N ccidrv6 ncidrv6)) (\<lambda>r6.
     bindE (mgr (\<lambda>s. s\<lparr>ipv6Rules := r6\<rparr>)) (\<lambda>_.
     bindE (host (NewCidrManager F ccidr ncidr ccidrv6 ncidrv6)) (\<lambda>c.
     bindE (mgr (\<lambda>s. s\<lparr>cidrm := Some c\<rparr>)) (\<lambda>_.
     bindE (tryE (SetupAndEnsureMasqRules N c) (\<lambda>_. ret ()) ret) (\<lambda>_.
     SetupAndEnsureForwardRules N c))))))))"

subsection \<open>Cleaning up\<close>

definition cleanup_family :: "'w netsys \<Rightarrow> bool \<Rightarrow> IPTablesRule list \<Rightarrow> ('w, unit) io" where
  "cleanup_family N v6 rules =
     (if rules = [] then ret ()
      else bindE (errorf ''failed to setup IPTables. iptables binary was not found'' (ipt_new N v6)) (\<lambda>_.
           bindE (errorf ''failed to setup IPTables. iptables-restore binary was not found''
             (NewIPTablesRestoreWithProtocol N v6)) (\<lambda>iptRestore.
           tryE (TeardownIPTables N v6 iptRestore rules) (\<lambda>_. ret ()) ret)))"

definition CleanUp :: "'w netsys \<Rightarrow> ('w \<times> iptm, unit) io" where
  "CleanUp N = (\<lambda>(w, s).
     bindE (host (cleanup_family N False (ipv4Rules s))) (\<lambda>_. host (cleanup_family N True (ipv6Rules s))) (w, s))"

subsection \<open>A whole run\<close>

text \<open>The goroutines that \<open>Init\<close> started run one after the other, each for as many periods as the
  list says, then the context is done and the manager cleans up.\<close>

fun run_pending :: "'w netsys \<Rightarrow> nat list \<Rightarrow> (bool \<times> IPTablesRule list) list \<Rightarrow> ('w \<times> iptm, unit) io" where
  "run_pending N (n # ns) ((v6, rules) # ps) =
     bindE (setupAndEnsureIPTables N v6 rules n) (\<lambda>_. run_pending N ns ps)"
| "run_pending N _ _ = ret ()"

definition daemon_run :: "'w netsys \<Rightarrow> 'w files \<Rightarrow> IPNet option \<Rightarrow> IPNet option \<Rightarrow> IPNet option \<Rightarrow> IPNet option \<Rightarrow>
    nat list \<Rightarrow> ('w \<times> iptm, unit) io" where
  "daemon_run N F ccidr ncidr ccidrv6 ncidrv6 ticks =
     bindE (Init N F ccidr ncidr ccidrv6 ncidrv6) (\<lambda>_.
     bindE (getS (\<lambda>(w, s). pending s)) (\<lambda>ps.
     bindE (run_pending N ticks ps) (\<lambda>_. CleanUp N)))"

end
