(* ===== verification/CniManagerProps.thy ===== *)
theory CniManagerProps
  imports CniManager CniFirewallProps
begin

section \<open>simplecni: properties of the manager of the rules\<close>

text \<open>
  What the rules do to a packet, and what a start, a run and the end of the daemon do to the
  rules of a host. \<open>daemon_host\<close> is \<open>ipt_behaves\<close> for IPv4 together with the documented behaviour
  of the other calls: the binaries are found and accepted, and commands for IPv6 leave the
  IPv4 rules alone.
\<close>

definition daemon_host :: "'w netsys \<Rightarrow> bool \<Rightarrow> ('w \<Rightarrow> ruleset) \<Rightarrow> bool" where
  "daemon_host N fully V \<longleftrightarrow> ipt_behaves N False V \<and>
     (\<forall>v6 w. \<exists>w'. ipt_new N v6 w = (Inr (), w') \<and> V w' = V w) \<and>
     (\<forall>v6 w. \<exists>w'. has_random_fully N v6 w = (Inr fully, w') \<and> V w' = V w) \<and>
     (\<forall>name w. \<exists>path w'. look_path N name w = (Inr path, w') \<and> V w' = V w \<and>
        (name = ''iptables-restore'' \<longrightarrow> \<not> restore_v6 path) \<and> (name = ''ip6tables-restore'' \<longrightarrow> restore_v6 path)) \<and>
     (\<forall>path w. \<exists>b w'. getIPTablesRestoreSupport N path w = (Inr b, w') \<and> V w' = V w) \<and>
     (\<forall>R t c spec path args text ts. keeps (\<lambda>w. V w = R) (chain_exists N True t c) \<and>
        keeps (\<lambda>w. V w = R) (clear_chain N True t c) \<and> keeps (\<lambda>w. V w = R) (rule_exists N True t c spec) \<and>
        keeps (\<lambda>w. V w = R) (range_tables N ts) \<and>
        (restore_v6 path \<longrightarrow> keeps (\<lambda>w. V w = R) (run_restore N path args text)))"

definition rejects_nil :: "'w netsys \<Rightarrow> ('w \<Rightarrow> ruleset) \<Rightarrow> bool" where
  "rejects_nil N V \<longleftrightarrow> (\<forall>w t c spec. ''<nil>'' \<in> set spec \<longrightarrow>
     (\<exists>m w'. rule_exists N False t c spec w = (Inl (Plain m), w') \<and> V w' = V w))"

definition reads_subnet_file :: "'w files \<Rightarrow> ('w \<Rightarrow> ruleset) \<Rightarrow> bool" where
  "reads_subnet_file F V \<longleftrightarrow>
     (\<forall>key w. \<exists>c w'. ReadCIDRFromSubnetFile F key w = (Inr c, w') \<and> V w' = V w)"

lemma host_behaves: "daemon_host N fully V \<Longrightarrow> ipt_behaves N False V"
  unfolding daemon_host_def by blast

lemma host_ipt_new: "daemon_host N fully V \<Longrightarrow> \<exists>w'. ipt_new N v6 w = (Inr (), w') \<and> V w' = V w"
  unfolding daemon_host_def by blast

lemma host_random: "daemon_host N fully V \<Longrightarrow> \<exists>w'. has_random_fully N v6 w = (Inr fully, w') \<and> V w' = V w"
  unfolding daemon_host_def by blast

lemma host_path: "daemon_host N fully V \<Longrightarrow> \<exists>path w'. look_path N name w = (Inr path, w') \<and> V w' = V w \<and>
    (name = ''iptables-restore'' \<longrightarrow> \<not> restore_v6 path) \<and> (name = ''ip6tables-restore'' \<longrightarrow> restore_v6 path)"
  unfolding daemon_host_def by blast

lemma host_support: "daemon_host N fully V \<Longrightarrow> \<exists>b w'. getIPTablesRestoreSupport N path w = (Inr b, w') \<and> V w' = V w"
  unfolding daemon_host_def by blast

lemma restore_is_new:
  assumes H: "daemon_host N fully V"
  shows "\<exists>r w'. NewIPTablesRestoreWithProtocol N v6 w = (Inr r, w') \<and> V w' = V w \<and> restore_v6 (irPath r) = v6"
proof -
  obtain path w1 where w1: "look_path N (getIPTablesRestoreCommand v6) w = (Inr path, w1)" "V w1 = V w"
      "restore_v6 path = v6"
    using host_path [OF H, of "getIPTablesRestoreCommand v6" w] by (cases v6) (auto simp: getIPTablesRestoreCommand_def)
  obtain path2 w2 where w2: "look_path N (getIPTablesCommand v6) w1 = (Inr path2, w2)" "V w2 = V w1"
    using host_path [OF H, of "getIPTablesCommand v6" w1] by blast
  obtain b w3 where w3: "getIPTablesRestoreSupport N path2 w2 = (Inr b, w3)" "V w3 = V w2"
    using host_support [OF H] by blast
  show ?thesis using w1 w2 w3 by (simp add: NewIPTablesRestoreWithProtocol_def io_simps)
qed

lemma host_fully:
  assumes H: "daemon_host N fully V"
  shows "\<exists>w'. random_fully N v6 w = (Inr fully, w') \<and> V w' = V w"
proof -
  obtain w1 where w1: "ipt_new N v6 w = (Inr (), w1)" "V w1 = V w" using host_ipt_new [OF H] by blast
  obtain w2 where "has_random_fully N v6 w1 = (Inr fully, w2)" "V w2 = V w1" using host_random [OF H] by blast
  then show ?thesis using w1 by (simp add: random_fully_def io_simps)
qed

lemma masq_rules_run: "daemon_host N fully V \<Longrightarrow>
    \<exists>w'. masqRules N c p w = (Inr (masq4 (IPNet_String c) (IPNet_String p) fully), w') \<and> V w' = V w"
  using host_fully [of N fully V False w] by (auto simp: masqRules_def io_simps)

lemma masq6_rules_run: "daemon_host N fully V \<Longrightarrow>
    \<exists>w'. masqIP6Rules N c p w = (Inr (masq6 (IPNet_String c) (IPNet_String p) fully), w') \<and> V w' = V w"
  using host_fully [of N fully V True w] by (auto simp: masqIP6Rules_def io_simps)

subsection \<open>The rules are ones the commands accept\<close>

lemma clean_digits: "set s \<subseteq> {c. is_digit c} \<union> {CHR ''.'', CHR ''/''} \<Longrightarrow> s \<noteq> [] \<Longrightarrow> clean_word s"
proof -
  assume s: "set s \<subseteq> {c. is_digit c} \<union> {CHR ''.'', CHR ''/''}" "s \<noteq> []"
  have no: "\<not> is_digit (CHR ''<'')" "\<not> is_digit (CHR '' '')" "\<not> is_digit (CHR 0x0A)" "\<not> is_digit (CHR 0x22)"
    by code_simp+
  then have "CHR ''<'' \<notin> set s" "CHR '' '' \<notin> set s" "CHR 0x0A \<notin> set s" "CHR 0x22 \<notin> set s"
    using s(1) by auto
  then show "clean_word s" using s(2) by (auto simp: clean_word_def)
qed

lemma clean_net4:
  assumes "length ip = 4" "n \<le> 32"
  shows "clean_word (IPNet_String (Some (net4 ip n)))"
proof -
  let ?a = "netIP (net4 ip n)"
  have "length ?a = 4" using assms(1) by simp
  then obtain a b c d where "?a = [a, b, c, d]" by (rule ip4_cases)
  then show ?thesis
    using nat_digits_is_digit by (intro clean_digits) (auto simp: IPNet_String_net4 [OF assms] ipv4_text4)
qed

definition has_builtin :: "ruleset \<Rightarrow> bool" where
  "has_builtin R \<longleftrightarrow> R (''nat'', ''POSTROUTING'') \<noteq> None \<and> R (''filter'', ''FORWARD'') \<noteq> None"

lemma clean_lits [simp]:
  "clean_word ''-m''" "clean_word ''comment''" "clean_word ''--comment''" "clean_word ''-j''" "clean_word ''-A''"
  "clean_word ''mark''" "clean_word ''--mark''" "clean_word KubeProxyMark" "clean_word ''RETURN''" "clean_word ''-s''"
  "clean_word ''-d''" "clean_word ''!''" "clean_word ''MASQUERADE''" "clean_word ''--random-fully''"
  "clean_word ''ACCEPT''" "clean_word PostChain" "clean_word FwdChain" "clean_word ''POSTROUTING''"
  "clean_word ''FORWARD''" "clean_word ''nat''" "clean_word ''filter''" "clean_word ''224.0.0.0/4''"
  by code_simp+

lemma clean_comments [simp]:
  "clean_comment ''simplecni masq''" "clean_comment ''simplecni masq mask''"
  "clean_comment ''simplecni masq pod to cluster''" "clean_comment ''simplecni masq cluster to pod''"
  "clean_comment ''simplecni forward''"
  by code_simp+

lemma clean_word_comment: "clean_word w \<Longrightarrow> clean_comment w"
  by (simp add: clean_word_def clean_comment_def)

text \<open>A list of clean words, and one with a comment in its place.\<close>

lemma clean_words_all: "\<forall>w \<in> set ws. clean_word w \<Longrightarrow> clean_words prev ws"
  by (induction prev ws rule: clean_words.induct) (auto simp: clean_word_comment)

lemma clean_words_app: "\<forall>w \<in> set ws. clean_word w \<Longrightarrow> clean_words prev (ws @ r) \<longleftrightarrow> clean_words (last (prev # ws)) r"
  by (induction ws arbitrary: prev) (auto simp: clean_word_comment)

lemma clean_spec:
  assumes "\<forall>w \<in> set conds. clean_word w" "clean_comment c" "\<forall>w \<in> set t. clean_word w"
  shows "clean_words prev (conds @ comment c @ t)"
  using assms by (simp add: clean_words_app comment_def clean_words_all clean_word_comment)

lemma own_chain_post [simp]:
  "own_chain (post_rule conds c t) = Inr (if last (''-j'' # t) = FwdChain then Some FwdChain else Some PostChain)"
  "own_chain jump_rule = Inr (Some PostChain)"
  by (simp_all add: own_chain_def post_rule_def jump_rule_def comment_def PostChain_def FwdChain_def)

lemma table_rule_post:
  assumes "\<forall>w \<in> set conds. clean_word w" "clean_comment c" "\<forall>w \<in> set t. clean_word w" "last (''-j'' # t) \<noteq> FwdChain"
  shows "table_rule ''nat'' R (post_rule conds c t)"
  using assms clean_spec [of conds c "''-j'' # t" PostChain] own_chain_post(1) [of conds c t]
  by (simp add: table_rule_def post_rule_def comment_def clean_word_comment)

lemma table_rule_masq4:
  assumes "clean_word c" "clean_word d" "has_builtin R"
  shows "\<forall>r \<in> set (masq4 c d fully). table_rule ''nat'' R r"
proof -
  have t: "\<forall>w \<in> set (masquerade fully). clean_word w" "last (''-j'' # masquerade fully) \<noteq> FwdChain"
    by (simp_all add: masquerade_def FwdChain_def)
  have j: "table_rule ''nat'' R jump_rule"
    using assms(3) clean_spec [of "[]" "''simplecni masq''" "[''-j'', PostChain]" "''POSTROUTING''"]
    by (simp add: table_rule_def has_builtin_def jump_rule_def comment_def)
  show ?thesis
    using j t assms(1,2) unfolding masq4_def
    by (simp only: list.set ball_simps HOL.simp_thms) (intro conjI table_rule_post; simp add: FwdChain_def)
qed

lemma distinct_masq4: "distinct (map rule_key (masq4 c d fully))"
  by (simp add: masq4_def post_rule_def jump_rule_def comment_def masquerade_def rule_key_def PostChain_def)

lemma table_rule_fwd:
  assumes "clean_word (IPNet_String c)" "has_builtin R"
  shows "\<forall>r \<in> set (forwardRules c). table_rule ''filter'' R r"
proof -
  let ?t = "\<lambda>x. [''-j'', x]"
  show ?thesis
    using assms clean_spec [of "[]" "''simplecni forward''" "?t FwdChain" "''FORWARD''"]
      clean_spec [of "[''-s'', IPNet_String c]" "''simplecni forward''" "?t ''ACCEPT''" FwdChain]
      clean_spec [of "[''-d'', IPNet_String c]" "''simplecni forward''" "?t ''ACCEPT''" FwdChain]
    by (simp add: forwardRules_def fwd_rule_def table_rule_def has_builtin_def comment_def own_chain_def)
qed

lemma distinct_fwd: "distinct (map rule_key (forwardRules c))"
  by (simp add: forwardRules_def fwd_rule_def comment_def rule_key_def FwdChain_def)

subsection \<open>What the rules do to a packet\<close>

definition reads_back :: "IPNet \<Rightarrow> bool" where
  "reads_back c \<longleftrightarrow> (case ParseCIDR (IPNet_String (Some c)) of Inr (_, c') \<Rightarrow> c' = c | Inl _ \<Rightarrow> False)"

lemma reads_back_in_cidr: "reads_back c \<Longrightarrow> in_cidr (IPNet_String (Some c)) x = Contains_ip c x"
  by (auto simp: reads_back_def in_cidr_def split: sum.splits)

lemma masq_run_is: "random_fully N v6 w = (r, w') \<Longrightarrow> masqRules N c p w = (Inr rules, w'') \<Longrightarrow>
    \<exists>fully. rules = masq4 (IPNet_String c) (IPNet_String p) fully"
  by (auto simp: masqRules_def io_simps split: prod.splits sum.splits)

text \<open>C15. The chain of the daemon masquerades exactly the packets that kube-proxy has not marked, that
  do not go to a pod of this node, that are not from one of them to the cluster, and that either
  come from the cluster and leave for an address that is no multicast address of the protocol, or
  come from outside of the cluster and go into it; this holds for IPv4 and for IPv6.\<close>

theorem masquerade_decision:
  assumes "if v6 then masqIP6Rules N (Some c) (Some d) w = (Inr rules, w')
      else masqRules N (Some c) (Some d) w = (Inr rules, w')"
    "reads_back c" "reads_back d"
  shows "chain_verdict p (chain_rules PostChain rules) = ''MASQUERADE'' \<longleftrightarrow>
    \<not> kube_marked p \<and> \<not> Contains_ip d (pDst p) \<and> \<not> (Contains_ip d (pSrc p) \<and> Contains_ip c (pDst p)) \<and>
    (if Contains_ip c (pSrc p) then \<not> in_cidr (if v6 then ''ff00::/8'' else ''224.0.0.0/4'') (pDst p)
     else Contains_ip c (pDst p))"
proof -
  have "\<exists>fully. rules = (if v6 then masq6 else masq4) (IPNet_String (Some c)) (IPNet_String (Some d)) fully"
    using assms(1) by (cases v6) (auto simp: masqRules_def masqIP6Rules_def io_simps split: prod.splits sum.splits)
  then show ?thesis
    using masq4_verdict [OF reads_back_in_cidr [OF assms(2)] reads_back_in_cidr [OF assms(3)], of p]
      masq6_verdict [OF reads_back_in_cidr [OF assms(2)] reads_back_in_cidr [OF assms(3)], of p]
    by (cases v6) (auto split: if_splits)
qed

lemma masquerade_decision_witness:
  "chain_verdict \<lparr>pSrc = [10, 244, 1, 5], pDst = [8, 8, 8, 8], pMark = 0\<rparr> (chain_rules PostChain
     (masq4 ''10.244.0.0/16'' ''10.244.1.0/24'' True)) = ''MASQUERADE''"
proof -
  let ?c = "net4 [10, 244, 0, 0] 16" and ?d = "net4 [10, 244, 1, 0] 24"
  have tx: "IPNet_String (Some ?c) = ''10.244.0.0/16''" "IPNet_String (Some ?d) = ''10.244.1.0/24''"
    by code_simp+
  have m: "masqRules fw (Some ?c) (Some ?d) ex_host = (Inr (masq4 ''10.244.0.0/16'' ''10.244.1.0/24'' True), ex_host)"
    by (simp add: masqRules_def random_fully_def io_simps fw_def tx)
  have rb: "reads_back ?c" "reads_back ?d" by (simp_all add: reads_back_def ParseCIDR_String)
  have c: "Contains_ip ?c [10, 244, 1, 5]" "\<not> Contains_ip ?c [8, 8, 8, 8]" "\<not> Contains_ip ?d [8, 8, 8, 8]"
    by code_simp+
  have "''224.0.0.0/4'' = ipv4_text [224, 0, 0, 0] @ CHR ''/'' # nat_digits 4"
    "\<not> Contains_ip (net4 [224, 0, 0, 0] 4) [8, 8, 8, 8]" by code_simp+
  then have mc: "\<not> in_cidr ''224.0.0.0/4'' [8, 8, 8, 8]" by (simp only: in_cidr_def net4_parse) (simp add: net4_parse)
  have run: "if False then masqIP6Rules fw (Some ?c) (Some ?d) ex_host = (Inr (masq4 ''10.244.0.0/16'' ''10.244.1.0/24'' True), ex_host)
      else masqRules fw (Some ?c) (Some ?d) ex_host = (Inr (masq4 ''10.244.0.0/16'' ''10.244.1.0/24'' True), ex_host)"
    using m by (simp only: if_False)
  have k: "\<not> kube_marked \<lparr>pSrc = [10, 244, 1, 5], pDst = [8, 8, 8, 8], pMark = 0\<rparr>" by (simp add: kube_marked_def)
  show ?thesis
    unfolding masquerade_decision [OF run rb] by (simp only: packet.select_convs c mc k if_False if_True simp_thms)
qed

subsection \<open>Starting on a host that the daemon ran on before\<close>

lemma run_task:
  assumes H: "daemon_host N fully V" and ok: "\<forall>r \<in> set rules. table_rule t (V w) r"
    "distinct (map rule_key rules)"
  shows "\<exists>w'. setupAndEnsureIPTables N False rules n (w, s) = (Inr (), (w', s\<lparr>ipv4Rules := ipv4Rules s @ rules\<rparr>)) \<and>
    V w' = fold place rules (ready rules (V w))"
proof -
  let ?s = "s\<lparr>ipv4Rules := ipv4Rules s @ rules\<rparr>" and ?R = "fold place rules (ready rules (V w))"
  obtain w1 where w1: "ipt_new N False w = (Inr (), w1)" "V w1 = V w" using host_ipt_new [OF H] by blast
  obtain r w2 where w2: "NewIPTablesRestoreWithProtocol N False w1 = (Inr r, w2)" "V w2 = V w"
      "restore_v6 (irPath r) = False"
    using restore_is_new [OF H, of False w1] w1 by auto
  obtain w3 where w3: "IpTablesBootstrap N False r rules w2 = (Inr (), w3)" "V w3 = ?R"
    using bootstrap_result [OF host_behaves [OF H] w2(3), where w = w2 and rules = rules and t = t] ok w2(2) by auto
  have tick: "\<exists>w'. resyncs k N False r rules (w, ?s) = (Inr (), (w', ?s)) \<and> V w' = ?R" if "V w = ?R" for k w
    using that
  proof (induction k arbitrary: w)
    case (Suc k)
    have "\<forall>q \<in> set rules. table_rule t (V w) q" "all_present rules (V w)"
      using table_rule_placed [OF ok(1)] bootstrap_present [OF ok] Suc(2) by simp_all
    then obtain w' where "EnsureIPTables N False r rules w = (Inr (), w')" "V w' = ?R"
      using ensure_noop [OF host_behaves [OF H], of rules t w r] Suc(2) by auto
    then show ?case using Suc(1) [of w'] by (simp add: resync_def io_simps)
  qed simp
  then show ?thesis using w1 w2 w3 tick [OF w3(2), of n]
    by (auto simp: setupAndEnsureIPTables_def start_rules_def io_simps)
qed

lemma create_chain:
  assumes H: "daemon_host N fully V"
  shows "\<exists>w'. CreateChain N False t c w = (Inr (), w') \<and> V w' = (V w)((t, c) \<mapsto> [])"
proof -
  obtain w1 where w1: "ipt_new N False w = (Inr (), w1)" "V w1 = V w" using host_ipt_new [OF H] by blast
  obtain w2 where "clear_chain N False t c w1 = (Inr (), w2)" "V w2 = (V w1)((t, c) \<mapsto> [])"
    using behaves_clear [OF host_behaves [OF H]] by blast
  then show ?thesis using w1 by (simp add: CreateChain_def io_simps)
qed

text \<open>The first three rules, as far as they are looked at: the third one names a range that is not
  there.\<close>

lemma teardown_next:
  assumes B: "ipt_behaves N False V" and r: "own_chain r = Inr (Some c)" "V w (Table r, c) \<noteq> None"
    "V w (Table r, Chain r) \<noteq> None" "clean_words (Chain r) (Rulespec r)"
  shows "\<exists>acc' w'. teardown_lines N False (r # rs) acc w = teardown_lines N False rs acc' w' \<and> V w' = V w"
proof -
  obtain w1 where w1: "chain_exists N False (Table r) c w = (Inr True, w1)" "V w1 = V w"
    using behaves_chain [OF B, of "Table r" c w] r(2) by auto
  obtain L where L: "V w1 (Table r, Chain r) = Some L" using w1 r(3) by auto
  obtain b w2 where w2: "rule_exists N False (Table r) (Chain r) (Rulespec r) w1 = (Inr b, w2)" "V w2 = V w1"
    using behaves_rule [OF B L r(4)] by blast
  show ?thesis using w1 w2 r(1) by (cases b) (auto simp: io_simps)
qed

lemma teardown_stops:
  assumes B: "ipt_behaves N False V" and r: "own_chain r = Inr (Some c)" "V w (Table r, c) \<noteq> None"
    and e: "\<And>w. \<exists>m w'. rule_exists N False (Table r) (Chain r) (Rulespec r) w = (Inl (Plain m), w') \<and> V w' = V w"
  shows "\<exists>m w'. teardown_lines N False (r # rs) acc w = (Inl (Plain m), w') \<and> V w' = V w"
proof -
  obtain w1 where w1: "chain_exists N False (Table r) c w = (Inr True, w1)" "V w1 = V w"
    using behaves_chain [OF B, of "Table r" c w] r(2) by auto
  obtain m w2 where "rule_exists N False (Table r) (Chain r) (Rulespec r) w1 = (Inl (Plain m), w2)" "V w2 = V w1"
    using e by blast
  then show ?thesis using w1 r(1) by (auto simp: io_simps)
qed

lemma teardown_nil:
  assumes H: "daemon_host N fully V" and nil: "rejects_nil N V"
    and chains: "V w (''nat'', PostChain) \<noteq> None" "has_builtin (V w)"
  shows "\<exists>m w'. teardown_lines N False (masq4 ''<nil>'' d b) [] w = (Inl (Plain m), w') \<and> V w' = V w"
proof -
  let ?r1 = "post_rule [''-m'', ''mark'', ''--mark'', KubeProxyMark] ''simplecni masq mask'' [''RETURN'']"
  let ?r2 = "post_rule [''-s'', d, ''-d'', ''<nil>''] ''simplecni masq pod to cluster'' [''RETURN'']"
  note B = host_behaves [OF H]
  have tab: "Table (post_rule c x y) = ''nat''" "Chain (post_rule c x y) = PostChain"
    "Table jump_rule = ''nat''" "Chain jump_rule = ''POSTROUTING''" for c x y
    by (simp_all add: post_rule_def jump_rule_def)
  have own: "own_chain jump_rule = Inr (Some PostChain)" "own_chain ?r1 = Inr (Some PostChain)"
      "own_chain ?r2 = Inr (Some PostChain)"
    by (simp_all add: FwdChain_def)
  have clean: "clean_words (Chain jump_rule) (Rulespec jump_rule)" "clean_words (Chain ?r1) (Rulespec ?r1)"
    using clean_spec [of "[]" "''simplecni masq''" "[''-j'', PostChain]" "''POSTROUTING''"]
      clean_spec [of "[''-m'', ''mark'', ''--mark'', KubeProxyMark]" "''simplecni masq mask''" "[''-j'', ''RETURN'']" PostChain]
    by (simp_all add: jump_rule_def post_rule_def)
  obtain rs where rs: "masq4 ''<nil>'' d b = jump_rule # ?r1 # ?r2 # rs" by (simp add: masq4_def)
  obtain acc1 w1 where w1: "teardown_lines N False (jump_rule # ?r1 # ?r2 # rs) [] w =
      teardown_lines N False (?r1 # ?r2 # rs) acc1 w1" "V w1 = V w"
    using teardown_next [OF B own(1) _ _ clean(1), of w "?r1 # ?r2 # rs" "[]"] chains
    by (auto simp: tab has_builtin_def simp del: teardown_lines.simps)
  obtain acc2 w2 where w2: "teardown_lines N False (?r1 # ?r2 # rs) acc1 w1 =
      teardown_lines N False (?r2 # rs) acc2 w2" "V w2 = V w1"
    using teardown_next [OF B own(2) _ _ clean(2), of w1 "?r2 # rs" acc1] chains w1
    by (auto simp: tab has_builtin_def simp del: teardown_lines.simps)
  have "''<nil>'' \<in> set (Rulespec ?r2)" by (simp add: post_rule_def)
  then have "\<exists>m w'. rule_exists N False (Table ?r2) (Chain ?r2) (Rulespec ?r2) w = (Inl (Plain m), w') \<and> V w' = V w" for w
    using nil unfolding rejects_nil_def by blast
  from teardown_stops [OF B own(3) _ this, of w2 rs acc2] show ?thesis
    using w1 w2 chains by (auto simp: rs tab simp del: teardown_lines.simps)
qed

lemma net4_not_nil: "length ip = 4 \<Longrightarrow> n \<le> 32 \<Longrightarrow> IPNet_String (Some (net4 ip n)) \<noteq> ''<nil>''"
  using clean_net4 [of ip n] by (auto simp: clean_word_def)

lemma nil_string: "IPNet_String None = ''<nil>''"
  by (simp add: IPNet_String_def)

lemma new_cidr_manager:
  assumes "reads_subnet_file F V"
  shows "\<exists>p w'. NewCidrManager F c d None None w = (Inr \<lparr>clustercidr = c, nodecidr = d, prevclustercidr = None,
     prevnodecidr = p, clustercidrv6 = None, nodecidrv6 = None, prevclustercidrv6 = None, prevnodecidrv6 = None\<rparr>, w') \<and>
     V w' = V w"
proof -
  obtain p1 w1 where "ReadCIDRFromSubnetFile F ''SUBNET'' w = (Inr p1, w1)" "V w1 = V w"
    using assms unfolding reads_subnet_file_def by blast
  moreover obtain p2 w2 where "ReadCIDRFromSubnetFile F ''CIDR'' w1 = (Inr p2, w2)" "V w2 = V w1"
    using assms unfolding reads_subnet_file_def by blast
  ultimately show ?thesis by (simp add: NewCidrManager_def io_simps)
qed

text \<open>What \<open>Init\<close> does before and after the set-up of the masquerade rules.\<close>

lemma init_run:
  assumes H: "daemon_host N fully V" and F: "reads_subnet_file F V"
  obtains p w1 cm s1 where "V w1 = V w" "pending s1 = pending s"
    "ipv4Rules s1 = masq4 (IPNet_String (Some c)) (IPNet_String (Some d)) fully"
    "ipv6Rules s1 = masq6 ''<nil>'' ''<nil>'' fully"
    "cm = \<lparr>clustercidr = Some c, nodecidr = Some d, prevclustercidr = None, prevnodecidr = p,
        clustercidrv6 = None, nodecidrv6 = None, prevclustercidrv6 = None, prevnodecidrv6 = None\<rparr>"
    "Init N F (Some c) (Some d) None None (w, s) =
       bindE (tryE (SetupAndEnsureMasqRules N cm) (\<lambda>_. ret ()) ret) (\<lambda>_. SetupAndEnsureForwardRules N cm) (w1, s1)"
proof -
  obtain w1 where w1: "masqRules N (Some c) (Some d) w =
      (Inr (masq4 (IPNet_String (Some c)) (IPNet_String (Some d)) fully), w1)" "V w1 = V w"
    using masq_rules_run [OF H] by blast
  obtain w2 where w2: "masqIP6Rules N None None w1 = (Inr (masq6 ''<nil>'' ''<nil>'' fully), w2)" "V w2 = V w1"
    using masq6_rules_run [OF H, of None None w1] by (auto simp: nil_string)
  obtain p w3 where w3: "NewCidrManager F (Some c) (Some d) None None w2 = (Inr \<lparr>clustercidr = Some c,
     nodecidr = Some d, prevclustercidr = None, prevnodecidr = p, clustercidrv6 = None, nodecidrv6 = None,
     prevclustercidrv6 = None, prevnodecidrv6 = None\<rparr>, w3)" "V w3 = V w2"
    using new_cidr_manager [OF F] by blast
  show ?thesis
    by (rule that [of w3 _ _ p]) (use w1 w2 w3 in \<open>simp_all add: Init_def io_simps\<close>)
qed

lemma forward_run:
  assumes H: "daemon_host N fully V" and c: "clustercidr cm = Some c" "nodecidr cm = Some d" "clustercidrv6 cm = None"
  shows "\<exists>w'. SetupAndEnsureForwardRules N cm (w, s) =
      (Inr (), (w', s\<lparr>pending := pending s @ [(False, forwardRules (Some d))]\<rparr>)) \<and>
    V w' = (V w)((''filter'', FwdChain) \<mapsto> [])"
  using create_chain [OF H, of "''filter''" FwdChain w] c
  by (auto simp: SetupAndEnsureForwardRules_def io_simps go_rules_def)

lemma delete_tables_run:
  assumes H: "daemon_host N fully V"
  shows "\<exists>r w'. V w' = V w \<and> restore_v6 (irPath r) = v6 \<and>
    deleteIPTables N v6 rules w = TeardownIPTables N v6 r rules w'"
proof -
  obtain w1 where w1: "ipt_new N v6 w = (Inr (), w1)" "V w1 = V w" using host_ipt_new [OF H] by blast
  obtain r w2 where "NewIPTablesRestoreWithProtocol N v6 w1 = (Inr r, w2)" "V w2 = V w1" "restore_v6 (irPath r) = v6"
    using restore_is_new [OF H] by blast
  then show ?thesis using w1 by (intro exI [of _ r] exI [of _ w2]) (simp add: deleteIPTables_def io_simps)
qed

text \<open>On a host where the daemon's masquerade chain is there already, as after any earlier run
  (nothing removes the chain), \<open>Init\<close> reports success, but it starts no task for the masquerade
  rules and leaves the table \<open>nat\<close> as it is: the previous cluster range is always taken for a
  different one, the recycling of rules without a range fails, and nobody looks at the error.\<close>

theorem restart_sets_up_no_masquerade:
  assumes "daemon_host N fully V" "rejects_nil N V" "reads_subnet_file F V"
    "V w (''nat'', PostChain) \<noteq> None" "has_builtin (V w)" "length ip = 4" "n \<le> 32"
  shows "\<exists>w' s'. Init N F (Some (net4 ip n)) (Some d) None None (w, s) = (Inr (), (w', s')) \<and>
    pending s' = pending s @ [(False, forwardRules (Some d))] \<and> (\<forall>c. V w' (''nat'', c) = V w (''nat'', c))"
proof -
  let ?c = "net4 ip n"
  obtain p w1 cm s1 where w1: "V w1 = V w" "pending s1 = pending s"
    and cm: "cm = \<lparr>clustercidr = Some ?c, nodecidr = Some d, prevclustercidr = None, prevnodecidr = p,
        clustercidrv6 = None, nodecidrv6 = None, prevclustercidrv6 = None, prevnodecidrv6 = None\<rparr>"
    and run: "Init N F (Some ?c) (Some d) None None (w, s) =
       bindE (tryE (SetupAndEnsureMasqRules N cm) (\<lambda>_. ret ()) ret) (\<lambda>_. SetupAndEnsureForwardRules N cm) (w1, s1)"
    by (rule init_run [OF assms(1,3), of w s ?c d]) blast
  obtain w2 where w2: "masqRules N None p w1 = (Inr (masq4 ''<nil>'' (IPNet_String p) fully), w2)" "V w2 = V w1"
    using masq_rules_run [OF assms(1), of None p w1] by (auto simp: nil_string)
  obtain r w3 where w3: "deleteIPTables N False (masq4 ''<nil>'' (IPNet_String p) fully) w2 =
      TeardownIPTables N False r (masq4 ''<nil>'' (IPNet_String p) fully) w3" "V w3 = V w2"
    using delete_tables_run [OF assms(1)] by blast
  obtain m w4 where "teardown_lines N False (masq4 ''<nil>'' (IPNet_String p) fully) [] w3 = (Inl (Plain m), w4)" "V w4 = V w3"
    using teardown_nil [OF assms(1,2), of w3 "IPNet_String p" fully] assms(4,5) w1 w2 w3 by auto
  then have del: "deleteIPTables N False (masq4 ''<nil>'' (IPNet_String p) fully) w2 = (Inl (Plain m), w4)" "V w4 = V w"
    using w1 w2 w3 by (simp_all add: TeardownIPTables_def io_simps)
  have "changed None (Some ?c)" using net4_not_nil [OF assms(6,7)] by (simp add: changed_def nil_string)
  then have "SetupAndEnsureMasqRules N cm (w1, s1) = (Inl (Plain m), (w4, s1))"
    using w2 del by (simp add: SetupAndEnsureMasqRules_def cm io_simps)
  moreover obtain w5 where "SetupAndEnsureForwardRules N cm (w4, s1) =
      (Inr (), (w5, s1\<lparr>pending := pending s1 @ [(False, forwardRules (Some d))]\<rparr>))"
      "V w5 = (V w4)((''filter'', FwdChain) \<mapsto> [])"
    using forward_run [OF assms(1), of cm ?c d w4 s1] by (auto simp: cm)
  ultimately show ?thesis using run del(2) w1(2) by (simp add: io_simps)
qed

definition no_files :: "'w files" where
  "no_files = \<lparr>mkdir_all = \<lambda>p. ret (), create_file = \<lambda>p. ret (), append_file = \<lambda>p t. ret (),
     sync_file = \<lambda>p. ret (), close_file = \<lambda>p. ret (),
     rename_file = \<lambda>p q. ret (), remove_file = \<lambda>p. ret (),
     stat_file = \<lambda>p. fail (Os (OsNotExist p)), read_file = \<lambda>p. fail (Os (OsNotExist p)),
     dotenv_read = \<lambda>p. fail (Os (OsNotExist p)), range_keys = ret\<rparr>"

lemma no_files_reads: "reads_subnet_file no_files V"
  by (auto simp: reads_subnet_file_def ReadCIDRFromSubnetFile_def ReadKeyFromSubnetFile_def mapErr_def
      no_files_def io_simps Let_def)

lemma fw_daemon_host: "daemon_host fw True (\<lambda>w. w False)"
proof -
  have support: "getIPTablesRestoreSupport fw path w = (Inr True, w)" for path w
    using extract_version [of "''iptables ''" "'' (nf_tables)''" 1 8 7] digit_marks
    by (simp add: getIPTablesRestoreSupport_def io_simps fw_version ipTablesHasWaitSupport_def Atoi_def dec_val_nat_digits)
  have path: "\<not> restore_v6 (''/usr/sbin/'' @ ''iptables-restore'')" "restore_v6 (''/usr/sbin/'' @ ''ip6tables-restore'')"
    by code_simp+
  have look: "look_path fw name w = (Inr (''/usr/sbin/'' @ name), w)" for name w by (simp add: fw_def)
  have v6: "keeps (\<lambda>w. w False = R) (chain_exists fw True t c)" "keeps (\<lambda>w. w False = R) (clear_chain fw True t c)"
    "keeps (\<lambda>w. w False = R) (rule_exists fw True t c spec)" "keeps (\<lambda>w. w False = R) (range_tables fw ts)"
    "restore_v6 p \<Longrightarrow> keeps (\<lambda>w. w False = R) (run_restore fw p args payload)" for R t c spec p args payload ts
    by (auto simp: keeps_def fw_def split: option.splits prod.splits)
  have found: "\<exists>path w'. look_path fw name w = (Inr path, w') \<and> w' False = w False \<and>
      (name = ''iptables-restore'' \<longrightarrow> \<not> restore_v6 path) \<and> (name = ''ip6tables-restore'' \<longrightarrow> restore_v6 path)" for name w
    by (rule exI [of _ "''/usr/sbin/'' @ name"], rule exI [of _ w]) (use path in \<open>simp only: look, blast\<close>)
  have new: "\<exists>w'. ipt_new fw v6 w = (Inr (), w') \<and> w' False = w False"
    "\<exists>w'. has_random_fully fw v6 w = (Inr True, w') \<and> w' False = w False"
    "\<exists>b w'. getIPTablesRestoreSupport fw p w = (Inr b, w') \<and> w' False = w False" for v6 p w
    by (simp_all only: support) (auto simp: fw_def)
  show ?thesis
    unfolding daemon_host_def by (intro conjI allI impI fw_behaves found new v6)
qed

lemma fw_rejects_nil: "rejects_nil fw (\<lambda>w. w False)"
  by (simp add: rejects_nil_def fw_def)

definition ex_restarted :: rulesets where
  "ex_restarted v6 = [(''nat'', ''POSTROUTING'') \<mapsto> [], (''nat'', PostChain) \<mapsto> [], (''filter'', ''FORWARD'') \<mapsto> []]"

lemma restart_sets_up_no_masquerade_witness:
  "\<exists>w' s'. Init fw no_files (Some (net4 [10, 244, 0, 0] 16)) (Some (net4 [10, 244, 1, 0] 24)) None None
      (ex_restarted, new_iptm) = (Inr (), (w', s')) \<and>
    pending s' = [(False, forwardRules (Some (net4 [10, 244, 1, 0] 24)))] \<and>
    w' False (''nat'', PostChain) = Some []"
proof -
  have "ex_restarted False (''nat'', PostChain) \<noteq> None" "has_builtin (ex_restarted False)"
    "length ([10, 244, 0, 0] :: IP) = 4" "16 \<le> (32 :: nat)"
    by (simp_all add: ex_restarted_def has_builtin_def PostChain_def)
  from restart_sets_up_no_masquerade [where w = ex_restarted and V = "\<lambda>w. w False", OF fw_daemon_host fw_rejects_nil no_files_reads this,
      of "net4 [10, 244, 1, 0] 24" new_iptm]
  obtain w' s' where "Init fw no_files (Some (net4 [10, 244, 0, 0] 16)) (Some (net4 [10, 244, 1, 0] 24)) None None
      (ex_restarted, new_iptm) = (Inr (), (w', s'))"
    "pending s' = pending new_iptm @ [(False, forwardRules (Some (net4 [10, 244, 1, 0] 24)))]"
    and nat: "\<forall>c. w' False (''nat'', c) = ex_restarted False (''nat'', c)" by blast
  moreover have "w' False (''nat'', PostChain) = Some []"
    unfolding nat [rule_format] by (simp add: ex_restarted_def)
  ultimately show ?thesis by (auto simp: new_iptm_def)
qed

subsection \<open>The first start, and the end of its run\<close>

lemma teardown_all_missing:
  assumes B: "ipt_behaves N False V"
    and rules: "\<forall>r \<in> set rules. own_chain r = Inr (Some c) \<and> V w (Table r, c) = None"
  shows "\<exists>w'. teardown_lines N False rules acc w = (Inr acc, w') \<and> V w' = V w"
  using rules
proof (induction rules arbitrary: w)
  case (Cons r rules)
  obtain w1 where w1: "chain_exists N False (Table r) c w = (Inr False, w1)" "V w1 = V w"
    using behaves_chain [OF B, of "Table r" c w] Cons(2) by auto
  then show ?case using Cons(1) [of w1] Cons(2) by (simp add: io_simps)
qed simp

lemma own_chain_masq4: "\<forall>r \<in> set (masq4 c d fully). own_chain r = Inr (Some PostChain) \<and> Table r = ''nat''"
  by (simp add: masq4_def masquerade_def) (simp add: FwdChain_def post_rule_def jump_rule_def)

lemma apply_nothing:
  assumes "ipt_behaves N v6 V" "restore_v6 (irPath r) = v6"
  shows "\<exists>w'. ApplyWithoutFlush N r [] w = (Inr (), w') \<and> V w' = V w"
  using apply_result [OF assms, of "[]" w] by (auto simp: clean_rules_def one_per_table_def)

lemma first_init:
  assumes "daemon_host N fully V" "reads_subnet_file F V" "V w (''nat'', PostChain) = None"
    "length ip = 4" "n \<le> 32"
  shows "\<exists>w' s'. Init N F (Some (net4 ip n)) (Some d) None None (w, s) = (Inr (), (w', s')) \<and>
    ipv4Rules s' = masq4 (IPNet_String (Some (net4 ip n))) (IPNet_String (Some d)) fully \<and>
    pending s' = pending s @
      [(False, masq4 (IPNet_String (Some (net4 ip n))) (IPNet_String (Some d)) fully), (False, forwardRules (Some d))] \<and>
    V w' = (V w)((''nat'', PostChain) \<mapsto> [], (''filter'', FwdChain) \<mapsto> [])"
proof -
  let ?c = "net4 ip n" and ?m = "masq4 (IPNet_String (Some (net4 ip n))) (IPNet_String (Some d)) fully"
  obtain p w1 cm s1 where w1: "V w1 = V w" "pending s1 = pending s" "ipv4Rules s1 = ?m"
    and cm: "cm = \<lparr>clustercidr = Some ?c, nodecidr = Some d, prevclustercidr = None, prevnodecidr = p,
        clustercidrv6 = None, nodecidrv6 = None, prevclustercidrv6 = None, prevnodecidrv6 = None\<rparr>"
    and run: "Init N F (Some ?c) (Some d) None None (w, s) =
       bindE (tryE (SetupAndEnsureMasqRules N cm) (\<lambda>_. ret ()) ret) (\<lambda>_. SetupAndEnsureForwardRules N cm) (w1, s1)"
    by (rule init_run [OF assms(1,2), of w s ?c d]) blast
  note B = host_behaves [OF assms(1)]
  obtain w2 where w2: "masqRules N None p w1 = (Inr (masq4 ''<nil>'' (IPNet_String p) fully), w2)" "V w2 = V w1"
    using masq_rules_run [OF assms(1), of None p w1] by (auto simp: nil_string)
  obtain r w3 where w3: "deleteIPTables N False (masq4 ''<nil>'' (IPNet_String p) fully) w2 =
      TeardownIPTables N False r (masq4 ''<nil>'' (IPNet_String p) fully) w3" "V w3 = V w2" "restore_v6 (irPath r) = False"
    using delete_tables_run [OF assms(1)] by blast
  obtain w4 where w4: "teardown_lines N False (masq4 ''<nil>'' (IPNet_String p) fully) [] w3 = (Inr [], w4)" "V w4 = V w3"
    using teardown_all_missing [OF B, of "masq4 ''<nil>'' (IPNet_String p) fully" PostChain w3 "[]"]
      own_chain_masq4 assms(3) w1 w2 w3 by auto
  obtain w5 where "ApplyWithoutFlush N r [] w4 = (Inr (), w5)" "V w5 = V w4"
    using apply_nothing [OF B w3(3)] by blast
  then have del: "deleteIPTables N False (masq4 ''<nil>'' (IPNet_String p) fully) w2 = (Inr (), w5)" "V w5 = V w"
    using w1 w2 w3 w4 by (simp_all add: TeardownIPTables_def io_simps)
  have ch: "changed None (Some ?c)" using net4_not_nil [OF assms(4,5)] by (simp add: changed_def nil_string)
  obtain w6 where w6: "CreateChain N False ''nat'' PostChain w5 = (Inr (), w6)" "V w6 = (V w)((''nat'', PostChain) \<mapsto> [])"
    using create_chain [OF assms(1), of "''nat''" PostChain w5] del(2) by auto
  obtain w7 where w7: "masqRules N (Some ?c) (Some d) w6 = (Inr ?m, w7)" "V w7 = V w6"
    using masq_rules_run [OF assms(1)] by blast
  let ?s2 = "s1\<lparr>pending := pending s1 @ [(False, ?m)]\<rparr>"
  have "SetupAndEnsureMasqRules N cm (w1, s1) = (Inr (), (w7, ?s2))"
    using w2 del w6 w7 ch by (simp add: SetupAndEnsureMasqRules_def cm io_simps go_rules_def)
  moreover obtain w8 where "SetupAndEnsureForwardRules N cm (w7, ?s2) =
      (Inr (), (w8, ?s2\<lparr>pending := pending ?s2 @ [(False, forwardRules (Some d))]\<rparr>))"
      "V w8 = (V w7)((''filter'', FwdChain) \<mapsto> [])"
    using forward_run [OF assms(1), of cm ?c d w7 ?s2] by (auto simp: cm)
  ultimately show ?thesis using run w1(2,3) w6(2) w7(2) by (simp add: io_simps)
qed

text \<open>On a host without the daemon's masquerade chain, \<open>Init\<close> starts one task with the masquerade
  rules of the cluster and the node and one with the forward rules of the node, and creates the
  two chains, empty, and nothing else.\<close>

theorem first_start:
  assumes "daemon_host N fully V" "reads_subnet_file F V" "V w (''nat'', PostChain) = None"
    "length ip = 4" "n \<le> 32"
  shows "\<exists>w' s'. Init N F (Some (net4 ip n)) (Some d) None None (w, s) = (Inr (), (w', s')) \<and>
    pending s' = pending s @
      [(False, masq4 (IPNet_String (Some (net4 ip n))) (IPNet_String (Some d)) fully), (False, forwardRules (Some d))] \<and>
    V w' = (V w)((''nat'', PostChain) \<mapsto> [], (''filter'', FwdChain) \<mapsto> [])"
  using first_init [OF assms, of d s] by blast

definition ex_fresh :: rulesets where
  "ex_fresh v6 = [(''nat'', ''POSTROUTING'') \<mapsto> [], (''filter'', ''FORWARD'') \<mapsto> []]"

lemma ex_fresh: "ex_fresh v6 (''nat'', PostChain) = None" "has_builtin (ex_fresh v6)"
  "length ([10, 244, 0, 0] :: IP) = 4" "16 \<le> (32 :: nat)" "length ([10, 244, 1, 0] :: IP) = 4" "24 \<le> (32 :: nat)"
  by (simp_all add: ex_fresh_def has_builtin_def PostChain_def)

lemma first_start_witness:
  "\<exists>w' s'. Init fw no_files (Some (net4 [10, 244, 0, 0] 16)) (Some (net4 [10, 244, 1, 0] 24)) None None
      (ex_fresh, new_iptm) = (Inr (), (w', s')) \<and> length (pending s') = 2"
  using first_start [where w = ex_fresh and V = "\<lambda>w. w False" and d = "net4 [10, 244, 1, 0] 24" and s = new_iptm,
      OF fw_daemon_host no_files_reads ex_fresh(1) ex_fresh(3,4)]
  by (auto simp: new_iptm_def)

lemma teardown_keeps:
  assumes H: "daemon_host N fully V" and p: "restore_v6 (irPath r)"
  shows "keeps (\<lambda>w. V w = R) (TeardownIPTables N True r rules)"
proof -
  have k: "keeps (\<lambda>w. V w = R) (chain_exists N True t c)" "keeps (\<lambda>w. V w = R) (rule_exists N True t c spec)"
    "keeps (\<lambda>w. V w = R) (range_tables N ts)"
    "restore_v6 path \<Longrightarrow> keeps (\<lambda>w. V w = R) (run_restore N path args payload)" for t c spec ts path args payload
    using H unfolding daemon_host_def by blast+
  have "keeps (\<lambda>w. V w = R) (teardown_lines N True rules acc)" for acc
    by (induction rules arbitrary: acc) (auto simp: errorf_def intro!: keeps_intros k)
  then show ?thesis
    using p unfolding TeardownIPTables_def ApplyWithoutFlush_def errorf_def Let_def
    by (auto intro!: keeps_intros k)
qed

lemma cleanup_v6_keeps:
  assumes H: "daemon_host N fully V"
  shows "V (snd (cleanup_family N True rules w)) = V w"
proof (cases "rules = []")
  case False
  obtain w1 where w1: "ipt_new N True w = (Inr (), w1)" "V w1 = V w" using host_ipt_new [OF H] by blast
  obtain r w2 where w2: "NewIPTablesRestoreWithProtocol N True w1 = (Inr r, w2)" "V w2 = V w1" "restore_v6 (irPath r)"
    using restore_is_new [OF H, of True w1] by auto
  have "V (snd (TeardownIPTables N True r rules w2)) = V w"
    using keepsD [OF teardown_keeps [OF H w2(3), of "V w" rules], of w2] w1 w2 by simp
  then show ?thesis using w1 w2 False by (auto simp: cleanup_family_def io_simps split: prod.splits sum.splits)
qed (simp add: cleanup_family_def)

lemma fold_remove1_self: "fold remove1 xs [] = []" by simp

text \<open>The two tasks of a first start: the rules stand, and the masquerade rules are recorded twice.\<close>

lemma both_tasks:
  fixes c d :: IPNet and fully :: bool
  defines "m \<equiv> masq4 (IPNet_String (Some c)) (IPNet_String (Some d)) fully" and "f \<equiv> forwardRules (Some d)"
  assumes H: "daemon_host N fully V" and clean: "clean_word (IPNet_String (Some c))" "clean_word (IPNet_String (Some d))"
    and b1: "has_builtin (V w1)" and "V w1 (''nat'', PostChain) = Some []" and "ipv4Rules s1 = m"
  obtains w2 w3 where
    "setupAndEnsureIPTables N False m k (w1, s1) = (Inr (), (w2, s1\<lparr>ipv4Rules := m @ m\<rparr>))"
    "setupAndEnsureIPTables N False f k' (w2, s1\<lparr>ipv4Rules := m @ m\<rparr>) = (Inr (), (w3, s1\<lparr>ipv4Rules := (m @ m) @ f\<rparr>))"
    "V w3 (''nat'', PostChain) = Some (specs_in m (''nat'', PostChain))"
    "all_present ((m @ m) @ f) (V w3)" "\<forall>r \<in> set ((m @ m) @ f). table_rule (Table r) (V w3) r"
proof -
  obtain w2 where w2: "setupAndEnsureIPTables N False m k (w1, s1) = (Inr (), (w2, s1\<lparr>ipv4Rules := m @ m\<rparr>))"
      "V w2 = fold place m (ready m (V w1))"
    using run_task [OF H table_rule_masq4 [OF clean b1] distinct_masq4, where n = k and s = s1] assms(8) unfolding m_def by auto
  have mono: "R (t, c) \<noteq> None \<Longrightarrow> fold place rs (ready rs R) (t, c) \<noteq> None" for rs R t c
    using ready_mono [of R "(t, c)" rs] by (simp add: fold_place)
  have b2: "has_builtin (V w2)" using b1 mono by (simp add: has_builtin_def w2(2))
  obtain w3 where w3: "setupAndEnsureIPTables N False f k' (w2, s1\<lparr>ipv4Rules := m @ m\<rparr>) = (Inr (), (w3, s1\<lparr>ipv4Rules := (m @ m) @ f\<rparr>))"
      "V w3 = fold place f (ready f (V w2))"
    using run_task [OF H table_rule_fwd [OF clean(2) b2] distinct_fwd, where n = k' and s = "s1\<lparr>ipv4Rules := m @ m\<rparr>"] unfolding f_def by auto
  have b3: "has_builtin (V w3)" using b2 mono by (simp add: has_builtin_def w3(2))
  have tf: "\<forall>r \<in> set f. Table r = ''filter''" using table_rule_fwd [OF clean(2) b2] by (auto simp: table_rule_def f_def)
  have tm: "\<forall>r \<in> set m. Table r = ''nat''" using own_chain_masq4 unfolding m_def by blast
  have nat: "V w3 (''nat'', c) = V w2 (''nat'', c)" for c using fold_place_other [OF tf] by (simp add: w3(2))
  have "all_present m (V w2)"
    using bootstrap_present [OF table_rule_masq4 [OF clean b1] distinct_masq4] by (simp add: w2(2) m_def)
  then have "all_present m (V w3)" by (rule all_present_cong) (use tm nat in auto)
  moreover have "all_present f (V w3)"
    using bootstrap_present [OF table_rule_fwd [OF clean(2) b2] distinct_fwd] by (simp add: w3(2) f_def)
  ultimately have present: "all_present ((m @ m) @ f) (V w3)" by (auto simp: all_present_def)
  have ok: "\<forall>r \<in> set ((m @ m) @ f). table_rule (Table r) (V w3) r"
    using table_rule_masq4 [OF clean b3, of fully] table_rule_fwd [OF clean(2) b3] tm tf by (auto simp: m_def f_def)
  have "V w3 (''nat'', PostChain) = Some (specs_in m (''nat'', PostChain))"
    using ready_mono [of "V w1" "(''nat'', PostChain)" m] assms(7)
    by (simp add: nat w2(2) fold_place_distinct [OF distinct_masq4, folded m_def] m_def)
  then show ?thesis using that w2(1) w3(1) present ok by blast
qed

text \<open>After a first start, both tasks run for any number of periods and the end of the daemon, all
  of its masquerade rules are still in their chain: the manager has recorded each of them twice,
  once in \<open>Init\<close> and once when it was set up, so the transaction that removes them fails.\<close>

theorem cleanup_leaves_masquerade:
  assumes "daemon_host N fully V" "reads_subnet_file F V" "V w (''nat'', PostChain) = None" "has_builtin (V w)"
    "length ip = 4" "n \<le> 32" "length ip' = 4" "n' \<le> 32"
  shows "\<exists>r w' s'. daemon_run N F (Some (net4 ip n)) (Some (net4 ip' n')) None None [k, k'] (w, new_iptm) = (r, (w', s')) \<and>
    V w' (''nat'', PostChain) = Some (chain_rules PostChain
      (masq4 (IPNet_String (Some (net4 ip n))) (IPNet_String (Some (net4 ip' n'))) fully))"
proof -
  let ?c = "net4 ip n" and ?d = "net4 ip' n'"
  let ?m = "masq4 (IPNet_String (Some ?c)) (IPNet_String (Some ?d)) fully" and ?f = "forwardRules (Some ?d)"
  note H = assms(1) note B = host_behaves [OF H]
  note clean = clean_net4 [OF assms(5,6)] clean_net4 [OF assms(7,8)]
  obtain w1 s1 where init: "Init N F (Some ?c) (Some ?d) None None (w, new_iptm) = (Inr (), (w1, s1))"
      "pending s1 = [(False, ?m), (False, ?f)]" "ipv4Rules s1 = ?m"
      "V w1 = (V w)((''nat'', PostChain) \<mapsto> [], (''filter'', FwdChain) \<mapsto> [])"
    using first_init [OF assms(1,2,3,5,6), of ?d new_iptm] by (auto simp: new_iptm_def)
  have b1: "has_builtin (V w1)" using assms(4) init(4) by (simp add: has_builtin_def)
  let ?s3 = "s1\<lparr>ipv4Rules := (?m @ ?m) @ ?f\<rparr>" and ?L = "specs_in ?m (''nat'', PostChain)"
  have "V w1 (''nat'', PostChain) = Some []" by (simp add: init(4))
  then obtain w2 w3 where w2: "setupAndEnsureIPTables N False ?m k (w1, s1) = (Inr (), (w2, s1\<lparr>ipv4Rules := ?m @ ?m\<rparr>))"
    and w3: "setupAndEnsureIPTables N False ?f k' (w2, s1\<lparr>ipv4Rules := ?m @ ?m\<rparr>) = (Inr (), (w3, ?s3))"
    and L: "V w3 (''nat'', PostChain) = Some ?L" and present: "all_present (ipv4Rules ?s3) (V w3)"
    and ok: "\<forall>r \<in> set (ipv4Rules ?s3). table_rule (Table r) (V w3) r"
    using both_tasks [OF H clean b1 _ init(3), of k k'] by auto
  have tm: "\<forall>r \<in> set ?m. Table r = ''nat''" using own_chain_masq4 by blast
  have chain: "?L = chain_rules PostChain ?m"
    using tm unfolding specs_in_def chain_rules_def by (intro arg_cong [where f = "map Rulespec"] filter_cong) auto
  have "hd ?L \<in> set ?L" by (rule hd_in_set) (simp add: specs_in_def masq4_def post_rule_def)
  then have "count_list ?L (hd ?L) < count_list (specs_in (ipv4Rules ?s3) (''nat'', PostChain)) (hd ?L)"
    using count_list_0_iff [of ?L "hd ?L"] by (simp add: specs_in_def)
  note many = this
  obtain w4 where w4: "ipt_new N False w3 = (Inr (), w4)" "V w4 = V w3" using host_ipt_new [OF H] by blast
  obtain r w5 where w5: "NewIPTablesRestoreWithProtocol N False w4 = (Inr r, w5)" "V w5 = V w4" "restore_v6 (irPath r) = False"
    using restore_is_new [OF H, of False w4] by auto
  have "V w5 = V w3" using w4 w5 by simp
  then obtain msg w6 where w6: "TeardownIPTables N False r (ipv4Rules ?s3) w5 = (Inl (Plain msg), w6)"
      "V w6 (''nat'', PostChain) = Some ?L"
    using teardown_too_many [OF B w5(3), of "ipv4Rules ?s3" w5 "''nat''" PostChain ?L] ok present L many by metis
  obtain res w7 where w7: "cleanup_family N True (ipv6Rules ?s3) w6 = (res, w7)" by (cases "cleanup_family N True (ipv6Rules ?s3) w6")
  then have "V w7 = V w6" using cleanup_v6_keeps [OF H, of "ipv6Rules ?s3" w6] by simp
  moreover have "CleanUp N (w3, ?s3) = (res, (w7, ?s3))"
    using w4 w5 w6 w7 by (auto simp: CleanUp_def cleanup_family_def io_simps forwardRules_def)
  ultimately show ?thesis
    using init(1,2) w2 w3 w6(2) chain by (auto simp: daemon_run_def io_simps)
qed

lemma cleanup_leaves_masquerade_witness:
  "\<exists>r w' s'. daemon_run fw no_files (Some (net4 [10, 244, 0, 0] 16)) (Some (net4 [10, 244, 1, 0] 24)) None None [2, 2]
      (ex_fresh, new_iptm) = (r, (w', s')) \<and> w' False (''nat'', PostChain) \<noteq> None"
  using cleanup_leaves_masquerade [where w = ex_fresh and V = "\<lambda>w. w False" and k = 2 and k' = 2,
      OF fw_daemon_host no_files_reads ex_fresh]
  by blast

end
