(* ===== verification/CniNft.thy ===== *)
theory CniNft
  imports CniManager
begin

section \<open>simplecni: the manager of the nftables rules (pkg/backend/iptmanager/nftmanager.go)\<close>

text \<open>
  The alternative to the iptables rules: one table per protocol, filled by transactions of the
  library knftables. A transaction is the list of its operations; \<open>nftsys\<close> has the calls of the
  library. Errors that the code only logs are dropped.
\<close>

datatype nft_op =
  AddTable
| DeleteTable
| AddChain string string string string
| FlushChain string
| AddRule string string

record 'w nftsys =
  nft_new :: "bool \<Rightarrow> string \<Rightarrow> ('w, unit) io"
  nft_run :: "bool \<Rightarrow> nft_op list \<Rightarrow> ('w, unit) io"
  nft_check :: "bool \<Rightarrow> nft_op list \<Rightarrow> ('w, unit) io"

record nftm =
  ncidrm :: "CidrManager option"
  randomfullySupported :: bool

definition ipv4Table :: string where "ipv4Table = ''simplecni-ipv4''"
definition ipv6Table :: string where "ipv6Table = ''simplecni-ipv6''"
definition forwardChain :: string where "forwardChain = ''forward''"
definition postrtgChain :: string where "postrtgChain = ''postrtg''"

definition Concat :: "string list \<Rightarrow> string" where
  "Concat ws = join_with '' '' ws"

definition nft_family :: "bool \<Rightarrow> string" where
  "nft_family v6 = (if v6 then ''ip6'' else ''ip'')"

definition IsRandomfullySupported :: "'w nftsys \<Rightarrow> bool \<Rightarrow> ('w, bool) io" where
  "IsRandomfullySupported N v6 =
     tryE (nft_check N v6
         [AddChain ''masqueradeTest'' ''nat'' ''postrouting'' ''srcnat'', FlushChain ''masqueradeTest'',
          AddRule ''masqueradeTest'' (Concat [''ip saddr'', ''!='', ''127.0.0.1'', ''masquerade fully-random''])])
       (\<lambda>_. ret False) (\<lambda>_. ret True)"

definition initTable :: "'w nftsys \<Rightarrow> bool \<Rightarrow> string \<Rightarrow> ('w, unit) io" where
  "initTable N v6 name =
     bindE (errorf ''no nftables support'' (nft_new N v6 name)) (\<lambda>_.
     errorf (''nftables: couldn't initialise table '' @ name) (nft_run N v6 [AddTable]))"

definition addMasqRules :: "bool \<Rightarrow> string \<Rightarrow> string \<Rightarrow> bool \<Rightarrow> nft_op list" where
  "addMasqRules fully clusterCidr podCidr v6 =
     (let masq = (if fully then ''masquerade fully-random'' else ''masquerade'');
          multicastCidr = (if v6 then ''ff00::/8'' else ''224.0.0.0/4'');
          family = nft_family v6;
          rule = (\<lambda>ws. AddRule postrtgChain (Concat ws))
      in [rule [''meta mark'', ''0x4000'', ''return''],
          rule [family, ''saddr'', podCidr, family, ''daddr'', clusterCidr, ''return''],
          rule [family, ''saddr'', clusterCidr, family, ''daddr'', podCidr, ''return''],
          rule [family, ''saddr'', ''!='', podCidr, family, ''daddr'', clusterCidr, ''return''],
          rule [family, ''saddr'', clusterCidr, family, ''daddr'', ''!='', multicastCidr, masq],
          rule [family, ''saddr'', ''!='', clusterCidr, family, ''daddr'', clusterCidr, masq]])"

definition masq_tx :: "bool \<Rightarrow> IPNet option \<Rightarrow> IPNet option \<Rightarrow> bool \<Rightarrow> nft_op list" where
  "masq_tx fully ncidr ccidr v6 =
     [AddChain postrtgChain ''nat'' ''postrouting'' ''srcnat'', FlushChain postrtgChain] @
     addMasqRules fully (IPNet_String ncidr) (IPNet_String ccidr) v6"

text \<open>The transaction for IPv6 is made from the IPv4 ranges as well.\<close>

definition nft_SetupAndEnsureMasqRules :: "'w nftsys \<Rightarrow> bool \<Rightarrow> CidrManager \<Rightarrow> ('w, unit) io" where
  "nft_SetupAndEnsureMasqRules N fully c =
     bindE (if nodecidr c \<noteq> None
            then errorf ''nftables: couldn't setup masq rules'' (nft_run N False (masq_tx fully (nodecidr c) (clustercidr c) False))
            else ret ()) (\<lambda>_.
     if nodecidrv6 c \<noteq> None
     then errorf ''nftables: couldn't setup masq rules'' (nft_run N True (masq_tx fully (nodecidr c) (clustercidr c) True))
     else ret ())"

definition forward_tx :: "bool \<Rightarrow> IPNet option \<Rightarrow> nft_op list" where
  "forward_tx v6 ncidr =
     [AddChain forwardChain ''filter'' ''forward'' ''filter'', FlushChain forwardChain,
      AddRule forwardChain (Concat [nft_family v6 @ '' saddr'', IPNet_String ncidr, ''accept'']),
      AddRule forwardChain (Concat [nft_family v6 @ '' daddr'', IPNet_String ncidr, ''accept''])]"

definition nft_SetupAndEnsureForwardRules :: "'w nftsys \<Rightarrow> CidrManager \<Rightarrow> ('w, unit) io" where
  "nft_SetupAndEnsureForwardRules N c =
     bindE (tryE (nft_run N False (forward_tx False (nodecidr c))) (\<lambda>_. ret ()) ret) (\<lambda>_.
     if nodecidr c \<noteq> None then tryE (nft_run N True (forward_tx True (nodecidrv6 c))) (\<lambda>_. ret ()) ret
     else ret ())"

definition nft_Init :: "'w nftsys \<Rightarrow> 'w files \<Rightarrow> IPNet option \<Rightarrow> IPNet option \<Rightarrow> IPNet option \<Rightarrow> IPNet option \<Rightarrow>
    ('w \<times> nftm, unit) io" where
  "nft_Init N F ccidr ncidr ccidrv6 ncidrv6 =
     bindE (host (initTable N False ipv4Table)) (\<lambda>_.
     bindE (host (initTable N True ipv6Table)) (\<lambda>_.
     bindE (host (NewCidrManager F ccidr ncidr ccidrv6 ncidrv6)) (\<lambda>c.
     bindE (mgr (\<lambda>s. s\<lparr>ncidrm := Some c\<rparr>)) (\<lambda>_.
     bindE (host (IsRandomfullySupported N False)) (\<lambda>fully.
     bindE (mgr (\<lambda>s. s\<lparr>randomfullySupported := fully\<rparr>)) (\<lambda>_.
     bindE (host (tryE (nft_SetupAndEnsureMasqRules N fully c) (\<lambda>_. ret ()) ret)) (\<lambda>_.
     host (nft_SetupAndEnsureForwardRules N c))))))))"

definition nft_CleanUp :: "'w nftsys \<Rightarrow> ('w, unit) io" where
  "nft_CleanUp N =
     bindE (errorf ''nftables: couldn't delete table''
       (bindE (nft_new N False ipv4Table) (\<lambda>_. nft_run N False [DeleteTable]))) (\<lambda>_.
     errorf ''nftables (ipv6): couldn't delete table''
       (bindE (nft_new N True ipv6Table) (\<lambda>_. nft_run N True [DeleteTable])))"

subsection \<open>What a transaction does to a table, and a table to a packet\<close>

type_synonym nft_table = "string \<rightharpoonup> string list"

text \<open>A transaction is all or nothing; \<open>add\<close> of a table or a chain that exists changes nothing.\<close>

fun nft_apply :: "nft_op \<Rightarrow> nft_table option \<Rightarrow> nft_table option option" where
  "nft_apply AddTable None = Some (Some (\<lambda>_. None))"
| "nft_apply DeleteTable (Some T) = Some None"
| "nft_apply AddTable (Some T) = Some (Some T)"
| "nft_apply (AddChain n _ _ _) (Some T) = Some (Some (if T n = None then T(n \<mapsto> []) else T))"
| "nft_apply (FlushChain n) (Some T) = (if T n = None then None else Some (Some (T(n \<mapsto> []))))"
| "nft_apply (AddRule n r) (Some T) = (case T n of None \<Rightarrow> None | Some L \<Rightarrow> Some (Some (T(n \<mapsto> L @ [r]))))"
| "nft_apply _ None = None"

fun nft_commit :: "nft_op list \<Rightarrow> nft_table option \<Rightarrow> nft_table option option" where
  "nft_commit [] T = Some T"
| "nft_commit (x # xs) T = (case nft_apply x T of None \<Rightarrow> None | Some T' \<Rightarrow> nft_commit xs T')"

definition nft_addr :: "packet \<Rightarrow> string \<Rightarrow> IP" where
  "nft_addr p dir = (if dir = ''saddr'' then pSrc p else pDst p)"

fun nft_target :: "packet \<Rightarrow> string list \<Rightarrow> string option" where
  "nft_target p (a # b # c # ws) =
     (if a = ''meta'' then (if c = ''0x4000'' \<and> pMark p = 0x4000 then nft_target p ws else None)
      else if c = ''!='' then
        (case ws of d # ws' \<Rightarrow> if \<not> in_cidr d (nft_addr p b) then nft_target p ws' else None | [] \<Rightarrow> None)
      else if in_cidr c (nft_addr p b) then nft_target p ws else None)"
| "nft_target p (t # _) = Some t"
| "nft_target p [] = None"

fun nft_verdict :: "packet \<Rightarrow> string list \<Rightarrow> string" where
  "nft_verdict p [] = ''accept''"
| "nft_verdict p (r # rs) = (case nft_target p (split_char (CHR '' '') r) of Some t \<Rightarrow> t | None \<Rightarrow> nft_verdict p rs)"

end
