(* ===== verification/CniNftProps.thy ===== *)
theory CniNftProps
  imports CniNft CniManagerProps
begin

section \<open>simplecni: properties of the nftables rules\<close>

text \<open>
  What the transactions leave in the table of the daemon, what its rules do to a packet, and
  where this differs from the iptables rules. \<open>nft_behaves\<close>: a transaction for IPv4 is applied
  as a whole, and one for IPv6 leaves the IPv4 table alone.
\<close>

definition nft_behaves :: "'w nftsys \<Rightarrow> ('w \<Rightarrow> nft_table option) \<Rightarrow> bool" where
  "nft_behaves N V \<longleftrightarrow>
     (\<forall>tx w. (\<forall>n r. AddRule n r \<in> set tx \<longrightarrow> CHR ''<'' \<notin> set r) \<longrightarrow>
        (\<exists>r w'. nft_run N False tx w = (r, w') \<and>
          (case nft_commit tx (V w) of None \<Rightarrow> (\<exists>m. r = Inl (Plain m)) \<and> V w' = V w
           | Some T \<Rightarrow> r = Inr () \<and> V w' = T))) \<and>
     (\<forall>tx w. V (snd (nft_run N True tx w)) = V w)"

lemma split_Concat: "ws \<noteq> [] \<Longrightarrow> split_char (CHR '' '') (Concat ws) = concat (map (split_char (CHR '' '')) ws)"
  unfolding Concat_def
proof (induction ws rule: induct_list012)
  case (3 a b ws)
  have "join_with '' '' (a # b # ws) = a @ CHR '' '' # join_with '' '' (b # ws)" by simp
  then show ?case using 3 by (simp only: split_char_append) simp
qed simp_all

lemma clean_split: "clean_word w \<Longrightarrow> split_char (CHR '' '') w = [w]"
  by (simp add: split_char_no_sep clean_word_def)

definition rules_of :: "nft_op list \<Rightarrow> string list" where
  "rules_of tx = concat (map (\<lambda>x. case x of AddRule n r \<Rightarrow> [r] | _ \<Rightarrow> []) tx)"

lemma addMasqRules_verdict:
  assumes "clean_word a" "clean_word b" and ne: "a \<noteq> ''!=''" "b \<noteq> ''!=''" and "\<And>x. in_cidr a x = A x" "\<And>x. in_cidr b x = B x"
  shows "nft_verdict p (rules_of (addMasqRules fully a b False)) =
    (if pMark p = 0x4000 \<or> (B (pSrc p) \<and> A (pDst p)) \<or> (A (pSrc p) \<and> B (pDst p)) \<or> (\<not> B (pSrc p) \<and> A (pDst p))
     then ''return''
     else if A (pSrc p) \<and> \<not> in_cidr ''224.0.0.0/4'' (pDst p) \<or> \<not> A (pSrc p) \<and> A (pDst p)
     then ''masquerade'' else ''accept'')"
proof -
  have lits: "split_char (CHR '' '') ''meta mark'' = [''meta'', ''mark'']" "split_char (CHR '' '') ''0x4000'' = [''0x4000'']"
    "split_char (CHR '' '') ''return'' = [''return'']" "split_char (CHR '' '') ''saddr'' = [''saddr'']"
    "split_char (CHR '' '') ''daddr'' = [''daddr'']" "split_char (CHR '' '') ''!='' = [''!='']"
    "split_char (CHR '' '') ''ip'' = [''ip'']" "split_char (CHR '' '') ''224.0.0.0/4'' = [''224.0.0.0/4'']"
    "split_char (CHR '' '') ''masquerade fully-random'' = [''masquerade'', ''fully-random'']"
    "split_char (CHR '' '') ''masquerade'' = [''masquerade'']"
    by code_simp+
  show ?thesis
    by (cases fully) (simp_all add: addMasqRules_def rules_of_def Let_def split_Concat lits clean_split [OF assms(1)]
        clean_split [OF assms(2)] nft_family_def nft_addr_def assms(5,6) ne)
qed


lemma net4_ne: "length ip = 4 \<Longrightarrow> n \<le> 32 \<Longrightarrow> IPNet_String (Some (net4 ip n)) \<noteq> ''!=''"
  using IPNet_String_net4 [of ip n] by (auto simp: append_eq_Cons_conv)

lemma net4_in_cidr: "length ip = 4 \<Longrightarrow> n \<le> 32 \<Longrightarrow>
    in_cidr (IPNet_String (Some (net4 ip n))) x = Contains_ip (net4 ip n) x"
  by (simp add: in_cidr_def ParseCIDR_String)

lemma rules_of_simps [simp]:
  "rules_of [] = []" "rules_of (AddRule n r # tx) = r # rules_of tx" "rules_of (FlushChain n # tx) = rules_of tx"
  "rules_of (AddChain n a b c # tx) = rules_of tx"
  by (simp_all add: rules_of_def)

lemma commit_rules: "T n = Some L \<Longrightarrow> \<forall>x \<in> set tx. \<exists>r. x = AddRule n r \<Longrightarrow>
    nft_commit tx (Some T) = Some (Some (T(n \<mapsto> L @ rules_of tx)))"
proof (induction tx arbitrary: T L)
  case (Cons x tx)
  then obtain r where "x = AddRule n r" by auto
  moreover have "nft_commit tx (Some (T(n \<mapsto> L @ [r]))) = Some (Some (T(n \<mapsto> L @ [r], n \<mapsto> (L @ [r]) @ rules_of tx)))"
    by (rule Cons(1)) (use Cons(3) in auto)
  ultimately show ?case using Cons(2) by (simp add: fun_eq_iff)
qed (simp add: rules_of_def fun_upd_idem)

lemma commit_masq: "nft_commit (masq_tx fully a b v6) (Some T) =
    Some (Some (T(postrtgChain \<mapsto> rules_of (addMasqRules fully (IPNet_String a) (IPNet_String b) v6))))"
proof -
  let ?r = "addMasqRules fully (IPNet_String a) (IPNet_String b) v6"
  have "\<forall>x \<in> set ?r. \<exists>r. x = AddRule postrtgChain r" by (simp add: addMasqRules_def Let_def)
  then show ?thesis
    using commit_rules [of "(if T postrtgChain = None then T(postrtgChain \<mapsto> []) else T)(postrtgChain \<mapsto> [])" postrtgChain "[]" ?r]
    by (auto simp: masq_tx_def)
qed

lemma set_Concat: "c \<noteq> CHR '' '' \<Longrightarrow> c \<in> set (Concat ws) \<longleftrightarrow> (\<exists>w \<in> set ws. c \<in> set w)"
  unfolding Concat_def by (induction ws rule: induct_list012) auto

lemma net4_text_plain: "length ip = 4 \<Longrightarrow> n \<le> 32 \<Longrightarrow> CHR ''<'' \<notin> set (IPNet_String (Some (net4 ip n)))"
proof -
  assume ok: "length ip = 4" "n \<le> 32"
  then have "length (netIP (net4 ip n)) = 4" by simp
  then obtain a b c d where ip: "netIP (net4 ip n) = [a, b, c, d]" by (rule ip4_cases)
  have "\<not> is_digit (CHR ''<'')" by code_simp
  then have "CHR ''<'' \<notin> set (nat_digits k)" for k using nat_digits_is_digit by blast
  then show ?thesis by (simp add: IPNet_String_net4 [OF ok] ip ipv4_text4)
qed

text \<open>The decision of the rules that the manager puts into its table.\<close>

definition nft_masquerades :: "IPNet \<Rightarrow> IPNet \<Rightarrow> packet \<Rightarrow> bool" where
  "nft_masquerades c d p \<longleftrightarrow> pMark p \<noteq> 0x4000 \<and> Contains_ip d (pSrc p) \<and> \<not> Contains_ip d (pDst p) \<and>
     \<not> Contains_ip c (pDst p) \<and> \<not> in_cidr ''224.0.0.0/4'' (pDst p)"

text \<open>Setting up the nftables rules succeeds whatever the table of the daemon holds, and leaves it
  with a chain that masquerades exactly the packets from a pod of this node to an address outside of
  the cluster and of its own range that is no multicast address; only the mark \<open>0x4000\<close> itself is
  an exception, not every mark with that bit. A packet from the host to a pod of another node is
  never masqueraded.\<close>

theorem nft_masquerade_rules:
  assumes "nft_behaves N V" "V w = Some T" "nodecidr cm = Some (net4 ip n)" "clustercidr cm = Some (net4 ip' n')"
    "nodecidrv6 cm = None" "length ip = 4" "n \<le> 32" "length ip' = 4" "n' \<le> 32"
  shows "\<exists>w' rules. nft_SetupAndEnsureMasqRules N fully cm w = (Inr (), w') \<and>
    V w' = Some (T(postrtgChain \<mapsto> rules)) \<and>
    (\<forall>p. nft_verdict p rules = ''masquerade'' \<longleftrightarrow> nft_masquerades (net4 ip' n') (net4 ip n) p)"
proof -
  let ?d = "net4 ip n" and ?c = "net4 ip' n'"
  let ?r = "addMasqRules fully (IPNet_String (Some ?d)) (IPNet_String (Some ?c)) False"
  have "CHR ''<'' \<notin> set r" if "AddRule k r \<in> set (masq_tx fully (Some ?d) (Some ?c) False)" for k r
    using that net4_text_plain [OF assms(6,7)] net4_text_plain [OF assms(8,9)]
    by (auto simp: masq_tx_def addMasqRules_def Let_def set_Concat nft_family_def split: if_splits)
  then have "\<forall>k r. AddRule k r \<in> set (masq_tx fully (Some ?d) (Some ?c) False) \<longrightarrow> CHR ''<'' \<notin> set r" by blast
  with assms(1) obtain res w' where
      "nft_run N False (masq_tx fully (Some ?d) (Some ?c) False) w = (res, w')"
      "case nft_commit (masq_tx fully (Some ?d) (Some ?c) False) (V w) of
         None \<Rightarrow> (\<exists>m. res = Inl (Plain m)) \<and> V w' = V w | Some T \<Rightarrow> res = Inr () \<and> V w' = T"
    unfolding nft_behaves_def by blast
  then have w': "nft_run N False (masq_tx fully (Some ?d) (Some ?c) False) w = (Inr (), w')"
      "V w' = Some (T(postrtgChain \<mapsto> rules_of ?r))"
    by (simp_all add: assms(2) commit_masq)
  have "nft_SetupAndEnsureMasqRules N fully cm w = (Inr (), w')"
    using w'(1) assms(3-5) by (simp add: nft_SetupAndEnsureMasqRules_def io_simps)
  moreover have "nft_verdict p (rules_of ?r) = ''masquerade'' \<longleftrightarrow> nft_masquerades ?c ?d p" for p
    using addMasqRules_verdict [OF clean_net4 [OF assms(6,7)] clean_net4 [OF assms(8,9)]
        net4_ne [OF assms(6,7)] net4_ne [OF assms(8,9)] net4_in_cidr [OF assms(6,7)] net4_in_cidr [OF assms(8,9)], of p fully]
    by (auto simp: nft_masquerades_def)
  ultimately show ?thesis using w'(2) by blast
qed

definition nft_host :: "nft_table option nftsys" where
  "nft_host = \<lparr>nft_new = \<lambda>v6 name. ret (),
     nft_run = \<lambda>v6 tx w. (if v6 then (Inr (), w) else
       case nft_commit tx w of None \<Rightarrow> (Inl (Plain ''exit status 1''), w) | Some T \<Rightarrow> (Inr (), T)),
     nft_check = \<lambda>v6 tx. ret ()\<rparr>"

lemma nft_host_behaves: "nft_behaves nft_host (\<lambda>w. w)"
  by (auto simp: nft_behaves_def nft_host_def split: option.splits)

lemma nft_masquerade_rules_witness:
  "\<exists>w' rules. nft_SetupAndEnsureMasqRules nft_host True
      \<lparr>clustercidr = Some (net4 [10, 244, 0, 0] 16), nodecidr = Some (net4 [10, 244, 1, 0] 24), prevclustercidr = None,
       prevnodecidr = None, clustercidrv6 = None, nodecidrv6 = None, prevclustercidrv6 = None, prevnodecidrv6 = None\<rparr>
      (Some (\<lambda>_. None)) = (Inr (), w') \<and> w' = Some [postrtgChain \<mapsto> rules]"
  using nft_masquerade_rules [OF nft_host_behaves, of "Some (\<lambda>_. None)" "\<lambda>_. None"
      "\<lparr>clustercidr = Some (net4 [10, 244, 0, 0] 16), nodecidr = Some (net4 [10, 244, 1, 0] 24), prevclustercidr = None,
       prevnodecidr = None, clustercidrv6 = None, nodecidrv6 = None, prevclustercidrv6 = None, prevnodecidrv6 = None\<rparr>"
      "[10, 244, 1, 0]" 24 "[10, 244, 0, 0]" 16 True]
  by auto

text \<open>For a node range inside of the cluster range and an unmarked packet, the iptables rules and
  the nftables rules decide differently about exactly these packets: neither end is a pod of this
  node, and it is from the cluster to no multicast address or from outside into the cluster. The
  iptables rules masquerade them, the nftables rules do not.\<close>

theorem modes_differ:
  assumes "length ip = 4" "n \<le> 32" "length ip' = 4" "n' \<le> 32"
    "\<forall>x \<in> {pSrc p, pDst p}. Contains_ip (net4 ip n) x \<longrightarrow> Contains_ip (net4 ip' n') x" "pMark p = 0"
  shows "(chain_verdict p (chain_rules PostChain (masq4 (IPNet_String (Some (net4 ip' n')))
        (IPNet_String (Some (net4 ip n))) fully)) = ''MASQUERADE'') \<noteq>
      (nft_verdict p (rules_of (masq_tx fully (Some (net4 ip n)) (Some (net4 ip' n')) False)) = ''masquerade'') \<longleftrightarrow>
    \<not> Contains_ip (net4 ip n) (pSrc p) \<and> \<not> Contains_ip (net4 ip n) (pDst p) \<and>
    (if Contains_ip (net4 ip' n') (pSrc p) then \<not> in_cidr ''224.0.0.0/4'' (pDst p)
     else Contains_ip (net4 ip' n') (pDst p))"
proof -
  have r: "rules_of (masq_tx fully a b v6) = rules_of (addMasqRules fully (IPNet_String a) (IPNet_String b) v6)" for a b v6
    by (simp add: masq_tx_def)
  have k: "\<not> kube_marked p" using assms(6) by (simp add: kube_marked_def)
  show ?thesis
    unfolding r using assms(5,6) k
      addMasqRules_verdict [OF clean_net4 [OF assms(1,2)] clean_net4 [OF assms(3,4)]
        net4_ne [OF assms(1,2)] net4_ne [OF assms(3,4)] net4_in_cidr [OF assms(1,2)] net4_in_cidr [OF assms(3,4)], of p fully]
      masq4_verdict [OF net4_in_cidr [OF assms(3,4)] net4_in_cidr [OF assms(1,2)], of p fully]
    by auto
qed

lemma modes_differ_witness:
  "(chain_verdict \<lparr>pSrc = [192, 168, 0, 1], pDst = [10, 244, 2, 5], pMark = 0\<rparr> (chain_rules PostChain
        (masq4 (IPNet_String (Some (net4 [10, 244, 0, 0] 16))) (IPNet_String (Some (net4 [10, 244, 1, 0] 24))) True)) = ''MASQUERADE'') \<noteq>
   (nft_verdict \<lparr>pSrc = [192, 168, 0, 1], pDst = [10, 244, 2, 5], pMark = 0\<rparr>
      (rules_of (masq_tx True (Some (net4 [10, 244, 1, 0] 24)) (Some (net4 [10, 244, 0, 0] 16)) False)) = ''masquerade'')"
proof -
  let ?p = "\<lparr>pSrc = [192, 168, 0, 1], pDst = [10, 244, 2, 5], pMark = 0\<rparr> :: packet"
  have c: "\<not> Contains_ip (net4 [10, 244, 1, 0] 24) [192, 168, 0, 1]" "\<not> Contains_ip (net4 [10, 244, 1, 0] 24) [10, 244, 2, 5]"
    "\<not> Contains_ip (net4 [10, 244, 0, 0] 16) [192, 168, 0, 1]" "Contains_ip (net4 [10, 244, 0, 0] 16) [10, 244, 2, 5]"
    by code_simp+
  have "length ([10, 244, 1, 0] :: IP) = 4" "24 \<le> (32 :: nat)" "length ([10, 244, 0, 0] :: IP) = 4" "16 \<le> (32 :: nat)"
    "\<forall>x \<in> {pSrc ?p, pDst ?p}. Contains_ip (net4 [10, 244, 1, 0] 24) x \<longrightarrow> Contains_ip (net4 [10, 244, 0, 0] 16) x"
    "pMark ?p = 0"
    using c by simp_all
  from modes_differ [OF this] show ?thesis using c by simp
qed

end
