(* ===== verification/CniPlugin.thy ===== *)
theory CniPlugin
  imports CniFiles
begin

section \<open>simplecni: the plugin (cniplugin)\<close>

text \<open>
  The plugin completes the configuration of another plugin, the delegate, with the address ranges
  of the node, saves the text it sends to it, and sends the same text when the container goes. A
  Go map from strings to JSON values is a list of entries with different keys; its text has the
  keys in order. The record \<open>cni\<close> has the calls of the CNI library: decoding the network
  configuration (into a record that is filled with defaults before), reading the \<open>type\<close> of a saved
  text, and running a delegate. Log output is left out.
\<close>

type_synonym jmap = "(string \<times> json) list"

definition jput :: "string \<Rightarrow> json \<Rightarrow> jmap \<Rightarrow> jmap" where
  "jput k v m = (k, v) # filter (\<lambda>e. fst e \<noteq> k) m"

definition hasKey :: "jmap \<Rightarrow> string \<Rightarrow> bool" where
  "hasKey m k \<longleftrightarrow> map_of m k \<noteq> None"

definition isString :: "json option \<Rightarrow> bool" where
  "isString v = (case v of Some (JStr _) \<Rightarrow> True | _ \<Rightarrow> False)"

text \<open>\<open>json.Marshal\<close> of a map, and of the maps in it.\<close>

fun jsort :: "json \<Rightarrow> json" where
  "jsort (JObj ms) = JObj (sort_key fst (map (\<lambda>(k, v). (k, jsort v)) ms))"
| "jsort (JArr js) = JArr (map jsort js)"
| "jsort j = j"

definition marshal_map :: "jmap \<Rightarrow> string" where
  "marshal_map m = jtext (jsort (JObj m))"

record NetConf =
  CNIVersion :: string
  Name :: string
  IPAM :: "jmap option"
  SubnetFile :: string
  DataDir :: string
  Delegate :: "jmap option"

record 'w cni =
  decode_conf :: "NetConf \<Rightarrow> string \<Rightarrow> goerr + NetConf"
  decode_type :: "string \<Rightarrow> goerr + string"
  delegate_add :: "string \<Rightarrow> string \<Rightarrow> ('w, string) io"
  print_result :: "string \<Rightarrow> ('w, unit) io"
  delegate_del :: "string \<Rightarrow> string \<Rightarrow> ('w, unit) io"

definition defaultSubnetFile :: string where "defaultSubnetFile = ''/var/run/simplecni/subnet.env''"
definition defaultDataDir :: string where "defaultDataDir = ''/var/lib/cni/simple''"

definition loadNetConf :: "'w cni \<Rightarrow> string \<Rightarrow> goerr + NetConf" where
  "loadNetConf C bytes =
     (case decode_conf C \<lparr>CNIVersion = [], Name = [], IPAM = None, SubnetFile = defaultSubnetFile,
         DataDir = defaultDataDir, Delegate = None\<rparr> bytes of
        Inl e \<Rightarrow> Inl (Plain (''failed to load netconf: '' @ err_text e)) | Inr n \<Rightarrow> Inr n)"

subsection \<open>The saved configuration\<close>

definition writeAndSyncFile :: "'w files \<Rightarrow> string \<Rightarrow> string \<Rightarrow> ('w, unit) io" where
  "writeAndSyncFile F filename content =
     bindE (create_file F filename) (\<lambda>_ w.
       case bindE (append_file F filename content) (\<lambda>_. sync_file F filename) w of (r, w1) \<Rightarrow>
       case close_file F filename w1 of (err1, w2) \<Rightarrow>
         ((case r of Inl e \<Rightarrow> Inl e | Inr _ \<Rightarrow> err1), w2))"

definition saveScratchNetConf :: "'w files \<Rightarrow> string \<Rightarrow> string \<Rightarrow> string \<Rightarrow> ('w, unit) io" where
  "saveScratchNetConf F containerID dataDir netconf =
     bindE (mkdir_all F dataDir) (\<lambda>_. writeAndSyncFile F (Join [dataDir, containerID]) netconf)"

subsection \<open>ADD\<close>

definition subnet_range :: "IPNet option \<Rightarrow> json list" where
  "subnet_range n = (if n \<noteq> None \<and> IPNet_String n \<noteq> []
     then [JArr [JObj [(''subnet'', JStr (IPNet_String n))]]] else [])"

definition getDelegateIPAM :: "NetConf \<Rightarrow> subnetEnv \<Rightarrow> jmap" where
  "getDelegateIPAM n senv =
     (let ipam = (case IPAM n of None \<Rightarrow> [] | Some m \<Rightarrow> m);
          ipam1 = (if hasKey ipam ''type'' then ipam else jput ''type'' (JStr ''host-local'') ipam);
          ranges = subnet_range (sn senv) @ subnet_range (ip6Sn senv)
      in jput ''ranges'' (if ranges = [] then JNull else JArr ranges) ipam1)"

text \<open>A value that is no string panics in the type assertion.\<close>

definition get_string :: "jmap \<Rightarrow> string \<Rightarrow> goerr + string" where
  "get_string m k = (case map_of m k of Some (JStr s) \<Rightarrow> Inr s | _ \<Rightarrow> Inl (Panic ''interface conversion''))"

definition delegateAdd :: "'w files \<Rightarrow> 'w cni \<Rightarrow> string \<Rightarrow> string \<Rightarrow> jmap \<Rightarrow> ('w, unit) io" where
  "delegateAdd F C cid dataDir netconf =
     (let netconfBytes = marshal_map netconf in
      bindE (saveScratchNetConf F cid dataDir netconfBytes) (\<lambda>_.
      bindE (lift (get_string netconf ''type'')) (\<lambda>t.
      bindE (mapErr (\<lambda>e. Plain (''failed to delegate add: '' @ err_text e)) (delegate_add C t netconfBytes)) (\<lambda>result.
      print_result C result))))"

definition setdefault :: "string \<Rightarrow> json \<Rightarrow> jmap \<Rightarrow> jmap" where
  "setdefault k v m = (if hasKey m k then m else jput k v m)"

definition doCmdAdd :: "'w files \<Rightarrow> 'w cni \<Rightarrow> string \<Rightarrow> NetConf \<Rightarrow> jmap \<Rightarrow> subnetEnv \<Rightarrow> ('w, unit) io" where
  "doCmdAdd F C cid n d0 senv =
     (let ipam = getDelegateIPAM n senv in
      case (hasKey d0 ''ipMasq'', ipmasq senv) of
        (False, None) \<Rightarrow> fail (Panic ''nil pointer'')
      | (_, m) \<Rightarrow>
       (let d1 = (case m of None \<Rightarrow> d0 | Some b \<Rightarrow> setdefault ''ipMasq'' (JBool (\<not> b)) d0);
            d2 = (if CNIVersion n \<noteq> [] then jput ''cniVersion'' (JStr (CNIVersion n)) d1 else d1);
            d3 = jput ''ipam'' (JObj ipam) d2;
            d4 = setdefault ''mtu'' (case mtu senv of None \<Rightarrow> JNull | Some k \<Rightarrow> JInt (int k)) d3;
            d5 = (if backend senv = ''wireguard''
                  then jput ''ipam'' (JObj (jput ''routes'' (JArr [JObj [(''dst'', JStr ''0.0.0.0/0'')]]) ipam))
                         (jput ''type'' (JStr ''ptp'') (jput ''name'' (JStr ''simplecni'') d4))
                  else setdefault ''type'' (JStr ''bridge'') (jput ''name'' (JStr (Name n)) d4))
        in bindE (lift (get_string d5 ''type'')) (\<lambda>t.
           let d6 = (if t = ''bridge'' then setdefault ''isGateway'' (JBool True) d5 else d5)
           in delegateAdd F C cid (DataDir n) d6)))"

definition squote :: "string \<Rightarrow> string" where
  "squote s = CHR 0x27 # s @ [CHR 0x27]"

definition cmdAdd :: "'w files \<Rightarrow> 'w cni \<Rightarrow> string \<Rightarrow> string \<Rightarrow> ('w, unit) io" where
  "cmdAdd F C cid stdin =
     bindE (mapErr (\<lambda>e. Plain (''loadNetConf failed: '' @ err_text e)) (lift (loadNetConf C stdin))) (\<lambda>n.
     bindE (mapErr (\<lambda>e. Plain (''loadSubnetEnv failed: '' @ err_text e)) (loadSubnetEnv F (SubnetFile n))) (\<lambda>fenv.
     case Delegate n of
       None \<Rightarrow> doCmdAdd F C cid n [] fenv
     | Some d \<Rightarrow>
         require (\<not> (hasKey d ''type'' \<and> \<not> isString (map_of d ''type'')))
           (Plain (squote ''delegate'' @ '' dictionary, if present, must have (string) '' @ squote ''type'' @ '' field'')) (
         require (\<not> hasKey d ''name'')
           (Plain (squote ''delegate'' @ '' dictionary must not have '' @ squote ''name'' @ '' field, it'll be set by flannel'')) (
         require (\<not> hasKey d ''ipam'')
           (Plain (squote ''delegate'' @ '' dictionary must not have '' @ squote ''ipam'' @ '' field, it'll be set by flannel'')) (
         doCmdAdd F C cid n d fenv)))))"

subsection \<open>DEL\<close>

text \<open>The deferred clean-up looks at the error of the decoding: the error of the delegate is
  returned without being stored.\<close>

definition doCmdDel :: "'w files \<Rightarrow> 'w cni \<Rightarrow> string \<Rightarrow> NetConf \<Rightarrow> ('w, unit) io" where
  "doCmdDel F C cid n =
     (let path = Join [DataDir n, cid] in
      tryE (read_file F path) (\<lambda>err. if IsNotExist err then ret () else fail err) (\<lambda>netConfBytes.
      case decode_type C netConfBytes of
        Inl e \<Rightarrow> ret ()
      | Inr t \<Rightarrow> (\<lambda>w. case delegate_del C t netConfBytes w of (res, w1) \<Rightarrow>
           (case remove_file F path w1 of (_, w2) \<Rightarrow> (res, w2)))))"

definition cmdDel :: "'w files \<Rightarrow> 'w cni \<Rightarrow> string \<Rightarrow> string \<Rightarrow> ('w, unit) io" where
  "cmdDel F C cid stdin = bindE (lift (loadNetConf C stdin)) (\<lambda>nc. doCmdDel F C cid nc)"

definition cmdCheck :: "string \<Rightarrow> ('w, unit) io" where
  "cmdCheck cid = ret ()"

end
