(* ===== verification/CniPluginProps.thy ===== *)
theory CniPluginProps
  imports CniPlugin
begin

section \<open>simplecni: properties of the plugin\<close>

text \<open>
  \<open>V\<close> reads the files out of the state of the host. \<open>fs_behaves\<close> is the behaviour of the calls of
  package \<open>os\<close> on a file system without faults; \<open>cni_behaves\<close>: the library reads the \<open>type\<close> of a JSON
  object, and no delegate touches the plugin's files.
\<close>

definition fs_behaves :: "'w files \<Rightarrow> ('w \<Rightarrow> string \<rightharpoonup> string) \<Rightarrow> bool" where
  "fs_behaves F V \<longleftrightarrow>
     (\<forall>p w. \<exists>w'. mkdir_all F p w = (Inr (), w') \<and> V w' = V w) \<and>
     (\<forall>p w. \<exists>w'. create_file F p w = (Inr (), w') \<and> V w' = (V w)(p \<mapsto> [])) \<and>
     (\<forall>p t w s. V w p = Some s \<longrightarrow> (\<exists>w'. append_file F p t w = (Inr (), w') \<and> V w' = (V w)(p \<mapsto> s @ t))) \<and>
     (\<forall>p w. \<exists>w'. sync_file F p w = (Inr (), w') \<and> V w' = V w) \<and>
     (\<forall>p w. \<exists>w'. close_file F p w = (Inr (), w') \<and> V w' = V w) \<and>
     (\<forall>p q w s. V w p = Some s \<longrightarrow> (\<exists>w'. rename_file F p q w = (Inr (), w') \<and> V w' = (V w)(p := None, q \<mapsto> s))) \<and>
     (\<forall>p w. \<exists>r w'. remove_file F p w = (r, w') \<and> V w' = (V w)(p := None)) \<and>
     (\<forall>p w. \<exists>w'. read_file F p w = (case V w p of Some s \<Rightarrow> Inr s | None \<Rightarrow> Inl (Os (OsNotExist p)), w') \<and> V w' = V w) \<and>
     (\<forall>ks w. \<exists>order w'. range_keys F ks w = (Inr order, w') \<and> mset order = mset ks \<and> V w' = V w)"

lemma fs_mkdir: "fs_behaves F V \<Longrightarrow> \<exists>w'. mkdir_all F p w = (Inr (), w') \<and> V w' = V w"
  by (simp add: fs_behaves_def)

lemma fs_create: "fs_behaves F V \<Longrightarrow> \<exists>w'. create_file F p w = (Inr (), w') \<and> V w' = (V w)(p \<mapsto> [])"
  by (simp add: fs_behaves_def)

lemma fs_append: "fs_behaves F V \<Longrightarrow> V w p = Some s \<Longrightarrow>
    \<exists>w'. append_file F p t w = (Inr (), w') \<and> V w' = (V w)(p \<mapsto> s @ t)"
  by (simp add: fs_behaves_def)

lemma fs_sync: "fs_behaves F V \<Longrightarrow> \<exists>w'. sync_file F p w = (Inr (), w') \<and> V w' = V w"
  by (simp add: fs_behaves_def)

lemma fs_close: "fs_behaves F V \<Longrightarrow> \<exists>w'. close_file F p w = (Inr (), w') \<and> V w' = V w"
  by (simp add: fs_behaves_def)

lemma fs_rename: "fs_behaves F V \<Longrightarrow> V w p = Some s \<Longrightarrow>
    \<exists>w'. rename_file F p q w = (Inr (), w') \<and> V w' = (V w)(p := None, q \<mapsto> s)"
  by (simp add: fs_behaves_def)

lemma fs_remove: "fs_behaves F V \<Longrightarrow> \<exists>r w'. remove_file F p w = (r, w') \<and> V w' = (V w)(p := None)"
  by (simp add: fs_behaves_def)

lemma fs_read: "fs_behaves F V \<Longrightarrow>
    \<exists>w'. read_file F p w = (case V w p of Some s \<Rightarrow> Inr s | None \<Rightarrow> Inl (Os (OsNotExist p)), w') \<and> V w' = V w"
  by (simp add: fs_behaves_def)

lemma fs_range: "fs_behaves F V \<Longrightarrow> \<exists>order w'. range_keys F ks w = (Inr order, w') \<and> mset order = mset ks \<and> V w' = V w"
  by (simp add: fs_behaves_def)

text \<open>A file system that is a map.\<close>

definition map_files :: "(string \<rightharpoonup> string) files" where
  "map_files = \<lparr>mkdir_all = \<lambda>p. ret (), create_file = \<lambda>p w. (Inr (), w(p \<mapsto> [])),
     append_file = \<lambda>p t w. (case w p of None \<Rightarrow> (Inl (Os (OsNotExist p)), w) | Some s \<Rightarrow> (Inr (), w(p \<mapsto> s @ t))),
     sync_file = \<lambda>p. ret (), close_file = \<lambda>p. ret (),
     rename_file = \<lambda>p q w. (case w p of None \<Rightarrow> (Inl (Os (OsNotExist p)), w) | Some s \<Rightarrow> (Inr (), w(p := None, q \<mapsto> s))),
     remove_file = \<lambda>p w. (Inr (), w(p := None)),
     stat_file = \<lambda>p w. (case w p of None \<Rightarrow> (Inl (Os (OsNotExist p)), w) | Some s \<Rightarrow> (Inr (), w)),
     read_file = \<lambda>p w. (case w p of None \<Rightarrow> (Inl (Os (OsNotExist p)), w) | Some s \<Rightarrow> (Inr s, w)),
     dotenv_read = \<lambda>p. ret [], range_keys = ret\<rparr>"

lemma map_files_behaves: "fs_behaves map_files (\<lambda>w. w)"
  unfolding fs_behaves_def map_files_def by (simp split: option.splits)

definition cni_behaves :: "'w cni \<Rightarrow> ('w \<Rightarrow> string \<rightharpoonup> string) \<Rightarrow> bool" where
  "cni_behaves C V \<longleftrightarrow>
     (\<forall>m t. distinct (map fst m) \<longrightarrow> map_of m ''type'' = Some (JStr t) \<longrightarrow> decode_type C (jtext (JObj m)) = Inr t) \<and>
     (\<forall>t s w. V (snd (delegate_add C t s w)) = V w) \<and> (\<forall>s w. V (snd (print_result C s w)) = V w) \<and>
     (\<forall>t s w. V (snd (delegate_del C t s w)) = V w)"

subsection \<open>Maps\<close>

lemma map_of_jput [simp]: "map_of (jput k v m) k' = (if k' = k then Some v else map_of m k')"
  by (induction m) (auto simp: jput_def)

lemma map_of_setdefault [simp]:
  "map_of (setdefault k v m) k' = (if k' = k \<and> map_of m k = None then Some v else map_of m k')"
  by (auto simp: setdefault_def hasKey_def)

lemma distinct_jput [simp]: "distinct (map fst m) \<Longrightarrow> distinct (map fst (jput k v m))"
  by (auto simp: jput_def distinct_map_filter)

lemma distinct_setdefault [simp]: "distinct (map fst m) \<Longrightarrow> distinct (map fst (setdefault k v m))"
  by (simp add: setdefault_def)

lemma map_of_sort:
  assumes "distinct (map fst m)"
  shows "map_of (sort_key fst (map (\<lambda>(k, v). (k, f v)) m)) k = map_option f (map_of m k)"
proof -
  let ?n = "map (\<lambda>(k, v). (k, f v)) m"
  have d: "distinct (map fst ?n)" using assms by (simp add: o_def case_prod_unfold)
  have "mset (map fst (sort_key fst ?n)) = mset (map fst ?n)" by (simp only: mset_map mset_sort)
  then have "distinct (map fst (sort_key fst ?n))" using d mset_eq_imp_distinct_iff by blast
  then have "map_of (sort_key fst ?n) = map_of ?n"
    using d by (intro map_of_inject_set [THEN iffD2]) auto
  then show ?thesis by (simp add: map_of_map)
qed

lemma decode_marshal:
  assumes "cni_behaves C V" "distinct (map fst m)" "map_of m ''type'' = Some (JStr t)"
  shows "decode_type C (marshal_map m) = Inr t"
proof -
  let ?n = "sort_key fst (map (\<lambda>(k, v). (k, jsort v)) m)"
  have "map_of ?n ''type'' = Some (JStr t)" using map_of_sort [OF assms(2), of jsort] assms(3) by simp
  moreover have "mset (map fst ?n) = mset (map fst (map (\<lambda>(k, v). (k, jsort v)) m))" by (simp only: mset_map mset_sort)
  then have "mset (map fst ?n) = mset (map fst m)" by (simp add: o_def case_prod_unfold flip: mset_map)
  then have "distinct (map fst ?n)" using assms(2) mset_eq_imp_distinct_iff by blast
  ultimately show ?thesis using assms(1) by (simp add: cni_behaves_def marshal_map_def)
qed

subsection \<open>ADD and DEL\<close>

lemma save_scratch:
  assumes "fs_behaves F V"
  shows "\<exists>w'. saveScratchNetConf F cid dir txt w = (Inr (), w') \<and> V w' = (V w)(Join [dir, cid] \<mapsto> txt)"
proof -
  let ?p = "Join [dir, cid]"
  obtain w1 where w1: "mkdir_all F dir w = (Inr (), w1)" "V w1 = V w" using fs_mkdir [OF assms] by blast
  obtain w2 where w2: "create_file F ?p w1 = (Inr (), w2)" "V w2 = (V w)(?p \<mapsto> [])"
    using fs_create [OF assms, of ?p w1] w1 by auto
  then have "V w2 ?p = Some []" by simp
  from fs_append [OF assms this] obtain w3 where
    w3: "append_file F ?p txt w2 = (Inr (), w3)" "V w3 = (V w2)(?p \<mapsto> [] @ txt)" by blast
  obtain w4 where w4: "sync_file F ?p w3 = (Inr (), w4)" "V w4 = V w3" using fs_sync [OF assms] by blast
  obtain w5 where w5: "close_file F ?p w4 = (Inr (), w5)" "V w5 = V w4" using fs_close [OF assms] by blast
  show ?thesis using w1 w2 w3 w4 w5
    by (simp add: saveScratchNetConf_def writeAndSyncFile_def io_simps)
qed

lemma add_is_delegateAdd:
  assumes "doCmdAdd F C cid n d0 senv w = (Inr (), w')" "distinct (map fst d0)"
  shows "\<exists>d. delegateAdd F C cid (DataDir n) d w = (Inr (), w') \<and> distinct (map fst d)"
  using assms
  by (fastforce simp: doCmdAdd_def Let_def eq_Inr split: option.splits bool.splits if_splits)

lemma cmdAdd_delegateAdd:
  assumes "fs_behaves F V" "loadNetConf C stdin = Inr n" "\<forall>d. Delegate n = Some d \<longrightarrow> distinct (map fst d)"
    "cmdAdd F C cid stdin w = (Inr (), w')"
  shows "\<exists>d w1. delegateAdd F C cid (DataDir n) d w1 = (Inr (), w') \<and> distinct (map fst d)"
proof -
  have "\<exists>d0 senv w1. doCmdAdd F C cid n d0 senv w1 = (Inr (), w') \<and> distinct (map fst d0)"
  proof (cases "Delegate n")
    case None
    then obtain senv w1 where "doCmdAdd F C cid n [] senv w1 = (Inr (), w')"
      using assms(2,4) by (auto simp: cmdAdd_def eq_Inr mapErr_def)
    moreover have "distinct (map fst ([] :: jmap))" by simp
    ultimately show ?thesis by blast
  next
    case (Some d0)
    then obtain senv w1 where "doCmdAdd F C cid n d0 senv w1 = (Inr (), w')"
      using assms(2,4) by (auto simp: cmdAdd_def eq_Inr mapErr_def)
    then show ?thesis using assms(3) Some by blast
  qed
  then show ?thesis using add_is_delegateAdd by metis
qed

lemma delegateAdd_runs:
  assumes F: "fs_behaves F V" and C: "cni_behaves C V"
    and run: "delegateAdd F C cid dir d w = (Inr (), w')"
  shows "\<exists>t r wa wa'. map_of d ''type'' = Some (JStr t) \<and> delegate_add C t (marshal_map d) wa = (Inr r, wa') \<and>
    V w' = (V w)(Join [dir, cid] \<mapsto> marshal_map d)"
proof -
  obtain w1 where w1: "saveScratchNetConf F cid dir (marshal_map d) w = (Inr (), w1)"
      "V w1 = (V w)(Join [dir, cid] \<mapsto> marshal_map d)"
    using save_scratch [OF F] by blast
  then obtain t r w2 where t: "get_string d ''type'' = Inr t" "delegate_add C t (marshal_map d) w1 = (Inr r, w2)"
      "print_result C r w2 = (Inr (), w')"
    using run by (auto simp: delegateAdd_def eq_Inr mapErr_def Let_def)
  have "V w' = V w1" using C t(2,3) unfolding cni_behaves_def by (metis snd_conv)
  moreover have "map_of d ''type'' = Some (JStr t)"
    using t(1) by (simp add: get_string_def split: option.splits json.splits)
  ultimately show ?thesis using t(2) w1(2) by auto
qed

lemma del_runs:
  assumes F: "fs_behaves F V" and C: "cni_behaves C V" and n: "loadNetConf C stdin = Inr n"
    and saved: "V w (Join [DataDir n, cid]) = Some txt" "decode_type C txt = Inr t"
  shows "\<exists>wb. V wb = V w \<and> fst (cmdDel F C cid stdin w) = fst (delegate_del C t txt wb) \<and>
    V (snd (cmdDel F C cid stdin w)) = (V w)(Join [DataDir n, cid] := None)"
proof -
  let ?p = "Join [DataDir n, cid]"
  obtain w1 where w1: "read_file F ?p w = (Inr txt, w1)" "V w1 = V w" using fs_read [OF F, of ?p w] saved by auto
  obtain res w2 where w2: "delegate_del C t txt w1 = (res, w2)" by (cases "delegate_del C t txt w1")
  then have v2: "V w2 = V w1" using C unfolding cni_behaves_def by (metis snd_conv)
  obtain x w3 where w3: "remove_file F ?p w2 = (x, w3)" "V w3 = (V w2)(?p := None)" using fs_remove [OF F] by blast
  have "cmdDel F C cid stdin w = (res, w3)"
    using n w1 w2 w3 saved by (simp add: cmdDel_def doCmdDel_def io_simps Let_def)
  then show ?thesis using w1 w2 v2 w3 by (intro exI [of _ w1]) simp
qed

text \<open>C20. After a successful ADD the saved file holds the text that was sent to the delegate; DEL sends
  the same text to the same delegate, returns what the delegate returns, and removes the file.\<close>

theorem add_then_del:
  assumes "fs_behaves F V" "cni_behaves C V" "loadNetConf C stdin = Inr n"
    "\<forall>d. Delegate n = Some d \<longrightarrow> distinct (map fst d)" "cmdAdd F C cid stdin w = (Inr (), w1)"
  shows "\<exists>t txt r wa wa' wb. delegate_add C t txt wa = (Inr r, wa') \<and> V w1 (Join [DataDir n, cid]) = Some txt \<and>
    fst (cmdDel F C cid stdin w1) = fst (delegate_del C t txt wb) \<and> V wb = V w1 \<and>
    V (snd (cmdDel F C cid stdin w1)) = (V w1)(Join [DataDir n, cid] := None)"
proof -
  obtain d w0 where d: "delegateAdd F C cid (DataDir n) d w0 = (Inr (), w1)" "distinct (map fst d)"
    using cmdAdd_delegateAdd [OF assms(1,3,4,5)] by blast
  obtain t r wa wa' where t: "map_of d ''type'' = Some (JStr t)" "delegate_add C t (marshal_map d) wa = (Inr r, wa')"
      "V w1 = (V w0)(Join [DataDir n, cid] \<mapsto> marshal_map d)"
    using delegateAdd_runs [OF assms(1,2) d(1)] by blast
  have saved: "V w1 (Join [DataDir n, cid]) = Some (marshal_map d)" using t(3) by simp
  show ?thesis
    using del_runs [OF assms(1,2,3) saved decode_marshal [OF assms(2) d(2) t(1)]] t(2) saved by blast
qed

text \<open>When the delegate fails to delete, DEL reports its error but removes the saved text all the
  same; a second DEL then reports success without running the delegate.\<close>

theorem failed_del_is_not_retried:
  assumes "fs_behaves F V" "cni_behaves C V" "loadNetConf C stdin = Inr n"
    "V w (Join [DataDir n, cid]) = Some txt" "decode_type C txt = Inr t" "\<forall>w. fst (delegate_del C t txt w) = Inl e"
  shows "\<exists>w1 w2. cmdDel F C cid stdin w = (Inl e, w1) \<and> V w1 (Join [DataDir n, cid]) = None \<and>
    cmdDel F (C\<lparr>delegate_del := d\<rparr>) cid stdin w1 = (Inr (), w2) \<and> V w2 = V w1"
proof -
  let ?p = "Join [DataDir n, cid]"
  obtain w1 where w1: "cmdDel F C cid stdin w = (Inl e, w1)" "V w1 = (V w)(?p := None)"
    using del_runs [OF assms(1-5)] assms(6) by (metis prod.collapse)
  obtain w2 where "read_file F ?p w1 = (Inl (Os (OsNotExist ?p)), w2)" "V w2 = V w1"
    using fs_read [OF assms(1), of ?p w1] w1 by auto
  then have "cmdDel F (C\<lparr>delegate_del := d\<rparr>) cid stdin w1 = (Inr (), w2) \<and> V w2 = V w1"
    using assms(3) by (simp add: cmdDel_def doCmdDel_def io_simps loadNetConf_def Let_def)
  then show ?thesis using w1 by auto
qed

subsection \<open>A run\<close>

definition parse_type :: "string \<Rightarrow> goerr + string" where
  "parse_type s = (case json_parse s of
      Some (JObj m) \<Rightarrow> (case map_of m ''type'' of Some (JStr t) \<Rightarrow> Inr t | _ \<Rightarrow> Inl (Plain ''no type''))
    | _ \<Rightarrow> Inl (Plain ''no object''))"

definition stuck_cni :: "(string \<rightharpoonup> string) cni" where
  "stuck_cni = \<lparr>decode_conf = \<lambda>d _. Inr (d\<lparr>Name := ''cbr0''\<rparr>), decode_type = parse_type,
     delegate_add = \<lambda>t s. ret ''{}'', print_result = \<lambda>_. ret (), delegate_del = \<lambda>t s. fail (Plain ''busy'')\<rparr>"

lemma stuck_cni_behaves: "cni_behaves stuck_cni (\<lambda>w. w)"
  by (simp add: cni_behaves_def stuck_cni_def parse_type_def json_parse_text del: jtext.simps map_of_eq_Some_iff)

definition node_file :: string where
  "node_file = ''SUBNET=10.244.1.0/24'' @ CHR 0x0A # ''IPMASQ=true'' @ [CHR 0x0A]"

definition node_senv :: subnetEnv where
  "node_senv = empty_env\<lparr>sn := Some (net4 [10, 244, 1, 0] 24), ipmasq := Some True\<rparr>"

lemma parse_node_range: "ParseCIDR ''10.244.1.0/24'' = Inr (as16 [10, 244, 1, 0], net4 [10, 244, 1, 0] 24)"
proof -
  have "''10.244.1.0/24'' = ipv4_text [10, 244, 1, 0] @ CHR ''/'' # nat_digits 24" by code_simp
  then show ?thesis by (simp only: net4_parse) (simp add: net4_parse)
qed

lemma node_file_loads: "load_lines (raw_lines node_file) empty_env = Inr node_senv"
proof -
  have r: "raw_lines node_file = [''SUBNET=10.244.1.0/24'', ''IPMASQ=true'']" by code_simp
  have "load_line (drop_cr ''SUBNET=10.244.1.0/24'') e = Inr (e\<lparr>sn := Some (net4 [10, 244, 1, 0] 24)\<rparr>)" for e
    by (simp add: load_line_def drop_cr_def HasPrefix_def parse_node_range)
  moreover have "load_line (drop_cr ''IPMASQ=true'') e = Inr (e\<lparr>ipmasq := Some True\<rparr>)" for e
    by (simp add: load_line_def drop_cr_def HasPrefix_def)
  ultimately show ?thesis unfolding r by (simp add: node_senv_def)
qed

definition node_files :: "string \<rightharpoonup> string" where
  "node_files = [defaultSubnetFile \<mapsto> node_file]"

lemma stuck_conf: "loadNetConf stuck_cni stdin = Inr \<lparr>CNIVersion = [], Name = ''cbr0'', IPAM = None, SubnetFile = defaultSubnetFile,
    DataDir = defaultDataDir, Delegate = None\<rparr>"
  by (simp add: loadNetConf_def stuck_cni_def)

lemma node_add: "\<exists>w1. cmdAdd map_files stuck_cni ''c1'' ''{}'' node_files = (Inr (), w1)"
proof -
  have "missing node_senv = []" by (simp add: missing_def node_senv_def empty_env_def)
  then have "loadSubnetEnv map_files defaultSubnetFile node_files = (Inr node_senv, node_files)"
    unfolding loadSubnetEnv_def by (simp add: io_simps map_files_def node_files_def node_file_loads)
  moreover have "\<exists>w1. doCmdAdd map_files stuck_cni ''c1'' \<lparr>CNIVersion = [], Name = ''cbr0'', IPAM = None, SubnetFile = defaultSubnetFile,
      DataDir = defaultDataDir, Delegate = None\<rparr> [] node_senv node_files = (Inr (), w1)"
  proof -
    have d: "\<exists>w1. delegateAdd map_files stuck_cni ''c1'' dir d w = (Inr (), w1)" if "map_of d ''type'' = Some (JStr t)" for dir d w t
    proof -
      obtain w2 where "saveScratchNetConf map_files ''c1'' dir (marshal_map d) w = (Inr (), w2)"
        using save_scratch [OF map_files_behaves] by blast
      then show ?thesis using that
        by (simp add: delegateAdd_def Let_def io_simps get_string_def mapErr_def stuck_cni_def)
    qed
    show ?thesis
      by (simp add: doCmdAdd_def node_senv_def empty_env_def hasKey_def Let_def io_simps get_string_def)
         (rule d, simp)
  qed
  ultimately show ?thesis
    by (simp add: cmdAdd_def io_simps mapErr_def stuck_conf)
qed

lemma add_then_del_witness:
  "\<exists>w1 txt. cmdAdd map_files stuck_cni ''c1'' ''{}'' node_files = (Inr (), w1) \<and> w1 (Join [defaultDataDir, ''c1'']) = Some txt \<and>
    snd (cmdDel map_files stuck_cni ''c1'' ''{}'' w1) = w1(Join [defaultDataDir, ''c1''] := None)"
proof -
  obtain w1 where w1: "cmdAdd map_files stuck_cni ''c1'' ''{}'' node_files = (Inr (), w1)" using node_add by blast
  show ?thesis
    using add_then_del [OF map_files_behaves stuck_cni_behaves stuck_conf _ w1] w1 by auto
qed

lemma failed_del_is_not_retried_witness:
  "\<exists>w1. cmdDel map_files stuck_cni ''c1'' ''{}'' [Join [defaultDataDir, ''c1''] \<mapsto> jtext (JObj [(''type'', JStr ''bridge'')])]
      = (Inl (Plain ''busy''), w1) \<and>
    cmdDel map_files (stuck_cni\<lparr>delegate_del := \<lambda>t s. ret ()\<rparr>) ''c1'' ''{}'' w1 = (Inr (), w1)"
proof -
  let ?w = "[Join [defaultDataDir, ''c1''] \<mapsto> jtext (JObj [(''type'', JStr ''bridge'')])]"
  have t: "decode_type stuck_cni (jtext (JObj [(''type'', JStr ''bridge'')])) = Inr ''bridge''"
    by (simp add: stuck_cni_def parse_type_def json_parse_text del: jtext.simps)
  have f: "\<forall>w. fst (delegate_del stuck_cni ''bridge'' (jtext (JObj [(''type'', JStr ''bridge'')])) w) = Inl (Plain ''busy'')"
    by (simp add: stuck_cni_def)
  show ?thesis
    using failed_del_is_not_retried [OF map_files_behaves stuck_cni_behaves stuck_conf _ t f,
        where w = ?w and cid = "''c1''" and stdin = "''{}''" and d = "\<lambda>t s. ret ()"]
    by (auto simp del: jtext.simps)
qed

end
