(* ===== verification/CniDevices.thy ===== *)
theory CniDevices
  imports GoNet GoJson
begin

section \<open>simplecni: links, addresses, neighbours and routes (pkg/utils/network)\<close>

text \<open>
  The devices of the vxlan backend. The record \<open>netlink\<close> has the calls of the library netlink (the
  kernel's links, addresses, neighbour entries and routes) and the source of random bytes. A
  neighbour entry is an ARP entry or an entry of the forwarding database of the device. A pointer
  to an address is an option, a nil \<open>net.IP\<close> the empty list. Log output is left out.
\<close>

subsection \<open>Retrying (pkg/utils/util/retry.go)\<close>

text \<open>The library makes ten attempts and returns the errors of all of them.\<close>

primrec retry_n :: "nat \<Rightarrow> string list \<Rightarrow> ('w, 'a) io \<Rightarrow> ('w, 'a) io" where
  "retry_n 0 errs f = fail (Plain (''All attempts fail:'' @ concat (map (\<lambda>e. CHR 0x0A # e) errs)))"
| "retry_n (Suc n) errs f = tryE f (\<lambda>e. retry_n n (errs @ [err_text e]) f) ret"

definition Retry :: "('w, 'a) io \<Rightarrow> ('w, 'a) io" where
  "Retry f = retry_n 10 [] f"

subsection \<open>Hardware addresses\<close>

definition hex2 :: "byte \<Rightarrow> string" where
  "hex2 b = [hex_digit (unat b div 16), hex_digit (unat b mod 16)]"

definition mac_String :: "byte list \<Rightarrow> string" where
  "mac_String a = join_with '':'' (map hex2 a)"

text \<open>\<open>net.ParseMAC\<close>: groups of two digits with colons or hyphens, or of four digits with dots.\<close>

definition hex_pair :: "string \<Rightarrow> byte option" where
  "hex_pair s = (case s of [a, b] \<Rightarrow>
      (case (hex_digit_val a, hex_digit_val b) of (Some x, Some y) \<Rightarrow> Some (of_nat (16 * x + y)) | _ \<Rightarrow> None)
    | _ \<Rightarrow> None)"

definition all_some :: "'a option list \<Rightarrow> 'a list option" where
  "all_some xs = (if None \<in> set xs then None else Some (map the xs))"

definition ParseMAC :: "string \<Rightarrow> byte list option" where
  "ParseMAC s =
     (if length s < 14 then None
      else if s ! 2 = CHR '':'' \<or> s ! 2 = CHR ''-'' then
        (let gs = split_char (s ! 2) s in
         if length gs \<in> {6, 8, 20} then all_some (map hex_pair gs) else None)
      else if s ! 4 = CHR ''.'' then
        (let gs = split_char (CHR ''.'') s in
         if 2 * length gs \<in> {6, 8, 20}
         then all_some (concat (map (\<lambda>g. [hex_pair (take 2 g), hex_pair (drop 2 g)]) gs)) else None)
      else None)"

subsection \<open>Links\<close>

record vxlan_link =
  lName :: string
  lIndex :: int
  HardwareAddr :: "byte list"
  lMTU :: int
  VxlanId :: int
  VtepDevIndex :: int
  SrcAddr :: IP
  Group :: IP
  L2miss :: bool
  Port :: int
  GBP :: bool

datatype link = VxlanLink vxlan_link | OtherLink string int

datatype neigh_kind = ARP | FDB

record 'w netlink =
  link_add :: "vxlan_link \<Rightarrow> ('w, int) io"
  link_by_name :: "string \<Rightarrow> ('w, link) io"
  link_by_index :: "int \<Rightarrow> ('w, link) io"
  link_del :: "link \<Rightarrow> ('w, unit) io"
  link_up :: "int \<Rightarrow> ('w, unit) io"
  addr_list :: "int \<Rightarrow> bool \<Rightarrow> ('w, IPNet list) io"
  addr_del :: "int \<Rightarrow> IPNet \<Rightarrow> ('w, unit) io"
  addr_add :: "int \<Rightarrow> IPNet \<Rightarrow> ('w, unit) io"
  neigh_set :: "neigh_kind \<Rightarrow> int \<Rightarrow> IP \<Rightarrow> byte list \<Rightarrow> ('w, unit) io"
  neigh_del :: "neigh_kind \<Rightarrow> int \<Rightarrow> IP \<Rightarrow> byte list \<Rightarrow> ('w, unit) io"
  route_replace :: "int \<Rightarrow> IPNet option \<Rightarrow> IP \<Rightarrow> ('w, unit) io"
  route_del :: "int \<Rightarrow> IPNet option \<Rightarrow> IP \<Rightarrow> ('w, unit) io"
  rand_bytes :: "nat \<Rightarrow> ('w, byte list) io"

record VxlanDeviceAttrs =
  Vni :: nat
  aName :: string
  aMTU :: int
  VtepIndex :: int
  VtepAddr :: IP
  VtepPort :: int
  HwAddr :: "byte list option"

definition newHardwareAddr :: "'w netlink \<Rightarrow> ('w, byte list) io" where
  "newHardwareAddr L =
     bindE (mapErr (\<lambda>e. Plain (''could not generate random MAC address: '' @ err_text e)) (rand_bytes L 6)) (\<lambda>bs.
     case bs of [] \<Rightarrow> fail (Panic ''index out of range [0]'')
     | b # rest \<Rightarrow> ret (((b AND 0xfe) OR 0x02) # rest))"

definition link_type :: "link \<Rightarrow> string" where
  "link_type l = (case l of VxlanLink _ \<Rightarrow> ''vxlan'' | OtherLink t _ \<Rightarrow> t)"

definition vs :: "string \<Rightarrow> string \<Rightarrow> string \<Rightarrow> string" where
  "vs what a b = what @ '': '' @ a @ '' vs '' @ b"

definition vxlanLinksIncompat :: "vxlan_link \<Rightarrow> link \<Rightarrow> string" where
  "vxlanLinksIncompat v1 l2 =
     (case l2 of OtherLink t i \<Rightarrow> (if t = ''vxlan'' then [] else vs ''link type'' ''vxlan'' t)
      | VxlanLink v2 \<Rightarrow>
        (if VxlanId v1 \<noteq> VxlanId v2 then vs ''vni'' (itoa (VxlanId v1)) (itoa (VxlanId v2))
         else if VtepDevIndex v1 > 0 \<and> VtepDevIndex v2 > 0 \<and> VtepDevIndex v1 \<noteq> VtepDevIndex v2
           then vs ''vtep (external) interface'' (itoa (VtepDevIndex v1)) (itoa (VtepDevIndex v2))
         else if SrcAddr v1 \<noteq> [] \<and> SrcAddr v2 \<noteq> [] \<and> \<not> IP_Equal (SrcAddr v1) (SrcAddr v2)
           then vs ''vtep (external) IP'' (IP_String (SrcAddr v1)) (IP_String (SrcAddr v2))
         else if Group v1 \<noteq> [] \<and> Group v2 \<noteq> [] \<and> \<not> IP_Equal (Group v1) (Group v2)
           then vs ''group address'' (IP_String (Group v1)) (IP_String (Group v2))
         else if L2miss v1 \<noteq> L2miss v2 then vs ''l2miss'' (fmt_bool (L2miss v1)) (fmt_bool (L2miss v2))
         else if Port v1 > 0 \<and> Port v2 > 0 \<and> Port v1 \<noteq> Port v2 then vs ''port'' (itoa (Port v1)) (itoa (Port v2))
         else if GBP v1 \<noteq> GBP v2 then vs ''gbp'' (fmt_bool (GBP v1)) (fmt_bool (GBP v2))
         else []))"

definition as_vxlan :: "link \<Rightarrow> vxlan_link option" where
  "as_vxlan l = (case l of VxlanLink v \<Rightarrow> Some v | OtherLink _ _ \<Rightarrow> None)"

text \<open>After an \<open>add\<close> that worked the link is read back by the index it got.\<close>

definition read_back :: "'w netlink \<Rightarrow> int \<Rightarrow> ('w, vxlan_link) io" where
  "read_back L ifindex =
     tryE (link_by_index L ifindex)
       (\<lambda>_. fail (Plain (''can't locate created vxlan device with index '' @ itoa ifindex)))
       (\<lambda>l. case as_vxlan l of Some v \<Rightarrow> ret v
          | None \<Rightarrow> fail (Plain (''created vxlan device with index '' @ itoa ifindex @ '' is not vxlan'')))"

definition ensureLink :: "'w netlink \<Rightarrow> vxlan_link \<Rightarrow> ('w, vxlan_link) io" where
  "ensureLink L vxlan =
     tryE (link_add L vxlan)
       (\<lambda>err. if IsExist err then
          bindE (link_by_name L (lName vxlan)) (\<lambda>existing.
          let incompat = vxlanLinksIncompat vxlan existing in
          if incompat = [] then
            (case as_vxlan existing of Some v \<Rightarrow> ret v | None \<Rightarrow> fail (Panic ''interface conversion''))
          else
            bindE (mapErr (\<lambda>e. Plain (''failed to delete interface: '' @ err_text e)) (link_del L existing)) (\<lambda>_.
            bindE (mapErr (\<lambda>e. Plain (''failed to create vxlan interface: '' @ err_text e)) (link_add L vxlan)) (\<lambda>i.
            read_back L i)))
        else fail err)
       (\<lambda>i. read_back L i)"

definition NewVXLANDevice :: "'w netlink \<Rightarrow> VxlanDeviceAttrs \<Rightarrow> ('w, vxlan_link) io" where
  "NewVXLANDevice L a =
     bindE (case HwAddr a of Some hw \<Rightarrow> ret hw | None \<Rightarrow> newHardwareAddr L) (\<lambda>hw.
     ensureLink L \<lparr>lName = aName a, lIndex = 0, HardwareAddr = hw, lMTU = aMTU a - 50, VxlanId = int (Vni a),
       VtepDevIndex = VtepIndex a, SrcAddr = VtepAddr a, Group = [], L2miss = False, Port = VtepPort a, GBP = False\<rparr>)"

subsection \<open>Addresses (iface.go)\<close>

text \<open>The addresses of the link as the list read before the loop; \<open>Addr.Equal\<close> of the library
  compares address and length. The test in the loop is about the wanted address, not about the
  one that is deleted.\<close>

definition addr_equal :: "IPNet \<Rightarrow> IPNet \<Rightarrow> bool" where
  "addr_equal a b \<longleftrightarrow> simpleMaskLength (netMask a) = simpleMaskLength (netMask b) \<and> IP_Equal (netIP a) (netIP b)"

primrec ensure_v4_loop :: "'w netlink \<Rightarrow> int \<Rightarrow> string \<Rightarrow> IPNet \<Rightarrow> IPNet \<Rightarrow> IPNet list \<Rightarrow> bool \<Rightarrow> ('w, bool) io" where
  "ensure_v4_loop L idx name ipa ipn [] hasAddr = ret hasAddr"
| "ensure_v4_loop L idx name ipa ipn (x # xs) hasAddr =
     (if addr_equal x ipa then ensure_v4_loop L idx name ipa ipn xs True
      else if Contains_ip ipn (netIP ipa) then
        bindE (mapErr (\<lambda>e. Plain (''failed to remove IP address '' @ IPNet_String (Some x) @ '' from '' @ name @ '': '' @ err_text e))
          (addr_del L idx x)) (\<lambda>_. ensure_v4_loop L idx name ipa ipn xs hasAddr)
      else ensure_v4_loop L idx name ipa ipn xs hasAddr)"

definition EnsureV4AddressOnLink :: "'w netlink \<Rightarrow> IPNet \<Rightarrow> IPNet \<Rightarrow> vxlan_link \<Rightarrow> ('w, unit) io" where
  "EnsureV4AddressOnLink L ipa ipn l =
     bindE (addr_list L (lIndex l) False) (\<lambda>existingAddrs.
     bindE (ensure_v4_loop L (lIndex l) (lName l) ipa ipn existingAddrs False) (\<lambda>hasAddr.
     if hasAddr then ret ()
     else mapErr (\<lambda>e. Plain (''failed to add IP address '' @ IPNet_String (Some ipa) @ '' to '' @ lName l @ '': '' @ err_text e))
       (addr_add L (lIndex l) ipa)))"

definition IsLinkLocalUnicast :: "IP \<Rightarrow> bool" where
  "IsLinkLocalUnicast ip = (case To4 ip of
      Some ip4 \<Rightarrow> ip4 ! 0 = 169 \<and> ip4 ! 1 = 254
    | None \<Rightarrow> length ip = 16 \<and> ip ! 0 = 0xfe \<and> (ip ! 1) AND 0xc0 = 0x80)"

primrec ensure_v6_loop :: "'w netlink \<Rightarrow> int \<Rightarrow> string \<Rightarrow> IPNet \<Rightarrow> IPNet \<Rightarrow> IPNet list \<Rightarrow> ('w, bool) io" where
  "ensure_v6_loop L idx name ipa ipn [] = ret True"
| "ensure_v6_loop L idx name ipa ipn (x # xs) =
     (if IsLinkLocalUnicast (netIP x) then ensure_v6_loop L idx name ipa ipn xs
      else if \<not> addr_equal x ipa \<and> Contains_ip ipn (as16 (netIP ipa)) then
        bindE (mapErr (\<lambda>e. Plain (''failed to remove v6 IP address '' @ IPNet_String (Some ipn) @ '' from '' @ name @ '': '' @ err_text e))
          (addr_del L idx x)) (\<lambda>_. ensure_v6_loop L idx name ipa ipn xs)
      else ret False)"

definition EnsureV6AddressOnLink :: "'w netlink \<Rightarrow> IPNet \<Rightarrow> IPNet \<Rightarrow> vxlan_link \<Rightarrow> ('w, unit) io" where
  "EnsureV6AddressOnLink L ipa ipn l =
     bindE (addr_list L (lIndex l) True) (\<lambda>existingAddrs.
     bindE (ensure_v6_loop L (lIndex l) (lName l) ipa ipn existingAddrs) (\<lambda>add.
     if \<not> add then ret ()
     else mapErr (\<lambda>e. Plain (''failed to add v6 IP address '' @ IPNet_String (Some ipn) @ '' to '' @ lName l @ '': '' @ err_text e))
       (addr_add L (lIndex l) ipa)))"

text \<open>\<open>Configure\<close> and \<open>ConfigureIPv6\<close>; an error of the look-up at the end is ignored.\<close>

definition finish_configure :: "'w netlink \<Rightarrow> string \<Rightarrow> vxlan_link \<Rightarrow> ('w, unit) io" where
  "finish_configure L v dev =
     bindE (mapErr (\<lambda>e. Plain (''failed to set '' @ v @ ''interface '' @ lName dev @ '' to UP state: '' @ err_text e))
       (link_up L (lIndex dev))) (\<lambda>_.
     tryE (link_by_name L (lName dev)) (\<lambda>_. ret ()) (\<lambda>nLink.
     case as_vxlan nLink of
       Some dev2 \<Rightarrow> if mac_String (HardwareAddr dev2) \<noteq> mac_String (HardwareAddr dev)
         then fail (Plain (lName dev @ CHR 0x27 # ''s '' @ v @ ''mac address wanted: '' @ mac_String (HardwareAddr dev) @
           '', but got: '' @ mac_String (HardwareAddr dev2))) else ret ()
     | None \<Rightarrow> ret ()))"

definition Configure :: "'w netlink \<Rightarrow> vxlan_link \<Rightarrow> IPNet \<Rightarrow> IPNet \<Rightarrow> ('w, unit) io" where
  "Configure L dev ipa ipn =
     bindE (mapErr (\<lambda>e. Plain (''failed to ensure address of interface '' @ lName dev @ '': '' @ err_text e))
       (EnsureV4AddressOnLink L ipa ipn dev)) (\<lambda>_. finish_configure L [] dev)"

definition ConfigureIPv6 :: "'w netlink \<Rightarrow> vxlan_link \<Rightarrow> IPNet \<Rightarrow> IPNet \<Rightarrow> ('w, unit) io" where
  "ConfigureIPv6 L dev ipa ipn =
     bindE (mapErr (\<lambda>e. Plain (''failed to ensure v6 address of interface '' @ lName dev @ '': '' @ err_text e))
       (EnsureV6AddressOnLink L ipa ipn dev)) (\<lambda>_. finish_configure L ''v6 '' dev)"

subsection \<open>Peers\<close>

text \<open>The functions for IPv6 differ in the field of the neighbour only, which is an argument here.\<close>

definition AddFDB :: "'w netlink \<Rightarrow> vxlan_link \<Rightarrow> IP \<Rightarrow> byte list \<Rightarrow> ('w, unit) io" where
  "AddFDB L dev ip mac = neigh_set L FDB (lIndex dev) ip mac"

definition AddV6FDB :: "'w netlink \<Rightarrow> vxlan_link \<Rightarrow> IP \<Rightarrow> byte list \<Rightarrow> ('w, unit) io" where
  "AddV6FDB L dev ip mac = neigh_set L FDB (lIndex dev) ip mac"

definition DelFDB :: "'w netlink \<Rightarrow> vxlan_link \<Rightarrow> IP \<Rightarrow> byte list \<Rightarrow> ('w, unit) io" where
  "DelFDB L dev ip mac = neigh_del L FDB (lIndex dev) ip mac"

definition DelV6FDB :: "'w netlink \<Rightarrow> vxlan_link \<Rightarrow> IP \<Rightarrow> byte list \<Rightarrow> ('w, unit) io" where
  "DelV6FDB L dev ip mac = neigh_del L FDB (lIndex dev) ip mac"

definition AddARP :: "'w netlink \<Rightarrow> vxlan_link \<Rightarrow> IP \<Rightarrow> byte list \<Rightarrow> ('w, unit) io" where
  "AddARP L dev ip mac = neigh_set L ARP (lIndex dev) ip mac"

definition AddV6ARP :: "'w netlink \<Rightarrow> vxlan_link \<Rightarrow> IP \<Rightarrow> byte list \<Rightarrow> ('w, unit) io" where
  "AddV6ARP L dev ip mac = neigh_set L ARP (lIndex dev) ip mac"

definition DelARP :: "'w netlink \<Rightarrow> vxlan_link \<Rightarrow> IP \<Rightarrow> byte list \<Rightarrow> ('w, unit) io" where
  "DelARP L dev ip mac = neigh_del L ARP (lIndex dev) ip mac"

definition DelV6ARP :: "'w netlink \<Rightarrow> vxlan_link \<Rightarrow> IP \<Rightarrow> byte list \<Rightarrow> ('w, unit) io" where
  "DelV6ARP L dev ip mac = neigh_del L ARP (lIndex dev) ip mac"

definition ConfigurePeer :: "'w netlink \<Rightarrow> vxlan_link \<Rightarrow> IP \<Rightarrow> byte list \<Rightarrow> IP \<Rightarrow> IPNet option \<Rightarrow> ('w, unit) io" where
  "ConfigurePeer L dev vxlanAddr vxlanMac deviceAddr dst =
     bindE (Retry (AddARP L dev vxlanAddr vxlanMac)) (\<lambda>_.
     tryE (Retry (AddFDB L dev deviceAddr vxlanMac))
       (\<lambda>err. tryE (Retry (DelARP L dev vxlanAddr vxlanMac)) (\<lambda>_. fail err) (\<lambda>_. fail err))
       (\<lambda>_. tryE (Retry (route_replace L (lIndex dev) dst vxlanAddr))
          (\<lambda>err. tryE (DelARP L dev vxlanAddr vxlanMac)
             (\<lambda>_. tryE (DelFDB L dev deviceAddr vxlanMac) (\<lambda>_. fail err) (\<lambda>_. fail err))
             (\<lambda>_. tryE (DelFDB L dev deviceAddr vxlanMac) (\<lambda>_. fail err) (\<lambda>_. fail err)))
          ret))"

text \<open>All three are tried; the library's wording of the error that joins the errors is left out.\<close>

definition collect :: "('w, unit) io \<Rightarrow> string list \<Rightarrow> ('w, string list) io" where
  "collect m errs = tryE m (\<lambda>e. ret (errs @ [err_text e])) (\<lambda>_. ret errs)"

definition RemovePeer :: "'w netlink \<Rightarrow> vxlan_link \<Rightarrow> IP \<Rightarrow> byte list \<Rightarrow> IP \<Rightarrow> IPNet option \<Rightarrow> ('w, unit) io" where
  "RemovePeer L dev vxlanAddr vxlanMac deviceAddr dst =
     bindE (collect (Retry (DelARP L dev vxlanAddr vxlanMac)) []) (\<lambda>e1.
     bindE (collect (Retry (DelFDB L dev deviceAddr vxlanMac)) e1) (\<lambda>e2.
     bindE (collect (Retry (route_del L (lIndex dev) dst vxlanAddr)) e2) (\<lambda>e3.
     if e3 = [] then ret () else fail (Plain (join_with '', '' e3)))))"

end
