(* ===== verification/CniDevicesProps.thy ===== *)
theory CniDevicesProps
  imports CniDevices
begin

section \<open>simplecni: properties of links, addresses and peers\<close>

text \<open>
  The kernel's state as maps: neighbour entries, routes and the addresses of a link. \<open>kernel_ok\<close>
  is the documented behaviour of the netlink calls: setting an entry replaces what was there,
  deleting one that is not there is an error. \<open>never\<close> is a call that always fails and changes
  nothing.
\<close>

record netstate =
  arps :: "int \<times> IP \<rightharpoonup> byte list"
  fdbs :: "int \<times> byte list \<rightharpoonup> IP"
  routes :: "IPNet option \<rightharpoonup> int \<times> IP"
  addrs :: "int \<Rightarrow> IPNet list"

definition set_arp :: "int \<Rightarrow> IP \<Rightarrow> byte list option \<Rightarrow> netstate \<Rightarrow> netstate" where
  "set_arp i ip m s = s\<lparr>arps := (arps s)((i, ip) := m)\<rparr>"

definition set_fdb :: "int \<Rightarrow> byte list \<Rightarrow> IP option \<Rightarrow> netstate \<Rightarrow> netstate" where
  "set_fdb i mac ip s = s\<lparr>fdbs := (fdbs s)((i, mac) := ip)\<rparr>"

definition set_route :: "IPNet option \<Rightarrow> (int \<times> IP) option \<Rightarrow> netstate \<Rightarrow> netstate" where
  "set_route d r s = s\<lparr>routes := (routes s)(d := r)\<rparr>"

definition sets :: "('w \<Rightarrow> 's) \<Rightarrow> ('w, unit) io \<Rightarrow> ('s \<Rightarrow> 's) \<Rightarrow> bool" where
  "sets V m f \<longleftrightarrow> (\<forall>w. \<exists>w'. m w = (Inr (), w') \<and> V w' = f (V w))"

definition deletes :: "('w \<Rightarrow> 's) \<Rightarrow> ('w, unit) io \<Rightarrow> ('s \<Rightarrow> bool) \<Rightarrow> ('s \<Rightarrow> 's) \<Rightarrow> bool" where
  "deletes V m P f \<longleftrightarrow> (\<forall>w. \<exists>r w'. m w = (r, w') \<and>
     (if P (V w) then r = Inr () \<and> V w' = f (V w) else (\<exists>e. r = Inl (Plain e)) \<and> V w' = V w))"

definition never :: "('w \<Rightarrow> 's) \<Rightarrow> ('w, unit) io \<Rightarrow> bool" where
  "never V m \<longleftrightarrow> (\<forall>w. \<exists>e w'. m w = (Inl (Plain e), w') \<and> V w' = V w)"

definition kernel_deletes :: "'w netlink \<Rightarrow> ('w \<Rightarrow> netstate) \<Rightarrow> bool" where
  "kernel_deletes L V \<longleftrightarrow>
     (\<forall>i ip m. deletes V (neigh_del L ARP i ip m) (\<lambda>s. arps s (i, ip) \<noteq> None) (set_arp i ip None)) \<and>
     (\<forall>i ip m. deletes V (neigh_del L FDB i ip m) (\<lambda>s. fdbs s (i, m) \<noteq> None) (set_fdb i m None)) \<and>
     (\<forall>i d g. deletes V (route_del L i d g) (\<lambda>s. routes s d \<noteq> None) (set_route d None))"

definition kernel_sets :: "'w netlink \<Rightarrow> ('w \<Rightarrow> netstate) \<Rightarrow> bool" where
  "kernel_sets L V \<longleftrightarrow>
     (\<forall>i ip m. sets V (neigh_set L ARP i ip m) (set_arp i ip (Some m))) \<and>
     (\<forall>i ip m. sets V (neigh_set L FDB i ip m) (set_fdb i m (Some ip))) \<and>
     (\<forall>i d g. sets V (route_replace L i d g) (set_route d (Some (i, g))))"

lemma deletes_absent:
  assumes "deletes V f P g" "\<not> P (V w)"
  obtains e w1 where "f w = (Inl (Plain e), w1)" "V w1 = V w"
proof -
  obtain r w1 where "f w = (r, w1) \<and> (if P (V w) then r = Inr () \<and> V w1 = g (V w) else (\<exists>e. r = Inl (Plain e)) \<and> V w1 = V w)"
    using assms(1) unfolding deletes_def by blast
  then show thesis using assms(2) that by auto
qed

lemma deletes_present:
  assumes "deletes V f P g" "P (V w)"
  obtains w1 where "f w = (Inr (), w1)" "V w1 = g (V w)"
proof -
  obtain r w1 where "f w = (r, w1) \<and> (if P (V w) then r = Inr () \<and> V w1 = g (V w) else (\<exists>e. r = Inl (Plain e)) \<and> V w1 = V w)"
    using assms(1) unfolding deletes_def by blast
  then show thesis using assms(2) that by auto
qed

lemma sets_run:
  assumes "sets V f g"
  obtains w1 where "f w = (Inr (), w1)" "V w1 = g (V w)"
  using assms unfolding sets_def by blast

lemma never_run:
  assumes "never V f"
  obtains e w1 where "f w = (Inl (Plain e), w1)" "V w1 = V w"
  using assms unfolding never_def by blast

subsection \<open>Retrying\<close>

lemma mapErr_ok: "m w = (Inr x, w') \<Longrightarrow> mapErr g m w = (Inr x, w')"
  by (simp add: mapErr_def io_simps)

lemma retry_Suc: "f w = (Inr x, w') \<Longrightarrow> retry_n (Suc n) errs f w = (Inr x, w')"
  by (simp add: io_simps)

lemma Retry_ok: "f w = (Inr x, w') \<Longrightarrow> Retry f w = (Inr x, w')"
  using retry_Suc [of f w x w' 9 "[]"] by (simp add: Retry_def numeral_eq_Suc)

lemma retry_never: "never V f \<Longrightarrow> \<exists>e w'. retry_n n errs f w = (Inl (Plain e), w') \<and> V w' = V w"
proof (induction n arbitrary: errs w)
  case (Suc n)
  obtain e w1 where "f w = (Inl (Plain e), w1)" "V w1 = V w" using never_run [OF Suc(2)] .
  then show ?case using Suc(1) [OF Suc(2), of "errs @ [e]" w1] by (simp add: io_simps)
qed simp

lemma Retry_never: "never V f \<Longrightarrow> never V (Retry f)"
  using retry_never [of V f 10 "[]"] unfolding Retry_def never_def [of V "retry_n 10 [] f"] by simp

lemma Retry_sets: "sets V f g \<Longrightarrow> sets V (Retry f) g"
  unfolding sets_def [of V "Retry f"]
proof
  fix w assume "sets V f g"
  then obtain w' where "f w = (Inr (), w')" "V w' = g (V w)" unfolding sets_def by blast
  then show "\<exists>w'. Retry f w = (Inr (), w') \<and> V w' = g (V w)" using Retry_ok [of f w "()" w'] by simp
qed

text \<open>Deleting something that is not there fails every time.\<close>

lemma retry_deletes_absent: "deletes V f P g \<Longrightarrow> \<not> P (V w) \<Longrightarrow> \<exists>e w'. retry_n n errs f w = (Inl (Plain e), w') \<and> V w' = V w"
proof (induction n arbitrary: errs w)
  case (Suc n)
  obtain e w1 where "f w = (Inl (Plain e), w1)" "V w1 = V w" using deletes_absent [OF Suc(2,3)] .
  then show ?case using Suc(1) [of w1 "errs @ [e]"] Suc(2,3) by (simp add: io_simps)
qed simp

lemma Retry_deletes: "deletes V f P g \<Longrightarrow> deletes V (Retry f) P g"
  unfolding deletes_def [of V "Retry f"]
proof
  fix w assume d: "deletes V f P g"
  show "\<exists>r w'. Retry f w = (r, w') \<and> (if P (V w) then r = Inr () \<and> V w' = g (V w) else (\<exists>e. r = Inl (Plain e)) \<and> V w' = V w)"
  proof (cases "P (V w)")
    case True
    then obtain w' where "f w = (Inr (), w')" "V w' = g (V w)" using deletes_present [of V f P g w] d by blast
    then show ?thesis using Retry_ok [of f w "()" w'] True by auto
  next
    case False
    obtain e w' where "retry_n 10 [] f w = (Inl (Plain e), w')" "V w' = V w"
      using retry_deletes_absent [OF d False, of 10 "[]"] by blast
    then show ?thesis using False unfolding Retry_def by auto
  qed
qed

subsection \<open>Peers\<close>

definition with_peer :: "int \<Rightarrow> IP \<Rightarrow> byte list \<Rightarrow> IP \<Rightarrow> IPNet option \<Rightarrow> netstate \<Rightarrow> netstate" where
  "with_peer i vip mac dip dst s = set_route dst (Some (i, vip)) (set_fdb i mac (Some dip) (set_arp i vip (Some mac) s))"

definition without_peer :: "int \<Rightarrow> IP \<Rightarrow> byte list \<Rightarrow> IPNet option \<Rightarrow> netstate \<Rightarrow> netstate" where
  "without_peer i vip mac dst s = set_route dst None (set_fdb i mac None (set_arp i vip None s))"

lemmas peer_defs = with_peer_def without_peer_def set_arp_def set_fdb_def set_route_def

lemma collect_deletes:
  assumes "deletes V f P g"
  shows "\<exists>errs' w'. collect f errs w = (Inr errs', w') \<and>
    (if P (V w) then errs' = errs \<and> V w' = g (V w) else errs' \<noteq> [] \<and> V w' = V w)"
proof -
  obtain r w1 where "f w = (r, w1)"
      "if P (V w) then r = Inr () \<and> V w1 = g (V w) else (\<exists>e. r = Inl (Plain e)) \<and> V w1 = V w"
    using assms unfolding deletes_def by blast
  then show ?thesis by (auto simp: collect_def io_simps split: if_splits)
qed

lemma remove_peer_run:
  assumes "kernel_deletes L V"
  shows "\<exists>r w'. RemovePeer L dev vip mac dip dst w = (r, w') \<and> V w' = without_peer (lIndex dev) vip mac dst (V w) \<and>
    (r = Inr () \<longleftrightarrow> arps (V w) (lIndex dev, vip) \<noteq> None \<and> fdbs (V w) (lIndex dev, mac) \<noteq> None \<and> routes (V w) dst \<noteq> None)"
proof -
  let ?i = "lIndex dev"
  have d: "deletes V (Retry (DelARP L dev vip mac)) (\<lambda>s. arps s (?i, vip) \<noteq> None) (set_arp ?i vip None)"
    "deletes V (Retry (DelFDB L dev dip mac)) (\<lambda>s. fdbs s (?i, mac) \<noteq> None) (set_fdb ?i mac None)"
    "deletes V (Retry (route_del L ?i dst vip)) (\<lambda>s. routes s dst \<noteq> None) (set_route dst None)"
    using assms Retry_deletes unfolding kernel_deletes_def DelARP_def DelFDB_def by blast+
  obtain e1 w1 where w1: "collect (Retry (DelARP L dev vip mac)) [] w = (Inr e1, w1)"
      "if arps (V w) (?i, vip) \<noteq> None then e1 = [] \<and> V w1 = set_arp ?i vip None (V w) else e1 \<noteq> [] \<and> V w1 = V w"
    using collect_deletes [OF d(1)] by blast
  obtain e2 w2 where w2: "collect (Retry (DelFDB L dev dip mac)) e1 w1 = (Inr e2, w2)"
      "if fdbs (V w1) (?i, mac) \<noteq> None then e2 = e1 \<and> V w2 = set_fdb ?i mac None (V w1) else e2 \<noteq> [] \<and> V w2 = V w1"
    using collect_deletes [OF d(2)] by blast
  obtain e3 w3 where w3: "collect (Retry (route_del L ?i dst vip)) e2 w2 = (Inr e3, w3)"
      "if routes (V w2) dst \<noteq> None then e3 = e2 \<and> V w3 = set_route dst None (V w2) else e3 \<noteq> [] \<and> V w3 = V w2"
    using collect_deletes [OF d(3)] by blast
  have v1: "V w1 = set_arp ?i vip None (V w)"
    using w1(2) by (cases "arps (V w) (?i, vip)") (auto simp: set_arp_def fun_upd_idem)
  have v2: "V w2 = set_fdb ?i mac None (V w1)"
    using w2(2) by (cases "fdbs (V w1) (?i, mac)") (auto simp: set_fdb_def fun_upd_idem)
  have v3: "V w3 = set_route dst None (V w2)"
    using w3(2) by (cases "routes (V w2) dst") (auto simp: set_route_def fun_upd_idem)
  have "e3 = [] \<longleftrightarrow> arps (V w) (?i, vip) \<noteq> None \<and> fdbs (V w) (?i, mac) \<noteq> None \<and> routes (V w) dst \<noteq> None"
    using w1(2) w2(2) w3(2) v1 v2 by (auto simp: set_arp_def set_fdb_def split: if_splits)
  then show ?thesis using w1(1) w2(1) w3(1) v1 v2 v3
    by (auto simp: RemovePeer_def io_simps without_peer_def)
qed

lemma configure_peer_run:
  assumes "kernel_sets L V"
  shows "\<exists>w'. ConfigurePeer L dev vip mac dip dst w = (Inr (), w') \<and> V w' = with_peer (lIndex dev) vip mac dip dst (V w)"
proof -
  let ?i = "lIndex dev"
  have s: "sets V (Retry (AddARP L dev vip mac)) (set_arp ?i vip (Some mac))"
    "sets V (Retry (AddFDB L dev dip mac)) (set_fdb ?i mac (Some dip))"
    "sets V (Retry (route_replace L ?i dst vip)) (set_route dst (Some (?i, vip)))"
    using assms Retry_sets unfolding kernel_sets_def AddARP_def AddFDB_def by blast+
  obtain w1 where w1: "Retry (AddARP L dev vip mac) w = (Inr (), w1)" "V w1 = set_arp ?i vip (Some mac) (V w)"
    using sets_run [OF s(1)] .
  obtain w2 where w2: "Retry (AddFDB L dev dip mac) w1 = (Inr (), w2)" "V w2 = set_fdb ?i mac (Some dip) (V w1)"
    using sets_run [OF s(2)] .
  obtain w3 where w3: "Retry (route_replace L ?i dst vip) w2 = (Inr (), w3)" "V w3 = set_route dst (Some (?i, vip)) (V w2)"
    using sets_run [OF s(3)] .
  show ?thesis using w1 w2 w3 by (simp add: ConfigurePeer_def io_simps with_peer_def)
qed

text \<open>C19. A peer that was configured can be removed: \<open>ConfigurePeer\<close> succeeds and installs the
  neighbour entry, the forwarding entry and the route of the peer and nothing else; \<open>RemovePeer\<close> then
  succeeds and takes exactly these away; a second \<open>RemovePeer\<close> changes nothing and reports an error.\<close>

theorem configure_then_remove:
  assumes "kernel_sets L V" and "kernel_deletes L V"
  shows "\<exists>w1 w2 w3 e. ConfigurePeer L dev vip mac dip dst w = (Inr (), w1)
    \<and> V w1 = with_peer (lIndex dev) vip mac dip dst (V w)
    \<and> RemovePeer L dev vip mac dip dst w1 = (Inr (), w2) \<and> V w2 = without_peer (lIndex dev) vip mac dst (V w)
    \<and> RemovePeer L dev vip mac dip dst w2 = (Inl e, w3) \<and> V w3 = V w2"
proof -
  obtain w1 where w1: "ConfigurePeer L dev vip mac dip dst w = (Inr (), w1)"
      "V w1 = with_peer (lIndex dev) vip mac dip dst (V w)" using configure_peer_run [OF assms(1)] by blast
  obtain r w2 where w2: "RemovePeer L dev vip mac dip dst w1 = (r, w2)" "V w2 = without_peer (lIndex dev) vip mac dst (V w1)"
      "r = Inr () \<longleftrightarrow> arps (V w1) (lIndex dev, vip) \<noteq> None \<and> fdbs (V w1) (lIndex dev, mac) \<noteq> None \<and> routes (V w1) dst \<noteq> None"
    using remove_peer_run [OF assms(2)] by blast
  obtain r3 w3 where w3: "RemovePeer L dev vip mac dip dst w2 = (r3, w3)" "V w3 = without_peer (lIndex dev) vip mac dst (V w2)"
      "r3 = Inr () \<longleftrightarrow> arps (V w2) (lIndex dev, vip) \<noteq> None \<and> fdbs (V w2) (lIndex dev, mac) \<noteq> None \<and> routes (V w2) dst \<noteq> None"
    using remove_peer_run [OF assms(2)] by blast
  have r: "r = Inr ()" using w2(3) w1(2) by (simp add: peer_defs)
  have v2: "V w2 = without_peer (lIndex dev) vip mac dst (V w)" using w2(2) w1(2) by (simp add: peer_defs)
  have "r3 \<noteq> Inr ()" using w3(3) v2 by (simp add: peer_defs)
  then obtain e where e: "r3 = Inl e" by (cases r3) auto
  have "V w3 = V w2" using w3(2) v2 by (simp add: peer_defs)
  then show ?thesis using w1 w2(1) w3(1) r v2 e by blast
qed

text \<open>When the forwarding entry or the route cannot be set, whatever the number of attempts,
  \<open>ConfigurePeer\<close> reports an error and rolls back: a peer of which nothing was there before leaves nothing behind,
  but entries that were there before (a peer that is updated) are deleted, not restored.\<close>

theorem configure_peer_rolls_back:
  assumes "kernel_deletes L V"
    and "sets V (neigh_set L ARP (lIndex dev) vip mac) (set_arp (lIndex dev) vip (Some mac))"
    and "if fdb_works then sets V (neigh_set L FDB (lIndex dev) dip mac) (set_fdb (lIndex dev) mac (Some dip))
           \<and> never V (route_replace L (lIndex dev) dst vip)
         else never V (neigh_set L FDB (lIndex dev) dip mac)"
  shows "\<exists>e w'. ConfigurePeer L dev vip mac dip dst w = (Inl e, w')
    \<and> V w' = set_arp (lIndex dev) vip None (if fdb_works then set_fdb (lIndex dev) mac None (V w) else V w)
    \<and> (arps (V w) (lIndex dev, vip) = None \<and> fdbs (V w) (lIndex dev, mac) = None \<longrightarrow> V w' = V w)"
proof -
  let ?i = "lIndex dev"
  have d: "deletes V (DelARP L dev vip mac) (\<lambda>s. arps s (?i, vip) \<noteq> None) (set_arp ?i vip None)"
    "deletes V (DelFDB L dev dip mac) (\<lambda>s. fdbs s (?i, mac) \<noteq> None) (set_fdb ?i mac None)"
    using assms(1) unfolding kernel_deletes_def DelARP_def DelFDB_def by blast+
  have s1: "sets V (Retry (AddARP L dev vip mac)) (set_arp ?i vip (Some mac))"
    using assms(2) Retry_sets unfolding AddARP_def AddFDB_def by blast
  obtain w1 where w1: "Retry (AddARP L dev vip mac) w = (Inr (), w1)" "V w1 = set_arp ?i vip (Some mac) (V w)"
    using sets_run [OF s1] .
  show ?thesis
  proof (cases fdb_works)
    case False
    then have n: "never V (Retry (AddFDB L dev dip mac))" using assms(3) Retry_never unfolding AddARP_def AddFDB_def by auto
    obtain e w2 where w2: "Retry (AddFDB L dev dip mac) w1 = (Inl (Plain e), w2)" "V w2 = V w1" using never_run [OF n] .
    have "arps (V w2) (?i, vip) \<noteq> None" using w1(2) w2(2) by (simp add: set_arp_def)
    then obtain w3 where "Retry (DelARP L dev vip mac) w2 = (Inr (), w3)" "V w3 = set_arp ?i vip None (V w2)"
      using deletes_present [OF Retry_deletes [OF d(1)]] by blast
    then show ?thesis using w1 w2 False by (auto simp: ConfigurePeer_def io_simps set_arp_def fun_upd_idem)
  next
    case True
    then have s2: "sets V (Retry (AddFDB L dev dip mac)) (set_fdb ?i mac (Some dip))"
      and n: "never V (Retry (route_replace L ?i dst vip))" using assms(3) Retry_never Retry_sets unfolding AddARP_def AddFDB_def by auto
    obtain w2 where w2: "Retry (AddFDB L dev dip mac) w1 = (Inr (), w2)" "V w2 = set_fdb ?i mac (Some dip) (V w1)"
      using sets_run [OF s2] .
    obtain e w3 where w3: "Retry (route_replace L ?i dst vip) w2 = (Inl (Plain e), w3)" "V w3 = V w2" using never_run [OF n] .
    have "arps (V w3) (?i, vip) \<noteq> None" using w1(2) w2(2) w3(2) by (simp add: set_arp_def set_fdb_def)
    then obtain w4 where w4: "DelARP L dev vip mac w3 = (Inr (), w4)" "V w4 = set_arp ?i vip None (V w3)"
      using deletes_present [OF d(1)] by blast
    have "fdbs (V w4) (?i, mac) \<noteq> None" using w2(2) w3(2) w4(2) by (simp add: set_arp_def set_fdb_def)
    then obtain w5 where w5: "DelFDB L dev dip mac w4 = (Inr (), w5)" "V w5 = set_fdb ?i mac None (V w4)"
      using deletes_present [OF d(2)] by blast
    have v: "V w5 = set_arp ?i vip None (set_fdb ?i mac None (V w))"
      using w1(2) w2(2) w3(2) w4(2) w5(2) by (simp add: set_arp_def set_fdb_def)
    have "ConfigurePeer L dev vip mac dip dst w = (Inl (Plain e), w5)"
      using w1(1) w2(1) w3(1) w4(1) w5(1) by (simp add: ConfigurePeer_def io_simps)
    then show ?thesis using v True by (auto simp: set_arp_def set_fdb_def fun_upd_idem)
  qed
qed

subsection \<open>The address of the device\<close>

definition set_addrs :: "int \<Rightarrow> (IPNet list \<Rightarrow> IPNet list) \<Rightarrow> netstate \<Rightarrow> netstate" where
  "set_addrs i f s = s\<lparr>addrs := (addrs s)(i := f (addrs s i))\<rparr>"

definition kernel_addrs :: "'w netlink \<Rightarrow> ('w \<Rightarrow> netstate) \<Rightarrow> bool" where
  "kernel_addrs L V \<longleftrightarrow>
     (\<forall>i v6 w. \<exists>w'. addr_list L i v6 w = (Inr (addrs (V w) i), w') \<and> V w' = V w) \<and>
     (\<forall>i x. deletes V (addr_del L i x) (\<lambda>s. x \<in> set (addrs s i)) (set_addrs i (filter (\<lambda>y. y \<noteq> x)))) \<and>
     (\<forall>i x. sets V (addr_add L i x) (set_addrs i (\<lambda>xs. xs @ [x])))"

lemma set_addrs_fuse [simp]: "set_addrs i f (set_addrs i g s) = set_addrs i (f \<circ> g) s"
  by (simp add: set_addrs_def)

lemma set_addrs_at [simp]: "addrs (set_addrs i f s) i = f (addrs s i)"
  by (simp add: set_addrs_def)

lemma set_addrs_cong: "f (addrs s i) = g (addrs s i) \<Longrightarrow> set_addrs i f s = set_addrs i g s"
  by (simp add: set_addrs_def)

lemma set_addrs_same: "f (addrs s i) = addrs s i \<Longrightarrow> set_addrs i f s = s"
  by (simp add: set_addrs_def)

lemma ensure_v4_loop_inside:
  assumes "kernel_addrs L V" "Contains_ip ipn (netIP ipa)" "distinct xs" "set xs \<subseteq> set (addrs (V w) i)"
  shows "\<exists>w'. ensure_v4_loop L i name ipa ipn xs b w = (Inr (b \<or> (\<exists>x\<in>set xs. addr_equal x ipa)), w')
    \<and> V w' = set_addrs i (filter (\<lambda>y. y \<in> set xs \<longrightarrow> addr_equal y ipa)) (V w)"
  using assms(3,4)
proof (induction xs arbitrary: b w)
  case Nil
  then show ?case by (simp add: io_simps set_addrs_same)
next
  case (Cons x xs)
  show ?case
  proof (cases "addr_equal x ipa")
    case True
    then have "filter (\<lambda>y. y \<in> set (x # xs) \<longrightarrow> addr_equal y ipa) = filter (\<lambda>y. y \<in> set xs \<longrightarrow> addr_equal y ipa)"
      by (intro ext filter_cong) auto
    then show ?thesis using Cons(1) [of w True] Cons(2,3) True by auto
  next
    case False
    have d: "deletes V (addr_del L i x) (\<lambda>s. x \<in> set (addrs s i)) (set_addrs i (filter (\<lambda>y. y \<noteq> x)))"
      using assms(1) unfolding kernel_addrs_def by blast
    have "x \<in> set (addrs (V w) i)" using Cons(3) by simp
    then obtain w1 where w1: "addr_del L i x w = (Inr (), w1)" "V w1 = set_addrs i (filter (\<lambda>y. y \<noteq> x)) (V w)"
      using deletes_present [OF d] by blast
    have "set xs \<subseteq> set (addrs (V w1) i)" using Cons(2,3) w1(2) by auto
    then obtain w2 where w2: "ensure_v4_loop L i name ipa ipn xs b w1 = (Inr (b \<or> (\<exists>x\<in>set xs. addr_equal x ipa)), w2)"
        "V w2 = set_addrs i (filter (\<lambda>y. y \<in> set xs \<longrightarrow> addr_equal y ipa)) (V w1)"
      using Cons(1) [of w1 b] Cons(2) by auto
    have "V w2 = set_addrs i (filter (\<lambda>y. y \<in> set (x # xs) \<longrightarrow> addr_equal y ipa)) (V w)"
      using w2(2) w1(2) False by (auto intro!: set_addrs_cong filter_cong)
    then show ?thesis using w1(1) w2(1) False assms(2) by (auto simp: io_simps mapErr_ok)
  qed
qed

lemma ensure_v4_loop_outside:
  "\<not> Contains_ip ipn (netIP ipa) \<Longrightarrow>
     ensure_v4_loop L i name ipa ipn xs b w = (Inr (b \<or> (\<exists>x\<in>set xs. addr_equal x ipa)), w)"
  by (induction xs arbitrary: b) (auto simp: io_simps)

text \<open>\<open>EnsureV4AddressOnLink\<close> leaves the wanted address on the link. When the wanted address lies in the given
  network, every other address is removed, also one outside of that network; when it does not,
  nothing is removed. (The comment of the function says that only addresses that are not the
  wanted one but lie in the network are removed.)\<close>

theorem ensure_v4_address:
  assumes "kernel_addrs L V" and "distinct (addrs (V w) (lIndex l))"
  shows "\<exists>w'. EnsureV4AddressOnLink L ipa ipn l w = (Inr (), w')
    \<and> V w' = set_addrs (lIndex l) (\<lambda>xs. (if Contains_ip ipn (netIP ipa) then filter (\<lambda>x. addr_equal x ipa) xs else xs)
        @ (if \<exists>x\<in>set xs. addr_equal x ipa then [] else [ipa])) (V w)"
proof -
  let ?i = "lIndex l" and ?C = "Contains_ip ipn (netIP ipa)"
  obtain w1 where w1: "addr_list L ?i False w = (Inr (addrs (V w) ?i), w1)" "V w1 = V w"
    using assms(1) unfolding kernel_addrs_def by blast
  have "\<exists>w2. ensure_v4_loop L ?i (lName l) ipa ipn (addrs (V w) ?i) False w1 = (Inr (\<exists>x\<in>set (addrs (V w) ?i). addr_equal x ipa), w2)
      \<and> V w2 = (if ?C then set_addrs ?i (filter (\<lambda>x. addr_equal x ipa)) (V w) else V w)"
  proof (cases ?C)
    case True
    have "set_addrs ?i (filter (\<lambda>y. y \<in> set (addrs (V w) ?i) \<longrightarrow> addr_equal y ipa)) (V w) = set_addrs ?i (filter (\<lambda>x. addr_equal x ipa)) (V w)"
      by (rule set_addrs_cong) (auto intro: filter_cong)
    then show ?thesis
      using ensure_v4_loop_inside [OF assms(1) True assms(2), of w1 ?i "lName l" False] w1(2) True by auto
  next
    case False
    then show ?thesis using ensure_v4_loop_outside [OF False, of L ?i "lName l" _ False w1] w1(2) by auto
  qed
  then obtain w2 where w2: "ensure_v4_loop L ?i (lName l) ipa ipn (addrs (V w) ?i) False w1 = (Inr (\<exists>x\<in>set (addrs (V w) ?i). addr_equal x ipa), w2)"
      "V w2 = (if ?C then set_addrs ?i (filter (\<lambda>x. addr_equal x ipa)) (V w) else V w)" by blast
  show ?thesis
  proof (cases "\<exists>x\<in>set (addrs (V w) ?i). addr_equal x ipa")
    case True
    then show ?thesis using w1(1) w2
      by (auto simp: EnsureV4AddressOnLink_def io_simps set_addrs_same intro!: set_addrs_cong)
  next
    case False
    obtain w3 where "addr_add L ?i ipa w2 = (Inr (), w3)" "V w3 = set_addrs ?i (\<lambda>xs. xs @ [ipa]) (V w2)"
      using assms(1) unfolding kernel_addrs_def by (metis sets_run)
    then show ?thesis using False w1(1) w2
      by (auto simp: EnsureV4AddressOnLink_def io_simps mapErr_ok intro!: set_addrs_cong)
  qed
qed

subsection \<open>A kernel\<close>

definition run_delete :: "(netstate \<Rightarrow> bool) \<Rightarrow> (netstate \<Rightarrow> netstate) \<Rightarrow> (netstate, unit) io" where
  "run_delete P f s = (if P s then (Inr (), f s) else (Inl (Plain ''no such entry''), s))"

definition run_set :: "(netstate \<Rightarrow> netstate) \<Rightarrow> (netstate, unit) io" where
  "run_set f s = (Inr (), f s)"

definition kernel :: "netstate netlink" where
  "kernel = \<lparr>link_add = (\<lambda>_. fail (Plain ''not permitted'')), link_by_name = (\<lambda>_. fail (Plain ''not found'')),
     link_by_index = (\<lambda>_. fail (Plain ''not found'')), link_del = (\<lambda>_. fail (Plain ''not permitted'')), link_up = (\<lambda>_. ret ()),
     addr_list = (\<lambda>i v6 s. (Inr (addrs s i), s)),
     addr_del = (\<lambda>i x. run_delete (\<lambda>s. x \<in> set (addrs s i)) (set_addrs i (filter (\<lambda>y. y \<noteq> x)))),
     addr_add = (\<lambda>i x. run_set (set_addrs i (\<lambda>xs. xs @ [x]))),
     neigh_set = (\<lambda>k i ip m. run_set (case k of ARP \<Rightarrow> set_arp i ip (Some m) | FDB \<Rightarrow> set_fdb i m (Some ip))),
     neigh_del = (\<lambda>k i ip m. case k of ARP \<Rightarrow> run_delete (\<lambda>s. arps s (i, ip) \<noteq> None) (set_arp i ip None)
       | FDB \<Rightarrow> run_delete (\<lambda>s. fdbs s (i, m) \<noteq> None) (set_fdb i m None)),
     route_replace = (\<lambda>i d g. run_set (set_route d (Some (i, g)))),
     route_del = (\<lambda>i d g. run_delete (\<lambda>s. routes s d \<noteq> None) (set_route d None)),
     rand_bytes = (\<lambda>n. ret (replicate n 0))\<rparr>"

lemma kernel_laws: "kernel_sets kernel (\<lambda>s. s)" "kernel_deletes kernel (\<lambda>s. s)" "kernel_addrs kernel (\<lambda>s. s)"
  by (auto simp: kernel_sets_def kernel_deletes_def kernel_addrs_def sets_def deletes_def kernel_def run_set_def run_delete_def)

definition no_routes :: "netstate netlink" where
  "no_routes = kernel\<lparr>route_replace := (\<lambda>_ _ _. fail (Plain ''network is unreachable''))\<rparr>"

lemma no_routes_laws: "kernel_deletes no_routes (\<lambda>s. s)" "sets (\<lambda>s. s) (neigh_set no_routes ARP i vip mac) (set_arp i vip (Some mac))"
    "sets (\<lambda>s. s) (neigh_set no_routes FDB i dip mac) (set_fdb i mac (Some dip))" "never (\<lambda>s. s) (route_replace no_routes i d g)"
  by (auto simp: no_routes_def kernel_deletes_def sets_def deletes_def never_def kernel_def run_set_def run_delete_def io_simps)

definition idle :: netstate where
  "idle = \<lparr>arps = (\<lambda>_. None), fdbs = (\<lambda>_. None), routes = (\<lambda>_. None), addrs = (\<lambda>_. [])\<rparr>"

definition dev0 :: vxlan_link where
  "dev0 = \<lparr>lName = ''simplecni.1'', lIndex = 7, HardwareAddr = [2, 0, 0, 0, 0, 1], lMTU = 1450, VxlanId = 1, VtepDevIndex = 2,
     SrcAddr = [192, 168, 0, 1], Group = [], L2miss = False, Port = 8472, GBP = False\<rparr>"

abbreviation "vip0 \<equiv> [10, 244, 1, 0 :: byte]"
abbreviation "mac0 \<equiv> [2, 0, 0, 0, 0, 2 :: byte]"
abbreviation "dip0 \<equiv> [192, 168, 0, 2 :: byte]"
abbreviation "dst0 \<equiv> \<lparr>netIP = [10, 244, 1, 0], netMask = [255, 255, 255, 0]\<rparr>"

theorem configure_then_remove_witness:
  "\<exists>w1 w2 w3 e. ConfigurePeer kernel dev0 vip0 mac0 dip0 (Some dst0) idle = (Inr (), w1)
    \<and> w1 = with_peer 7 vip0 mac0 dip0 (Some dst0) idle
    \<and> RemovePeer kernel dev0 vip0 mac0 dip0 (Some dst0) w1 = (Inr (), w2) \<and> w2 = without_peer 7 vip0 mac0 (Some dst0) idle
    \<and> RemovePeer kernel dev0 vip0 mac0 dip0 (Some dst0) w2 = (Inl e, w3) \<and> w3 = w2"
  using configure_then_remove [OF kernel_laws(1,2), of dev0 vip0 mac0 dip0 "Some dst0" idle] by (simp add: dev0_def)

theorem configure_peer_rolls_back_witness:
  "\<exists>e. ConfigurePeer no_routes dev0 vip0 mac0 dip0 (Some dst0) idle = (Inl e, idle)"
  using configure_peer_rolls_back [of no_routes "\<lambda>s. s" dev0 vip0 mac0 True dip0 "Some dst0" idle] no_routes_laws
  by (auto simp: idle_def)

theorem ensure_v4_address_witness:
  "\<exists>w'. EnsureV4AddressOnLink kernel \<lparr>netIP = vip0, netMask = [255, 255, 255, 255]\<rparr> dst0 dev0
        (idle\<lparr>addrs := (\<lambda>_. [\<lparr>netIP = [10, 9, 9, 9], netMask = [255, 255, 255, 255]\<rparr>])\<rparr>) = (Inr (), w')
      \<and> addrs w' 7 = [\<lparr>netIP = vip0, netMask = [255, 255, 255, 255]\<rparr>]"
proof -
  have c: "Contains_ip dst0 vip0" "\<not> addr_equal \<lparr>netIP = [10, 9, 9, 9], netMask = [255, 255, 255, 255]\<rparr> \<lparr>netIP = vip0, netMask = [255, 255, 255, 255]\<rparr>"
    by code_simp+
  show ?thesis
    using ensure_v4_address [OF kernel_laws(3), of "idle\<lparr>addrs := (\<lambda>_. [\<lparr>netIP = [10, 9, 9, 9], netMask = [255, 255, 255, 255]\<rparr>])\<rparr>"
        dev0 "\<lparr>netIP = vip0, netMask = [255, 255, 255, 255]\<rparr>" dst0] c
    by (auto simp: dev0_def)
qed

end
