(* ===== verification/CniNodes.thy ===== *)
theory CniNodes
  imports CniFiles CniDevices
begin

section \<open>simplecni: nodes, leases and events (pkg/nodemanager, pkg/backend)\<close>

text \<open>
  A node publishes its addresses as annotations, the daemons of the other nodes turn each node
  into a lease, and a backend configures a peer from it. The record \<open>kube\<close> has the calls of the
  Kubernetes client, of the informer's store, and the patch the library makes from two versions
  of the annotations. The channel of events is the list of the events sent.
\<close>

record Lease =
  CidrIPv4 :: "IPNet option list"
  CidrIPv6 :: "IPNet option list"
  ClusterCidrIPv4 :: "IPNet option"
  ClusterCidrIPv6 :: "IPNet option"
  AttrMap :: "string \<rightharpoonup> string"

datatype EventType = EventAdded | EventRemoved

type_synonym event = "EventType \<times> Lease"

record node =
  nName :: string
  PodCIDR :: string
  PodCIDRs :: "string list"
  Annotations :: "(string \<times> string) list option"

record pod = pArgs :: "string list" pCommand :: "string list"

record 'w kube =
  get_node :: "string \<Rightarrow> ('w, node) io"
  list_pods :: "('w, pod list list) io"
  patch_annotations :: "string \<Rightarrow> (string \<times> string) list \<Rightarrow> (string \<times> string) list \<Rightarrow> ('w, unit) io"
  patch_status :: "string \<Rightarrow> ('w, unit) io"
  range_attrs :: "string list \<Rightarrow> ('w, string list) io"

definition Prefix :: string where "Prefix = ''simple.io/simplecni-''"

text \<open>\<open>ip.To4() != nil\<close>\<close>

definition is_v4 :: "IP \<Rightarrow> bool" where "is_v4 ip \<longleftrightarrow> To4 ip \<noteq> None"

subsection \<open>Leases of other nodes\<close>

text \<open>A range that does not parse is logged, and counted as an IPv6 range that is nil.\<close>

primrec add_cidrs :: "string list \<Rightarrow> Lease \<Rightarrow> Lease" where
  "add_cidrs [] l = l"
| "add_cidrs (c # cs) l = add_cidrs cs
     (case ParseCIDR c of
        Inr (ip, n) \<Rightarrow> if is_v4 ip then l\<lparr>CidrIPv4 := CidrIPv4 l @ [Some n]\<rparr> else l\<lparr>CidrIPv6 := CidrIPv6 l @ [Some n]\<rparr>
      | Inl _ \<Rightarrow> l\<lparr>CidrIPv6 := CidrIPv6 l @ [None]\<rparr>)"

definition annotations :: "node \<Rightarrow> (string \<times> string) list" where
  "annotations n = (case Annotations n of None \<Rightarrow> [] | Some a \<Rightarrow> a)"

definition nodeToLease :: "node \<Rightarrow> Lease" where
  "nodeToLease n = (add_cidrs (PodCIDRs n) \<lparr>CidrIPv4 = [], CidrIPv6 = [], ClusterCidrIPv4 = None,
       ClusterCidrIPv6 = None, AttrMap = (\<lambda>_. None)\<rparr>)
     \<lparr>AttrMap := map_of (filter (\<lambda>(k, v). HasPrefix k Prefix) (annotations n))\<rparr>"

definition handleAddLeaseEvent :: "string \<Rightarrow> EventType \<Rightarrow> node \<Rightarrow> event list \<Rightarrow> event list" where
  "handleAddLeaseEvent self et n events = (if self = nName n then events else events @ [(et, nodeToLease n)])"

definition handleUpdateLeaseEvent :: "string \<Rightarrow> node \<Rightarrow> node \<Rightarrow> event list \<Rightarrow> event list" where
  "handleUpdateLeaseEvent self old n events =
     (if self = nName n then events
      else if PodCIDRs old = PodCIDRs n \<and> map_of (annotations old) = map_of (annotations n) then events
      else events @ [(EventAdded, nodeToLease n)])"

subsection \<open>The lease of this node\<close>

text \<open>\<open>wait.PollUntilContextTimeout\<close> with an interval of 3 and a time-out of 30 seconds: at most eleven
  calls, then an error.\<close>

primrec poll_n :: "nat \<Rightarrow> ('w, 'a option) io \<Rightarrow> ('w, 'a) io" where
  "poll_n 0 f = fail (Plain ''context deadline exceeded'')"
| "poll_n (Suc n) f = bindE f (\<lambda>r. case r of Some x \<Rightarrow> ret x | None \<Rightarrow> poll_n n f)"

definition poll_ok :: "('w, 'a) io \<Rightarrow> ('w, 'a) io" where
  "poll_ok f = poll_n 11 (tryE f (\<lambda>_. ret None) (\<lambda>x. ret (Some x)))"

definition contact_error :: "string \<Rightarrow> goerr \<Rightarrow> goerr" where
  "contact_error name e = Plain (''timeout contacting kube-api, failed to patch node '' @ dquote name @ ''. Error: '' @ err_text e)"

definition own_node :: "'w kube \<Rightarrow> string \<Rightarrow> ('w, node) io" where
  "own_node K name =
     bindE (mapErr (contact_error name) (poll_ok (get_node K name))) (\<lambda>n.
     require (PodCIDR n \<noteq> []) (Plain (''node '' @ dquote name @ '' pod cidr not assigned'')) (ret n))"

text \<open>Here a range that does not parse is a nil pointer whose field is read.\<close>

primrec own_cidrs :: "string list \<Rightarrow> IPNet option list \<Rightarrow> IPNet option list \<Rightarrow>
    goerr + (IPNet option list \<times> IPNet option list)" where
  "own_cidrs [] v4 v6 = Inr (v4, v6)"
| "own_cidrs (c # cs) v4 v6 = (case ParseCIDR c of
      Inl _ \<Rightarrow> Inl (Panic ''nil pointer'')
    | Inr (_, n) \<Rightarrow> if is_v4 (netIP n) then own_cidrs cs (v4 @ [Some n]) v6 else own_cidrs cs v4 (v6 @ [Some n]))"

definition parse_net :: "string \<Rightarrow> IPNet option" where
  "parse_net s = (case ParseCIDR s of Inr (_, n) \<Rightarrow> Some n | Inl _ \<Rightarrow> None)"

text \<open>The first argument that mentions \<open>cluster-cidr\<close>; of two ranges the first is tried as an address.\<close>

definition cluster_of :: "string \<Rightarrow> goerr + (IPNet option \<times> IPNet option)" where
  "cluster_of arg =
     (case split_char (CHR ''='') arg of
        _ # v # _ \<Rightarrow>
          (if CHR '','' \<notin> set v then Inr (parse_net v, None)
           else (case split_char (CHR '','') v of
              a # b # _ \<Rightarrow>
                if (case ParseIP a of Some ip \<Rightarrow> is_v4 ip | None \<Rightarrow> False) then Inr (parse_net a, parse_net b)
                else Inr (parse_net b, parse_net a)
            | _ \<Rightarrow> Inr (None, None)))
      | _ \<Rightarrow> Inl (Panic ''index out of range [1]''))"

primrec scan_args :: "string list \<Rightarrow> goerr + (IPNet option \<times> IPNet option)" where
  "scan_args [] = Inr (None, None)"
| "scan_args (a # as) = (if Contains a ''cluster-cidr'' then cluster_of a else scan_args as)"

definition AcquireLease :: "'w kube \<Rightarrow> string \<Rightarrow> ('w, Lease) io" where
  "AcquireLease K name =
     bindE (own_node K name) (\<lambda>n.
     bindE (lift (own_cidrs (PodCIDRs n) [] [])) (\<lambda>(v4, v6).
     bindE (tryE (list_pods K) (\<lambda>_. ret []) ret) (\<lambda>items.
     case items of
       [] \<Rightarrow> fail (Plain ''number of kube-controller-manager pod is 0, strange'')
     | containers # _ \<Rightarrow>
       (case containers of
          [] \<Rightarrow> fail (Panic ''index out of range [0]'')
        | c # _ \<Rightarrow> bindE (lift (scan_args (pArgs c @ pCommand c))) (\<lambda>(cc, cc6).
            ret \<lparr>CidrIPv4 = v4, CidrIPv6 = v6, ClusterCidrIPv4 = cc, ClusterCidrIPv6 = cc6, AttrMap = (\<lambda>_. None)\<rparr>)))))"

definition annotation_key :: "string \<Rightarrow> string" where
  "annotation_key k = ToLower (Prefix @ k)"

text \<open>Only annotations that exist are changed: a nil map stays nil.\<close>

fun set_annotation :: "string \<Rightarrow> string \<Rightarrow> (string \<times> string) list \<Rightarrow> (string \<times> string) list" where
  "set_annotation k v [] = [(k, v)]"
| "set_annotation k v ((k', v') # m) = (if k' = k then (k, v) # m else (k', v') # set_annotation k v m)"

primrec new_annotations :: "(string \<times> string) list \<Rightarrow> string list \<Rightarrow> (string \<times> string) list \<Rightarrow> bool \<Rightarrow>
    (string \<times> string) list \<times> bool" where
  "new_annotations attrs [] a changed = (a, changed)"
| "new_annotations attrs (k # ks) a changed =
     (let key = annotation_key k; v = the (map_of attrs k); old = (case map_of a key of Some x \<Rightarrow> x | None \<Rightarrow> [])
      in if old \<noteq> v then new_annotations attrs ks (set_annotation key v a) True
         else new_annotations attrs ks a changed)"

definition CompleteLease :: "'w kube \<Rightarrow> string \<Rightarrow> (string \<times> string) list \<Rightarrow> ('w, unit) io" where
  "CompleteLease K name attrs =
     bindE (own_node K name) (\<lambda>n.
     bindE (range_attrs K (map fst attrs)) (\<lambda>order.
     let (a, changed) = (case Annotations n of None \<Rightarrow> ([], False) | Some old \<Rightarrow> new_annotations attrs order old False) in
     bindE (if changed
            then mapErr (contact_error name) (poll_ok (patch_annotations K name (annotations n) a))
            else ret ()) (\<lambda>_.
     patch_status K name)))"

subsection \<open>The vxlan backend (pkg/backend/vxlan)\<close>

definition vxlan_GetSubnetMap :: "Lease \<Rightarrow> (string \<times> string) list" where
  "vxlan_GetSubnetMap l =
     [(''MTU'', ''1450'')] @
     (case CidrIPv4 l of [] \<Rightarrow> [] | n # _ \<Rightarrow> [(''SUBNET'', IPNet_String n)]) @
     (case CidrIPv6 l of [] \<Rightarrow> [] | n # _ \<Rightarrow> [(''IPV6_SUBNET'', IPNet_String n)]) @
     [(''IPMASQ'', ''true'')]"

definition attr :: "Lease \<Rightarrow> string \<Rightarrow> string option" where
  "attr l k = AttrMap l (annotation_key k)"

definition ip_or_nil :: "string \<Rightarrow> IP" where
  "ip_or_nil s = (case ParseIP s of Some ip \<Rightarrow> ip | None \<Rightarrow> [])"

definition mac_or_nil :: "string \<Rightarrow> byte list" where
  "mac_or_nil s = (case ParseMAC s of Some m \<Rightarrow> m | None \<Rightarrow> [])"

text \<open>The errors of the device are not looked at.\<close>

definition vxlan_HandleEvent :: "'w netlink \<Rightarrow> vxlan_link \<Rightarrow> event \<Rightarrow> ('w, unit) io" where
  "vxlan_HandleEvent L dev ev =
     (let l = snd ev in
      case (CidrIPv4 l, attr l ''VxlanIP'', attr l ''VxlanMac'', attr l ''IPAddr'') of
        (n # _, Some vip, Some vmac, Some ipaddr) \<Rightarrow>
          (let m = (case fst ev of
               EventAdded \<Rightarrow> ConfigurePeer L dev (ip_or_nil vip) (mac_or_nil vmac) (ip_or_nil ipaddr) n
             | EventRemoved \<Rightarrow> RemovePeer L dev (ip_or_nil vip) (mac_or_nil vmac) (ip_or_nil ipaddr) n)
           in tryE m (\<lambda>_. ret ()) ret)
      | _ \<Rightarrow> ret ())"

subsection \<open>The wireguard backend's file (pkg/backend/wireguard)\<close>

definition wg_GetSubnetMap :: "Lease \<Rightarrow> (string \<times> string) list" where
  "wg_GetSubnetMap l =
     (case CidrIPv4 l of [] \<Rightarrow> [] | n # _ \<Rightarrow> [(''SUBNET'', IPNet_String n)]) @
     (case CidrIPv6 l of [] \<Rightarrow> [] | n # _ \<Rightarrow> [(''IPV6_SUBNET'', IPNet_String n)]) @
     [(''IPMASQ'', ''true''), (''BACKEND'', ''wireguard'')]"

end
