(* ===== verification/CniNodesProps.thy ===== *)
theory CniNodesProps
  imports CniNodes CniDevicesProps CniPluginProps
begin

section \<open>simplecni: properties of nodes, leases and events\<close>

text \<open>
  \<open>V\<close> reads the nodes out of the state of the cluster. \<open>kube_behaves\<close> is an API server that answers:
  a node is read as it is stored, a patch of the annotations stores them, and a patch of the
  status leaves them alone.
\<close>

definition kube_behaves :: "'w kube \<Rightarrow> ('w \<Rightarrow> string \<rightharpoonup> node) \<Rightarrow> bool" where
  "kube_behaves K V \<longleftrightarrow>
     (\<forall>name w n. V w name = Some n \<longrightarrow> (\<exists>w'. get_node K name w = (Inr n, w') \<and> V w' = V w)) \<and>
     (\<forall>ks w. \<exists>order w'. range_attrs K ks w = (Inr order, w') \<and> mset order = mset ks \<and> V w' = V w) \<and>
     (\<forall>name old new w n. V w name = Some n \<longrightarrow> Annotations n = Some old \<longrightarrow>
        (\<exists>w'. patch_annotations K name old new w = (Inr (), w') \<and> V w' = (V w)(name \<mapsto> n\<lparr>Annotations := Some new\<rparr>))) \<and>
     (\<forall>name w. \<exists>w'. patch_status K name w = (Inr (), w') \<and> V w' = V w)"

lemma kube_get: "kube_behaves K V \<Longrightarrow> V w name = Some n \<Longrightarrow> \<exists>w'. get_node K name w = (Inr n, w') \<and> V w' = V w"
  by (simp add: kube_behaves_def)

lemma kube_range: "kube_behaves K V \<Longrightarrow> \<exists>order w'. range_attrs K ks w = (Inr order, w') \<and> mset order = mset ks \<and> V w' = V w"
  by (simp add: kube_behaves_def)

lemma kube_patch: "kube_behaves K V \<Longrightarrow> V w name = Some n \<Longrightarrow> Annotations n = Some old \<Longrightarrow>
    \<exists>w'. patch_annotations K name old new w = (Inr (), w') \<and> V w' = (V w)(name \<mapsto> n\<lparr>Annotations := Some new\<rparr>)"
  by (simp add: kube_behaves_def)

lemma kube_status: "kube_behaves K V \<Longrightarrow> \<exists>w'. patch_status K name w = (Inr (), w') \<and> V w' = V w"
  by (simp add: kube_behaves_def)

lemma poll_ok_run: "f w = (Inr x, w') \<Longrightarrow> poll_ok f w = (Inr x, w')"
  by (simp add: poll_ok_def numeral_eq_Suc io_simps)

lemma own_node_run:
  "get_node K name w = (Inr n, w') \<Longrightarrow> PodCIDR n \<noteq> [] \<Longrightarrow> own_node K name w = (Inr n, w')"
  by (simp add: own_node_def io_simps poll_ok_run mapErr_ok)

subsection \<open>Texts of addresses\<close>

lemma hex_digit_val_hex [simp]: "k < 16 \<Longrightarrow> hex_digit_val (hex_digit k) = Some k"
  by (auto simp: hex_digit_val_def hex_digit_def of_char_of)

lemma hex_pair_hex2: "hex_pair (hex2 b) = Some b"
proof -
  have "unat b < 256" using unsigned_less [of b, where ?'a = nat] by simp
  then have "hex_pair (hex2 b) = Some (word_of_nat (unat b))" by (simp add: hex_pair_def hex2_def)
  then show ?thesis by simp
qed

lemma hex2_no_colon: "CHR '':'' \<notin> set (hex2 b)"
proof -
  have "hex_digit k \<noteq> CHR '':''" if "k < 16" for k
  proof
    assume "hex_digit k = CHR '':''"
    then have "hex_digit_val (CHR '':'') = Some k" using hex_digit_val_hex [OF that] by simp
    then show False by (simp add: hex_digit_val_def)
  qed
  moreover have "unat b < 256" using unsigned_less [of b, where ?'a = nat] by simp
  ultimately show ?thesis by (auto simp: hex2_def dest: sym)
qed

lemma ParseMAC_String: "length m = 6 \<Longrightarrow> ParseMAC (mac_String m) = Some m"
proof -
  assume "length m = 6"
  then obtain a b c d e f where m: "m = [a, b, c, d, e, f]" by (auto simp: length_Suc_conv numeral_eq_Suc)
  have s: "mac_String m = hex2 a @ CHR '':'' # hex2 b @ CHR '':'' # hex2 c @ CHR '':'' # hex2 d @ CHR '':'' # hex2 e @ CHR '':'' # hex2 f"
    by (simp add: m mac_String_def)
  have "split_char (CHR '':'') (mac_String m) = [hex2 a, hex2 b, hex2 c, hex2 d, hex2 e, hex2 f]"
    unfolding s using hex2_no_colon by (simp add: split_char_app split_char_no_sep)
  moreover have "mac_String m ! 2 = CHR '':''" "length (mac_String m) = 17" unfolding s by (simp_all add: hex2_def)
  ultimately show ?thesis by (simp add: ParseMAC_def all_some_def hex_pair_hex2 m Let_def)
qed

lemma dec_val_slash: "dec_val a (nat_digits k @ CHR ''/'' # s) = None"
proof -
  have "dec_val b (CHR ''/'' # s) = None" for b by (simp add: digit_of_def)
  then show ?thesis by (simp add: dec_val_append split: option.splits del: dec_val.simps(2))
qed

lemma octet_slash: "octet (nat_digits k @ CHR ''/'' # s) = None"
  by (simp add: octet_def dec_val_slash)

text \<open>A network is no address.\<close>

lemma ParseIP_network:
  assumes "length ip = 4"
  shows "ParseIP (ipv4_text ip @ CHR ''/'' # nat_digits k) = None"
proof -
  obtain a b c d where ip: "ip = [a, b, c, d]" using assms by (auto elim: ip4_cases)
  let ?s = "ipv4_text ip @ CHR ''/'' # nat_digits k"
  have s: "?s = nat_digits (unat a) @ CHR ''.'' # nat_digits (unat b) @ CHR ''.'' # nat_digits (unat c) @
      CHR ''.'' # nat_digits (unat d) @ CHR ''/'' # nat_digits k" by (simp add: ip ipv4_text4)
  have "parse_addr ?s = parse_ipv4 ?s" unfolding parse_addr_def s digits_skip by simp
  moreover have "CHR ''.'' \<notin> set (nat_digits (unat d) @ CHR ''/'' # nat_digits k)" using dot_not_digit by simp
  then have "split_char (CHR ''.'') ?s = [nat_digits (unat a), nat_digits (unat b), nat_digits (unat c),
      nat_digits (unat d) @ CHR ''/'' # nat_digits k]"
    unfolding s using dot_not_digit by (simp add: split_char_app split_char_no_sep)
  then have "parse_ipv4 ?s = None" by (simp add: parse_ipv4_def octet_slash split: option.splits)
  ultimately show ?thesis by (simp add: ParseIP_def)
qed

lemma IPNet_String_is: "length ip = 4 \<Longrightarrow> n \<le> 32 \<Longrightarrow>
    IPNet_String (Some (net4 ip n)) = ipv4_text (netIP (net4 ip n)) @ CHR ''/'' # nat_digits n"
  by (rule IPNet_String_net4)

subsection \<open>The ranges of the cluster\<close>

lemma cluster_of_swapped:
  assumes "length ip = 4" "k \<le> 32" "CHR ''='' \<notin> set b" "CHR '','' \<notin> set b"
  shows "cluster_of (''--cluster-cidr='' @ IPNet_String (Some (net4 ip k)) @ CHR '','' # b) = Inr (parse_net b, Some (net4 ip k))"
proof -
  let ?a = "IPNet_String (Some (net4 ip k))"
  have len: "length (netIP (net4 ip k)) = 4" using assms(1) by simp
  have a: "?a = ipv4_text (netIP (net4 ip k)) @ CHR ''/'' # nat_digits k" by (rule IPNet_String_is [OF assms(1,2)])
  have d: "is_digit x \<or> x = CHR ''.''" if "x \<in> set (ipv4_text (netIP (net4 ip k)))" for x
    using that by - (rule ip4_cases [OF len], auto simp: ipv4_text4 nat_digits_is_digit)
  have no: "CHR ''='' \<notin> set ?a" "CHR '','' \<notin> set ?a"
    unfolding a using d [of "CHR ''=''"] d [of "CHR '',''"] nat_digits_is_digit [of "CHR ''=''" k] nat_digits_is_digit [of "CHR '',''" k]
    by (auto simp: is_digit_def digit_of_def)
  have s1: "split_char (CHR ''='') (?a @ CHR '','' # b) = [?a @ CHR '','' # b]"
    using no(1) assms(3) by (simp add: split_char_no_sep)
  have s2: "split_char (CHR '','') (?a @ CHR '','' # b) = [?a, b]"
    using no(2) assms(4) by (simp add: split_char_app split_char_no_sep)
  have "ParseIP ?a = None" unfolding a by (rule ParseIP_network [OF len])
  moreover have "parse_net ?a = Some (net4 ip k)" by (simp add: parse_net_def ParseCIDR_String assms(1,2))
  ultimately show ?thesis by (simp add: cluster_of_def s1 s2)
qed

lemma Contains_prefix: "Contains (''--cluster-cidr='' @ s) ''cluster-cidr''"
  by (simp add: HasPrefix_def)

text \<open>With two ranges of the cluster of which the first is the IPv4 range, the lease has them in
  each other's place: the test for an IPv4 range tries to read the network as an address, which
  always fails, so that the second is taken for the IPv4 range of the cluster.\<close>

theorem dual_stack_ranges_swapped:
  assumes "get_node K name w = (Inr n, w1)" "PodCIDR n \<noteq> []" "own_cidrs (PodCIDRs n) [] [] = Inr (v4, v6)"
    and "list_pods K w1 = (Inr ((c # cs) # ps), w2)"
    and "pArgs c @ pCommand c = (''--cluster-cidr='' @ IPNet_String (Some (net4 ip k)) @ CHR '','' # b) # others"
    and "length ip = 4" "k \<le> 32" "CHR ''='' \<notin> set b" "CHR '','' \<notin> set b"
  shows "\<exists>l. AcquireLease K name w = (Inr l, w2) \<and> ClusterCidrIPv4 l = parse_net b \<and> ClusterCidrIPv6 l = Some (net4 ip k) \<and>
    CidrIPv4 l = v4 \<and> CidrIPv6 l = v6"
proof -
  let ?arg = "''--cluster-cidr='' @ IPNet_String (Some (net4 ip k)) @ CHR '','' # b"
  have "Contains ?arg ''cluster-cidr''" by (rule Contains_prefix)
  then have "scan_args (pArgs c @ pCommand c) = Inr (parse_net b, Some (net4 ip k))"
    unfolding assms(5) scan_args.simps using cluster_of_swapped [OF assms(6-9)] by (simp only: if_True)
  then show ?thesis using own_node_run [OF assms(1,2)] assms(3,4) by (simp add: AcquireLease_def io_simps)
qed

subsection \<open>Annotations\<close>

lemma map_of_set_annotation [simp]: "map_of (set_annotation k v m) = (map_of m)(k \<mapsto> v)"
  by (induction k v m rule: set_annotation.induct) auto

lemma new_annotations_other: "x \<notin> annotation_key ` set ks \<Longrightarrow> map_of (fst (new_annotations attrs ks a ch)) x = map_of a x"
  by (induction ks arbitrary: a ch) (auto simp: Let_def)

lemma new_annotations_at:
  "distinct ks \<Longrightarrow> inj_on annotation_key (set ks) \<Longrightarrow> k \<in> set ks \<Longrightarrow> the (map_of attrs k) \<noteq> [] \<Longrightarrow>
     map_of (fst (new_annotations attrs ks a ch)) (annotation_key k) = Some (the (map_of attrs k))"
proof (induction ks arbitrary: a ch)
  case (Cons k' ks)
  show ?case
  proof (cases "k = k'")
    case True
    then have "annotation_key k \<notin> annotation_key ` set ks" using Cons(2,3) by (auto simp: inj_on_def)
    note o = new_annotations_other [OF this]
    show ?thesis using True Cons(5) by (auto simp: Let_def o [unfolded True] split: option.splits)
  next
    case False
    then have "k \<in> set ks" using Cons(4) by simp
    then show ?thesis using Cons(1) [of _ _] Cons(2,3,5) by (simp add: Let_def inj_on_def)
  qed
qed simp

lemma new_annotations_changed: "\<not> snd (new_annotations attrs ks a ch) \<Longrightarrow> fst (new_annotations attrs ks a ch) = a"
proof -
  have t: "snd (new_annotations attrs ks a True)" for ks a by (induction ks arbitrary: a) (auto simp: Let_def)
  show "\<not> snd (new_annotations attrs ks a ch) \<Longrightarrow> fst (new_annotations attrs ks a ch) = a"
    by (induction ks arbitrary: a ch) (auto simp: Let_def t split: if_splits)
qed

lemma complete_lease_run:
  assumes "kube_behaves K V" "V w name = Some n" "PodCIDR n \<noteq> []" "Annotations n = Some old"
  shows "\<exists>order w'. mset order = mset (map fst attrs) \<and> CompleteLease K name attrs w = (Inr (), w') \<and>
    V w' = (V w)(name \<mapsto> n\<lparr>Annotations := Some (fst (new_annotations attrs order old False))\<rparr>)"
proof -
  obtain w1 where w1: "get_node K name w = (Inr n, w1)" "V w1 = V w" using kube_get [OF assms(1,2)] by blast
  obtain order w2 where w2: "range_attrs K (map fst attrs) w1 = (Inr order, w2)" "mset order = mset (map fst attrs)" "V w2 = V w1"
    using kube_range [OF assms(1)] by blast
  obtain a ch where a: "new_annotations attrs order old False = (a, ch)" by fastforce
  have own: "own_node K name w = (Inr n, w1)" by (rule own_node_run [OF w1(1) assms(3)])
  show ?thesis
  proof (cases ch)
    case True
    have "V w2 name = Some n" using w1(2) w2(3) assms(2) by simp
    then obtain w3 where w3: "patch_annotations K name old a w2 = (Inr (), w3)" "V w3 = (V w2)(name \<mapsto> n\<lparr>Annotations := Some a\<rparr>)"
      using kube_patch [OF assms(1) _ assms(4)] by blast
    obtain w4 where w4: "patch_status K name w3 = (Inr (), w4)" "V w4 = V w3" using kube_status [OF assms(1)] by blast
    have "CompleteLease K name attrs w = (Inr (), w4)"
      using own w2(1) a w3(1) w4(1) True assms(4) by (simp add: CompleteLease_def io_simps annotations_def mapErr_ok poll_ok_run)
    then show ?thesis using w1(2) w2(2,3) w3(2) w4(2) a by auto
  next
    case False
    then have "a = old" using new_annotations_changed [of attrs order old False] a by simp
    then have n: "n\<lparr>Annotations := Some a\<rparr> = n" using assms(4) by simp
    obtain w4 where w4: "patch_status K name w2 = (Inr (), w4)" "V w4 = V w2" using kube_status [OF assms(1)] by blast
    have "CompleteLease K name attrs w = (Inr (), w4)"
      using own w2(1) a w4(1) False assms(4) by (simp add: CompleteLease_def io_simps)
    moreover have "V w4 = (V w)(name \<mapsto> n\<lparr>Annotations := Some a\<rparr>)" using w4(2) w2(3) w1(2) assms(2) n by (simp add: fun_upd_idem)
    ultimately show ?thesis using w2(2) a by auto
  qed
qed

lemma map_of_published: "map_of (filter (\<lambda>(k, v). HasPrefix k Prefix) xs) x = (if HasPrefix x Prefix then map_of xs x else None)"
  by (induction xs) auto

lemma add_cidrs_v4: "\<exists>r. CidrIPv4 (add_cidrs cs l) = CidrIPv4 l @ r"
proof (induction cs arbitrary: l)
  case (Cons c cs)
  let ?l = "case ParseCIDR c of
        Inr (ip, n) \<Rightarrow> if is_v4 ip then l\<lparr>CidrIPv4 := CidrIPv4 l @ [Some n]\<rparr> else l\<lparr>CidrIPv6 := CidrIPv6 l @ [Some n]\<rparr>
      | Inl _ \<Rightarrow> l\<lparr>CidrIPv6 := CidrIPv6 l @ [None]\<rparr>"
  obtain r where r: "CidrIPv4 ?l = CidrIPv4 l @ r" by (atomize_elim) (simp split: sum.split prod.split)
  obtain r' where "CidrIPv4 (add_cidrs cs ?l) = CidrIPv4 ?l @ r'" using Cons [of ?l] by blast
  then show ?case using r by (intro exI [of _ "r @ r'"]) simp
qed simp

text \<open>C17. What a node publishes is what the other nodes configure: after \<open>CompleteLease\<close> with the texts of the
  address of the device, of its hardware address and of the address of the node, in whatever
  order the map is visited, every other daemon gets an event unless the annotations and ranges
  have not changed, and its handling configures a peer with exactly these addresses and the
  first IPv4 range of the node.\<close>

theorem published_peer_is_configured:
  assumes "kube_behaves K V" "V w (nName n) = Some n" "PodCIDR n \<noteq> []" "Annotations n = Some old"
    and "PodCIDRs n = IPNet_String (Some (net4 ip k)) # ranges" "length ip = 4" "k \<le> 32"
    and "distinct (map fst attrs)" "inj_on annotation_key (fst ` set attrs)" "[] \<notin> snd ` set attrs"
    and "map_of attrs ''VxlanIP'' = Some (ipv4_text vip)" "length vip = 4"
    and "map_of attrs ''VxlanMac'' = Some (mac_String mac)" "length mac = 6"
    and "map_of attrs ''IPAddr'' = Some (ipv4_text dip)" "length dip = 4" "self \<noteq> nName n"
  shows "\<exists>w' n'. CompleteLease K (nName n) attrs w = (Inr (), w') \<and> V w' = (V w)(nName n \<mapsto> n')
    \<and> handleUpdateLeaseEvent self n n' evs =
        evs @ (if map_of (annotations n) = map_of (annotations n') then [] else [(EventAdded, nodeToLease n')])
    \<and> vxlan_HandleEvent L dev (EventAdded, nodeToLease n') =
        tryE (ConfigurePeer L dev (v4_prefix @ vip) mac (v4_prefix @ dip) (Some (net4 ip k))) (\<lambda>_. ret ()) ret"
proof -
  obtain order w' where run: "mset order = mset (map fst attrs)" "CompleteLease K (nName n) attrs w = (Inr (), w')"
      "V w' = (V w)(nName n \<mapsto> n\<lparr>Annotations := Some (fst (new_annotations attrs order old False))\<rparr>)"
    using complete_lease_run [OF assms(1-4)] by blast
  let ?a = "fst (new_annotations attrs order old False)"
  let ?n = "n\<lparr>Annotations := Some ?a\<rparr>"
  have so: "set order = fst ` set attrs" using run(1) by (metis list.set_map set_mset_mset)
  have d: "distinct order" using run(1) assms(8) mset_eq_imp_distinct_iff by blast
  have at: "attr (nodeToLease ?n) key = Some v" if v: "map_of attrs key = Some v" for key v
  proof -
    have kv: "(key, v) \<in> set attrs" using map_of_SomeD [OF v] .
    then have "key \<in> set order" using so by force
    moreover have "the (map_of attrs key) \<noteq> []" using kv v assms(10) by force
    ultimately have m: "map_of ?a (annotation_key key) = Some v"
      using new_annotations_at [OF d _ _, of key attrs old False] assms(9) so v by simp
    have p: "HasPrefix (annotation_key key) Prefix"
      by (simp add: annotation_key_def HasPrefix_def ToLower_def Prefix_def to_lower_char_def)
    show ?thesis using m p by (simp add: attr_def nodeToLease_def annotations_def map_of_published)
  qed
  have cidr: "\<exists>rest. CidrIPv4 (nodeToLease ?n) = Some (net4 ip k) # rest"
  proof -
    have v4: "is_v4 (as16 (netIP (net4 ip k)))" using assms(6) by (simp add: is_v4_def)
    show ?thesis using add_cidrs_v4 assms(5) v4
      by (simp add: nodeToLease_def ParseCIDR_String [OF assms(6,7)]) (metis append_Cons append_Nil Lease.select_convs(1) Lease.update_convs(1))
  qed
  have ev: "handleUpdateLeaseEvent self n ?n evs =
      evs @ (if map_of (annotations n) = map_of (annotations ?n) then [] else [(EventAdded, nodeToLease ?n)])"
    using assms(17) by (simp add: handleUpdateLeaseEvent_def)
  have "vxlan_HandleEvent L dev (EventAdded, nodeToLease ?n) =
      tryE (ConfigurePeer L dev (v4_prefix @ vip) mac (v4_prefix @ dip) (Some (net4 ip k))) (\<lambda>_. ret ()) ret"
    using cidr at [OF assms(11)] at [OF assms(13)] at [OF assms(15)] assms(12,14,16)
    by (auto simp: vxlan_HandleEvent_def ip_or_nil_def mac_or_nil_def ParseIP_ipv4 ParseMAC_String)
  then show ?thesis using run(2,3) ev by blast
qed

text \<open>A node without annotations publishes nothing: \<open>CompleteLease\<close> reports success and changes nothing,
  and no other daemon ever configures a peer for it.\<close>

theorem no_annotations_publish_nothing:
  assumes "kube_behaves K V" "V w name = Some n" "PodCIDR n \<noteq> []" "Annotations n = None"
  shows "\<exists>w'. CompleteLease K name attrs w = (Inr (), w') \<and> V w' = V w \<and> vxlan_HandleEvent L dev (et, nodeToLease n) = ret ()"
proof -
  obtain w1 where w1: "get_node K name w = (Inr n, w1)" "V w1 = V w" using kube_get [OF assms(1,2)] by blast
  obtain order w2 where w2: "range_attrs K (map fst attrs) w1 = (Inr order, w2)" "V w2 = V w1"
    using kube_range [OF assms(1)] by blast
  obtain w4 where w4: "patch_status K name w2 = (Inr (), w4)" "V w4 = V w2" using kube_status [OF assms(1)] by blast
  have "CompleteLease K name attrs w = (Inr (), w4)"
    using own_node_run [OF w1(1) assms(3)] w2(1) w4(1) assms(4) by (simp add: CompleteLease_def io_simps)
  moreover have "vxlan_HandleEvent L dev (et, nodeToLease n) = ret ()"
    using assms(4) by (simp add: vxlan_HandleEvent_def attr_def nodeToLease_def annotations_def Let_def split: list.split)
  ultimately show ?thesis using w1(2) w2(2) w4(2) by auto
qed

subsection \<open>The subnet file\<close>

text \<open>The text of a network that reads back from a line: every IPv4 network is one (\<open>net4_fits\<close>).\<close>

definition fits_line :: "IPNet \<Rightarrow> bool" where
  "fits_line n \<longleftrightarrow> (let t = IPNet_String (Some n) in length t \<le> 2000 \<and> CHR 0x0A \<notin> set t \<and> CHR 0x0D \<notin> set t \<and>
     (case ParseCIDR t of Inr (_, n') \<Rightarrow> n' = n | Inl _ \<Rightarrow> False))"

lemma length_nat_digits: "length (nat_digits n) \<le> Suc n"
proof (induction n rule: nat_digits.induct)
  case (1 n)
  then show ?case by (subst nat_digits.simps) (auto simp: le_Suc_eq)
qed

lemma net4_fits: "length ip = 4 \<Longrightarrow> n \<le> 32 \<Longrightarrow> fits_line (net4 ip n)"
proof -
  assume a: "length ip = 4" "n \<le> 32"
  then have "length (netIP (net4 ip n)) = 4" by simp
  then obtain w x y z where ip: "netIP (net4 ip n) = [w, x, y, z]" by (auto elim: ip4_cases)
  have t: "IPNet_String (Some (net4 ip n)) = nat_digits (unat w) @ CHR ''.'' # nat_digits (unat x) @ CHR ''.'' # nat_digits (unat y) @
      CHR ''.'' # nat_digits (unat z) @ CHR ''/'' # nat_digits n" using IPNet_String_is [OF a] by (simp add: ip ipv4_text4)
  have d: "CHR 0x0A \<notin> set (nat_digits k)" "CHR 0x0D \<notin> set (nat_digits k)" for k
    using nat_digits_is_digit [of "CHR 0x0A" k] nat_digits_is_digit [of "CHR 0x0D" k] by (auto simp: is_digit_def digit_of_def)
  have l: "length (nat_digits (unat b)) \<le> 256" for b :: byte
    using length_nat_digits [of "unat b"] unsigned_less [of b, where ?'a = nat] by simp
  have "length (nat_digits n) \<le> 33" using length_nat_digits [of n] a(2) by simp
  then have "length (IPNet_String (Some (net4 ip n))) \<le> 2000" unfolding t using l [of w] l [of x] l [of y] l [of z] by simp
  then show ?thesis using ParseCIDR_String [OF a] by (simp add: fits_line_def Let_def) (simp add: t d)
qed

lemma write_entries_run:
  assumes "fs_behaves F V"
  shows "V w p = Some s \<Longrightarrow> \<exists>w'. write_entries F p m ks w = (Inr (), w') \<and>
     V w' = (V w)(p \<mapsto> s @ concat (map (\<lambda>k. env_line (k, the (map_of m k))) ks))"
proof (induction ks arbitrary: w s)
  case (Cons k ks)
  obtain w1 where w1: "append_file F p (env_line (k, the (map_of m k))) w = (Inr (), w1)"
      "V w1 = (V w)(p \<mapsto> s @ env_line (k, the (map_of m k)))" using fs_append [OF assms Cons(2)] by blast
  then have "V w1 p = Some (s @ env_line (k, the (map_of m k)))" by simp
  from Cons(1) [OF this] obtain w2 where "write_entries F p m ks w1 = (Inr (), w2)"
      "V w2 = (V w1)(p \<mapsto> (s @ env_line (k, the (map_of m k))) @ concat (map (\<lambda>k. env_line (k, the (map_of m k))) ks))" by blast
  then show ?case using w1 by (simp add: Let_def bindE_Inr [OF mapErr_ok] fun_eq_iff)
qed (simp add: fun_upd_idem)

lemma write_subnet_file:
  assumes "fs_behaves F V"
  shows "\<exists>order w'. mset order = mset (map fst m) \<and> WriteSubnetFile F m w = (Inr (), w') \<and>
    V w' subnet_path = Some (concat (map (\<lambda>k. env_line (k, the (map_of m k))) order))"
proof -
  define t0 where "t0 = ''/var/run/simplecni/.subnet.env''"
  obtain w1 where w1: "mkdir_all F ''/var/run/simplecni/'' w = (Inr (), w1)" using fs_mkdir [OF assms] by blast
  obtain w2 where w2: "create_file F t0 w1 = (Inr (), w2)" "V w2 = (V w1)(t0 \<mapsto> [])" using fs_create [OF assms] by blast
  obtain order w3 where w3: "range_keys F (map fst m) w2 = (Inr order, w3)" "mset order = mset (map fst m)" "V w3 = V w2"
    using fs_range [OF assms] by blast
  have "V w3 t0 = Some []" using w2 w3 by simp
  from write_entries_run [OF assms this] obtain w4 where w4: "write_entries F t0 m order w3 = (Inr (), w4)"
      "V w4 = (V w3)(t0 \<mapsto> [] @ concat (map (\<lambda>k. env_line (k, the (map_of m k))) order))" by blast
  from w4(2) have t: "V w4 t0 = Some (concat (map (\<lambda>k. env_line (k, the (map_of m k))) order))" by simp
  obtain w5 where w5: "rename_file F t0 subnet_path w4 = (Inr (), w5)"
      "V w5 = (V w4)(t0 := None, subnet_path \<mapsto> concat (map (\<lambda>k. env_line (k, the (map_of m k))) order))"
    using fs_rename [OF assms t] by blast
  have "WriteSubnetFile F m w = (Inr (), w5)"
    using w1 w2(1) w3(1) w4(1) w5(1) by (simp add: WriteSubnetFile_def t0_def [symmetric] bindE_Inr mapErr_ok Let_def)
  then show ?thesis using w3(2) w5(2) by auto
qed

lemma raw_lines_concat: "\<forall>l\<in>set ls. CHR 0x0A \<notin> set l \<Longrightarrow> raw_lines (concat (map (\<lambda>l. l @ [CHR 0x0A]) ls)) = ls"
proof -
  assume "\<forall>l\<in>set ls. CHR 0x0A \<notin> set l"
  then have "split_char (CHR 0x0A) (concat (map (\<lambda>l. l @ [CHR 0x0A]) ls)) = ls @ [[]]"
    by (induction ls) (auto simp: split_char_app)
  then show ?thesis by (simp add: raw_lines_def Let_def)
qed

lemma load_keys:
  "(\<And>k e. k \<in> set ks \<Longrightarrow> load_line (drop_cr (ln k)) e = Inr (f k e)) \<Longrightarrow> (\<And>k. k \<in> set ks \<Longrightarrow> length (ln k) \<le> 65535) \<Longrightarrow>
     load_lines (map ln ks) e = Inr (fold f ks e)"
proof (induction ks arbitrary: e)
  case (Cons k ks)
  have "load_line (drop_cr (ln k)) e = Inr (f k e)" "\<not> length (ln k) > 65535"
    using Cons(2) [of k] Cons(3) [of k] by simp_all
  then show ?case using Cons(1) [of "f k e"] Cons(2,3) by simp
qed simp

definition set_key :: "IPNet option \<Rightarrow> IPNet option \<Rightarrow> string \<Rightarrow> subnetEnv \<Rightarrow> subnetEnv" where
  "set_key n4 n6 k e =
     (if k = ''SUBNET'' then e\<lparr>sn := n4\<rparr> else if k = ''IPV6_SUBNET'' then e\<lparr>ip6Sn := n6\<rparr>
      else if k = ''MTU'' then e\<lparr>mtu := Some 1450\<rparr> else if k = ''IPMASQ'' then e\<lparr>ipmasq := Some True\<rparr>
      else e\<lparr>backend := ''wireguard''\<rparr>)"

lemma set_keys:
  "sn (fold (set_key n4 n6) ks e) = (if ''SUBNET'' \<in> set ks then n4 else sn e)"
  "ip6Sn (fold (set_key n4 n6) ks e) = (if ''IPV6_SUBNET'' \<in> set ks then n6 else ip6Sn e)"
  "mtu (fold (set_key n4 n6) ks e) = (if ''MTU'' \<in> set ks then Some 1450 else mtu e)"
  "ipmasq (fold (set_key n4 n6) ks e) = (if ''IPMASQ'' \<in> set ks then Some True else ipmasq e)"
  "set ks \<subseteq> {''SUBNET'', ''IPV6_SUBNET'', ''MTU'', ''IPMASQ'', ''BACKEND''} \<Longrightarrow>
     backend (fold (set_key n4 n6) ks e) = (if ''BACKEND'' \<in> set ks then ''wireguard'' else backend e)"
  "nws (fold (set_key n4 n6) ks e) = nws e" "ip6Nws (fold (set_key n4 n6) ks e) = ip6Nws e"
  by (induction ks arbitrary: e) (auto simp: set_key_def)

definition net_key :: "string \<Rightarrow> IPNet option list \<Rightarrow> (string \<times> string) list" where
  "net_key k xs = (case xs of [] \<Rightarrow> [] | n # _ \<Rightarrow> [(k, IPNet_String n)])"

definition net_head :: "IPNet option list \<Rightarrow> IPNet option" where
  "net_head xs = (case xs of [] \<Rightarrow> None | n # _ \<Rightarrow> n)"

definition head_fits :: "IPNet option list \<Rightarrow> bool" where
  "head_fits xs \<longleftrightarrow> (case xs of [] \<Rightarrow> True | n # _ \<Rightarrow> (case n of None \<Rightarrow> False | Some n \<Rightarrow> fits_line n))"

definition backend_map :: "bool \<Rightarrow> Lease \<Rightarrow> (string \<times> string) list" where
  "backend_map wg l = (if wg then wg_GetSubnetMap l else vxlan_GetSubnetMap l)"

lemma backend_map_is:
  "backend_map wg l = (if wg then [] else [(''MTU'', ''1450'')]) @ net_key ''SUBNET'' (CidrIPv4 l) @ net_key ''IPV6_SUBNET'' (CidrIPv6 l) @
     [(''IPMASQ'', ''true'')] @ (if wg then [(''BACKEND'', ''wireguard'')] else [])"
  by (simp add: backend_map_def wg_GetSubnetMap_def vxlan_GetSubnetMap_def net_key_def)

text \<open>What the lines of the file say.\<close>

definition env_text :: "string \<times> string \<Rightarrow> string" where
  "env_text kv = ToUpper (fst kv) @ ''='' @ snd kv"

lemma upper_keys: "ToUpper ''SUBNET'' = ''SUBNET''" "ToUpper ''IPV6_SUBNET'' = ''IPV6_SUBNET''" "ToUpper ''MTU'' = ''MTU''"
    "ToUpper ''IPMASQ'' = ''IPMASQ''" "ToUpper ''BACKEND'' = ''BACKEND''"
  by code_simp+

lemma drop_cr_id: "CHR 0x0D \<notin> set l \<Longrightarrow> drop_cr l = l"
  using last_in_set by (fastforce simp: drop_cr_def)

lemma load_net_line:
  assumes "fits_line n"
  shows "load_line (env_text (''SUBNET'', IPNet_String (Some n))) e = Inr (e\<lparr>sn := Some n\<rparr>)"
    and "load_line (env_text (''IPV6_SUBNET'', IPNet_String (Some n))) e = Inr (e\<lparr>ip6Sn := Some n\<rparr>)"
  using assms by (auto simp: fits_line_def Let_def env_text_def upper_keys load_line_def HasPrefix_def split: sum.splits)

lemma load_const_lines:
  "load_line (env_text (''MTU'', ''1450'')) e = Inr (e\<lparr>mtu := Some 1450\<rparr>)"
  "load_line (env_text (''IPMASQ'', ''true'')) e = Inr (e\<lparr>ipmasq := Some True\<rparr>)"
  "load_line (env_text (''BACKEND'', ''wireguard'')) e = Inr (e\<lparr>backend := ''wireguard''\<rparr>)"
proof -
  have "ParseUint32 ''1450'' = Some 1450" by (simp add: ParseUint32_def digit_of_def)
  then show "load_line (env_text (''MTU'', ''1450'')) e = Inr (e\<lparr>mtu := Some 1450\<rparr>)"
    by (simp add: env_text_def upper_keys load_line_def HasPrefix_def)
qed (simp_all add: env_text_def upper_keys load_line_def HasPrefix_def)

lemma net_key_entry: "(k, v) \<in> set (net_key k' xs) \<Longrightarrow> head_fits xs \<Longrightarrow>
    (\<And>n. k = k' \<Longrightarrow> v = IPNet_String (Some n) \<Longrightarrow> net_head xs = Some n \<Longrightarrow> fits_line n \<Longrightarrow> P) \<Longrightarrow> P"
  by (cases xs) (auto simp: net_key_def net_head_def head_fits_def split: option.splits)

text \<open>The entries of a map whose networks fit: the line of each is read into its field.\<close>

definition good_entry :: "Lease \<Rightarrow> string \<Rightarrow> string \<Rightarrow> bool" where
  "good_entry l k v \<longleftrightarrow> (\<forall>e. load_line (env_text (k, v)) e = Inr (set_key (net_head (CidrIPv4 l)) (net_head (CidrIPv6 l)) k e)) \<and>
     length (env_text (k, v)) \<le> 65535 \<and> CHR 0x0A \<notin> set (env_text (k, v)) \<and> CHR 0x0D \<notin> set (env_text (k, v))"

lemma good_consts: "good_entry l ''MTU'' ''1450''" "good_entry l ''IPMASQ'' ''true''" "good_entry l ''BACKEND'' ''wireguard''"
  by (simp_all add: good_entry_def load_const_lines set_key_def) (simp_all add: env_text_def upper_keys)

lemma good_nets:
  "net_head (CidrIPv4 l) = Some n \<Longrightarrow> fits_line n \<Longrightarrow> good_entry l ''SUBNET'' (IPNet_String (Some n))"
  "net_head (CidrIPv6 l) = Some n \<Longrightarrow> fits_line n \<Longrightarrow> good_entry l ''IPV6_SUBNET'' (IPNet_String (Some n))"
  by (simp_all add: good_entry_def load_net_line set_key_def) (simp_all add: env_text_def upper_keys fits_line_def Let_def)

lemma backend_entry:
  assumes "(k, v) \<in> set (backend_map wg l)" "head_fits (CidrIPv4 l)" "head_fits (CidrIPv6 l)"
  shows "good_entry l k v"
proof -
  have "(k, v) = (''MTU'', ''1450'') \<or> (k, v) \<in> set (net_key ''SUBNET'' (CidrIPv4 l)) \<or> (k, v) \<in> set (net_key ''IPV6_SUBNET'' (CidrIPv6 l)) \<or>
      (k, v) = (''IPMASQ'', ''true'') \<or> (k, v) = (''BACKEND'', ''wireguard'')"
    using assms(1) unfolding backend_map_is set_append Un_iff by (cases wg) (simp_all only: if_True if_False list.set insert_iff empty_iff, fast+)
  then show ?thesis
  proof (elim disjE)
    assume "(k, v) \<in> set (net_key ''SUBNET'' (CidrIPv4 l))"
    then show ?thesis by (rule net_key_entry [OF _ assms(2)]) (simp only: good_nets)
  next
    assume "(k, v) \<in> set (net_key ''IPV6_SUBNET'' (CidrIPv6 l))"
    then show ?thesis by (rule net_key_entry [OF _ assms(3)]) (simp only: good_nets)
  qed (simp_all only: prod.inject good_consts)
qed

lemma distinct_backend_map: "distinct (map fst (backend_map wg l))"
  unfolding backend_map_is by (auto simp: net_key_def split: list.splits)

lemma backend_keys:
  "''SUBNET'' \<in> fst ` set (backend_map wg l) \<longleftrightarrow> CidrIPv4 l \<noteq> []" "''IPV6_SUBNET'' \<in> fst ` set (backend_map wg l) \<longleftrightarrow> CidrIPv6 l \<noteq> []"
  "''MTU'' \<in> fst ` set (backend_map wg l) \<longleftrightarrow> \<not> wg" "''IPMASQ'' \<in> fst ` set (backend_map wg l)"
  "''BACKEND'' \<in> fst ` set (backend_map wg l) \<longleftrightarrow> wg"
  "fst ` set (backend_map wg l) \<subseteq> {''SUBNET'', ''IPV6_SUBNET'', ''MTU'', ''IPMASQ'', ''BACKEND''}"
  unfolding backend_map_is net_key_def by (cases wg; cases "CidrIPv4 l"; cases "CidrIPv6 l"; simp)+

text \<open>C18. The plugin reads from the subnet file what the daemon wrote, in whatever order the map of the backend
  is visited: the first ranges of the lease, the MTU of the vxlan backend, the name of the
  wireguard backend, and that masquerading is on.\<close>

theorem subnet_file_round_trip:
  assumes "fs_behaves F V" "head_fits (CidrIPv4 l)" "head_fits (CidrIPv6 l)" "CidrIPv4 l \<noteq> [] \<or> CidrIPv6 l \<noteq> []"
  shows "\<exists>w1 w2. WriteSubnetFile F (if wg then wg_GetSubnetMap l else vxlan_GetSubnetMap l) w = (Inr (), w1) \<and>
    loadSubnetEnv F subnet_path w1 = (Inr \<lparr>nws = [], sn = net_head (CidrIPv4 l), ip6Nws = [], ip6Sn = net_head (CidrIPv6 l),
      mtu = (if wg then None else Some 1450), ipmasq = Some True, backend = (if wg then ''wireguard'' else [])\<rparr>, w2)"
proof -
  let ?m = "backend_map wg l" and ?f = "set_key (net_head (CidrIPv4 l)) (net_head (CidrIPv6 l))"
  obtain order w1 where run: "mset order = mset (map fst ?m)" "WriteSubnetFile F ?m w = (Inr (), w1)"
      "V w1 subnet_path = Some (concat (map (\<lambda>k. env_line (k, the (map_of ?m k))) order))"
    using write_subnet_file [OF assms(1)] by blast
  have so: "set order = fst ` set ?m" using run(1) by (metis list.set_map set_mset_mset)
  let ?ln = "\<lambda>k. env_text (k, the (map_of ?m k))"
  have en: "(k, the (map_of ?m k)) \<in> set ?m" if k: "k \<in> set order" for k
  proof -
    obtain v where "map_of ?m k = Some v" using k so by (metis (no_types) map_of_eq_None_iff not_Some_eq)
    then show ?thesis using map_of_SomeD by fastforce
  qed
  note ent = backend_entry [OF en assms(2,3)]
  have cc: "concat (map (\<lambda>k. env_line (k, the (map_of ?m k))) order) = concat (map (\<lambda>l. l @ [CHR 0x0A]) (map ?ln order))"
    by (simp add: env_line_def env_text_def o_def)
  have "\<forall>l\<in>set (map ?ln order). CHR 0x0A \<notin> set l" using ent by (simp add: good_entry_def)
  then have raw: "raw_lines (concat (map (\<lambda>k. env_line (k, the (map_of ?m k))) order)) = map ?ln order"
    unfolding cc by (rule raw_lines_concat)
  have ld: "load_lines (map ?ln order) empty_env = Inr (fold ?f order empty_env)"
  proof (rule load_keys)
    fix k e assume k: "k \<in> set order"
    show "load_line (drop_cr (?ln k)) e = Inr (?f k e)" using ent [OF k] drop_cr_id by (simp add: good_entry_def)
    show "length (?ln k) \<le> 65535" using ent [OF k] by (simp add: good_entry_def)
  qed
  let ?e = "\<lparr>nws = [], sn = net_head (CidrIPv4 l), ip6Nws = [], ip6Sn = net_head (CidrIPv6 l),
      mtu = (if wg then None else Some 1450), ipmasq = Some True, backend = (if wg then ''wireguard'' else [])\<rparr>"
  note mem = backend_keys [of wg l, folded so]
  have hd: "(if CidrIPv4 l \<noteq> [] then net_head (CidrIPv4 l) else None) = net_head (CidrIPv4 l)"
    "(if CidrIPv6 l \<noteq> [] then net_head (CidrIPv6 l) else None) = net_head (CidrIPv6 l)" by (simp_all add: net_head_def)
  have fe: "fold ?f order empty_env = ?e"
    by (rule subnetEnv.equality) (simp_all only: set_keys set_keys(5) [OF mem(6)] mem(1-5) subnetEnv.select_convs empty_env_def hd if_True if_not_P not_not, simp_all)
  have "missing ?e = []" using assms(2-4)
    by (auto simp: missing_def net_head_def head_fits_def split: list.splits option.splits)
  obtain w2 where "read_file F subnet_path w1 = (Inr (concat (map (\<lambda>k. env_line (k, the (map_of ?m k))) order)), w2)"
    using fs_read [OF assms(1), of subnet_path w1] run(3) by auto
  then have "loadSubnetEnv F subnet_path w1 = (Inr ?e, w2)"
    using \<open>missing ?e = []\<close> by (simp add: loadSubnetEnv_def io_simps raw ld fe)
  then show ?thesis using run(2) unfolding backend_map_def by blast
qed

subsection \<open>Nodes that come back with another hardware address\<close>

lemma handle_added:
  assumes "kernel_sets L V" "CidrIPv4 l = c # cs" "attr l ''VxlanIP'' = Some a" "attr l ''VxlanMac'' = Some m" "attr l ''IPAddr'' = Some d"
  shows "\<exists>w'. vxlan_HandleEvent L dev (EventAdded, l) w = (Inr (), w') \<and>
    V w' = with_peer (lIndex dev) (ip_or_nil a) (mac_or_nil m) (ip_or_nil d) c (V w)"
proof -
  obtain w' where "ConfigurePeer L dev (ip_or_nil a) (mac_or_nil m) (ip_or_nil d) c w = (Inr (), w')"
      "V w' = with_peer (lIndex dev) (ip_or_nil a) (mac_or_nil m) (ip_or_nil d) c (V w)"
    using configure_peer_run [OF assms(1)] by blast
  then show ?thesis using assms(2-5) by (simp add: vxlan_HandleEvent_def io_simps)
qed

lemma handle_removed:
  assumes "kernel_deletes L V" "CidrIPv4 l = c # cs" "attr l ''VxlanIP'' = Some a" "attr l ''VxlanMac'' = Some m" "attr l ''IPAddr'' = Some d"
    and "arps (V w) (lIndex dev, ip_or_nil a) \<noteq> None" "fdbs (V w) (lIndex dev, mac_or_nil m) \<noteq> None" "routes (V w) c \<noteq> None"
  shows "\<exists>w'. vxlan_HandleEvent L dev (EventRemoved, l) w = (Inr (), w') \<and>
    V w' = without_peer (lIndex dev) (ip_or_nil a) (mac_or_nil m) c (V w)"
proof -
  obtain w' where "RemovePeer L dev (ip_or_nil a) (mac_or_nil m) (ip_or_nil d) c w = (Inr (), w')"
      "V w' = without_peer (lIndex dev) (ip_or_nil a) (mac_or_nil m) c (V w)"
    using remove_peer_run [OF assms(1), of dev "ip_or_nil a" "mac_or_nil m" "ip_or_nil d" c w] assms(6-8) by metis
  then show ?thesis using assms(2-5) by (simp add: vxlan_HandleEvent_def io_simps)
qed

text \<open>A node that comes back with another hardware address: its new peer is configured and, when the
  node goes, removed, but the forwarding entry of the old address stays for good.\<close>

theorem changed_mac_leaves_entry:
  assumes "kernel_sets L V" "kernel_deletes L V"
    and "CidrIPv4 l1 = c1 # cs1" "attr l1 ''VxlanIP'' = Some a1" "attr l1 ''VxlanMac'' = Some m1" "attr l1 ''IPAddr'' = Some d1"
    and "CidrIPv4 l2 = c2 # cs2" "attr l2 ''VxlanIP'' = Some a2" "attr l2 ''VxlanMac'' = Some m2" "attr l2 ''IPAddr'' = Some d2"
    and "mac_or_nil m1 \<noteq> mac_or_nil m2"
  shows "\<exists>w1 w2 w3. vxlan_HandleEvent L dev (EventAdded, l1) w = (Inr (), w1) \<and>
    vxlan_HandleEvent L dev (EventAdded, l2) w1 = (Inr (), w2) \<and>
    vxlan_HandleEvent L dev (EventRemoved, l2) w2 = (Inr (), w3) \<and>
    fdbs (V w3) (lIndex dev, mac_or_nil m1) = Some (ip_or_nil d1) \<and> fdbs (V w3) (lIndex dev, mac_or_nil m2) = None"
proof -
  obtain w1 where w1: "vxlan_HandleEvent L dev (EventAdded, l1) w = (Inr (), w1)"
      "V w1 = with_peer (lIndex dev) (ip_or_nil a1) (mac_or_nil m1) (ip_or_nil d1) c1 (V w)"
    using handle_added [OF assms(1,3-6)] by blast
  obtain w2 where w2: "vxlan_HandleEvent L dev (EventAdded, l2) w1 = (Inr (), w2)"
      "V w2 = with_peer (lIndex dev) (ip_or_nil a2) (mac_or_nil m2) (ip_or_nil d2) c2 (V w1)"
    using handle_added [OF assms(1,7-10)] by blast
  have "arps (V w2) (lIndex dev, ip_or_nil a2) \<noteq> None" "fdbs (V w2) (lIndex dev, mac_or_nil m2) \<noteq> None" "routes (V w2) c2 \<noteq> None"
    unfolding w2(2) by (simp_all add: peer_defs)
  then obtain w3 where w3: "vxlan_HandleEvent L dev (EventRemoved, l2) w2 = (Inr (), w3)"
      "V w3 = without_peer (lIndex dev) (ip_or_nil a2) (mac_or_nil m2) c2 (V w2)"
    using handle_removed [OF assms(2,7-10)] by blast
  have "fdbs (V w3) (lIndex dev, mac_or_nil m1) = Some (ip_or_nil d1)" "fdbs (V w3) (lIndex dev, mac_or_nil m2) = None"
    using w1(2) w2(2) w3(2) assms(11) by (simp_all add: peer_defs)
  then show ?thesis using w1(1) w2(1) w3(1) by blast
qed

subsection \<open>A cluster\<close>

definition ex_kube :: "(string \<rightharpoonup> node) kube" where
  "ex_kube = \<lparr>get_node = \<lambda>name s. (case s name of Some n \<Rightarrow> Inr n | None \<Rightarrow> Inl (Plain ''not found''), s),
     list_pods = ret [[\<lparr>pArgs = [], pCommand = [''--cluster-cidr='' @ IPNet_String (Some (net4 [10, 244, 0, 0] 16)) @ '',fd00::/48'']\<rparr>]],
     patch_annotations = \<lambda>name old new s. (Inr (), s(name := map_option (\<lambda>n. n\<lparr>Annotations := Some new\<rparr>) (s name))),
     patch_status = \<lambda>name. ret (), range_attrs = ret\<rparr>"

lemma ex_kube_behaves: "kube_behaves ex_kube (\<lambda>s. s)"
  by (auto simp: kube_behaves_def ex_kube_def)

definition ex_node :: node where
  "ex_node = \<lparr>nName = ''n1'', PodCIDR = ''10.244.1.0/24'', PodCIDRs = [IPNet_String (Some (net4 [10, 244, 1, 0] 24))],
     Annotations = Some []\<rparr>"

abbreviation "ex_attrs \<equiv> [(''IPAddr'', ipv4_text dip0), (''VxlanIP'', ipv4_text vip0), (''VxlanMac'', mac_String mac0)]"

lemma dual_stack_ranges_swapped_witness:
  "\<exists>l. AcquireLease ex_kube ''n1'' [''n1'' \<mapsto> ex_node] = (Inr l, [''n1'' \<mapsto> ex_node]) \<and>
     ClusterCidrIPv4 l = parse_net ''fd00::/48'' \<and> ClusterCidrIPv6 l = Some (net4 [10, 244, 0, 0] 16)"
proof -
  have g: "get_node ex_kube ''n1'' [''n1'' \<mapsto> ex_node] = (Inr ex_node, [''n1'' \<mapsto> ex_node])" by (simp add: ex_kube_def)
  have o: "own_cidrs (PodCIDRs ex_node) [] [] = Inr ([Some (net4 [10, 244, 1, 0] 24)], [])"
    by (simp add: ex_node_def ParseCIDR_String is_v4_def)
  have l: "list_pods ex_kube [''n1'' \<mapsto> ex_node] = (Inr (([\<lparr>pArgs = [], pCommand = [''--cluster-cidr='' @
      IPNet_String (Some (net4 [10, 244, 0, 0] 16)) @ CHR '','' # ''fd00::/48'']\<rparr>]) # []), [''n1'' \<mapsto> ex_node])" by (simp add: ex_kube_def)
  show ?thesis
    using dual_stack_ranges_swapped [OF g _ o l, of "[10, 244, 0, 0]" 16 "''fd00::/48''" "[]"] by (auto simp: ex_node_def)
qed

lemma ex_keys: "annotation_key ''IPAddr'' = ''simple.io/simplecni-ipaddr''" "annotation_key ''VxlanIP'' = ''simple.io/simplecni-vxlanip''"
    "annotation_key ''VxlanMac'' = ''simple.io/simplecni-vxlanmac''"
  by code_simp+

lemma published_peer_is_configured_witness:
  "\<exists>w' n'. CompleteLease ex_kube ''n1'' ex_attrs [''n1'' \<mapsto> ex_node] = (Inr (), w') \<and> w' ''n1'' = Some n' \<and>
    vxlan_HandleEvent kernel dev0 (EventAdded, nodeToLease n') =
      tryE (ConfigurePeer kernel dev0 (v4_prefix @ vip0) mac0 (v4_prefix @ dip0) (Some (net4 [10, 244, 1, 0] 24))) (\<lambda>_. ret ()) ret"
proof -
  have k: "inj_on annotation_key (fst ` set ex_attrs)" by (simp add: inj_on_def ex_keys)
  have ne: "[] \<notin> snd ` set ex_attrs" by (simp add: ipv4_text4 mac_String_def)
  have a: "map_of ex_attrs ''VxlanIP'' = Some (ipv4_text vip0)" "map_of ex_attrs ''VxlanMac'' = Some (mac_String mac0)"
    "map_of ex_attrs ''IPAddr'' = Some (ipv4_text dip0)" by simp_all
  have n: "[''n1'' \<mapsto> ex_node] (nName ex_node) = Some ex_node" "PodCIDR ex_node \<noteq> []" "Annotations ex_node = Some []"
    "PodCIDRs ex_node = IPNet_String (Some (net4 [10, 244, 1, 0] 24)) # []" "''n2'' \<noteq> nName ex_node" "nName ex_node = ''n1''"
    by (simp_all add: ex_node_def)
  show ?thesis
    using published_peer_is_configured [where V = "\<lambda>s. s" and w = "[''n1'' \<mapsto> ex_node]" and n = ex_node and ip = vip0 and k = 24
        and attrs = ex_attrs and vip = vip0 and dip = dip0 and mac = mac0 and self = "''n2''" and ranges = "[]" and old = "[]" and evs = "[]"
        and L = kernel and dev = dev0, OF ex_kube_behaves n(1-4) _ _ _ k ne a(1) _ a(2) _ a(3) _ n(5)] n(6)
    by auto
qed

lemma no_annotations_publish_nothing_witness:
  "\<exists>w'. CompleteLease ex_kube ''n1'' ex_attrs [''n1'' \<mapsto> ex_node\<lparr>Annotations := None\<rparr>] = (Inr (), w') \<and>
    w' = [''n1'' \<mapsto> ex_node\<lparr>Annotations := None\<rparr>]"
  using no_annotations_publish_nothing [OF ex_kube_behaves, of "[''n1'' \<mapsto> ex_node\<lparr>Annotations := None\<rparr>]" "''n1''"
      "ex_node\<lparr>Annotations := None\<rparr>" ex_attrs kernel dev0 EventAdded]
  by (auto simp: ex_node_def)

definition ex_lease :: "string \<Rightarrow> Lease" where
  "ex_lease m = \<lparr>CidrIPv4 = [Some (net4 [10, 244, 1, 0] 24)], CidrIPv6 = [], ClusterCidrIPv4 = None, ClusterCidrIPv6 = None,
     AttrMap = [annotation_key ''IPAddr'' \<mapsto> ''192.168.0.2'', annotation_key ''VxlanIP'' \<mapsto> ''10.244.1.0'', annotation_key ''VxlanMac'' \<mapsto> m]\<rparr>"

lemma ex_lease_attrs: "attr (ex_lease m) ''IPAddr'' = Some ''192.168.0.2''" "attr (ex_lease m) ''VxlanIP'' = Some ''10.244.1.0''"
    "attr (ex_lease m) ''VxlanMac'' = Some m" "CidrIPv4 (ex_lease m) = Some (net4 [10, 244, 1, 0] 24) # []" "CidrIPv6 (ex_lease m) = []"
  by (simp_all add: attr_def ex_lease_def ex_keys)

lemma subnet_file_round_trip_witness:
  "\<exists>w1 w2. WriteSubnetFile map_files (wg_GetSubnetMap (ex_lease [])) (\<lambda>_. None) = (Inr (), w1) \<and>
    loadSubnetEnv map_files subnet_path w1 = (Inr \<lparr>nws = [], sn = Some (net4 [10, 244, 1, 0] 24), ip6Nws = [], ip6Sn = None,
      mtu = None, ipmasq = Some True, backend = ''wireguard''\<rparr>, w2)"
proof -
  have "head_fits (CidrIPv4 (ex_lease []))" "head_fits (CidrIPv6 (ex_lease []))"
    by (simp_all add: ex_lease_attrs head_fits_def net4_fits)
  then show ?thesis
    using subnet_file_round_trip [OF map_files_behaves, of "ex_lease []" True "\<lambda>_. None"] by (simp add: ex_lease_attrs net_head_def)
qed

lemma changed_mac_leaves_entry_witness:
  "\<exists>w1 w2 w3. vxlan_HandleEvent kernel dev0 (EventAdded, ex_lease (mac_String mac0)) idle = (Inr (), w1) \<and>
    vxlan_HandleEvent kernel dev0 (EventAdded, ex_lease (mac_String [2, 0, 0, 0, 0, 3])) w1 = (Inr (), w2) \<and>
    vxlan_HandleEvent kernel dev0 (EventRemoved, ex_lease (mac_String [2, 0, 0, 0, 0, 3])) w2 = (Inr (), w3) \<and>
    fdbs w3 (7, mac0) \<noteq> None"
proof -
  have m: "mac_or_nil (mac_String mac0) = mac0" "mac_or_nil (mac_String [2, 0, 0, 0, 0, 3]) = [2, 0, 0, 0, 0, 3]"
    by (simp_all add: mac_or_nil_def ParseMAC_String)
  then have ne: "mac_or_nil (mac_String mac0) \<noteq> mac_or_nil (mac_String [2, 0, 0, 0, 0, 3])" by simp
  show ?thesis
    using changed_mac_leaves_entry [OF kernel_laws(1,2) ex_lease_attrs(4,2,3,1) ex_lease_attrs(4,2,3,1) ne, of dev0 idle]
    by (auto simp: m dev0_def)
qed

end
