(* ===== verification/CniDaemon.thy ===== *)
theory CniDaemon
  imports CniNodes CniManager CniNft
begin

section \<open>simplecni: configuration and start of the daemon (pkg/netconfig, pkg/backend)\<close>

text \<open>
  The daemon picks the interface of the node and its addresses from its configuration, acquires
  the ranges of the node, sets the traffic rules, the subnet file and the device up, publishes
  its addresses and then handles the events of the other nodes. The record \<open>ifsys\<close> has the calls about interfaces
  (package \<open>net\<close> and the library netlink) and \<open>regexp.Compile\<close>; \<open>starter\<close> those that make a client
  of the cluster and read the environment. \<open>os.Exit\<close> is a panic: nothing runs after it. Log output is left out.
\<close>

subsection \<open>Interfaces (pkg/utils/network/iface.go, ip.go)\<close>

record interface = ifName :: string ifIndex :: int

record 'w ifsys =
  interfaces :: "('w, interface list) io"
  interface_by_index :: "int \<Rightarrow> ('w, interface) io"
  route_list :: "('w, (IPNet option \<times> int) list) io"
  addr_ips :: "int \<Rightarrow> bool \<Rightarrow> ('w, IP list) io"
  dev_by_name :: "string \<Rightarrow> ('w, int \<times> int) io"
  compile_regex :: "string \<Rightarrow> (string \<Rightarrow> bool) option"

definition NoMatchIface :: goerr where "NoMatchIface = Plain ''nomatchiface''"
definition NotFoundIP :: goerr where "NotFoundIP = Plain ''notfoundip''"

text \<open>\<open>net.IP.IsGlobalUnicast\<close>\<close>

definition IsGlobalUnicast :: "IP \<Rightarrow> bool" where
  "IsGlobalUnicast ip \<longleftrightarrow> (length ip = 4 \<or> length ip = 16) \<and>
     (case To4 ip of
        Some a \<Rightarrow> a \<noteq> [255, 255, 255, 255] \<and> a \<noteq> [0, 0, 0, 0] \<and> a ! 0 \<noteq> 127 \<and> a ! 0 AND 0xf0 \<noteq> 0xe0
      | None \<Rightarrow> ip \<noteq> replicate 16 0 \<and> ip \<noteq> replicate 15 0 @ [1] \<and> ip ! 0 \<noteq> 0xff) \<and>
     \<not> IsLinkLocalUnicast ip"

definition pick_ips :: "(IP \<Rightarrow> bool) \<Rightarrow> IP list \<Rightarrow> goerr + IP list" where
  "pick_ips usable addrs =
     (let us = filter usable addrs; ipAddrs = filter IsGlobalUnicast us;
          ll = filter (\<lambda>a. \<not> IsGlobalUnicast a \<and> IsLinkLocalUnicast a) us;
          found = (if length ll > 0 then ipAddrs @ ll else ipAddrs)
      in if length found > 0 then Inr found else Inl NotFoundIP)"

definition GetInterfaceIP4Addrs :: "'w ifsys \<Rightarrow> interface \<Rightarrow> ('w, IP list) io" where
  "GetInterfaceIP4Addrs H i = bindE (addr_ips H (ifIndex i) False) (\<lambda>addrs. lift (pick_ips (\<lambda>a. To4 a \<noteq> None) addrs))"

definition GetInterfaceIP6Addrs :: "'w ifsys \<Rightarrow> interface \<Rightarrow> ('w, IP list) io" where
  "GetInterfaceIP6Addrs H i =
     bindE (addr_ips H (ifIndex i) True) (\<lambda>addrs. lift (pick_ips (\<lambda>a. length a = 4 \<or> length a = 16) addrs))"

definition GetDefaultGatewayInterface :: "'w ifsys \<Rightarrow> ('w, interface) io" where
  "GetDefaultGatewayInterface H =
     bindE (route_list H) (\<lambda>routes.
     case find (\<lambda>(dst, i). dst = None \<or> IPNet_String dst = ''0.0.0.0/0'') routes of
       None \<Rightarrow> fail (Plain ''Unable to find default route'')
     | Some (_, i) \<Rightarrow>
         if i \<le> 0 then fail (Plain ''Found default route but could not determine interface'')
         else interface_by_index H i)"

definition GetInterfaceByName :: "'w ifsys \<Rightarrow> string \<Rightarrow> ('w, interface) io" where
  "GetInterfaceByName H name =
     bindE (interfaces H) (\<lambda>ifaces. case find (\<lambda>i. ifName i = name) ifaces of Some i \<Rightarrow> ret i | None \<Rightarrow> fail NoMatchIface)"

text \<open>The error of the regular expression is dropped: without one, the first match panics.\<close>

definition GetInterfaceByNameRegex :: "'w ifsys \<Rightarrow> string \<Rightarrow> ('w, interface list) io" where
  "GetInterfaceByNameRegex H re =
     bindE (interfaces H) (\<lambda>ifaces.
     case compile_regex H re of
       Some matches \<Rightarrow> ret (filter (\<lambda>i. matches (ifName i)) ifaces)
     | None \<Rightarrow> if ifaces = [] then ret [] else fail (Panic ''nil pointer''))"

definition trailing_zeros8 :: "byte \<Rightarrow> int" where
  "trailing_zeros8 b = int (length (takeWhile (\<lambda>i. \<not> bit b i) [0..<8]))"

definition CountMaskLen :: "byte list \<Rightarrow> int" where
  "CountMaskLen m = 32 - (trailing_zeros8 (m ! 3) + trailing_zeros8 (m ! 2) + trailing_zeros8 (m ! 1))"

subsection \<open>The configuration (pkg/netconfig)\<close>

record NodeConfig =
  BackendType :: string
  Configmap :: "(string \<times> string) list"
  Netlink :: "(int \<times> int) option"

text \<open>The interfaces named. Only an interface that does not exist ends the search; any other error skips it.\<close>

primrec named_ifaces :: "'w ifsys \<Rightarrow> string list \<Rightarrow> ('w, interface list) io" where
  "named_ifaces H [] = ret []"
| "named_ifaces H (n # ns) =
     tryE (GetInterfaceByName H n)
       (\<lambda>err. if err = NoMatchIface then fail (Plain (''get iface '' @ n @ '' error by name: '' @ err_text err))
              else named_ifaces H ns)
       (\<lambda>i. bindE (named_ifaces H ns) (\<lambda>is. ret (i # is)))"

definition chosen_ifaces :: "'w ifsys \<Rightarrow> string \<Rightarrow> string list \<Rightarrow> string \<Rightarrow> ('w, interface list) io" where
  "chosen_ifaces H ifaceName ifaceNameList ifaceNameRegex =
     (if ifaceName = [] \<and> ifaceNameList = [] \<and> ifaceNameRegex = [] then
        bindE (mapErr (\<lambda>e. Plain (''get get default gateway interface error: '' @ err_text e)) (GetDefaultGatewayInterface H)) (\<lambda>i. ret [i])
      else
        bindE (named_ifaces H ((if ifaceName \<noteq> [] then [ifaceName] else []) @ ifaceNameList)) (\<lambda>ifaceList.
        if ifaceList \<noteq> [] then
          bindE (mapErr (\<lambda>e. Plain (''get regex iface '' @ ifaceNameRegex @ '' error : '' @ err_text e))
            (GetInterfaceByNameRegex H ifaceNameRegex)) (\<lambda>more. ret (ifaceList @ more))
        else ret ifaceList))"

definition put :: "string \<Rightarrow> string \<Rightarrow> (string \<times> string) list \<Rightarrow> (string \<times> string) list" where
  "put k v m = (k, v) # filter (\<lambda>e. fst e \<noteq> k) m"

text \<open>Every interface writes to the same keys.\<close>

primrec read_addresses :: "'w ifsys \<Rightarrow> interface list \<Rightarrow> NodeConfig \<Rightarrow> ('w, NodeConfig) io" where
  "read_addresses H [] c = ret c"
| "read_addresses H (i # is) c =
     tryE (GetInterfaceIP4Addrs H i) (\<lambda>_. read_addresses H is c) (\<lambda>ipaddr.
     let c1 = c\<lparr>Configmap := put ''IPAddr'' (IP_String (hd ipaddr)) (Configmap c)\<rparr> in
     bindE (mapErr (\<lambda>e. Plain (''get netlink by name '' @ ifName i @ '' error: '' @ err_text e)) (dev_by_name H (ifName i))) (\<lambda>lnk.
     let c2 = c1\<lparr>Netlink := Some lnk\<rparr> in
     tryE (GetInterfaceIP6Addrs H i)
       (\<lambda>err. if err \<noteq> NotFoundIP then fail (Plain (''get ipv6 addr error: '' @ err_text err)) else read_addresses H is c2)
       (\<lambda>ip6. read_addresses H is (c2\<lparr>Configmap := put ''IPAddrV6'' (IP_String (hd ip6)) (Configmap c2)\<rparr>))))"

definition setInterfaceAddressByName :: "'w ifsys \<Rightarrow> string \<Rightarrow> string list \<Rightarrow> string \<Rightarrow> NodeConfig \<Rightarrow> ('w, NodeConfig) io" where
  "setInterfaceAddressByName H ifaceName ifaceNameList ifaceNameRegex cfg =
     bindE (chosen_ifaces H ifaceName ifaceNameList ifaceNameRegex) (\<lambda>ifaceList.
     bindE (read_addresses H ifaceList (cfg\<lparr>Configmap := []\<rparr>)) (\<lambda>c.
     if map_of (Configmap c) ''IPAddr'' = None then fail (Plain ''get address from iface error'') else ret c))"

text \<open>What the library decodes of the text is an argument: the section of the backend, and its fields.\<close>

record backend_section = bType :: string bIface :: string bIfaceList :: "string list" bIfaceMatch :: string

definition parseBackendType :: "'w ifsys \<Rightarrow> (string \<Rightarrow> goerr + backend_section) \<Rightarrow> string \<Rightarrow> NodeConfig \<Rightarrow> ('w, NodeConfig) io" where
  "parseBackendType H decode be cfg =
     bindE (mapErr (\<lambda>e. Plain (''error decoding Backend property of config: '' @ err_text e)) (lift (decode be))) (\<lambda>bt.
     mapErr (\<lambda>e. Plain (''get ip address error: '' @ err_text e))
       (setInterfaceAddressByName H (bIface bt) (bIfaceList bt) (bIfaceMatch bt) (cfg\<lparr>BackendType := bType bt\<rparr>)))"

definition ParseConfig :: "'w ifsys \<Rightarrow> (string \<Rightarrow> goerr + string) \<Rightarrow> (string \<Rightarrow> goerr + backend_section) \<Rightarrow> string \<Rightarrow>
    ('w, NodeConfig) io" where
  "ParseConfig H decode_config decode s =
     bindE (lift (decode_config s)) (\<lambda>be. parseBackendType H decode be \<lparr>BackendType = [], Configmap = [], Netlink = None\<rparr>)"

datatype network_backend = VxlanBackend NodeConfig | WireguardBackend NodeConfig

text \<open>\<open>None\<close> is the nil backend, for which the command exits.\<close>

definition NewNetworkBackend :: "'w files \<Rightarrow> 'w ifsys \<Rightarrow> (string \<Rightarrow> goerr + string) \<Rightarrow> (string \<Rightarrow> goerr + backend_section) \<Rightarrow> string \<Rightarrow>
    ('w, network_backend option) io" where
  "NewNetworkBackend F H decode_config decode path =
     tryE (bindE (read_file F path) (\<lambda>netConf. ParseConfig H decode_config decode netConf)) (\<lambda>_. ret None)
       (\<lambda>sc. ret (Some (if BackendType sc = ''wireguard'' then WireguardBackend sc else VxlanBackend sc)))"

subsection \<open>The node (NewSubnetManager)\<close>

record 'w starter =
  env_var :: "string \<Rightarrow> string"
  build_config :: "('w, unit) io"
  new_client :: "('w, unit) io"
  pod_node :: "string \<Rightarrow> string \<Rightarrow> ('w, string) io"
  wait_synced :: "('w, unit) io"

definition Atoi64 :: "string \<Rightarrow> int option" where
  "Atoi64 s =
     (let neg = (s \<noteq> [] \<and> hd s = CHR ''-''); t = (if s \<noteq> [] \<and> (hd s = CHR ''-'' \<or> hd s = CHR ''+'') then tl s else s)
      in if t = [] then None else case dec_val 0 t of None \<Rightarrow> None
         | Some n \<Rightarrow> (let i = (if neg then - int n else int n) in if - (2 ^ 63) \<le> i \<and> i < 2 ^ 63 then Some i else None))"

definition newKubeSubnetManager :: "'w starter \<Rightarrow> goerr + int" where
  "newKubeSubnetManager S =
     (let scaleStr = env_var S ''EVENT_QUEUE_DEPTH'' in
      if scaleStr \<noteq> [] then
        (case Atoi64 scaleStr of
           None \<Rightarrow> Inl (Plain (''env EVENT_QUEUE_DEPTH='' @ scaleStr @ '' format error''))
         | Some n \<Rightarrow> Inr (if n > 0 then n else 5000))
      else Inr 5000)"

text \<open>The result is the name of the node and the length of the queue of events.\<close>

definition NewSubnetManager :: "'w starter \<Rightarrow> ('w, string \<times> int) io" where
  "NewSubnetManager S =
     bindE (mapErr (\<lambda>e. Plain (''fail to create kubernetes config: '' @ err_text e)) (build_config S)) (\<lambda>_.
     bindE (mapErr (\<lambda>e. Plain (''unable to initialize client: '' @ err_text e)) (new_client S)) (\<lambda>_.
     bindE (if env_var S ''NODE_NAME'' \<noteq> [] then ret (env_var S ''NODE_NAME'')
            else let podName = env_var S ''POD_NAME''; podNamespace = env_var S ''POD_NAMESPACE'' in
              if podName = [] \<or> podNamespace = [] then fail (Plain ''env variables POD_NAME and POD_NAMESPACE must be set'')
              else bindE (mapErr (\<lambda>e. Plain (''error retrieving pod spec for '' @ podNamespace @ ''/'' @ podName @ '': '' @ err_text e))
                     (pod_node S podNamespace podName)) (\<lambda>n.
                   require (n \<noteq> []) (Plain (''node name not present in pod spec '' @ podNamespace @ ''/'' @ podName)) (ret n))) (\<lambda>nodeName.
     bindE (mapErr (\<lambda>e. Plain (''error creating network manager: '' @ err_text e)) (lift (newKubeSubnetManager S))) (\<lambda>depth.
     bindE (mapErr (\<lambda>e. Plain (''error waiting for nodeController to sync state: '' @ err_text e)) (wait_synced S)) (\<lambda>_.
     ret (nodeName, depth))))))"

subsection \<open>The vxlan backend's start\<close>

definition first_cidr :: "IPNet option list \<Rightarrow> ('w, IPNet) io" where
  "first_cidr xs = (case xs of [] \<Rightarrow> fail (Panic ''index out of range [0]'') | None # _ \<Rightarrow> fail (Panic ''nil pointer'')
     | Some n # _ \<Rightarrow> ret n)"

definition or_nil :: "'a list option \<Rightarrow> 'a list" where
  "or_nil x = (case x of Some a \<Rightarrow> a | None \<Rightarrow> [])"

definition Localhost_mask :: "byte list" where "Localhost_mask = CIDRMask 32 32"

definition init_rules :: "'w netsys \<Rightarrow> 'w nftsys \<Rightarrow> 'w files \<Rightarrow> bool \<Rightarrow> Lease \<Rightarrow> IPNet \<Rightarrow> ('w \<times> iptm, unit) io" where
  "init_rules N T F nft l n =
     (if \<not> nft then bindE (mgr (\<lambda>_. new_iptm)) (\<lambda>_. Init N F (ClusterCidrIPv4 l) (Some n) (ClusterCidrIPv6 l) None)
      else (\<lambda>(w, s). case nft_Init T F (ClusterCidrIPv4 l) (Some n) (ClusterCidrIPv6 l) None (w, \<lparr>ncidrm = None, randomfullySupported = False\<rparr>) of
              (r, (w', _)) \<Rightarrow> (r, (w', s))))"

text \<open>The range of the lease gets the mask of a host before the device is configured: both arguments
  of \<open>Configure\<close> are the same network.\<close>

definition vxlan_start :: "'w starter \<Rightarrow> 'w kube \<Rightarrow> 'w netsys \<Rightarrow> 'w nftsys \<Rightarrow> 'w files \<Rightarrow> 'w netlink \<Rightarrow> NodeConfig \<Rightarrow>
    ('w \<times> iptm, vxlan_link) io" where
  "vxlan_start S K N T F L cfg =
     bindE (host (NewSubnetManager S)) (\<lambda>(nodeName, _).
     bindE (host (AcquireLease K nodeName)) (\<lambda>lease.
     bindE (first_cidr (CidrIPv4 lease)) (\<lambda>n.
     bindE (init_rules N T F (env_var S ''IPTABLES'' = ''nf_tables'') lease n) (\<lambda>_.
     bindE (host (WriteSubnetFile F (vxlan_GetSubnetMap lease))) (\<lambda>_.
     case Netlink cfg of None \<Rightarrow> fail (Panic ''nil pointer'')
     | Some (idx, linkMtu) \<Rightarrow>
     bindE (host (NewVXLANDevice L \<lparr>Vni = 10086, aName = ''simplevxlan'', aMTU = linkMtu, VtepIndex = idx,
         VtepAddr = (case ParseIP (or_nil (map_of (Configmap cfg) ''IPAddr'')) of Some ip \<Rightarrow> or_nil (To4 ip) | None \<Rightarrow> []),
         VtepPort = 0, HwAddr = None\<rparr>)) (\<lambda>dev.
     let host_net = n\<lparr>netMask := Localhost_mask\<rparr> in
     bindE (host (Configure L dev host_net host_net)) (\<lambda>_.
     let attrs = put ''VxlanIP'' (IP_String (or_nil (To4 (netIP n)))) (put ''VxlanMac'' (mac_String (HardwareAddr dev)) (Configmap cfg)) in
     bindE (host (CompleteLease K nodeName attrs)) (\<lambda>_. ret dev))))))))"

primrec handle_events :: "(event \<Rightarrow> ('w, unit) io) \<Rightarrow> event list \<Rightarrow> ('w, unit) io" where
  "handle_events h [] = ret ()"
| "handle_events h (e # es) = bindE (h e) (\<lambda>_. handle_events h es)"

text \<open>An error is logged and ends the start; the events are those that come until the context is done.\<close>

definition vxlan_Run :: "'w starter \<Rightarrow> 'w kube \<Rightarrow> 'w netsys \<Rightarrow> 'w nftsys \<Rightarrow> 'w files \<Rightarrow> 'w netlink \<Rightarrow> NodeConfig \<Rightarrow> event list \<Rightarrow>
    ('w \<times> iptm, unit) io" where
  "vxlan_Run S K N T F L cfg events =
     tryE (vxlan_start S K N T F L cfg) (\<lambda>_. ret ()) (\<lambda>dev. host (handle_events (vxlan_HandleEvent L dev) events))"

end
