(* ===== verification/CniWireguard.thy ===== *)
theory CniWireguard
  imports CniDaemon
begin

section \<open>simplecni: the wireguard backend (pkg/backend/wireguard, pkg/utils/network/wireguard.go)\<close>

text \<open>
  The record \<open>wgsys\<close> has the calls of the wireguard libraries, of netlink and of the context: making the
  device, reading it, and configuring it. A key is its text once it was parsed. A configuration
  that replaces nothing and removes nothing is a list of peers.
\<close>

record wg_peer =
  PublicKey :: string
  Endpoint :: "IP option"
  PersistentKeepalive :: int
  PresharedKey :: string
  AllowedIPs :: "IPNet list"

record PeerConfig =
  cKey :: string
  cPreshared :: "string option"
  cEndpoint :: "IP option"
  cKeepalive :: "int option"
  cReplaceAllowedIPs :: bool
  cAllowedIPs :: "IPNet list"

datatype wg_config = SetPrivateKey string | SetListenPort int | SetPeers "PeerConfig list"

record 'w wgsys =
  wg_env :: "string \<Rightarrow> string"
  create_tun :: "string \<Rightarrow> ('w, string) io"
  set_nonblock :: "nat \<Rightarrow> ('w, unit) io"
  tun_from_file :: "nat \<Rightarrow> ('w, string) io"
  uapi_open :: "string \<Rightarrow> ('w, unit) io"
  uapi_listen :: "string \<Rightarrow> ('w, unit) io"
  ctx_done :: "('w, bool) io"
  wg_client :: "('w, unit) io"
  generate_key :: "('w, string) io"
  parse_key :: "string \<Rightarrow> goerr + string"
  configure_device :: "string \<Rightarrow> wg_config \<Rightarrow> ('w, unit) io"
  device_key :: "string \<Rightarrow> ('w, string) io"
  device_peers :: "string \<Rightarrow> ('w, wg_peer list) io"
  wg_link :: "string \<Rightarrow> ('w, int) io"
  wg_addr_add :: "int \<Rightarrow> IPNet \<Rightarrow> ('w, unit) io"
  wg_link_up :: "int \<Rightarrow> ('w, unit) io"
  wg_route :: "int \<Rightarrow> IPNet option \<Rightarrow> ('w, unit) io"

record WireguardDevice =
  wLink :: "int option"
  wName :: string
  wPublicKey :: string

subsection \<open>The device\<close>

text \<open>The name of the device made: the default one when it cannot be read. The error of the library
  about the name is dropped, so \<open>create_tun\<close> and \<open>tun_from_file\<close> return it at once.\<close>

definition open_tun :: "'w wgsys \<Rightarrow> ('w, string) io" where
  "open_tun W =
     (let tunFdStr = wg_env W ''WG_TUN_FD'' in
      if tunFdStr = [] then create_tun W ''wg0''
      else (case ParseUint32 tunFdStr of
              None \<Rightarrow> fail (ParseUint_error tunFdStr)
            | Some fd \<Rightarrow> bindE (set_nonblock W fd) (\<lambda>_. tun_from_file W fd)))"

definition open_uapi :: "'w wgsys \<Rightarrow> string \<Rightarrow> ('w, unit) io" where
  "open_uapi W name =
     (let uapiFdStr = wg_env W ''WG_UAPI_FD'' in
      if uapiFdStr = [] then uapi_open W name
      else (case ParseUint32 uapiFdStr of None \<Rightarrow> fail (ParseUint_error uapiFdStr) | Some fd \<Rightarrow> ret ()))"

text \<open>The loop ends after one look-up: a link without an error is never nil.\<close>

definition ensureWgLink :: "'w wgsys \<Rightarrow> string \<Rightarrow> IPNet \<Rightarrow> ('w, int option) io" where
  "ensureWgLink W name ipn =
     bindE (ctx_done W) (\<lambda>over.
     if over then ret None
     else bindE (mapErr (\<lambda>e. Plain (''get wireguard device err: '' @ err_text e)) (wg_link W name)) (\<lambda>l.
          bindE (mapErr (\<lambda>e. Plain (''failed to add IP address '' @ IPNet_String (Some ipn) @ '' to '' @ name @ '': '' @ err_text e))
            (wg_addr_add W l ipn)) (\<lambda>_.
          bindE (mapErr (\<lambda>e. Plain (''failed to set interface '' @ name @ '' to UP state: '' @ err_text e)) (wg_link_up W l)) (\<lambda>_.
          ret (Some l)))))"

definition configWgServer :: "'w wgsys \<Rightarrow> string \<Rightarrow> ('w, string) io" where
  "configWgServer W name =
     bindE (mapErr (\<lambda>e. Plain (''create wireguard client err: '' @ err_text e)) (wg_client W)) (\<lambda>_.
     bindE (mapErr (\<lambda>e. Plain (''generate privatekey error: '' @ err_text e)) (generate_key W)) (\<lambda>k.
     bindE (mapErr (\<lambda>e. Plain (''config wireguard device error: '' @ err_text e)) (configure_device W name (SetPrivateKey k))) (\<lambda>_.
     bindE (mapErr (\<lambda>e. Plain (''get wireguard device error: '' @ err_text e)) (device_key W name)) (\<lambda>pub.
     bindE (mapErr (\<lambda>e. Panic (''os.Exit: can't config device port: '' @ err_text e)) (configure_device W name (SetListenPort 51820))) (\<lambda>_.
     ret pub)))))"

definition NewWireguardDevice :: "'w wgsys \<Rightarrow> IPNet \<Rightarrow> ('w, WireguardDevice) io" where
  "NewWireguardDevice W ipn =
     bindE (mapErr (\<lambda>e. Plain (''setup failed: '' @ err_text e)) (open_tun W)) (\<lambda>name.
     bindE (mapErr (\<lambda>e. Plain (''setup failed: '' @ err_text e)) (open_uapi W name)) (\<lambda>_.
     bindE (mapErr (\<lambda>e. Panic (''os.Exit: '' @ err_text e)) (uapi_listen W name)) (\<lambda>_.
     bindE (mapErr (\<lambda>e. Plain (''ensure wireguard link err: '' @ err_text e)) (ensureWgLink W name ipn)) (\<lambda>l.
     bindE (mapErr (\<lambda>e. Plain (''config wireguard server err: '' @ err_text e)) (configWgServer W name)) (\<lambda>pub.
     ret \<lparr>wLink = l, wName = name, wPublicKey = pub\<rparr>)))))"

subsection \<open>Peers\<close>

definition peerToPeerConfig :: "wg_peer \<Rightarrow> PeerConfig" where
  "peerToPeerConfig p = \<lparr>cKey = PublicKey p, cPreshared = Some (PresharedKey p), cEndpoint = Endpoint p,
     cKeepalive = Some (PersistentKeepalive p), cReplaceAllowedIPs = False, cAllowedIPs = AllowedIPs p\<rparr>"

text \<open>A peer without an endpoint is a nil pointer whose field is read.\<close>

primrec peerToPeerConfigSliceExcludePeer :: "wg_peer list \<Rightarrow> IP \<Rightarrow> goerr + PeerConfig list" where
  "peerToPeerConfigSliceExcludePeer [] peerIP = Inr []"
| "peerToPeerConfigSliceExcludePeer (p # ps) peerIP =
     (case Endpoint p of
        None \<Rightarrow> Inl (Panic ''nil pointer'')
      | Some ip \<Rightarrow>
          (case peerToPeerConfigSliceExcludePeer ps peerIP of
             Inl e \<Rightarrow> Inl e
           | Inr cs \<Rightarrow> Inr (if IP_Equal ip peerIP then cs else peerToPeerConfig p # cs)))"

definition AddPeers :: "'w wgsys \<Rightarrow> WireguardDevice \<Rightarrow> IP \<Rightarrow> IPNet option \<Rightarrow> string \<Rightarrow> ('w, unit) io" where
  "AddPeers W dev peerIP peerCidr publicKey =
     bindE (mapErr (\<lambda>e. Plain (''get wireguard device error: '' @ err_text e)) (device_peers W ''wg0'')) (\<lambda>_.
     bindE (mapErr (\<lambda>e. Plain (''parse public key: '' @ err_text e)) (lift (parse_key W publicKey))) (\<lambda>parsed.
     case peerCidr of None \<Rightarrow> fail (Panic ''nil pointer'')
     | Some cidr \<Rightarrow>
     let pc = \<lparr>cKey = parsed, cPreshared = None, cEndpoint = Some peerIP, cKeepalive = Some 1, cReplaceAllowedIPs = False,
         cAllowedIPs = [cidr, \<lparr>netIP = peerIP, netMask = CIDRMask 32 32\<rparr>]\<rparr> in
     bindE (mapErr (\<lambda>e. Plain (''config peers error: '' @ err_text e)) (configure_device W (wName dev) (SetPeers [pc]))) (\<lambda>_.
     bindE (mapErr (\<lambda>e. Plain (''get wireguard device error: '' @ err_text e)) (device_peers W ''wg0'')) (\<lambda>_.
     case wLink dev of None \<Rightarrow> fail (Panic ''nil pointer'')
     | Some i \<Rightarrow> Retry (wg_route W i (Some cidr))))))"

definition DelPeers :: "'w wgsys \<Rightarrow> WireguardDevice \<Rightarrow> IP \<Rightarrow> ('w, unit) io" where
  "DelPeers W dev peerIP =
     bindE (mapErr (\<lambda>e. Plain (''get wireguard device error: '' @ err_text e)) (device_peers W ''wg0'')) (\<lambda>ps.
     bindE (lift (peerToPeerConfigSliceExcludePeer ps peerIP)) (\<lambda>cs.
     mapErr (\<lambda>e. Plain (''config peers error: '' @ err_text e)) (configure_device W (wName dev) (SetPeers cs))))"

text \<open>A public key that is not published reads as the empty text.\<close>

definition wg_HandleEvent :: "'w wgsys \<Rightarrow> WireguardDevice \<Rightarrow> event \<Rightarrow> ('w, unit) io" where
  "wg_HandleEvent W dev ev =
     (let l = snd ev in
      case (CidrIPv4 l, attr l ''IPAddr'') of
        (n # _, Some ipaddr) \<Rightarrow>
          (let m = (case fst ev of
               EventAdded \<Rightarrow> AddPeers W dev (ip_or_nil ipaddr) n (or_nil (attr l ''WgPublicKey''))
             | EventRemoved \<Rightarrow> DelPeers W dev (ip_or_nil ipaddr))
           in tryE m (\<lambda>_. ret ()) ret)
      | _ \<Rightarrow> ret ())"

subsection \<open>The run\<close>

definition wg_start :: "'w starter \<Rightarrow> 'w kube \<Rightarrow> 'w files \<Rightarrow> 'w wgsys \<Rightarrow> NodeConfig \<Rightarrow> ('w, WireguardDevice) io" where
  "wg_start S K F W cfg =
     bindE (NewSubnetManager S) (\<lambda>(nodeName, _).
     bindE (AcquireLease K nodeName) (\<lambda>lease.
     bindE (WriteSubnetFile F (wg_GetSubnetMap lease)) (\<lambda>_.
     bindE (first_cidr (CidrIPv4 lease)) (\<lambda>n.
     bindE (NewWireguardDevice W n) (\<lambda>dev.
     bindE (CompleteLease K nodeName (put ''WgPublicKey'' (wPublicKey dev) (Configmap cfg))) (\<lambda>_. ret dev))))))"

definition wg_Run :: "'w starter \<Rightarrow> 'w kube \<Rightarrow> 'w files \<Rightarrow> 'w wgsys \<Rightarrow> NodeConfig \<Rightarrow> event list \<Rightarrow> ('w, unit) io" where
  "wg_Run S K F W cfg events =
     tryE (wg_start S K F W cfg) (\<lambda>_. ret ()) (\<lambda>dev. handle_events (wg_HandleEvent W dev) events)"

end
