(* ===== verification/CniDaemonProps.thy ===== *)
theory CniDaemonProps
  imports CniWireguard "HOL-Library.AList"
begin

section \<open>simplecni: what the start of the daemon and the wireguard backend do\<close>

text \<open>
  The choice of the interface on a host whose interfaces can all be read, and the peers of a
  wireguard device whose configuration follows the documentation of the library.
\<close>

subsection \<open>The interface of the node\<close>

definition interfaces_read :: "'w ifsys \<Rightarrow> interface list \<Rightarrow> (int \<Rightarrow> bool \<Rightarrow> IP list) \<Rightarrow> (string \<Rightarrow> int \<times> int) \<Rightarrow> bool" where
  "interfaces_read H ifs ips lnk \<longleftrightarrow>
     (\<forall>w. interfaces H w = (Inr ifs, w)) \<and> (\<forall>i six w. addr_ips H i six w = (Inr (ips i six), w)) \<and>
     (\<forall>n w. dev_by_name H n w = (Inr (lnk n), w))"

text \<open>The address that an interface contributes, and the one of the last interface that has any.\<close>

definition usable_v4 :: "(int \<Rightarrow> bool \<Rightarrow> IP list) \<Rightarrow> interface \<Rightarrow> IP option" where
  "usable_v4 ips i = (case pick_ips (\<lambda>a. To4 a \<noteq> None) (ips (ifIndex i) False) of Inr (a # _) \<Rightarrow> Some a | _ \<Rightarrow> None)"

definition last_v4 :: "(int \<Rightarrow> bool \<Rightarrow> IP list) \<Rightarrow> interface list \<Rightarrow> IP option" where
  "last_v4 ips ifs = fold (\<lambda>i r. case usable_v4 ips i of Some a \<Rightarrow> Some a | None \<Rightarrow> r) ifs None"

lemma pick_ips_cases:
  obtains "pick_ips P as = Inl NotFoundIP" | a more where "pick_ips P as = Inr (a # more)"
proof (cases "pick_ips P as")
  case (Inl e)
  then show ?thesis using that by (auto simp: pick_ips_def Let_def split: if_splits)
next
  case (Inr xs)
  then have "xs \<noteq> []" by (auto simp: pick_ips_def Let_def split: if_splits)
  then show ?thesis using that Inr by (cases xs) auto
qed

lemma not_found: "\<not> is_panic NotFoundIP" by (simp add: NotFoundIP_def)

lemma read_addresses_run:
  assumes H: "interfaces_read H ifs ips lnk"
  shows "\<exists>c'. read_addresses H is c w = (Inr c', w) \<and>
     map_of (Configmap c') ''IPAddr'' =
       fold (\<lambda>i r. case usable_v4 ips i of Some a \<Rightarrow> Some (IP_String a) | None \<Rightarrow> r) is (map_of (Configmap c) ''IPAddr'')"
proof (induction "is" arbitrary: c)
  case Nil
  show ?case by simp
next
  case (Cons i "is")
  have v4: "GetInterfaceIP4Addrs H i w = (pick_ips (\<lambda>a. To4 a \<noteq> None) (ips (ifIndex i) False), w)"
    and v6: "GetInterfaceIP6Addrs H i w = (pick_ips (\<lambda>a. length a = 4 \<or> length a = 16) (ips (ifIndex i) True), w)"
    using H by (simp_all add: interfaces_read_def GetInterfaceIP4Addrs_def GetInterfaceIP6Addrs_def io_simps)
  have l: "dev_by_name H (ifName i) w = (Inr (lnk (ifName i)), w)" using H by (simp add: interfaces_read_def)
  show ?case
  proof (rule pick_ips_cases [of "\<lambda>a. To4 a \<noteq> None" "ips (ifIndex i) False"])
    assume "pick_ips (\<lambda>a. To4 a \<noteq> None) (ips (ifIndex i) False) = Inl NotFoundIP"
    then show ?thesis using Cons [of c] v4 by (simp add: usable_v4_def io_simps not_found)
  next
    fix a rest assume a: "pick_ips (\<lambda>a. To4 a \<noteq> None) (ips (ifIndex i) False) = Inr (a # rest)"
    show ?thesis
    proof (rule pick_ips_cases [of "\<lambda>a. length a = 4 \<or> length a = 16" "ips (ifIndex i) True"])
      assume "pick_ips (\<lambda>a. length a = 4 \<or> length a = 16) (ips (ifIndex i) True) = Inl NotFoundIP"
      then show ?thesis
        using Cons [of "c\<lparr>Configmap := put ''IPAddr'' (IP_String a) (Configmap c), Netlink := Some (lnk (ifName i))\<rparr>"] a v4 v6 l
        by (simp add: usable_v4_def put_def Let_def io_simps mapErr_def not_found)
    next
      fix b more assume "pick_ips (\<lambda>a. length a = 4 \<or> length a = 16) (ips (ifIndex i) True) = Inr (b # more)"
      then show ?thesis
        using Cons [of "c\<lparr>Netlink := Some (lnk (ifName i)),
            Configmap := put ''IPAddrV6'' (IP_String b) (put ''IPAddr'' (IP_String a) (Configmap c))\<rparr>"] a v4 v6 l
        by (simp add: usable_v4_def put_def Let_def io_simps mapErr_def not_found)
    qed
  qed
qed

lemma fold_last_v4:
  "fold (\<lambda>i r. case usable_v4 ips i of Some a \<Rightarrow> Some (g a) | None \<Rightarrow> r) is (map_option g r0) =
   map_option g (fold (\<lambda>i r. case usable_v4 ips i of Some a \<Rightarrow> Some a | None \<Rightarrow> r) is r0)"
proof (induction "is" arbitrary: r0)
  case (Cons i "is")
  show ?case using Cons [of r0] Cons [of "usable_v4 ips i"] by (cases "usable_v4 ips i") simp_all
qed simp

lemma last_v4_addr:
  "fold (\<lambda>i r. case usable_v4 ips i of Some a \<Rightarrow> Some (g a) | None \<Rightarrow> r) is None = map_option g (last_v4 ips is)"
  using fold_last_v4 [of g ips "is" None] by (simp add: last_v4_def)

lemma last_v4_absorb: "last_v4 ips ifs = Some a \<Longrightarrow> last_v4 ips (i # ifs) = Some a"
proof -
  have "fold (\<lambda>i r. case usable_v4 ips i of Some a \<Rightarrow> Some a | None \<Rightarrow> r) is None = Some a \<Longrightarrow>
        fold (\<lambda>i r. case usable_v4 ips i of Some a \<Rightarrow> Some a | None \<Rightarrow> r) is r = Some a" for "is" r
    by (induction "is" arbitrary: r) (auto split: option.splits)
  then show "last_v4 ips ifs = Some a \<Longrightarrow> ?thesis" by (simp add: last_v4_def)
qed

text \<open>The configured interface does not decide. An empty pattern matches every name, and the
  interfaces that match are read after the one that was named: with \<open>Iface\<close> alone in the
  configuration, the daemon takes the address of the last interface of the host that has one. With
  the pattern \<open>IfaceMatch\<close> alone no interface is read at all and the configuration is refused.
\<close>

theorem named_interface_overridden:
  assumes "interfaces_read H ifs ips lnk" and "compile_regex H [] = Some (\<lambda>_. True)"
    and "n \<noteq> []" and "find (\<lambda>i. ifName i = n) ifs = Some i" and "last_v4 ips ifs = Some a"
  shows "(\<exists>c. setInterfaceAddressByName H n [] [] cfg w = (Inr c, w) \<and> map_of (Configmap c) ''IPAddr'' = Some (IP_String a)) \<and>
     (\<forall>re. re \<noteq> [] \<longrightarrow> setInterfaceAddressByName H [] [] re cfg w = (Inl (Plain ''get address from iface error''), w))"
proof (intro conjI allI impI)
  have ifaces: "\<And>w. interfaces H w = (Inr ifs, w)" using assms(1) by (simp add: interfaces_read_def)
  have c: "chosen_ifaces H n [] [] w = (Inr (i # ifs), w)"
    using assms(2-4) by (simp add: chosen_ifaces_def GetInterfaceByName_def GetInterfaceByNameRegex_def ifaces mapErr_def io_simps)
  obtain c' where "read_addresses H (i # ifs) (cfg\<lparr>Configmap := []\<rparr>) w = (Inr c', w)"
    and "map_of (Configmap c') ''IPAddr'' = map_option IP_String (last_v4 ips (i # ifs))"
    using read_addresses_run [OF assms(1), of "i # ifs" "cfg\<lparr>Configmap := []\<rparr>" w] by (auto simp: last_v4_addr [symmetric])
  then show "\<exists>c. setInterfaceAddressByName H n [] [] cfg w = (Inr c, w) \<and> map_of (Configmap c) ''IPAddr'' = Some (IP_String a)"
    using last_v4_absorb [OF assms(5), of i] c by (simp add: setInterfaceAddressByName_def io_simps)
  show "setInterfaceAddressByName H [] [] re cfg w = (Inl (Plain ''get address from iface error''), w)" if "re \<noteq> []" for re
    using that by (simp add: setInterfaceAddressByName_def chosen_ifaces_def io_simps)
qed

definition two_ifaces :: "unit ifsys" where
  "two_ifaces = \<lparr>interfaces = ret [\<lparr>ifName = ''eth0'', ifIndex = 1\<rparr>, \<lparr>ifName = ''eth1'', ifIndex = 2\<rparr>],
     interface_by_index = (\<lambda>_. fail (Plain ''none'')), route_list = ret [],
     addr_ips = (\<lambda>i six. ret (if six then [] else [[10, 0, 0, of_int i]])),
     dev_by_name = (\<lambda>n. ret (1, 1500)), compile_regex = (\<lambda>re. Some (\<lambda>s. re = [] \<or> s = re))\<rparr>"

theorem named_interface_overridden_witness:
  "(\<exists>c. setInterfaceAddressByName two_ifaces ''eth0'' [] [] \<lparr>BackendType = [], Configmap = [], Netlink = None\<rparr> () = (Inr c, ()) \<and>
      map_of (Configmap c) ''IPAddr'' = Some (IP_String [10, 0, 0, 2])) \<and>
   setInterfaceAddressByName two_ifaces [] [] ''eth1'' \<lparr>BackendType = [], Configmap = [], Netlink = None\<rparr> () =
     (Inl (Plain ''get address from iface error''), ())"
proof -
  define ips :: "int \<Rightarrow> bool \<Rightarrow> IP list" where "ips = (\<lambda>i six. if six then [] else [[10, 0, 0, of_int i]])"
  define ifs where "ifs = [\<lparr>ifName = ''eth0'', ifIndex = 1\<rparr>, \<lparr>ifName = ''eth1'', ifIndex = 2\<rparr>]"
  have H: "interfaces_read two_ifaces ifs ips (\<lambda>_. (1, 1500))"
    by (simp add: interfaces_read_def two_ifaces_def ifs_def ips_def)
  have re: "compile_regex two_ifaces [] = Some (\<lambda>_. True)" by (simp add: two_ifaces_def)
  have n: "''eth0'' \<noteq> ([] :: string)" by simp
  have f: "find (\<lambda>i. ifName i = ''eth0'') ifs = Some \<lparr>ifName = ''eth0'', ifIndex = 1\<rparr>" by (simp add: ifs_def)
  have "IsGlobalUnicast [10, 0, 0, 2]" by code_simp
  then have u: "usable_v4 ips \<lparr>ifName = ''eth1'', ifIndex = 2\<rparr> = Some [10, 0, 0, 2]"
    by (simp add: usable_v4_def pick_ips_def ips_def To4_4)
  have l: "last_v4 ips ifs = Some [10, 0, 0, 2]"
    by (simp add: last_v4_def ifs_def u)
  have r: "''eth1'' \<noteq> ([] :: string)" by simp
  show ?thesis
    using named_interface_overridden [OF H re n f l] r by blast
qed


subsection \<open>The peers of the wireguard device\<close>

text \<open>
  What the library documents: a configuration that neither replaces the peers nor removes one
  adds its peers to those of the device or updates them. \<open>V\<close> reads the endpoint of each key.
\<close>

definition put_endpoint :: "PeerConfig \<Rightarrow> (string \<rightharpoonup> IP option) \<Rightarrow> (string \<rightharpoonup> IP option)" where
  "put_endpoint c m = m(cKey c \<mapsto> (case cEndpoint c of Some e \<Rightarrow> Some e | None \<Rightarrow> Option.bind (m (cKey c)) id))"

definition wg_laws :: "'w wgsys \<Rightarrow> ('w \<Rightarrow> string \<rightharpoonup> IP option) \<Rightarrow> bool" where
  "wg_laws W V \<longleftrightarrow>
     (\<forall>n w. \<exists>ps. device_peers W n w = (Inr ps, w) \<and> distinct (map PublicKey ps) \<and> V w = map_of (map (\<lambda>p. (PublicKey p, Endpoint p)) ps)) \<and>
     (\<forall>n cs w. \<exists>w'. configure_device W n (SetPeers cs) w = (Inr (), w') \<and> V w' = fold put_endpoint cs (V w)) \<and>
     (\<forall>i r w. V (snd (wg_route W i r w)) = V w)"

lemma fold_put_endpoint_same:
  "(\<forall>c\<in>set cs. m (cKey c) = Some (cEndpoint c)) \<Longrightarrow> fold put_endpoint cs m = m"
proof (induction cs)
  case (Cons c cs)
  then have "put_endpoint c m = m" by (auto simp: put_endpoint_def fun_upd_idem split: option.splits)
  then show ?case using Cons by simp
qed simp

lemma dom_fold_put_endpoint: "dom m \<subseteq> dom (fold put_endpoint cs m)"
proof (induction cs arbitrary: m)
  case (Cons c cs)
  have "dom m \<subseteq> dom (put_endpoint c m)" by (auto simp: put_endpoint_def)
  then show ?case using Cons [of "put_endpoint c m"] by simp
qed simp

lemma exclude_keeps:
  "peerToPeerConfigSliceExcludePeer ps ip = Inr cs \<Longrightarrow> c \<in> set cs \<Longrightarrow> \<exists>p\<in>set ps. cKey c = PublicKey p \<and> cEndpoint c = Endpoint p"
  by (induction ps arbitrary: cs) (auto simp: peerToPeerConfig_def split: option.splits sum.splits if_splits)

lemma DelPeers_keeps:
  assumes "wg_laws W V"
  shows "V (snd (DelPeers W dev ip w)) = V w"
proof -
  obtain ps where r: "device_peers W ''wg0'' w = (Inr ps, w)" and d: "distinct (map PublicKey ps)"
    and v: "V w = map_of (map (\<lambda>p. (PublicKey p, Endpoint p)) ps)"
    using assms unfolding wg_laws_def by blast
  show ?thesis
  proof (cases "peerToPeerConfigSliceExcludePeer ps ip")
    case (Inl e)
    then show ?thesis by (simp add: DelPeers_def io_simps mapErr_def r)
  next
    case (Inr cs)
    obtain w' where c: "configure_device W (wName dev) (SetPeers cs) w = (Inr (), w')" and v': "V w' = fold put_endpoint cs (V w)"
      using assms unfolding wg_laws_def by blast
    have "V w (cKey c) = Some (cEndpoint c)" if "c \<in> set cs" for c
      using exclude_keeps [OF Inr that] d by (force simp: v map_of_eq_Some_iff o_def)
    then have "V w' = V w" using v' fold_put_endpoint_same by metis
    then show ?thesis by (simp add: DelPeers_def io_simps mapErr_def r Inr c)
  qed
qed


lemma keeps_Retry: "keeps I f \<Longrightarrow> keeps I (Retry f)"
proof -
  assume f: "keeps I f"
  have "keeps I (retry_n n errs f)" for n errs
    by (induction n arbitrary: errs) (simp_all add: keeps_intros f)
  then show ?thesis by (simp add: Retry_def)
qed

lemma wg_keeps_key:
  assumes "wg_laws W V"
  shows "keeps (\<lambda>w. k \<in> dom (V w)) (device_peers W n)" and "keeps (\<lambda>w. k \<in> dom (V w)) (configure_device W n (SetPeers cs))"
    and "keeps (\<lambda>w. k \<in> dom (V w)) (wg_route W i r)" and "keeps (\<lambda>w. k \<in> dom (V w)) (DelPeers W dev ip)"
proof -
  show "keeps (\<lambda>w. k \<in> dom (V w)) (device_peers W n)"
  proof (rule keepsI)
    fix w assume "k \<in> dom (V w)"
    moreover obtain ps where "device_peers W n w = (Inr ps, w)" using assms unfolding wg_laws_def by blast
    ultimately show "k \<in> dom (V (snd (device_peers W n w)))" by simp
  qed
  show "keeps (\<lambda>w. k \<in> dom (V w)) (configure_device W n (SetPeers cs))"
  proof (rule keepsI)
    fix w assume k: "k \<in> dom (V w)"
    obtain w' where w': "configure_device W n (SetPeers cs) w = (Inr (), w')" and v: "V w' = fold put_endpoint cs (V w)"
      using assms unfolding wg_laws_def by blast
    have "k \<in> dom (V w')" unfolding v by (rule subsetD [OF dom_fold_put_endpoint k])
    then show "k \<in> dom (V (snd (configure_device W n (SetPeers cs) w)))" by (simp add: w')
  qed
  show "keeps (\<lambda>w. k \<in> dom (V w)) (wg_route W i r)" using assms by (simp add: keeps_def wg_laws_def)
  show "keeps (\<lambda>w. k \<in> dom (V w)) (DelPeers W dev ip)" by (simp add: keeps_def DelPeers_keeps [OF assms])
qed

lemma wg_events_keep:
  assumes "wg_laws W V"
  shows "keeps (\<lambda>w. k \<in> dom (V w)) (handle_events (wg_HandleEvent W dev) evs)"
proof -
  have a: "keeps (\<lambda>w. k \<in> dom (V w)) (AddPeers W dev ip c key)" for ip c key
    by (simp add: AddPeers_def Let_def keeps_intros keeps_Retry wg_keeps_key [OF assms] split: option.split)
  have "keeps (\<lambda>w. k \<in> dom (V w)) (wg_HandleEvent W dev ev)" for ev
    by (simp add: wg_HandleEvent_def Let_def keeps_intros a wg_keeps_key [OF assms] split: option.split list.split EventType.split)
  then show ?thesis by (induction evs) (simp_all add: keeps_intros)
qed


lemma V_Retry:
  assumes "\<And>w. V (snd (f w)) = V w"
  shows "V (snd (Retry f w)) = V w"
proof -
  have "keeps (\<lambda>x. V x = v) (Retry f)" for v by (rule keeps_Retry) (simp add: keeps_def assms)
  then show ?thesis by (simp add: keeps_def)
qed

lemma AddPeers_adds:
  assumes "wg_laws W V" and "parse_key W key = Inr k"
  shows "V (snd (AddPeers W dev ip (Some cidr) key w)) = (V w)(k \<mapsto> Some ip)"
proof -
  define pc where "pc = \<lparr>cKey = k, cPreshared = None, cEndpoint = Some ip, cKeepalive = Some 1, cReplaceAllowedIPs = False,
         cAllowedIPs = [cidr, \<lparr>netIP = ip, netMask = CIDRMask 32 32\<rparr>]\<rparr>"
  obtain ps where r: "device_peers W ''wg0'' w = (Inr ps, w)" using assms unfolding wg_laws_def by blast
  obtain w1 where c: "configure_device W (wName dev) (SetPeers [pc]) w = (Inr (), w1)" and v1: "V w1 = fold put_endpoint [pc] (V w)"
    using assms unfolding wg_laws_def by blast
  obtain ps1 where r1: "device_peers W ''wg0'' w1 = (Inr ps1, w1)" using assms unfolding wg_laws_def by blast
  have "V (snd (Retry (wg_route W i rt) w1)) = V w1" for i rt
    by (rule V_Retry) (use assms in \<open>simp add: wg_laws_def\<close>)
  then have "V (snd (AddPeers W dev ip (Some cidr) key w)) = V w1"
    by (simp add: AddPeers_def io_simps mapErr_def r assms(2) Let_def pc_def [symmetric] c r1 split: option.split)
  then show ?thesis by (simp add: v1 put_endpoint_def pc_def)
qed

text \<open>The wireguard backend never removes a peer. \<open>DelPeers\<close> configures the device with the peers to
  keep, without replacing the peers of the device or marking one as removed: no endpoint changes. A
  node that joins and leaves stays a peer of every other node, and in every sequence of events
  the keys of the device only grow.
\<close>

theorem wg_peers_never_removed:
  assumes "wg_laws W V" and "parse_key W key = Inr k"
  shows "(let w1 = snd (AddPeers W dev ip (Some cidr) key w); w2 = snd (DelPeers W dev ip w1) in
      V w1 = (V w)(k \<mapsto> Some ip) \<and> V w2 = V w1) \<and>
    dom (V w) \<subseteq> dom (V (snd (handle_events (wg_HandleEvent W dev) evs w)))"
  using wg_events_keep [OF assms(1), of _ dev evs]
  by (auto simp: Let_def AddPeers_adds [OF assms] DelPeers_keeps [OF assms(1)] keeps_def)

text \<open>A device whose state is the list of the endpoints set, the last one first.\<close>

definition note_endpoint :: "PeerConfig \<Rightarrow> (string \<times> IP option) list \<Rightarrow> (string \<times> IP option) list" where
  "note_endpoint c es = (cKey c, case cEndpoint c of Some e \<Rightarrow> Some e | None \<Rightarrow> Option.bind (map_of es (cKey c)) id) # es"

definition endpoint_wg :: "(string \<times> IP option) list wgsys" where
  "endpoint_wg = \<lparr>wg_env = (\<lambda>_. []), create_tun = ret, set_nonblock = (\<lambda>_. ret ()), tun_from_file = (\<lambda>_. ret ''wg0''),
     uapi_open = (\<lambda>_. ret ()), uapi_listen = (\<lambda>_. ret ()), ctx_done = ret False, wg_client = ret (), generate_key = ret ''k'',
     parse_key = Inr,
     configure_device = (\<lambda>_ c. case c of SetPeers cs \<Rightarrow> modS (fold note_endpoint cs) | _ \<Rightarrow> ret ()),
     device_key = (\<lambda>_. ret ''p''),
     device_peers = (\<lambda>_. getS (\<lambda>es. map (\<lambda>(k, e). \<lparr>PublicKey = k, Endpoint = e, PersistentKeepalive = 1, PresharedKey = [],
         AllowedIPs = []\<rparr>) (AList.clearjunk es))),
     wg_link = (\<lambda>_. ret 7), wg_addr_add = (\<lambda>_ _. ret ()), wg_link_up = (\<lambda>_. ret ()), wg_route = (\<lambda>_ _. ret ())\<rparr>"

lemma fold_note_endpoint: "map_of (fold note_endpoint cs es) = fold put_endpoint cs (map_of es)"
  by (induction cs arbitrary: es) (simp_all add: note_endpoint_def put_endpoint_def)

lemma endpoint_wg_laws: "wg_laws endpoint_wg map_of"
proof -
  have m: "map_of (map (\<lambda>p. (PublicKey p, Endpoint p)) (map (\<lambda>(k, e). \<lparr>PublicKey = k, Endpoint = e, PersistentKeepalive = 1,
      PresharedKey = [], AllowedIPs = []\<rparr>) (AList.clearjunk es))) = map_of es" for es
    by (simp add: o_def case_prod_unfold map_of_clearjunk)
  have d: "distinct (map PublicKey (map (\<lambda>(k, e). \<lparr>PublicKey = k, Endpoint = e, PersistentKeepalive = 1,
      PresharedKey = [], AllowedIPs = []\<rparr>) (AList.clearjunk es)))" for es :: "(string \<times> IP option) list"
    using distinct_clearjunk [of es] by (simp add: o_def case_prod_unfold)
  show ?thesis
    unfolding wg_laws_def by (simp add: endpoint_wg_def m d fold_note_endpoint del: map_map)
qed

theorem wg_peers_never_removed_witness:
  "(let dev = \<lparr>wLink = Some 7, wName = ''wg0'', wPublicKey = ''p''\<rparr>;
        w1 = snd (AddPeers endpoint_wg dev [10, 0, 0, 2] (Some (net4 [10, 244, 1, 0] 24)) ''a'' []);
        w2 = snd (DelPeers endpoint_wg dev [10, 0, 0, 2] w1)
    in map_of w2 ''a'' = Some (Some [10, 0, 0, 2]))"
proof -
  have k: "parse_key endpoint_wg ''a'' = Inr ''a''" by (simp add: endpoint_wg_def)
  show ?thesis
    using wg_peers_never_removed [OF endpoint_wg_laws k, where w = "[]"] unfolding Let_def by simp
qed

end
