(* ===== verification/ControllerQueue.thy ===== *)
theory ControllerQueue
  imports Prelude
begin

section \<open>simplecontroller: the work queue of the informer controllers\<close>

text \<open>
  The controllers of the demo take the keys of changed objects from a rate limited work queue
  (the vendored \<open>client-go/util/workqueue\<close>) and put the failed ones back. The queue is modelled
  from its source: the queue proper, the loop that delays the retries, and the count
  of failures. Locks make each operation one step; the time of a delay is not modelled, so any delayed key
  may be the next that is ready. Metrics are left out.
\<close>

subsection \<open>The queue (queue.go)\<close>

record 'k wqueue =
  items :: "'k list"
  dirty :: "'k set"
  processing :: "'k set"
  shuttingDown :: bool
  waitingForAddCh :: "'k list"
  waitingEntries :: "'k list"
  requeued :: "'k \<Rightarrow> nat"

definition NewRateLimitingQueue :: "'k wqueue" where
  "NewRateLimitingQueue = \<lparr>items = [], dirty = {}, processing = {}, shuttingDown = False, waitingForAddCh = [],
     waitingEntries = [], requeued = (\<lambda>_. 0)\<rparr>"

definition wq_Add :: "'k \<Rightarrow> 'k wqueue \<Rightarrow> 'k wqueue" where
  "wq_Add k q =
     (if shuttingDown q then q
      else if k \<in> dirty q then q
      else let q1 = q\<lparr>dirty := insert k (dirty q)\<rparr> in
        if k \<in> processing q then q1 else q1\<lparr>items := items q @ [k]\<rparr>)"

datatype 'k got = Blocks | Shutdown | Got 'k "'k wqueue"

definition wq_Get :: "'k wqueue \<Rightarrow> 'k got" where
  "wq_Get q =
     (case items q of
        [] \<Rightarrow> if shuttingDown q then Shutdown else Blocks
      | k # ks \<Rightarrow> Got k (q\<lparr>items := ks, processing := insert k (processing q), dirty := dirty q - {k}\<rparr>))"

definition wq_Done :: "'k \<Rightarrow> 'k wqueue \<Rightarrow> 'k wqueue" where
  "wq_Done k q =
     (let q1 = q\<lparr>processing := processing q - {k}\<rparr> in
      if k \<in> dirty q then q1\<lparr>items := items q @ [k]\<rparr> else q1)"

definition wq_ShutDown :: "'k wqueue \<Rightarrow> 'k wqueue" where
  "wq_ShutDown q = q\<lparr>shuttingDown := True\<rparr>"

subsection \<open>Delayed and rate limited keys (delaying\_queue.go, default\_rate\_limiters.go)\<close>

text \<open>Durations are in nanoseconds.\<close>

definition AddAfter :: "'k \<Rightarrow> int \<Rightarrow> 'k wqueue \<Rightarrow> 'k wqueue" where
  "AddAfter k duration q =
     (if shuttingDown q then q
      else if duration \<le> 0 then wq_Add k q
      else q\<lparr>waitingForAddCh := waitingForAddCh q @ [k]\<rparr>)"

definition insert_entry :: "'k \<Rightarrow> 'k wqueue \<Rightarrow> 'k wqueue" where
  "insert_entry k q = (if k \<in> set (waitingEntries q) then q else q\<lparr>waitingEntries := waitingEntries q @ [k]\<rparr>)"

text \<open>
  The limiter of the item. The product is computed in floating point, exactly for these delays. The limit
  over all items can only make the delay longer and counts no failures.
\<close>

definition item_When :: "int \<Rightarrow> int \<Rightarrow> 'k \<Rightarrow> ('k \<Rightarrow> nat) \<Rightarrow> int \<times> ('k \<Rightarrow> nat)" where
  "item_When baseDelay maxDelay k fs =
     (let backoff = baseDelay * 2 ^ fs k in (if backoff > maxDelay then maxDelay else backoff, fs(k := fs k + 1)))"

definition AddRateLimited :: "'k \<Rightarrow> 'k wqueue \<Rightarrow> 'k wqueue" where
  "AddRateLimited k q =
     (case item_When (5 * 10 ^ 6) (1000 * 10 ^ 9) k (requeued q) of (delay, fs) \<Rightarrow> AddAfter k delay (q\<lparr>requeued := fs\<rparr>))"

definition NumRequeues :: "'k \<Rightarrow> 'k wqueue \<Rightarrow> nat" where
  "NumRequeues k q = requeued q k"

definition Forget :: "'k \<Rightarrow> 'k wqueue \<Rightarrow> 'k wqueue" where
  "Forget k q = q\<lparr>requeued := (requeued q)(k := 0)\<rparr>"

subsection \<open>The workers (processNextItem, handleErr)\<close>

definition handleErr :: "'k \<Rightarrow> goerr option \<Rightarrow> 'k wqueue \<Rightarrow> 'k wqueue" where
  "handleErr key err q =
     (case err of
        None \<Rightarrow> Forget key q
      | Some e \<Rightarrow> if NumRequeues key q < 5 then AddRateLimited key q else Forget key q)"

text \<open>One turn of a worker whose business logic is \<open>sync\<close>. A panic of it ends the program, \<open>Inr False\<close> is the
  end of the worker, and \<open>None\<close> a worker that waits.\<close>

definition processNextItem :: "('k \<Rightarrow> goerr + unit) \<Rightarrow> 'k wqueue \<Rightarrow> ((goerr + bool) \<times> 'k wqueue) option" where
  "processNextItem sync q =
     (case wq_Get q of
        Blocks \<Rightarrow> None
      | Shutdown \<Rightarrow> Some (Inr False, q)
      | Got key q1 \<Rightarrow>
          (case sync key of
             Inl e \<Rightarrow> if is_panic e then Some (Inl e, wq_Done key q1) else Some (Inr True, wq_Done key (handleErr key (Some e) q1))
           | Inr _ \<Rightarrow> Some (Inr True, wq_Done key (handleErr key None q1))))"

text \<open>
  The steps of the workers and of \<open>waitingLoop\<close>: a worker takes a key, a worker ends one with some
  result, the loop receives a delayed key and either keeps it or finds it ready, the loop adds a key that became ready.
\<close>

inductive worker_step :: "('k \<Rightarrow> goerr option \<Rightarrow> 'k wqueue \<Rightarrow> 'k wqueue) \<Rightarrow> 'k wqueue \<Rightarrow> 'k wqueue \<Rightarrow> bool"
  for h where
  take: "wq_Get q = Got k q' \<Longrightarrow> worker_step h q q'"
| finish: "k \<in> processing q \<Longrightarrow> worker_step h q (wq_Done k (h k err q))"
| keep: "\<not> shuttingDown q \<Longrightarrow> waitingForAddCh q = k # ks \<Longrightarrow> worker_step h q (insert_entry k (q\<lparr>waitingForAddCh := ks\<rparr>))"
| ready: "\<not> shuttingDown q \<Longrightarrow> waitingForAddCh q = k # ks \<Longrightarrow> worker_step h q (wq_Add k (q\<lparr>waitingForAddCh := ks\<rparr>))"
| fire: "\<not> shuttingDown q \<Longrightarrow> k \<in> set (waitingEntries q) \<Longrightarrow>
    worker_step h q (wq_Add k (q\<lparr>waitingEntries := remove1 k (waitingEntries q)\<rparr>))"

text \<open>A run of the controller: steps of the workers, events of the informer, and the end.\<close>

inductive wq_reach :: "('k \<Rightarrow> goerr option \<Rightarrow> 'k wqueue \<Rightarrow> 'k wqueue) \<Rightarrow> 'k wqueue \<Rightarrow> bool" for h where
  start: "wq_reach h NewRateLimitingQueue"
| work: "wq_reach h q \<Longrightarrow> worker_step h q q' \<Longrightarrow> wq_reach h q'"
| event: "wq_reach h q \<Longrightarrow> wq_reach h (wq_Add k q)"
| stop: "wq_reach h q \<Longrightarrow> wq_reach h (wq_ShutDown q)"

inductive_cases worker_stepE: "worker_step h q q'"


end
