(* ===== verification/ControllerQueueProps.thy ===== *)
theory ControllerQueueProps
  imports ControllerQueue
begin

section \<open>simplecontroller: every key is processed, and no key for ever\<close>

text \<open>
  The order of the queue in every interleaving of workers, events and retries: its invariant, that the
  work always ends, and that no added key is lost.
\<close>

subsection \<open>The interface of the retries\<close>

text \<open>What the controllers use of the rate limiter: the number of failures of each key.\<close>

locale retry_count =
  fixes more :: "'k \<Rightarrow> 's \<Rightarrow> 's" and forget :: "'k \<Rightarrow> 's \<Rightarrow> 's" and retries :: "'k \<Rightarrow> 's \<Rightarrow> nat"
  assumes retries_more: "retries k' (more k s) = (if k' = k then retries k s + 1 else retries k' s)"
    and retries_forget: "retries k' (forget k s) = (if k' = k then 0 else retries k' s)"
begin

definition bounded :: "nat \<Rightarrow> 's \<Rightarrow> bool" where
  "bounded n s \<longleftrightarrow> (\<forall>k. retries k s \<le> n)"

lemma bounded_more: "bounded n s \<Longrightarrow> retries k s < n \<Longrightarrow> bounded n (more k s)"
  by (auto simp: bounded_def retries_more Suc_le_eq)

lemma bounded_forget: "bounded n s \<Longrightarrow> bounded n (forget k s)"
  by (auto simp: bounded_def retries_forget)

lemma slack_more:
  "retries k s < n \<Longrightarrow> n - retries k' (more k s) \<le> n - retries k' s"
  "retries k s < n \<Longrightarrow> n - retries k (more k s) < n - retries k s"
  by (cases "k' = k", simp_all add: retries_more)

end

subsection \<open>Fields of the queue after its operations\<close>

lemma delay_positive: "0 < fst (item_When (5 * 10 ^ 6) (1000 * 10 ^ 9) k fs)"
  by (simp add: item_When_def Let_def)

lemma AddRateLimited_eq:
  "AddRateLimited k q = q\<lparr>requeued := (requeued q)(k := requeued q k + 1),
     waitingForAddCh := (if shuttingDown q then waitingForAddCh q else waitingForAddCh q @ [k])\<rparr>"
  using delay_positive [of k "requeued q"]
  by (auto simp: AddRateLimited_def AddAfter_def item_When_def Let_def split: if_splits)

interpretation rl: retry_count AddRateLimited Forget NumRequeues
  by unfold_locales (auto simp: AddRateLimited_eq Forget_def NumRequeues_def)

definition wq_inv :: "'k wqueue \<Rightarrow> bool" where
  "wq_inv q \<longleftrightarrow> distinct (items q) \<and> set (items q) = dirty q - processing q \<and> distinct (waitingEntries q) \<and>
     finite (dirty q) \<and> finite (processing q)"

lemma wq_invD:
  assumes "wq_inv q"
  shows "distinct (items q)" "set (items q) = dirty q - processing q" "distinct (waitingEntries q)"
    "finite (dirty q)" "finite (processing q)"
  using assms by (simp_all add: wq_inv_def)

lemma wq_inv_channel [simp]: "wq_inv (q\<lparr>waitingForAddCh := ks\<rparr>) = wq_inv q"
  by (simp add: wq_inv_def)

lemma wq_inv_entries: "wq_inv q \<Longrightarrow> distinct es \<Longrightarrow> wq_inv (q\<lparr>waitingEntries := es\<rparr>)"
  by (simp add: wq_inv_def)

lemma wq_inv_insert_entry: "wq_inv q \<Longrightarrow> wq_inv (insert_entry k q)"
  by (simp add: insert_entry_def wq_inv_entries wq_invD)

lemma wq_inv_Add: "wq_inv q \<Longrightarrow> wq_inv (wq_Add k q)"
  by (auto simp: wq_inv_def wq_Add_def Let_def)

lemma got_fields:
  assumes "wq_Get q = Got k q'"
  shows "\<exists>ks. items q = k # ks \<and> q' = q\<lparr>items := ks, processing := insert k (processing q), dirty := dirty q - {k}\<rparr>"
  using assms by (cases "items q") (simp_all add: wq_Get_def split: if_splits)

lemma wq_inv_Get: "wq_inv q \<Longrightarrow> wq_Get q = Got k q' \<Longrightarrow> wq_inv q'"
  by (auto simp: wq_inv_def wq_Get_def split: list.splits if_splits)

lemma wq_inv_Done: "wq_inv q \<Longrightarrow> k \<in> processing q \<Longrightarrow> wq_inv (wq_Done k q)"
  by (auto simp: wq_inv_def wq_Done_def Let_def)

lemma handleErr_fields [simp]:
  "items (handleErr k err q) = items q" "dirty (handleErr k err q) = dirty q" "processing (handleErr k err q) = processing q"
  "waitingEntries (handleErr k err q) = waitingEntries q" "shuttingDown (handleErr k err q) = shuttingDown q"
  by (simp_all add: handleErr_def Forget_def AddRateLimited_eq split: option.split)

lemma wq_inv_step: "wq_inv q \<Longrightarrow> worker_step handleErr q q' \<Longrightarrow> wq_inv q'"
proof (erule worker_stepE)
  fix k assume "wq_inv q" "wq_Get q = Got k q'"
  then show "wq_inv q'" by (rule wq_inv_Get)
next
  fix k err assume "wq_inv q" "q' = wq_Done k (handleErr k err q)" "k \<in> processing q"
  then show "wq_inv q'" by (simp add: wq_inv_Done wq_inv_def [of "handleErr k err q"] wq_invD)
qed (simp_all add: wq_inv_Add wq_inv_insert_entry wq_inv_entries wq_invD)

lemma wq_inv_reach: "wq_reach handleErr q \<Longrightarrow> wq_inv q"
proof (induction rule: wq_reach.induct)
  case start
  show ?case by (simp add: wq_inv_def NewRateLimitingQueue_def)
next
  case (stop q)
  then show ?case by (simp add: wq_inv_def wq_ShutDown_def)
qed (simp_all add: wq_inv_step wq_inv_Add)


subsection \<open>The work ends\<close>

text \<open>
  The entries of all keys, the attempts that the entries have left, and how far the entries are from a
  worker. Every step makes the first smaller, or keeps it and makes the second smaller, or keeps both and brings an entry closer.
\<close>

definition attempts_left :: "'k wqueue \<Rightarrow> 'k \<Rightarrow> nat" where
  "attempts_left q k = 6 - NumRequeues k q"

definition entries :: "'k wqueue \<Rightarrow> nat" where
  "entries q = length (waitingForAddCh q) + length (waitingEntries q) + card (dirty q) + card (processing q)"

definition attempts :: "'k wqueue \<Rightarrow> nat" where
  "attempts q = sum_list (map (attempts_left q) (waitingForAddCh q)) + sum_list (map (attempts_left q) (waitingEntries q)) +
     sum (attempts_left q) (dirty q) + sum (attempts_left q) (processing q)"

definition distance :: "'k wqueue \<Rightarrow> nat" where
  "distance q = 3 * length (waitingForAddCh q) + 2 * length (waitingEntries q) + card (dirty q)"

lemmas wq_measures = entries_def attempts_def distance_def

lemma attempts_left_fields [simp]:
  "attempts_left (q\<lparr>items := x1\<rparr>) = attempts_left q" "attempts_left (q\<lparr>dirty := x2\<rparr>) = attempts_left q"
  "attempts_left (q\<lparr>processing := x3\<rparr>) = attempts_left q" "attempts_left (q\<lparr>waitingForAddCh := x4\<rparr>) = attempts_left q"
  "attempts_left (q\<lparr>waitingEntries := x5\<rparr>) = attempts_left q"
  by (simp_all add: fun_eq_iff attempts_left_def NumRequeues_def)

lemma measures_Add:
  assumes "wq_inv q"
  shows "entries (wq_Add k q) \<le> entries q + 1" "attempts (wq_Add k q) \<le> attempts q + attempts_left q k" "distance (wq_Add k q) \<le> distance q + 1"
  using wq_invD [OF assms] by (auto simp: wq_measures wq_Add_def Let_def card_insert_if)

lemma measures_insert_entry:
  "entries (insert_entry k q) \<le> entries q + 1" "attempts (insert_entry k q) \<le> attempts q + attempts_left q k" "distance (insert_entry k q) \<le> distance q + 2"
  by (auto simp: wq_measures insert_entry_def)

lemma measures_receive:
  assumes "waitingForAddCh q = k # ks"
  shows "entries q = entries (q\<lparr>waitingForAddCh := ks\<rparr>) + 1" "attempts q = attempts (q\<lparr>waitingForAddCh := ks\<rparr>) + attempts_left q k"
    "distance q = distance (q\<lparr>waitingForAddCh := ks\<rparr>) + 3"
  using assms by (simp_all add: wq_measures)

lemma measures_pop:
  assumes "k \<in> set (waitingEntries q)"
  defines "q1 \<equiv> q\<lparr>waitingEntries := remove1 k (waitingEntries q)\<rparr>"
  shows "entries q = entries q1 + 1" "attempts q = attempts q1 + attempts_left q k" "distance q = distance q1 + 2"
proof -
  have "length (waitingEntries q) = length (remove1 k (waitingEntries q)) + 1"
    using assms(1) length_pos_if_in_set [OF assms(1)] by (simp add: length_remove1)
  moreover have "sum_list (map f (waitingEntries q)) = sum_list (map f (remove1 k (waitingEntries q))) + f k" for f :: "'a \<Rightarrow> nat"
    using assms(1) by (simp add: sum_list_map_remove1)
  ultimately show "entries q = entries q1 + 1" "attempts q = attempts q1 + attempts_left q k" "distance q = distance q1 + 2"
    by (simp_all add: wq_measures q1_def)
qed

lemma measures_take:
  assumes "wq_inv q" and "wq_Get q = Got k q'"
  shows "entries q' = entries q" "attempts q' = attempts q" "distance q' < distance q"
proof -
  obtain ks where i: "items q = k # ks" and q': "q' = q\<lparr>items := ks, processing := insert k (processing q), dirty := dirty q - {k}\<rparr>"
    using got_fields [OF assms(2)] by blast
  have k: "k \<in> dirty q" "k \<notin> processing q" using wq_invD(2) [OF assms(1)] i by auto
  have c: "card (dirty q) = Suc (card (dirty q - {k}))"
    using k(1) wq_invD(4) [OF assms(1)] by (metis card_Suc_Diff1)
  have s: "sum f (dirty q) = f k + sum f (dirty q - {k})" for f :: "'a \<Rightarrow> nat"
    using k(1) wq_invD(4) [OF assms(1)] by (simp add: sum.remove)
  have r: "attempts_left q' = attempts_left q" by (simp add: q')
  show "entries q' = entries q" "attempts q' = attempts q" "distance q' < distance q"
    using k wq_invD(5) [OF assms(1)] c s by (simp_all add: wq_measures r) (simp_all add: q')
qed


lemma measures_Done:
  assumes "wq_inv q" and "k \<in> processing q"
  shows "entries q = entries (wq_Done k q) + 1" "attempts q = attempts (wq_Done k q) + attempts_left q k"
proof -
  have r: "attempts_left (wq_Done k q) = attempts_left q"
    by (simp add: fun_eq_iff attempts_left_def NumRequeues_def wq_Done_def Let_def)
  have c: "card (processing q) = Suc (card (processing q - {k}))"
    using assms(2) wq_invD(5) [OF assms(1)] by (metis card_Suc_Diff1)
  have s: "sum f (processing q) = f k + sum f (processing q - {k})" for f :: "'a \<Rightarrow> nat"
    using assms(2) wq_invD(5) [OF assms(1)] by (simp add: sum.remove)
  show "entries q = entries (wq_Done k q) + 1" "attempts q = attempts (wq_Done k q) + attempts_left q k"
    using c s by (simp_all add: wq_measures r) (simp_all add: wq_Done_def Let_def)
qed

lemma entries_requeued [simp]: "entries (q\<lparr>requeued := f\<rparr>) = entries q"
  by (simp add: entries_def)

lemma finish_measures:
  assumes "wq_inv q" and "k \<in> processing q"
  shows "entries (wq_Done k (handleErr k err q)) < entries q \<or>
    entries (wq_Done k (handleErr k err q)) = entries q \<and> attempts (wq_Done k (handleErr k err q)) < attempts q"
proof -
  let ?r = "handleErr k err q"
  have inv: "wq_inv ?r" and k: "k \<in> processing ?r" using assms by (simp_all add: wq_inv_def)
  note d = measures_Done [OF inv k]
  show ?thesis
  proof (cases "err \<noteq> None \<and> NumRequeues k q < 5 \<and> \<not> shuttingDown q")
    case False
    then have "entries ?r = entries q"
      by (auto simp: handleErr_def Forget_def AddRateLimited_eq entries_def split: option.split)
    then show ?thesis using d by simp
  next
    case True
    then have r: "?r = AddRateLimited k q" by (auto simp: handleErr_def)
    have le: "attempts_left ?r k' \<le> attempts_left q k'" for k'
      using True rl.slack_more(1) [of k q 6 k'] by (simp add: r attempts_left_def)
    have lt: "attempts_left ?r k < attempts_left q k"
      using True rl.slack_more(2) [of k q 6] by (simp add: r attempts_left_def)
    have e: "entries ?r = entries q + 1" using True by (simp add: r AddRateLimited_eq entries_def)
    have sl: "sum_list (map (attempts_left ?r) xs) \<le> sum_list (map (attempts_left q) xs)" for xs
      by (rule sum_list_mono) (rule le)
    have ss: "sum (attempts_left ?r) X \<le> sum (attempts_left q) X" for X
      by (rule sum_mono) (rule le)
    have p: "sum (attempts_left ?r) (processing q) < sum (attempts_left q) (processing q)"
      by (rule sum_strict_mono_ex1) (use wq_invD(5) [OF assms(1)] assms(2) le lt in auto)
    have "attempts ?r < attempts q + attempts_left ?r k"
      unfolding attempts_def
      using p sl [of "waitingForAddCh q"] sl [of "waitingEntries q"] ss [of "dirty q"] True
      by (simp add: r AddRateLimited_eq)
    then show ?thesis using d e by simp
  qed
qed

definition wq_order :: "('k wqueue \<times> 'k wqueue) set" where
  "wq_order = measures [entries, attempts, distance]"

lemma step_decreases:
  assumes "wq_inv q" and "worker_step handleErr q q'"
  shows "(q', q) \<in> wq_order"
  using assms(2)
proof (cases rule: worker_step.cases)
  case (take k)
  then show ?thesis using measures_take [OF assms(1)] by (simp add: wq_order_def)
next
  case (finish k err)
  then show ?thesis using finish_measures [OF assms(1), of k err] by (auto simp: wq_order_def)
next
  case (keep k ks)
  then show ?thesis
    using measures_receive [OF keep(3)] measures_insert_entry [of k "q\<lparr>waitingForAddCh := ks\<rparr>"] by (auto simp: wq_order_def)
next
  case (ready k ks)
  then show ?thesis
    using measures_receive [OF ready(3)] measures_Add [of "q\<lparr>waitingForAddCh := ks\<rparr>" k] assms(1) by (auto simp: wq_order_def)
next
  case (fire k)
  then show ?thesis
    using measures_pop [OF fire(3)] measures_Add [OF wq_inv_entries [OF assms(1)], of "remove1 k (waitingEntries q)" k]
    wq_invD(3) [OF assms(1)] by (auto simp: wq_order_def)
qed


subsection \<open>Progress\<close>

definition idle :: "'k wqueue \<Rightarrow> bool" where
  "idle q \<longleftrightarrow> items q = [] \<and> dirty q = {} \<and> processing q = {} \<and> waitingForAddCh q = [] \<and> waitingEntries q = []"

lemma progress:
  assumes "wq_inv q" and "\<not> shuttingDown q" and "\<not> idle q"
  shows "\<exists>q'. worker_step h q q'"
proof -
  consider (i) k ks where "items q = k # ks" | (p) k where "k \<in> processing q" | (c) k ks where "waitingForAddCh q = k # ks"
    | (w) k where "k \<in> set (waitingEntries q)"
    using assms(3) wq_invD(2) [OF assms(1)] unfolding idle_def
    by (metis Diff_empty ex_in_conv list.exhaust list.set_intros(1) set_empty)
  then show ?thesis
  proof cases
    case i
    then obtain q' where "wq_Get q = Got k q'" by (simp add: wq_Get_def)
    then show ?thesis by (blast intro: worker_step.take)
  next
    case p
    then show ?thesis by (blast intro: worker_step.finish)
  next
    case c
    then show ?thesis using assms(2) by (blast intro: worker_step.keep)
  next
    case w
    then show ?thesis using assms(2) by (blast intro: worker_step.fire)
  qed
qed

lemma shuttingDown_ops [simp]:
  "shuttingDown (wq_Add k q) = shuttingDown q" "shuttingDown (wq_Done k q) = shuttingDown q" "shuttingDown (insert_entry k q) = shuttingDown q"
  "wq_Get q = Got k q' \<Longrightarrow> shuttingDown q' = shuttingDown q"
  by (auto simp: wq_Add_def wq_Done_def insert_entry_def wq_Get_def Let_def split: list.splits if_splits)

lemma shuttingDown_step: "worker_step handleErr q q' \<Longrightarrow> shuttingDown q' = shuttingDown q"
  by (erule worker_stepE) simp_all

lemma wf_wq_order: "wf wq_order" by (simp add: wq_order_def)

lemma inevitably_by:
  assumes "wq_inv q" and "\<not> shuttingDown q" and "J q"
    and "\<And>q. wq_inv q \<Longrightarrow> \<not> shuttingDown q \<Longrightarrow> J q \<Longrightarrow> \<not> P q \<Longrightarrow> \<not> idle q"
    and "\<And>q q'. wq_inv q \<Longrightarrow> \<not> shuttingDown q \<Longrightarrow> J q \<Longrightarrow> worker_step handleErr q q' \<Longrightarrow> J q' \<or> P q'"
  shows "inevitably (worker_step handleErr) P q"
  using wf_wq_order assms(1-3)
proof (induction q rule: wf_induct_rule)
  case (less q)
  show ?case
  proof (cases "P q")
    case False
    then obtain q' where "worker_step handleErr q q'" using progress assms(4) less.prems by blast
    moreover have "inevitably (worker_step handleErr) P t" if t: "worker_step handleErr q t" for t
    proof (cases "P t")
      case False
      then have "J t" using assms(5) [OF less.prems t] by simp
      then show ?thesis
        using less.IH [OF step_decreases [OF less.prems(1) t]] wq_inv_step [OF less.prems(1) t] shuttingDown_step [OF t] less.prems(2) by simp
    qed (rule inevitably.now)
    ultimately show ?thesis by (rule inevitably.later)
  qed (rule inevitably.now)
qed

text \<open>A key that waits, and is not in the hands of a worker that took it after it was added last.\<close>

definition waits :: "'k \<Rightarrow> 'k wqueue \<Rightarrow> bool" where
  "waits k q \<longleftrightarrow> k \<in> dirty q \<union> set (waitingForAddCh q) \<union> set (waitingEntries q) \<and> (k \<in> processing q \<longrightarrow> k \<in> dirty q)"

definition taken :: "'k \<Rightarrow> 'k wqueue \<Rightarrow> bool" where
  "taken k q \<longleftrightarrow> k \<in> processing q \<and> k \<notin> dirty q"

lemma waits_step:
  assumes "\<not> shuttingDown q" and "waits k q" and "worker_step handleErr q q'"
  shows "waits k q' \<or> taken k q'"
  using assms(3)
proof (cases rule: worker_step.cases)
  case (take k')
  from got_fields [OF take] obtain ks where
    q': "q' = q\<lparr>items := ks, processing := insert k' (processing q), dirty := dirty q - {k'}\<rparr>" by blast
  show ?thesis using assms(2) by (cases "k = k'") (simp_all add: q' waits_def taken_def)
next
  case (finish k' err)
  have "set (waitingForAddCh q) \<subseteq> set (waitingForAddCh (handleErr k' err q))"
    by (simp add: handleErr_def Forget_def AddRateLimited_eq subset_insertI split: option.split)
  then have "waits k q'" using finish assms(2) by (simp add: waits_def wq_Done_def Let_def) blast
  then show ?thesis ..
next
  case (keep k' ks)
  then show ?thesis using assms(2) by (auto simp: waits_def insert_entry_def)
next
  case (ready k' ks)
  then show ?thesis using assms(1, 2) by (auto simp: waits_def wq_Add_def Let_def)
next
  case (fire k')
  then show ?thesis using assms(1, 2) by (cases "k = k'") (auto simp: waits_def wq_Add_def Let_def)
qed


subsection \<open>Properties\<close>

lemma rl_bounded: "rl.bounded n q \<longleftrightarrow> (\<forall>k. requeued q k \<le> n)"
  by (simp add: rl.bounded_def, simp add: NumRequeues_def)

lemma requeued_ops:
  "requeued (wq_Add k q) = requeued q" "requeued (wq_Done k q) = requeued q" "requeued (insert_entry k q) = requeued q"
  by (simp_all add: wq_Add_def wq_Done_def insert_entry_def Let_def)

lemma retries_step:
  assumes "rl.bounded 5 q" and "worker_step handleErr q q'"
  shows "rl.bounded 5 q'"
  using assms(2)
proof (cases rule: worker_step.cases)
  case (take k)
  then have "requeued q' = requeued q" using got_fields [OF take] by (elim exE conjE) simp
  then show ?thesis using assms(1) unfolding rl_bounded by simp
next
  case (finish k err)
  have "rl.bounded 5 (handleErr k err q)"
  proof (cases "err \<noteq> None \<and> NumRequeues k q < 5")
    case True
    then show ?thesis using rl.bounded_more [OF assms(1), of k] by (auto simp only: handleErr_def option.case if_True)
  next
    case False
    then have "handleErr k err q = Forget k q" by (auto simp: handleErr_def split: option.split)
    then show ?thesis using rl.bounded_forget [OF assms(1), of k] by (simp only:)
  qed
  then show ?thesis unfolding finish(1) rl_bounded requeued_ops .
qed (insert assms(1), simp_all only: rl_bounded requeued_ops, simp_all)

lemma retries_reach: "wq_reach handleErr q \<Longrightarrow> rl.bounded 5 q"
proof (induction rule: wq_reach.induct)
  case start
  show ?case unfolding rl_bounded by (simp add: NewRateLimitingQueue_def)
next
  case (work q q')
  then show ?case using retries_step by blast
next
  case (event q k)
  then show ?case unfolding rl_bounded requeued_ops by blast
next
  case (stop q)
  then show ?case unfolding rl_bounded by (simp add: wq_ShutDown_def)
qed

text \<open>C24. In every run of a controller, with any number of workers and in any order of events, retries and
  results: the queue holds no key twice and exactly the keys that need processing and that no worker
  has, so no key is ever in the hands of two workers, and no key was put back more than five times since it was forgotten.
\<close>

theorem queue_invariant:
  assumes "wq_reach handleErr q"
  shows "distinct (items q) \<and> set (items q) = dirty q - processing q \<and> (\<forall>k. NumRequeues k q \<le> 5) \<and>
    (\<forall>k q'. wq_Get q = Got k q' \<longrightarrow> k \<notin> processing q)"
proof (intro conjI allI impI)
  note inv = wq_inv_reach [OF assms]
  show "distinct (items q)" "set (items q) = dirty q - processing q" using wq_invD [OF inv] by simp_all
  show "NumRequeues k q \<le> 5" for k using retries_reach [OF assms] unfolding rl_bounded NumRequeues_def by blast
  show "k \<notin> processing q" if "wq_Get q = Got k q'" for k q'
  proof -
    from got_fields [OF that] have "k \<in> set (items q)" by (elim exE conjE) simp
    then show ?thesis unfolding wq_invD(2) [OF inv] by blast
  qed
qed

text \<open>C25. A run without new events ends: there is no infinite run of the workers and of the loop of the
  delayed keys, whatever the business logic returns, because a key that keeps failing is dropped; and as long
  as the queue is not shut down, every path comes to the empty queue.
\<close>

theorem work_ends:
  assumes "wq_reach handleErr q"
  shows "\<not> (\<exists>f. f 0 = q \<and> (\<forall>i. worker_step handleErr (f i) (f (Suc i)))) \<and>
    (\<not> shuttingDown q \<longrightarrow> inevitably (worker_step handleErr) idle q)"
proof (intro conjI notI impI)
  assume "\<exists>f. f 0 = q \<and> (\<forall>i. worker_step handleErr (f i) (f (Suc i)))"
  then obtain f where f0: "f 0 = q" and st: "\<And>i. worker_step handleErr (f i) (f (Suc i))" by blast
  have "wq_inv (f i)" for i by (induction i) (simp_all add: f0 wq_inv_reach [OF assms] wq_inv_step [OF _ st])
  then have "(f (Suc i), f i) \<in> wq_order" for i using step_decreases st by blast
  then show False using wf_wq_order unfolding wf_iff_no_infinite_down_chain by blast
next
  assume "\<not> shuttingDown q"
  then show "inevitably (worker_step handleErr) idle q"
    by (rule inevitably_by [OF wq_inv_reach [OF assms], where J = "\<lambda>_. True"]) simp_all
qed

text \<open>C26. No key is lost. After an event has added a key, also while a worker has the same key, every path takes the
  key anew; and so does every path after a failure of a key that was put back less than five times.
\<close>

theorem added_key_is_taken:
  assumes "wq_reach handleErr q" and "\<not> shuttingDown q"
  shows "inevitably (worker_step handleErr) (taken k) (wq_Add k q) \<and>
    (k \<in> processing q \<and> NumRequeues k q < 5 \<longrightarrow>
      inevitably (worker_step handleErr) (taken k) (wq_Done k (handleErr k (Some e) q)))"
proof -
  have live: "inevitably (worker_step handleErr) (taken k) t" if "wq_inv t" "\<not> shuttingDown t" "waits k t" for t
  proof (rule inevitably_by [OF that(1,2), where J = "waits k"])
    show "waits k t" by fact
    show "\<not> idle t" if "waits k t" for t using that by (auto simp: waits_def idle_def)
    show "waits k t' \<or> taken k t'" if "\<not> shuttingDown t" "waits k t" "worker_step handleErr t t'" for t t'
      using that by (rule waits_step)
  qed
  have "waits k (wq_Add k q)" using assms(2) by (simp add: waits_def wq_Add_def Let_def)
  moreover have "waits k (wq_Done k (handleErr k (Some e) q))" if "NumRequeues k q < 5"
    using that assms(2) by (simp add: waits_def wq_Done_def Let_def handleErr_def AddRateLimited_eq)
  moreover have "wq_inv (wq_Done k (handleErr k (Some e) q))" if "k \<in> processing q"
    by (rule wq_inv_step [OF wq_inv_reach [OF assms(1)]]) (rule worker_step.finish [OF that])
  ultimately show ?thesis using live assms(2) wq_inv_Add [OF wq_inv_reach [OF assms(1)]] by simp
qed


subsection \<open>The attempts for a key that always fails\<close>

text \<open>The loop of the delayed keys once their time has come.\<close>

definition deliver :: "'k wqueue \<Rightarrow> 'k wqueue" where
  "deliver q = fold wq_Add (waitingEntries q @ waitingForAddCh q) (q\<lparr>waitingForAddCh := [], waitingEntries := []\<rparr>)"

primrec turns :: "nat \<Rightarrow> ('k \<Rightarrow> goerr + unit) \<Rightarrow> 'k wqueue \<Rightarrow> 'k wqueue option" where
  "turns 0 sync q = Some q"
| "turns (Suc n) sync q = (case turns n sync q of None \<Rightarrow> None
     | Some t \<Rightarrow> (case processNextItem sync t of Some (Inr True, u) \<Rightarrow> Some (deliver u) | _ \<Rightarrow> None))"

definition pending_once :: "'k \<Rightarrow> nat \<Rightarrow> 'k wqueue" where
  "pending_once k n = NewRateLimitingQueue\<lparr>items := [k], dirty := {k}, requeued := (\<lambda>_. 0)(k := n)\<rparr>"

lemma failing_turn:
  assumes "sync k = Inl e" and "\<not> is_panic e"
  shows "\<exists>u. processNextItem sync (pending_once k n) = Some (Inr True, u) \<and>
     deliver u = (if n < 5 then pending_once k (Suc n) else NewRateLimitingQueue)"
proof -
  define t where "t = NewRateLimitingQueue\<lparr>processing := {k}, requeued := (\<lambda>_. 0)(k := n)\<rparr>"
  have g: "wq_Get (pending_once k n) = Got k t" by (simp add: wq_Get_def pending_once_def t_def NewRateLimitingQueue_def)
  have p: "processNextItem sync (pending_once k n) = Some (Inr True, wq_Done k (handleErr k (Some e) t))"
    using assms by (simp add: processNextItem_def g)
  show ?thesis
  proof (cases "n < 5")
    case True
    have "wq_Done k (handleErr k (Some e) t) = NewRateLimitingQueue\<lparr>requeued := (\<lambda>_. 0)(k := Suc n), waitingForAddCh := [k]\<rparr>"
      using True by (simp add: t_def handleErr_def NumRequeues_def AddRateLimited_eq wq_Done_def Let_def NewRateLimitingQueue_def)
    then show ?thesis using True p by (simp add: deliver_def wq_Add_def Let_def pending_once_def NewRateLimitingQueue_def)
  next
    case False
    have z: "(\<lambda>a. 0 :: nat)(k := 0) = (\<lambda>_. 0)" by (rule ext) simp
    have "wq_Done k (handleErr k (Some e) t) = NewRateLimitingQueue"
      using False by (simp add: t_def handleErr_def NumRequeues_def Forget_def wq_Done_def Let_def NewRateLimitingQueue_def z)
    then show ?thesis using False p by (simp add: deliver_def NewRateLimitingQueue_def)
  qed
qed

lemma worker_waits: "processNextItem sync NewRateLimitingQueue = None"
  by (simp add: processNextItem_def wq_Get_def NewRateLimitingQueue_def)

text \<open>C27. A key whose processing always fails is tried exactly six times: after fewer turns it is in the queue
  again, with the failures counted, and after six it is dropped and its count is reset; the worker then waits.
\<close>

theorem failing_key_tried_six_times:
  assumes "sync k = Inl e" and "\<not> is_panic e"
  shows "turns n sync (wq_Add k NewRateLimitingQueue) =
    (if n < 6 then Some (pending_once k n) else if n = 6 then Some NewRateLimitingQueue else None)"
proof (induction n)
  case 0
  have "(\<lambda>a. 0 :: nat)(k := 0) = (\<lambda>_. 0)" by (rule ext) simp
  then show ?case by (simp add: pending_once_def NewRateLimitingQueue_def wq_Add_def)
next
  case (Suc n)
  consider "n < 6" | "n = 6" | "n > 6" by linarith
  then show ?case
  proof cases
    case 1
    then show ?thesis using Suc failing_turn [of sync k e n, OF assms] by auto
  next
    case 2
    then have "turns n sync (wq_Add k NewRateLimitingQueue) = Some NewRateLimitingQueue" using Suc by simp
    then have "turns (Suc n) sync (wq_Add k NewRateLimitingQueue) = None" by (simp add: worker_waits)
    then show ?thesis using 2 by simp
  qed (use Suc in simp)
qed

text \<open>One key added, and the same key added again while a worker has it.\<close>

definition one_added :: "nat wqueue" where "one_added = wq_Add 7 NewRateLimitingQueue"

lemma one_added_reach: "wq_reach handleErr one_added"
  unfolding one_added_def by (intro wq_reach.event wq_reach.start)

lemma one_taken_reach: "wq_reach handleErr (NewRateLimitingQueue\<lparr>processing := {7 :: nat}\<rparr>)"
  by (rule wq_reach.work [OF one_added_reach], rule worker_step.take [where k = 7])
    (simp add: one_added_def wq_Get_def wq_Add_def NewRateLimitingQueue_def)

theorem queue_invariant_witness: "distinct (items one_added) \<and> set (items one_added) = dirty one_added - processing one_added"
  using queue_invariant [OF one_added_reach] by blast

theorem work_ends_witness: "inevitably (worker_step handleErr) idle one_added"
proof -
  have "\<not> shuttingDown one_added" by (simp add: one_added_def NewRateLimitingQueue_def)
  then show ?thesis using work_ends [OF one_added_reach] by blast
qed

theorem added_key_is_taken_witness:
  "inevitably (worker_step handleErr) (taken 7) (wq_Add 7 (NewRateLimitingQueue\<lparr>processing := {7 :: nat}\<rparr>)) \<and>
   inevitably (worker_step handleErr) (taken 7) (wq_Done 7 (handleErr 7 (Some (Plain ''e'')) (NewRateLimitingQueue\<lparr>processing := {7 :: nat}\<rparr>)))"
proof -
  define q where "q = NewRateLimitingQueue\<lparr>processing := {7 :: nat}\<rparr>"
  have r: "wq_reach handleErr q" unfolding q_def by (rule one_taken_reach)
  have "\<not> shuttingDown q" "7 \<in> processing q" "NumRequeues 7 q < 5" by (simp_all add: q_def NewRateLimitingQueue_def NumRequeues_def)
  then show ?thesis using added_key_is_taken [OF r, of 7 "Plain ''e''"] unfolding q_def by blast
qed

theorem failing_key_tried_six_times_witness:
  "turns 6 (\<lambda>_. Inl (Plain ''e'')) (wq_Add (7 :: nat) NewRateLimitingQueue) = Some NewRateLimitingQueue"
  using failing_key_tried_six_times [of "\<lambda>_. Inl (Plain ''e'')" "7 :: nat" "Plain ''e''" 6] by simp

end
