(* ===== verification/SimpleControllers.thy ===== *)
theory SimpleControllers
  imports ControllerQueue GoJson
begin

section \<open>simplecontroller: the controllers (pkg/simplecontroller/controller)\<close>

text \<open>
  The informer controllers: what the events of the informers put into the queue, and what is done with a key.
  An indexer is a function from keys to what it stores. What the controllers only log is left
  out, except where the log line is all that the business logic does: then it is its result. The caches and
  the API server are arguments.
\<close>

subsection \<open>Errors and keys of the API library\<close>

fun IsNotFound :: "goerr \<Rightarrow> bool" where
  "IsNotFound (Kube (ApiNotFound _)) = True"
| "IsNotFound _ = False"

fun IsAlreadyExists :: "goerr \<Rightarrow> bool" where
  "IsAlreadyExists (Kube (ApiAlreadyExists _)) = True"
| "IsAlreadyExists _ = False"

fun IsConflict :: "goerr \<Rightarrow> bool" where
  "IsConflict (Kube (ApiConflict _)) = True"
| "IsConflict _ = False"

text \<open>The namespace and the name of an object; an object deleted while the watch was down comes with its key.\<close>

type_synonym meta = "string \<times> string"

definition MetaNamespaceKeyFunc :: "meta option \<Rightarrow> goerr + string" where
  "MetaNamespaceKeyFunc m =
     (case m of
        None \<Rightarrow> Inl (Plain ''object has no meta: object does not implement the Object interfaces'')
      | Some (ns, n) \<Rightarrow> Inr (if length ns > 0 then ns @ ''/'' @ n else n))"

datatype deleted = DeletedFinalStateUnknown string | DeletedObject "meta option"

definition DeletionHandlingMetaNamespaceKeyFunc :: "deleted \<Rightarrow> goerr + string" where
  "DeletionHandlingMetaNamespaceKeyFunc d =
     (case d of DeletedFinalStateUnknown key \<Rightarrow> Inr key | DeletedObject m \<Rightarrow> MetaNamespaceKeyFunc m)"

definition SplitMetaNamespaceKey :: "string \<Rightarrow> goerr + (string \<times> string)" where
  "SplitMetaNamespaceKey key =
     (case split_char (CHR ''/'') key of
        [n] \<Rightarrow> Inr ([], n)
      | [ns, n] \<Rightarrow> Inr (ns, n)
      | _ \<Rightarrow> Inl (Plain (''unexpected key format: '' @ key)))"

definition enqueue_key :: "(string \<Rightarrow> 'k) \<Rightarrow> goerr + string \<Rightarrow> 'k wqueue \<Rightarrow> 'k wqueue" where
  "enqueue_key mk key q = (case key of Inl _ \<Rightarrow> q | Inr k \<Rightarrow> wq_Add (mk k) q)"

text \<open>What a key came to: the object was gone, or it was seen under its name.\<close>

datatype outcome = Gone string | Seen string

subsection \<open>IPPools (ippool.go)\<close>

text \<open>An object of the dynamic informer is its JSON; anything else has no nested fields.\<close>

definition nested_bool_found :: "json \<Rightarrow> string \<Rightarrow> string \<Rightarrow> bool" where
  "nested_bool_found obj f g =
     (case obj of
        JObj ms \<Rightarrow> (case map_of ms f of Some (JObj ns) \<Rightarrow> (case map_of ns g of Some (JBool _) \<Rightarrow> True | _ \<Rightarrow> False) | _ \<Rightarrow> False)
      | _ \<Rightarrow> False)"

definition ippool_AddFunc :: "json option \<Rightarrow> meta option \<Rightarrow> string wqueue \<Rightarrow> string wqueue" where
  "ippool_AddFunc obj m q =
     (case obj of
        None \<Rightarrow> q
      | Some j \<Rightarrow> if \<not> nested_bool_found j ''spec'' ''disabled'' then q else enqueue_key id (MetaNamespaceKeyFunc m) q)"

definition ippool_UpdateFunc :: "meta option \<Rightarrow> string wqueue \<Rightarrow> string wqueue" where
  "ippool_UpdateFunc newObj q = enqueue_key id (MetaNamespaceKeyFunc newObj) q"

definition ippool_DeleteFunc :: "deleted \<Rightarrow> string wqueue \<Rightarrow> string wqueue" where
  "ippool_DeleteFunc obj q = enqueue_key id (DeletionHandlingMetaNamespaceKeyFunc obj) q"

text \<open>\<open>GetByKey\<close> gives an error, nothing, or an object, which has a name if it is an object of the API.\<close>

definition ippool_syncToStdout :: "(string \<Rightarrow> goerr + string option option) \<Rightarrow> string \<Rightarrow> goerr + outcome" where
  "ippool_syncToStdout getByKey key =
     (case getByKey key of
        Inl err \<Rightarrow> Inl err
      | Inr None \<Rightarrow> Inr (Gone key)
      | Inr (Some None) \<Rightarrow> Inl (Panic ''nil pointer'')
      | Inr (Some (Some n)) \<Rightarrow> Inr (Seen n))"

subsection \<open>DaemonSets (ds.go)\<close>

record DaemonSet = dsNamespace :: string dsName :: string

definition ds_AddFunc :: "meta option \<Rightarrow> string wqueue \<Rightarrow> string wqueue" where
  "ds_AddFunc obj q = enqueue_key id (MetaNamespaceKeyFunc obj) q"

definition ds_UpdateFunc :: "meta option \<Rightarrow> string wqueue \<Rightarrow> string wqueue" where
  "ds_UpdateFunc newObj q = enqueue_key id (MetaNamespaceKeyFunc newObj) q"

definition ds_DeleteFunc :: "deleted \<Rightarrow> string wqueue \<Rightarrow> string wqueue" where
  "ds_DeleteFunc obj q = enqueue_key id (DeletionHandlingMetaNamespaceKeyFunc obj) q"

text \<open>The object is converted before it is known to exist: the conversion of nothing panics. What the index
  by namespace returns is logged at most.\<close>

definition ds_syncToStdout :: "(string \<Rightarrow> goerr + DaemonSet option) \<Rightarrow> string \<Rightarrow> goerr + outcome" where
  "ds_syncToStdout getByKey key =
     (case getByKey key of
        Inl err \<Rightarrow> Inl err
      | Inr None \<Rightarrow> Inl (Panic ''interface conversion: interface {} is nil, not *v1.DaemonSet'')
      | Inr (Some ds) \<Rightarrow> Inr (Seen (dsName ds)))"

definition NamespaceIndexFunc :: "meta option \<Rightarrow> goerr + string list" where
  "NamespaceIndexFunc obj =
     (case obj of None \<Rightarrow> Inl (Plain ''object is not a metav1.Object'') | Some (ns, _) \<Rightarrow> Inr [ns])"

subsection \<open>Real and virtual clusters (vrcluster.go)\<close>

definition VirtualClusterKind :: string where "VirtualClusterKind = ''VirtualCluster''"
definition RealClusterKind :: string where "RealClusterKind = ''RealCluster''"

record RCCluster = Kind :: string Name :: string

datatype vr_object = RealCluster string | VirtualCluster string

definition rc_AddFunc :: "meta option \<Rightarrow> RCCluster wqueue \<Rightarrow> RCCluster wqueue" where
  "rc_AddFunc obj q = enqueue_key (\<lambda>k. \<lparr>Kind = RealClusterKind, Name = k\<rparr>) (MetaNamespaceKeyFunc obj) q"

definition rc_UpdateFunc :: "meta option \<Rightarrow> RCCluster wqueue \<Rightarrow> RCCluster wqueue" where
  "rc_UpdateFunc newObj q = enqueue_key (\<lambda>k. \<lparr>Kind = RealClusterKind, Name = k\<rparr>) (MetaNamespaceKeyFunc newObj) q"

definition rc_DeleteFunc :: "deleted \<Rightarrow> RCCluster wqueue \<Rightarrow> RCCluster wqueue" where
  "rc_DeleteFunc obj q = enqueue_key (\<lambda>k. \<lparr>Kind = RealClusterKind, Name = k\<rparr>) (DeletionHandlingMetaNamespaceKeyFunc obj) q"

definition vc_AddFunc :: "meta option \<Rightarrow> RCCluster wqueue \<Rightarrow> RCCluster wqueue" where
  "vc_AddFunc obj q = enqueue_key (\<lambda>k. \<lparr>Kind = VirtualClusterKind, Name = k\<rparr>) (MetaNamespaceKeyFunc obj) q"

definition vc_UpdateFunc :: "meta option \<Rightarrow> RCCluster wqueue \<Rightarrow> RCCluster wqueue" where
  "vc_UpdateFunc newObj q = enqueue_key (\<lambda>k. \<lparr>Kind = VirtualClusterKind, Name = k\<rparr>) (MetaNamespaceKeyFunc newObj) q"

definition vc_DeleteFunc :: "deleted \<Rightarrow> RCCluster wqueue \<Rightarrow> RCCluster wqueue" where
  "vc_DeleteFunc obj q = enqueue_key (\<lambda>k. \<lparr>Kind = VirtualClusterKind, Name = k\<rparr>) (DeletionHandlingMetaNamespaceKeyFunc obj) q"

fun object_name :: "vr_object \<Rightarrow> string" where
  "object_name (RealCluster n) = n"
| "object_name (VirtualCluster n) = n"

definition vr_reconsile :: "(string \<Rightarrow> goerr + vr_object option) \<Rightarrow> (string \<Rightarrow> goerr + vr_object option) \<Rightarrow> RCCluster \<Rightarrow> goerr + outcome" where
  "vr_reconsile rcindexer vcindexer key =
     (let found = (if Kind key = VirtualClusterKind then rcindexer (Name key)
          else if Kind key = RealClusterKind then vcindexer (Name key)
          else Inl (Plain ''strang key!'')) in
      case found of
        Inl err \<Rightarrow> Inl err
      | Inr None \<Rightarrow> Inr (Gone (Name key))
      | Inr (Some obj) \<Rightarrow> Inr (Seen (object_name obj)))"

text \<open>The business logic as the worker sees it: nothing but its error.\<close>

definition as_sync :: "('k \<Rightarrow> goerr + 'a) \<Rightarrow> 'k \<Rightarrow> goerr + unit" where
  "as_sync f key = (case f key of Inl e \<Rightarrow> Inl e | Inr _ \<Rightarrow> Inr ())"

text \<open>The turn of a worker of each of these controllers.\<close>

definition ippool_processNextItem :: "(string \<Rightarrow> goerr + string option option) \<Rightarrow> string wqueue \<Rightarrow> ((goerr + bool) \<times> string wqueue) option" where
  "ippool_processNextItem getByKey = processNextItem (as_sync (ippool_syncToStdout getByKey))"

definition ds_processNextItem :: "(string \<Rightarrow> goerr + DaemonSet option) \<Rightarrow> string wqueue \<Rightarrow> ((goerr + bool) \<times> string wqueue) option" where
  "ds_processNextItem getByKey = processNextItem (as_sync (ds_syncToStdout getByKey))"

definition vr_processNextItem :: "(string \<Rightarrow> goerr + vr_object option) \<Rightarrow> (string \<Rightarrow> goerr + vr_object option) \<Rightarrow>
    RCCluster wqueue \<Rightarrow> ((goerr + bool) \<times> RCCluster wqueue) option" where
  "vr_processNextItem rcindexer vcindexer = processNextItem (as_sync (vr_reconsile rcindexer vcindexer))"

subsection \<open>Services and endpoints (informercontroller.go)\<close>

record Element = Type :: string Key :: string

definition EventService :: string where "EventService = ''svc''"
definition EventEndpoints :: string where "EventEndpoints = ''ep''"
definition SimplecontrollerControllerName :: string where "SimplecontrollerControllerName = ''simplecontroller''"

record CoreService =
  svcNamespace :: string
  svcName :: string
  svcResourceVersion :: string
  svcSelector :: "(string \<times> string) list option"
  svcLabels :: "(string \<times> string) list option"

definition svc_meta :: "CoreService \<Rightarrow> meta option" where
  "svc_meta svc = Some (svcNamespace svc, svcName svc)"

definition indexBySvcLabels :: "CoreService option \<Rightarrow> string list" where
  "indexBySvcLabels obj =
     (case obj of
        None \<Rightarrow> []
      | Some svc \<Rightarrow>
          if svcSelector svc = None \<or> svcSelector svc = Some [] then []
          else [case svcLabels svc of None \<Rightarrow> [] | Some ls \<Rightarrow> (case map_of ls ''app'' of None \<Rightarrow> [] | Some v \<Rightarrow> v)])"

definition controller_enqueue :: "meta option \<Rightarrow> string \<Rightarrow> Element wqueue \<Rightarrow> Element wqueue" where
  "controller_enqueue obj eleType q = enqueue_key (\<lambda>key. \<lparr>Type = eleType, Key = key\<rparr>) (MetaNamespaceKeyFunc obj) q"

definition enqueueForDelete :: "deleted \<Rightarrow> string \<Rightarrow> Element wqueue \<Rightarrow> Element wqueue" where
  "enqueueForDelete obj eleType q = enqueue_key (\<lambda>key. \<lparr>Type = eleType, Key = key\<rparr>) (DeletionHandlingMetaNamespaceKeyFunc obj) q"

definition svc_AddFunc :: "CoreService \<Rightarrow> Element wqueue \<Rightarrow> Element wqueue" where
  "svc_AddFunc svc q = (if svcSelector svc = None then q else controller_enqueue (svc_meta svc) EventService q)"

definition svc_UpdateFunc :: "CoreService \<Rightarrow> CoreService \<Rightarrow> Element wqueue \<Rightarrow> Element wqueue" where
  "svc_UpdateFunc oldSvc newSvc q =
     (if svcResourceVersion newSvc = svcResourceVersion oldSvc then q
      else if svcSelector newSvc = None then q
      else controller_enqueue (svc_meta newSvc) EventService q)"

definition svc_DeleteFunc :: "deleted \<Rightarrow> Element wqueue \<Rightarrow> Element wqueue" where
  "svc_DeleteFunc obj q = enqueueForDelete obj EventService q"

text \<open>Endpoints: the names and how many subsets; \<open>eq\<close> is the semantic equality of the library.\<close>

record Endpoints = epNamespace :: string epName :: string epSubsets :: nat

definition ep_AddFunc :: "Endpoints \<Rightarrow> Element wqueue \<Rightarrow> Element wqueue" where
  "ep_AddFunc ep q = (if epSubsets ep = 0 then q else controller_enqueue (Some (epNamespace ep, epName ep)) EventEndpoints q)"

definition ep_UpdateFunc :: "bool \<Rightarrow> Endpoints \<Rightarrow> Element wqueue \<Rightarrow> Element wqueue" where
  "ep_UpdateFunc eq newEp q = (if \<not> eq then controller_enqueue (Some (epNamespace newEp, epName newEp)) EventEndpoints q else q)"

definition ep_DeleteFunc :: "deleted \<Rightarrow> Element wqueue \<Rightarrow> Element wqueue" where
  "ep_DeleteFunc obj q = enqueueForDelete obj EventEndpoints q"

text \<open>The listers, and the events recorded for a service: their type, reason and message.\<close>

record lister =
  svc_lister :: "string \<Rightarrow> string \<Rightarrow> goerr + CoreService"
  ep_lister :: "string \<Rightarrow> string \<Rightarrow> goerr + Endpoints"

type_synonym recorded = "(string \<times> string \<times> string) list"

definition Eventf :: "string \<Rightarrow> string \<Rightarrow> string \<Rightarrow> (recorded, unit) io" where
  "Eventf ty reason msg = modS (\<lambda>es. es @ [(ty, reason, msg)])"

definition sync_failed :: "CoreService \<Rightarrow> (recorded, unit) io" where
  "sync_failed svc = Eventf ''Warning'' ''syncFailed'' (''Sync '' @ svcName svc @ '' failed: error'')"

text \<open>The lister returns no object with the error \<open>NotFound\<close>, so its name cannot be read.\<close>

definition reconcileService :: "lister \<Rightarrow> string \<Rightarrow> (recorded, unit) io" where
  "reconcileService L key =
     (case SplitMetaNamespaceKey key of
        Inl err \<Rightarrow> fail err
      | Inr (ns, n) \<Rightarrow>
          (case svc_lister L ns n of
             Inl err \<Rightarrow> if IsNotFound err then fail (Panic ''nil pointer'') else fail err
           | Inr svc \<Rightarrow>
               (case svcLabels svc of
                  Some ls \<Rightarrow>
                    if map_of ls ''app'' = Some SimplecontrollerControllerName
                    then Eventf ''Normal'' ''syncSuccess'' (''Sync '' @ svcName svc @ '' ok success'')
                    else sync_failed svc
                | None \<Rightarrow> sync_failed svc)))"

definition reconcileEndpoints :: "lister \<Rightarrow> string \<Rightarrow> (recorded, unit) io" where
  "reconcileEndpoints L key =
     (case SplitMetaNamespaceKey key of
        Inl err \<Rightarrow> fail err
      | Inr (ns, n) \<Rightarrow>
          (case ep_lister L ns n of
             Inl err \<Rightarrow> if IsNotFound err then fail (Panic ''nil pointer'') else fail err
           | Inr ep \<Rightarrow> ret ()))"

definition syncHandler :: "lister \<Rightarrow> Element \<Rightarrow> (recorded, unit) io" where
  "syncHandler L element =
     (if Type element = EventService then tryE (reconcileService L (Key element)) (\<lambda>_. ret ()) ret
      else if Type element = EventEndpoints then tryE (reconcileEndpoints L (Key element)) (\<lambda>_. ret ()) ret
      else ret ())"

text \<open>The worker of this controller puts a failed element back without a bound; every element has type \<open>Element\<close>.\<close>

definition processNextWorkItem :: "(Element \<Rightarrow> ('w, unit) io) \<Rightarrow> Element wqueue \<times> 'w \<Rightarrow>
    ((goerr + bool) \<times> Element wqueue \<times> 'w) option" where
  "processNextWorkItem handler = (\<lambda>(q, w).
     case wq_Get q of
       Blocks \<Rightarrow> None
     | Shutdown \<Rightarrow> Some (Inr False, q, w)
     | Got element q1 \<Rightarrow>
         (case handler element w of
            (Inl e, w1) \<Rightarrow> if is_panic e then Some (Inl e, wq_Done element q1, w1)
              else Some (Inr True, wq_Done element (AddRateLimited element q1), w1)
          | (Inr _, w1) \<Rightarrow> Some (Inr True, wq_Done element (Forget element q1), w1)))"

end
