(* ===== verification/SimpleJobs.thy ===== *)
theory SimpleJobs
  imports SimpleControllers
begin

section \<open>simplecontroller: the reconcilers (job.go, cluster.go, node.go, pod.go, apisix.go, pkg/utils/meta.go)\<close>

text \<open>
  The controllers on top of controller-runtime: the finalizers and the pod of a \<open>SimpleJob\<close>, and the
  reconcilers that only look their object up. The client of the API server is an argument.
\<close>

subsection \<open>Finalizers and owners (pkg/utils/meta.go)\<close>

definition CheckFinalizerKeyExist :: "string list \<Rightarrow> string \<Rightarrow> bool" where
  "CheckFinalizerKeyExist fs key = list_ex (\<lambda>f. f = key) fs"

definition EnsureFinalizer :: "string list \<Rightarrow> string \<Rightarrow> bool \<times> string list" where
  "EnsureFinalizer fs key = (if \<not> CheckFinalizerKeyExist fs key then (True, fs @ [key]) else (False, fs))"

text \<open>The loop appends the key, not the finalizer it looks at.\<close>

primrec remove_loop :: "string \<Rightarrow> string list \<Rightarrow> string list \<Rightarrow> string list" where
  "remove_loop key acc [] = acc"
| "remove_loop key acc (f # fs) = remove_loop key (if f \<noteq> key then acc @ [key] else acc) fs"

definition RemoveFinalizer :: "string list \<Rightarrow> string \<Rightarrow> bool \<times> string list" where
  "RemoveFinalizer fs key = (if CheckFinalizerKeyExist fs key then (True, remove_loop key [] fs) else (False, fs))"

record OwnerReference =
  oAPIVersion :: string
  oKind :: string
  oName :: string
  oUID :: string
  BlockOwnerDeletion :: bool
  oController :: bool

record SimpleJob =
  jAPIVersion :: string
  jKind :: string
  jNamespace :: string
  jName :: string
  jUID :: string
  jResourceVersion :: string
  jFinalizers :: "string list"
  jDeleted :: bool
  jCommand :: "string list"
  jReplica :: int
  jImage :: string

record JobPod =
  pName :: string
  pNamespace :: string
  pOwners :: "OwnerReference list"
  pImage :: string
  pContainer :: string
  pPullPolicy :: string
  pCommand :: "string list"

definition SetOwnerReference :: "SimpleJob \<Rightarrow> JobPod \<Rightarrow> JobPod" where
  "SetOwnerReference owner ownee =
     ownee\<lparr>pOwners := pOwners ownee @ [\<lparr>oAPIVersion = jAPIVersion owner, oKind = jKind owner, oName = jName owner, oUID = jUID owner,
       BlockOwnerDeletion = True, oController = True\<rparr>]\<rparr>"

subsection \<open>Retries (the vendored client-go/util/retry)\<close>

text \<open>After the last step the last error is returned; the waits between the steps are left out.\<close>

primrec OnError :: "nat \<Rightarrow> (goerr \<Rightarrow> bool) \<Rightarrow> ('w, unit) io \<Rightarrow> ('w, unit) io" where
  "OnError 0 retriable fn = ret ()"
| "OnError (Suc n) retriable fn =
     tryE fn (\<lambda>err. if retriable err then (if n = 0 then fail err else OnError n retriable fn) else fail err) ret"

definition RetryOnConflict :: "('w, unit) io \<Rightarrow> ('w, unit) io" where
  "RetryOnConflict fn = OnError 5 IsConflict fn"

subsection \<open>Jobs (job.go)\<close>

definition FinalizerKey :: string where "FinalizerKey = ''simple.io/simplejob''"

record 'w job_client =
  get_job :: "string \<times> string \<Rightarrow> ('w, SimpleJob) io"
  create_pod :: "JobPod \<Rightarrow> ('w, unit) io"
  update_job :: "SimpleJob \<Rightarrow> ('w, unit) io"

definition job_CreateFunc :: bool where "job_CreateFunc = True"

definition job_UpdateFunc :: "SimpleJob \<Rightarrow> SimpleJob \<Rightarrow> bool" where
  "job_UpdateFunc oldObj newObj =
     (if jDeleted newObj then True
      else \<not> (jCommand newObj = jCommand oldObj \<and> jReplica newObj = jReplica oldObj \<and> jImage newObj = jImage oldObj))"

definition job_GenericFunc :: bool where "job_GenericFunc = False"

text \<open>The kinds are read from empty objects.\<close>

definition PodKind :: string where "PodKind = []"
definition ServiceKind :: string where "ServiceKind = []"
definition ConfigmapKind :: string where "ConfigmapKind = []"

text \<open>An owned object: its kind, its resource version and, for a pod, the specification (any type with equality).\<close>

record 'p owned = objKind :: string objVersion :: string podSpec :: "'p option"

definition own_CreateFunc :: "'p owned \<Rightarrow> bool" where
  "own_CreateFunc e =
     (if objKind e = PodKind then True else if objKind e = ServiceKind then True else if objKind e = ConfigmapKind then True else False)"

definition own_UpdateFunc :: "'p owned \<Rightarrow> 'p owned \<Rightarrow> bool" where
  "own_UpdateFunc oldObj newObj =
     (if objVersion newObj = objVersion oldObj then False
      else if objKind newObj = PodKind then
        (case (podSpec newObj, podSpec oldObj) of
           (Some newpod, Some oldpod) \<Rightarrow> if newpod \<noteq> oldpod then False else True
         | _ \<Rightarrow> True)
      else if objKind newObj = ServiceKind then True
      else if objKind newObj = ConfigmapKind then True
      else False)"

definition own_DeleteFunc :: bool where "own_DeleteFunc = True"

definition job_pod :: "string \<times> string \<Rightarrow> SimpleJob \<Rightarrow> JobPod" where
  "job_pod request resource =
     SetOwnerReference resource
       \<lparr>pName = snd request @ ''-pod'', pNamespace = fst request, pOwners = [], pImage = ''busybox:latest'', pContainer = ''busybox'',
        pPullPolicy = ''IfNotPresent'', pCommand = jCommand resource\<rparr>"

definition CreateTask :: "'w job_client \<Rightarrow> string \<times> string \<Rightarrow> SimpleJob \<Rightarrow> ('w, unit) io" where
  "CreateTask C request resource =
     tryE (create_pod C (job_pod request resource)) (\<lambda>err. if \<not> IsAlreadyExists err then fail err else ret ()) ret"

definition ensureFinalizer :: "'w job_client \<Rightarrow> string \<times> string \<Rightarrow> ('w, unit) io" where
  "ensureFinalizer C request =
     RetryOnConflict (bindE (get_job C request) (\<lambda>current.
       case EnsureFinalizer (jFinalizers current) FinalizerKey of
         (True, fs) \<Rightarrow> update_job C (current\<lparr>jFinalizers := fs\<rparr>)
       | (False, _) \<Rightarrow> ret ()))"

definition removeFinalizer :: "'w job_client \<Rightarrow> string \<times> string \<Rightarrow> ('w, unit) io" where
  "removeFinalizer C request =
     RetryOnConflict (bindE (get_job C request) (\<lambda>current.
       case RemoveFinalizer (jFinalizers current) FinalizerKey of
         (True, fs) \<Rightarrow> update_job C (current\<lparr>jFinalizers := fs\<rparr>)
       | (False, _) \<Rightarrow> ret ()))"

definition job_Reconcile :: "'w job_client \<Rightarrow> string \<times> string \<Rightarrow> ('w, unit) io" where
  "job_Reconcile C request =
     tryE (get_job C request) (\<lambda>err. if IsNotFound err then ret () else fail err) (\<lambda>resource.
     if jDeleted resource then removeFinalizer C request
     else bindE (CreateTask C request resource) (\<lambda>_. ensureFinalizer C request))"

subsection \<open>Clusters, nodes, pods and routes\<close>

text \<open>Of these objects only the deletion time and the specification are used; \<open>'o\<close> is the object.\<close>

record 'o watched = wDeleted :: bool wObject :: 'o

definition ClusterPredicatesFunc_Update :: "'o watched \<Rightarrow> 'o watched \<Rightarrow> ('o \<Rightarrow> 's) \<Rightarrow> bool" where
  "ClusterPredicatesFunc_Update oldObj newObj spec = (if wDeleted newObj then True else spec (wObject newObj) \<noteq> spec (wObject oldObj))"

definition NodePredicatesFunc_Update :: "'o watched \<Rightarrow> 'o watched \<Rightarrow> ('o \<Rightarrow> 's) \<Rightarrow> bool" where
  "NodePredicatesFunc_Update oldObj newObj spec = (if wDeleted newObj then True else spec (wObject newObj) \<noteq> spec (wObject oldObj))"

definition PodPredicatesFunc_Update :: "'o watched \<Rightarrow> 'o watched \<Rightarrow> ('o \<Rightarrow> 's) \<Rightarrow> bool" where
  "PodPredicatesFunc_Update oldObj newObj spec = (if wDeleted newObj then True else spec (wObject newObj) \<noteq> spec (wObject oldObj))"

definition ApisixRoutePredicatesFunc_Update :: "'o watched \<Rightarrow> 'o watched \<Rightarrow> ('o \<Rightarrow> 's) \<Rightarrow> bool" where
  "ApisixRoutePredicatesFunc_Update oldObj newObj spec = (if wDeleted newObj then True else spec (wObject newObj) \<noteq> spec (wObject oldObj))"

text \<open>The result: whether to requeue, and after how many seconds.\<close>

definition DefaultRequeueTime :: int where "DefaultRequeueTime = 30"

type_synonym reconcile_result = "(int option) \<times> goerr option"

definition pod_Reconcile :: "(string \<times> string \<Rightarrow> goerr + 'o watched) \<Rightarrow> string \<times> string \<Rightarrow> reconcile_result" where
  "pod_Reconcile get request =
     (case get request of
        Inl err \<Rightarrow> if IsNotFound err then (None, None) else (None, Some err)
      | Inr resource \<Rightarrow> if wDeleted resource then (None, None) else (None, None))"

definition node_Reconcile :: "(string \<times> string \<Rightarrow> goerr + 'o watched) \<Rightarrow> string \<times> string \<Rightarrow> reconcile_result" where
  "node_Reconcile get request =
     (case get request of
        Inl err \<Rightarrow> if IsNotFound err then (None, None) else (Some DefaultRequeueTime, Some err)
      | Inr resource \<Rightarrow> if wDeleted resource then (None, None) else (None, None))"

definition apisix_Reconcile :: "(string \<times> string \<Rightarrow> goerr + 'o watched) \<Rightarrow> string \<times> string \<Rightarrow> reconcile_result" where
  "apisix_Reconcile get request =
     (case get request of
        Inl err \<Rightarrow> if IsNotFound err then (None, None) else (None, Some err)
      | Inr resource \<Rightarrow> if wDeleted resource then (None, None) else (None, None))"

text \<open>The cluster is patched to what was read first, from what is read now, by its name only.\<close>

definition cluster_Reconcile :: "(string \<times> string \<Rightarrow> ('w, 'o watched) io) \<Rightarrow> ('o watched \<Rightarrow> string) \<Rightarrow>
    ('o watched \<Rightarrow> 'o watched \<Rightarrow> ('w, unit) io) \<Rightarrow> string \<times> string \<Rightarrow> ('w, unit) io" where
  "cluster_Reconcile get name_of patch_from request =
     tryE (get request) (\<lambda>err. if IsNotFound err then ret () else fail err) (\<lambda>resource.
     if wDeleted resource then ret ()
     else RetryOnConflict (bindE (get ([], name_of resource)) (\<lambda>current. patch_from current resource)))"

end
