(* ===== verification/SimpleControllersProps.thy ===== *)
theory SimpleControllersProps
  imports ControllerQueueProps SimpleJobs
begin

section \<open>simplecontroller: what the controllers do with keys, jobs and finalizers\<close>

subsection \<open>From an event to its outcome\<close>

text \<open>What one turn of a worker does when the queue holds just the key of one event.\<close>

lemma turn_of_event:
  assumes "sync k = r"
  shows "processNextItem sync (wq_Add k NewRateLimitingQueue) =
    (case r of
       Inl e \<Rightarrow> if is_panic e then Some (Inl e, NewRateLimitingQueue)
         else Some (Inr True, NewRateLimitingQueue\<lparr>waitingForAddCh := [k], requeued := (\<lambda>_. 0)(k := 1)\<rparr>)
     | Inr _ \<Rightarrow> Some (Inr True, NewRateLimitingQueue))"
proof -
  define t where "t = NewRateLimitingQueue\<lparr>processing := {k}\<rparr>"
  have g: "wq_Get (wq_Add k NewRateLimitingQueue) = Got k t"
    by (simp add: wq_Get_def wq_Add_def t_def NewRateLimitingQueue_def)
  have z: "(\<lambda>a. 0 :: nat)(k := 0) = (\<lambda>_. 0)" by (rule ext) simp
  have d: "wq_Done k t = NewRateLimitingQueue" by (simp add: t_def wq_Done_def NewRateLimitingQueue_def)
  have f: "Forget k t = t" by (simp add: Forget_def t_def NewRateLimitingQueue_def z)
  have a: "wq_Done k (AddRateLimited k t) = NewRateLimitingQueue\<lparr>waitingForAddCh := [k], requeued := (\<lambda>_. 0)(k := 1)\<rparr>"
    by (simp add: AddRateLimited_eq t_def wq_Done_def NewRateLimitingQueue_def)
  have n: "NumRequeues k t = 0" by (simp add: t_def NumRequeues_def NewRateLimitingQueue_def)
  show ?thesis
    by (cases r) (simp_all add: processNextItem_def g assms handleErr_def d f a n)
qed

text \<open>The deletion of a DaemonSet, of a Service or of Endpoints ends the program: the key goes into the queue, the
  worker takes it, and the business logic reads the object that is not there. (The turn of the worker
  is a panic, which \<open>HandleCrash\<close> raises again.)
\<close>

theorem deletion_crashes:
  assumes "ds_get (ns @ ''/'' @ n) = Inr None" and "ns \<noteq> []"
    and "svc_lister L ns n = Inl (Kube (ApiNotFound m))" and "CHR ''/'' \<notin> set ns \<union> set n"
  shows "(\<exists>e. is_panic e \<and> ds_processNextItem ds_get
        (ds_DeleteFunc (DeletedObject (Some (ns, n))) NewRateLimitingQueue) = Some (Inl e, NewRateLimitingQueue)) \<and>
    (\<exists>e q. is_panic e \<and> processNextWorkItem (syncHandler L)
        (svc_DeleteFunc (DeletedObject (Some (ns, n))) NewRateLimitingQueue, es) = Some (Inl e, q, es))"
proof -
  have k: "MetaNamespaceKeyFunc (Some (ns, n)) = Inr (ns @ ''/'' @ n)" using assms(2) by (simp add: MetaNamespaceKeyFunc_def)
  have s: "SplitMetaNamespaceKey (ns @ CHR ''/'' # n) = Inr (ns, n)"
    using assms(4) by (simp add: SplitMetaNamespaceKey_def split_char_app split_char_no_sep)
  define el where "el = \<lparr>Type = EventService, Key = ns @ ''/'' @ n\<rparr>"
  have q: "svc_DeleteFunc (DeletedObject (Some (ns, n))) NewRateLimitingQueue = wq_Add el NewRateLimitingQueue"
    by (simp add: svc_DeleteFunc_def enqueueForDelete_def enqueue_key_def DeletionHandlingMetaNamespaceKeyFunc_def k el_def)
  have h: "syncHandler L el es = (Inl (Panic ''nil pointer''), es)"
    by (simp add: syncHandler_def el_def reconcileService_def s assms(3) io_simps)
  have g: "wq_Get (wq_Add el NewRateLimitingQueue) = Got el (NewRateLimitingQueue\<lparr>processing := {el}\<rparr>)"
    by (simp add: wq_Get_def wq_Add_def NewRateLimitingQueue_def)
  have ds: "as_sync (ds_syncToStdout ds_get) (ns @ ''/'' @ n) = Inl (Panic ''interface conversion: interface {} is nil, not *v1.DaemonSet'')"
    using assms(1) by (simp add: as_sync_def ds_syncToStdout_def)
  show ?thesis
    using turn_of_event [of "as_sync (ds_syncToStdout ds_get)", OF ds]
    by (auto simp: ds_processNextItem_def ds_DeleteFunc_def enqueue_key_def DeletionHandlingMetaNamespaceKeyFunc_def k q processNextWorkItem_def g h)
qed


definition gone_lister :: lister where
  "gone_lister = \<lparr>svc_lister = (\<lambda>_ _. Inl (Kube (ApiNotFound ''not found''))), ep_lister = (\<lambda>_ _. Inl (Kube (ApiNotFound ''not found'')))\<rparr>"

theorem deletion_crashes_witness:
  "(\<exists>e. is_panic e \<and> ds_processNextItem (\<lambda>_. Inr None)
        (ds_DeleteFunc (DeletedObject (Some (''default'', ''web''))) NewRateLimitingQueue) = Some (Inl e, NewRateLimitingQueue)) \<and>
    (\<exists>e q. is_panic e \<and> processNextWorkItem (syncHandler gone_lister)
        (svc_DeleteFunc (DeletedObject (Some (''default'', ''web''))) NewRateLimitingQueue, []) = Some (Inl e, q, []))"
  by (rule deletion_crashes [where m = "''not found''"]) (simp_all add: gone_lister_def)

text \<open>The controller of the services retries nothing. Every error of the reconciliation is logged and dropped by
  \<open>syncHandler\<close>, so an element is always forgotten: whatever the listers and the element, a turn leaves the delayed
  keys as they are and the count of the element at zero.
\<close>

theorem informer_controller_never_retries:
  assumes "processNextWorkItem (syncHandler L) (q, es) = Some (Inr True, q', es')"
  shows "waitingForAddCh q' = waitingForAddCh q \<and> (\<exists>element. wq_Get q = Got element (q\<lparr>items := tl (items q),
      processing := insert element (processing q), dirty := dirty q - {element}\<rparr>) \<and> NumRequeues element q' = 0)"
proof -
  have quiet: "is_panic e" if r: "syncHandler L el w = (Inl e, w1)" for el e w w1
    using r by (auto simp: syncHandler_def tryE_def split: if_splits prod.splits sum.splits)
  obtain el q1 where g: "wq_Get q = Got el q1"
    using assms by (auto simp: processNextWorkItem_def split: got.splits)
  obtain ks where q1: "q1 = q\<lparr>items := ks, processing := insert el (processing q), dirty := dirty q - {el}\<rparr>" and i: "items q = el # ks"
    using got_fields [OF g] by blast
  have q': "q' = wq_Done el (Forget el q1)"
  proof (cases "syncHandler L el es")
    case (Pair r w1)
    then show ?thesis
      using assms quiet by (cases r) (auto simp: processNextWorkItem_def g split: if_splits)
  qed
  have "waitingForAddCh q' = waitingForAddCh q" by (simp add: q' q1 wq_Done_def Forget_def Let_def)
  moreover have "NumRequeues el q' = 0" by (simp add: q' q1 wq_Done_def Forget_def Let_def NumRequeues_def)
  ultimately show ?thesis using g by (auto simp: q1 i)
qed

definition broken_lister :: lister where
  "broken_lister = \<lparr>svc_lister = (\<lambda>_ _. Inl (Plain ''cache'')), ep_lister = (\<lambda>_ _. Inl (Plain ''cache''))\<rparr>"

theorem informer_controller_never_retries_witness:
  "\<exists>q'. processNextWorkItem (syncHandler broken_lister) (wq_Add \<lparr>Type = EventService, Key = ''web''\<rparr> NewRateLimitingQueue, []) =
     Some (Inr True, q', []) \<and> waitingForAddCh q' = []"
proof -
  define el where "el = \<lparr>Type = EventService, Key = ''web''\<rparr>"
  have g: "wq_Get (wq_Add el NewRateLimitingQueue) = Got el (NewRateLimitingQueue\<lparr>processing := {el}\<rparr>)"
    by (simp add: wq_Get_def wq_Add_def NewRateLimitingQueue_def)
  have sp: "SplitMetaNamespaceKey ''web'' = Inr ([], ''web'')" by (simp add: SplitMetaNamespaceKey_def)
  have h: "syncHandler broken_lister el [] = (Inr (), [])"
    by (simp add: syncHandler_def el_def reconcileService_def sp broken_lister_def io_simps)
  have p: "processNextWorkItem (syncHandler broken_lister) (wq_Add el NewRateLimitingQueue, []) =
      Some (Inr True, wq_Done el (Forget el (NewRateLimitingQueue\<lparr>processing := {el}\<rparr>)), [])"
    by (simp add: processNextWorkItem_def g h)
  show ?thesis using informer_controller_never_retries [OF p] p by (simp add: el_def wq_Add_def NewRateLimitingQueue_def)
qed

subsection \<open>Finalizers\<close>

lemma check_iff: "CheckFinalizerKeyExist fs key \<longleftrightarrow> key \<in> set fs"
  by (auto simp: CheckFinalizerKeyExist_def list_ex_iff)

lemma remove_loop_eq: "remove_loop key acc fs = acc @ replicate (length (filter (\<lambda>f. f \<noteq> key) fs)) key"
  by (induction fs arbitrary: acc) simp_all

lemma replicate_others: "filter (\<lambda>f. f \<noteq> key) (replicate n key) = []"
  by (induction n) simp_all

lemma remove_once: "key \<in> set fs \<Longrightarrow> RemoveFinalizer fs key = (True, replicate (length (filter (\<lambda>f. f \<noteq> key) fs)) key)"
  by (simp add: RemoveFinalizer_def check_iff remove_loop_eq)

lemma remove_copies: "0 < n \<Longrightarrow> RemoveFinalizer (replicate n key) key = (True, [])"
  by (simp add: remove_once replicate_others)

lemma ensure_fields: "key \<in> set (snd (EnsureFinalizer fs key))" "snd (EnsureFinalizer (snd (EnsureFinalizer fs key)) key) = snd (EnsureFinalizer fs key)"
  by (simp_all add: EnsureFinalizer_def check_iff)


subsection \<open>An API server that keeps jobs and pods\<close>

record api_view =
  vjobs :: "string \<times> string \<rightharpoonup> SimpleJob"
  vpods :: "string \<times> string \<rightharpoonup> JobPod"

text \<open>
  An object is stored under its names; a pod that exists is not created again; an update of the version
  that is stored succeeds, and removes an object that is being deleted once it has no finalizer.
\<close>

definition kept :: "SimpleJob \<Rightarrow> string \<Rightarrow> SimpleJob option" where
  "kept j rv = (if jDeleted j \<and> jFinalizers j = [] then None else Some (j\<lparr>jResourceVersion := rv\<rparr>))"

definition job_laws :: "'w job_client \<Rightarrow> ('w \<Rightarrow> api_view) \<Rightarrow> bool" where
  "job_laws C V \<longleftrightarrow>
     (\<forall>w r j. vjobs (V w) r = Some j \<longrightarrow> (jNamespace j, jName j) = r) \<and>
     (\<forall>w r. (case vjobs (V w) r of Some j \<Rightarrow> get_job C r w = (Inr j, w)
        | None \<Rightarrow> \<exists>m. get_job C r w = (Inl (Kube (ApiNotFound m)), w))) \<and>
     (\<forall>w p. (case vpods (V w) (pNamespace p, pName p) of
          Some _ \<Rightarrow> \<exists>m. create_pod C p w = (Inl (Kube (ApiAlreadyExists m)), w)
        | None \<Rightarrow> \<exists>w'. create_pod C p w = (Inr (), w') \<and> V w' = (V w)\<lparr>vpods := (vpods (V w))((pNamespace p, pName p) \<mapsto> p)\<rparr>)) \<and>
     (\<forall>w j cur. vjobs (V w) (jNamespace j, jName j) = Some cur \<longrightarrow> jResourceVersion cur = jResourceVersion j \<longrightarrow>
        (\<exists>w' rv. update_job C j w = (Inr (), w') \<and> V w' = (V w)\<lparr>vjobs := (vjobs (V w))((jNamespace j, jName j) := kept j rv)\<rparr>))"

lemma job_get:
  assumes "job_laws C V" and "vjobs (V w) r = Some j"
  shows "get_job C r w = (Inr j, w)" and "(jNamespace j, jName j) = r"
proof -
  have "case vjobs (V w) r of Some j \<Rightarrow> get_job C r w = (Inr j, w) | None \<Rightarrow> \<exists>m. get_job C r w = (Inl (Kube (ApiNotFound m)), w)"
    using assms(1) unfolding job_laws_def by blast
  then show "get_job C r w = (Inr j, w)" using assms(2) by simp
  show "(jNamespace j, jName j) = r" using assms unfolding job_laws_def by blast
qed

lemma job_missing:
  assumes "job_laws C V" and "vjobs (V w) r = None"
  obtains m where "get_job C r w = (Inl (Kube (ApiNotFound m)), w)"
proof -
  have "case vjobs (V w) r of Some j \<Rightarrow> get_job C r w = (Inr j, w) | None \<Rightarrow> \<exists>m. get_job C r w = (Inl (Kube (ApiNotFound m)), w)"
    using assms(1) unfolding job_laws_def by blast
  then show ?thesis using assms(2) that by auto
qed

lemma job_update:
  assumes "job_laws C V" and "vjobs (V w) r = Some j"
  obtains w' rv where "update_job C (j\<lparr>jFinalizers := fs\<rparr>) w = (Inr (), w')"
    and "V w' = (V w)\<lparr>vjobs := (vjobs (V w))(r := kept (j\<lparr>jFinalizers := fs\<rparr>) rv)\<rparr>"
proof -
  have r: "(jNamespace j, jName j) = r" by (rule job_get [OF assms])
  have law: "vjobs (V w) (jNamespace t, jName t) = Some cur \<Longrightarrow> jResourceVersion cur = jResourceVersion t \<Longrightarrow>
      \<exists>w' rv. update_job C t w = (Inr (), w') \<and> V w' = (V w)\<lparr>vjobs := (vjobs (V w))((jNamespace t, jName t) := kept t rv)\<rparr>" for t cur
    using assms(1) unfolding job_laws_def by blast
  obtain w' rv where "update_job C (j\<lparr>jFinalizers := fs\<rparr>) w = (Inr (), w')"
    and "V w' = (V w)\<lparr>vjobs := (vjobs (V w))((jNamespace j, jName j) := kept (j\<lparr>jFinalizers := fs\<rparr>) rv)\<rparr>"
    using law [of "j\<lparr>jFinalizers := fs\<rparr>" j] assms(2) r by auto
  then show ?thesis using that unfolding r by blast
qed

lemma retry_ok: "fn w = (Inr (), w') \<Longrightarrow> RetryOnConflict fn w = (Inr (), w')"
  by (simp add: RetryOnConflict_def eval_nat_numeral tryE_Inr)


lemma create_task_run:
  assumes "job_laws C V"
  obtains w' where "CreateTask C r j w = (Inr (), w')"
    and "V w' = (if vpods (V w) (fst r, snd r @ ''-pod'') = None
      then (V w)\<lparr>vpods := (vpods (V w))((fst r, snd r @ ''-pod'') \<mapsto> job_pod r j)\<rparr> else V w)"
proof -
  have n: "pNamespace (job_pod r j) = fst r" "pName (job_pod r j) = snd r @ ''-pod''"
    by (simp_all add: job_pod_def SetOwnerReference_def)
  have law: "case vpods (V w) (pNamespace p, pName p) of
          Some _ \<Rightarrow> \<exists>m. create_pod C p w = (Inl (Kube (ApiAlreadyExists m)), w)
        | None \<Rightarrow> \<exists>w'. create_pod C p w = (Inr (), w') \<and> V w' = (V w)\<lparr>vpods := (vpods (V w))((pNamespace p, pName p) \<mapsto> p)\<rparr>" for p
    using assms unfolding job_laws_def by blast
  show ?thesis
  proof (cases "vpods (V w) (fst r, snd r @ ''-pod'')")
    case None
    then obtain w' where "create_pod C (job_pod r j) w = (Inr (), w')"
      and "V w' = (V w)\<lparr>vpods := (vpods (V w))((fst r, snd r @ ''-pod'') \<mapsto> job_pod r j)\<rparr>"
      using law [of "job_pod r j"] unfolding n by auto
    then show ?thesis using that [of w'] None by (simp add: CreateTask_def tryE_Inr)
  next
    case (Some p)
    then obtain m where "create_pod C (job_pod r j) w = (Inl (Kube (ApiAlreadyExists m)), w)"
      using law [of "job_pod r j"] unfolding n by auto
    then show ?thesis using that [of w] Some by (simp add: CreateTask_def tryE_Inl)
  qed
qed

lemma finalizer_step_run:
  assumes "job_laws C V" and "vjobs (V w) r = Some j" and "upd (jFinalizers j) FinalizerKey = (True, fs)"
  defines "m \<equiv> RetryOnConflict (bindE (get_job C r) (\<lambda>current. case upd (jFinalizers current) FinalizerKey of
      (True, fs) \<Rightarrow> update_job C (current\<lparr>jFinalizers := fs\<rparr>) | (False, _) \<Rightarrow> ret ()))"
  obtains w' rv where "m w = (Inr (), w')" and "V w' = (V w)\<lparr>vjobs := (vjobs (V w))(r := kept (j\<lparr>jFinalizers := fs\<rparr>) rv)\<rparr>"
proof -
  obtain w' rv where u: "update_job C (j\<lparr>jFinalizers := fs\<rparr>) w = (Inr (), w')"
    and v: "V w' = (V w)\<lparr>vjobs := (vjobs (V w))(r := kept (j\<lparr>jFinalizers := fs\<rparr>) rv)\<rparr>"
    using job_update [OF assms(1, 2)] by blast
  have "m w = (Inr (), w')"
    unfolding m_def by (rule retry_ok) (simp add: bindE_apply job_get(1) [OF assms(1, 2)] assms(3) u)
  then show ?thesis using that v by blast
qed

lemma ensure_run:
  assumes "job_laws C V" and "vjobs (V w) r = Some j" and "\<not> jDeleted j"
  obtains w' where "ensureFinalizer C r w = (Inr (), w')"
    and "\<exists>rv. V w' = (V w)\<lparr>vjobs := (vjobs (V w))(r \<mapsto> j\<lparr>jFinalizers := snd (EnsureFinalizer (jFinalizers j) FinalizerKey), jResourceVersion := rv\<rparr>)\<rparr>"
    and "FinalizerKey \<in> set (jFinalizers j) \<longrightarrow> w' = w"
proof (cases "FinalizerKey \<in> set (jFinalizers j)")
  case True
  then have e: "EnsureFinalizer (jFinalizers j) FinalizerKey = (False, jFinalizers j)" by (simp add: EnsureFinalizer_def check_iff)
  have "ensureFinalizer C r w = (Inr (), w)"
    unfolding ensureFinalizer_def by (rule retry_ok) (simp add: bindE_apply job_get(1) [OF assms(1, 2)] e)
  moreover have "V w = (V w)\<lparr>vjobs := (vjobs (V w))(r \<mapsto> j\<lparr>jFinalizers := jFinalizers j, jResourceVersion := jResourceVersion j\<rparr>)\<rparr>"
    using assms(2) by (simp add: fun_upd_idem)
  ultimately show ?thesis using that [of w] by (metis e snd_conv)
next
  case False
  then have e: "EnsureFinalizer (jFinalizers j) FinalizerKey = (True, jFinalizers j @ [FinalizerKey])"
    by (simp add: EnsureFinalizer_def check_iff)
  obtain w' rv where "ensureFinalizer C r w = (Inr (), w')"
    and "V w' = (V w)\<lparr>vjobs := (vjobs (V w))(r := kept (j\<lparr>jFinalizers := jFinalizers j @ [FinalizerKey]\<rparr>) rv)\<rparr>"
    using finalizer_step_run [OF assms(1, 2), where upd = EnsureFinalizer, OF e] unfolding ensureFinalizer_def by blast
  then show ?thesis using that [of w'] False assms(3) e by (auto simp: kept_def)
qed


text \<open>C28. One reconciliation of a job that is not being deleted establishes what is wanted: the pod of the job
  exists (made with the owner and the command of the job unless a pod of that name is there), and the
  job has the finalizer. A second reconciliation succeeds and changes nothing.
\<close>

theorem job_reconcile_establishes:
  assumes "job_laws C V" and "vjobs (V w) r = Some j" and "\<not> jDeleted j"
  shows "\<exists>w' rv. job_Reconcile C r w = (Inr (), w') \<and>
    vpods (V w') = (if vpods (V w) (fst r, snd r @ ''-pod'') = None
       then (vpods (V w))((fst r, snd r @ ''-pod'') \<mapsto> job_pod r j) else vpods (V w)) \<and>
    vjobs (V w') = (vjobs (V w))(r \<mapsto> j\<lparr>jFinalizers := snd (EnsureFinalizer (jFinalizers j) FinalizerKey), jResourceVersion := rv\<rparr>) \<and>
    (\<exists>w''. job_Reconcile C r w' = (Inr (), w'') \<and> V w'' = V w')"
proof -
  define pod where "pod = (fst r, snd r @ ''-pod'')"
  have step: "job_Reconcile C r s = ensureFinalizer C r t"
    if "vjobs (V s) r = Some i" "\<not> jDeleted i" "CreateTask C r i s = (Inr (), t)" for s t i
    using that by (simp add: job_Reconcile_def tryE_apply bindE_apply job_get(1) [OF assms(1)])
  obtain w1 where c: "CreateTask C r j w = (Inr (), w1)"
    and v1: "V w1 = (if vpods (V w) pod = None then (V w)\<lparr>vpods := (vpods (V w))(pod \<mapsto> job_pod r j)\<rparr> else V w)"
    using create_task_run [OF assms(1)] unfolding pod_def by blast
  have j1: "vjobs (V w1) r = Some j" using assms(2) v1 by simp
  obtain w2 rv where e: "ensureFinalizer C r w1 = (Inr (), w2)"
    and v2: "V w2 = (V w1)\<lparr>vjobs := (vjobs (V w1))(r \<mapsto> j\<lparr>jFinalizers := snd (EnsureFinalizer (jFinalizers j) FinalizerKey), jResourceVersion := rv\<rparr>)\<rparr>"
    using ensure_run [OF assms(1) j1 assms(3)] by blast
  define j2 where "j2 = j\<lparr>jFinalizers := snd (EnsureFinalizer (jFinalizers j) FinalizerKey), jResourceVersion := rv\<rparr>"
  have j2: "vjobs (V w2) r = Some j2" "\<not> jDeleted j2" "FinalizerKey \<in> set (jFinalizers j2)"
    by (simp_all add: v2 j2_def assms(3) ensure_fields)
  have p2: "vpods (V w2) pod \<noteq> None" by (simp add: v2 v1)
  obtain w3 where c3: "CreateTask C r j2 w2 = (Inr (), w3)" and v3: "V w3 = V w2"
    using create_task_run [OF assms(1), of r j2 w2] p2 unfolding pod_def by (metis (full_types))
  have j3: "vjobs (V w3) r = Some j2" by (simp add: v3 j2)
  obtain w4 where e4: "ensureFinalizer C r w3 = (Inr (), w4)" and v4: "w4 = w3"
    using ensure_run [OF assms(1) j3 j2(2)] j2(3) by blast
  have "job_Reconcile C r w = (Inr (), w2)" using step [OF assms(2, 3) c] e by simp
  moreover have "job_Reconcile C r w2 = (Inr (), w3)" using step [OF j2(1, 2) c3] e4 v4 by simp
  moreover have "vpods (V w2) = (if vpods (V w) pod = None then (vpods (V w))(pod \<mapsto> job_pod r j) else vpods (V w))"
    and "vjobs (V w2) = (vjobs (V w))(r \<mapsto> j2)" by (simp_all add: v2 v1 j2_def)
  ultimately show ?thesis using v3 unfolding j2_def pod_def by blast
qed

lemma removal_run:
  assumes "job_laws C V" and "vjobs (V w) r = Some j" and "jDeleted j" and "FinalizerKey \<in> set (jFinalizers j)"
  obtains w' rv where "job_Reconcile C r w = (Inr (), w')" and "V w' = (V w)\<lparr>vjobs := (vjobs (V w))(r :=
      kept (j\<lparr>jFinalizers := replicate (length (filter (\<lambda>f. f \<noteq> FinalizerKey) (jFinalizers j))) FinalizerKey\<rparr>) rv)\<rparr>"
proof -
  obtain w' rv where "removeFinalizer C r w = (Inr (), w')" and "V w' = (V w)\<lparr>vjobs := (vjobs (V w))(r :=
      kept (j\<lparr>jFinalizers := replicate (length (filter (\<lambda>f. f \<noteq> FinalizerKey) (jFinalizers j))) FinalizerKey\<rparr>) rv)\<rparr>"
    using finalizer_step_run [OF assms(1, 2), where upd = RemoveFinalizer, OF remove_once [OF assms(4)]] unfolding removeFinalizer_def by blast
  moreover have "job_Reconcile C r w = removeFinalizer C r w"
    using assms(3) by (simp add: job_Reconcile_def tryE_apply job_get(1) [OF assms(1, 2)])
  ultimately show ?thesis using that by simp
qed

text \<open>C30. The controller takes the finalizers of others off a job that is being deleted. \<open>RemoveFinalizer\<close> puts its own
  key in the place of every other finalizer, and the update it causes is reconciled again: after two
  reconciliations the job is gone, although another controller still had to clean up.
\<close>

theorem deletion_drops_foreign_finalizers:
  assumes "job_laws C V" and "vjobs (V w) r = Some j" and "jDeleted j"
    and "FinalizerKey \<in> set (jFinalizers j)" and "f \<in> set (jFinalizers j)" and "f \<noteq> FinalizerKey"
  shows "\<exists>w1 w2. job_Reconcile C r w = (Inr (), w1) \<and> job_Reconcile C r w1 = (Inr (), w2) \<and>
    (\<exists>j1. vjobs (V w1) r = Some j1 \<and> f \<notin> set (jFinalizers j1) \<and> job_UpdateFunc j j1) \<and> vjobs (V w2) r = None"
proof -
  define n where "n = length (filter (\<lambda>f. f \<noteq> FinalizerKey) (jFinalizers j))"
  have n: "0 < n" unfolding n_def using assms(5, 6) by (auto simp: filter_empty_conv)
  obtain w1 rv where r1: "job_Reconcile C r w = (Inr (), w1)"
    and v1: "V w1 = (V w)\<lparr>vjobs := (vjobs (V w))(r := kept (j\<lparr>jFinalizers := replicate n FinalizerKey\<rparr>) rv)\<rparr>"
    using removal_run [OF assms(1-4)] unfolding n_def by blast
  define j1 where "j1 = j\<lparr>jFinalizers := replicate n FinalizerKey, jResourceVersion := rv\<rparr>"
  have j1: "vjobs (V w1) r = Some j1" "jDeleted j1" "FinalizerKey \<in> set (jFinalizers j1)" "f \<notin> set (jFinalizers j1)"
    using n assms(3, 6) by (auto simp: v1 kept_def j1_def)
  have "filter (\<lambda>f. f \<noteq> FinalizerKey) (jFinalizers j1) = []" by (simp add: j1_def replicate_others)
  then obtain w2 rv2 where r2: "job_Reconcile C r w1 = (Inr (), w2)"
    and v2: "V w2 = (V w1)\<lparr>vjobs := (vjobs (V w1))(r := kept (j1\<lparr>jFinalizers := []\<rparr>) rv2)\<rparr>"
    using removal_run [OF assms(1) j1(1-3)] by (metis list.size(3) replicate_0)
  have "vjobs (V w2) r = None" using j1(2) by (simp add: v2 kept_def)
  moreover have "job_UpdateFunc j j1" using j1(2) by (simp add: job_UpdateFunc_def)
  ultimately show ?thesis using r1 r2 j1(1, 4) by blast
qed


subsection \<open>A server that keeps lists of jobs and pods\<close>

definition job_key :: "SimpleJob \<Rightarrow> string \<times> string" where "job_key j = (jNamespace j, jName j)"

definition listed :: "SimpleJob list \<times> JobPod list \<Rightarrow> api_view" where
  "listed s = \<lparr>vjobs = map_of (map (\<lambda>j. (job_key j, j)) (fst s)), vpods = map_of (map (\<lambda>p. ((pNamespace p, pName p), p)) (snd s))\<rparr>"

definition list_client :: "(SimpleJob list \<times> JobPod list) job_client" where
  "list_client = \<lparr>
     get_job = (\<lambda>r s. case vjobs (listed s) r of Some j \<Rightarrow> (Inr j, s) | None \<Rightarrow> (Inl (Kube (ApiNotFound ''not found'')), s)),
     create_pod = (\<lambda>p s. if vpods (listed s) (pNamespace p, pName p) = None then (Inr (), (fst s, p # snd s))
        else (Inl (Kube (ApiAlreadyExists ''exists'')), s)),
     update_job = (\<lambda>j s. (Inr (), (case kept j ''2'' of Some k \<Rightarrow> k # fst s | None \<Rightarrow> filter (\<lambda>i. job_key i \<noteq> job_key j) (fst s), snd s)))\<rparr>"

lemma job_key_kept: "kept j rv = Some k \<Longrightarrow> job_key k = job_key j"
  by (auto simp: kept_def job_key_def split: if_splits)

lemma map_of_without: "map_of (map (\<lambda>j. (job_key j, j)) (filter (\<lambda>i. job_key i \<noteq> k) js)) = (map_of (map (\<lambda>j. (job_key j, j)) js))(k := None)"
  by (induction js) (auto simp: fun_eq_iff)

lemma list_client_laws: "job_laws list_client listed"
  unfolding job_laws_def
proof (intro conjI allI impI)
  fix w r j assume "vjobs (listed w) r = Some j"
  then show "(jNamespace j, jName j) = r" by (auto simp: listed_def job_key_def dest: map_of_SomeD)
next
  fix w r
  show "case vjobs (listed w) r of None \<Rightarrow> \<exists>m. get_job list_client r w = (Inl (Kube (ApiNotFound m)), w)
      | Some j \<Rightarrow> get_job list_client r w = (Inr j, w)"
    by (cases "vjobs (listed w) r") (auto simp: list_client_def)
next
  fix w p
  show "case vpods (listed w) (pNamespace p, pName p) of
      None \<Rightarrow> \<exists>w'. create_pod list_client p w = (Inr (), w') \<and> listed w' = (listed w)\<lparr>vpods := (vpods (listed w))((pNamespace p, pName p) \<mapsto> p)\<rparr>
      | Some x \<Rightarrow> \<exists>m. create_pod list_client p w = (Inl (Kube (ApiAlreadyExists m)), w)"
    by (cases "vpods (listed w) (pNamespace p, pName p)") (auto simp: list_client_def listed_def)
next
  fix w j cur
  have "listed (snd (update_job list_client j w)) = (listed w)\<lparr>vjobs := (vjobs (listed w))(job_key j := kept j ''2'')\<rparr>"
  proof (cases "kept j ''2''")
    case None
    then show ?thesis using map_of_without [of "job_key j" "fst w"] by (simp add: list_client_def listed_def)
  next
    case (Some k)
    then show ?thesis using job_key_kept [OF Some] by (simp add: list_client_def listed_def)
  qed
  moreover have "fst (update_job list_client j w) = Inr ()" by (simp add: list_client_def)
  ultimately show "\<exists>w' rv. update_job list_client j w = (Inr (), w') \<and>
      listed w' = (listed w)\<lparr>vjobs := (vjobs (listed w))((jNamespace j, jName j) := kept j rv)\<rparr>"
    unfolding job_key_def by (metis prod.collapse)
qed

definition a_job :: "string list \<Rightarrow> bool \<Rightarrow> SimpleJob" where
  "a_job fs del = \<lparr>jAPIVersion = ''v1'', jKind = ''SimpleJob'', jNamespace = ''ns'', jName = ''job'', jUID = ''u'', jResourceVersion = ''1'',
     jFinalizers = fs, jDeleted = del, jCommand = [''true''], jReplica = 1, jImage = ''img''\<rparr>"

lemma a_job_stored: "vjobs (listed ([a_job fs del], [])) (''ns'', ''job'') = Some (a_job fs del)"
  by (simp add: listed_def job_key_def a_job_def)

theorem job_reconcile_establishes_witness:
  "\<exists>w'. job_Reconcile list_client (''ns'', ''job'') ([a_job [] False], []) = (Inr (), w') \<and>
     vpods (listed w') (''ns'', ''job-pod'') = Some (job_pod (''ns'', ''job'') (a_job [] False))"
proof -
  have d: "\<not> jDeleted (a_job [] False)" by (simp add: a_job_def)
  have n: "vpods (listed ([a_job [] False], [])) (''ns'', ''job-pod'') = None" by (simp add: listed_def)
  define r where "r = (''ns'', ''job'')"
  have st: "vjobs (listed ([a_job [] False], [])) r = Some (a_job [] False)" unfolding r_def by (rule a_job_stored)
  obtain w' where w': "job_Reconcile list_client r ([a_job [] False], []) = (Inr (), w')"
    and p: "vpods (listed w') = (if vpods (listed ([a_job [] False], [])) (fst r, snd r @ ''-pod'') = None
       then (vpods (listed ([a_job [] False], [])))((fst r, snd r @ ''-pod'') \<mapsto> job_pod r (a_job [] False))
       else vpods (listed ([a_job [] False], [])))"
    using job_reconcile_establishes [OF list_client_laws st d] by blast
  have "vpods (listed w') (''ns'', ''job-pod'') = Some (job_pod r (a_job [] False))"
    unfolding p using n by (simp add: r_def)
  then show ?thesis using w' unfolding r_def by blast
qed

theorem deletion_drops_foreign_finalizers_witness:
  "\<exists>w1 w2. job_Reconcile list_client (''ns'', ''job'') ([a_job [''other'', FinalizerKey] True], []) = (Inr (), w1) \<and>
     job_Reconcile list_client (''ns'', ''job'') w1 = (Inr (), w2) \<and> vjobs (listed w2) (''ns'', ''job'') = None"
proof -
  define r j other where "r = (''ns'', ''job'')" and "j = a_job [''other'', FinalizerKey] True" and "other = ''other''"
  define s where "s = ([j], [] :: JobPod list)"
  have st: "vjobs (listed s) r = Some j" unfolding s_def r_def j_def by (rule a_job_stored)
  have d: "jDeleted j" and k: "FinalizerKey \<in> set (jFinalizers j)" and f: "other \<in> set (jFinalizers j)" and ne: "other \<noteq> FinalizerKey"
    by (simp_all add: j_def a_job_def other_def FinalizerKey_def)
  obtain w1 w2 where "job_Reconcile list_client r s = (Inr (), w1)" "job_Reconcile list_client r w1 = (Inr (), w2)"
    "vjobs (listed w2) r = None"
    using deletion_drops_foreign_finalizers [OF list_client_laws st d k f ne] by blast
  then show ?thesis unfolding s_def r_def j_def by (intro exI conjI)
qed

end
