(* ===== verification/ControllerUtils.thy ===== *)
theory ControllerUtils
  imports GoStd
begin

section \<open>simplecontroller: templates and client configurations (pkg/utils/builder.go, kube\_client.go)\<close>

text \<open>
  The template library, the decoder of the API library, the JSON and merge-patch libraries and the loading of a kubeconfig are
  arguments. A nil slice of bytes is the empty text: a template that writes nothing leaves the buffer nil.
\<close>

subsection \<open>Objects from templates\<close>

record 'd templates =
  tmpl_parse :: "string \<Rightarrow> goerr + string"
  tmpl_execute :: "string \<Rightarrow> 'd \<Rightarrow> goerr + string"

definition parseTemplate :: "'d templates \<Rightarrow> string \<Rightarrow> 'd \<Rightarrow> goerr + string" where
  "parseTemplate T strTmpl obj =
     (case tmpl_parse T strTmpl of
        Inl err \<Rightarrow> Inl (Plain (''error when parsing template: '' @ err_text err))
      | Inr tmpl \<Rightarrow>
          (case tmpl_execute T tmpl obj of
             Inl err \<Rightarrow> Inl (Plain (''error when executing template: '' @ err_text err))
           | Inr out \<Rightarrow> Inr out))"

text \<open>What all the generators share: the name of the kind and the word for the bytes in the messages.\<close>

definition generate :: "string \<Rightarrow> string \<Rightarrow> (string \<Rightarrow> goerr + 'o) \<Rightarrow> 'd templates \<Rightarrow> string \<Rightarrow> 'd \<Rightarrow> goerr + 'o" where
  "generate kind what decode T tmpl obj =
     (case parseTemplate T tmpl obj of
        Inl err \<Rightarrow> Inl (Plain (''parsing '' @ kind @ '' template exception, error: '' @ err_text err))
      | Inr bs \<Rightarrow>
          if bs = [] then Inl (Plain (''get '' @ kind @ '' template exception, value is empty''))
          else (case decode bs of
                  Inl err \<Rightarrow> Inl (Plain (''decode '' @ what @ '' error: '' @ err_text err))
                | Inr o1 \<Rightarrow> Inr o1))"

definition GenerateRuntimeObject :: "(string \<Rightarrow> goerr + 'o) \<Rightarrow> 'd templates \<Rightarrow> string \<Rightarrow> 'd \<Rightarrow> goerr + 'o" where
  "GenerateRuntimeObject = generate ''Deployment'' ''deployBytes''"

definition GenerateDeployment :: "(string \<Rightarrow> goerr + 'o) \<Rightarrow> 'd templates \<Rightarrow> string \<Rightarrow> 'd \<Rightarrow> goerr + 'o" where
  "GenerateDeployment = generate ''Deployment'' ''deployBytes''"

definition GenerateDaemonSet :: "(string \<Rightarrow> goerr + 'o) \<Rightarrow> 'd templates \<Rightarrow> string \<Rightarrow> 'd \<Rightarrow> goerr + 'o" where
  "GenerateDaemonSet = generate ''DaemonSet'' ''dsBytes''"

definition GenerateServiceAccount :: "(string \<Rightarrow> goerr + 'o) \<Rightarrow> 'd templates \<Rightarrow> string \<Rightarrow> 'd \<Rightarrow> goerr + 'o" where
  "GenerateServiceAccount = generate ''ServiceAccount'' ''saBytes''"

definition GenerateClusterRole :: "(string \<Rightarrow> goerr + 'o) \<Rightarrow> 'd templates \<Rightarrow> string \<Rightarrow> 'd \<Rightarrow> goerr + 'o" where
  "GenerateClusterRole = generate ''ClusterRole'' ''crBytes''"

definition GenerateClusterRoleBinding :: "(string \<Rightarrow> goerr + 'o) \<Rightarrow> 'd templates \<Rightarrow> string \<Rightarrow> 'd \<Rightarrow> goerr + 'o" where
  "GenerateClusterRoleBinding = generate ''ClusterRoleBinding'' ''crbBytes''"

definition GenerateCustomResourceDefinition :: "(string \<Rightarrow> goerr + 'o) \<Rightarrow> 'd templates \<Rightarrow> string \<Rightarrow> 'd \<Rightarrow> goerr + 'o" where
  "GenerateCustomResourceDefinition = generate ''CustomResourceDefinition'' ''crdBytes''"

definition GenerateConfigMap :: "(string \<Rightarrow> goerr + 'o) \<Rightarrow> 'd templates \<Rightarrow> string \<Rightarrow> 'd \<Rightarrow> goerr + 'o" where
  "GenerateConfigMap = generate ''configmap'' ''configmap bytes''"

definition GenerateService :: "(string \<Rightarrow> goerr + 'o) \<Rightarrow> 'd templates \<Rightarrow> string \<Rightarrow> 'd \<Rightarrow> goerr + 'o" where
  "GenerateService = generate ''service'' ''service bytes''"

definition GenerateSecret :: "(string \<Rightarrow> goerr + 'o) \<Rightarrow> 'd templates \<Rightarrow> string \<Rightarrow> 'd \<Rightarrow> goerr + 'o" where
  "GenerateSecret = generate ''secret'' ''secret bytes''"

text \<open>This one returns the bytes undecoded.\<close>

definition GenerateCustomResource :: "'d templates \<Rightarrow> string \<Rightarrow> 'd \<Rightarrow> goerr + string" where
  "GenerateCustomResource = generate ''CustomResource'' [] Inr"

definition CreateMergePatch :: "('o \<Rightarrow> goerr + string) \<Rightarrow> (string \<Rightarrow> string \<Rightarrow> goerr + string) \<Rightarrow> 'o \<Rightarrow> 'o \<Rightarrow> goerr + string" where
  "CreateMergePatch marshal merge original new =
     (case marshal original of
        Inl err \<Rightarrow> Inl err
      | Inr originBytes \<Rightarrow>
          (case marshal new of
             Inl err \<Rightarrow> Inl err
           | Inr cloneBytes \<Rightarrow> (case merge originBytes cloneBytes of Inl err \<Rightarrow> Inl err | Inr patch \<Rightarrow> Inr patch)))"

subsection \<open>Client configurations\<close>

text \<open>\<open>load\<close> reads the file under overrides with the given context; \<open>client_of\<close> makes a client configuration of
  what was read, with overrides of its own. \<open>'c\<close> is the raw, \<open>'r\<close> the client configuration.\<close>

record ('c, 'r) clientcmd =
  lookup_env :: "string \<Rightarrow> string option"
  home_dir :: string
  file_exists :: "string \<Rightarrow> bool"
  load :: "string \<Rightarrow> string \<Rightarrow> goerr + 'c"
  client_of :: "'c \<Rightarrow> string \<Rightarrow> goerr + 'r"
  from_bytes :: "string \<Rightarrow> goerr + 'c"
  from_flags :: "string \<Rightarrow> string \<Rightarrow> goerr + 'r"
  new_clientset :: "'r \<Rightarrow> goerr + unit"

definition GetEnvString :: "('c, 'r) clientcmd \<Rightarrow> string \<Rightarrow> string \<Rightarrow> string" where
  "GetEnvString K key defaultValue = (case lookup_env K key of Some v \<Rightarrow> v | None \<Rightarrow> defaultValue)"

definition defaultKubeConfig :: "('c, 'r) clientcmd \<Rightarrow> string" where
  "defaultKubeConfig K = Join [home_dir K, ''.kube'', ''config'']"

definition loadKubeconfig :: "('c, 'r) clientcmd \<Rightarrow> string \<Rightarrow> string \<Rightarrow> goerr + 'c" where
  "loadKubeconfig K kubeconfigPath ctx =
     (let path = (if kubeconfigPath = [] then GetEnvString K ''KUBECONFIG'' (defaultKubeConfig K) else kubeconfigPath) in
      if \<not> file_exists K path then Inl (Plain (''kubeconfig path '' @ path @ '' does not exist''))
      else load K path ctx)"

definition RestConfig :: "('c, 'r) clientcmd \<Rightarrow> string \<Rightarrow> string \<Rightarrow> goerr + 'r" where
  "RestConfig K kubeconfigPath ctx =
     (case loadKubeconfig K kubeconfigPath ctx of
        Inl err \<Rightarrow> Inl err
      | Inr rawConfig \<Rightarrow> (case client_of K rawConfig [] of Inl err \<Rightarrow> Inl err | Inr restConfig \<Rightarrow> Inr restConfig))"

definition RawConfig :: "('c, 'r) clientcmd \<Rightarrow> string \<Rightarrow> string \<Rightarrow> goerr + 'c" where
  "RawConfig K kubeconfigPath ctx = (case loadKubeconfig K kubeconfigPath ctx of Inl err \<Rightarrow> Inl err | Inr rawConfig \<Rightarrow> Inr rawConfig)"

text \<open>An option that is nil is skipped.\<close>

primrec apply_opts :: "('r \<Rightarrow> 'r) option list \<Rightarrow> 'r \<Rightarrow> 'r" where
  "apply_opts [] config = config"
| "apply_opts (h # hs) config = (case h of None \<Rightarrow> apply_opts hs config | Some f \<Rightarrow> apply_opts hs (f config))"

definition NewConfigFromBytes :: "('c, 'r) clientcmd \<Rightarrow> string \<Rightarrow> ('r \<Rightarrow> 'r) option list \<Rightarrow> goerr + 'r" where
  "NewConfigFromBytes K kubeConfig opts =
     (case from_bytes K kubeConfig of
        Inl err \<Rightarrow> Inl err
      | Inr c \<Rightarrow> (case client_of K c [] of Inl err \<Rightarrow> Inl err | Inr config \<Rightarrow> Inr (apply_opts opts config)))"

definition NewClientFromConfigPath :: "('c, 'r) clientcmd \<Rightarrow> string \<Rightarrow> ('r \<Rightarrow> 'r) option list \<Rightarrow> goerr + 'r" where
  "NewClientFromConfigPath K configPath opts =
     (case from_flags K [] configPath of
        Inl err \<Rightarrow> Inl (Plain (''failed to build config from configpath: '' @ err_text err))
      | Inr config \<Rightarrow>
          (let c = apply_opts opts config in
           case new_clientset K c of Inl err \<Rightarrow> Inl (Plain (''could not create clientset: '' @ err_text err)) | Inr _ \<Rightarrow> Inr c))"

definition NewClientFromBytes :: "('c, 'r) clientcmd \<Rightarrow> string \<Rightarrow> ('r \<Rightarrow> 'r) option list \<Rightarrow> goerr + 'r" where
  "NewClientFromBytes K kubeConfig opts =
     (case from_bytes K kubeConfig of
        Inl err \<Rightarrow> Inl err
      | Inr clientConfig \<Rightarrow>
          (case client_of K clientConfig [] of
             Inl err \<Rightarrow> Inl err
           | Inr config \<Rightarrow>
               (let c = apply_opts opts config in
                case new_clientset K c of Inl err \<Rightarrow> Inl (Plain (''create client failed: '' @ err_text err)) | Inr _ \<Rightarrow> Inr c)))"

text \<open>Every generator fails on a template that writes nothing.\<close>

lemma generate_ok:
  "generate kind what decode T tmpl obj = Inr x \<longleftrightarrow>
     (\<exists>bs. parseTemplate T tmpl obj = Inr bs \<and> bs \<noteq> [] \<and> decode bs = Inr x)"
  by (auto simp: generate_def split: sum.splits if_splits)

end
