(* ===== verification/FooStore.thy ===== *)
theory FooStore
  imports GoStd
begin

section \<open>simpleapiserver: the file storage (pkg/registry/simple.io/foo/file.go)\<close>

text \<open>
  A storage of the API server that keeps each object as a file of a directory and tells its watchers
  of every change. The record \<open>fsys\<close> has the calls of package \<open>os\<close>, \<open>codec\<close> the serializer and the accessors
  of an object. A watcher is a buffered channel of ten events; a send on a full channel does not return as
  long as nobody reads, so it is a \<open>Panic\<close> here: nothing runs after it and no handler sees it.
\<close>

record 'w fsys =
  fs_exists :: "string \<Rightarrow> ('w, bool) io"
  fs_mkdir_all :: "string \<Rightarrow> ('w, unit) io"
  fs_read_file :: "string \<Rightarrow> ('w, string) io"
  fs_write_file :: "string \<Rightarrow> string \<Rightarrow> ('w, unit) io"
  fs_remove_file :: "string \<Rightarrow> ('w, unit) io"
  fs_walk :: "string \<Rightarrow> ('w, (goerr + string) list) io"
  fs_uuid :: "('w, string) io"

text \<open>\<open>fs_walk\<close> gives what \<open>filepath.Walk\<close> meets that is not a directory, in its order: an error or a path.\<close>

record 'o codec =
  encode_obj :: "'o \<Rightarrow> goerr + string"
  decode_obj :: "string \<Rightarrow> goerr + 'o"
  obj_name :: "'o \<Rightarrow> string"
  obj_uid :: "'o \<Rightarrow> string"
  with_uid :: "string \<Rightarrow> 'o \<Rightarrow> 'o"

record request =
  rNamespace :: "string option"
  rInfo :: "(string \<times> string \<times> string) option"

datatype watch_event_type = Added | Modified | Deleted

type_synonym 'o watch_event = "watch_event_type \<times> 'o"

text \<open>The watchers: their identifiers and what their channels hold.\<close>

type_synonym 'o watchers = "(nat \<times> 'o watch_event list) list"

record filestore =
  defaultQualifiedResource :: "string \<times> string"
  objRootPath :: string
  isNamespaced :: bool

subsection \<open>Files\<close>

definition on_files :: "('w, 'a) io \<Rightarrow> ('w \<times> 'o watchers, 'a) io" where
  "on_files m = (\<lambda>(w, h). case m w of (r, w') \<Rightarrow> (r, (w', h)))"

definition ensureDir :: "'w fsys \<Rightarrow> string \<Rightarrow> ('w, unit) io" where
  "ensureDir F dirname = bindE (fs_exists F dirname) (\<lambda>b. if \<not> b then fs_mkdir_all F dirname else ret ())"

definition NewFileStore :: "'w fsys \<Rightarrow> string \<times> string \<Rightarrow> string \<Rightarrow> bool \<Rightarrow> ('w, filestore) io" where
  "NewFileStore F groupResource rootpath namespaced =
     (let objRoot = Join [rootpath, fst groupResource, snd groupResource] in
      bindE (mapErr (\<lambda>e. Panic (''unable to write data dir: '' @ err_text e)) (ensureDir F objRoot)) (\<lambda>_.
      ret \<lparr>defaultQualifiedResource = groupResource, objRootPath = objRoot, isNamespaced = namespaced\<rparr>))"

definition request_ns :: "request \<Rightarrow> string" where
  "request_ns ctx = (case rNamespace ctx of Some ns \<Rightarrow> ns | None \<Rightarrow> [])"

definition objectFileName :: "filestore \<Rightarrow> request \<Rightarrow> string \<Rightarrow> string" where
  "objectFileName f ctx name =
     (if isNamespaced f then Join [objRootPath f, request_ns ctx, name @ ''.yaml''] else Join [objRootPath f, name @ ''.yaml''])"

definition objectDirName :: "filestore \<Rightarrow> request \<Rightarrow> string" where
  "objectDirName f ctx = (if isNamespaced f then Join [objRootPath f, request_ns ctx] else Join [objRootPath f])"

definition qualifiedResourceFromContext :: "filestore \<Rightarrow> request \<Rightarrow> string \<times> string" where
  "qualifiedResourceFromContext f ctx =
     (case rInfo ctx of Some (g, resource, _) \<Rightarrow> (g, resource) | None \<Rightarrow> defaultQualifiedResource f)"

definition resource_text :: "string \<times> string \<Rightarrow> string" where
  "resource_text gr = (if fst gr = [] then snd gr else snd gr @ ''.'' @ fst gr)"

definition write_object :: "'w fsys \<Rightarrow> 'o codec \<Rightarrow> string \<Rightarrow> 'o \<Rightarrow> ('w, unit) io" where
  "write_object F C path obj = bindE (lift (encode_obj C obj)) (\<lambda>bs. fs_write_file F path bs)"

definition read_object :: "'w fsys \<Rightarrow> 'o codec \<Rightarrow> string \<Rightarrow> ('w, 'o) io" where
  "read_object F C path = bindE (fs_read_file F (Clean path)) (\<lambda>content. lift (decode_obj C content))"

text \<open>The paths in the order of the walk; \<open>visit\<close> is the callback. Its result is the list of the objects.\<close>

definition HasSuffix :: "string \<Rightarrow> string \<Rightarrow> bool" where
  "HasSuffix s suffix = HasPrefix (rev s) (rev suffix)"

definition base_name :: "string \<Rightarrow> string" where
  "base_name path = rev (takeWhile (\<lambda>c. c \<noteq> CHR ''/'') (rev path))"

primrec visit_all :: "'w fsys \<Rightarrow> 'o codec \<Rightarrow> (string \<Rightarrow> ('w, unit) io) \<Rightarrow> (goerr + string) list \<Rightarrow> 'o list \<Rightarrow> ('w, 'o list) io" where
  "visit_all F C visit [] acc = ret acc"
| "visit_all F C visit (p # ps) acc =
     (case p of
        Inl err \<Rightarrow> fail err
      | Inr path \<Rightarrow>
          if \<not> HasSuffix (base_name path) ''.yaml'' then visit_all F C visit ps acc
          else bindE (read_object F C path) (\<lambda>newObj. bindE (visit path) (\<lambda>_. visit_all F C visit ps (acc @ [newObj]))))"

definition visitDir :: "'w fsys \<Rightarrow> 'o codec \<Rightarrow> string \<Rightarrow> (string \<Rightarrow> ('w, unit) io) \<Rightarrow> ('w, 'o list) io" where
  "visitDir F C dirname visit = bindE (fs_walk F dirname) (\<lambda>ps. visit_all F C visit ps [])"

subsection \<open>Watchers\<close>

definition chan_size :: nat where "chan_size = 10"

primrec notify_all :: "'o watch_event \<Rightarrow> 'o watchers \<Rightarrow> goerr + 'o watchers" where
  "notify_all ev [] = Inr []"
| "notify_all ev (w # ws) =
     (if length (snd w) < chan_size
      then (case notify_all ev ws of Inl e \<Rightarrow> Inl e | Inr ws' \<Rightarrow> Inr ((fst w, snd w @ [ev]) # ws'))
      else Inl (Panic ''blocked: send on a full channel''))"

definition notifyWatchers :: "'o watch_event \<Rightarrow> ('w \<times> 'o watchers, unit) io" where
  "notifyWatchers ev = (\<lambda>(w, h). case notify_all ev h of Inl e \<Rightarrow> (Inl e, (w, h)) | Inr h' \<Rightarrow> (Inr (), (w, h')))"

text \<open>The map of the watchers: an identifier that is there already is taken over.\<close>

definition add_watcher :: "nat \<Rightarrow> 'o watch_event list \<Rightarrow> 'o watchers \<Rightarrow> 'o watchers" where
  "add_watcher i buf h = (if i \<in> fst ` set h then map (\<lambda>w. if fst w = i then (i, buf) else w) h else h @ [(i, buf)])"

definition Watch_Stop :: "nat \<Rightarrow> 'o watchers \<Rightarrow> 'o watchers" where
  "Watch_Stop i h = filter (\<lambda>w. fst w \<noteq> i) h"

subsection \<open>The verbs\<close>

definition fs_Get :: "'w fsys \<Rightarrow> 'o codec \<Rightarrow> filestore \<Rightarrow> request \<Rightarrow> string \<Rightarrow> ('w, 'o) io" where
  "fs_Get F C f ctx name = read_object F C (objectFileName f ctx name)"

definition fs_List :: "'w fsys \<Rightarrow> 'o codec \<Rightarrow> filestore \<Rightarrow> request \<Rightarrow> ('w, 'o list) io" where
  "fs_List F C f ctx =
     (let dirname = objectDirName f ctx in
      mapErr (\<lambda>_. Plain (''failed walking filepath '' @ dirname)) (visitDir F C dirname (\<lambda>_. ret ())))"

definition namespace_dir :: "'w fsys \<Rightarrow> filestore \<Rightarrow> request \<Rightarrow> ('w, unit) io" where
  "namespace_dir F f ctx =
     (if isNamespaced f then
        (case rNamespace ctx of
           None \<Rightarrow> fail (Kube (ApiOther ''namespace required''))
         | Some ns \<Rightarrow> ensureDir F (Join [objRootPath f, ns]))
      else ret ())"

definition check :: "'a option \<Rightarrow> ('a \<Rightarrow> goerr option) \<Rightarrow> ('w, unit) io" where
  "check f call = (case f of None \<Rightarrow> ret () | Some g \<Rightarrow> (case call g of None \<Rightarrow> ret () | Some err \<Rightarrow> fail err))"

definition fs_Create :: "'w fsys \<Rightarrow> 'o codec \<Rightarrow> filestore \<Rightarrow> request \<Rightarrow> 'o \<Rightarrow> ('o \<Rightarrow> goerr option) option \<Rightarrow>
    ('w \<times> 'o watchers, 'o) io" where
  "fs_Create F C f ctx obj0 createValidation =
     bindE (check createValidation (\<lambda>v. v obj0)) (\<lambda>_.
     bindE (on_files (namespace_dir F f ctx)) (\<lambda>_.
     bindE (if obj_uid C obj0 = [] then bindE (on_files (fs_uuid F)) (\<lambda>u. ret (with_uid C u obj0)) else ret obj0) (\<lambda>obj.
     let name = obj_name C obj; filename = objectFileName f ctx name; qualifiedResource = qualifiedResourceFromContext f ctx in
     bindE (on_files (fs_exists F filename)) (\<lambda>there.
     if there then fail (Kube (ApiAlreadyExists (resource_text qualifiedResource @ '' '' @ dquote name @ '' already exists'')))
     else
     bindE (mapErr (\<lambda>e. Kube (ApiOther (''Internal error occurred: '' @ err_text e))) (on_files (write_object F C filename obj))) (\<lambda>_.
     bindE (notifyWatchers (Added, obj)) (\<lambda>_. ret obj))))))"

text \<open>\<open>UpdatedObject\<close> of the request gets the old object, nil if there is none.\<close>

definition fs_Update :: "'w fsys \<Rightarrow> 'o codec \<Rightarrow> filestore \<Rightarrow> request \<Rightarrow> string \<Rightarrow> ('o option \<Rightarrow> goerr + 'o) \<Rightarrow>
    ('o \<Rightarrow> goerr option) option \<Rightarrow> ('o \<Rightarrow> 'o \<Rightarrow> goerr option) option \<Rightarrow> bool \<Rightarrow> ('w \<times> 'o watchers, 'o \<times> bool) io" where
  "fs_Update F C f ctx name updatedObject createValidation updateValidation forceAllowCreate =
     bindE (tryE (on_files (fs_Get F C f ctx name)) (\<lambda>err. if \<not> forceAllowCreate then fail err else ret None) (\<lambda>old. ret (Some old))) (\<lambda>oldObj.
     bindE (on_files (namespace_dir F f ctx)) (\<lambda>_.
     bindE (lift (updatedObject oldObj)) (\<lambda>updatedObj.
     let filename = objectFileName f ctx name in
     case oldObj of
       None \<Rightarrow>
         bindE (check createValidation (\<lambda>v. v updatedObj)) (\<lambda>_.
         bindE (on_files (write_object F C filename updatedObj)) (\<lambda>_.
         bindE (notifyWatchers (Added, updatedObj)) (\<lambda>_. ret (updatedObj, True))))
     | Some old \<Rightarrow>
         bindE (check updateValidation (\<lambda>v. v updatedObj old)) (\<lambda>_.
         bindE (on_files (write_object F C filename updatedObj)) (\<lambda>_.
         bindE (notifyWatchers (Modified, updatedObj)) (\<lambda>_. ret (updatedObj, False)))))))"

definition fs_Delete :: "'w fsys \<Rightarrow> 'o codec \<Rightarrow> filestore \<Rightarrow> request \<Rightarrow> string \<Rightarrow> ('o \<Rightarrow> goerr option) option \<Rightarrow>
    ('w \<times> 'o watchers, 'o \<times> bool) io" where
  "fs_Delete F C f ctx name deleteValidation =
     (let filename = objectFileName f ctx name; qualifiedResource = qualifiedResourceFromContext f ctx in
      bindE (on_files (fs_exists F filename)) (\<lambda>there.
      if \<not> there then fail (Kube (ApiNotFound (resource_text qualifiedResource @ '' '' @ dquote name @ '' not found'')))
      else
      bindE (on_files (fs_Get F C f ctx name)) (\<lambda>oldObj.
      bindE (check deleteValidation (\<lambda>v. v oldObj)) (\<lambda>_.
      bindE (on_files (fs_remove_file F filename)) (\<lambda>_.
      bindE (notifyWatchers (Deleted, oldObj)) (\<lambda>_. ret (oldObj, True)))))))"

text \<open>Neither the validation nor the options are used, the watchers hear nothing, and an error of the removal is dropped.\<close>

definition fs_DeleteCollection :: "'w fsys \<Rightarrow> 'o codec \<Rightarrow> filestore \<Rightarrow> request \<Rightarrow> ('w, 'o list) io" where
  "fs_DeleteCollection F C f ctx =
     (let dirname = objectDirName f ctx in
      mapErr (\<lambda>_. Plain (''failed walking filepath '' @ dirname))
        (visitDir F C dirname (\<lambda>path. tryE (fs_remove_file F path) (\<lambda>_. ret ()) ret)))"

text \<open>The identifier is the number of watchers. All present objects are sent before anybody can read.\<close>

definition fs_Watch :: "'w fsys \<Rightarrow> 'o codec \<Rightarrow> filestore \<Rightarrow> request \<Rightarrow> ('w \<times> 'o watchers, nat) io" where
  "fs_Watch F C f ctx =
     bindE (getS (\<lambda>(w, h). length h)) (\<lambda>i.
     bindE (on_files (fs_List F C f ctx)) (\<lambda>objs.
     if length objs > chan_size then fail (Panic ''blocked: send on a full channel'')
     else bindE (modS (\<lambda>(w, h). (w, add_watcher i (map (\<lambda>x. (Added, x)) objs) h))) (\<lambda>_. ret i)))"

end
