(* ===== verification/FooRest.thy ===== *)
theory FooRest
  imports FooStore GoJson
begin

section \<open>simpleapiserver: the strategy, the subresources and the admission plugin of Foo\<close>

text \<open>
  The group has an internal type and the version v1beta1 with the same fields; which of the two an object is, is the constructor of
  \<open>foo_object\<close>. The generic store of the API server library is an argument. Of the messages of errors only the fixed part is kept.
\<close>

subsection \<open>Types and validation (pkg/apis/simple.io)\<close>

record FooConfig = Msg :: string Msg1 :: string
record FooSpec = Image :: string Config :: FooConfig
record FooStatus = Phase :: string Conditions :: "(string \<times> string) list"

record FooMeta =
  fName :: string
  fNamespace :: string
  fUID :: string
  fResourceVersion :: string
  fCreationTimestamp :: "int option"
  fLabels :: "(string \<times> string) list"

record Foo = fooMeta :: FooMeta fooSpec :: FooSpec fooStatus :: FooStatus

datatype foo_object = Internal_Foo Foo | V1beta1_Foo Foo

definition FooPhaseProcessing :: string where "FooPhaseProcessing = ''Processing''"
definition FooPhaseReady :: string where "FooPhaseReady = ''Ready''"

text \<open>The paths of the required fields that are missing.\<close>

definition ValidateFooSpecConfig :: "FooConfig \<Rightarrow> string \<Rightarrow> string list" where
  "ValidateFooSpecConfig cfg fldPath = (if length (Msg cfg) = 0 then [fldPath @ ''.msg''] else [])"

definition ValidateFooSpec :: "FooSpec \<Rightarrow> string \<Rightarrow> string list" where
  "ValidateFooSpec s fldPath =
     (if length (Image s) = 0 then [fldPath @ ''.image'']
      else if length (Msg (Config s)) = 0 then ValidateFooSpecConfig (Config s) (fldPath @ ''.config'')
      else [])"

definition ValidateFoo :: "Foo \<Rightarrow> string list" where
  "ValidateFoo f = ValidateFooSpec (fooSpec f) ''spec''"

subsection \<open>The strategy (strategy.go)\<close>

text \<open>A v1beta1 object is not a Foo of the internal package: the conversions of the strategy panic.\<close>

definition foo_GetAttrs :: "foo_object \<Rightarrow> goerr + (string \<times> string) list \<times> (string \<times> string) list" where
  "foo_GetAttrs obj =
     (case obj of
        Internal_Foo f \<Rightarrow> Inr (fLabels (fooMeta f), [(''metadata.name'', fName (fooMeta f)), (''metadata.namespace'', fNamespace (fooMeta f))])
      | V1beta1_Foo _ \<Rightarrow> Inl (Plain ''given object is not a Foo''))"

definition PrepareForCreate :: "foo_object \<Rightarrow> goerr + foo_object" where
  "PrepareForCreate obj =
     (case obj of
        Internal_Foo f \<Rightarrow> Inr (Internal_Foo (f\<lparr>fooStatus := \<lparr>Phase = FooPhaseProcessing, Conditions = []\<rparr>\<rparr>))
      | V1beta1_Foo _ \<Rightarrow> Inl (Panic ''interface conversion''))"

definition PrepareForUpdate :: "foo_object \<Rightarrow> foo_object \<Rightarrow> foo_object" where
  "PrepareForUpdate obj old = obj"

definition foo_Validate :: "foo_object \<Rightarrow> goerr + string list" where
  "foo_Validate obj = (case obj of Internal_Foo f \<Rightarrow> Inr (ValidateFoo f) | V1beta1_Foo _ \<Rightarrow> Inl (Panic ''interface conversion''))"

definition foo_ValidateUpdate :: "foo_object \<Rightarrow> foo_object \<Rightarrow> string list" where
  "foo_ValidateUpdate obj old = []"

definition foo_NamespaceScoped :: bool where "foo_NamespaceScoped = True"
definition AllowCreateOnUpdate :: bool where "AllowCreateOnUpdate = False"
definition AllowUnconditionalUpdate :: bool where "AllowUnconditionalUpdate = False"

definition GetResetFields :: "(string \<times> string list) list" where
  "GetResetFields = [(''simple.io/v1beta1'', [''status''])]"

text \<open>\<open>human\<close> renders the age of a creation time.\<close>

definition addFoosToTable :: "(int \<Rightarrow> string) \<Rightarrow> string list list \<Rightarrow> Foo list \<Rightarrow> string list list" where
  "addFoosToTable human rows foos =
     rows @ map (\<lambda>foo.
       [fName (fooMeta foo), Phase (fooStatus foo),
        (case fCreationTimestamp (fooMeta foo) of None \<Rightarrow> ''<unknown>'' | Some t \<Rightarrow> human t),
        Msg (Config (fooSpec foo)), Msg1 (Config (fooSpec foo))]) foos"

text \<open>What is converted: one object, a list with its resource version and continuation, or anything else.\<close>

datatype table_object = OneFoo Foo | FooList string string "Foo list" | OtherObject

record table = tResourceVersion :: string tContinue :: string tRows :: "string list list"

definition foo_ConvertToTable :: "(int \<Rightarrow> string) \<Rightarrow> table_object \<Rightarrow> table" where
  "foo_ConvertToTable human obj =
     (case obj of
        OneFoo t \<Rightarrow> \<lparr>tResourceVersion = fResourceVersion (fooMeta t), tContinue = [], tRows = addFoosToTable human [] [t]\<rparr>
      | FooList rv cont foos \<Rightarrow> \<lparr>tResourceVersion = rv, tContinue = cont, tRows = addFoosToTable human [] foos\<rparr>
      | OtherObject \<Rightarrow> \<lparr>tResourceVersion = [], tContinue = [], tRows = []\<rparr>)"

subsection \<open>The base64 subresource (base64.go)\<close>

record Base64 = bName :: string bNamespace :: string FieldPath :: string Output :: string

definition b64_char :: "nat \<Rightarrow> char" where
  "b64_char n =
     (if n < 26 then char_of (65 + n) else if n < 52 then char_of (71 + n) else if n < 62 then char_of (n - 4)
      else if n = 62 then CHR ''+'' else CHR ''/'')"

fun EncodeToString :: "nat list \<Rightarrow> string" where
  "EncodeToString [] = []"
| "EncodeToString [a] = [b64_char (a div 4), b64_char ((a mod 4) * 16), CHR ''='', CHR ''='']"
| "EncodeToString [a, b] = [b64_char (a div 4), b64_char ((a mod 4) * 16 + b div 16), b64_char ((b mod 16) * 4), CHR ''='']"
| "EncodeToString (a # b # c # bs) =
     b64_char (a div 4) # b64_char ((a mod 4) * 16 + b div 16) # b64_char ((b mod 16) * 4 + c div 64) # b64_char (c mod 64) #
     EncodeToString bs"

primrec NestedFieldNoCopy :: "string list \<Rightarrow> json \<Rightarrow> goerr + json option" where
  "NestedFieldNoCopy [] val = Inr (Some val)"
| "NestedFieldNoCopy (f # fs) val =
     (case val of
        JNull \<Rightarrow> Inr None
      | JObj ms \<Rightarrow> (case map_of ms f of None \<Rightarrow> Inr None | Some v \<Rightarrow> NestedFieldNoCopy fs v)
      | _ \<Rightarrow> Inl (Plain ''accessor error''))"

text \<open>\<open>convert\<close> makes the unstructured object of the version of the request; \<open>marshal\<close> writes JSON.\<close>

definition base64_Create :: "('w, foo_object) io \<Rightarrow> (Foo \<Rightarrow> string \<times> string \<Rightarrow> goerr + json) \<Rightarrow> (json \<Rightarrow> goerr + string) \<Rightarrow>
    request \<Rightarrow> string \<Rightarrow> Base64 \<Rightarrow> ('w, Base64) io" where
  "base64_Create get convert marshal ctx name req =
     (case rNamespace ctx of
        None \<Rightarrow> fail (Kube (ApiOther ''namespace is required''))
      | Some namespace \<Rightarrow>
     (case rInfo ctx of
        None \<Rightarrow> fail (Kube (ApiOther ''request info is required''))
      | Some (g, _, version) \<Rightarrow>
     if length (bName req) > 0 \<and> bName req \<noteq> name then fail (Kube (ApiOther ''metadata.name: must match the foo name if specified''))
     else if length (bNamespace req) > 0 \<and> bNamespace req \<noteq> namespace
     then fail (Kube (ApiOther ''metadata.namespace: must match the foo namespace if specified''))
     else bindE get (\<lambda>fooObj.
       case fooObj of
         Internal_Foo _ \<Rightarrow> fail (Panic ''interface conversion: runtime.Object is *simple.Foo, not *v1beta1.Foo'')
       | V1beta1_Foo foo \<Rightarrow>
           (case convert foo (g, version) of
              Inl err \<Rightarrow> fail (Kube (ApiOther ''unknown request version''))
            | Inr target \<Rightarrow>
           (case marshal target of
              Inl err \<Rightarrow> fail (Kube (ApiOther (''Internal error occurred: '' @ err_text err)))
            | Inr targetBytes \<Rightarrow>
           if length (FieldPath req) > 0 then
             (case NestedFieldNoCopy (split_char (CHR ''.'') (FieldPath req)) target of
                Inr (Some v) \<Rightarrow>
                  (case marshal v of
                     Inl err \<Rightarrow> fail (Kube (ApiOther (''unexpected nested object '' @ err_text err)))
                   | Inr bs \<Rightarrow> ret (req\<lparr>Output := EncodeToString (map of_char bs)\<rparr>))
              | _ \<Rightarrow> fail (Kube (ApiOther (''undefined field path '' @ FieldPath req))))
           else ret (req\<lparr>Output := EncodeToString (map of_char targetBytes)\<rparr>))))))"

subsection \<open>The config subresource (etcd.go)\<close>

record FooConfigObject = cMeta :: FooMeta cSpec :: FooConfig

definition configFromFoo :: "Foo \<Rightarrow> FooConfigObject" where
  "configFromFoo foo =
     \<lparr>cMeta = (fooMeta foo)\<lparr>fLabels := []\<rparr>, cSpec = Config (fooSpec foo)\<rparr>"

definition as_v1beta1 :: "foo_object \<Rightarrow> goerr + Foo" where
  "as_v1beta1 obj = (case obj of V1beta1_Foo f \<Rightarrow> Inr f | Internal_Foo _ \<Rightarrow> Inl (Panic ''interface conversion: runtime.Object is *simple.Foo, not *v1beta1.Foo''))"

definition config_Get :: "('w, foo_object) io \<Rightarrow> string \<Rightarrow> ('w, FooConfigObject) io" where
  "config_Get get name =
     bindE (mapErr (\<lambda>err. case err of Kube (ApiNotFound _) \<Rightarrow> Kube (ApiNotFound (''foos/config '' @ dquote name @ '' not found'')) | _ \<Rightarrow> err) get) (\<lambda>fooObj.
     bindE (lift (as_v1beta1 fooObj)) (\<lambda>foo. ret (configFromFoo foo)))"

text \<open>The type of an object that is not of v1beta1 is reported as an error here; \<open>upd\<close> is the update that the request carries.\<close>

definition config_UpdatedObject :: "(FooConfigObject \<Rightarrow> goerr + FooConfigObject option) \<Rightarrow> string \<Rightarrow> foo_object \<Rightarrow> goerr + Foo" where
  "config_UpdatedObject upd name oldObj =
     (case oldObj of
        Internal_Foo _ \<Rightarrow> Inl (Kube (ApiOther ''expected existing object type to be Foo, got *v1beta1.Foo''))
      | V1beta1_Foo foo \<Rightarrow>
          if length (fResourceVersion (fooMeta foo)) = 0 then Inl (Kube (ApiNotFound (''foos/config '' @ dquote name @ '' not found'')))
          else (case upd (configFromFoo foo) of
                  Inl err \<Rightarrow> Inl err
                | Inr None \<Rightarrow> Inl (Kube (ApiOther ''nil update passed to Config''))
                | Inr (Some config) \<Rightarrow>
                    if length (fUID (cMeta config)) > 0 \<and> fUID (cMeta config) \<noteq> fUID (fooMeta foo)
                    then Inl (Kube (ApiConflict ''precondition failed: UID''))
                    else Inr (foo\<lparr>fooSpec := (fooSpec foo)\<lparr>Config := cSpec config\<rparr>,
                       fooMeta := (fooMeta foo)\<lparr>fResourceVersion := fResourceVersion (cMeta config)\<rparr>\<rparr>)))"

definition toConfigCreateValidation :: "(FooConfigObject \<Rightarrow> goerr option) \<Rightarrow> foo_object \<Rightarrow> goerr option" where
  "toConfigCreateValidation f obj = (case as_v1beta1 obj of Inl e \<Rightarrow> Some e | Inr foo \<Rightarrow> f (configFromFoo foo))"

definition toConfigUpdateValidation :: "(FooConfigObject \<Rightarrow> FooConfigObject \<Rightarrow> goerr option) \<Rightarrow> foo_object \<Rightarrow> foo_object \<Rightarrow> goerr option" where
  "toConfigUpdateValidation f obj old =
     (case as_v1beta1 obj of
        Inl e \<Rightarrow> Some e
      | Inr foo \<Rightarrow> (case as_v1beta1 old of Inl e \<Rightarrow> Some e | Inr oldFoo \<Rightarrow> f (configFromFoo foo) (configFromFoo oldFoo)))"

text \<open>The update of the store: what makes the new object of the old one, the validations, and whether it may create.\<close>

type_synonym 'w store_update = "(foo_object \<Rightarrow> goerr + foo_object) \<Rightarrow> (foo_object \<Rightarrow> goerr option) \<Rightarrow>
  (foo_object \<Rightarrow> foo_object \<Rightarrow> goerr option) \<Rightarrow> bool \<Rightarrow> ('w, foo_object \<times> bool) io"

definition config_Update :: "'w store_update \<Rightarrow> string \<Rightarrow> (FooConfigObject \<Rightarrow> goerr + FooConfigObject option) \<Rightarrow>
    (FooConfigObject \<Rightarrow> goerr option) \<Rightarrow> (FooConfigObject \<Rightarrow> FooConfigObject \<Rightarrow> goerr option) \<Rightarrow> ('w, FooConfigObject \<times> bool) io" where
  "config_Update update name upd createValidation updateValidation =
     bindE (update (\<lambda>old. case config_UpdatedObject upd name old of Inl e \<Rightarrow> Inl e | Inr foo \<Rightarrow> Inr (V1beta1_Foo foo))
       (toConfigCreateValidation createValidation) (toConfigUpdateValidation updateValidation) False) (\<lambda>(obj, _).
     bindE (lift (as_v1beta1 obj)) (\<lambda>foo. ret (configFromFoo foo, False)))"

subsection \<open>The status subresource (etcd.go)\<close>

definition status_Get :: "('w, foo_object) io \<Rightarrow> ('w, foo_object) io" where
  "status_Get get = get"

definition status_Update :: "'w store_update \<Rightarrow> (foo_object \<Rightarrow> goerr + foo_object) \<Rightarrow> (foo_object \<Rightarrow> goerr option) \<Rightarrow>
    (foo_object \<Rightarrow> foo_object \<Rightarrow> goerr option) \<Rightarrow> ('w, foo_object \<times> bool) io" where
  "status_Update update objInfo createValidation updateValidation = update objInfo createValidation updateValidation False"

subsection \<open>The admission plugin (pkg/admisssion/disallow)\<close>

definition DisallowFoo_Validate :: "string \<times> string \<Rightarrow> string option \<Rightarrow> goerr option" where
  "DisallowFoo_Validate groupKind objNamespace =
     (if groupKind \<noteq> (''simple.io'', ''Foo'') then None
      else (case objNamespace of
              None \<Rightarrow> Some (Plain ''object does not implement the Object interfaces'')
            | Some ns \<Rightarrow> if ns = ''kube-system''
                then Some (Kube (ApiOther (''namespace/'' @ ns @ '' is not permitted, please change the resource namespace''))) else None))"

end
