(* ===== verification/FooProps.thy ===== *)
theory FooProps
  imports FooRest
begin

section \<open>simpleapiserver: the file storage as a map, and its watchers\<close>

subsection \<open>File names\<close>













subsection \<open>The files and the objects in them\<close>












lemma on_files_apply: "on_files m (w, h) = (case m w of (r, w') \<Rightarrow> (r, (w', h)))"
  by (simp add: on_files_def)



























subsection \<open>Watchers\<close>

lemma fst_add_watcher: "i \<in> fst ` set h \<Longrightarrow> map fst (add_watcher i buf h) = map fst h"
  by (auto simp: add_watcher_def o_def)

lemma map_of_add_watcher: "i \<in> fst ` set h \<Longrightarrow> map_of (add_watcher i buf h) i = Some buf"
proof -
  assume i: "i \<in> fst ` set h"
  have "map_of (map (\<lambda>x. if fst x = i then (i, buf) else x) h) i = Some buf" using i by (induction h) auto
  then show ?thesis using i by (simp add: add_watcher_def)
qed

text \<open>Watching goes wrong in two ways. The identifier of a new watcher is the number of watchers: when one of
  several watchers stopped, the next one takes the identifier and the place of the last one that still watches,
  whose channel is told nothing any more. And the present objects are sent before the channel is returned: with
  more than ten objects nobody can read it, and the request never ends.
\<close>

theorem watch_replaces_or_blocks:
  assumes "fs_List F C f ctx w = (Inr objs, w1)" and "map fst h = [0..<n]" and "Suc i < n"
  shows "(if length objs \<le> 10
     then \<exists>h'. fs_Watch F C f ctx (w, Watch_Stop i h) = (Inr (n - 1), (w1, h')) \<and>
       map fst h' = map fst (Watch_Stop i h) \<and> map_of h' (n - 1) = Some (map (Pair Added) objs)
     else \<exists>e. fs_Watch F C f ctx (w, h) = (Inl (Panic e), (w1, h)))"
proof -
  have ids: "map fst (Watch_Stop i h) = filter (\<lambda>j. j \<noteq> i) [0..<n]"
    unfolding Watch_Stop_def assms(2) [symmetric] by (simp add: filter_map o_def)
  have "(\<lambda>j. j \<noteq> i) = (\<noteq>) i" by auto
  then have "filter (\<lambda>j. j \<noteq> i) [0..<n] = remove1 i [0..<n]" by (simp add: distinct_remove1_removeAll removeAll_filter_not_eq)
  then have len: "length (Watch_Stop i h) = n - 1" using ids assms(3) by (metis Suc_lessD atLeastLessThan_iff length_map length_remove1 length_upt less_eq_nat.simps(1) minus_nat.diff_0 set_upt)
  have "n - 1 \<in> set (map fst (Watch_Stop i h))" unfolding ids using assms(3) by auto
  then have mem: "n - 1 \<in> fst ` set (Watch_Stop i h)" by simp
  show ?thesis
  proof (cases "length objs \<le> 10")
    case True
    have "fs_Watch F C f ctx (w, Watch_Stop i h) = (Inr (n - 1), (w1, add_watcher (n - 1) (map (Pair Added) objs) (Watch_Stop i h)))"
      using True by (simp add: fs_Watch_def bindE_apply getS_def modS_def on_files_apply assms(1) len chan_size_def)
    then show ?thesis using True fst_add_watcher [OF mem] map_of_add_watcher [OF mem] by simp
  next
    case False
    then show ?thesis by (simp add: fs_Watch_def bindE_apply getS_def on_files_apply assms(1) chan_size_def)
  qed
qed

subsection \<open>Files in an association list, objects that are their names\<close>

definition mem_fsys :: "(string \<times> string) list fsys" where
  "mem_fsys = \<lparr>
     fs_exists = (\<lambda>p. getS (\<lambda>s. map_of s p \<noteq> None)), fs_mkdir_all = (\<lambda>_. ret ()),
     fs_read_file = (\<lambda>p s. case map_of s p of Some c \<Rightarrow> (Inr c, s) | None \<Rightarrow> (Inl (Os (OsNotExist p)), s)),
     fs_write_file = (\<lambda>p c. modS (\<lambda>s. (p, c) # s)), fs_remove_file = (\<lambda>p. modS (filter (\<lambda>x. fst x \<noteq> p))),
     fs_walk = (\<lambda>_. getS (\<lambda>s. map (\<lambda>x. Inr (fst x)) s)), fs_uuid = ret ''u''\<rparr>"

definition name_codec :: "string codec" where
  "name_codec = \<lparr>encode_obj = Inr, decode_obj = Inr, obj_name = id, obj_uid = (\<lambda>_. ''u''), with_uid = (\<lambda>_ x. x)\<rparr>"




definition foo_files :: filestore where
  "foo_files = \<lparr>defaultQualifiedResource = (''simple.io'', ''foos''), objRootPath = ''/data/foos'', isNamespaced = True\<rparr>"

definition in_default :: request where "in_default = \<lparr>rNamespace = Some ''default'', rInfo = None\<rparr>"


theorem watch_replaces_or_blocks_witness:
  "\<exists>h'. fs_Watch mem_fsys name_codec foo_files in_default ([], Watch_Stop 0 [(0, []), (1, [(Added, ''web'')])]) = (Inr 1, ([], h')) \<and>
     map_of h' 1 = Some []"
proof -
  have l: "fs_List mem_fsys name_codec foo_files in_default [] = (Inr [], [])"
    by (simp add: fs_List_def visitDir_def mem_fsys_def getS_def bindE_apply Let_def mapErr_def tryE_apply)
  have i: "map fst [(0, []), (1, [(Added, ''web'')])] = [0..<2]" by (simp add: upt_rec numeral_2_eq_2)
  show ?thesis using watch_replaces_or_blocks [OF l i, of 0] by (simp, blast)
qed

end
