(* ===== verification/ExternalIps.thy ===== *)
theory ExternalIps
  imports GoNet
begin

section \<open>simplewebhook/demo2: the external addresses of services (pkg/validator/service\_validator.go)\<close>

text \<open>
  The webhook admits a Service if all its external addresses lie in the networks given on the command line. The
  decoder of the library is an argument; the state is the counter of the failed requests. The
  responses are those of controller-runtime: \<open>Errored\<close>, \<open>Denied\<close> (with the audit annotation \<open>error\<close>) and \<open>Allowed\<close>. The
  specification says in bits when an address of either family lies in a network (\<open>lies_in\<close>).
\<close>

subsection \<open>Data\<close>

record ServiceValidator = allowedExternalIPNets :: "IPNet list"

datatype admission_response =
  Errored string
| Denied string "(string \<times> string) list"
| Allowed string

record UserInfo = Username :: string Groups :: "string list"

record review = UserInfo :: UserInfo Raw :: string

text \<open>Of a Service only its external addresses are read.\<close>

type_synonym externalIPs = "string list"

subsection \<open>Operations\<close>

primrec parse_nets :: "string list \<Rightarrow> IPNet list \<Rightarrow> goerr + IPNet list" where
  "parse_nets [] externalIPNets = Inr externalIPNets"
| "parse_nets (allowedCIDR # cs) externalIPNets =
     (case ParseCIDR allowedCIDR of
        Inl err \<Rightarrow> Inl err
      | Inr (_, ipNet) \<Rightarrow> parse_nets cs (externalIPNets @ [ipNet]))"

definition NewServiceValidator :: "string list \<Rightarrow> goerr + ServiceValidator" where
  "NewServiceValidator allowedCIDRs =
     (case parse_nets allowedCIDRs [] of
        Inl err \<Rightarrow> Inl err
      | Inr externalIPNets \<Rightarrow> Inr \<lparr>allowedExternalIPNets = externalIPNets\<rparr>)"

definition buildDeniedResponse :: "string \<Rightarrow> string \<Rightarrow> admission_response" where
  "buildDeniedResponse externalIP reason =
     Denied (''spec.externalIPs: Invalid value: '' @ dquote externalIP @ '': '' @ reason) [(''error'', reason)]"

definition isValidUser :: "UserInfo \<Rightarrow> bool" where
  "isValidUser user = True"

primrec found_in :: "IP \<Rightarrow> IPNet list \<Rightarrow> bool" where
  "found_in ip [] = False"
| "found_in ip (externalIPNet # ns) = (if Contains_ip externalIPNet ip then True else found_in ip ns)"

primrec validateExternalIPs :: "ServiceValidator \<Rightarrow> externalIPs \<Rightarrow> nat \<Rightarrow> admission_response \<times> nat" where
  "validateExternalIPs sv [] failed = (Allowed ''passed svc spec validation'', failed)"
| "validateExternalIPs sv (externalIP # es) failed =
     (case ParseIP externalIP of
        None \<Rightarrow> (buildDeniedResponse externalIP ''externalIP specified is not valid'', failed + 1)
      | Some ip \<Rightarrow>
          if \<not> found_in ip (allowedExternalIPNets sv)
          then (buildDeniedResponse externalIP ''externalIP specified is not allowed to use'', failed + 1)
          else validateExternalIPs sv es failed)"

definition Handle :: "(string \<Rightarrow> goerr + externalIPs) \<Rightarrow> ServiceValidator \<Rightarrow> review \<Rightarrow> nat \<Rightarrow> admission_response \<times> nat" where
  "Handle decode sv req failed =
     (case decode (Raw req) of
        Inl err \<Rightarrow> (Errored (err_text err), failed)
      | Inr es \<Rightarrow>
          if length es > 0 \<and> \<not> isValidUser (UserInfo req) then
            (let reason = ''user '' @ Username (UserInfo req) @ '' is not alllowed to specify externalIP'' in
             (Denied reason [(''error'', reason)], failed + 1))
          else validateExternalIPs sv es failed)"

subsection \<open>Lemmas\<close>

lemma found_in_iff: "found_in ip ns \<longleftrightarrow> (\<exists>n \<in> set ns. Contains_ip n ip)"
  by (induction ns) auto

text \<open>An address is admitted if it is one and lies in a network.\<close>

definition admitted :: "IPNet list \<Rightarrow> string \<Rightarrow> bool" where
  "admitted ns e \<longleftrightarrow> (\<exists>ip. ParseIP e = Some ip \<and> (\<exists>n \<in> set ns. Contains_ip n ip))"

lemma validate_step:
  "validateExternalIPs sv (e # es) failed =
     (if admitted (allowedExternalIPNets sv) e then validateExternalIPs sv es failed
      else (buildDeniedResponse e (if ParseIP e = None then ''externalIP specified is not valid''
           else ''externalIP specified is not allowed to use''), failed + 1))"
  by (simp add: admitted_def found_in_iff split: option.split)

lemma validate_run:
  "validateExternalIPs sv es failed =
     (if \<forall>e \<in> set es. admitted (allowedExternalIPNets sv) e then (Allowed ''passed svc spec validation'', failed)
      else (let e = hd (dropWhile (admitted (allowedExternalIPNets sv)) es) in
        (buildDeniedResponse e (if ParseIP e = None then ''externalIP specified is not valid''
           else ''externalIP specified is not allowed to use''), failed + 1)))"
proof (induction es)
  case (Cons e es)
  then show ?case unfolding validate_step by (cases "admitted (allowedExternalIPNets sv) e") simp_all
qed simp

lemma parse_nets_spec:
  "case parse_nets cs acc of
     Inl err \<Rightarrow> \<exists>c \<in> set cs. ParseCIDR c = Inl err
   | Inr ns \<Rightarrow> \<exists>rs. map ParseCIDR cs = map Inr rs \<and> ns = acc @ map snd rs"
proof (induction cs arbitrary: acc)
  case (Cons c cs)
  show ?case
  proof (cases "ParseCIDR c")
    case (Inr r)
    with Cons [of "acc @ [snd r]"] show ?thesis
      by (cases r) (fastforce split: sum.splits intro: exI [of _ "r # _"])
  qed simp
qed simp

subsection \<open>Addresses and networks of both families\<close>

text \<open>
  The longer form of an address has 16 bytes, and an IPv4 address is one with a fixed prefix of 96
  bits. So is a network: the bits of its prefix, 96 more for an IPv4 one. An address lies in a
  network if it agrees with it on the prefix; and a prefix that is shorter than 96 bits, which does
  not say of what family the addresses are, holds no IPv4 address.
\<close>

definition network :: "string \<Rightarrow> (IP \<times> nat) option" where
  "network cidr =
     (case split2 cidr ''/'' of
        None \<Rightarrow> None
      | Some (addr, m) \<Rightarrow>
          (case (parse_addr addr, dtoi m) of
             (Some a, Some n) \<Rightarrow>
                if n > 8 * length a then None
                else Some (as16 a, if length a = 4 then 96 + n else n)
           | _ \<Rightarrow> None))"

definition lies_in :: "IP \<Rightarrow> IP \<times> nat \<Rightarrow> bool" where
  "lies_in ip nw \<longleftrightarrow>
     (\<forall>k < snd nw. ip_bit (fst nw) k = ip_bit ip k) \<and> (snd nw < 96 \<longrightarrow> To4 ip = None)"

lemma parse6_loop_length:
  "parse6_loop k out ell s = Some (out', ell', rest) \<Longrightarrow> length out + 2 * k \<le> 16 \<Longrightarrow> length out' \<le> 16"
proof (induction k out ell s rule: parse6_loop.induct)
  case (2 k out ell s)
  have v4: "parse_ipv4 s = Some b \<Longrightarrow> length b = 4" for b
    by (auto simp: parse_ipv4_def split: list.splits option.splits)
  show ?case using 2 v4 by (auto simp: Let_def split: option.splits if_splits list.splits)
qed simp

lemma parse_addr_length: "parse_addr s = Some a \<Longrightarrow> length a = 4 \<or> length a = 16"
proof -
  have v4: "parse_ipv4 s = Some b \<Longrightarrow> length b = 4" for b
    by (auto simp: parse_ipv4_def split: list.splits option.splits)
  have v6: "parse_ipv6 s = Some b \<Longrightarrow> length b = 16" for b
    by (auto simp: parse_ipv6_def Let_def split: option.splits if_splits dest!: parse6_loop_length)
  assume "parse_addr s = Some a"
  then show ?thesis using v4 v6 by (auto simp: parse_addr_def split: list.splits if_splits)
qed

lemma ParseIP_length: "ParseIP s = Some ip \<Longrightarrow> length ip = 16"
  by (auto simp: ParseIP_def as16_def v4_prefix_def dest: parse_addr_length)

lemma length_v4_prefix [simp]: "length v4_prefix = 12"
  by (simp add: v4_prefix_def)

lemma To4_Some: "length ip = 16 \<Longrightarrow> To4 ip = Some p \<longleftrightarrow> ip = v4_prefix @ p \<and> length p = 4"
  by (auto simp: To4_def intro: append_take_drop_id [of 12 ip, THEN sym, THEN trans])

subsection \<open>Membership\<close>

lemma ip_bit_v4:
  "ip_bit (v4_prefix @ p) k = (if k < 96 then ip_bit v4_prefix k else ip_bit p (k - 96))"
proof -
  have "(k - 96) div 8 = k div 8 - 12" and "96 \<le> k \<Longrightarrow> (k - 96) mod 8 = k mod 8"
    using mod_mult_self2 [of "k - 96" 8 12] by auto
  moreover have "k div 8 < 12 \<longleftrightarrow> k < 96" by auto
  ultimately show ?thesis by (simp add: ip_bit_def nth_append)
qed

lemma masked_full: "length a = l \<Longrightarrow> map2 (AND) a (replicate l 255) = (a :: byte list)"
proof (induction l arbitrary: a)
  case (Suc l)
  have "(255 :: byte) = - 1" by simp
  then have "b AND 255 = b" for b :: byte by (simp only: and.right_neutral)
  with Suc show ?case by (cases a) simp_all
qed simp

lemma mask_split: "n \<ge> 8 * j \<Longrightarrow> cidr_mask (j + l) n = replicate j 255 @ cidr_mask l (n - 8 * j)"
  by (induction j arbitrary: n) auto

lemma first_96:
  assumes "length a = 16" "length b = 16"
  shows "(\<forall>k < 96. ip_bit a k = ip_bit b k) \<longleftrightarrow> take 12 a = take 12 b"
proof -
  have bit: "ip_bit (take 12 x) k = ip_bit x k" if "k < 96" for x k
    using that by (simp add: ip_bit_def)
  have "cidr_mask 12 96 = replicate 12 255" using mask_split [of 12 96 0] by simp
  then have "take 12 a = take 12 b \<longleftrightarrow> (\<forall>k < 96. ip_bit (take 12 a) k = ip_bit (take 12 b) k)"
    using masked_eq_iff [of "take 12 a" 12 "take 12 b" 96] masked_full [of "take 12 a" 12]
      masked_full [of "take 12 b" 12] assms by simp
  then show ?thesis using bit by auto
qed

text \<open>A network of the longer form whose prefix covers the first 96 bits holds addresses of its own family.\<close>

lemma family_fixed:
  assumes "length a = 16" "length ip = 16" "96 \<le> n" "\<forall>k < n. ip_bit a k = ip_bit ip k"
  shows "To4 a = None \<longleftrightarrow> To4 ip = None"
proof -
  have "\<forall>k < 96. ip_bit a k = ip_bit ip k" using assms(3,4) by auto
  with first_96 [OF assms(1,2)] have "take 12 a = take 12 ip" by blast
  then show ?thesis using assms by (simp add: To4_def)
qed

lemma v4_network:
  assumes "length a = 4" "n \<le> 32" "length ip = 16"
  shows "Contains_ip (net4 a n) ip \<longleftrightarrow> lies_in ip (as16 a, 96 + n)"
proof (cases "To4 ip")
  case None
  have "\<not> Contains_ip (net4 a n) ip"
    using None assms(1,3) by (simp add: Contains_ip_def networkNumberAndMask_net4)
  moreover have "length (as16 a) = 16" "To4 (as16 a) \<noteq> None" using assms(1) To4_as16 [OF assms(1)] by (simp_all add: as16_def del: To4_as16)
  then have "\<not> lies_in ip (as16 a, 96 + n)"
    using None family_fixed [of "as16 a" ip "96 + n"] assms(3) unfolding lies_in_def fst_conv snd_conv by fastforce
  ultimately show ?thesis by blast
next
  case (Some p)
  then have p: "length p = 4" "ip = v4_prefix @ p" using assms(3) by (simp_all add: To4_Some)
  have "(\<forall>k < 96 + n. ip_bit (v4_prefix @ a) k = ip_bit (v4_prefix @ p) k) \<longleftrightarrow>
      (\<forall>k < n. ip_bit a k = ip_bit p k)" (is "?L \<longleftrightarrow> ?R")
  proof
    assume ?L
    then have "ip_bit (v4_prefix @ a) (96 + k) = ip_bit (v4_prefix @ p) (96 + k)" if "k < n" for k using that by simp
    then show ?R by (simp add: ip_bit_v4)
  qed (auto simp: ip_bit_v4)
  then show ?thesis using Contains_iff(2) [OF assms(1) p(1) assms(2)] p assms(1)
    by (simp add: lies_in_def as16_def)
qed

lemma v6_network:
  assumes "length a = 16" "n \<le> 128" "length ip = 16"
  shows "Contains_ip \<lparr>netIP = map2 (AND) a (cidr_mask 16 n), netMask = cidr_mask 16 n\<rparr> ip \<longleftrightarrow> lies_in ip (a, n)"
proof -
  let ?m = "cidr_mask 16 n" and ?net = "\<lparr>netIP = map2 (AND) a (cidr_mask 16 n), netMask = cidr_mask 16 n\<rparr>"
  have plain: "Contains_ip ?net ip \<longleftrightarrow> To4 ip = None \<and> (\<forall>k < n. ip_bit a k = ip_bit ip k)"
    if "To4 (map2 (AND) a ?m) = None"
  proof -
    have nn: "networkNumberAndMask ?net = Some (map2 (AND) a ?m, ?m)"
      using that assms(1) by (simp add: networkNumberAndMask_def Let_def)
    show ?thesis
    proof (cases "To4 ip")
      case None
      then show ?thesis using masked_eq_iff [of a 16 ip n] map2_and_idem [of a ?m] assms
        by (simp add: Contains_ip_def nn)
    next
      case (Some p)
      then have "length p = 4" using assms(3) by (simp add: To4_Some)
      then show ?thesis using Some assms by (simp add: Contains_ip_def nn)
    qed
  qed
  show ?thesis
  proof (cases "n < 96")
    case True
    have "\<not> bit (map2 (AND) a ?m ! 11) 0" using assms(1) True by (simp add: bit_and_iff bit_cidr_mask)
    moreover have "v4_prefix ! 11 = 255" by (simp add: v4_prefix_def nth_append)
    then have "bit (v4_prefix ! 11) 0" by (simp only: bit_255)
    moreover have "take 12 (map2 (AND) a ?m) ! 11 = map2 (AND) a ?m ! 11" by simp
    ultimately have "take 12 (map2 (AND) a ?m) \<noteq> v4_prefix" by metis
    then have "To4 (map2 (AND) a ?m) = None" using assms(1) by (simp add: To4_def)
    with plain True show ?thesis by (auto simp: lies_in_def)
  next
    case False
    then have m: "?m = replicate 12 255 @ cidr_mask 4 (n - 96)" using mask_split [of 12 n 4] by simp
    have ma: "map2 (AND) a ?m = take 12 a @ map2 (AND) (drop 12 a) (cidr_mask 4 (n - 96))"
      using masked_full [of "take 12 a" 12] zip_append [of "take 12 a" "replicate 12 (255 :: byte)" "drop 12 a"] assms(1)
      by (simp add: m)
    show ?thesis
    proof (cases "To4 a")
      case None
      then have "To4 (map2 (AND) a ?m) = None" using assms(1) unfolding ma by (simp add: To4_def split: if_splits)
      with plain False None family_fixed [of a ip n] assms show ?thesis by (auto simp: lies_in_def)
    next
      case (Some b)
      then have b: "a = v4_prefix @ b" "length b = 4" using assms(1) by (simp_all add: To4_Some)
      have "networkNumberAndMask ?net = networkNumberAndMask (net4 b (n - 96))"
        using b(2) unfolding ma networkNumberAndMask_net4 [OF b(2)]
        by (simp add: networkNumberAndMask_def To4_def b(1) v4_prefix_def)
           (simp add: m net4_def CIDRMask_def)
      then have "Contains_ip ?net ip = Contains_ip (net4 b (n - 96)) ip" by (simp add: Contains_ip_def)
      then show ?thesis using v4_network [of b "n - 96" ip] assms(2,3) False b by (simp add: as16_def)
    qed
  qed
qed

lemma network_parse: "ParseCIDR c = Inl err \<Longrightarrow> network c = None \<and> err = Plain (''invalid CIDR address: '' @ c)"
  "ParseCIDR c = Inr r \<Longrightarrow> \<exists>nw. network c = Some nw \<and> (\<forall>ip. length ip = 16 \<longrightarrow> Contains_ip (snd r) ip = lies_in ip nw)"
proof -
  show "network c = None \<and> err = Plain (''invalid CIDR address: '' @ c)" if "ParseCIDR c = Inl err"
    using that by (auto simp: ParseCIDR_def network_def Let_def split: option.splits if_splits)
  assume "ParseCIDR c = Inr r"
  then obtain t m a n where c: "split2 c ''/'' = Some (t, m)" "parse_addr t = Some a" "dtoi m = Some n" "n \<le> 8 * length a"
    and r: "snd r = \<lparr>netIP = IP_Mask (as16 a) (CIDRMask n (8 * length a)), netMask = CIDRMask n (8 * length a)\<rparr>"
    by (auto simp: ParseCIDR_def Let_def split: option.splits if_splits)
  then have nw: "network c = Some (as16 a, if length a = 4 then 96 + n else n)" by (simp add: network_def)
  note a = c(2) and n = c(4)
  from parse_addr_length [OF a] show "\<exists>nw. network c = Some nw \<and> (\<forall>ip. length ip = 16 \<longrightarrow> Contains_ip (snd r) ip = lies_in ip nw)"
  proof
    assume l: "length a = 4"
    then have "snd r = net4 a n"
      by (simp add: r) (simp add: IP_Mask_def as16_def v4_prefix_def CIDRMask_def net4_def Let_def)
    then show ?thesis using nw l n v4_network by simp
  next
    assume l: "length a = 16"
    then have "snd r = \<lparr>netIP = map2 (AND) a (cidr_mask 16 n), netMask = cidr_mask 16 n\<rparr>"
      by (simp add: r) (simp add: IP_Mask_def as16_def CIDRMask_def Let_def)
    then show ?thesis using nw l n v6_network by (simp add: as16_def)
  qed
qed

subsection \<open>Properties\<close>

text \<open>An external address that the networks of the command line allow.\<close>

definition allowed_by :: "string list \<Rightarrow> string \<Rightarrow> bool" where
  "allowed_by cidrs e =
     (case ParseIP e of
        None \<Rightarrow> False
      | Some ip \<Rightarrow> list_ex (\<lambda>c. case network c of None \<Rightarrow> False | Some nw \<Rightarrow> lies_in ip nw) cidrs)"

lemma allowed_by_iff: "allowed_by cidrs e \<longleftrightarrow>
    (\<exists>ip. ParseIP e = Some ip \<and> (\<exists>c \<in> set cidrs. \<exists>nw. network c = Some nw \<and> lies_in ip nw))"
proof (cases "ParseIP e")
  case (Some ip)
  have "(case network c of None \<Rightarrow> False | Some nw \<Rightarrow> lies_in ip nw) \<longleftrightarrow> (\<exists>nw. network c = Some nw \<and> lies_in ip nw)" for c
    by (cases "network c") auto
  then show ?thesis using Some by (simp add: allowed_by_def list_ex_iff)
qed (simp add: allowed_by_def)

lemma validator_ok:
  assumes "NewServiceValidator cidrs = Inr sv"
  shows "\<forall>c \<in> set cidrs. network c \<noteq> None" "admitted (allowedExternalIPNets sv) = allowed_by cidrs"
proof -
  obtain rs where rs: "map ParseCIDR cidrs = map Inr rs" "allowedExternalIPNets sv = map snd rs"
    using assms parse_nets_spec [of cidrs "[]"] by (auto simp: NewServiceValidator_def split: sum.splits)
  have c: "\<exists>r \<in> set rs. ParseCIDR c = Inr r" if "c \<in> set cidrs" for c
    using that rs(1) by (metis (no_types, lifting) image_iff list.set_map)
  have r: "\<exists>c \<in> set cidrs. ParseCIDR c = Inr r" if "r \<in> set rs" for r
    using that rs(1) by (metis (no_types, lifting) image_iff list.set_map)
  show "\<forall>c \<in> set cidrs. network c \<noteq> None" using c network_parse(2) by fastforce
  have "(\<exists>n \<in> set (map snd rs). Contains_ip n ip) \<longleftrightarrow> (\<exists>c \<in> set cidrs. \<exists>nw. network c = Some nw \<and> lies_in ip nw)"
    if l: "length ip = 16" for ip
  proof
    assume "\<exists>n \<in> set (map snd rs). Contains_ip n ip"
    then obtain x where x: "x \<in> set rs" "Contains_ip (snd x) ip" by auto
    from r [OF x(1)] obtain c0 where "c0 \<in> set cidrs" "ParseCIDR c0 = Inr x" by blast
    with network_parse(2) [of c0 x] l x(2) show "\<exists>c \<in> set cidrs. \<exists>nw. network c = Some nw \<and> lies_in ip nw" by blast
  next
    assume "\<exists>c \<in> set cidrs. \<exists>nw. network c = Some nw \<and> lies_in ip nw"
    then obtain c0 nw where c0: "c0 \<in> set cidrs" "network c0 = Some nw" "lies_in ip nw" by blast
    from c [OF c0(1)] obtain x where x: "x \<in> set rs" "ParseCIDR c0 = Inr x" by blast
    with network_parse(2) [OF x(2)] l c0 have "Contains_ip (snd x) ip" by auto
    with x(1) show "\<exists>n \<in> set (map snd rs). Contains_ip n ip" by auto
  qed
  then show "admitted (allowedExternalIPNets sv) = allowed_by cidrs"
    unfolding admitted_def allowed_by_iff rs(2) using ParseIP_length by (intro ext) metis
qed

lemma Handle_decoded:
  "decode (Raw req) = Inr es \<Longrightarrow> Handle decode sv req failed = validateExternalIPs sv es failed"
  by (simp add: Handle_def isValidUser_def)

lemma validate_allowed:
  assumes "admitted (allowedExternalIPNets sv) = P"
  shows "\<forall>e \<in> set es. P e \<Longrightarrow> validateExternalIPs sv es failed = (Allowed ''passed svc spec validation'', failed)"
    and "\<not> P e \<Longrightarrow> \<forall>g \<in> set good. P g \<Longrightarrow> validateExternalIPs sv (good @ e # rest) failed =
      (buildDeniedResponse e (if ParseIP e = None then ''externalIP specified is not valid''
         else ''externalIP specified is not allowed to use''), failed + 1)"
proof -
  show "validateExternalIPs sv es failed = (Allowed ''passed svc spec validation'', failed)" if "\<forall>e \<in> set es. P e"
    using that assms by (simp add: validate_run)
  assume "\<not> P e" "\<forall>g \<in> set good. P g"
  then show "validateExternalIPs sv (good @ e # rest) failed =
      (buildDeniedResponse e (if ParseIP e = None then ''externalIP specified is not valid''
         else ''externalIP specified is not allowed to use''), failed + 1)"
    using assms by (induction good) (simp_all add: validate_step del: validateExternalIPs.simps)
qed

text \<open>C31. For all texts: the webhook starts exactly when every text of the command line is a network, and
  it names the text that is none; then it admits exactly the services each of whose external addresses, IPv4
  or IPv6, is an address and lies in one of the networks, that is, agrees with it on the bits of its prefix.
  Otherwise it refuses the service for the first address that does not, says whether that is no address
  or not allowed, and counts one more failed request. A review it cannot decode is an error. Who asks is irrelevant.
\<close>

theorem external_ips_admitted:
  "case NewServiceValidator cidrs of
     Inl err \<Rightarrow> \<exists>c \<in> set cidrs. network c = None \<and> err = Plain (''invalid CIDR address: '' @ c)
   | Inr sv \<Rightarrow> (\<forall>c \<in> set cidrs. network c \<noteq> None) \<and>
      (case decode (Raw req) of
         Inl err \<Rightarrow> Handle decode sv req failed = (Errored (err_text err), failed)
       | Inr es \<Rightarrow>
           (if \<forall>e \<in> set es. allowed_by cidrs e
            then Handle decode sv req failed = (Allowed ''passed svc spec validation'', failed)
            else \<exists>good e rest. es = good @ e # rest \<and> (\<forall>g \<in> set good. allowed_by cidrs g) \<and> \<not> allowed_by cidrs e \<and>
              Handle decode sv req failed = (buildDeniedResponse e (if ParseIP e = None
                then ''externalIP specified is not valid'' else ''externalIP specified is not allowed to use''), failed + 1)))"
proof (cases "NewServiceValidator cidrs")
  case (Inl err)
  then have "\<exists>c \<in> set cidrs. ParseCIDR c = Inl err"
    using parse_nets_spec [of cidrs "[]"] by (auto simp: NewServiceValidator_def split: sum.splits)
  then show ?thesis using Inl network_parse(1) by auto
next
  case (Inr sv)
  note ok = validator_ok [OF Inr]
  show ?thesis
  proof (cases "decode (Raw req)")
    case Inl: (Inl err) then show ?thesis using Inr ok(1) by (simp add: Handle_def)
  next
    case Inr': (Inr es)
    note run = Handle_decoded [of decode req es, OF Inr'] and allowed = validate_allowed [OF ok(2)]
    show ?thesis
    proof (cases "\<forall>e \<in> set es. allowed_by cidrs e")
      case True then show ?thesis using Inr Inr' ok(1) run allowed(1) [OF True] by (simp only: sum.case if_P [OF True] simp_thms)
    next
      case False
      then obtain good e rest where e: "es = good @ e # rest" "\<not> allowed_by cidrs e" "\<forall>g \<in> set good. allowed_by cidrs g"
        using split_list_first_prop [of es "\<lambda>e. \<not> allowed_by cidrs e"] by blast
      show ?thesis unfolding Inr Inr' sum.case if_not_P [OF False] run
        using ok(1) e(1) allowed(2) [OF e(2,3)] e(2,3) by (intro conjI exI [of _ good] exI [of _ e] exI [of _ rest]) simp_all
    qed
  qed
qed

text \<open>One network of each family, and a service with an address in each.\<close>

lemma demo_networks:
  "network ''10.0.0.0/8'' = Some (v4_prefix @ [10, 0, 0, 0], 104)"
  "network ''1::/16'' = Some ([0, 1] @ replicate 14 0, 16)"
proof -
  have "split2 ''10.0.0.0/8'' ''/'' = Some (''10.0.0.0'', ''8'')" "parse_addr ''10.0.0.0'' = Some [10, 0, 0, 0]"
    "split2 ''1::/16'' ''/'' = Some (''1::'', ''16'')" "parse_addr ''1::'' = Some ([0, 1] @ replicate 14 0)"
    by code_simp+
  moreover have "dtoi ''8'' = Some 8" "dtoi ''16'' = Some 16" by (simp_all add: dtoi_def digit_of_def)
  ultimately show "network ''10.0.0.0/8'' = Some (v4_prefix @ [10, 0, 0, 0], 104)"
    "network ''1::/16'' = Some ([0, 1] @ replicate 14 0, 16)"
    by (simp_all add: network_def as16_def)
qed

lemma demo_addresses:
  "allowed_by [''10.0.0.0/8'', ''1::/16''] ''10.1.2.3''" "allowed_by [''10.0.0.0/8'', ''1::/16''] ''1::1''"
proof -
  have "ParseIP ''10.1.2.3'' = Some (v4_prefix @ [10, 1, 2, 3])" "ParseIP ''1::1'' = Some ([0, 1] @ replicate 13 0 @ [1])"
    by code_simp+
  moreover have "lies_in (v4_prefix @ [10, 1, 2, 3]) (v4_prefix @ [10, 0, 0, 0], 104)"
    "lies_in ([0, 1] @ replicate 13 0 @ [1]) ([0, 1] @ replicate 14 0, 16)"
    by code_simp+
  ultimately show "allowed_by [''10.0.0.0/8'', ''1::/16''] ''10.1.2.3''" "allowed_by [''10.0.0.0/8'', ''1::/16''] ''1::1''"
    by (simp_all add: allowed_by_def demo_networks)
qed

theorem external_ips_admitted_witness:
  "\<exists>sv. NewServiceValidator [''10.0.0.0/8'', ''1::/16''] = Inr sv \<and>
     Handle (\<lambda>_. Inr [''10.1.2.3'', ''1::1'']) sv \<lparr>UserInfo = \<lparr>Username = ''u'', Groups = []\<rparr>, Raw = []\<rparr> 0 =
       (Allowed ''passed svc spec validation'', 0)"
proof (cases "NewServiceValidator [''10.0.0.0/8'', ''1::/16'']")
  case (Inl err)
  then show ?thesis using external_ips_admitted [of "[''10.0.0.0/8'', ''1::/16'']"] by (simp add: demo_networks)
next
  case (Inr sv)
  then show ?thesis
    using external_ips_admitted [of "[''10.0.0.0/8'', ''1::/16'']" "\<lambda>_. Inr [''10.1.2.3'', ''1::1'']"
        "\<lparr>UserInfo = \<lparr>Username = ''u'', Groups = []\<rparr>, Raw = []\<rparr>" 0] demo_addresses by simp
qed

end
