(* ===== verification/Provisioner.thy ===== *)
theory Provisioner
  imports GoJson
begin

section \<open>simplecsi/simpleprovisioner and simplecmd: helper pods (pkg/utils/k8s.go, pkg/server)\<close>

text \<open>
  The provisioner makes and removes the directory of a volume by a helper pod that it creates from a template, waits
  for and deletes. Of \<open>text/template\<close> the actions that the templates use are modelled: a field of a
  struct. The YAML library and the converters of the API library (\<open>yaml\<close>) and the API server (\<open>cluster\<close>) are
  arguments; a second passes between two looks at the pod, in which anything may change.
\<close>

subsection \<open>Templates\<close>

datatype chunk = Text string | Field string

lemma split2_shorter: "split2 s sep = Some (a, b) \<Longrightarrow> sep \<noteq> [] \<Longrightarrow> length b < length s"
  by (induction s sep arbitrary: a rule: split2.induct) (auto split: if_splits option.splits)

definition field_of :: "string \<Rightarrow> string option" where
  "field_of action = (case TrimSpace action of c # f \<Rightarrow> if c = CHR ''.'' then Some f else None | [] \<Rightarrow> None)"

function template_chunks :: "string \<Rightarrow> goerr + chunk list" where
  "template_chunks s =
     (case split2 s ''{{'' of
        None \<Rightarrow> Inr [Text s]
      | Some (before, rest) \<Rightarrow>
          (case split2 rest ''}}'' of
             None \<Rightarrow> Inl (Plain ''template: template: unclosed action'')
           | Some (action, after) \<Rightarrow>
               (case field_of action of
                  Some f \<Rightarrow> (case template_chunks after of Inl e \<Rightarrow> Inl e | Inr cs \<Rightarrow> Inr (Text before # Field f # cs))
                | None \<Rightarrow> Inl (Plain ''template: template: unexpected action''))))"
  by pat_completeness auto
termination
  by (relation "measure length") (auto dest!: split2_shorter)

primrec execute_chunks :: "(string \<Rightarrow> string option) \<Rightarrow> chunk list \<Rightarrow> goerr + string" where
  "execute_chunks obj [] = Inr []"
| "execute_chunks obj (c # cs) =
     (case (case c of Text t \<Rightarrow> Some t | Field f \<Rightarrow> obj f) of
        None \<Rightarrow> Inl (Plain ''can't evaluate field'')
      | Some t \<Rightarrow> (case execute_chunks obj cs of Inl e \<Rightarrow> Inl e | Inr r \<Rightarrow> Inr (t @ r)))"

definition defaultValue :: "string option \<Rightarrow> string \<Rightarrow> string" where
  "defaultValue value defaultVal = (case value of Some s \<Rightarrow> if s \<noteq> [] then s else defaultVal | None \<Rightarrow> defaultVal)"

definition ParseTemplate :: "string \<Rightarrow> (string \<Rightarrow> string option) \<Rightarrow> goerr + string" where
  "ParseTemplate strtmpl obj =
     (case template_chunks strtmpl of
        Inl err \<Rightarrow> Inl (Plain (''error when parsing template, err: '' @ err_text err))
      | Inr tmpl \<Rightarrow>
          (case execute_chunks obj tmpl of
             Inl err \<Rightarrow> Inl (Plain (''error when executing template, err: '' @ err_text err))
           | Inr t \<Rightarrow> Inr t))"

subsection \<open>Helper pods (pkg/utils/k8s.go)\<close>

record HelperPod = hName :: string hNamespace :: string hText :: string

record 'v yaml =
  yaml_unmarshal :: "string \<Rightarrow> goerr + json"
  to_unstructured :: "json \<Rightarrow> goerr + json"
  pod_of_unstructured :: "json \<Rightarrow> goerr + HelperPod"
  pv_of_unstructured :: "json \<Rightarrow> goerr + 'v"

record 'w cluster =
  create_pod :: "string \<Rightarrow> HelperPod \<Rightarrow> ('w, HelperPod) io"
  pod_phase :: "string \<Rightarrow> string \<Rightarrow> ('w, string) io"
  delete_pod :: "string \<Rightarrow> string \<Rightarrow> ('w, unit) io"
  storage_class :: "string \<Rightarrow> ('w, string \<rightharpoonup> string) io"

definition CmdTimeoutCounts :: nat where "CmdTimeoutCounts = 120"
definition PodSucceeded :: string where "PodSucceeded = ''Succeeded''"

definition template_pod :: "'v yaml \<Rightarrow> string \<Rightarrow> (string \<Rightarrow> string option) \<Rightarrow> goerr + HelperPod" where
  "template_pod Y podTemplate podStruct =
     (case ParseTemplate podTemplate podStruct of
        Inl err \<Rightarrow> Inl err
      | Inr initPodBytes \<Rightarrow>
     (case yaml_unmarshal Y initPodBytes of
        Inl err \<Rightarrow> Inl err
      | Inr obj \<Rightarrow>
     (case to_unstructured Y obj of
        Inl err \<Rightarrow> Inl err
      | Inr runtimeObj \<Rightarrow> pod_of_unstructured Y runtimeObj)))"

text \<open>
  An error comes with no pod that a caller uses, so that both branches of the source return the error. The provisioner creates
  the pod in the namespace \<open>default\<close>, the copy in \<open>simplecmd\<close> in the one of the pod.
\<close>

definition CreatePodFromTeplate :: "'v yaml \<Rightarrow> 'w cluster \<Rightarrow> string \<Rightarrow> (string \<Rightarrow> string option) \<Rightarrow> ('w, HelperPod) io" where
  "CreatePodFromTeplate Y K podTemplate podStruct =
     bindE (lift (template_pod Y podTemplate podStruct)) (\<lambda>pod. create_pod K ''default'' pod)"

definition CreatePodFromTeplate_cmd :: "'v yaml \<Rightarrow> 'w cluster \<Rightarrow> string \<Rightarrow> (string \<Rightarrow> string option) \<Rightarrow> ('w, HelperPod) io" where
  "CreatePodFromTeplate_cmd Y K podTemplate podStruct =
     bindE (lift (template_pod Y podTemplate podStruct)) (\<lambda>pod. create_pod K (hNamespace pod) pod)"

primrec wait_loop :: "nat \<Rightarrow> 'w cluster \<Rightarrow> HelperPod \<Rightarrow> ('w, unit) io" where
  "wait_loop 0 K hPod = fail (Plain (''create process timeout after '' @ nat_digits CmdTimeoutCounts @ '' seconds''))"
| "wait_loop (Suc n) K hPod =
     bindE (pod_phase K (hNamespace hPod) (hName hPod)) (\<lambda>phase. if phase = PodSucceeded then ret () else wait_loop n K hPod)"

text \<open>The deferred deletion runs on every path; its error is logged.\<close>

definition ExitPod :: "'w cluster \<Rightarrow> HelperPod \<Rightarrow> ('w, unit) io" where
  "ExitPod K hPod w =
     (case wait_loop CmdTimeoutCounts K hPod w of
        (r, w1) \<Rightarrow> (case delete_pod K (hNamespace hPod) (hName hPod) w1 of (_, w2) \<Rightarrow> (r, w2)))"

definition WaitPodComplete :: "'w cluster \<Rightarrow> HelperPod \<Rightarrow> ('w, unit) io" where
  "WaitPodComplete K hPod w =
     (case wait_loop CmdTimeoutCounts K hPod w of
        (r, w1) \<Rightarrow> (case delete_pod K (hNamespace hPod) (hName hPod) w1 of (_, w2) \<Rightarrow> (r, w2)))"

definition GenePvFromTeplate :: "'v yaml \<Rightarrow> string \<Rightarrow> (string \<Rightarrow> string option) \<Rightarrow> goerr + 'v" where
  "GenePvFromTeplate Y pTemplate pStruct =
     (case ParseTemplate pTemplate pStruct of
        Inl err \<Rightarrow> Inl err
      | Inr initPvBytes \<Rightarrow>
     (case yaml_unmarshal Y initPvBytes of
        Inl err \<Rightarrow> Inl err
      | Inr obj \<Rightarrow>
     (case to_unstructured Y obj of
        Inl err \<Rightarrow> Inl err
      | Inr runtimeObj \<Rightarrow> pv_of_unstructured Y runtimeObj)))"

subsection \<open>The templates (template.go)\<close>

record PodStruct =
  psPvName :: string
  psNodeName :: string
  psLocalPath :: string
  psImage :: string
  psSaName :: string
  psNamespace :: string
  psCommandSlice :: string

definition pod_field :: "PodStruct \<Rightarrow> string \<Rightarrow> string option" where
  "pod_field p = map_of [(''PvName'', psPvName p), (''NodeName'', psNodeName p), (''LocalPath'', psLocalPath p), (''Image'', psImage p),
     (''SaName'', psSaName p), (''Namespace'', psNamespace p), (''CommandSlice'', psCommandSlice p)]"

definition init_pod_lines :: "string list" where
  "init_pod_lines =
     [[],
      ''apiVersion: v1'',
      ''kind: Pod'',
      ''metadata:'',
      ''  labels:'',
      ''    app: {{ .PvName }}'',
      ''  name: init-pvc-{{ .PvName }}'',
      ''  namespace: {{ .Namespace }}'',
      ''spec:'',
      ''  affinity:'',
      ''    nodeAffinity:'',
      ''      requiredDuringSchedulingIgnoredDuringExecution:'',
      ''        nodeSelectorTerms:'',
      ''        - matchExpressions:'',
      ''          - key: kubernetes.io/hostname'',
      ''            operator: In'',
      ''            values:'',
      ''            - {{ .NodeName }}'',
      ''  containers:'',
      ''  - command: [ {{ .CommandSlice }} ]'',
      ''    image: {{ .Image }}'',
      ''    imagePullPolicy: IfNotPresent'',
      ''    name: local-path-init'',
      ''    resources: {}'',
      ''    securityContext:'',
      ''      privileged: true'',
      ''    terminationMessagePath: /dev/termination-log'',
      ''    terminationMessagePolicy: File'',
      ''    volumeMounts:'',
      ''    - mountPath: {{ .LocalPath }}'',
      ''      name: data'',
      ''  dnsPolicy: ClusterFirst'',
      ''  enableServiceLinks: false'',
      ''  nodeName: {{ .NodeName }}'',
      ''  preemptionPolicy: PreemptLowerPriority'',
      ''  priority: 0'',
      ''  restartPolicy: Never'',
      ''  schedulerName: default-scheduler'',
      ''  terminationGracePeriodSeconds: 30'',
      ''  tolerations:'',
      ''  - effect: NoExecute'',
      ''    key: node.kubernetes.io/not-ready'',
      ''    operator: Exists'',
      ''    tolerationSeconds: 300'',
      ''  - effect: NoExecute'',
      ''    key: node.kubernetes.io/unreachable'',
      ''    operator: Exists'',
      ''    tolerationSeconds: 300'',
      ''  volumes:'',
      ''  - hostPath:'',
      ''      path: {{ .LocalPath }}'',
      ''      type: '' @ [CHR 0x22] @ '''' @ [CHR 0x22] @ '''',
      ''    name: data'',
      []]"

definition InitPodTemplate :: string where
  "InitPodTemplate = join_with [CHR 0x0A] init_pod_lines"

record PvStruct =
  vsPvName :: string
  vsPvcCap :: string
  vsPvcName :: string
  vsPvcRV :: string
  vsPvcUID :: string
  vsNamespace :: string
  vsBasePath :: string
  vsNodeName :: string
  vsScName :: string

definition pv_field :: "PvStruct \<Rightarrow> string \<Rightarrow> string option" where
  "pv_field p = map_of [(''PvName'', vsPvName p), (''PvcCap'', vsPvcCap p), (''PvcName'', vsPvcName p), (''PvcRV'', vsPvcRV p),
     (''PvcUID'', vsPvcUID p), (''Namespace'', vsNamespace p), (''BasePath'', vsBasePath p), (''NodeName'', vsNodeName p), (''ScName'', vsScName p)]"

definition pv_lines :: "string list" where
  "pv_lines =
     [[],
      ''apiVersion: v1'',
      ''kind: PersistentVolume'',
      ''metadata:'',
      ''  labels:'',
      ''    simplecsi/cas-type: hostpath'',
      ''  name: {{ .PvName }}'',
      ''spec:'',
      ''  accessModes:'',
      ''  - ReadWriteOnce'',
      ''  capacity:'',
      ''    storage: {{ .PvcCap }}'',
      ''  claimRef:'',
      ''    apiVersion: v1'',
      ''    kind: PersistentVolumeClaim'',
      ''    name: {{ .PvcName }}'',
      ''    namespace: {{ .Namespace }}'',
      ''    resourceVersion: '' @ [CHR 0x22] @ ''{{ .PvcRV }}'' @ [CHR 0x22] @ '''',
      ''    uid: {{ .PvcUID }}'',
      ''  local:'',
      ''    fsType: '' @ [CHR 0x22] @ '''' @ [CHR 0x22] @ '''',
      ''    path: {{ .BasePath }}/{{.PvName}}'',
      ''  nodeAffinity:'',
      ''    required:'',
      ''      nodeSelectorTerms:'',
      ''      - matchExpressions:'',
      ''        - key: kubernetes.io/hostname'',
      ''          operator: In'',
      ''          values:'',
      ''          - {{ .NodeName }}'',
      ''  persistentVolumeReclaimPolicy: Delete'',
      ''  storageClassName: {{ .ScName }}'',
      ''  volumeMode: Filesystem'',
      ''  '']"

definition PvTemplate :: string where
  "PvTemplate = join_with [CHR 0x0A] pv_lines"

subsection \<open>The provisioner (server.go)\<close>

definition provisionerName :: string where "provisionerName = ''simplecsi.io/local''"

text \<open>What the controller of the library passes: it always gives a storage class, and a node only when the pod is scheduled first.\<close>

record ProvisionOptions =
  scName :: string
  scAnnotations :: "string \<rightharpoonup> string"
  SelectedNode :: "string option"
  PVName :: string
  pvcNamespace :: string
  pvcName :: string
  pvcResourceVersion :: string
  pvcStorage :: string
  pvcUID :: string

record PersistentVolume =
  pvName :: string
  pvLocalPath :: "string option"
  pvStorageClassName :: string
  pvTerms :: "string list list list"
  pvClaimNamespace :: "string option"

definition Dir :: "string \<Rightarrow> string" where
  "Dir path = Clean (rev (dropWhile (\<lambda>c. c \<noteq> CHR ''/'') (rev path)))"

definition annotation :: "(string \<rightharpoonup> string) \<Rightarrow> string \<Rightarrow> string" where
  "annotation m k = (case m k of Some v \<Rightarrow> v | None \<Rightarrow> [])"

definition quoted_commands :: "string list \<Rightarrow> string" where
  "quoted_commands commands = join_with '','' (map (\<lambda>c. [CHR 0x22] @ c @ [CHR 0x22]) commands)"

definition init_struct :: "ProvisionOptions \<Rightarrow> string \<Rightarrow> PodStruct" where
  "init_struct opts node =
     (let bashPath = annotation (scAnnotations opts) ''simplecsi.io/basepath''; img = annotation (scAnnotations opts) ''simplecsi.io/image'' in
      \<lparr>psPvName = PVName opts, psNodeName = node, psLocalPath = bashPath, psImage = img, psSaName = ''simplecsi'', psNamespace = pvcNamespace opts,
       psCommandSlice = quoted_commands [''mkdir'', ''-m'', ''0777'', ''-p'', Join [bashPath, PVName opts]]\<rparr>)"

definition pv_struct :: "ProvisionOptions \<Rightarrow> string \<Rightarrow> PvStruct" where
  "pv_struct opts node =
     \<lparr>vsPvName = PVName opts, vsPvcCap = pvcStorage opts, vsPvcName = pvcName opts, vsPvcRV = pvcResourceVersion opts, vsPvcUID = pvcUID opts,
      vsNamespace = pvcNamespace opts, vsBasePath = annotation (scAnnotations opts) ''simplecsi.io/basepath'', vsNodeName = node,
      vsScName = scName opts\<rparr>"

text \<open>The state that is returned is always \<open>ProvisioningFinished\<close>.\<close>

definition Provision :: "'v yaml \<Rightarrow> 'w cluster \<Rightarrow> ProvisionOptions \<Rightarrow> ('w, 'v) io" where
  "Provision Y K opts =
     (case SelectedNode opts of
        None \<Rightarrow> fail (Panic ''nil pointer'')
      | Some node \<Rightarrow>
          bindE (CreatePodFromTeplate Y K InitPodTemplate (pod_field (init_struct opts node))) (\<lambda>pod.
          bindE (ExitPod K pod) (\<lambda>_.
          lift (GenePvFromTeplate Y PvTemplate (pv_field (pv_struct opts node))))))"

definition first_value :: "string list list list \<Rightarrow> goerr + string" where
  "first_value terms =
     (case terms of
        ((v # _) # _) # _ \<Rightarrow> Inr v
      | _ \<Rightarrow> Inl (Panic ''index out of range''))"

definition delete_struct :: "PersistentVolume \<Rightarrow> string \<Rightarrow> string \<Rightarrow> string \<Rightarrow> string \<Rightarrow> PodStruct" where
  "delete_struct pv bashPath img node ns =
     \<lparr>psPvName = pvName pv, psNodeName = node, psLocalPath = Dir bashPath, psImage = img, psSaName = ''simplecsi'', psNamespace = ns,
      psCommandSlice = quoted_commands [''rm'', ''-rf'', bashPath]\<rparr>"

definition provisioner_Delete :: "'v yaml \<Rightarrow> 'w cluster \<Rightarrow> PersistentVolume \<Rightarrow> ('w, unit) io" where
  "provisioner_Delete Y K pv =
     (case pvLocalPath pv of
        None \<Rightarrow> fail (Panic ''nil pointer'')
      | Some bashPath \<Rightarrow>
          bindE (storage_class K (pvStorageClassName pv)) (\<lambda>sc.
          bindE (lift (first_value (pvTerms pv))) (\<lambda>node.
          case pvClaimNamespace pv of
            None \<Rightarrow> fail (Panic ''nil pointer'')
          | Some ns \<Rightarrow>
              tryE (CreatePodFromTeplate Y K InitPodTemplate
                  (pod_field (delete_struct pv bashPath (annotation sc ''simplecsi.io/image'') node ns)))
                (\<lambda>_. ret ()) (\<lambda>pod. tryE (ExitPod K pod) (\<lambda>_. ret ()) ret))))"

end

