(* ===== verification/ProvisionerProps.thy ===== *)
theory ProvisionerProps
  imports Provisioner
begin

section \<open>simpleprovisioner: what provisioning and deletion do\<close>

subsection \<open>Templates line by line\<close>

definition rendered :: "(string \<Rightarrow> string option) \<Rightarrow> string \<Rightarrow> goerr + string" where
  "rendered obj s = (case template_chunks s of Inl e \<Rightarrow> Inl e | Inr cs \<Rightarrow> execute_chunks obj cs)"

lemma ParseTemplate_rendered: "rendered obj s = Inr t \<Longrightarrow> ParseTemplate s obj = Inr t"
  by (cases "template_chunks s") (simp_all add: rendered_def ParseTemplate_def del: template_chunks.simps)

lemma HasPrefix_pair: "HasPrefix xs [c, c] \<longleftrightarrow> (\<exists>r. xs = c # c # r)"
  by (cases xs; cases "tl xs") (auto simp: HasPrefix_def)

lemma split2_app: "split2 s [c, c] = Some (a, b) \<Longrightarrow> split2 (s @ r) [c, c] = Some (a, b @ r)"
proof (induction s arbitrary: a)
  case (Cons x xs)
  show ?case
  proof (cases "HasPrefix (x # xs) [c, c]")
    case True
    then show ?thesis using Cons.prems by (auto simp: HasPrefix_pair)
  next
    case False
    then obtain a' where a: "split2 xs [c, c] = Some (a', b)" "a = x # a'" using Cons.prems by auto
    then have "xs \<noteq> []" by auto
    then have "\<not> HasPrefix (x # xs @ r) [c, c]" using False by (auto simp: HasPrefix_pair neq_Nil_conv)
    then show ?thesis using Cons.IH [OF a(1)] a(2) by simp
  qed
qed simp

lemma split2_none_app:
  assumes "split2 s [c, c] = None" and "n \<noteq> c"
  shows "split2 (s @ n # r) [c, c] = map_option (\<lambda>(a, b). (s @ n # a, b)) (split2 r [c, c])"
  using assms(1)
proof (induction s)
  case Nil
  have "\<not> HasPrefix (n # r) [c, c]" using assms(2) by (simp add: HasPrefix_pair)
  then show ?case by simp
next
  case (Cons x xs)
  have f: "\<not> HasPrefix (x # xs) [c, c]" and n: "split2 xs [c, c] = None" using Cons.prems by (auto split: if_splits)
  have "\<not> HasPrefix (x # xs @ n # r) [c, c]" using f assms(2) by (cases xs) (auto simp: HasPrefix_pair)
  then show ?case using Cons.IH [OF n] by (cases "split2 r [c, c]") auto
qed

text \<open>The rendering of a text: up to the first action, the action, and the rest.\<close>

lemma rendered_unfold:
  "rendered obj s =
     (case split2 s ''{{'' of
        None \<Rightarrow> Inr s
      | Some (before, rest) \<Rightarrow>
          (case split2 rest ''}}'' of
             None \<Rightarrow> Inl (Plain ''template: template: unclosed action'')
           | Some (action, after) \<Rightarrow>
               (case field_of action of
                  None \<Rightarrow> Inl (Plain ''template: template: unexpected action'')
                | Some f \<Rightarrow>
                    (case template_chunks after of
                       Inl e \<Rightarrow> Inl e
                     | Inr _ \<Rightarrow>
                         (case obj f of
                            None \<Rightarrow> Inl (Plain ''can't evaluate field'')
                          | Some t \<Rightarrow> (case rendered obj after of Inl e \<Rightarrow> Inl e | Inr u \<Rightarrow> Inr (before @ t @ u)))))))"
  unfolding rendered_def by (subst template_chunks.simps) (simp del: template_chunks.simps split: option.split sum.split prod.split)

lemma rendered_Inr: "rendered obj s = Inr t \<Longrightarrow> \<exists>cs. template_chunks s = Inr cs"
  by (simp add: rendered_def del: template_chunks.simps split: sum.splits)

lemma rendered_line:
  assumes "rendered obj l = Inr a" and "rendered obj r = Inr b" and "n \<noteq> CHR ''{''"
  shows "rendered obj (l @ n # r) = Inr (a @ n # b)"
  using assms(1)
proof (induction l arbitrary: a rule: template_chunks.induct)
  case (1 s)
  show ?case
  proof (cases "split2 s ''{{''")
    case None
    then have a: "a = s" using 1(2) by (subst (asm) rendered_unfold) simp
    have "split2 (s @ n # r) ''{{'' = map_option (\<lambda>(a, b). (s @ n # a, b)) (split2 r ''{{'')"
      using None assms(3) by (rule split2_none_app)
    then show ?thesis using assms(2) unfolding a
      by (subst (asm) rendered_unfold, subst rendered_unfold)
        (auto split: option.splits prod.splits sum.splits simp del: template_chunks.simps)
  next
    case (Some p)
    obtain before rest where p: "p = (before, rest)" by (cases p)
    from 1(2) obtain action after f t u where s2: "split2 rest ''}}'' = Some (action, after)" and f: "field_of action = Some f"
      and t: "obj f = Some t" and u: "rendered obj after = Inr u" and a: "a = before @ t @ u"
      by (subst (asm) rendered_unfold) (auto simp: Some p simp del: template_chunks.simps split: option.splits sum.splits)
    have ih: "rendered obj (after @ n # r) = Inr (u @ n # b)" using 1(1) [OF Some [unfolded p] refl s2 refl f u] .
    obtain cs where "template_chunks (after @ n # r) = Inr cs" using rendered_Inr [OF ih] by blast
    then show ?thesis
      by (subst rendered_unfold)
        (simp add: split2_app [OF Some [unfolded p]] split2_app [OF s2] f t ih a del: template_chunks.simps)
  qed
qed

subsection \<open>The wait for a helper pod\<close>

text \<open>
  Nothing is assumed of what the looks at a pod return, nor of what changes in the cluster between them: \<open>look_world\<close> is the world after
  some looks, \<open>look_at\<close> what each of them returns.
\<close>

primrec look_world :: "'w cluster \<Rightarrow> string \<Rightarrow> string \<Rightarrow> nat \<Rightarrow> 'w \<Rightarrow> 'w" where
  "look_world K ns n 0 w = w"
| "look_world K ns n (Suc i) w = look_world K ns n i (snd (pod_phase K ns n w))"

definition look_at :: "'w cluster \<Rightarrow> string \<Rightarrow> string \<Rightarrow> 'w \<Rightarrow> nat \<Rightarrow> goerr + string" where
  "look_at K ns n w i = fst (pod_phase K ns n (look_world K ns n i w))"

text \<open>One of the first \<open>n\<close> looks finds the pod succeeded, and no earlier one fails.\<close>

definition succeeds :: "(nat \<Rightarrow> goerr + string) \<Rightarrow> nat \<Rightarrow> bool" where
  "succeeds f n \<longleftrightarrow> (\<exists>i < n. f i = Inr PodSucceeded \<and> (\<forall>j < i. \<exists>p. f j = Inr p))"

lemma succeeds_0 [simp]: "\<not> succeeds f 0"
  by (simp add: succeeds_def)

lemma succeeds_Suc: "succeeds f (Suc n) \<longleftrightarrow> f 0 = Inr PodSucceeded \<or> (\<exists>p. f 0 = Inr p) \<and> succeeds (\<lambda>i. f (Suc i)) n"
  unfolding succeeds_def Ex_less_Suc2 All_less_Suc2 by auto

lemma look_at_0: "pod_phase K ns n w = (look_at K ns n w 0, snd (pod_phase K ns n w))"
  by (simp add: look_at_def)

lemma look_at_Suc: "look_at K ns n (snd (pod_phase K ns n w)) = (\<lambda>i. look_at K ns n w (Suc i))"
  by (simp add: look_at_def fun_eq_iff)

lemma wait_loop_run:
  "\<exists>i r. i \<le> n \<and> wait_loop n K hPod w = (r, look_world K (hNamespace hPod) (hName hPod) i w) \<and>
     (r = Inr () \<longleftrightarrow> succeeds (look_at K (hNamespace hPod) (hName hPod) w) n)"
proof (induction n arbitrary: w)
  case (Suc n)
  define ns na where "ns = hNamespace hPod" and "na = hName hPod"
  define w1 where "w1 = snd (pod_phase K ns na w)"
  have 1: "pod_phase K ns na w = (look_at K ns na w 0, w1)" unfolding w1_def by (rule look_at_0)
  have s: "succeeds (look_at K ns na w) (Suc n) \<longleftrightarrow> look_at K ns na w 0 = Inr PodSucceeded \<or>
      (\<exists>p. look_at K ns na w 0 = Inr p) \<and> succeeds (look_at K ns na w1) n"
    unfolding w1_def look_at_Suc by (rule succeeds_Suc)
  have one: "look_world K ns na (Suc 0) w = w1" by (simp add: w1_def)
  show ?case unfolding ns_def [symmetric] na_def [symmetric]
  proof (cases "look_at K ns na w 0 = Inr PodSucceeded \<or> (\<exists>e. look_at K ns na w 0 = Inl e)")
    case True
    then have "\<exists>r. wait_loop (Suc n) K hPod w = (r, w1) \<and> (r = Inr () \<longleftrightarrow> succeeds (look_at K ns na w) (Suc n))"
      by (auto simp: s bindE_apply 1 ns_def [symmetric] na_def [symmetric])
    then show "\<exists>i r. i \<le> Suc n \<and> wait_loop (Suc n) K hPod w = (r, look_world K ns na i w) \<and>
        (r = Inr () \<longleftrightarrow> succeeds (look_at K ns na w) (Suc n))"
      by (intro exI [of _ "Suc 0"]) (auto simp: one simp del: wait_loop.simps look_world.simps)
  next
    case False
    then obtain phase where p: "look_at K ns na w 0 = Inr phase" "phase \<noteq> PodSucceeded"
      by (cases "look_at K ns na w 0") auto
    then have l: "wait_loop (Suc n) K hPod w = wait_loop n K hPod w1"
      by (simp add: bindE_apply 1 ns_def [symmetric] na_def [symmetric])
    obtain i r where "i \<le> n" "wait_loop n K hPod w1 = (r, look_world K ns na i w1)" "r = Inr () \<longleftrightarrow> succeeds (look_at K ns na w1) n"
      using Suc [of w1] unfolding ns_def na_def by blast
    then show "\<exists>i r. i \<le> Suc n \<and> wait_loop (Suc n) K hPod w = (r, look_world K ns na i w) \<and>
        (r = Inr () \<longleftrightarrow> succeeds (look_at K ns na w) (Suc n))"
      using p by (intro exI [of _ "Suc i"] exI [of _ r]) (simp add: l s w1_def del: wait_loop.simps)
  qed
qed simp

text \<open>Whatever the looks return, the deletion is requested last.\<close>

lemma exit_pod_run:
  "\<exists>i r. i \<le> 120 \<and> ExitPod K hPod w = (r, snd (delete_pod K (hNamespace hPod) (hName hPod)
      (look_world K (hNamespace hPod) (hName hPod) i w))) \<and>
     (r = Inr () \<longleftrightarrow> succeeds (look_at K (hNamespace hPod) (hName hPod) w) 120)"
proof -
  obtain i r where "i \<le> 120" "wait_loop CmdTimeoutCounts K hPod w = (r, look_world K (hNamespace hPod) (hName hPod) i w)"
    "r = Inr () \<longleftrightarrow> succeeds (look_at K (hNamespace hPod) (hName hPod) w) 120"
    using wait_loop_run [of 120 K hPod w] by (auto simp: CmdTimeoutCounts_def)
  then show ?thesis by (intro exI [of _ i] exI [of _ r]) (simp add: ExitPod_def split: prod.split)
qed

subsection \<open>Provisioning\<close>

text \<open>
  What is relied on of the API server: it creates a pod only if the namespace of the pod is the one of the request or
  empty and its name is free there (\<open>V\<close>: the pods by namespace and name), and returns it with its name in that namespace. It may
  refuse any request for any other reason.
\<close>

definition create_laws :: "'w cluster \<Rightarrow> ('w \<Rightarrow> (string \<times> string) \<rightharpoonup> HelperPod) \<Rightarrow> bool" where
  "create_laws K V \<longleftrightarrow>
     (\<forall>ns p w q w'. create_pod K ns p w = (Inr q, w') \<longrightarrow>
        (hNamespace p = ns \<or> hNamespace p = []) \<and> V w (ns, hName p) = None \<and> hNamespace q = ns \<and> hName q = hName p)"

lemma created:
  assumes "create_laws K V" and "create_pod K ns p w = (Inr q, w')"
  shows "hNamespace p = ns \<or> hNamespace p = []" "V w (ns, hName p) = None" "hNamespace q = ns" "hName q = hName p"
  using assms unfolding create_laws_def by blast+

text \<open>The helper pod of a claim.\<close>

definition helper_pod :: "'v yaml \<Rightarrow> ProvisionOptions \<Rightarrow> string \<Rightarrow> goerr + HelperPod" where
  "helper_pod Y opts node = template_pod Y InitPodTemplate (pod_field (init_struct opts node))"

lemma Provision_created:
  assumes "SelectedNode opts = Some node" and "helper_pod Y opts node = Inr pod"
    and "create_pod K ns pod w = (Inr p, w1)" and "ns = ''default''" and "hNamespace p = ns" "hName p = hName pod"
  shows "\<exists>r i. i \<le> 120 \<and> Provision Y K opts w = (r, snd (delete_pod K ns (hName pod) (look_world K ns (hName pod) i w1))) \<and>
    (\<forall>pv. r = Inr pv \<longleftrightarrow> succeeds (look_at K ns (hName pod) w1) 120 \<and> GenePvFromTeplate Y PvTemplate (pv_field (pv_struct opts node)) = Inr pv)"
proof -
  define gen where "gen = GenePvFromTeplate Y PvTemplate (pv_field (pv_struct opts node))"
  obtain i r where e: "i \<le> 120" "ExitPod K p w1 = (r, snd (delete_pod K ns (hName pod) (look_world K ns (hName pod) i w1)))"
    and r: "r = Inr () \<longleftrightarrow> succeeds (look_at K ns (hName pod) w1) 120"
    using exit_pod_run [of K p w1] unfolding assms(5,6) by blast
  define out where "out = (case r of Inl err \<Rightarrow> Inl err | Inr _ \<Rightarrow> gen)"
  have start: "Provision Y K opts w = bindE (create_pod K ns pod) (\<lambda>p. bindE (ExitPod K p) (\<lambda>_. lift gen)) w"
    using assms(2) by (simp add: Provision_def assms(1,4) CreatePodFromTeplate_def helper_pod_def bindE_apply gen_def)
  have "Provision Y K opts w = (out, snd (delete_pod K ns (hName pod) (look_world K ns (hName pod) i w1)))"
    unfolding start bindE_apply assms(3) prod.case sum.case e(2) out_def by (cases r) simp_all
  moreover have "\<forall>pv. out = Inr pv \<longleftrightarrow> succeeds (look_at K ns (hName pod) w1) 120 \<and> gen = Inr pv"
    using r by (cases r) (auto simp: out_def)
  ultimately show ?thesis using e(1) unfolding gen_def by blast
qed

text \<open>C32. What provisioning a claim does, in every case. A claim without a selected node makes it panic. If the helper pod cannot be made from its
  template or not be created, this error is the result, and nothing else is called; in particular \<open>AlreadyExists\<close> is returned, which the code
  means to pass over. The pod is created only for a claim of the namespace \<open>default\<close> (or of none), and only if no helper pod of an interrupted attempt is
  left. Once it is created it is looked at up to 120 times, and its deletion is always requested last, on success, error and
  time-out; a volume is returned exactly if one of the looks found the pod succeeded (no earlier one failed) and
  the template of the volume decodes. Of the decoder it is used that it reads the namespace of the pod.
\<close>

theorem provision_spec:
  assumes "create_laws K V"
    and "\<forall>node pod. SelectedNode opts = Some node \<and> helper_pod Y opts node = Inr pod \<longrightarrow> hNamespace pod = pvcNamespace opts"
  shows "case SelectedNode opts of
      None \<Rightarrow> Provision Y K opts w = (Inl (Panic ''nil pointer''), w)
    | Some node \<Rightarrow> (case helper_pod Y opts node of
        Inl e \<Rightarrow> Provision Y K opts w = (Inl e, w)
      | Inr pod \<Rightarrow> (case create_pod K ''default'' pod w of
          (Inl e, w1) \<Rightarrow> Provision Y K opts w = (Inl e, w1)
        | (Inr p, w1) \<Rightarrow> (pvcNamespace opts = ''default'' \<or> pvcNamespace opts = []) \<and> V w (''default'', hName pod) = None \<and>
            (\<exists>r i. i \<le> 120 \<and>
              Provision Y K opts w = (r, snd (delete_pod K ''default'' (hName pod) (look_world K ''default'' (hName pod) i w1))) \<and>
              (\<forall>pv. r = Inr pv \<longleftrightarrow> succeeds (look_at K ''default'' (hName pod) w1) 120 \<and>
                 GenePvFromTeplate Y PvTemplate (pv_field (pv_struct opts node)) = Inr pv))))"
proof (cases "SelectedNode opts")
  case None
  then show ?thesis by (simp add: Provision_def)
next
  case node: (Some node)
  show ?thesis
  proof (cases "helper_pod Y opts node")
    case (Inl e)
    then show ?thesis using node by (simp add: Provision_def CreatePodFromTeplate_def helper_pod_def bindE_apply)
  next
    case pod: (Inr pod)
    define ns where "ns = ''default''"
    obtain c w1 where c: "create_pod K ns pod w = (c, w1)" by (cases "create_pod K ns pod w")
    show ?thesis
    proof (cases c)
      case (Inl e)
      have "Provision Y K opts w = (Inl e, w1)"
        using pod c Inl by (simp add: Provision_def node CreatePodFromTeplate_def helper_pod_def bindE_apply ns_def)
      then show ?thesis by (simp only: node pod option.case sum.case c Inl prod.case ns_def [symmetric])
    next
      case (Inr p)
      note c' = c [unfolded Inr]
      note made = created [OF assms(1) c'] and run = Provision_created [OF node pod c' ns_def]
      have "hNamespace pod = pvcNamespace opts" using assms(2) node pod by blast
      then show ?thesis using run [OF made(3,4)] made(1,2)
        by (simp only: node pod option.case sum.case c' prod.case ns_def [symmetric] simp_thms)
    qed
  qed
qed

text \<open>Deleting a volume whose storage class exists always reports success: also when the helper pod that should remove the
  directory could not be created, never started or failed. The directory then stays on the node for good. (The calls of the API
  return errors and do not panic.)
\<close>

theorem delete_reports_success:
  assumes "\<forall>ns p w e. fst (create_pod K ns p w) = Inl e \<longrightarrow> \<not> is_panic e" and "\<forall>ns n w e. fst (pod_phase K ns n w) = Inl e \<longrightarrow> \<not> is_panic e"
    and "pvLocalPath pv = Some path" and "pvClaimNamespace pv = Some ns"
    and "first_value (pvTerms pv) = Inr node" and "storage_class K (pvStorageClassName pv) w = (Inr sc, w)"
    and "template_pod Y InitPodTemplate (pod_field (delete_struct pv path (annotation sc ''simplecsi.io/image'') node ns)) = Inr pod"
  shows "\<exists>w'. provisioner_Delete Y K pv w = (Inr (), w') \<and>
    (\<forall>e w1. create_pod K ''default'' pod w = (Inl e, w1) \<longrightarrow> w' = w1)"
proof -
  define d where "d = ''default''"
  have start: "provisioner_Delete Y K pv w = tryE (create_pod K d pod) (\<lambda>_. ret ()) (\<lambda>pod. tryE (ExitPod K pod) (\<lambda>_. ret ()) ret) w"
    using assms(7) by (simp add: provisioner_Delete_def assms(3-6) bindE_apply CreatePodFromTeplate_def tryE_def d_def)
  obtain c w1 where c: "create_pod K d pod w = (c, w1)" by (cases "create_pod K d pod w")
  show ?thesis unfolding d_def [symmetric]
  proof (cases c)
    case (Inl e)
    then have "\<not> is_panic e" using assms(1) c by (metis fst_conv)
    then show "\<exists>w'. provisioner_Delete Y K pv w = (Inr (), w') \<and> (\<forall>e w1. create_pod K d pod w = (Inl e, w1) \<longrightarrow> w' = w1)"
      using Inl c by (simp add: start tryE_apply)
  next
    case (Inr p)
    have loop: "wait_loop n K p v = (Inl e, v') \<Longrightarrow> \<not> is_panic e" for n v e v'
    proof (induction n arbitrary: v)
      case (Suc n)
      then show ?case using assms(2) [rule_format, of "hNamespace p" "hName p" v]
        by (auto simp: bindE_apply split: prod.splits sum.splits if_splits)
    qed auto
    obtain r w2 where "ExitPod K p w1 = (r, w2)" by (cases "ExitPod K p w1")
    moreover have "r = Inl e \<Longrightarrow> \<not> is_panic e" for e
      using calculation loop by (auto simp: ExitPod_def split: prod.splits)
    ultimately have "provisioner_Delete Y K pv w = (Inr (), w2)"
      unfolding start tryE_apply c Inr prod.case sum.case by (cases r) simp_all
    then show "\<exists>w'. provisioner_Delete Y K pv w = (Inr (), w') \<and> (\<forall>e w1. create_pod K d pod w = (Inl e, w1) \<longrightarrow> w' = w1)"
      using Inr c by auto
  qed
qed

subsection \<open>Witnesses\<close>

text \<open>A cluster of pods with a clock; every pod has succeeded from the third look on. Two lines of the text of a pod are read.\<close>

type_synonym pods = "((string \<times> string) \<times> HelperPod) list \<times> nat"

definition pod_cluster :: "pods cluster" where
  "pod_cluster = \<lparr>
     create_pod = (\<lambda>ns p (ps, t).
       if hNamespace p \<noteq> ns \<and> hNamespace p \<noteq> [] then (Inl (Kube (ApiOther ''namespace'')), (ps, t))
       else if map_of ps (ns, hName p) \<noteq> None then (Inl (Kube (ApiAlreadyExists ''pod'')), (ps, t))
       else (Inr (p\<lparr>hNamespace := ns\<rparr>), (((ns, hName p), p\<lparr>hNamespace := ns\<rparr>) # ps, t))),
     pod_phase = (\<lambda>ns n (ps, t). (Inr (if t < 2 then ''Pending'' else PodSucceeded), (ps, t + 1))),
     delete_pod = (\<lambda>ns n (ps, t). (Inr (), (filter (\<lambda>x. fst x \<noteq> (ns, n)) ps, t))),
     storage_class = (\<lambda>n. getS (\<lambda>_. Map.empty))\<rparr>"

definition pod_view :: "pods \<Rightarrow> (string \<times> string) \<rightharpoonup> HelperPod" where "pod_view w = map_of (fst w)"

lemma map_of_filter_other: "map_of (filter (\<lambda>x. fst x \<noteq> k) ps) = (map_of ps)(k := None)"
  by (induction ps) (auto simp: fun_eq_iff)

lemma pod_cluster_laws: "create_laws pod_cluster pod_view"
  by (auto simp: create_laws_def pod_cluster_def pod_view_def split: if_splits prod.splits)

lemma pod_cluster_looks:
  "look_world pod_cluster ns n i (ps, t) = (ps, t + i)"
  "look_at pod_cluster ns n (ps, t) i = Inr (if t + i < 2 then ''Pending'' else PodSucceeded)"
proof -
  show l: "look_world pod_cluster ns n i (ps, t) = (ps, t + i)" for i
    by (induction i arbitrary: t) (simp_all add: pod_cluster_def)
  show "look_at pod_cluster ns n (ps, t) i = Inr (if t + i < 2 then ''Pending'' else PodSucceeded)"
    by (simp add: look_at_def l) (simp add: pod_cluster_def)
qed

definition value_in :: "string \<Rightarrow> string list \<Rightarrow> string" where
  "value_in key ls = (case filter (\<lambda>l. HasPrefix l key) ls of [] \<Rightarrow> [] | l # _ \<Rightarrow> drop (length key) l)"

definition line_value :: "string \<Rightarrow> string \<Rightarrow> string" where
  "line_value key tx = value_in key (split_char (CHR 0x0A) tx)"

definition line_yaml :: "string yaml" where
  "line_yaml = \<lparr>yaml_unmarshal = (\<lambda>t. Inr (JStr t)), to_unstructured = Inr,
     pod_of_unstructured = (\<lambda>j. case j of JStr t \<Rightarrow> Inr \<lparr>hName = line_value ''  name: '' t, hNamespace = line_value ''  namespace: '' t, hText = []\<rparr>
       | _ \<Rightarrow> Inl (Plain ''not a pod'')),
     pv_of_unstructured = (\<lambda>j. case j of JStr t \<Rightarrow> Inr (line_value ''    path: '' t) | _ \<Rightarrow> Inl (Plain ''not a volume''))\<rparr>"

definition a_claim :: ProvisionOptions where
  "a_claim = \<lparr>scName = ''local'', scAnnotations = [''simplecsi.io/basepath'' \<mapsto> ''/data''], SelectedNode = Some ''n1'', PVName = ''pv1'',
     pvcNamespace = ''default'', pvcName = ''c1'', pvcResourceVersion = ''1'', pvcStorage = ''1Gi'', pvcUID = ''u1''\<rparr>"

text \<open>The two templates, line by line.\<close>

lemma rendered_lines:
  "list_all2 (\<lambda>l r. rendered obj l = Inr r) ls rs \<Longrightarrow> ls \<noteq> [] \<Longrightarrow>
   rendered obj (join_with [CHR 0x0A] ls) = Inr (join_with [CHR 0x0A] rs)"
proof (induction ls rs rule: list_all2_induct)
  case (Cons l ls r rs)
  then show ?case
  proof (cases ls)
    case Nil
    then show ?thesis using Cons by simp
  next
    case (Cons l' ls')
    then obtain r' rs' where rs: "rs = r' # rs'" using \<open>list_all2 _ ls rs\<close> by (cases rs) auto
    show ?thesis using \<open>rendered obj l = Inr r\<close> Cons.IH Cons rs by (simp add: rendered_line)
  qed
qed simp

lemma split_join_lines: "list_all (\<lambda>r. CHR 0x0A \<notin> set r) rs \<Longrightarrow> rs \<noteq> [] \<Longrightarrow> split_char (CHR 0x0A) (join_with [CHR 0x0A] rs) = rs"
proof (induction rs)
  case (Cons r rs)
  then show ?case by (cases rs) (simp_all add: split_char_no_sep split_char_app)
qed simp

definition good_line :: "(string \<Rightarrow> string option) \<Rightarrow> string \<Rightarrow> bool" where
  "good_line obj l = (case rendered obj l of Inr t \<Rightarrow> CHR 0x0A \<notin> set t | Inl _ \<Rightarrow> False)"

text \<open>If every line of a template is good, its values are read line by line.\<close>

lemma template_values:
  assumes "list_all (good_line obj) ls" and "ls \<noteq> []"
  obtains tx where "ParseTemplate (join_with [CHR 0x0A] ls) obj = Inr tx"
    "\<And>key. line_value key tx = value_in key (map (\<lambda>l. projr (rendered obj l)) ls)"
proof -
  define rs where "rs = map (\<lambda>l. projr (rendered obj l)) ls"
  have l: "rendered obj l = Inr (projr (rendered obj l)) \<and> CHR 0x0A \<notin> set (projr (rendered obj l))" if "l \<in> set ls" for l
    using assms(1) that by (cases "rendered obj l") (auto simp: list_all_iff good_line_def)
  have "list_all2 (\<lambda>l r. rendered obj l = Inr r) ls rs" using l by (simp add: rs_def list_all2_conv_all_nth)
  from rendered_lines [OF this assms(2)] have "rendered obj (join_with [CHR 0x0A] ls) = Inr (join_with [CHR 0x0A] rs)" .
  moreover have "split_char (CHR 0x0A) (join_with [CHR 0x0A] rs) = rs"
    using assms(2) l by (intro split_join_lines) (auto simp: rs_def list_all_iff)
  ultimately show ?thesis using that [of "join_with [CHR 0x0A] rs"] ParseTemplate_rendered unfolding line_value_def rs_def by metis
qed

lemma a_claim_pod: "helper_pod line_yaml a_claim ''n1'' = Inr \<lparr>hName = ''init-pvc-pv1'', hNamespace = ''default'', hText = []\<rparr>"
proof -
  define obj where "obj = pod_field (init_struct a_claim ''n1'')"
  have "list_all (good_line obj) init_pod_lines" unfolding obj_def by code_simp
  moreover have "init_pod_lines \<noteq> []" by (simp add: init_pod_lines_def)
  ultimately obtain tx where t: "ParseTemplate InitPodTemplate obj = Inr tx"
    and v: "\<And>key. line_value key tx = value_in key (map (\<lambda>l. projr (rendered obj l)) init_pod_lines)"
    unfolding InitPodTemplate_def by (rule template_values) blast
  have "line_value ''  name: '' tx = ''init-pvc-pv1''" unfolding v obj_def by code_simp
  moreover have "line_value ''  namespace: '' tx = ''default''" unfolding v obj_def by code_simp
  ultimately show ?thesis by (simp add: helper_pod_def template_pod_def obj_def [symmetric] t line_yaml_def)
qed

lemma a_claim_pv: "GenePvFromTeplate line_yaml PvTemplate (pv_field (pv_struct a_claim ''n1'')) = Inr ''/data/pv1''"
proof -
  define obj where "obj = pv_field (pv_struct a_claim ''n1'')"
  have "list_all (good_line obj) pv_lines" unfolding obj_def by code_simp
  moreover have "pv_lines \<noteq> []" by (simp add: pv_lines_def)
  ultimately obtain tx where t: "ParseTemplate PvTemplate obj = Inr tx"
    and v: "\<And>key. line_value key tx = value_in key (map (\<lambda>l. projr (rendered obj l)) pv_lines)"
    unfolding PvTemplate_def by (rule template_values) blast
  have "line_value ''    path: '' tx = ''/data/pv1''" unfolding v obj_def by code_simp
  then show ?thesis by (simp add: GenePvFromTeplate_def obj_def [symmetric] t line_yaml_def)
qed

theorem provision_spec_witness:
  "\<exists>w'. Provision line_yaml pod_cluster a_claim ([], 0) = (Inr ''/data/pv1'', w') \<and> pod_view w' = Map.empty"
proof -
  define d where "d = ''default''"
  define p where "p = \<lparr>hName = ''init-pvc-pv1'', hNamespace = d, hText = []\<rparr>"
  have sel: "SelectedNode a_claim = Some ''n1''" and ns: "pvcNamespace a_claim = d" by (simp_all add: a_claim_def d_def)
  have pod: "helper_pod line_yaml a_claim ''n1'' = Inr p" by (simp add: a_claim_pod p_def d_def)
  have c: "create_pod pod_cluster d p ([], 0) = (Inr p, ([((d, hName p), p)], 0))" by (simp add: pod_cluster_def p_def)
  have s: "succeeds (look_at pod_cluster d (hName p) ([((d, hName p), p)], 0)) 120"
    unfolding succeeds_def by (rule exI [of _ 2]) (simp add: pod_cluster_looks)
  have "\<forall>node pod. SelectedNode a_claim = Some node \<and> helper_pod line_yaml a_claim node = Inr pod \<longrightarrow> hNamespace pod = pvcNamespace a_claim"
    using sel pod by (simp add: ns p_def)
  from provision_spec [OF pod_cluster_laws this, of "([], 0)", unfolded d_def [symmetric]] obtain r i where
    "Provision line_yaml pod_cluster a_claim ([], 0) =
       (r, snd (delete_pod pod_cluster d (hName p) (look_world pod_cluster d (hName p) i ([((d, hName p), p)], 0))))"
    "\<forall>pv. r = Inr pv \<longleftrightarrow> GenePvFromTeplate line_yaml PvTemplate (pv_field (pv_struct a_claim ''n1'')) = Inr pv"
    by (auto simp: sel pod c s)
  then show ?thesis by (simp add: a_claim_pv pod_cluster_looks) (simp add: pod_cluster_def pod_view_def)
qed

definition a_volume :: PersistentVolume where
  "a_volume = \<lparr>pvName = ''pv1'', pvLocalPath = Some ''/data/pv1'', pvStorageClassName = ''local'', pvTerms = [[[''n1'']]], pvClaimNamespace = Some ''team''\<rparr>"

lemma a_volume_pod:
  "template_pod line_yaml InitPodTemplate (pod_field (delete_struct a_volume ''/data/pv1'' (annotation Map.empty ''simplecsi.io/image'') ''n1'' ''team'')) =
   Inr \<lparr>hName = ''init-pvc-pv1'', hNamespace = ''team'', hText = []\<rparr>"
proof -
  define obj where "obj = pod_field (delete_struct a_volume ''/data/pv1'' (annotation Map.empty ''simplecsi.io/image'') ''n1'' ''team'')"
  have "list_all (good_line obj) init_pod_lines" unfolding obj_def by code_simp
  moreover have "init_pod_lines \<noteq> []" by (simp add: init_pod_lines_def)
  ultimately obtain tx where t: "ParseTemplate InitPodTemplate obj = Inr tx"
    and v: "\<And>key. line_value key tx = value_in key (map (\<lambda>l. projr (rendered obj l)) init_pod_lines)"
    unfolding InitPodTemplate_def by (rule template_values) blast
  have "line_value ''  name: '' tx = ''init-pvc-pv1''" unfolding v obj_def by code_simp
  moreover have "line_value ''  namespace: '' tx = ''team''" unfolding v obj_def by code_simp
  ultimately show ?thesis by (simp add: template_pod_def obj_def [symmetric] t line_yaml_def)
qed

theorem delete_reports_success_witness: "provisioner_Delete line_yaml pod_cluster a_volume ([], 0) = (Inr (), ([], 0))"
proof -
  have f: "pvLocalPath a_volume = Some ''/data/pv1''" "pvClaimNamespace a_volume = Some ''team''" "first_value (pvTerms a_volume) = Inr ''n1''"
    by (simp_all add: a_volume_def first_value_def)
  have sc: "storage_class pod_cluster (pvStorageClassName a_volume) ([], 0) = (Inr Map.empty, ([], 0))" by (simp add: pod_cluster_def)
  have n: "\<forall>ns p w e. fst (create_pod pod_cluster ns p w) = Inl e \<longrightarrow> \<not> is_panic e" "\<forall>ns n w e. fst (pod_phase pod_cluster ns n w) = Inl e \<longrightarrow> \<not> is_panic e"
    by (auto simp: pod_cluster_def split: prod.splits)
  have "create_pod pod_cluster ''default'' \<lparr>hName = ''init-pvc-pv1'', hNamespace = ''team'', hText = []\<rparr> ([], 0) =
      (Inl (Kube (ApiOther ''namespace'')), ([], 0))"
    by (simp add: pod_cluster_def)
  then show ?thesis using delete_reports_success [OF n f sc a_volume_pod] by auto
qed

end
