(* ===== verification/RestMapper.thy ===== *)
theory RestMapper
  imports GoStd
begin

section \<open>clientgodemo/restmapper: resources by name (pkg/utils)\<close>

text \<open>
  The service lists, creates and deletes objects of any kind, given as an argument such as \<open>pods\<close>, \<open>deployments.apps\<close> or
  \<open>Deployment.v1.apps\<close>. The REST mapper, the dynamic client, the informers and the decoder are arguments. The parsing of the
  arguments follows \<open>runtime/schema\<close> of the API library (a vendored copy is in the repository).
\<close>

subsection \<open>Arguments (runtime/schema/group\_version.go)\<close>

record GroupVersionResource = gvrGroup :: string gvrVersion :: string gvrResource :: string
record GroupVersionKind = gvkGroup :: string gvkVersion :: string gvkKind :: string

text \<open>A group with a resource, or with a kind.\<close>

type_synonym group_name = "string \<times> string"

definition gvk_Empty :: "GroupVersionKind \<Rightarrow> bool" where
  "gvk_Empty g \<longleftrightarrow> length (gvkGroup g) = 0 \<and> length (gvkVersion g) = 0 \<and> length (gvkKind g) = 0"

text \<open>\<open>ParseGroupResource\<close> and \<open>ParseGroupKind\<close>: what follows the first dot is the group.\<close>

definition ParseGroupName :: "string \<Rightarrow> group_name" where
  "ParseGroupName arg = (case split2 arg ''.'' of None \<Rightarrow> ([], arg) | Some (n, g) \<Rightarrow> (g, n))"

definition three_parts :: "string \<Rightarrow> (string \<times> string \<times> string) option" where
  "three_parts arg =
     (case split2 arg ''.'' of
        None \<Rightarrow> None
      | Some (a, r) \<Rightarrow> (case split2 r ''.'' of None \<Rightarrow> None | Some (b, c) \<Rightarrow> Some (a, b, c)))"

definition ParseResourceArg :: "string \<Rightarrow> GroupVersionResource option \<times> group_name" where
  "ParseResourceArg arg =
     (map_option (\<lambda>(a, b, c). \<lparr>gvrGroup = c, gvrVersion = b, gvrResource = a\<rparr>) (three_parts arg), ParseGroupName arg)"

definition ParseKindArg :: "string \<Rightarrow> GroupVersionKind option \<times> group_name" where
  "ParseKindArg arg =
     (map_option (\<lambda>(a, b, c). \<lparr>gvkGroup = c, gvkVersion = b, gvkKind = a\<rparr>) (three_parts arg), ParseGroupName arg)"

subsection \<open>The service (mapping.go)\<close>

record mapping = mResource :: GroupVersionResource mScope :: string

record restmapper =
  KindFor :: "GroupVersionResource \<Rightarrow> goerr + GroupVersionKind"
  RESTMapping :: "group_name \<Rightarrow> string \<Rightarrow> goerr + mapping"
  IsNoMatchError :: "goerr \<Rightarrow> bool"

definition no_kind :: GroupVersionKind where "no_kind = \<lparr>gvkGroup = [], gvkVersion = [], gvkKind = []\<rparr>"

text \<open>The kind of an error is the empty one, as the mapper of the library returns it.\<close>

definition kind_for :: "restmapper \<Rightarrow> GroupVersionResource \<Rightarrow> GroupVersionKind" where
  "kind_for R r = (case KindFor R r of Inl _ \<Rightarrow> no_kind | Inr gvk \<Rightarrow> gvk)"

definition mappingFor :: "restmapper \<Rightarrow> string \<Rightarrow> goerr + mapping" where
  "mappingFor R resourceOrKindArg =
     (case ParseResourceArg resourceOrKindArg of (fullySpecifiedGVR, groupResource) \<Rightarrow>
      let gvk1 = (case fullySpecifiedGVR of Some gvr \<Rightarrow> kind_for R gvr | None \<Rightarrow> no_kind);
          gvk = (if gvk_Empty gvk1
                 then kind_for R \<lparr>gvrGroup = fst groupResource, gvrVersion = [], gvrResource = snd groupResource\<rparr> else gvk1) in
      if \<not> gvk_Empty gvk then RESTMapping R (gvkGroup gvk, gvkKind gvk) (gvkVersion gvk)
      else
        (case ParseKindArg resourceOrKindArg of (specified, groupKind) \<Rightarrow>
         let fullySpecifiedGVK = (case specified of Some g \<Rightarrow> g
               | None \<Rightarrow> \<lparr>gvkGroup = fst groupKind, gvkVersion = [], gvkKind = snd groupKind\<rparr>);
             last_try = (case RESTMapping R groupKind (gvkVersion gvk) of
                 Inl err \<Rightarrow> if IsNoMatchError R err
                   then Inl (Plain (''the server doesn't have a resource type '' @ dquote (snd groupResource))) else Inl err
               | Inr mp \<Rightarrow> Inr mp) in
         if \<not> gvk_Empty fullySpecifiedGVK
         then (case RESTMapping R (gvkGroup fullySpecifiedGVK, gvkKind fullySpecifiedGVK) (gvkVersion fullySpecifiedGVK) of
                 Inr mp \<Rightarrow> Inr mp
               | Inl _ \<Rightarrow> last_try)
         else last_try))"

definition GetGVR :: "restmapper \<Rightarrow> string \<Rightarrow> goerr + GroupVersionResource" where
  "GetGVR R arg = (case mappingFor R arg of Inl err \<Rightarrow> Inl err | Inr mp \<Rightarrow> Inr (mResource mp))"

text \<open>A resource of a namespace or of the cluster.\<close>

type_synonym resource_interface = "GroupVersionResource \<times> string option"

definition getResourceInterface :: "restmapper \<Rightarrow> string \<Rightarrow> string \<Rightarrow> goerr + resource_interface" where
  "getResourceInterface R arg ns =
     (case mappingFor R arg of
        Inl err \<Rightarrow> Inl (Plain (''failed to get RESTMapping for '' @ arg @ '': '' @ err_text err))
      | Inr mp \<Rightarrow> if mScope mp = ''namespace'' then Inr (mResource mp, Some ns) else Inr (mResource mp, None))"

record ('w, 'o) dynamic_client =
  dyn_delete :: "resource_interface \<Rightarrow> string \<Rightarrow> ('w, unit) io"
  dyn_create :: "resource_interface \<Rightarrow> 'o \<Rightarrow> ('w, unit) io"
  dyn_decode :: "string \<Rightarrow> goerr + 'o"
  dyn_namespace :: "'o \<Rightarrow> string"
  for_resource :: "GroupVersionResource \<Rightarrow> (string \<Rightarrow> goerr + 'o list) option"

definition DeleteResource :: "restmapper \<Rightarrow> ('w, 'o) dynamic_client \<Rightarrow> string \<Rightarrow> string \<Rightarrow> string \<Rightarrow> ('w, unit) io" where
  "DeleteResource R D arg ns name =
     bindE (lift (getResourceInterface R arg ns)) (\<lambda>ri. dyn_delete D ri name)"

definition CreateResource :: "restmapper \<Rightarrow> ('w, 'o) dynamic_client \<Rightarrow> string \<Rightarrow> string \<Rightarrow> ('w, unit) io" where
  "CreateResource R D arg yaml =
     bindE (lift (dyn_decode D yaml)) (\<lambda>obj.
     bindE (lift (getResourceInterface R arg (dyn_namespace D obj))) (\<lambda>ri. dyn_create D ri obj))"

text \<open>The factory gives no informer for a resource it does not know; its error is dropped and the informer used. An error of the
  listing gives the empty list.\<close>

definition ListResource :: "restmapper \<Rightarrow> ('w, 'o) dynamic_client \<Rightarrow> string \<Rightarrow> string \<Rightarrow> goerr + 'o list" where
  "ListResource R D arg ns =
     (case mappingFor R arg of
        Inl err \<Rightarrow> Inl err
      | Inr mp \<Rightarrow>
          (case for_resource D (mResource mp) of
             None \<Rightarrow> Inl (Panic ''nil pointer'')
           | Some informer \<Rightarrow> (case informer ns of Inl _ \<Rightarrow> Inr [] | Inr xs \<Rightarrow> Inr xs)))"

subsection \<open>Clients and events (utils.go, podinfo.go)\<close>

record 'c kubeconfigs =
  kubeconfig_exists :: bool
  from_kubeconfig :: "goerr + 'c"
  in_cluster :: "goerr + 'c"
  with_limits :: "nat \<Rightarrow> nat \<Rightarrow> 'c \<Rightarrow> 'c"

text \<open>The file is used if it is not there.\<close>

definition InitK8sRestConfig :: "'c kubeconfigs \<Rightarrow> goerr + 'c" where
  "InitK8sRestConfig k =
     (case (if \<not> kubeconfig_exists k then from_kubeconfig k else in_cluster k) of
        Inl err \<Rightarrow> Inl err
      | Inr restConfig \<Rightarrow> Inr (with_limits k 100 50 restConfig))"

record k8s_event = evKind :: string evName :: string evType :: string evMessage :: string

definition GetEvents :: "(string \<Rightarrow> goerr + k8s_event list) \<Rightarrow> string \<Rightarrow> string \<Rightarrow> goerr + string list" where
  "GetEvents list_events ns podname =
     (case list_events ns of
        Inl err \<Rightarrow> Inl (Plain (''failed to list events: '' @ err_text err))
      | Inr events \<Rightarrow> Inr (map evMessage (filter (\<lambda>event. evKind event = ''Pod'' \<and> evName event = podname \<and> evType event = ''Warning'') events)))"

subsection \<open>What an argument finds\<close>

text \<open>A name that the mapper knows as a resource is never taken for a kind.\<close>

lemma resource_before_kind:
  assumes "KindFor R \<lparr>gvrGroup = [], gvrVersion = [], gvrResource = arg\<rparr> = Inr gvk" and "\<not> gvk_Empty gvk" and "CHR ''.'' \<notin> set arg"
  shows "mappingFor R arg = RESTMapping R (gvkGroup gvk, gvkKind gvk) (gvkVersion gvk)"
proof -
  have "HasPrefix s ''.'' \<longleftrightarrow> (\<exists>r. s = CHR ''.'' # r)" for s by (cases s) (auto simp: HasPrefix_def)
  then have "split2 s ''.'' = None" if "CHR ''.'' \<notin> set s" for s using that by (induction s) auto
  then have "split2 arg ''.'' = None" using assms(3) by blast
  then have "ParseResourceArg arg = (None, ([], arg))" by (simp add: ParseResourceArg_def three_parts_def ParseGroupName_def)
  then show ?thesis using assms(1,2) by (simp add: mappingFor_def kind_for_def gvk_Empty_def no_kind_def)
qed

end
