(* ===== verification/PluginLoop.thy ===== *)
theory PluginLoop
  imports DevicePlugin "HOL-Library.Word"
begin

section \<open>simpledeviceplugin: the restart loop (cmd/app/core.go)\<close>

text \<open>
  The command starts the server and then waits for file events: when the kubelet makes its socket anew, the plugin
  has to register again. The loop is a step relation: the environment adds file events and ends the context at
  any time, \<open>Serve\<close> registers and returns at the end of the context, and \<open>select\<close> takes any case that is ready. Calls on the sockets
  are those of \<open>DevicePlugin\<close>; their world is part of the state.
\<close>

unbundle bit_operations_syntax

subsection \<open>States\<close>

record file_event = evFile :: string evOp :: "32 word"

definition op_Create :: "32 word" where "op_Create = 1"

datatype select_input = Event file_event | WatchError string

datatype phase = Serving | Selecting bool | Returned | Crashed

record 'w plugin_run =
  phase :: phase
  inputs :: "select_input list"
  ctxDone :: bool
  registered :: nat
  world :: 'w

subsection \<open>The loop\<close>

definition is_kubelet_created :: "Server \<Rightarrow> file_event \<Rightarrow> bool" where
  "is_kubelet_created s e \<longleftrightarrow> evFile e = KubeletSockPath s \<and> evOp e AND op_Create = op_Create"

definition take_input :: "Server \<Rightarrow> select_input \<Rightarrow> bool \<Rightarrow> bool" where
  "take_input s i restart = (case i of Event e \<Rightarrow> if is_kubelet_created s e then True else restart | WatchError _ \<Rightarrow> restart)"

text \<open>\<open>Serve\<close> up to its wait for the end of the context: a failure ends the process.\<close>

definition enter_serve :: "'w sockets \<Rightarrow> Server \<Rightarrow> 'w plugin_run \<Rightarrow> 'w plugin_run" where
  "enter_serve S s r =
     (case Serve S s (world r) of
        (Inl _, w) \<Rightarrow> r\<lparr>phase := Crashed, world := w\<rparr>
      | (Inr _, w) \<Rightarrow> r\<lparr>phase := Serving, registered := registered r + 1, world := w\<rparr>)"

text \<open>The start of a round: with \<open>restart\<close> the gRPC server is stopped and \<open>Serve\<close> is called again.\<close>

definition loop_top :: "'w sockets \<Rightarrow> Server \<Rightarrow> bool \<Rightarrow> 'w plugin_run \<Rightarrow> 'w plugin_run" where
  "loop_top S s restart r = (if restart then enter_serve S s r else r\<lparr>phase := Selecting False\<rparr>)"

inductive plugin_step :: "'w sockets \<Rightarrow> Server \<Rightarrow> 'w plugin_run \<Rightarrow> 'w plugin_run \<Rightarrow> bool" for S s where
  file_event: "plugin_step S s r (r\<lparr>inputs := inputs r @ [i]\<rparr>)"
| cancel: "plugin_step S s r (r\<lparr>ctxDone := True\<rparr>)"
| outside: "plugin_step S s r (r\<lparr>world := w\<rparr>)"
| serve_returns: "phase r = Serving \<Longrightarrow> ctxDone r \<Longrightarrow> plugin_step S s r (r\<lparr>phase := Selecting False\<rparr>)"
| select_input: "phase r = Selecting restart \<Longrightarrow> inputs r = i # is \<Longrightarrow>
    plugin_step S s r (loop_top S s (take_input s i restart) (r\<lparr>inputs := is\<rparr>))"
| select_done: "phase r = Selecting restart \<Longrightarrow> ctxDone r \<Longrightarrow> plugin_step S s r (r\<lparr>phase := Returned\<rparr>)"

definition plugin_start :: "'w sockets \<Rightarrow> Server \<Rightarrow> 'w \<Rightarrow> 'w plugin_run" where
  "plugin_start S s w = enter_serve S s \<lparr>phase = Crashed, inputs = [], ctxDone = False, registered = 0, world = w\<rparr>"

inductive plugin_reach :: "'w sockets \<Rightarrow> Server \<Rightarrow> 'w plugin_run \<Rightarrow> bool" for S s where
  start: "plugin_reach S s (plugin_start S s w)"
| step: "plugin_reach S s r \<Longrightarrow> plugin_step S s r r' \<Longrightarrow> plugin_reach S s r'"

inductive_cases plugin_stepE: "plugin_step S s r r'"

subsection \<open>Restarts of the kubelet\<close>

definition before_end :: "'w plugin_run \<Rightarrow> bool" where
  "before_end r \<longleftrightarrow> (\<not> ctxDone r \<longrightarrow> phase r = Crashed \<and> registered r = 0 \<or> phase r = Serving \<and> registered r = 1)"

lemma before_end_step: "plugin_step S s r r' \<Longrightarrow> before_end r \<Longrightarrow> before_end r'"
  by (erule plugin_stepE) (auto simp: before_end_def loop_top_def enter_serve_def split: prod.splits sum.splits)

lemma before_end_reach: "plugin_reach S s r \<Longrightarrow> before_end r"
proof (induction rule: plugin_reach.induct)
  case (start w)
  show ?case by (auto simp: before_end_def plugin_start_def enter_serve_def split: prod.splits sum.splits)
next
  case (step r r')
  then show ?case by (blast intro: before_end_step)
qed

text \<open>C33. The plugin never notices a restart of the kubelet. As long as the context is not ended, every reachable state
  in which the plugin runs has registered exactly once and still waits in \<open>Serve\<close>: no step but those
  of the environment is possible, however often the socket of the kubelet has been made anew; and all events stay unread.
\<close>

theorem kubelet_restart_unnoticed:
  assumes "plugin_reach S s r" and "\<not> ctxDone r" and "phase r \<noteq> Crashed"
  shows "phase r = Serving \<and> registered r = 1 \<and>
    (\<forall>r'. plugin_step S s r r' \<longrightarrow> phase r' = Serving \<and> registered r' = 1 \<and> length (inputs r) \<le> length (inputs r'))"
proof -
  have p: "phase r = Serving" "registered r = 1" using before_end_reach [OF assms(1)] assms(2,3) by (simp_all add: before_end_def)
  have "phase r' = Serving \<and> registered r' = 1 \<and> length (inputs r) \<le> length (inputs r')" if "plugin_step S s r r'" for r'
    using that p assms(2) by (elim plugin_stepE) simp_all
  then show ?thesis using p by blast
qed

text \<open>A kubelet that accepts everything, restarted after the plugin has registered.\<close>

definition open_sockets :: "nat sockets" where
  "open_sockets = \<lparr>do_unlink = (\<lambda>_ w. (Inr (), w)), do_listen = (\<lambda>_ w. (Inr (), w)), do_connect = (\<lambda>_ w. (Inr (), w)),
     do_register = (\<lambda>_ _ w. (Inr (), w + 1))\<rparr>"

definition a_server :: Server where
  "a_server = \<lparr>Devices = [0, 1], FuseSockPath = ''/plugins/fuse.sock'', KubeletSockPath = ''/plugins/kubelet.sock''\<rparr>"

definition restarted :: "nat plugin_run" where
  "restarted = (plugin_start open_sockets a_server 0)\<lparr>inputs := [Event \<lparr>evFile = ''/plugins/kubelet.sock'', evOp = 1\<rparr>]\<rparr>"

lemma start_serving: "plugin_start open_sockets a_server 0 = \<lparr>phase = Serving, inputs = [], ctxDone = False, registered = 1, world = 1\<rparr>"
  by (simp add: plugin_start_def enter_serve_def Serve_def plugin_Start_def Register_def Cleanup_def open_sockets_def sock_call_def
      tryE_def bindE_def)

lemma restarted_reach: "plugin_reach open_sockets a_server restarted"
proof -
  have "plugin_step open_sockets a_server (plugin_start open_sockets a_server 0) restarted"
    unfolding restarted_def start_serving
    using plugin_step.file_event [of open_sockets a_server "\<lparr>phase = Serving, inputs = [], ctxDone = False, registered = 1, world = 1\<rparr>"
        "Event \<lparr>evFile = ''/plugins/kubelet.sock'', evOp = 1\<rparr>"] by simp
  then show ?thesis by (rule plugin_reach.step [OF plugin_reach.start])
qed

theorem kubelet_restart_unnoticed_witness:
  "is_kubelet_created a_server \<lparr>evFile = ''/plugins/kubelet.sock'', evOp = 1\<rparr> \<and> phase restarted = Serving \<and> registered restarted = 1 \<and>
   (\<exists>r'. plugin_step open_sockets a_server restarted r' \<and> phase r' = Serving \<and> registered r' = 1)"
proof -
  have r: "\<not> ctxDone restarted" "phase restarted \<noteq> Crashed" by (simp_all add: restarted_def start_serving)
  have "is_kubelet_created a_server \<lparr>evFile = ''/plugins/kubelet.sock'', evOp = 1\<rparr>"
    by (simp add: is_kubelet_created_def a_server_def op_Create_def)
  then show ?thesis using kubelet_restart_unnoticed [OF restarted_reach r] plugin_step.outside [of open_sockets a_server restarted] by blast
qed

end
