(* ===== verification/CniEvents.thy ===== *)
theory CniEvents
  imports CniDaemon
begin

section \<open>simplecni: from the informer to the backend (kube.go, the loops of the backends)\<close>

text \<open>
  The events of nodes pass through three goroutines: the informer takes a change of a node from its queue and calls a
  handler, which sends an event into the channel \<open>events\<close> of the node manager; \<open>WatchLeases\<close> takes it from there and hands it over
  to the loop of the backend, which handles it. They are a step relation: \<open>pipe_work\<close> has the steps of the goroutines in any interleaving, \<open>pipe_env\<close>
  what happens outside. The informer is modelled from the vendored \<open>client-go\<close>: it calls the handlers one after the other,
  holding the lock that \<open>HasSynced\<close> needs.
\<close>

subsection \<open>What the handlers send\<close>

text \<open>\<open>DeleteFunc\<close> gets a node, the last known state of an object whose deletion was missed, or anything else. \<open>None\<close>: not a node.\<close>

datatype deleted_object = DeletedNode node | DeletedUnknown "node option" | DeletedOther

datatype informer_event = NodeAdded node | NodeUpdated node node | NodeDeleted deleted_object

definition DeleteFunc :: "string \<Rightarrow> deleted_object \<Rightarrow> event list \<Rightarrow> event list" where
  "DeleteFunc self obj events =
     (case obj of
        DeletedNode n \<Rightarrow> handleAddLeaseEvent self EventRemoved n events
      | DeletedUnknown (Some n) \<Rightarrow> handleAddLeaseEvent self EventRemoved n events
      | DeletedUnknown None \<Rightarrow> events
      | DeletedOther \<Rightarrow> events)"

definition informer_sends :: "string \<Rightarrow> informer_event \<Rightarrow> event list" where
  "informer_sends self ev =
     (case ev of
        NodeAdded n \<Rightarrow> handleAddLeaseEvent self EventAdded n []
      | NodeUpdated old n \<Rightarrow> handleUpdateLeaseEvent self old n []
      | NodeDeleted obj \<Rightarrow> DeleteFunc self obj [])"

definition sent_by :: "string \<Rightarrow> informer_event list \<Rightarrow> event list" where
  "sent_by self evs = concat (map (informer_sends self) evs)"

subsection \<open>The goroutines\<close>

text \<open>
  \<open>todo\<close>: the queue of the informer, for each object the changes that are not processed, of which \<open>initial\<close> entries are left of the
  first list; \<open>current\<close>: the rest of the entry that is processed; \<open>sending\<close>: the event of a handler that waits for room;
  \<open>buffered\<close>: the channel; \<open>relay\<close>: \<open>WatchLeases\<close> runs, \<open>holding\<close>: with an event it hands over. \<open>popped\<close> and \<open>handled\<close> are
  histories. The backend waits for the informer (\<open>Syncing\<close>; \<open>polling\<close>: it is inside the call of \<open>HasSynced\<close>), runs its loop (\<open>Watching\<close>), or has returned, having failed
  (\<open>GaveUp\<close>) or having closed the channel of the hand-over (\<open>Closed\<close>).
\<close>

datatype stage = Syncing | Watching | GaveUp | Closed | Panicked

record 'w pipeline =
  todo :: "informer_event list list"
  current :: "informer_event list"
  initial :: nat
  sending :: "event option"
  buffered :: "event list"
  relay :: bool
  holding :: "event option"
  stage :: stage
  polling :: bool
  cancelled :: bool
  popped :: "informer_event list"
  handled :: "event list"
  host_world :: 'w

definition first_sent :: "string \<Rightarrow> informer_event \<Rightarrow> event option" where
  "first_sent self ev = (case informer_sends self ev of [] \<Rightarrow> None | e # _ \<Rightarrow> Some e)"

text \<open>The informer holds its lock while an entry is processed; without the lock \<open>HasSynced\<close> does not return.\<close>

definition lock_free :: "'w pipeline \<Rightarrow> bool" where
  "lock_free s \<longleftrightarrow> sending s = None \<and> current s = []"

definition has_synced :: "'w pipeline \<Rightarrow> bool" where
  "has_synced s \<longleftrightarrow> lock_free s \<and> initial s = 0"

text \<open>The turn of the loop of the backend for one event.\<close>

definition handle_one :: "(event \<Rightarrow> ('w, unit) io) \<Rightarrow> event \<Rightarrow> 'w pipeline \<Rightarrow> 'w pipeline" where
  "handle_one h e s =
     (case h e (host_world s) of (r, w) \<Rightarrow>
        s\<lparr>holding := None, handled := handled s @ [e], host_world := w,
          stage := (case r of Inl _ \<Rightarrow> Panicked | Inr _ \<Rightarrow> stage s)\<rparr>)"

inductive pipe_work :: "string \<Rightarrow> nat \<Rightarrow> (event \<Rightarrow> ('w, unit) io) \<Rightarrow> 'w pipeline \<Rightarrow> 'w pipeline \<Rightarrow> bool" for self depth h where
  pop: "stage s \<noteq> Panicked \<Longrightarrow> lock_free s \<Longrightarrow> todo s = d # ds \<Longrightarrow>
    pipe_work self depth h s (s\<lparr>todo := ds, initial := initial s - 1, current := d\<rparr>)"
| process: "stage s \<noteq> Panicked \<Longrightarrow> sending s = None \<Longrightarrow> current s = ev # evs \<Longrightarrow>
    pipe_work self depth h s (s\<lparr>current := evs, popped := popped s @ [ev], sending := first_sent self ev\<rparr>)"
| send: "stage s \<noteq> Panicked \<Longrightarrow> sending s = Some e \<Longrightarrow> length (buffered s) < depth \<Longrightarrow>
    pipe_work self depth h s (s\<lparr>sending := None, buffered := buffered s @ [e]\<rparr>)"
| poll: "stage s = Syncing \<Longrightarrow> \<not> polling s \<Longrightarrow> \<not> cancelled s \<Longrightarrow> pipe_work self depth h s (s\<lparr>polling := True\<rparr>)"
| not_yet: "stage s = Syncing \<Longrightarrow> polling s \<Longrightarrow> lock_free s \<Longrightarrow> \<not> has_synced s \<Longrightarrow> pipe_work self depth h s (s\<lparr>polling := False\<rparr>)"
| synced: "stage s = Syncing \<Longrightarrow> polling s \<Longrightarrow> has_synced s \<Longrightarrow>
    pipe_work self depth h s (s\<lparr>stage := Watching, relay := True, polling := False\<rparr>)"
| give_up: "stage s = Syncing \<Longrightarrow> \<not> polling s \<Longrightarrow> pipe_work self depth h s (s\<lparr>stage := GaveUp\<rparr>)"
| relay_take: "stage s \<noteq> Panicked \<Longrightarrow> relay s \<Longrightarrow> holding s = None \<Longrightarrow> buffered s = e # es \<Longrightarrow>
    pipe_work self depth h s (s\<lparr>holding := Some e, buffered := es\<rparr>)"
| relay_stop: "stage s \<noteq> Panicked \<Longrightarrow> relay s \<Longrightarrow> holding s = None \<Longrightarrow> cancelled s \<Longrightarrow> pipe_work self depth h s (s\<lparr>relay := False\<rparr>)"
| hand_over: "stage s = Watching \<Longrightarrow> holding s = Some e \<Longrightarrow> pipe_work self depth h s (handle_one h e s)"
| loop_stop: "stage s = Watching \<Longrightarrow> cancelled s \<Longrightarrow> pipe_work self depth h s (s\<lparr>stage := Closed\<rparr>)"
| send_on_closed: "stage s = Closed \<Longrightarrow> holding s = Some e \<Longrightarrow> pipe_work self depth h s (s\<lparr>stage := Panicked\<rparr>)"

inductive pipe_env :: "'w pipeline \<Rightarrow> 'w pipeline \<Rightarrow> bool" where
  node_event: "pipe_env s (s\<lparr>todo := todo s @ [[ev]]\<rparr>)"
| queued_event: "i < length (todo s) \<Longrightarrow> pipe_env s (s\<lparr>todo := (todo s)[i := todo s ! i @ [ev]]\<rparr>)"
| cancel: "pipe_env s (s\<lparr>cancelled := True\<rparr>)"

text \<open>
  The nodes that the informer lists first. The wait (\<open>PollUntilContextTimeout\<close>, from the vendored source) looks at once
  whether the informer has synced, and again every second. A look that has begun needs the lock and cannot be
  interrupted; between two looks the time-out or the end of the context makes the backend give up, lock or not.
\<close>

definition pipe_start :: "node list \<Rightarrow> 'w \<Rightarrow> 'w pipeline" where
  "pipe_start nodes w = \<lparr>todo = map (\<lambda>n. [NodeAdded n]) nodes, current = [], initial = length nodes, sending = None, buffered = [], relay = False, holding = None,
     stage = Syncing, polling = True, cancelled = False, popped = [], handled = [], host_world = w\<rparr>"

inductive pipe_reach :: "string \<Rightarrow> nat \<Rightarrow> (event \<Rightarrow> ('w, unit) io) \<Rightarrow> node list \<Rightarrow> 'w \<Rightarrow> 'w pipeline \<Rightarrow> bool"
  for self depth h nodes w where
  start: "pipe_reach self depth h nodes w (pipe_start nodes w)"
| work: "pipe_reach self depth h nodes w s \<Longrightarrow> pipe_work self depth h s t \<Longrightarrow> pipe_reach self depth h nodes w t"
| env: "pipe_reach self depth h nodes w s \<Longrightarrow> pipe_env s t \<Longrightarrow> pipe_reach self depth h nodes w t"

inductive_cases pipe_workE: "pipe_work self depth h s t"
inductive_cases pipe_envE: "pipe_env s t"

end
