(* ===== verification/CniEventsProps.thy ===== *)
theory CniEventsProps
  imports CniEvents
begin

section \<open>simplecni: no event of a node is lost, doubled or overtaken\<close>

subsection \<open>The invariant of the pipeline\<close>

definition in_flight :: "'w pipeline \<Rightarrow> event list" where
  "in_flight s = (case holding s of None \<Rightarrow> [] | Some e \<Rightarrow> [e]) @ buffered s @ (case sending s of None \<Rightarrow> [] | Some e \<Rightarrow> [e])"

definition pipe_inv :: "string \<Rightarrow> nat \<Rightarrow> (event \<Rightarrow> ('w, unit) io) \<Rightarrow> 'w \<Rightarrow> 'w pipeline \<Rightarrow> bool" where
  "pipe_inv self depth h w s \<longleftrightarrow>
     sent_by self (popped s) = handled s @ in_flight s \<and> length (buffered s) \<le> depth \<and>
     (stage s \<noteq> Panicked \<longrightarrow> handle_events h (handled s) w = (Inr (), host_world s)) \<and>
     (stage s \<in> {Syncing, GaveUp} \<longrightarrow> handled s = [] \<and> holding s = None \<and> \<not> relay s)"

text \<open>How much the nodes of the first list have sent or will send.\<close>

definition initial_sends :: "string \<Rightarrow> 'w pipeline \<Rightarrow> nat" where
  "initial_sends self s = length (sent_by self (popped s)) + length (sent_by self (current s)) +
     length (sent_by self (concat (take (initial s) (todo s))))"

lemma sends_at_most_one: "length (informer_sends self ev) \<le> 1"
  by (auto simp: informer_sends_def handleAddLeaseEvent_def handleUpdateLeaseEvent_def DeleteFunc_def
      split: informer_event.split deleted_object.split option.split)

lemma first_sent: "informer_sends self ev = (case first_sent self ev of None \<Rightarrow> [] | Some e \<Rightarrow> [e])"
  using sends_at_most_one [of self ev] by (auto simp: first_sent_def split: list.split)

lemma sent_by_append: "sent_by self (xs @ ys) = sent_by self xs @ sent_by self ys"
  by (simp add: sent_by_def)

lemma sent_by_one: "sent_by self [ev] = (case first_sent self ev of None \<Rightarrow> [] | Some e \<Rightarrow> [e])"
  by (simp add: sent_by_def first_sent [symmetric])

lemma handle_events_append:
  "handle_events h (xs @ ys) w = (case handle_events h xs w of (Inl e, w') \<Rightarrow> (Inl e, w') | (Inr _, w') \<Rightarrow> handle_events h ys w')"
  by (induction xs arbitrary: w) (auto simp: io_simps split: prod.split sum.split)

lemma sent_by_Cons: "sent_by self (ev # evs) = (case first_sent self ev of None \<Rightarrow> [] | Some e \<Rightarrow> [e]) @ sent_by self evs"
  using sent_by_append [of self "[ev]" evs] by (simp add: sent_by_one)

lemma pipe_inv_work: "pipe_work self depth h s t \<Longrightarrow> pipe_inv self depth h w s \<Longrightarrow> pipe_inv self depth h w t"
proof (induction rule: pipe_work.induct)
  case (hand_over s e)
  then show ?case
    by (auto simp: pipe_inv_def in_flight_def handle_one_def handle_events_append io_simps split: prod.split sum.split)
qed (auto simp: pipe_inv_def in_flight_def has_synced_def lock_free_def sent_by_append sent_by_one split: option.splits)

lemma pipe_reach_inv: "pipe_reach self depth h nodes w s \<Longrightarrow> pipe_inv self depth h w s"
proof (induction rule: pipe_reach.induct)
  case start
  show ?case by (simp add: pipe_inv_def pipe_start_def in_flight_def sent_by_def)
next
  case (env s t)
  then show ?case by (auto simp: pipe_inv_def in_flight_def elim!: pipe_envE)
qed (auto intro: pipe_inv_work)

lemma initial_sends_work: "pipe_work self depth h s t \<Longrightarrow> initial_sends self s \<le> initial_sends self t"
proof (induction rule: pipe_work.induct)
  case (pop s d ds)
  then show ?case by (cases "initial s") (simp_all add: initial_sends_def lock_free_def sent_by_append sent_by_def)
next
  case (hand_over s e)
  then show ?case by (simp add: initial_sends_def handle_one_def split: prod.split)
qed (auto simp: initial_sends_def sent_by_append sent_by_one sent_by_Cons)

lemma sent_more: "i < length xs \<Longrightarrow>
    length (sent_by self (concat (take n xs))) \<le> length (sent_by self (concat (take n (xs[i := xs ! i @ [ev]]))))"
proof (induction xs arbitrary: i n)
  case (Cons x xs)
  then show ?case by (cases i; cases n) (auto simp: sent_by_append sent_by_Cons)
qed simp

lemma initial_sends_env: "pipe_env s t \<Longrightarrow> initial_sends self s \<le> initial_sends self t"
  by (erule pipe_envE) (auto simp: initial_sends_def sent_by_append sent_more)

lemma initial_sends_reach:
  "pipe_reach self depth h nodes w s \<Longrightarrow> length (sent_by self (map NodeAdded nodes)) \<le> initial_sends self s"
proof (induction rule: pipe_reach.induct)
  case start
  have "concat (map (\<lambda>n. [NodeAdded n]) nodes) = map NodeAdded nodes" by (induction nodes) simp_all
  then show ?case by (simp add: initial_sends_def pipe_start_def)
qed (auto dest: initial_sends_work initial_sends_env intro: order.trans)

subsection \<open>A run\<close>

text \<open>A node \<open>a\<close> that counts events, and another node \<open>b\<close>.\<close>

definition count_event :: "event \<Rightarrow> (nat, unit) io" where
  "count_event e = (\<lambda>w. (Inr (), w + 1))"

definition node_b :: node where
  "node_b = \<lparr>nName = ''b'', PodCIDR = [], PodCIDRs = [], Annotations = None\<rparr>"

definition event_b :: event where "event_b = (EventAdded, nodeToLease node_b)"

text \<open>The backend watches, and the event of the only other node is on the way.\<close>

definition watching_one :: "node \<Rightarrow> event \<Rightarrow> 'w \<Rightarrow> 'w pipeline" where
  "watching_one n e w = \<lparr>todo = [], current = [], initial = 0, sending = None, buffered = [e], relay = True, holding = None,
     stage = Watching, polling = False, cancelled = False, popped = [NodeAdded n], handled = [], host_world = w\<rparr>"

abbreviation watching_b :: "nat pipeline" where "watching_b \<equiv> watching_one node_b event_b 0"

lemma first_sent_b: "first_sent ''a'' (NodeAdded node_b) = Some event_b"
  by (simp add: first_sent_def informer_sends_def handleAddLeaseEvent_def event_b_def) (simp add: node_b_def)

lemma reach_watching_one:
  assumes "first_sent self (NodeAdded n) = Some e"
  shows "pipe_reach self (Suc d) h [n] w (watching_one n e w)"
proof -
  let ?R = "pipe_reach self (Suc d) h [n] w"
  note next_state = pipe_reach.work
  have "?R (pipe_start [n] w)" by (rule pipe_reach.start)
  from next_state [OF this pipe_work.pop] have "?R ((pipe_start [n] w)\<lparr>todo := [], current := [NodeAdded n], initial := 0\<rparr>)"
    by (simp add: pipe_start_def lock_free_def)
  from next_state [OF this pipe_work.process] have "?R ((pipe_start [n] w)\<lparr>todo := [], initial := 0, sending := Some e,
      popped := [NodeAdded n]\<rparr>)"
    by (simp add: pipe_start_def assms)
  from next_state [OF this pipe_work.send] have "?R ((pipe_start [n] w)\<lparr>todo := [], initial := 0, buffered := [e],
      popped := [NodeAdded n]\<rparr>)"
    by (simp add: pipe_start_def)
  from next_state [OF this pipe_work.synced] show ?thesis
    by (simp add: pipe_start_def has_synced_def lock_free_def watching_one_def)
qed

lemma reach_watching_b: "pipe_reach ''a'' (Suc d) count_event [node_b] 0 watching_b"
  by (rule reach_watching_one [OF first_sent_b])

subsection \<open>Order\<close>

text \<open>C35. Whatever the interleaving of the informer, \<open>WatchLeases\<close> and the loop of the backend, the events of nodes are
  handled in the order in which the informer reported them, each once: what was handled is a prefix of what was sent,
  the world of the host is what the handler makes of exactly this prefix, and at most the length of the queue and two more
  are on the way.\<close>

theorem events_in_order:
  assumes "pipe_reach self depth h nodes w s" and "stage s \<noteq> Panicked"
  shows "sent_by self (popped s) = handled s @ in_flight s \<and> length (in_flight s) \<le> depth + 2 \<and>
    handle_events h (handled s) w = (Inr (), host_world s)"
  using pipe_reach_inv [OF assms(1)] assms(2) by (auto simp: pipe_inv_def in_flight_def split: option.split)

theorem events_in_order_witness:
  "sent_by ''a'' [NodeAdded node_b] = [event_b] \<and> handle_events count_event [] 0 = (Inr (), 0)"
  using events_in_order [OF reach_watching_b [of 0]] by (simp add: watching_one_def in_flight_def)

subsection \<open>Delivery\<close>

text \<open>Without further events outside, and as long as the handler does not panic, everything that was reported gets
  handled, on every path.\<close>

definition delivered :: "'w pipeline \<Rightarrow> bool" where
  "delivered s \<longleftrightarrow> todo s = [] \<and> current s = [] \<and> sending s = None \<and> buffered s = [] \<and> holding s = None"

definition load :: "'w pipeline \<Rightarrow> nat" where
  "load s = 4 * (length (concat (todo s)) + length (current s)) + length (todo s) + (if sending s = None then 0 else 3) +
     2 * length (buffered s) + (if holding s = None then 0 else 1)"

definition watching :: "'w pipeline \<Rightarrow> bool" where
  "watching s \<longleftrightarrow> stage s = Watching \<and> relay s \<and> \<not> cancelled s"

lemma watching_progress:
  assumes "watching s" and "\<not> delivered s" and "0 < depth"
  shows "\<exists>t. pipe_work self depth h s t"
proof -
  consider (h) e where "holding s = Some e" | (b) e es where "holding s = None" "buffered s = e # es"
    | (s) e where "buffered s = []" "sending s = Some e" | (c) ev evs where "sending s = None" "current s = ev # evs"
    | (t) d ds where "lock_free s" "todo s = d # ds"
    using assms(2) unfolding delivered_def lock_free_def by (metis list.exhaust option.exhaust)
  moreover have w: "stage s \<noteq> Panicked" "stage s = Watching" "relay s" using assms(1) by (simp_all add: watching_def)
  ultimately show ?thesis
  proof cases
    case h then show ?thesis using w by (blast intro: pipe_work.hand_over)
  next
    case b then show ?thesis using w by (blast intro: pipe_work.relay_take)
  next
    case s
    then have "length (buffered s) < depth" using assms(3) by simp
    then show ?thesis using w s by (blast intro: pipe_work.send)
  next
    case c then show ?thesis using w by (blast intro: pipe_work.process)
  next
    case t then show ?thesis using w by (blast intro: pipe_work.pop)
  qed
qed

definition returns :: "(event \<Rightarrow> ('w, unit) io) \<Rightarrow> bool" where
  "returns h \<longleftrightarrow> (\<forall>e v. \<exists>v'. h e v = (Inr (), v'))"

lemma load_decreases:
  assumes "watching s" and "returns h" and "pipe_work self depth h s t"
  shows "watching t \<and> load t < load s"
  using assms(3) assms(1,2)
proof (induction rule: pipe_work.induct)
  case (hand_over s e)
  obtain v' where "h e (host_world s) = (Inr (), v')" using hand_over.prems(2) unfolding returns_def by blast
  then show ?case using hand_over by (simp add: watching_def load_def handle_one_def)
qed (auto simp: watching_def load_def lock_free_def)

text \<open>C36. Every change of a node that the informer has reaches the backend: once the loop watches, as long as the daemon is not
  stopped, and if the handler returns, every run of the goroutines comes to a state in which all events have been handled.\<close>

theorem events_are_delivered:
  assumes "pipe_reach self depth h nodes w s" and "watching s" and "0 < depth" and "returns h"
  shows "inevitably (pipe_work self depth h) (\<lambda>t. delivered t \<and> handled t = sent_by self (popped t) \<and> stage t = Watching) s"
proof (rule inevitably_measure [where f = load and J = "\<lambda>s. pipe_reach self depth h nodes w s \<and> watching s"])
  show "pipe_reach self depth h nodes w s \<and> watching s" using assms by simp
next
  fix s :: "'a pipeline"
  assume s: "pipe_reach self depth h nodes w s \<and> watching s"
  assume "\<not> (delivered s \<and> handled s = sent_by self (popped s) \<and> stage s = Watching)"
  moreover have "delivered s \<Longrightarrow> handled s = sent_by self (popped s)" "stage s = Watching"
    using pipe_reach_inv [of self depth h nodes w s] s by (auto simp: pipe_inv_def in_flight_def delivered_def watching_def)
  ultimately have "\<not> delivered s" by blast
  then show "\<exists>t. pipe_work self depth h s t" using watching_progress s assms(3) by blast
next
  fix s t :: "'a pipeline"
  assume "pipe_reach self depth h nodes w s \<and> watching s" and "pipe_work self depth h s t"
  then show "(pipe_reach self depth h nodes w t \<and> watching t) \<and> load t < load s"
    using load_decreases [OF _ assms(4)] pipe_reach.work by metis
qed

theorem events_are_delivered_witness:
  "inevitably (pipe_work ''a'' 1 count_event) (\<lambda>t. delivered t \<and> handled t = sent_by ''a'' (popped t) \<and> stage t = Watching) watching_b"
  using events_are_delivered [OF reach_watching_b [of 0]]
  by (simp add: watching_def returns_def count_event_def) (simp add: watching_one_def)

subsection \<open>Start on a large cluster\<close>

text \<open>The look into the informer that comes too early never finds it synced.\<close>

lemma many_not_synced:
  assumes "pipe_reach self depth h nodes w s" and "depth < length (filter (\<lambda>n. nName n \<noteq> self) nodes)"
    and "stage s \<in> {Syncing, GaveUp}"
  shows "\<not> has_synced s"
proof
  assume h: "has_synced s"
  have "length (sent_by self (map NodeAdded nodes)) = length (filter (\<lambda>n. nName n \<noteq> self) nodes)"
    by (induction nodes) (auto simp: sent_by_def informer_sends_def handleAddLeaseEvent_def)
  moreover have "initial_sends self s = length (sent_by self (popped s))"
    using h by (simp add: has_synced_def lock_free_def initial_sends_def sent_by_def)
  moreover have "sent_by self (popped s) = buffered s" "length (buffered s) \<le> depth"
    using pipe_reach_inv [OF assms(1)] assms(3) h by (auto simp: pipe_inv_def in_flight_def has_synced_def lock_free_def)
  ultimately show False using initial_sends_reach [OF assms(1)] assms(2) by simp
qed

lemma many_not_watched:
  assumes "pipe_reach self depth h nodes w s" and "depth < length (filter (\<lambda>n. nName n \<noteq> self) nodes)"
  shows "stage s \<in> {Syncing, GaveUp}"
  using assms(1)
proof (induction rule: pipe_reach.induct)
  case (work s t)
  then show ?case using many_not_synced [OF work.hyps(1) assms(2) work.IH] by (auto elim!: pipe_workE)
next
  case (env s t)
  then show ?case by (auto elim!: pipe_envE)
qed (simp add: pipe_start_def)

text \<open>A handler that waits for room in a full channel that nobody reads.\<close>

definition channel_full :: "nat \<Rightarrow> 'w pipeline \<Rightarrow> bool" where
  "channel_full depth s \<longleftrightarrow> stage s = Syncing \<and> \<not> relay s \<and> sending s \<noteq> None \<and> length (buffered s) = depth"

lemma channel_full_step:
  "channel_full depth s \<Longrightarrow> pipe_work self depth h s t \<Longrightarrow>
     \<not> polling s \<and> (t = s\<lparr>polling := True\<rparr> \<or> t = s\<lparr>stage := GaveUp\<rparr>)"
  by (auto elim!: pipe_workE simp: channel_full_def has_synced_def lock_free_def)

lemma channel_full_env:
  "pipe_env\<^sup>*\<^sup>* s t \<Longrightarrow> channel_full depth s \<and> polling s \<Longrightarrow> channel_full depth t \<and> polling t"
  by (induction rule: rtranclp_induct) (auto elim!: pipe_envE simp: channel_full_def)

text \<open>C37. Nothing reads the channel before the backend has started, and the backend starts after the informer has synced. So with more
  other nodes than the channel has room for (5000, or \<open>EVENT_QUEUE_DEPTH\<close>) the loop is never reached, in no interleaving, and no
  event is handled: no peer is ever configured. Once the channel is full and a handler waits for room, the goroutines can do nothing but
  look at the informer once more or give up; and the look, which needs the lock that the handler
  holds, never returns: from then on no goroutine can make a step, whatever happens outside, not even the stop of the
  daemon or the time-out.\<close>

theorem large_cluster_never_watched:
  assumes "pipe_reach self depth h nodes w s" and "depth < length (filter (\<lambda>n. nName n \<noteq> self) nodes)"
  shows "stage s \<in> {Syncing, GaveUp} \<and> handled s = [] \<and>
    (stage s = Syncing \<and> sending s \<noteq> None \<and> length (buffered s) = depth \<longrightarrow>
      (\<forall>t. pipe_work self depth h s t \<longrightarrow> \<not> polling s \<and> (t = s\<lparr>polling := True\<rparr> \<or> t = s\<lparr>stage := GaveUp\<rparr>)) \<and>
      (polling s \<longrightarrow> (\<forall>t. pipe_env\<^sup>*\<^sup>* s t \<longrightarrow> stage t = Syncing \<and> \<not> (\<exists>u. pipe_work self depth h t u))))"
proof -
  have st: "stage s \<in> {Syncing, GaveUp}" by (rule many_not_watched [OF assms])
  then have h: "handled s = []" and r: "\<not> relay s" using pipe_reach_inv [OF assms(1)] by (simp_all add: pipe_inv_def)
  have "(\<forall>t. pipe_work self depth h s t \<longrightarrow> \<not> polling s \<and> (t = s\<lparr>polling := True\<rparr> \<or> t = s\<lparr>stage := GaveUp\<rparr>)) \<and>
      (polling s \<longrightarrow> (\<forall>t. pipe_env\<^sup>*\<^sup>* s t \<longrightarrow> stage t = Syncing \<and> \<not> (\<exists>u. pipe_work self depth h t u)))"
    if "stage s = Syncing" "sending s \<noteq> None" "length (buffered s) = depth"
  proof -
    have full: "channel_full depth s" using that r by (simp add: channel_full_def)
    moreover have "stage t = Syncing \<and> \<not> (\<exists>u. pipe_work self depth h t u)" if "polling s" "pipe_env\<^sup>*\<^sup>* s t" for t
      using channel_full_env [OF that(2)] full that(1) channel_full_step [of depth t] by (auto simp: channel_full_def)
    ultimately show ?thesis using channel_full_step by blast
  qed
  with st h show ?thesis by blast
qed

text \<open>With room for one event and two other nodes: the first look finds the second handler waiting.\<close>

abbreviation nodes_bc :: "node list" where "nodes_bc \<equiv> [node_b, node_b\<lparr>nName := ''c''\<rparr>]"

definition hung_bc :: "nat pipeline" where
  "hung_bc = (pipe_start nodes_bc 0)\<lparr>todo := [], initial := 0, buffered := [event_b],
     sending := Some (EventAdded, nodeToLease (node_b\<lparr>nName := ''c''\<rparr>)), popped := map NodeAdded nodes_bc\<rparr>"

lemma reach_hung_bc: "pipe_reach ''a'' 1 h nodes_bc 0 hung_bc"
proof -
  let ?R = "pipe_reach ''a'' 1 h nodes_bc (0 :: nat)" and ?S = "pipe_start nodes_bc (0 :: nat)"
  let ?c = "NodeAdded (node_b\<lparr>nName := ''c''\<rparr>)"
  have c: "first_sent ''a'' ?c = Some (EventAdded, nodeToLease (node_b\<lparr>nName := ''c''\<rparr>))"
    by (simp add: first_sent_def informer_sends_def handleAddLeaseEvent_def)
  note next_state = pipe_reach.work
  have "?R ?S" by (rule pipe_reach.start)
  from next_state [OF this pipe_work.pop] have "?R (?S\<lparr>todo := [[?c]], current := [NodeAdded node_b], initial := 1\<rparr>)"
    by (simp add: pipe_start_def lock_free_def)
  from next_state [OF this pipe_work.process] have "?R (?S\<lparr>todo := [[?c]], initial := 1, sending := Some event_b,
      popped := [NodeAdded node_b]\<rparr>)"
    by (simp add: pipe_start_def first_sent_b)
  from next_state [OF this pipe_work.send] have "?R (?S\<lparr>todo := [[?c]], initial := 1, buffered := [event_b],
      popped := [NodeAdded node_b]\<rparr>)"
    by (simp add: pipe_start_def)
  from next_state [OF this pipe_work.pop] have "?R (?S\<lparr>todo := [], current := [?c], initial := 0, buffered := [event_b],
      popped := [NodeAdded node_b]\<rparr>)"
    by (simp add: pipe_start_def lock_free_def)
  from next_state [OF this pipe_work.process] show ?thesis by (simp add: pipe_start_def c hung_bc_def)
qed

theorem large_cluster_never_watched_witness:
  "stage hung_bc = Syncing \<and> \<not> (\<exists>u. pipe_work ''a'' 1 count_event (hung_bc\<lparr>cancelled := True\<rparr>) u)"
proof -
  have "pipe_env\<^sup>*\<^sup>* hung_bc (hung_bc\<lparr>cancelled := True\<rparr>)" using pipe_env.cancel [of hung_bc] by (rule r_into_rtranclp)
  then show ?thesis
    using large_cluster_never_watched [OF reach_hung_bc, of count_event] by (simp add: node_b_def) (simp add: hung_bc_def pipe_start_def)
qed

subsection \<open>Stop\<close>

text \<open>The loop closes the channel of the hand-over when the daemon is stopped, whoever sends into it: an event that \<open>WatchLeases\<close>
  holds then makes it panic, so that the daemon can end with a crash instead of its clean end.\<close>

theorem stop_can_panic: "\<exists>s. pipe_reach ''a'' (Suc d) count_event [node_b] 0 s \<and> stage s = Panicked"
proof -
  let ?R = "pipe_reach ''a'' (Suc d) count_event [node_b] 0"
  from pipe_reach.work [OF reach_watching_b pipe_work.relay_take] have "?R (watching_b\<lparr>holding := Some event_b, buffered := []\<rparr>)"
    by (simp add: watching_one_def)
  from pipe_reach.env [OF this pipe_env.cancel]
  have "?R (watching_b\<lparr>holding := Some event_b, buffered := [], cancelled := True\<rparr>)" by simp
  from pipe_reach.work [OF this pipe_work.loop_stop]
  have "?R (watching_b\<lparr>holding := Some event_b, buffered := [], cancelled := True, stage := Closed\<rparr>)" by (simp add: watching_one_def)
  from pipe_reach.work [OF this pipe_work.send_on_closed]
  have "?R (watching_b\<lparr>holding := Some event_b, buffered := [], cancelled := True, stage := Panicked\<rparr>)" by simp
  then show ?thesis by (rule exI [where P = "\<lambda>s. ?R s \<and> stage s = Panicked", OF conjI]) simp
qed

end
