(* ===== verification/CniCluster.thy ===== *)
theory CniCluster
  imports CniEventsProps CniNodesProps
begin

section \<open>simplecni: the peers of a host follow the cluster\<close>

text \<open>
  The goroutines, the handler and the device together: once the daemon watches, the tables of the kernel come to hold
  the entries of exactly the nodes that the informer knows, besides what was there before. The abstract state is
  the cluster, a map from names to nodes.
\<close>

subsection \<open>The peer that a node publishes\<close>

record peer =
  vtep_ip :: IP
  vtep_mac :: "byte list"
  host_ip :: IP
  pod_net :: "IPNet option"

definition lease_peer :: "Lease \<Rightarrow> peer option" where
  "lease_peer l =
     (case (CidrIPv4 l, attr l ''VxlanIP'', attr l ''VxlanMac'', attr l ''IPAddr'') of
        (n # _, Some vip, Some vmac, Some ipaddr) \<Rightarrow>
          Some \<lparr>vtep_ip = ip_or_nil vip, vtep_mac = mac_or_nil vmac, host_ip = ip_or_nil ipaddr, pod_net = n\<rparr>
      | _ \<Rightarrow> None)"

abbreviation node_peer :: "node \<Rightarrow> peer option" where
  "node_peer n \<equiv> lease_peer (nodeToLease n)"

definition plug :: "int \<Rightarrow> peer \<Rightarrow> netstate \<Rightarrow> netstate" where
  "plug i p = with_peer i (vtep_ip p) (vtep_mac p) (host_ip p) (pod_net p)"

definition unplug :: "int \<Rightarrow> peer \<Rightarrow> netstate \<Rightarrow> netstate" where
  "unplug i p = without_peer i (vtep_ip p) (vtep_mac p) (pod_net p)"

definition peer_change :: "int \<Rightarrow> event \<Rightarrow> netstate \<Rightarrow> netstate" where
  "peer_change i ev s =
     (case lease_peer (snd ev) of
        None \<Rightarrow> s
      | Some p \<Rightarrow> (case fst ev of EventAdded \<Rightarrow> plug i p s | EventRemoved \<Rightarrow> unplug i p s))"

lemma RemovePeer_caught:
  assumes "kernel_deletes L V"
  shows "\<exists>w'. tryE (RemovePeer L dev vip mac dip dst) (\<lambda>_. ret ()) ret w = (Inr (), w') \<and>
    V w' = without_peer (lIndex dev) vip mac dst (V w)"
proof -
  obtain r w' where r: "RemovePeer L dev vip mac dip dst w = (r, w')" "V w' = without_peer (lIndex dev) vip mac dst (V w)"
    using remove_peer_run [OF assms, of dev vip mac dip dst w] by blast
  have d: "deletes V (Retry (DelARP L dev vip mac)) (\<lambda>s. arps s (lIndex dev, vip) \<noteq> None) (set_arp (lIndex dev) vip None)"
    "deletes V (Retry (DelFDB L dev dip mac)) (\<lambda>s. fdbs s (lIndex dev, mac) \<noteq> None) (set_fdb (lIndex dev) mac None)"
    "deletes V (Retry (route_del L (lIndex dev) dst vip)) (\<lambda>s. routes s dst \<noteq> None) (set_route dst None)"
    using assms Retry_deletes unfolding kernel_deletes_def DelARP_def DelFDB_def by blast+
  obtain e1 w1 where w1: "collect (Retry (DelARP L dev vip mac)) [] w = (Inr e1, w1)" using collect_deletes [OF d(1)] by blast
  obtain e2 w2 where w2: "collect (Retry (DelFDB L dev dip mac)) e1 w1 = (Inr e2, w2)" using collect_deletes [OF d(2)] by blast
  obtain e3 w3 where w3: "collect (Retry (route_del L (lIndex dev) dst vip)) e2 w2 = (Inr e3, w3)" using collect_deletes [OF d(3)] by blast
  have "r = Inr () \<or> (\<exists>m. r = Inl (Plain m))" using r(1) w1 w2 w3 by (auto simp: RemovePeer_def io_simps split: if_splits)
  then show ?thesis using r by (auto simp: tryE_def ret_def)
qed

lemma HandleEvent_run:
  assumes "kernel_sets L V" and "kernel_deletes L V"
  shows "\<exists>w'. vxlan_HandleEvent L dev ev w = (Inr (), w') \<and> V w' = peer_change (lIndex dev) ev (V w)"
proof (cases "lease_peer (snd ev)")
  case None
  then have "vxlan_HandleEvent L dev ev w = (Inr (), w)"
    by (auto simp: lease_peer_def vxlan_HandleEvent_def Let_def ret_def split: list.splits option.splits)
  then show ?thesis using None by (simp add: peer_change_def)
next
  case (Some p)
  then obtain n ns vip vmac ipaddr where l: "CidrIPv4 (snd ev) = n # ns" "attr (snd ev) ''VxlanIP'' = Some vip"
      "attr (snd ev) ''VxlanMac'' = Some vmac" "attr (snd ev) ''IPAddr'' = Some ipaddr"
    and p: "p = \<lparr>vtep_ip = ip_or_nil vip, vtep_mac = mac_or_nil vmac, host_ip = ip_or_nil ipaddr, pod_net = n\<rparr>"
    by (auto simp: lease_peer_def split: list.splits option.splits)
  show ?thesis
  proof (cases "fst ev")
    case EventAdded
    with l have h: "vxlan_HandleEvent L dev ev = tryE (ConfigurePeer L dev (vtep_ip p) (vtep_mac p) (host_ip p) (pod_net p)) (\<lambda>_. ret ()) ret"
      by (simp add: vxlan_HandleEvent_def p)
    show ?thesis using configure_peer_run [OF assms(1), of dev "vtep_ip p" "vtep_mac p" "host_ip p" "pod_net p" w]
      unfolding h by (auto simp: tryE_def ret_def peer_change_def Some EventAdded plug_def)
  next
    case EventRemoved
    with l have h: "vxlan_HandleEvent L dev ev = tryE (RemovePeer L dev (vtep_ip p) (vtep_mac p) (host_ip p) (pod_net p)) (\<lambda>_. ret ()) ret"
      by (simp add: vxlan_HandleEvent_def p)
    show ?thesis using RemovePeer_caught [OF assms(2), of dev "vtep_ip p" "vtep_mac p" "host_ip p" "pod_net p" w]
      unfolding h by (simp add: peer_change_def Some EventRemoved unplug_def)
  qed
qed

lemma HandleEvent_returns:
  assumes "kernel_sets L V" and "kernel_deletes L V"
  shows "returns (vxlan_HandleEvent L dev)"
  using HandleEvent_run [OF assms] unfolding returns_def by blast

lemma handle_events_run:
  assumes "kernel_sets L V" and "kernel_deletes L V"
  shows "\<exists>w'. handle_events (vxlan_HandleEvent L dev) evs w = (Inr (), w') \<and> V w' = fold (peer_change (lIndex dev)) evs (V w)"
proof (induction evs arbitrary: w)
  case (Cons ev evs)
  obtain w1 where w1: "vxlan_HandleEvent L dev ev w = (Inr (), w1)" "V w1 = peer_change (lIndex dev) ev (V w)"
    using HandleEvent_run [OF assms] by blast
  show ?case using Cons [of w1] w1 by (simp add: io_simps)
qed (simp add: ret_def)

subsection \<open>Tables with the entries of a set of peers\<close>

text \<open>No two peers have an address, a hardware address or a range in common; the entries of a peer are not in use otherwise.\<close>

definition separate :: "peer \<Rightarrow> peer \<Rightarrow> bool" where
  "separate p q \<longleftrightarrow> vtep_ip p \<noteq> vtep_ip q \<and> vtep_mac p \<noteq> vtep_mac q \<and> pod_net p \<noteq> pod_net q"

definition unused :: "int \<Rightarrow> netstate \<Rightarrow> peer \<Rightarrow> bool" where
  "unused i base p \<longleftrightarrow> arps base (i, vtep_ip p) = None \<and> fdbs base (i, vtep_mac p) = None \<and> routes base (pod_net p) = None"

text \<open>A table that has the entry of each peer, and otherwise what \<open>base\<close> has.\<close>

definition table_match :: "('p \<Rightarrow> 'k) \<Rightarrow> ('p \<Rightarrow> 'v) \<Rightarrow> 'p set \<Rightarrow> ('k \<rightharpoonup> 'v) \<Rightarrow> ('k \<rightharpoonup> 'v) \<Rightarrow> bool" where
  "table_match key val P base t \<longleftrightarrow> (\<forall>p\<in>P. t (key p) = Some (val p)) \<and> (\<forall>x. x \<notin> key ` P \<longrightarrow> t x = base x)"

lemma table_match_put:
  assumes "table_match key val P base t" and "\<forall>q\<in>P. q = p \<or> key q \<noteq> key p"
  shows "table_match key val (insert p P) base (t(key p \<mapsto> val p))"
  using assms by (auto simp: table_match_def)

lemma table_match_remove:
  assumes m: "table_match key val P base t" and d: "\<forall>q\<in>P. q = p \<or> key q \<noteq> key p" and b: "base (key p) = None"
  shows "table_match key val (P - {p}) base (t(key p := None))"
  unfolding table_match_def
proof (intro conjI allI impI ballI)
  fix q assume "q \<in> P - {p}"
  then show "(t(key p := None)) (key q) = Some (val q)" using m d by (auto simp: table_match_def)
next
  fix x assume x: "x \<notin> key ` (P - {p})"
  show "(t(key p := None)) x = base x"
  proof (cases "x = key p")
    case False
    then have "x \<notin> key ` P" using x by blast
    then show ?thesis using m False by (simp add: table_match_def)
  qed (simp add: b)
qed

definition peers_match :: "int \<Rightarrow> peer set \<Rightarrow> netstate \<Rightarrow> netstate \<Rightarrow> bool" where
  "peers_match i P base t \<longleftrightarrow>
     table_match (\<lambda>p. (i, vtep_ip p)) vtep_mac P (arps base) (arps t) \<and>
     table_match (\<lambda>p. (i, vtep_mac p)) host_ip P (fdbs base) (fdbs t) \<and>
     table_match pod_net (\<lambda>p. (i, vtep_ip p)) P (routes base) (routes t) \<and> addrs t = addrs base"

lemma peers_match_none: "peers_match i {} base base"
  by (simp add: peers_match_def table_match_def)

lemma separate_keys:
  fixes i :: int
  assumes "\<forall>q\<in>P. q = p \<or> separate p q"
  shows "\<forall>q\<in>P. q = p \<or> (i, vtep_ip q) \<noteq> (i, vtep_ip p)" "\<forall>q\<in>P. q = p \<or> (i, vtep_mac q) \<noteq> (i, vtep_mac p)"
    "\<forall>q\<in>P. q = p \<or> pod_net q \<noteq> pod_net p"
  using assms by (auto simp: separate_def)

lemma peers_match_plug:
  assumes "peers_match i P base t" and "\<forall>q\<in>P. q = p \<or> separate p q"
  shows "peers_match i (insert p P) base (plug i p t)"
proof -
  note m = assms(1) [unfolded peers_match_def] and k = separate_keys [OF assms(2)]
  show ?thesis
    using table_match_put [OF conjunct1 [OF m] k(1)] table_match_put [OF conjunct1 [OF conjunct2 [OF m]] k(2)]
      table_match_put [OF conjunct1 [OF conjunct2 [OF conjunct2 [OF m]]] k(3)] m
    by (simp add: peers_match_def plug_def peer_defs)
qed

lemma peers_match_unplug:
  assumes "peers_match i P base t" and "\<forall>q\<in>P. q = p \<or> separate p q" and "unused i base p"
  shows "peers_match i (P - {p}) base (unplug i p t)"
proof -
  note m = assms(1) [unfolded peers_match_def] and k = separate_keys [OF assms(2)] and u = assms(3) [unfolded unused_def]
  show ?thesis
    using table_match_remove [OF conjunct1 [OF m] k(1)] table_match_remove [OF conjunct1 [OF conjunct2 [OF m]] k(2)]
      table_match_remove [OF conjunct1 [OF conjunct2 [OF conjunct2 [OF m]]] k(3)] m u
    by (simp add: peers_match_def unplug_def peer_defs)
qed

subsection \<open>The cluster that the informer has reported\<close>

definition deleted_node :: "deleted_object \<Rightarrow> node option" where
  "deleted_node obj = (case obj of DeletedNode n \<Rightarrow> Some n | DeletedUnknown n \<Rightarrow> n | DeletedOther \<Rightarrow> None)"

definition cluster_step :: "string \<Rightarrow> informer_event \<Rightarrow> (string \<rightharpoonup> node) \<Rightarrow> (string \<rightharpoonup> node)" where
  "cluster_step self ev m =
     (case ev of
        NodeAdded n \<Rightarrow> if nName n = self then m else m(nName n \<mapsto> n)
      | NodeUpdated old n \<Rightarrow> if nName n = self then m else m(nName n \<mapsto> n)
      | NodeDeleted obj \<Rightarrow> (case deleted_node obj of None \<Rightarrow> m | Some n \<Rightarrow> if nName n = self then m else m(nName n := None)))"

definition cluster :: "string \<Rightarrow> informer_event list \<Rightarrow> (string \<rightharpoonup> node)" where
  "cluster self evs = fold (cluster_step self) evs Map.empty"

definition peers_of :: "(string \<rightharpoonup> node) \<Rightarrow> peer set" where
  "peers_of m = {p. \<exists>k n. m k = Some n \<and> node_peer n = Some p}"

text \<open>
  What is relied on. The informer: an added node was not known, an update comes with the state known before, and a node
  that is deleted was known. The nodes: one that has published its addresses keeps them as long as it exists
  (otherwise its old entries stay, see \<open>changed_mac_leaves_entry\<close>), and nodes that exist at the same time have different
  addresses, which nothing else uses.
\<close>

definition fits_in :: "int \<Rightarrow> netstate \<Rightarrow> node \<Rightarrow> (string \<rightharpoonup> node) \<Rightarrow> bool" where
  "fits_in i base n m \<longleftrightarrow> (\<forall>p. node_peer n = Some p \<longrightarrow> unused i base p \<and>
     (\<forall>k n' q. m k = Some n' \<and> k \<noteq> nName n \<and> node_peer n' = Some q \<longrightarrow> separate p q))"

definition keeps_peer :: "node option \<Rightarrow> node \<Rightarrow> bool" where
  "keeps_peer known n \<longleftrightarrow> (\<exists>old. known = Some old \<and> (node_peer old = None \<or> node_peer n = node_peer old))"

definition reported_well :: "string \<Rightarrow> int \<Rightarrow> netstate \<Rightarrow> (string \<rightharpoonup> node) \<Rightarrow> informer_event \<Rightarrow> bool" where
  "reported_well self i base m ev =
     (case ev of
        NodeAdded n \<Rightarrow> nName n = self \<or> (m (nName n) = None \<and> fits_in i base n m)
      | NodeUpdated old n \<Rightarrow> nName n = self \<or> (m (nName n) = Some old \<and> keeps_peer (Some old) n \<and> fits_in i base n m)
      | NodeDeleted obj \<Rightarrow> (case deleted_node obj of None \<Rightarrow> True
          | Some n \<Rightarrow> nName n = self \<or> (keeps_peer (m (nName n)) n \<and> fits_in i base n m)))"

primrec all_well :: "string \<Rightarrow> int \<Rightarrow> netstate \<Rightarrow> (string \<rightharpoonup> node) \<Rightarrow> informer_event list \<Rightarrow> bool" where
  "all_well self i base m [] = True"
| "all_well self i base m (ev # evs) = (reported_well self i base m ev \<and> all_well self i base (cluster_step self ev m) evs)"

text \<open>The peers of the other nodes, and that of a node.\<close>

definition other_peers :: "string \<Rightarrow> (string \<rightharpoonup> node) \<Rightarrow> peer set" where
  "other_peers name m = {p. \<exists>k n. k \<noteq> name \<and> m k = Some n \<and> node_peer n = Some p}"

lemma other_peers_upd [simp]: "other_peers name (m(name := x)) = other_peers name m"
  by (auto simp: other_peers_def)

lemma peers_of_split: "peers_of m = set_option (Option.bind (m name) (\<lambda>n. node_peer n)) \<union> other_peers name m"
  by (auto simp: peers_of_def other_peers_def elem_set bind_eq_Some_conv)

lemma fits_in_others:
  assumes "fits_in i base n m" and "node_peer n = Some p"
  shows "unused i base p" "\<forall>q\<in>other_peers (nName n) m. separate p q"
  using assms by (auto simp: fits_in_def other_peers_def)

lemma not_separate_self [simp]: "\<not> separate p p"
  by (simp add: separate_def)

lemma step_put:
  assumes "peers_match i (peers_of m) base t" and "fits_in i base n m" and "m (nName n) = None \<or> keeps_peer (m (nName n)) n"
  shows "peers_match i (peers_of (m(nName n \<mapsto> n))) base (peer_change i (EventAdded, nodeToLease n) t)"
proof (cases "node_peer n")
  case None
  have "Option.bind (m (nName n)) (\<lambda>n. node_peer n) = None" using assms(3) None by (auto simp: keeps_peer_def)
  then have "peers_of (m(nName n \<mapsto> n)) = peers_of m" using None by (simp add: peers_of_split [where name = "nName n"])
  then show ?thesis using assms(1) None by (simp add: peer_change_def)
next
  case (Some p)
  have "set_option (Option.bind (m (nName n)) (\<lambda>n. node_peer n)) \<subseteq> {p}" using assms(3) Some by (auto simp: keeps_peer_def)
  moreover have "peers_of m = set_option (Option.bind (m (nName n)) (\<lambda>n. node_peer n)) \<union> other_peers (nName n) m"
    by (rule peers_of_split)
  ultimately have P: "\<forall>q\<in>peers_of m. q = p \<or> separate p q" "insert p (peers_of m) = insert p (other_peers (nName n) m)"
    using fits_in_others(2) [OF assms(2) Some] by blast+
  have "peers_of (m(nName n \<mapsto> n)) = insert p (other_peers (nName n) m)"
    using Some by (simp add: peers_of_split [where name = "nName n"])
  then show ?thesis using peers_match_plug [OF assms(1) P(1)] P(2) Some by (simp add: peer_change_def)
qed

lemma step_remove:
  assumes "peers_match i (peers_of m) base t" and "fits_in i base n m" and "keeps_peer (m (nName n)) n"
  shows "peers_match i (peers_of (m(nName n := None))) base (peer_change i (EventRemoved, nodeToLease n) t)"
proof (cases "node_peer n")
  case None
  have "Option.bind (m (nName n)) (\<lambda>n. node_peer n) = None" using assms(3) None by (auto simp: keeps_peer_def)
  then have "peers_of (m(nName n := None)) = peers_of m" by (simp add: peers_of_split [where name = "nName n"])
  then show ?thesis using assms(1) None by (simp add: peer_change_def)
next
  case (Some p)
  note f = fits_in_others [OF assms(2) Some]
  have "set_option (Option.bind (m (nName n)) (\<lambda>n. node_peer n)) \<subseteq> {p}" using assms(3) Some by (auto simp: keeps_peer_def)
  moreover have "peers_of m = set_option (Option.bind (m (nName n)) (\<lambda>n. node_peer n)) \<union> other_peers (nName n) m"
    by (rule peers_of_split)
  moreover have "p \<notin> other_peers (nName n) m" using f(2) by auto
  ultimately have P: "\<forall>q\<in>peers_of m. q = p \<or> separate p q" "peers_of m - {p} = other_peers (nName n) m"
    using f(2) by blast+
  have "peers_of (m(nName n := None)) = other_peers (nName n) m" by (simp add: peers_of_split [where name = "nName n"])
  then show ?thesis using peers_match_unplug [OF assms(1) P(1) f(1)] P(2) Some by (simp add: peer_change_def)
qed

text \<open>An update that is not sent changes nothing of the peer.\<close>

lemma same_publication:
  assumes "PodCIDRs old = PodCIDRs n" and "map_of (annotations old) = map_of (annotations n)"
  shows "nodeToLease old = nodeToLease n"
proof -
  have "map_of (filter (\<lambda>(k, v). HasPrefix k Prefix) (annotations old)) = map_of (filter (\<lambda>(k, v). HasPrefix k Prefix) (annotations n))"
    using assms(2) by (intro ext) (simp add: map_of_published)
  then show ?thesis using assms(1) by (simp add: nodeToLease_def)
qed

lemma step_match:
  assumes "peers_match i (peers_of m) base t" and "reported_well self i base m ev"
  shows "peers_match i (peers_of (cluster_step self ev m)) base (fold (peer_change i) (informer_sends self ev) t)"
proof (cases ev)
  case (NodeAdded n)
  show ?thesis
  proof (cases "nName n = self")
    case True
    then show ?thesis using assms(1) by (simp add: NodeAdded cluster_step_def informer_sends_def handleAddLeaseEvent_def)
  next
    case False
    then have "m (nName n) = None" "fits_in i base n m" using assms(2) by (simp_all add: NodeAdded reported_well_def)
    then show ?thesis using step_put [OF assms(1), of n] False
      by (simp add: NodeAdded cluster_step_def informer_sends_def handleAddLeaseEvent_def)
  qed
next
  case (NodeUpdated old n)
  show ?thesis
  proof (cases "nName n = self")
    case True
    then show ?thesis using assms(1) by (simp add: NodeUpdated cluster_step_def informer_sends_def handleUpdateLeaseEvent_def)
  next
    case other: False
    then have ok: "m (nName n) = Some old" "keeps_peer (Some old) n" "fits_in i base n m"
      using assms(2) by (simp_all add: NodeUpdated reported_well_def)
    have c: "cluster_step self ev m = m(nName n \<mapsto> n)" using other by (simp add: NodeUpdated cluster_step_def)
    show ?thesis
    proof (cases "PodCIDRs old = PodCIDRs n \<and> map_of (annotations old) = map_of (annotations n)")
      case True
      then have "informer_sends self ev = []" by (simp add: NodeUpdated informer_sends_def handleUpdateLeaseEvent_def)
      moreover have "node_peer old = node_peer n" using same_publication [OF conjunct1 [OF True] conjunct2 [OF True]] by simp
      then have "peers_of (m(nName n \<mapsto> n)) = peers_of m" using ok(1) by (simp add: peers_of_split [where name = "nName n"])
      ultimately show ?thesis using assms(1) c by simp
    next
      case False
      then have "informer_sends self ev = [(EventAdded, nodeToLease n)]"
        using other by (simp add: NodeUpdated informer_sends_def handleUpdateLeaseEvent_def)
      then show ?thesis using step_put [OF assms(1) ok(3)] ok(1,2) c by simp
    qed
  qed
next
  case (NodeDeleted obj)
  have s: "informer_sends self ev = (case deleted_node obj of None \<Rightarrow> [] | Some n \<Rightarrow> handleAddLeaseEvent self EventRemoved n [])"
    by (simp add: NodeDeleted informer_sends_def DeleteFunc_def deleted_node_def split: deleted_object.split option.split)
  show ?thesis
  proof (cases "deleted_node obj")
    case None
    then show ?thesis using assms(1) s by (simp add: NodeDeleted cluster_step_def)
  next
    case (Some n)
    show ?thesis
    proof (cases "nName n = self")
      case True
      then show ?thesis using assms(1) s Some by (simp add: NodeDeleted cluster_step_def handleAddLeaseEvent_def)
    next
      case False
      then have "keeps_peer (m (nName n)) n" "fits_in i base n m" using assms(2) Some by (simp_all add: NodeDeleted reported_well_def)
      then show ?thesis using step_remove [OF assms(1), of n] False s Some
        by (simp add: NodeDeleted cluster_step_def handleAddLeaseEvent_def)
    qed
  qed
qed

lemma all_match:
  "all_well self i base m evs \<Longrightarrow> peers_match i (peers_of m) base t \<Longrightarrow>
    peers_match i (peers_of (fold (cluster_step self) evs m)) base (fold (peer_change i) (sent_by self evs) t)"
proof (induction evs arbitrary: m t)
  case (Cons ev evs)
  then show ?case using step_match [of i m base t self ev] by (simp add: sent_by_def)
qed (simp add: sent_by_def)

lemma peers_of_empty [simp]: "peers_of Map.empty = {}"
  by (simp add: peers_of_def)

subsection \<open>From the informer to the kernel\<close>

text \<open>All that the informer has or had.\<close>

definition reported :: "'w pipeline \<Rightarrow> informer_event list" where
  "reported s = popped s @ current s @ concat (todo s)"

lemma reported_work: "pipe_work self depth h s t \<Longrightarrow> reported t = reported s"
proof (induction rule: pipe_work.induct)
  case (hand_over s e)
  then show ?case by (simp add: reported_def handle_one_def split: prod.split)
qed (auto simp: reported_def lock_free_def)

lemma delivered_match:
  assumes "pipe_reach self depth (vxlan_HandleEvent L dev) nodes w s" and "kernel_sets L V" and "kernel_deletes L V"
    and "all_well self (lIndex dev) (V w) Map.empty (reported s)" and "delivered s" and "stage s = Watching"
  shows "peers_match (lIndex dev) (peers_of (cluster self (reported s))) (V w) (V (host_world s))"
proof -
  have r: "reported s = popped s" using assms(5) by (simp add: reported_def delivered_def)
  have h: "sent_by self (popped s) = handled s" "handle_events (vxlan_HandleEvent L dev) (handled s) w = (Inr (), host_world s)"
    using pipe_reach_inv [OF assms(1)] assms(5,6) by (simp_all add: pipe_inv_def in_flight_def delivered_def)
  obtain w' where w': "handle_events (vxlan_HandleEvent L dev) (handled s) w = (Inr (), w')"
      "V w' = fold (peer_change (lIndex dev)) (handled s) (V w)" using handle_events_run [OF assms(2,3)] by blast
  have "V (host_world s) = fold (peer_change (lIndex dev)) (sent_by self (reported s)) (V w)" using h w' r by simp
  then show ?thesis using all_match [OF assms(4), of "V w"] peers_match_none by (simp add: cluster_def)
qed

text \<open>C16. The host follows the cluster, as long as nodes keep the addresses they publish and share none (\<open>all_well\<close>: the informer
  tells of nodes in order; a node that has published its addresses and range publishes the same until it is deleted; nodes that exist at the
  same time have different ones, which nothing else on the host uses). Then, from every state in which the loop of the vxlan backend watches, every run of
  the goroutines comes, without further events, to one in which the neighbour and forwarding entries and the routes of the kernel are those of
  exactly the nodes that exist by what the informer has reported, with the addresses they have published, and everything else is as it was
  when the daemon started.\<close>

theorem host_follows_cluster:
  assumes "pipe_reach self depth (vxlan_HandleEvent L dev) nodes w s" and "watching s" and "0 < depth"
    and "kernel_sets L V" and "kernel_deletes L V" and "all_well self (lIndex dev) (V w) Map.empty (reported s)"
  shows "inevitably (pipe_work self depth (vxlan_HandleEvent L dev))
    (\<lambda>t. peers_match (lIndex dev) (peers_of (cluster self (reported s))) (V w) (V (host_world t))) s"
proof (rule inevitably_measure [where f = load and J = "\<lambda>t. pipe_reach self depth (vxlan_HandleEvent L dev) nodes w t \<and> watching t \<and> reported t = reported s"])
  show "pipe_reach self depth (vxlan_HandleEvent L dev) nodes w s \<and> watching s \<and> reported s = reported s" using assms by simp
next
  fix t
  assume t: "pipe_reach self depth (vxlan_HandleEvent L dev) nodes w t \<and> watching t \<and> reported t = reported s"
    and n: "\<not> peers_match (lIndex dev) (peers_of (cluster self (reported s))) (V w) (V (host_world t))"
  have "\<not> delivered t" using delivered_match [OF _ assms(4,5), where s = t] t n assms(6) by (auto simp: watching_def)
  then show "\<exists>u. pipe_work self depth (vxlan_HandleEvent L dev) t u" using watching_progress t assms(3) by blast
next
  fix t u
  assume t: "pipe_reach self depth (vxlan_HandleEvent L dev) nodes w t \<and> watching t \<and> reported t = reported s"
    and st: "pipe_work self depth (vxlan_HandleEvent L dev) t u"
  show "(pipe_reach self depth (vxlan_HandleEvent L dev) nodes w u \<and> watching u \<and> reported u = reported s) \<and> load u < load t"
    using load_decreases [OF _ HandleEvent_returns [OF assms(4,5)] st] pipe_reach.work [OF _ st] reported_work [OF st] t by simp
qed

subsection \<open>A cluster of two nodes\<close>

definition node_c :: node where
  "node_c = \<lparr>nName = ''c'', PodCIDR = ''10.244.1.0/24'', PodCIDRs = [IPNet_String (Some (net4 [10, 244, 1, 0] 24))],
     Annotations = Some [(''simple.io/simplecni-ipaddr'', ipv4_text dip0), (''simple.io/simplecni-vxlanip'', ipv4_text vip0),
       (''simple.io/simplecni-vxlanmac'', mac_String mac0)]\<rparr>"

definition peer_c :: peer where
  "peer_c = \<lparr>vtep_ip = v4_prefix @ vip0, vtep_mac = mac0, host_ip = v4_prefix @ dip0, pod_net = Some (net4 [10, 244, 1, 0] 24)\<rparr>"

lemma node_peer_c: "node_peer node_c = Some peer_c"
proof -
  have p: "HasPrefix ''simple.io/simplecni-vxlanip'' Prefix" "HasPrefix ''simple.io/simplecni-vxlanmac'' Prefix"
    "HasPrefix ''simple.io/simplecni-ipaddr'' Prefix" by code_simp+
  have a: "attr (nodeToLease node_c) ''VxlanIP'' = Some (ipv4_text vip0)" "attr (nodeToLease node_c) ''VxlanMac'' = Some (mac_String mac0)"
    "attr (nodeToLease node_c) ''IPAddr'' = Some (ipv4_text dip0)"
    by (simp_all add: attr_def ex_keys nodeToLease_def annotations_def map_of_published p) (simp_all add: node_c_def)
  have c: "CidrIPv4 (nodeToLease node_c) = [Some (net4 [10, 244, 1, 0] 24)]"
    by (simp add: nodeToLease_def) (simp add: node_c_def ParseCIDR_String is_v4_def)
  show ?thesis by (simp add: lease_peer_def a c peer_c_def ip_or_nil_def mac_or_nil_def ParseIP_ipv4 ParseMAC_String)
qed

definition event_c :: event where "event_c = (EventAdded, nodeToLease node_c)"

lemma first_sent_c: "first_sent ''a'' (NodeAdded node_c) = Some event_c"
  by (simp add: first_sent_def informer_sends_def handleAddLeaseEvent_def event_c_def) (simp add: node_c_def)

theorem host_follows_cluster_witness:
  "inevitably (pipe_work ''a'' 1 (vxlan_HandleEvent kernel dev0))
    (\<lambda>t. arps (host_world t) (7, v4_prefix @ vip0) = Some mac0) (watching_one node_c event_c idle)"
proof -
  have n: "nName node_c = ''c''" "lIndex dev0 = 7" by (simp_all add: node_c_def dev0_def)
  have r: "reported (watching_one node_c event_c idle) = [NodeAdded node_c]" by (simp add: reported_def watching_one_def)
  have w: "all_well ''a'' 7 idle Map.empty [NodeAdded node_c]"
    by (simp add: reported_well_def fits_in_def unused_def idle_def n)
  have c: "peers_of (cluster ''a'' [NodeAdded node_c]) = {peer_c}"
    by (auto simp: cluster_def cluster_step_def n peers_of_def node_peer_c)
  have "inevitably (pipe_work ''a'' 1 (vxlan_HandleEvent kernel dev0)) (\<lambda>t. peers_match 7 {peer_c} idle (host_world t))
      (watching_one node_c event_c idle)"
    using host_follows_cluster [OF reach_watching_one [OF first_sent_c, of 0] _ _ kernel_laws(1,2), where dev = dev0 and w = idle] w
    by (simp add: r c n watching_def) (simp add: watching_one_def)
  then show ?thesis by (rule inevitably_mono) (simp add: peers_match_def table_match_def peer_c_def)
qed

end
