(* ===== verification/CniCommand.thy ===== *)
theory CniCommand
  imports CniDaemon
begin

section \<open>simplecni: the process of the daemon (cmd/root.go, backgroudRun of wireguard.go)\<close>

text \<open>
  The main goroutine starts the one that waits for a signal and the one that runs the backend, and waits for both. The wireguard
  backend has a third one, which serves the control socket and gets the signals as well. \<open>daemon_step\<close> has their steps,
  \<open>daemon_env\<close> what comes from outside. Go delivers a signal to every channel that is registered for it, and does what the
  system does by default only when none is.
\<close>

subsection \<open>State and steps\<close>

datatype control_socket = NotServing | Serving | ClosedDown

datatype daemon_end = Exited int | KilledBySignal

record daemon =
  isWireguard :: bool
  ctxDone :: bool
  sigs :: bool
  sigsRegistered :: bool
  termSig :: bool
  handlerDone :: bool
  backendDone :: bool
  controlSocket :: control_socket
  ended :: "daemon_end option"

text \<open>\<open>sigs\<close>, \<open>termSig\<close>: a signal is in the channel, which has room for one. A backend that cannot be made ends the process with 1.\<close>

definition process_run :: "bool option \<Rightarrow> daemon_end + daemon" where
  "process_run made =
     (case made of
        None \<Rightarrow> Inl (Exited 1)
      | Some wg \<Rightarrow> Inr \<lparr>isWireguard = wg, ctxDone = False, sigs = False, sigsRegistered = True, termSig = False, handlerDone = False,
          backendDone = False, controlSocket = NotServing, ended = None\<rparr>)"

definition shutdownHandler :: "daemon \<Rightarrow> daemon" where
  "shutdownHandler d = (if ctxDone d then d else d\<lparr>ctxDone := True, sigs := False\<rparr>)\<lparr>sigsRegistered := False, handlerDone := True\<rparr>"

definition backgroudRun_end :: "daemon \<Rightarrow> daemon" where
  "backgroudRun_end d = d\<lparr>controlSocket := ClosedDown, ctxDone := True\<rparr>"

text \<open>A backend whose context is done returns.\<close>

inductive daemon_step :: "daemon \<Rightarrow> daemon \<Rightarrow> bool" where
  handler: "ended d = None \<Longrightarrow> \<not> handlerDone d \<Longrightarrow> ctxDone d \<or> sigs d \<Longrightarrow> daemon_step d (shutdownHandler d)"
| backend_stops: "ended d = None \<Longrightarrow> \<not> backendDone d \<Longrightarrow> ctxDone d \<Longrightarrow> daemon_step d (d\<lparr>backendDone := True\<rparr>)"
| control_stops: "ended d = None \<Longrightarrow> controlSocket d = Serving \<Longrightarrow> termSig d \<Longrightarrow> daemon_step d (backgroudRun_end d)"
| exit: "ended d = None \<Longrightarrow> handlerDone d \<Longrightarrow> backendDone d \<Longrightarrow> daemon_step d (d\<lparr>ended := Some (Exited 0)\<rparr>)"

definition signal_arrives :: "daemon \<Rightarrow> daemon" where
  "signal_arrives d =
     (if \<not> sigsRegistered d \<and> controlSocket d = NotServing then d\<lparr>ended := Some KilledBySignal\<rparr>
      else (if controlSocket d \<noteq> NotServing then \<lambda>d. d\<lparr>termSig := True\<rparr> else id)
             (if sigsRegistered d then d\<lparr>sigs := True\<rparr> else d))"

text \<open>The backend may fail, which cancels the context; the wireguard backend makes its device; the device or the socket of it may fail.\<close>

inductive daemon_env :: "daemon \<Rightarrow> daemon \<Rightarrow> bool" where
  signal: "ended d = None \<Longrightarrow> daemon_env d (signal_arrives d)"
| backend_fails: "ended d = None \<Longrightarrow> \<not> backendDone d \<Longrightarrow> daemon_env d (d\<lparr>backendDone := True, ctxDone := True\<rparr>)"
| device_made: "ended d = None \<Longrightarrow> isWireguard d \<Longrightarrow> \<not> backendDone d \<Longrightarrow> controlSocket d = NotServing \<Longrightarrow> daemon_env d (d\<lparr>controlSocket := Serving\<rparr>)"
| device_fails: "ended d = None \<Longrightarrow> controlSocket d = Serving \<Longrightarrow> daemon_env d (backgroudRun_end d)"

inductive daemon_reach :: "bool \<Rightarrow> daemon \<Rightarrow> bool" for wg where
  start: "process_run (Some wg) = Inr d \<Longrightarrow> daemon_reach wg d"
| work: "daemon_reach wg d \<Longrightarrow> daemon_step d d' \<Longrightarrow> daemon_reach wg d'"
| env: "daemon_reach wg d \<Longrightarrow> daemon_env d d' \<Longrightarrow> daemon_reach wg d'"

inductive_cases daemon_stepE: "daemon_step d d'"
inductive_cases daemon_envE: "daemon_env d d'"

subsection \<open>How the daemon ends\<close>

definition daemon_inv :: "bool \<Rightarrow> daemon \<Rightarrow> bool" where
  "daemon_inv wg d \<longleftrightarrow> isWireguard d = wg \<and> (sigsRegistered d \<longleftrightarrow> \<not> handlerDone d) \<and> (handlerDone d \<longrightarrow> ctxDone d) \<and>
     (controlSocket d \<noteq> NotServing \<longrightarrow> wg) \<and> (backendDone d \<longrightarrow> ctxDone d) \<and>
     (case ended d of None \<Rightarrow> True | Some (Exited st) \<Rightarrow> st = 0 \<and> handlerDone d \<and> backendDone d | Some KilledBySignal \<Rightarrow> handlerDone d \<and> controlSocket d = NotServing)"

lemma daemon_inv_reach: "daemon_reach wg d \<Longrightarrow> daemon_inv wg d"
proof (induction rule: daemon_reach.induct)
  case (start d)
  then show ?case by (auto simp: process_run_def daemon_inv_def)
next
  case (work d d')
  from work.hyps(2) work.IH show ?case
    by (induction rule: daemon_step.induct) (auto simp: daemon_inv_def shutdownHandler_def backgroudRun_end_def)
next
  case (env d d')
  from env.hyps(2) env.IH show ?case
    by (induction rule: daemon_env.induct) (auto simp: daemon_inv_def signal_arrives_def backgroudRun_end_def)
qed

text \<open>Once the backend is made the status does not tell whether it failed: the process ends with 0, after both goroutines
  have returned, or is killed by a signal. It is killed only after a first signal (or the end of the backend) was handled, and never
  once the wireguard device was made, whose goroutine keeps its registration.\<close>

theorem daemon_ends:
  assumes "daemon_reach wg d" and "ended d = Some x"
  shows "(x = Exited 0 \<and> backendDone d \<and> handlerDone d) \<or> (x = KilledBySignal \<and> handlerDone d \<and> controlSocket d = NotServing)"
  using daemon_inv_reach [OF assms(1)] assms(2) by (cases x) (auto simp: daemon_inv_def)

text \<open>After a signal, or when the backend failed, the process ends on every path of its goroutines.\<close>

definition daemon_rest :: "daemon \<Rightarrow> nat" where
  "daemon_rest d = (if ended d = None then 1 else 0) + (if handlerDone d then 0 else 1) + (if backendDone d then 0 else 1) +
     (if controlSocket d = Serving then 1 else 0)"

lemma daemon_step_rest: "daemon_step d d' \<Longrightarrow> daemon_rest d' < daemon_rest d"
  by (induction rule: daemon_step.induct) (simp_all add: daemon_rest_def shutdownHandler_def backgroudRun_end_def)

definition stopping :: "daemon \<Rightarrow> bool" where
  "stopping d \<longleftrightarrow> ctxDone d \<or> (sigs d \<and> \<not> handlerDone d)"

lemma stopping_step: "daemon_step d d' \<Longrightarrow> stopping d \<Longrightarrow> stopping d'"
  by (induction rule: daemon_step.induct) (auto simp: stopping_def shutdownHandler_def backgroudRun_end_def)

lemma stopping_progress:
  assumes "stopping d" and "ended d = None" and "handlerDone d \<longrightarrow> ctxDone d"
  shows "\<exists>d'. daemon_step d d'"
proof (cases "handlerDone d")
  case False
  moreover have "ctxDone d \<or> sigs d" using assms(1) by (auto simp: stopping_def)
  ultimately show ?thesis using daemon_step.handler [OF assms(2)] by blast
next
  case True
  then show ?thesis using assms by (cases "backendDone d") (blast intro: daemon_step.exit daemon_step.backend_stops)+
qed

theorem stop_ends_daemon:
  assumes "daemon_reach wg d" and "stopping d"
  shows "inevitably daemon_step (\<lambda>d. ended d \<noteq> None) d"
proof (rule inevitably_measure [where f = daemon_rest and J = "\<lambda>d. daemon_reach wg d \<and> stopping d"])
  show "daemon_reach wg d \<and> stopping d" using assms by simp
next
  fix d assume d: "daemon_reach wg d \<and> stopping d" and "\<not> ended d \<noteq> None"
  then show "\<exists>d'. daemon_step d d'" using daemon_inv_reach [of wg d] stopping_progress [of d] by (auto simp: daemon_inv_def)
next
  fix d d' assume d: "daemon_reach wg d \<and> stopping d" and s: "daemon_step d d'"
  show "(daemon_reach wg d' \<and> stopping d') \<and> daemon_rest d' < daemon_rest d"
    using d daemon_reach.work [OF _ s] stopping_step [OF s] daemon_step_rest [OF s] by simp
qed

text \<open>A second signal: the comment promises the default behaviour of the system. With vxlan the process is killed; with
  wireguard it goes on.\<close>

theorem second_signal:
  assumes "daemon_reach wg d" and "handlerDone d" and "ended d = None"
  shows "ended (signal_arrives d) = (if controlSocket d = NotServing then Some KilledBySignal else None)"
  using daemon_inv_reach [OF assms(1)] assms(2,3) by (auto simp: signal_arrives_def daemon_inv_def)

theorem second_signal_witness: "ended (signal_arrives (shutdownHandler (signal_arrives \<lparr>isWireguard = False, ctxDone = False, sigs = False,
    sigsRegistered = True, termSig = False, handlerDone = False, backendDone = False, controlSocket = NotServing, ended = None\<rparr>))) = Some KilledBySignal"
  (is "ended (signal_arrives (shutdownHandler (signal_arrives ?d))) = _")
proof -
  have "daemon_reach False ?d" by (rule daemon_reach.start) (simp add: process_run_def)
  then have "daemon_reach False (signal_arrives ?d)" by (rule daemon_reach.env) (rule daemon_env.signal, simp)
  then have "daemon_reach False (shutdownHandler (signal_arrives ?d))"
    by (rule daemon_reach.work) (rule daemon_step.handler, simp_all add: signal_arrives_def)
  from second_signal [OF this] show ?thesis by (simp add: shutdownHandler_def signal_arrives_def)
qed

end
