(* ===== verification/FooServer.thy ===== *)
theory FooServer
  imports FooRest
begin

section \<open>simpleapiserver: the start of the server (pkg/cmd/cmd.go, pkg/apiserver/apiserver.go)\<close>

text \<open>
  The command completes and validates its options, makes the configuration of the generic server of the library from them,
  creates the server with the storage of Foo and runs it. The calls of the library are the record \<open>apilib\<close>; its own options (the servers of etcd, the
  kubeconfigs, the certificates) are an argument \<open>'o\<close>, which they get. Of its configuration the parts are kept that the start depends on: the parts that may be nil, and the port.
  Where the library dereferences one of them is taken from its vendored source.
\<close>

subsection \<open>Options\<close>

record 'o Options =
  EnableEtcdStorage :: bool
  EnableAuth :: bool
  EnableAdmission :: bool
  BindPort :: int
  AdmissionPlugins :: "string list"
  RecommendedPluginOrder :: "string list"
  LibraryOptions :: 'o






subsection \<open>The configuration\<close>

record api_config =
  HasClientConfig :: bool
  HasInformers :: bool
  HasEffectiveVersion :: bool
  HasRESTOptions :: bool

definition nil_deref :: "('w, 'a) io" where
  "nil_deref = fail (Panic ''invalid memory address or nil pointer dereference'')"




subsection \<open>The server\<close>








subsection \<open>When the server runs\<close>



definition ends :: "(goerr + 'a \<Rightarrow> bool) \<Rightarrow> ('w, 'a) io \<Rightarrow> bool" where
  "ends P m \<longleftrightarrow> (\<forall>w. P (fst (m w)))"

definition panics :: "goerr + 'a \<Rightarrow> bool" where
  "panics r \<longleftrightarrow> (\<exists>e. r = Inl e \<and> is_panic e)"










lemma panics_nil [simp]: "ends panics nil_deref" by (simp add: ends_def panics_def nil_deref_def)








definition base_config :: api_config where
  "base_config = \<lparr>HasClientConfig = False, HasInformers = False, HasEffectiveVersion = False, HasRESTOptions = False\<rparr>"

text \<open>The configuration that \<open>ApiserverConfig\<close> makes, and whether authentication and authorization can be set up.\<close>

definition admission_part :: "'o Options \<Rightarrow> api_config" where
  "admission_part opts = (if EnableAdmission opts then base_config\<lparr>HasClientConfig := True, HasInformers := True\<rparr> else base_config)"



lemma admission_part_fields [simp]:
  "HasInformers (admission_part opts) = EnableAdmission opts" "\<not> HasEffectiveVersion (admission_part opts)" "\<not> HasRESTOptions (admission_part opts)"
  by (simp_all add: admission_part_def base_config_def)







end
