(* ===== verification/CsiCommand.thy ===== *)
theory CsiCommand
  imports CsiServe
begin

section \<open>simplecsi: the command line (cmd/root.go)\<close>

text \<open>
  The flags with their default values and what they set, and the command: it serves until a signal comes. The
  splitting of the command line into names and values is done by a library and not modelled; \<open>parse_quantity\<close> is the parser of
  quantities of the API library. The flags of the log are left out, and of the messages of errors only the fixed part is kept.
\<close>

subsection \<open>Integers of flags (strconv.ParseInt with base 0)\<close>

definition digit_val :: "char \<Rightarrow> nat option" where
  "digit_val c = (let n = of_char c in
     if 48 \<le> n \<and> n \<le> 57 then Some (n - 48)
     else if 97 \<le> n \<and> n \<le> 122 then Some (n - 87)
     else if 65 \<le> n \<and> n \<le> 90 then Some (n - 55) else None)"

text \<open>The digits of a number, underscores skipped.\<close>

fun base_val :: "nat \<Rightarrow> nat \<Rightarrow> string \<Rightarrow> nat option" where
  "base_val b a [] = Some a"
| "base_val b a (c # cs) =
     (if c = CHR ''_'' then base_val b a cs
      else case digit_val c of None \<Rightarrow> None | Some d \<Rightarrow> if d < b then base_val b (b * a + d) cs else None)"

text \<open>The base by the prefix, and the digits.\<close>

definition base_of :: "string \<Rightarrow> nat \<times> string" where
  "base_of s =
     (if s \<noteq> [] \<and> hd s = CHR ''0'' then
        (case tl s of
           c # d # cs \<Rightarrow>
             if to_lower_char c = CHR ''b'' then (2, d # cs)
             else if to_lower_char c = CHR ''o'' then (8, d # cs)
             else if to_lower_char c = CHR ''x'' then (16, d # cs)
             else (8, c # d # cs)
         | cs \<Rightarrow> (8, cs))
      else (10, s))"

text \<open>Underscores may only separate digits; the prefix counts as one. \<open>saw\<close> is the kind of the character before.\<close>

datatype saw = Start | Digit | Underscore | Other

fun underscores_ok :: "bool \<Rightarrow> saw \<Rightarrow> string \<Rightarrow> bool" where
  "underscores_ok hex saw [] = (saw \<noteq> Underscore)"
| "underscores_ok hex saw (c # cs) =
     (if is_digit c \<or> hex \<and> to_lower_char c \<in> set ''abcdef'' then underscores_ok hex Digit cs
      else if c = CHR ''_'' then (if saw \<noteq> Digit then False else underscores_ok hex Underscore cs)
      else if saw = Underscore then False
      else underscores_ok hex Other cs)"

definition underscoreOK :: "string \<Rightarrow> bool" where
  "underscoreOK s =
     (if length s \<ge> 2 \<and> hd s = CHR ''0'' \<and> to_lower_char (s ! 1) \<in> set ''box''
      then underscores_ok (to_lower_char (s ! 1) = CHR ''x'') Digit (drop 2 s)
      else underscores_ok False Start s)"

definition ParseInt64 :: "string \<Rightarrow> int64 option" where
  "ParseInt64 s0 =
     (let (neg, s) = (case s0 of c # cs \<Rightarrow> if c = CHR ''-'' then (True, cs) else if c = CHR ''+'' then (False, cs) else (False, s0)
          | [] \<Rightarrow> (False, [])) in
      if s = [] \<or> \<not> underscoreOK s then None
      else (case base_of s of (b, ds) \<Rightarrow>
        (case base_val b 0 ds of
           None \<Rightarrow> None
         | Some n \<Rightarrow>
             if neg then (if n \<le> 2 ^ 63 then Some (word_of_int (- int n)) else None)
             else if n < 2 ^ 63 then Some (word_of_int (int n)) else None)))"

subsection \<open>Flags\<close>

record command_options =
  optEndpoint :: string
  optConfig :: Config
  optIsAgent :: bool
  optLinuxUtilsImage :: string

definition default_options :: command_options where
  "default_options = \<lparr>optEndpoint = ''unix://tmp/csi.sock'',
     optConfig = \<lparr>DriverName = ''hostpath.csi.k8s.io'', CfgNodeID = [], VendorVersion = ''0.0.1'', StateDir = ''/csi-data-dir'',
       MaxVolumesPerNode = 0, MaxVolumeSize = 1024 * 1024 * 1024 * 1024, AttachLimit = 0, CfgCapacity = [], CfgEphemeral = False,
       EnableAttach = False, EnableTopology = True, EnableVolumeExpansion = True, EnableControllerModifyVolume = False,
       AcceptedMutableParameterNames = [], DisableControllerExpansion = False, DisableNodeExpansion = False,
       MaxVolumeExpansionSizeNode = 0, CheckVolumeLifecycle = False\<rparr>,
     optIsAgent = False, optLinuxUtilsImage = linux_utils\<rparr>"

text \<open>The flags by what their values are.\<close>

definition string_flags :: "(string \<times> (string \<Rightarrow> command_options \<Rightarrow> command_options)) list" where
  "string_flags = [
     (''endpoint'', \<lambda>v. optEndpoint_update (\<lambda>_. v)),
     (''drivername'', \<lambda>v. optConfig_update (DriverName_update (\<lambda>_. v))),
     (''statedir'', \<lambda>v. optConfig_update (StateDir_update (\<lambda>_. v))),
     (''nodeid'', \<lambda>v. optConfig_update (CfgNodeID_update (\<lambda>_. v))),
     (''version'', \<lambda>v. optConfig_update (VendorVersion_update (\<lambda>_. v))),
     (''linux-utils-image'', \<lambda>v. optLinuxUtilsImage_update (\<lambda>_. v)),
     (''accepted-mutable-parameter-names'', \<lambda>v. optConfig_update (AcceptedMutableParameterNames_update (StringArray_Set v)))]"

definition bool_flags :: "(string \<times> (bool \<Rightarrow> command_options \<Rightarrow> command_options)) list" where
  "bool_flags = [
     (''ephemeral'', \<lambda>v. optConfig_update (CfgEphemeral_update (\<lambda>_. v))),
     (''enable-attach'', \<lambda>v. optConfig_update (EnableAttach_update (\<lambda>_. v))),
     (''check-volume-lifecycle'', \<lambda>v. optConfig_update (CheckVolumeLifecycle_update (\<lambda>_. v))),
     (''enable-topology'', \<lambda>v. optConfig_update (EnableTopology_update (\<lambda>_. v))),
     (''node-expand-required'', \<lambda>v. optConfig_update (EnableVolumeExpansion_update (\<lambda>_. v))),
     (''enable-volume-expansion'', \<lambda>v. optConfig_update (EnableVolumeExpansion_update (\<lambda>_. v))),
     (''enable-controller-modify-volume'', \<lambda>v. optConfig_update (EnableControllerModifyVolume_update (\<lambda>_. v))),
     (''disable-controller-expansion'', \<lambda>v. optConfig_update (DisableControllerExpansion_update (\<lambda>_. v))),
     (''disable-node-expansion'', \<lambda>v. optConfig_update (DisableNodeExpansion_update (\<lambda>_. v))),
     (''isagent'', \<lambda>v. optIsAgent_update (\<lambda>_. v))]"

definition int_flags :: "(string \<times> (int64 \<Rightarrow> command_options \<Rightarrow> command_options)) list" where
  "int_flags = [
     (''maxvolumespernode'', \<lambda>v. optConfig_update (MaxVolumesPerNode_update (\<lambda>_. v))),
     (''max-volume-size'', \<lambda>v. optConfig_update (MaxVolumeSize_update (\<lambda>_. v))),
     (''max-volume-size-node'', \<lambda>v. optConfig_update (MaxVolumeExpansionSizeNode_update (\<lambda>_. v))),
     (''attach-limit'', \<lambda>v. optConfig_update (AttachLimit_update (\<lambda>_. v)))]"

definition bad_argument :: "string \<Rightarrow> string \<Rightarrow> goerr" where
  "bad_argument name v = Plain (''invalid argument '' @ dquote v @ '' for '' @ dquote (''--'' @ name) @ '' flag'')"

definition set_flag :: "(string \<Rightarrow> goerr + int64) \<Rightarrow> string \<times> string \<Rightarrow> command_options \<Rightarrow> goerr + command_options" where
  "set_flag parse_quantity = (\<lambda>(name, v) opts.
     case map_of string_flags name of
       Some upd \<Rightarrow> Inr (upd v opts)
     | None \<Rightarrow> (case map_of bool_flags name of
       Some upd \<Rightarrow> (case ParseBool v of None \<Rightarrow> Inl (bad_argument name v) | Some b \<Rightarrow> Inr (upd b opts))
     | None \<Rightarrow> (case map_of int_flags name of
       Some upd \<Rightarrow> (case ParseInt64 v of None \<Rightarrow> Inl (bad_argument name v) | Some i \<Rightarrow> Inr (upd i opts))
     | None \<Rightarrow> if name = ''capacity'' then
         (case Capacity_Set parse_quantity v (CfgCapacity (optConfig opts)) of
            Inl e \<Rightarrow> Inl (bad_argument name v)
          | Inr c \<Rightarrow> Inr (opts\<lparr>optConfig := (optConfig opts)\<lparr>CfgCapacity := c\<rparr>\<rparr>))
       else Inl (Plain (''unknown flag: --'' @ name)))))"

fun parse_flags :: "(string \<Rightarrow> goerr + int64) \<Rightarrow> (string \<times> string) list \<Rightarrow> command_options \<Rightarrow> goerr + command_options" where
  "parse_flags Q [] opts = Inr opts"
| "parse_flags Q (f # fs) opts = (case set_flag Q f opts of Inl e \<Rightarrow> Inl e | Inr opts1 \<Rightarrow> parse_flags Q fs opts1)"

subsection \<open>The command\<close>

text \<open>\<open>requests\<close>: what is served until a signal comes. The result is the exit status; an error of the flags is the only one
  that gives 1, and whatever made \<open>Serve\<close> give up, the command waits for a signal and ends with 0.\<close>

definition Execute ::
  "('c, 'o) env \<Rightarrow> 'o host \<Rightarrow> (string \<Rightarrow> goerr + int64) \<Rightarrow> (registration list \<Rightarrow> ('c, 'o, unit) csi) \<Rightarrow> (string \<times> string) list \<Rightarrow> ('c, 'o, int) csi" where
  "Execute E H Q requests args =
     (case parse_flags Q args default_options of
        Inl _ \<Rightarrow> ret 1
      | Inr opts \<Rightarrow> bindE (csi_Serve E H requests (optEndpoint opts) (optConfig opts)) (\<lambda>_. ret 0))"

subsection \<open>What the default values mean\<close>

lemma set_flag_node_size:
  assumes "set_flag Q (name, v) opts = Inr opts'" and "name \<noteq> ''max-volume-size-node''"
  shows "MaxVolumeExpansionSizeNode (optConfig opts') = MaxVolumeExpansionSizeNode (optConfig opts)"
  using assms by (auto simp: set_flag_def string_flags_def bool_flags_def int_flags_def split: if_splits option.splits sum.splits)

lemma set_flag_node_id:
  assumes "set_flag Q (name, v) opts = Inr opts'" and "name \<noteq> ''nodeid''"
  shows "CfgNodeID (optConfig opts') = CfgNodeID (optConfig opts)"
  using assms by (auto simp: set_flag_def string_flags_def bool_flags_def int_flags_def split: if_splits option.splits sum.splits)

lemma parse_flags_kept:
  assumes "\<And>name v o1 o2. name \<noteq> n \<Longrightarrow> set_flag Q (name, v) o1 = Inr o2 \<Longrightarrow> P o2 = P o1"
  shows "parse_flags Q fs opts = Inr opts' \<Longrightarrow> n \<notin> fst ` set fs \<Longrightarrow> P opts' = P opts"
proof (induction fs arbitrary: opts)
  case (Cons f fs)
  obtain name v where f: "f = (name, v)" by (cases f)
  obtain o1 where o1: "set_flag Q (name, v) opts = Inr o1" "parse_flags Q fs o1 = Inr opts'"
    using Cons.prems(1) by (auto simp: f split: sum.splits)
  have "name \<noteq> n" "n \<notin> fst ` set fs" using Cons.prems(2) by (auto simp: f)
  then have "P o1 = P opts" "P opts' = P o1" using assms [OF _ o1(1)] Cons.IH [OF o1(2)] by simp_all
  then show ?case by simp
qed simp

end
