(* ===== verification/CsiPods.thy ===== *)
theory CsiPods
  imports GoStd
begin

section \<open>simplecsi: waiting for pods (WaitPodReady of pkg/k8sclient/k8s.go)\<close>

text \<open>
  The function waits until the pods of a selector are ready, polling each of them every second. The API server, the context and the
  passing of time are the record \<open>pod_api\<close>. The poll follows the vendored \<open>wait\<close> package of the API library.
\<close>

subsection \<open>Pods\<close>

text \<open>Of the state of a container: the reason for which it waits, if it waits.\<close>

record pod_info =
  podName :: string
  podPhase :: string
  DeletionTimestamp :: bool
  ContainerStatuses :: "string option list"
  podConditions :: "(string \<times> string) list"

record 'w pod_api =
  list_by_selector :: "string \<Rightarrow> string \<Rightarrow> ('w, string list) io"
  get_pod :: "string \<Rightarrow> string \<Rightarrow> ('w, pod_info) io"
  ctx_done :: "('w, bool) io"
  await_tick :: "('w, unit) io"

text \<open>\<open>await_tick\<close> is the \<open>select\<close> between the ticker and the context, with the look at the context after it: the error is the one of the context.\<close>

text \<open>The status is only logged, but the arguments of a log call are evaluated.\<close>

definition waiting_reason :: "string option list \<Rightarrow> goerr + string" where
  "waiting_reason cs =
     (case cs of
        [] \<Rightarrow> Inl (Panic ''index out of range [0] with length 0'')
      | None # _ \<Rightarrow> Inl (Panic ''invalid memory address or nil pointer dereference'')
      | Some r # _ \<Rightarrow> Inr r)"

primrec status_loop :: "pod_info \<Rightarrow> string option list \<Rightarrow> goerr + string" where
  "status_loop pod [] = waiting_reason (ContainerStatuses pod)"
| "status_loop pod (value # vs) =
     (if podPhase pod = ''Succeeded'' then Inr (case value of Some r \<Rightarrow> r | None \<Rightarrow> ''Succeeded'')
      else if DeletionTimestamp pod then Inr ''Terminating''
      else status_loop pod vs)"

definition podStatus :: "pod_info \<Rightarrow> goerr + string" where
  "podStatus pod = status_loop pod (ContainerStatuses pod)"

definition isPodReady :: "'w pod_api \<Rightarrow> string \<Rightarrow> string \<Rightarrow> ('w, bool) io" where
  "isPodReady A n p =
     bindE (ctx_done A) (\<lambda>finished.
     if finished then fail (Plain ''timeout'')
     else bindE (get_pod A n p) (\<lambda>pod.
       if podPhase pod = ''Pending'' \<and> length (ContainerStatuses pod) = 0 then ret False
       else (case map_of (podConditions pod) ''Ready'' of
           None \<Rightarrow> ret False
         | Some st \<Rightarrow> bindE (lift (podStatus pod)) (\<lambda>_. ret (st = ''True'')))))"

text \<open>The condition is called at once and then at every tick; the context ends after \<open>timeout\<close> seconds, so after as many ticks.\<close>

primrec poll_until :: "'w pod_api \<Rightarrow> nat \<Rightarrow> ('w, bool) io \<Rightarrow> ('w, unit) io" where
  "poll_until A 0 condition = fail (Plain ''context deadline exceeded'')"
| "poll_until A (Suc n) condition =
     bindE (await_tick A) (\<lambda>_. bindE condition (\<lambda>ok. if ok then ret () else poll_until A n condition))"

definition waitPodReady :: "'w pod_api \<Rightarrow> string \<Rightarrow> string \<Rightarrow> int \<Rightarrow> ('w, unit) io" where
  "waitPodReady A namespaces p timeout =
     bindE (isPodReady A namespaces p) (\<lambda>ok.
     if ok then ret () else poll_until A (nat timeout) (isPodReady A namespaces p))"

primrec wait_all :: "'w pod_api \<Rightarrow> string \<Rightarrow> string list \<Rightarrow> int \<Rightarrow> ('w, unit) io" where
  "wait_all A namespace [] timeout = ret ()"
| "wait_all A namespace (p # ps) timeout =
     bindE (waitPodReady A namespace p timeout) (\<lambda>_. wait_all A namespace ps timeout)"

definition WaitPodReady :: "'w pod_api \<Rightarrow> string \<Rightarrow> string \<Rightarrow> int \<Rightarrow> ('w, unit) io" where
  "WaitPodReady A namespace selector timeout =
     bindE (list_by_selector A namespace (''app='' @ selector)) (\<lambda>pods.
     if length pods = 0 then fail (Plain (''no pods in '' @ namespace @ '' with selector '' @ selector))
     else wait_all A namespace pods timeout)"

subsection \<open>What it comes to\<close>

text \<open>The text of the status can only be made of a pod that is over, is going away, or whose first container waits.\<close>

lemma status_loop_cases:
  "status_loop pod vs = (if vs = [] \<or> podPhase pod \<noteq> ''Succeeded'' \<and> \<not> DeletionTimestamp pod then waiting_reason (ContainerStatuses pod)
     else if podPhase pod = ''Succeeded'' then Inr (case hd vs of Some r \<Rightarrow> r | None \<Rightarrow> ''Succeeded'') else Inr ''Terminating'')"
  by (induction vs) auto

definition has_status :: "pod_info \<Rightarrow> bool" where
  "has_status pod \<longleftrightarrow> ContainerStatuses pod \<noteq> [] \<and>
     (podPhase pod = ''Succeeded'' \<or> DeletionTimestamp pod \<or> hd (ContainerStatuses pod) \<noteq> None)"

lemma podStatus_panics: "(\<exists>e. podStatus pod = Inl e \<and> is_panic e) \<longleftrightarrow> \<not> has_status pod"
  "podStatus pod = Inr r \<Longrightarrow> has_status pod"
  by (auto simp: podStatus_def status_loop_cases has_status_def waiting_reason_def split: list.splits option.splits if_splits)

text \<open>A pod that is found ready was found in a state that a working pod is not in; a pod whose containers run makes the caller panic, whether it is
  ready or not yet.\<close>

lemma isPodReady_True:
  assumes "isPodReady A n p w = (Inr True, w')"
  shows "\<exists>w1 w2 pod. get_pod A n p w1 = (Inr pod, w2) \<and> map_of (podConditions pod) ''Ready'' = Some ''True'' \<and> has_status pod"
  using assms podStatus_panics(2) unfolding isPodReady_def
  by (fastforce simp: eq_Inr split: if_splits option.splits)

lemma poll_until_ready:
  "poll_until A k (isPodReady A n p) w = (Inr (), w') \<Longrightarrow> \<exists>w1 w2. isPodReady A n p w1 = (Inr True, w2)"
  by (induction k arbitrary: w) (auto simp: eq_Inr split: if_splits)

lemma wait_all_ready:
  "wait_all A n ps t w = (Inr (), w') \<Longrightarrow> p \<in> set ps \<Longrightarrow> \<exists>w1 w2. isPodReady A n p w1 = (Inr True, w2)"
  by (induction ps arbitrary: w) (auto simp: eq_Inr waitPodReady_def split: if_splits dest: poll_until_ready)

theorem ready_pods_are_over:
  assumes "WaitPodReady A n sel t w = (Inr (), w')"
  shows "\<exists>pods w1. list_by_selector A n (''app='' @ sel) w = (Inr pods, w1) \<and> pods \<noteq> [] \<and>
    (\<forall>p \<in> set pods. \<exists>w2 w3 pod. get_pod A n p w2 = (Inr pod, w3) \<and> map_of (podConditions pod) ''Ready'' = Some ''True'' \<and> has_status pod)"
proof -
  obtain pods w1 where l: "list_by_selector A n (''app='' @ sel) w = (Inr pods, w1)" "pods \<noteq> []"
    and a: "wait_all A n pods t w1 = (Inr (), w')"
    using assms by (auto simp: WaitPodReady_def eq_Inr split: if_splits)
  moreover have "\<exists>w2 w3 pod. get_pod A n p w2 = (Inr pod, w3) \<and> map_of (podConditions pod) ''Ready'' = Some ''True'' \<and> has_status pod"
    if p: "p \<in> set pods" for p
  proof -
    obtain w2 w3 where "isPodReady A n p w2 = (Inr True, w3)" using wait_all_ready [OF a p] by blast
    then show ?thesis by (rule isPodReady_True)
  qed
  ultimately show ?thesis by blast
qed

text \<open>A pod whose containers run and which is ready: the wait for it panics.\<close>

theorem running_pod_panics:
  assumes "ctx_done A w = (Inr False, w1)" and "get_pod A n p w1 = (Inr pod, w2)" and "podPhase pod = ''Running''" and "\<not> DeletionTimestamp pod"
    and "ContainerStatuses pod = None # cs" and "map_of (podConditions pod) ''Ready'' = Some st"
  shows "\<exists>e. waitPodReady A n p t w = (Inl e, w2) \<and> is_panic e"
proof -
  have "\<not> has_status pod" using assms(3-5) by (simp add: has_status_def)
  then obtain e where "podStatus pod = Inl e" "is_panic e" using podStatus_panics(1) by blast
  then show ?thesis using assms by (simp add: waitPodReady_def isPodReady_def io_simps)
qed

definition one_pod :: "unit pod_api" where
  "one_pod = \<lparr>list_by_selector = (\<lambda>_ _. ret [''p'']), get_pod = (\<lambda>_ p. ret \<lparr>podName = p, podPhase = ''Running'', DeletionTimestamp = False,
     ContainerStatuses = [None], podConditions = [(''Ready'', ''True'')]\<rparr>), ctx_done = ret False, await_tick = ret ()\<rparr>"

theorem running_pod_panics_witness: "\<exists>e. waitPodReady one_pod ''default'' ''p'' 30 () = (Inl e, ()) \<and> is_panic e"
  by (rule running_pod_panics [where pod = "\<lparr>podName = ''p'', podPhase = ''Running'', DeletionTimestamp = False,
     ContainerStatuses = [None], podConditions = [(''Ready'', ''True'')]\<rparr>"]) (simp_all add: one_pod_def)

end
