(* ===== verification/CsiCommandProps.thy ===== *)
theory CsiCommandProps
  imports CsiCommand CsiServeProps CsiPods
begin

section \<open>simplecsi: from the command line to the handlers\<close>

text \<open>The default values do not make a working node. Whatever other flags are given: without \<open>--nodeid\<close> the identity service is nil, so that
  its first call panics, and without \<open>--max-volume-size-node\<close>, which is said to default to the maximal size of
  volumes, the node refuses every expansion that asks for a size, whatever volume and path it is for.\<close>

theorem default_flags:
  assumes "parse_flags Q args default_options = Inr opts"
  shows "(''nodeid'' \<notin> fst ` set args \<longrightarrow> IdentityServer None \<in> set (registrations (optConfig opts))) \<and>
    (''max-volume-size-node'' \<notin> fst ` set args \<longrightarrow> 0 < sint (required_bytes rng) \<longrightarrow>
       (\<exists>e t. NodeExpandVolume E (optConfig opts) i p rng s = (Inl e, t)))"
proof (intro conjI impI)
  assume n: "''nodeid'' \<notin> fst ` set args"
  have "CfgNodeID (optConfig opts) = CfgNodeID (optConfig default_options)"
    by (rule parse_flags_kept [where P = "\<lambda>x. CfgNodeID (optConfig x)", OF _ assms n]) (rule set_flag_node_id)
  then have "CfgNodeID (optConfig opts) = []" by (simp add: default_options_def)
  then show "IdentityServer None \<in> set (registrations (optConfig opts))"
    by (simp add: registrations_def NewIdentityServer_def)
next
  assume n: "''max-volume-size-node'' \<notin> fst ` set args" and r: "0 < sint (required_bytes rng)"
  have "MaxVolumeExpansionSizeNode (optConfig opts) = MaxVolumeExpansionSizeNode (optConfig default_options)"
    by (rule parse_flags_kept [where P = "\<lambda>x. MaxVolumeExpansionSizeNode (optConfig x)", OF _ assms n]) (rule set_flag_node_size)
  then have "MaxVolumeExpansionSizeNode (optConfig opts) = 0" by (simp add: default_options_def)
  then have "\<not> le64 (required_bytes rng) (MaxVolumeExpansionSizeNode (optConfig opts))" using r by (simp add: le64_def)
  then show "\<exists>e t. NodeExpandVolume E (optConfig opts) i p rng s = (Inl e, t)"
    by (auto simp: NodeExpandVolume_def io_simps split: prod.split sum.split)
qed

text \<open>Integers of the flags in any base, as the library reads them.\<close>

lemmas parse_int = ParseInt64_def base_of_def underscoreOK_def digit_val_def is_digit_def digit_of_def to_lower_char_def

lemma ParseInt64_texts:
  "ParseInt64 ''1_000'' = Some 1000" "ParseInt64 ''0x_1f'' = Some 31" "ParseInt64 ''-0b11'' = Some (-3)" "ParseInt64 ''017'' = Some 15"
  "ParseInt64 ''0x10'' = Some 16" "ParseInt64 ''_1'' = None" "ParseInt64 ''1__0'' = None" "ParseInt64 ''08'' = None"
  "ParseInt64 ''0x'' = None" "ParseInt64 ''+0'' = Some 0"
  "ParseInt64 ''9223372036854775807'' = Some 9223372036854775807" "ParseInt64 ''9223372036854775808'' = None"
  by (simp_all add: parse_int)

theorem default_flags_witness:
  "\<exists>opts e t. parse_flags (\<lambda>_. Inr 0) [(''drivername'', ''d''), (''attach-limit'', ''0x10'')] default_options = Inr opts \<and>
     AttachLimit (optConfig opts) = 16 \<and> IdentityServer None \<in> set (registrations (optConfig opts)) \<and>
     NodeExpandVolume mem_env (optConfig opts) ''vol-a'' ''/mnt'' (Some 1) (mem_driver demo_resources 7) = (Inl e, t)"
proof -
  obtain opts where o: "parse_flags (\<lambda>_. Inr 0) [(''drivername'', ''d''), (''attach-limit'', ''0x10'')] default_options = Inr opts"
    "AttachLimit (optConfig opts) = 16"
    by (simp add: set_flag_def string_flags_def bool_flags_def int_flags_def ParseInt64_texts default_options_def)
  then show ?thesis
    using default_flags [OF o(1), of "Some 1" mem_env "''vol-a''" "''/mnt''" "mem_driver demo_resources 7"] by (auto simp: required_bytes_def)
qed

end
