(* ===== verification/ControllerApp.thy ===== *)
theory ControllerApp
  imports ControllerQueueProps
begin

section \<open>simplecontroller: the life of a controller and of the process (Run, Start, app.go)\<close>

text \<open>
  \<open>Run\<close> of the informer controllers waits until the caches are filled, starts \<open>threadiness\<close> workers, waits for the end and shuts the queue down. It is
  a step relation around the queue: the informer adds keys at any time, the workers take the steps of \<open>ControllerQueue\<close>. A worker is a goroutine
  in \<open>wait.Until\<close> (from the vendored source), which looks at the stop channel before it calls \<open>runWorker\<close> for the first time: one that is
  scheduled only after the stop does nothing. The second part is the start of the process: which errors reach it.
\<close>

subsection \<open>Run\<close>

datatype run_phase = WaitingForCacheSync | RunningWorkers | RunReturned

text \<open>\<open>spawned\<close>: the workers that have not looked at the stop channel; \<open>working\<close>: those that have called \<open>runWorker\<close>.\<close>

record 'k controller_run =
  runPhase :: run_phase
  spawned :: nat
  working :: nat
  runQueue :: "'k wqueue"
  cachesSynced :: bool
  stopClosed :: bool

definition run_start :: "'k controller_run" where
  "run_start = \<lparr>runPhase = WaitingForCacheSync, spawned = 0, working = 0, runQueue = NewRateLimitingQueue, cachesSynced = False, stopClosed = False\<rparr>"

inductive run_step :: "nat \<Rightarrow> 'k controller_run \<Rightarrow> 'k controller_run \<Rightarrow> bool" for threadiness where
  informer_event: "run_step threadiness r (r\<lparr>runQueue := wq_Add k (runQueue r)\<rparr>)"
| caches_fill: "run_step threadiness r (r\<lparr>cachesSynced := True\<rparr>)"
| close_stop: "run_step threadiness r (r\<lparr>stopClosed := True\<rparr>)"
| start_workers: "runPhase r = WaitingForCacheSync \<Longrightarrow> cachesSynced r \<Longrightarrow>
    run_step threadiness r (r\<lparr>runPhase := RunningWorkers, spawned := threadiness\<rparr>)"
| sync_fails: "runPhase r = WaitingForCacheSync \<Longrightarrow> stopClosed r \<Longrightarrow>
    run_step threadiness r (r\<lparr>runPhase := RunReturned, runQueue := wq_ShutDown (runQueue r)\<rparr>)"
| worker_begins: "0 < spawned r \<Longrightarrow> \<not> stopClosed r \<Longrightarrow>
    run_step threadiness r (r\<lparr>spawned := spawned r - 1, working := working r + 1\<rparr>)"
| worker_misses: "0 < spawned r \<Longrightarrow> stopClosed r \<Longrightarrow> run_step threadiness r (r\<lparr>spawned := spawned r - 1\<rparr>)"
| work: "0 < working r \<Longrightarrow> worker_step handleErr (runQueue r) q \<Longrightarrow> run_step threadiness r (r\<lparr>runQueue := q\<rparr>)"
| stopped: "runPhase r = RunningWorkers \<Longrightarrow> stopClosed r \<Longrightarrow>
    run_step threadiness r (r\<lparr>runPhase := RunReturned, runQueue := wq_ShutDown (runQueue r)\<rparr>)"

inductive run_reach :: "nat \<Rightarrow> 'k controller_run \<Rightarrow> bool" for threadiness where
  start: "run_reach threadiness run_start"
| step: "run_reach threadiness r \<Longrightarrow> run_step threadiness r r' \<Longrightarrow> run_reach threadiness r'"


text \<open>Before a worker begins, nothing is taken and nothing has failed.\<close>

definition untouched :: "'k wqueue \<Rightarrow> bool" where
  "untouched q \<longleftrightarrow> processing q = {} \<and> waitingForAddCh q = [] \<and> waitingEntries q = [] \<and> requeued q = (\<lambda>_. 0)"

definition run_inv :: "'k controller_run \<Rightarrow> bool" where
  "run_inv r \<longleftrightarrow> wq_reach handleErr (runQueue r) \<and> (working r = 0 \<longrightarrow> untouched (runQueue r)) \<and>
     (shuttingDown (runQueue r) \<longleftrightarrow> runPhase r = RunReturned) \<and> (runPhase r = WaitingForCacheSync \<longrightarrow> spawned r + working r = 0) \<and>
     (0 < spawned r + working r \<longrightarrow> cachesSynced r) \<and> (runPhase r = RunReturned \<longrightarrow> stopClosed r)"

lemma untouched_ops [simp]: "untouched q \<Longrightarrow> untouched (wq_Add k q)" "untouched (wq_ShutDown q) = untouched q"
  "shuttingDown (wq_ShutDown q)"
  by (auto simp: untouched_def wq_Add_def wq_ShutDown_def Let_def)

lemma run_inv_step: "run_step n r r' \<Longrightarrow> run_inv r \<Longrightarrow> run_inv r'"
proof (induction rule: run_step.induct)
  case (work r q)
  then show ?case using shuttingDown_step [OF work.hyps(2)] by (auto simp: run_inv_def intro: wq_reach.work)
qed (auto simp: run_inv_def intro: wq_reach.event wq_reach.stop)

lemma run_reach_inv: "run_reach n r \<Longrightarrow> run_inv r"
proof (induction rule: run_reach.induct)
  case start
  show ?case by (simp add: run_inv_def run_start_def untouched_def NewRateLimitingQueue_def wq_reach.start [unfolded NewRateLimitingQueue_def])
qed (rule run_inv_step)

text \<open>Every run of a controller is a run of its queue, so what holds in all of those holds here; nothing is processed before the caches are filled; and
  the queue takes keys exactly until \<open>Run\<close> has returned.\<close>

theorem run_refines_queue:
  assumes "run_reach threadiness r"
  shows "wq_reach handleErr (runQueue r) \<and> (\<not> cachesSynced r \<longrightarrow> untouched (runQueue r)) \<and>
    (shuttingDown (runQueue r) \<longleftrightarrow> runPhase r = RunReturned)"
  using run_reach_inv [OF assms] by (auto simp: run_inv_def)

subsection \<open>The end of the workers\<close>













text \<open>A controller with a key that is stopped while its worker works.\<close>

definition stopped_run :: "nat controller_run" where
  "stopped_run = \<lparr>runPhase = RunReturned, spawned = 0, working = 1, runQueue = wq_ShutDown (wq_Add 7 NewRateLimitingQueue), cachesSynced = True,
     stopClosed = True\<rparr>"

lemma stopped_run_reach: "run_reach 1 stopped_run"
proof -
  let ?q = "wq_Add (7 :: nat) NewRateLimitingQueue"
  note next_state = run_reach.step
  from next_state [OF run_reach.start run_step.informer_event] have "run_reach 1 (run_start\<lparr>runQueue := ?q\<rparr>)"
    by (simp add: run_start_def)
  from next_state [OF this run_step.caches_fill] have "run_reach 1 (run_start\<lparr>runQueue := ?q, cachesSynced := True\<rparr>)"
    by simp
  from next_state [OF this run_step.start_workers] have "run_reach 1 (run_start\<lparr>runQueue := ?q, cachesSynced := True,
      runPhase := RunningWorkers, spawned := 1\<rparr>)" by (simp add: run_start_def)
  from next_state [OF this run_step.worker_begins] have "run_reach 1 (run_start\<lparr>runQueue := ?q, cachesSynced := True,
      runPhase := RunningWorkers, spawned := 0, working := 1\<rparr>)" by (simp add: run_start_def)
  from next_state [OF this run_step.close_stop] have "run_reach 1 (run_start\<lparr>runQueue := ?q, cachesSynced := True,
      runPhase := RunningWorkers, spawned := 0, working := 1, stopClosed := True\<rparr>)" by simp
  from next_state [OF this run_step.stopped] show ?thesis by (simp add: run_start_def stopped_run_def)
qed

theorem run_refines_queue_witness: "wq_reach handleErr (wq_ShutDown (wq_Add (7 :: nat) NewRateLimitingQueue))"
  using run_refines_queue [OF stopped_run_reach] by (simp add: stopped_run_def)


subsection \<open>The process (app.go)\<close>

text \<open>What the calls of the libraries return: \<open>None\<close> is success. \<open>ManagerStart\<close> returns when the process is told to stop.\<close>

record app_calls =
  BuildConfigFromFlags :: "goerr option"
  AddToSchemes :: "goerr option list"
  NewManager :: "goerr option"
  Hostname :: "goerr option"
  NewFromKubeconfig :: "goerr option"
  SetupWithManager :: "string \<Rightarrow> goerr option"
  ApisixMapping :: "goerr option"
  IsNoMatchError :: "goerr \<Rightarrow> bool"
  ManagerStart :: "goerr option"
  NewForConfigs :: "goerr option list"

definition first_failure :: "goerr option list \<Rightarrow> goerr option" where
  "first_failure rs = (case List.map_filter id rs of [] \<Rightarrow> None | e # _ \<Rightarrow> Some e)"

definition panic_on :: "string \<Rightarrow> goerr option \<Rightarrow> goerr option" where
  "panic_on msg r = map_option (\<lambda>e. Panic (msg @ err_text e)) r"

text \<open>What \<open>leaderElectionRun\<close> does before it takes part in the election.\<close>

definition leaderElectionRun_start :: "app_calls \<Rightarrow> goerr option" where
  "leaderElectionRun_start A =
     first_failure (panic_on [] (BuildConfigFromFlags A) # AddToSchemes A @
       [panic_on ''failed to build controller manager: '' (NewManager A), Hostname A, NewFromKubeconfig A])"

definition starting_error :: "app_calls \<Rightarrow> string \<Rightarrow> goerr list" where
  "starting_error A c = (case SetupWithManager A c of None \<Rightarrow> [] | Some err \<Rightarrow> [Plain (''error starting '' @ c @ '': '' @ err_text err)])"

text \<open>What the two ways to run controllers send, one after the other, to the channel of the errors.\<close>

definition controllerruntimeRun :: "app_calls \<Rightarrow> goerr list" where
  "controllerruntimeRun A =
     starting_error A ''Simplecontroller-Node-controller'' @
     starting_error A ''Simplecontroller-Pod-controller'' @
     starting_error A ''Simplecontroller-Cluster-controller'' @
     (case ApisixMapping A of
        Some err \<Rightarrow> if \<not> IsNoMatchError A err then [err] else []
      | None \<Rightarrow> starting_error A ''Simplecontroller-Apisix-controller'') @
     starting_error A ''Simplecontroller-SimpleJob-controller'' @
     (case ManagerStart A of None \<Rightarrow> [] | Some err \<Rightarrow> [Plain (''failed to start controller manager: '' @ err_text err)])"

definition informerRun :: "app_calls \<Rightarrow> goerr list" where
  "informerRun A = List.map_filter id (NewForConfigs A)"

datatype process_end = ExitCode nat | Crash goerr

text \<open>The ways in which the process can end. \<open>run\<close> receives one error, from either side, and its caller drops it.\<close>

inductive process_ends :: "app_calls \<Rightarrow> process_end \<Rightarrow> bool" for A where
  start_crashes: "leaderElectionRun_start A = Some e \<Longrightarrow> is_panic e \<Longrightarrow> process_ends A (Crash e)"
| start_fails: "leaderElectionRun_start A = Some e \<Longrightarrow> \<not> is_panic e \<Longrightarrow> process_ends A (ExitCode 1)"
| election_lost: "leaderElectionRun_start A = None \<Longrightarrow> process_ends A (ExitCode 0)"
| manager_error: "leaderElectionRun_start A = None \<Longrightarrow> controllerruntimeRun A = err # rest \<Longrightarrow> process_ends A (ExitCode 0)"
| informer_error: "leaderElectionRun_start A = None \<Longrightarrow> informerRun A = err # rest \<Longrightarrow> process_ends A (ExitCode 0)"

text \<open>So an operator cannot tell a failure after the election from a regular end.\<close>

lemma failures_exit_with_zero: "process_ends A r \<Longrightarrow> leaderElectionRun_start A = None \<Longrightarrow> r = ExitCode 0"
  by (induction rule: process_ends.induct) simp_all

text \<open>The definition of the routes may be missing: then all others are set up, and nothing is sent.\<close>

lemma missing_routes_tolerated:
  assumes "ApisixMapping A = Some err" and "IsNoMatchError A err" and "ManagerStart A = None"
  shows "controllerruntimeRun A = [] \<longleftrightarrow>
    (\<forall>c \<in> {''Node'', ''Pod'', ''Cluster'', ''SimpleJob''}. SetupWithManager A (''Simplecontroller-'' @ c @ ''-controller'') = None)"
  using assms by (simp add: controllerruntimeRun_def starting_error_def split: option.split)

end
