(* ===== verification/Spec2Isabelle.thy ===== *)
theory Spec2Isabelle
  imports CsiStateProps CsiServeProps CsiControllerProps CsiSnapshotProps CsiNodeProps CoscheduleProps WebhookProps
    CniFirewallProps CniManagerProps CniNftProps CniPluginProps CniDevicesProps CniNodesProps CniDaemonProps
    SimpleControllersProps ControllerUtils FooProps ExternalIps ProvisionerProps RestMapper PluginLoop
    CniEventsProps CniCluster CniCommand FooServer CsiCommandProps ControllerApp
begin

text \<open>
  A verification development of \<open>k8sdevelop\<close>, a collection of small Kubernetes programs in Go.
  Modelled are the CSI driver (\<open>simplecsi/simplecsi\<close>), the coscheduling plugin of the scheduler
  (\<open>simpleschedulerframework\<close>), the CNI plugin and its daemon (\<open>simplecni\<close>), the admission webhooks (\<open>simplewebhook/demo1\<close>,
  \<open>simplewebhook/demo2\<close> and the App webhook of \<open>simplewebhook/simplecontrollerwithwebhook\<close>), the device plugin
  (\<open>simpledeviceplugin\<close>), the controllers (\<open>simplecontroller\<close>), the aggregated API server (\<open>simpleapiserver\<close>), the
  helper pods of the provisioners (\<open>simplecsi/simpleprovisioner\<close>, \<open>simplecmd\<close>) and the REST mapper service (\<open>clientgodemo/restmapper\<close>).

  \<^bold>\<open>How the program is put together.\<close> The CSI driver serves the identity, controller, node and
  group services. Their handlers share one struct \<open>HostPath\<close> with the state, a list of volumes,
  snapshots and group snapshots, which is reloaded from a ConfigMap before and written back
  after a change. Directories are made and mounted by Kubernetes Jobs on the node of the volume.
  The scheduler calls the extension points of the coscheduling plugin, which decides by the pods
  already assigned and remembers groups in two caches whose items expire. The API server calls
  the webhooks with admission reviews. The CNI daemon acquires the address ranges of its node,
  sets traffic rules and a device up, writes the subnet file that the CNI plugin reads, and
  publishes its addresses as annotations, from which the daemons of the other nodes make peers. The kubelet calls the device plugin over a socket, and the plugin registers again when the kubelet
  makes its socket anew. The controllers get the events of informers, put the keys into a rate limited queue
  from which workers take them, and write through the API server. The aggregated API server stores its
  resource Foo as files and tells its watchers of every change. The provisioner makes and removes the directory of a
  volume by a pod that it creates from a template and waits for. The programs do not call each other.

  \<^bold>\<open>How the model follows it.\<close>
  Calls are functions from the state to a result and the new state (type \<open>io\<close> of Prelude): an
  error value or a value. gRPC status errors, API-server errors, errors of the operating system
  and panics are different constructors of \<open>goerr\<close>. The API server, the node and its commands,
  the clock and the generator of identifiers are not under \<open>src\<close>: they are the functions of the
  record \<open>env\<close>, an argument of every definition that uses them; the ConfigMap is the field
  \<open>cmw\<close> of the driver and everything else outside is \<open>osw\<close>. What is relied on is stated by
  named predicates: \<open>cm_reliable\<close> (every ConfigMap call succeeds and behaves as documented) and
  \<open>cm_sound\<close> (any call may fail, and then changes nothing visible). \<open>CsiExample\<close> has concrete
  environments for both. \<open>int64\<close> and \<open>int32\<close> are 64-bit and 32-bit words, compared as signed
  numbers; their sums wrap.

  \<^item> \<open>Prelude\<close>: errors, the state monad with its simplification set \<open>io_simps\<close>, invariants of a
    call (\<open>keeps\<close>, \<open>keeps_intros\<close>) and Hoare triples (\<open>hoare\<close>).
  \<^item> \<open>GoStd\<close>: what the code uses of Go's packages \<open>strconv\<close>, \<open>strings\<close>, \<open>path/filepath\<close>, \<open>fmt\<close>.
  \<^item> \<open>GoJson\<close>: the JSON text of \<open>encoding/json\<close> and its parser, with the round trip.
  \<^item> \<open>CsiTypes\<close>, \<open>CsiState\<close>: \<open>pkg/state\<close> and the ConfigMap functions of \<open>pkg/k8sclient\<close>.
  \<^item> \<open>CsiStore\<close>: the contract of the persistent store as the locales \<open>volume_store\<close> and
    \<open>snapshot_store\<close>, interpreted (\<open>st\<close>) on the methods of \<open>CsiState\<close>.
  \<^item> \<open>CsiHostpath\<close>, \<open>CsiHealth\<close>: \<open>pkg/hostpath\<close> (\<open>hostpath.go\<close>, \<open>flag.go\<close>, \<open>options.go\<close>,
    \<open>healthcheck.go\<close>) and the Jobs of \<open>pkg/k8sclient\<close>.
  \<^item> \<open>CsiController\<close>, \<open>CsiListing\<close>, \<open>CsiNode\<close>, \<open>CsiGroup\<close>: the handlers of the controller
    (volumes; listings and snapshots), node, group and identity services.
  \<^item> \<open>CsiFrames\<close>: the calls that read only, once for any predicate they cannot break (locale
    \<open>read_frame\<close>, interpreted for the frame of the store and for the invariant).
  \<^item> \<open>CsiInvariants\<close>, \<open>CsiRuns\<close>: the invariant \<open>csi_inv\<close>, its preservation by every handler and
    the runs \<open>csi_reach\<close> of the driver (calls, changes outside, restarts).
  \<^item> \<open>CsiHandlers\<close>: what successful calls of the handlers do, on a reliable ConfigMap.
  \<^item> \<open>CsiStateProps\<close>, \<open>CsiControllerProps\<close>, \<open>CsiSnapshotProps\<close>, \<open>CsiNodeProps\<close>: the properties of
    the driver with their witnesses, run on the environments of \<open>CsiExample\<close>.
  \<^item> \<open>CsiServe\<close>, \<open>CsiServeProps\<close>: the server (\<open>pkg/server/serve.go\<close>): its endpoint, start, services and end.
  \<^item> \<open>CsiPods\<close>, \<open>CsiCommand\<close>, \<open>CsiCommandProps\<close>: waiting for pods (\<open>k8s.go\<close>), the flags and the exit status (\<open>cmd/root.go\<close>).
  \<^item> \<open>Coschedule\<close>, \<open>CoscheduleProps\<close>: the plugin (\<open>plugins.go\<close>, \<open>core.go\<close>), its caches (locale
    \<open>ttl_cache\<close>, interpreted on go-cache) and its properties.
  \<^item> \<open>Webhooks\<close>, \<open>DevicePlugin\<close>, \<open>WebhookProps\<close>: the webhooks, the device plugin, their properties.
  \<^item> \<open>GoNet\<close>: addresses and networks of package \<open>net\<close>, their texts, and containment by prefix.
  \<^item> \<open>CniIptables\<close>, \<open>CniFirewall\<close>, \<open>CniFirewallProps\<close>: \<open>pkg/utils/network/iptables.go\<close>; rulesets and
    what \<open>iptables-restore\<close> does to them (\<open>ipt_behaves\<close>); set-up, repair and tear-down of rules.
  \<^item> \<open>CniRules\<close>, \<open>CniManager\<close>, \<open>CniManagerProps\<close>: the rules (\<open>rules.go\<close>) and their verdict on a
    packet, the manager (\<open>iptmanager.go\<close>, \<open>cidr.go\<close>), its start, restart and clean-up.
  \<^item> \<open>CniNft\<close>, \<open>CniNftProps\<close>: the same with nftables (\<open>nftmanager.go\<close>).
  \<^item> \<open>CniFiles\<close>, \<open>CniPlugin\<close>, \<open>CniPluginProps\<close>: the subnet file, the plugin's ADD and DEL.
  \<^item> \<open>CniDevices\<close>, \<open>CniDevicesProps\<close>: links, addresses, neighbours, routes (\<open>vxlan.go\<close>, \<open>iface.go\<close>).
  \<^item> \<open>CniNodes\<close>, \<open>CniNodesProps\<close>: leases, annotations and events (\<open>kube.go\<close>, the backends' handlers).
  \<^item> \<open>CniDaemon\<close>, \<open>CniWireguard\<close>, \<open>CniDaemonProps\<close>: configuration and start of the daemon, the
    wireguard backend, the choice of the interface and the peers of the device.
  \<^item> \<open>CniEvents\<close>, \<open>CniEventsProps\<close>: the way of an event from the informer through \<open>WatchLeases\<close> to the loop of a backend, a step
    relation of the goroutines with its runs \<open>pipe_reach\<close>; order, delivery, and the start on a large cluster
    (the wait for the informer follows the vendored \<open>loop.go\<close>).
  \<^item> \<open>CniCluster\<close>: these goroutines, the handler and the device together: the tables of the kernel follow the cluster, the
    abstract map of nodes that the informer has reported, as long as nodes keep what they publish (\<open>all_well\<close>).
  \<^item> \<open>CniCommand\<close>: the process of the daemon (\<open>cmd/root.go\<close>): its goroutines, signals and end.
  \<^item> \<open>ControllerQueue\<close>, \<open>ControllerQueueProps\<close>: the work queue of the controllers (from the vendored
    \<open>client-go\<close>, whose code they rest on), its runs \<open>wq_reach\<close> in any interleaving of workers and events, and the
    count of the retries (locale \<open>retry_count\<close>, interpreted on the rate limiter).
  \<^item> \<open>SimpleControllers\<close>, \<open>SimpleJobs\<close>, \<open>SimpleControllersProps\<close>: the event handlers, the workers and the business logic of
    \<open>pkg/simplecontroller/controller\<close>, the reconcilers on controller-runtime and \<open>pkg/utils/meta.go\<close>.
  \<^item> \<open>ControllerApp\<close>: the life of a controller (\<open>Run\<close>) around its queue, with workers that look at the stop channel before they begin, and the start of the process (\<open>app.go\<close>).
  \<^item> \<open>ControllerUtils\<close>: \<open>builder.go\<close> and \<open>kube_client.go\<close> of \<open>simplecontroller\<close>.
  \<^item> \<open>FooStore\<close>, \<open>FooRest\<close>, \<open>FooProps\<close>: the file storage of \<open>simpleapiserver\<close> (\<open>file.go\<close>), the conversion,
    strategy, subresources and admission of Foo, and the storage as a map with its watchers.
  \<^item> \<open>FooServer\<close>: the start of the API server (\<open>cmd.go\<close>, \<open>apiserver.go\<close>, \<open>NewREST\<close>) and with which options it runs.
  \<^item> \<open>ExternalIps\<close>: the webhook of \<open>simplewebhook/demo2\<close> and its property.
  \<^item> \<open>Provisioner\<close>, \<open>ProvisionerProps\<close>: the templates, the pods and the waiting of \<open>simpleprovisioner\<close> and \<open>simplecmd\<close>.
  \<^item> \<open>RestMapper\<close>: the arguments and calls of \<open>clientgodemo/restmapper\<close>.
  \<^item> \<open>PluginLoop\<close>: the loop of \<open>cmd/app/core.go\<close> of the device plugin as a step relation.

  \<^bold>\<open>What is shown.\<close> For the driver: in every run identifiers stay unique and volumes keep their life cycle (staged at one path at most, only while attached
  where the configuration asks for it, and published only while staged unless requests are ephemeral); the stored text decodes to the state and a restart recovers it; the store refines a
  finite map; creation respects capacity, is idempotent and stores what was asked for; deletion,
  attaching, expansion, staging and publishing do what their callers rely on; the pages of
  ListSnapshots are complete; group snapshots are deleted with their members; a server that starts continues the run
  before it. For the plugin: the
  gang condition of Permit, the rejections of PostFilter and the back-off. For the webhooks: which
  services are admitted and what the patch says. For the device plugin: the allocation. For the
  CNI daemon and plugin: where the traffic rules stand after set-up and repair and what they do
  to a packet, that tear-down and the removal of peers undo what was set up, that a peer is
  configured from exactly what its node published, that the plugin reads from the subnet file
  what the daemon wrote, that DEL gets the configuration of ADD, that the events of nodes reach the backend in order, and that
  the entries of the kernel come to be those of the nodes of the cluster. For the controllers: the invariant of the
  work queue in every interleaving, that an added key is taken, that a key that fails is tried six times
  and no more, that all work ends, also when a controller is stopped whose worker has begun, and what a reconciliation of a SimpleJob leaves. For the API server: that the file
  storage refines a map for the verbs on one object, what a change does to the watchers, and how the server ends, by what is enabled and what can be configured. For demo2: which
  addresses of either family are admitted, for any texts. For the provisioner: what provisioning does in every case, up to the request to
  delete its pod. For the restart loop: which events of the file system it
  answers. A last
  group states behaviour that departs from the intention of the code, such as the loss of the
  other volumes and of the snapshots after one failed reload.

  \<^bold>\<open>Bounds.\<close> \<open>job_poll\<close> recurses over the ten rounds of the code. The parser \<open>pval\<close> has fuel, and
  \<open>json_parse\<close> gives it the length of the text, which \<open>json_parse_text\<close> shows to be enough for
  every text that was written. Following the pages of \<open>ListSnapshots\<close> has one step of fuel more
  than there are snapshots, which the property shows to be enough. \<open>wait_loop\<close> has the 120 looks of the code at the
  helper pod, and the retries on a conflict its five steps. Go maps that are iterated
  (the capacities, labels) are association lists in the order of the iteration.

  \<^bold>\<open>Not modelled.\<close> Log output and metrics; the \<open>main\<close> functions, which only call what is modelled; the command lines other than that of
  the driver; the library of the leader election; the reconciler of the App resource, whose body is the generated stub; the metrics
  and client-go demos; generated clients, deep copies and OpenAPI
  tables; vendored code, the work queue and the parsing of resource names apart. The messages of
  protobuf are records with the fields the code reads. Of delays only their order is modelled, of
  channels what their users see.
\<close>

end
